(* ===== verification/Prelude.thy ===== *)
theory Prelude
  imports Complex_Main "HOL-Library.Char_ord" "HOL-Library.Code_Target_Nat"
begin

text \<open>
  Prelude of the development: what the components share.

  \<^item> the JavaScript values the services pass around (numbers, strings, JSON metadata) and the
    standard-library operations on them (\<open>trim\<close>, \<open>toUpperCase\<close>, \<open>Number\<close>,
    \<open>Math.round\<close>, \<open>toFixed\<close>), with their lemmas;
  \<^item> the errors of the services as one datatype, with the \<open>code\<close> and \<open>status\<close> that each
    error class carries (the human-readable message is left out);
  \<^item> generic lemmas on lists of rows.
\<close>

section \<open>Collections of facts\<close>

named_theorems grid_intros \<open>closure of the seven-decimal grid\<close>
named_theorems tx_simps \<open>running transaction statements\<close>
named_theorems act_simps \<open>running service code\<close>

section \<open>JavaScript numbers\<close>

text \<open>
  A finite JavaScript number is an exact rational: the model has no binary rounding error. The
  services round to seven decimals after every operation, and the columns are
  \<open>NUMERIC(28,7)\<close>, so the values that reach the database are on the seven-decimal grid.
\<close>

datatype js_num = Fin rat | NaN | Infinite bool

datatype js_raw = RNum js_num | RStr string | RBig int | RUndef

definition math_round :: "rat \<Rightarrow> int" where
  "math_round x = \<lfloor>x + 1 / 2\<rfloor>"

definition round7 :: "rat \<Rightarrow> rat" where
  "round7 x = of_int (math_round (x * 10000000)) / 10000000"

text \<open>PostgreSQL stores a number in a \<open>NUMERIC(28,7)\<close> column rounded half away from zero.\<close>

definition numeric7 :: "rat \<Rightarrow> rat" where
  "numeric7 x = (if 0 \<le> x then round7 x else - round7 (- x))"

definition on_grid :: "rat \<Rightarrow> bool" where
  "on_grid x \<longleftrightarrow> of_int \<lfloor>x * 10000000\<rfloor> = x * 10000000"

lemma on_grid_iff: "on_grid x \<longleftrightarrow> (\<exists>k :: int. x = of_int k / 10000000)"
proof
  assume "on_grid x"
  then have "x = of_int \<lfloor>x * 10000000\<rfloor> / 10000000"
    unfolding on_grid_def by linarith
  then show "\<exists>k :: int. x = of_int k / 10000000" by blast
next
  assume "\<exists>k :: int. x = of_int k / 10000000"
  then obtain k :: int where "x * 10000000 = of_int k" by auto
  then show "on_grid x" by (simp add: on_grid_def)
qed

lemma on_grid_of_int [grid_intros, simp]: "on_grid (of_int k / 10000000)"
  by (auto simp: on_grid_iff)

lemma on_grid_0 [grid_intros, simp]: "on_grid 0"
  by (simp add: on_grid_def)

lemma on_grid_add [grid_intros, simp]: "on_grid x \<Longrightarrow> on_grid y \<Longrightarrow> on_grid (x + y)"
  by (auto simp: on_grid_iff simp flip: add_divide_distrib of_int_add)

lemma on_grid_uminus [grid_intros, simp]: "on_grid x \<Longrightarrow> on_grid (- x)"
  by (auto simp: on_grid_iff simp flip: of_int_minus minus_divide_left)

lemma on_grid_diff [grid_intros, simp]: "on_grid x \<Longrightarrow> on_grid y \<Longrightarrow> on_grid (x - y)"
  using on_grid_add [of x "- y"] by simp

lemma math_round_of_int [simp]: "math_round (of_int k) = k"
  by (simp add: math_round_def floor_eq_iff)

lemma on_grid_round7 [grid_intros, simp]: "on_grid (round7 x)"
  by (simp add: round7_def)

lemma round7_grid [simp]: "on_grid x \<Longrightarrow> round7 x = x"
  by (auto simp: on_grid_iff round7_def)

lemma numeric7_grid [simp]: "on_grid x \<Longrightarrow> numeric7 x = x"
  by (simp add: numeric7_def)

lemma on_grid_numeric7 [grid_intros, simp]: "on_grid (numeric7 x)"
  by (simp add: numeric7_def)

lemma round7_nonneg: "0 \<le> x \<Longrightarrow> 0 \<le> round7 x"
  by (simp add: round7_def math_round_def)

lemma round7_pos_iff: "0 < round7 x \<longleftrightarrow> 1 / 20000000 \<le> x"
proof -
  have "0 < round7 x \<longleftrightarrow> 0 < math_round (x * 10000000)"
    by (simp add: round7_def)
  also have "\<dots> \<longleftrightarrow> 1 \<le> x * 10000000 + 1 / 2"
    by (simp add: math_round_def zero_less_floor)
  also have "\<dots> \<longleftrightarrow> 1 / 20000000 \<le> x" by linarith
  finally show ?thesis .
qed

lemma round7_error: "\<bar>round7 x - x\<bar> \<le> 1 / 20000000"
proof -
  have "of_int (math_round (x * 10000000)) \<le> x * 10000000 + 1 / 2"
    unfolding math_round_def by (rule of_int_floor_le)
  moreover have "x * 10000000 + 1 / 2 < of_int (math_round (x * 10000000)) + 1"
    unfolding math_round_def by linarith
  ultimately have "\<bar>of_int (math_round (x * 10000000)) - x * 10000000\<bar> \<le> 1 / 2"
    by linarith
  then show ?thesis by (auto simp: round7_def abs_le_iff field_simps)
qed

section \<open>JavaScript strings\<close>

text \<open>
  A string is the list of its character codes. \<open>trim\<close> strips the white space of
  ECMAScript that fits one byte; the case conversions act on the ASCII letters.
\<close>

definition is_ws :: "char \<Rightarrow> bool" where
  "is_ws c \<longleftrightarrow> of_char c \<in> {9, 10, 11, 12, 13, 32, 160 :: nat}"

definition trim :: "string \<Rightarrow> string" where
  "trim s = rev (dropWhile is_ws (rev (dropWhile is_ws s)))"

definition upper_char :: "char \<Rightarrow> char" where
  "upper_char c = (let n = of_char c :: nat in if 97 \<le> n \<and> n \<le> 122 then char_of (n - 32) else c)"

definition lower_char :: "char \<Rightarrow> char" where
  "lower_char c = (let n = of_char c :: nat in if 65 \<le> n \<and> n \<le> 90 then char_of (n + 32) else c)"

definition to_upper :: "string \<Rightarrow> string" where
  "to_upper s = map upper_char s"

definition to_lower :: "string \<Rightarrow> string" where
  "to_lower s = map lower_char s"

definition starts_with :: "string \<Rightarrow> string \<Rightarrow> bool" where
  "starts_with s p \<longleftrightarrow> take (length p) s = p"

definition ends_with :: "string \<Rightarrow> string \<Rightarrow> bool" where
  "ends_with s p \<longleftrightarrow> starts_with (rev s) (rev p)"

fun str_includes :: "string \<Rightarrow> string \<Rightarrow> bool" where
  "str_includes [] p \<longleftrightarrow> p = []"
| "str_includes (c # s) p \<longleftrightarrow> starts_with (c # s) p \<or> str_includes s p"

text \<open>\<open>x || d\<close> on an optional string: the empty string is falsy.\<close>

definition or_else :: "string option \<Rightarrow> string option \<Rightarrow> string option" where
  "or_else x d = (case x of Some s \<Rightarrow> if s = [] then d else x | None \<Rightarrow> d)"

definition or_str :: "string option \<Rightarrow> string \<Rightarrow> string" where
  "or_str x d = (case or_else x None of Some s \<Rightarrow> s | None \<Rightarrow> d)"

text \<open>\<open>process.env\<close>, and the flags read from it.\<close>

type_synonym process_env = "string \<Rightarrow> string option"

definition env_str :: "process_env \<Rightarrow> string \<Rightarrow> string" where
  "env_str penv name = or_str (penv name) []"

definition replace_char :: "char \<Rightarrow> char \<Rightarrow> string \<Rightarrow> string" where
  "replace_char a b s = map (\<lambda>c. if c = a then b else c) s"

lemma or_str_simps [simp]:
  "or_str None d = d" "or_str (Some []) d = d" "s \<noteq> [] \<Longrightarrow> or_str (Some s) d = s"
  by (auto simp: or_str_def or_else_def)

lemma dropWhile_no_head: "xs = [] \<or> \<not> P (hd xs) \<Longrightarrow> dropWhile P xs = xs"
  by (cases xs) auto

lemma trim_id:
  assumes "s \<noteq> []" and "\<not> is_ws (hd s)" and "\<not> is_ws (last s)"
  shows "trim s = s"
  using assms by (simp add: trim_def dropWhile_no_head hd_rev)

subsection \<open>Decimal digits\<close>

definition is_digit :: "char \<Rightarrow> bool" where
  "is_digit c \<longleftrightarrow> 48 \<le> (of_char c :: nat) \<and> (of_char c :: nat) \<le> 57"

definition digit_val :: "char \<Rightarrow> nat" where
  "digit_val c = of_char c - 48"

definition digit_char :: "nat \<Rightarrow> char" where
  "digit_char d = char_of (48 + d)"

definition nat_of_digits :: "string \<Rightarrow> nat" where
  "nat_of_digits s = foldl (\<lambda>n c. 10 * n + digit_val c) 0 s"

fun show_nat :: "nat \<Rightarrow> string" where
  "show_nat n = (if n < 10 then [digit_char n] else show_nat (n div 10) @ [digit_char (n mod 10)])"

declare show_nat.simps [simp del]

lemma of_char_digit_char [simp]: "d < 10 \<Longrightarrow> (of_char (digit_char d) :: nat) = 48 + d"
  by (simp add: digit_char_def)

lemma digit_val_char [simp]: "d < 10 \<Longrightarrow> digit_val (digit_char d) = d"
  by (simp add: digit_val_def)

lemma is_digit_char [simp]: "d < 10 \<Longrightarrow> is_digit (digit_char d)"
  by (simp add: is_digit_def)

lemma digit_val_less [simp]: "is_digit c \<Longrightarrow> digit_val c < 10"
  by (auto simp: is_digit_def digit_val_def)

lemma is_digit_not_ws: "is_digit c \<Longrightarrow> \<not> is_ws c"
  by (auto simp: is_digit_def is_ws_def)

lemma is_digit_not_special [simp]:
  "is_digit c \<Longrightarrow> c \<noteq> CHR ''-''" "is_digit c \<Longrightarrow> c \<noteq> CHR ''.''" "is_digit c \<Longrightarrow> c \<noteq> CHR ''+''"
  by (auto simp: is_digit_def)

lemma nat_of_digits_Nil [simp]: "nat_of_digits [] = 0"
  by (simp add: nat_of_digits_def)

lemma nat_of_digits_snoc [simp]: "nat_of_digits (s @ [c]) = 10 * nat_of_digits s + digit_val c"
  by (simp add: nat_of_digits_def)

lemma nat_of_digits_append: "nat_of_digits (s @ t) = nat_of_digits s * 10 ^ length t + nat_of_digits t"
proof (induction t rule: rev_induct)
  case (snoc c t)
  then show ?case by (simp flip: append_assoc)
qed simp

lemma nat_of_digits_replicate_0 [simp]: "nat_of_digits (replicate n CHR ''0'') = 0"
  by (induction n) (auto simp: nat_of_digits_def digit_val_def)

lemma show_nat_digits: "\<forall>c \<in> set (show_nat n). is_digit c"
proof (induction n rule: show_nat.induct)
  case (1 n)
  then show ?case by (subst show_nat.simps) auto
qed

lemma show_nat_nonempty [simp]: "show_nat n \<noteq> []"
  by (subst show_nat.simps) simp

lemma nat_of_digits_show [simp]: "nat_of_digits (show_nat n) = n"
proof (induction n rule: show_nat.induct)
  case (1 n)
  then show ?case
    by (subst show_nat.simps) (auto simp: nat_of_digits_def)
qed

lemma show_nat_inject [simp]: "show_nat m = show_nat n \<longleftrightarrow> m = n"
  by (metis nat_of_digits_show)

lemma length_show_nat: "n < 10 ^ k \<Longrightarrow> 0 < k \<Longrightarrow> length (show_nat n) \<le> k"
proof (induction n arbitrary: k rule: show_nat.induct)
  case (1 n)
  show ?case
  proof (cases "n < 10")
    case True
    with "1.prems" show ?thesis by (subst show_nat.simps) simp
  next
    case False
    then obtain j where k: "k = Suc j" "0 < j"
      using "1.prems" by (cases k; cases "k - 1") auto
    then have "n div 10 < 10 ^ j" using "1.prems" by (simp add: less_mult_imp_div_less mult.commute)
    with False k "1.IH" [of j] show ?thesis by (subst show_nat.simps) simp
  qed
qed


subsection \<open>Number(string) and toFixed(7)\<close>

text \<open>
  \<open>StringToNumber\<close> of ECMAScript on the trimmed text: empty is zero, then the radix-prefixed
  integers, \<open>Infinity\<close> and the decimal literals with an optional exponent.
\<close>

definition pow10 :: "bool \<Rightarrow> nat \<Rightarrow> rat" where
  "pow10 neg n = (if neg then 1 / 10 ^ n else 10 ^ n)"

definition parse_exponent :: "string \<Rightarrow> rat option" where
  "parse_exponent s = (case s of
     [] \<Rightarrow> Some 1
   | e # r \<Rightarrow>
       if e \<in> {CHR ''e'', CHR ''E''} then
         (let neg = (r \<noteq> [] \<and> hd r = CHR ''-'');
              ds = (if r \<noteq> [] \<and> hd r \<in> {CHR ''-'', CHR ''+''} then tl r else r)
          in if ds \<noteq> [] \<and> list_all is_digit ds then Some (pow10 neg (nat_of_digits ds)) else None)
       else None)"

definition parse_unsigned_decimal :: "string \<Rightarrow> rat option" where
  "parse_unsigned_decimal s =
    (let ip = takeWhile is_digit s; r1 = dropWhile is_digit s;
         dot = (r1 \<noteq> [] \<and> hd r1 = CHR ''.'');
         fp = (if dot then takeWhile is_digit (tl r1) else []);
         r2 = (if dot then dropWhile is_digit (tl r1) else r1)
     in if ip = [] \<and> fp = [] then None
        else (case parse_exponent r2 of
                None \<Rightarrow> None
              | Some e \<Rightarrow> Some (of_nat (nat_of_digits (ip @ fp)) / 10 ^ length fp * e)))"

text \<open>\<open>parseFloat\<close>: the longest prefix of the text that is a decimal literal.\<close>

definition signed_decimal :: "string \<Rightarrow> js_num option" where
  "signed_decimal s =
    (case s of [] \<Rightarrow> None
     | c # r \<Rightarrow>
         let neg = (c = CHR ''-''); u = (if c \<in> {CHR ''-'', CHR ''+''} then r else s)
         in if u = ''Infinity'' then Some (Infinite neg)
            else map_option (\<lambda>x. Fin (if neg then - x else x)) (parse_unsigned_decimal u))"

definition parse_float :: "string \<Rightarrow> js_num" where
  "parse_float s =
    (let t = dropWhile is_ws s; prefixes = map (\<lambda>n. take n t) (rev [0..<Suc (length t)])
     in case find (\<lambda>p. signed_decimal p \<noteq> None) prefixes of
          Some p \<Rightarrow> the (signed_decimal p) | None \<Rightarrow> NaN)"

definition radix_val :: "char \<Rightarrow> nat" where
  "radix_val c = (if is_digit c then digit_val c
     else let n = of_char (lower_char c) :: nat in if 97 \<le> n \<and> n \<le> 122 then n - 87 else 36)"

definition parse_radix :: "nat \<Rightarrow> string \<Rightarrow> js_num" where
  "parse_radix b ds = (if ds \<noteq> [] \<and> list_all (\<lambda>c. radix_val c < b) ds
     then Fin (of_nat (foldl (\<lambda>n c. b * n + radix_val c) 0 ds)) else NaN)"

definition js_Number_trimmed :: "string \<Rightarrow> js_num" where
  "js_Number_trimmed s =
    (let pre = to_lower (take 2 s) in
     if s = [] then Fin 0
     else if pre = ''0x'' then parse_radix 16 (drop 2 s)
     else if pre = ''0o'' then parse_radix 8 (drop 2 s)
     else if pre = ''0b'' then parse_radix 2 (drop 2 s)
     else
       let neg = (hd s = CHR ''-'');
           u = (if hd s \<in> {CHR ''-'', CHR ''+''} then tl s else s)
       in if u = ''Infinity'' then Infinite neg
          else (case parse_unsigned_decimal u of
                  None \<Rightarrow> NaN
                | Some x \<Rightarrow> Fin (if neg then - x else x)))"

definition js_Number_string :: "string \<Rightarrow> js_num" where
  "js_Number_string raw = js_Number_trimmed (trim raw)"

fun js_Number :: "js_raw \<Rightarrow> js_num" where
  "js_Number (RNum n) = n"
| "js_Number (RStr s) = js_Number_string s"
| "js_Number (RBig k) = Fin (of_int k)"
| "js_Number RUndef = NaN"

lemmas js_Number_string_code [code] = js_Number_string_def [where raw = "[]"] js_Number_string_def [where raw = "c # s"] for c s

definition pad7 :: "nat \<Rightarrow> string" where
  "pad7 n = (let s = show_nat n in replicate (7 - length s) CHR ''0'' @ s)"

text \<open>
  \<open>toFixed(7)\<close> of a finite number below \<open>10^21\<close> in absolute value; above, it is the exponent
  form of \<open>String(x)\<close>, which the callers reject, here the text \<open>e+\<close>.
\<close>

definition to_fixed7 :: "rat \<Rightarrow> string" where
  "to_fixed7 x = (if 1000000000000000000000 \<le> \<bar>x\<bar> then ''e+''
     else let k = nat (math_round (\<bar>x\<bar> * 10000000)) in
       (if x < 0 then ''-'' else []) @ show_nat (k div 10000000) @ ''.'' @ pad7 (k mod 10000000))"

lemma takeWhile_digits_append:
  "\<forall>c \<in> set ds. is_digit c \<Longrightarrow> r = [] \<or> \<not> is_digit (hd r) \<Longrightarrow> takeWhile is_digit (ds @ r) = ds"
  by (cases r) (auto simp: takeWhile_append2)

lemma dropWhile_digits_append:
  "\<forall>c \<in> set ds. is_digit c \<Longrightarrow> r = [] \<or> \<not> is_digit (hd r) \<Longrightarrow> dropWhile is_digit (ds @ r) = r"
  by (cases r) (auto simp: dropWhile_append2)

lemma takeWhile_all_digits [simp]: "\<forall>c \<in> set ds. is_digit c \<Longrightarrow> takeWhile is_digit ds = ds"
  by (simp add: takeWhile_eq_all_conv)

lemma dropWhile_all_digits [simp]: "\<forall>c \<in> set ds. is_digit c \<Longrightarrow> dropWhile is_digit ds = []"
  by (simp add: dropWhile_eq_Nil_conv)

lemma parse_unsigned_digits:
  assumes "w \<noteq> []" and w: "\<forall>c \<in> set w. is_digit c" and f: "\<forall>c \<in> set f. is_digit c"
  shows "parse_unsigned_decimal (w @ (if f \<noteq> [] then ''.'' @ f else []))
    = Some (of_nat (nat_of_digits (w @ f)) / 10 ^ length f)"
proof (cases "f = []")
  case True
  then show ?thesis using assms
    by (simp add: parse_unsigned_decimal_def Let_def parse_exponent_def)
next
  case False
  have [simp]: "\<not> is_digit CHR ''.''" by (simp add: is_digit_def)
  have "takeWhile is_digit (w @ CHR ''.'' # f) = w" "dropWhile is_digit (w @ CHR ''.'' # f) = CHR ''.'' # f"
    using w by (simp_all add: takeWhile_digits_append dropWhile_digits_append)
  with False assms show ?thesis
    by (simp add: parse_unsigned_decimal_def Let_def parse_exponent_def)
qed

lemma pad7_digits: "\<forall>c \<in> set (pad7 n). is_digit c"
  using show_nat_digits [of n] by (auto simp: pad7_def Let_def is_digit_def)

lemma length_pad7 [simp]: "n < 10000000 \<Longrightarrow> length (pad7 n) = 7"
  using length_show_nat [of n 7] by (simp add: pad7_def Let_def)

lemma nat_of_digits_pad7 [simp]: "nat_of_digits (pad7 n) = n"
  by (simp add: pad7_def Let_def nat_of_digits_append)

text \<open>Text functions are evaluated on explicit text only.\<close>

lemmas trim_code [code] = trim_def [where s = "[]"] trim_def [where s = "c # s"] for c s

section \<open>Errors\<close>

text \<open>
  The error classes of the services carry a \<open>code\<close> and an HTTP \<open>status\<close>. The database raises
  violations of its unique, check and foreign-key constraints (\<open>23505\<close>, \<open>23514\<close>,
  \<open>23503\<close>), and the driver's \<open>t.one\<close> raises when no row matches.
\<close>

datatype js_error =
    InfraLedgerError string nat
  | InfraMoneyError string nat
  | InfraFeeError string nat
  | InfraTransferError string nat
  | InfraLifecycleError string nat
  | InfraStellarFundingError string nat
  | InfraFiatWithdrawalError string nat
  | InfraStellarAccountError string nat
  | StellarCustodyError string nat
  | StellarAdapterError string string
  | YellowCardAuthError nat
  | InfraFeePayerError string nat
  | InfraSettlementError string nat
  | InfraRecipientError string nat
  | InfraStellarDepositError string nat
  | InfraTreasuryError string nat
  | InfraBulkError string nat
  | InfraReconciliationError string nat
  | InfraRailError nat "string option"
  | InfraIdempotencyError "string option"
  | InfraBillError string nat "string option"
  | UniqueViolation
  | CheckViolation
  | NumericOverflow
  | ForeignKeyViolation
  | NoData
  | JsError string

fun is_InfraLedgerError :: "js_error \<Rightarrow> bool" where
  "is_InfraLedgerError (InfraLedgerError _ _) = True"
| "is_InfraLedgerError _ = False"

section \<open>JSON and table rows\<close>

datatype json =
    JNull | JBool bool | JNum rat | JStr string | JArr "json list" | JObj "(string \<times> json) list"

text \<open>A \<open>metadata\<close> column: \<open>COALESCE(metadata, '{}') || patch\<close> is map override.\<close>

type_synonym jmap = "string \<rightharpoonup> json"

text \<open>\<open>x || null\<close> on a JSON value and on an optional string\<close>

definition json_truthy :: "json option \<Rightarrow> bool" where
  "json_truthy j = (case j of None \<Rightarrow> False | Some JNull \<Rightarrow> False | Some (JBool b) \<Rightarrow> b
     | Some (JNum x) \<Rightarrow> x \<noteq> 0 | Some (JStr s) \<Rightarrow> s \<noteq> [] | Some _ \<Rightarrow> True)"

definition json_or_null :: "json option \<Rightarrow> json" where
  "json_or_null j = (case j of Some v \<Rightarrow> if json_truthy j then v else JNull | None \<Rightarrow> JNull)"

definition str_or_null :: "string option \<Rightarrow> json" where
  "str_or_null x = (case or_else x None of Some s \<Rightarrow> JStr s | None \<Rightarrow> JNull)"

text \<open>\<open>UPDATE ... WHERE id = $1\<close> on a table of rows.\<close>

definition update_rows :: "('r \<Rightarrow> 'k) \<Rightarrow> 'k \<Rightarrow> ('r \<Rightarrow> 'r) \<Rightarrow> 'r list \<Rightarrow> 'r list" where
  "update_rows key k f rows = map (\<lambda>r. if key r = k then f r else r) rows"

text \<open>\<open>oneOrNone ... WHERE key = $1\<close>; tables list the newest row first.\<close>

definition find_row :: "('r \<Rightarrow> 'k) \<Rightarrow> 'k \<Rightarrow> 'r list \<Rightarrow> 'r option" where
  "find_row key k rows = find (\<lambda>r. key r = k) rows"

lemma find_row_Some: "find_row key k rows = Some r \<Longrightarrow> r \<in> set rows \<and> key r = k"
  by (auto simp: find_row_def find_Some_iff)

lemma find_row_None: "find_row key k rows = None \<longleftrightarrow> k \<notin> key ` set rows"
  by (auto simp: find_row_def find_None_iff)

lemma find_row_mem: "distinct (map key rows) \<Longrightarrow> r \<in> set rows \<Longrightarrow> find_row key (key r) rows = Some r"
  by (induction rows) (auto simp: find_row_def image_iff)

lemma find_row_Cons [simp]:
  "find_row key k (r # rows) = (if key r = k then Some r else find_row key k rows)"
  "find_row key k [] = None"
  by (simp_all add: find_row_def)

lemma map_update_rows:
  assumes "\<And>r. g (f r) = g r"
  shows "map g (update_rows key k f rows) = map g rows"
  using assms by (simp add: update_rows_def)

lemma set_update_rows:
  "x \<in> set (update_rows key k f rows) \<longleftrightarrow>
     (\<exists>r \<in> set rows. x = (if key r = k then f r else r))"
  unfolding update_rows_def set_map by (rule image_iff)

lemma find_row_update_rows:
  assumes "\<And>r. key (f r) = key r"
  shows "find_row key k (update_rows key k f rows) = map_option f (find_row key k rows)"
  using assms by (induction rows) (auto simp: update_rows_def find_row_def)

lemma find_row_update_rows_other:
  assumes "\<And>r. key (f r) = key r" and "k' \<noteq> k"
  shows "find_row key k' (update_rows key k f rows) = find_row key k' rows"
  using assms by (induction rows) (auto simp: update_rows_def find_row_def)

lemma update_rows_twice:
  assumes "\<And>r. key (g r) = key r" and "\<And>r. f (g r) = f r"
  shows "update_rows key k f (update_rows key k g rows) = update_rows key k f rows"
  using assms by (simp add: update_rows_def)

lemma sum_list_update_rows:
  fixes v :: "'r \<Rightarrow> 'b :: ab_group_add"
  assumes "distinct (map key rows)" and "find_row key k rows = Some r"
  shows "sum_list (map v (update_rows key k f rows)) = sum_list (map v rows) - v r + v (f r)"
  using assms
proof (induction rows)
  case (Cons x rows)
  show ?case
  proof (cases "key x = k")
    case True
    with Cons.prems have "x = r" and "\<forall>y \<in> set rows. key y \<noteq> k"
      by (auto simp: image_iff)
    then have "update_rows key k f rows = rows"
      by (simp add: update_rows_def map_idI)
    with True \<open>x = r\<close> show ?thesis by (simp add: update_rows_def)
  next
    case False
    with Cons show ?thesis by (simp add: update_rows_def)
  qed
qed simp

end
