(* ===== verification/Money_Amount.thy ===== *)
theory Money_Amount
  imports Prelude
begin

text \<open>
  \<open>src/src/modules/infra/infraMoneyAmount.ts\<close>: USDC and XLM amounts as integer minor units
  (\<open>bigint\<close>, unbounded), parsed from and printed to decimal text with at most seven decimals.
  The lemmas show that printing and parsing are inverse, that printing is canonical, which inputs
  are rejected, and that the ledger's \<open>Number(...)\<close> reads the printed text without loss.
\<close>

section \<open>Parsing and printing\<close>

definition USDC_SCALE :: int where
  "USDC_SCALE = 10000000"

definition XLM_SCALE :: int where
  "XLM_SCALE = 10000000"

definition STELLAR_BASE_FEE_STROOPS :: int where
  "STELLAR_BASE_FEE_STROOPS = 100"

text \<open>The text that is matched: \<open>toFixed(7)\<close> of a finite number, else \<open>String(raw ?? '').trim()\<close>.\<close>

fun amount_text :: "js_raw \<Rightarrow> string" where
  "amount_text (RNum (Fin x)) = to_fixed7 x"
| "amount_text (RNum NaN) = ''NaN''"
| "amount_text (RNum (Infinite neg)) = (if neg then ''-Infinity'' else ''Infinity'')"
| "amount_text (RStr s) = trim s"
| "amount_text (RBig k) = (if k < 0 then ''-'' else []) @ show_nat (nat \<bar>k\<bar>)"
| "amount_text RUndef = []"

text \<open>\<open>/^-?\d+(\.\d+)?$/\<close>, split into sign, whole and fraction digits.\<close>

definition decimal_unsigned :: "string \<Rightarrow> (string \<times> string) option" where
  "decimal_unsigned unsigned =
    (let wholeRaw = takeWhile is_digit unsigned; rest = dropWhile is_digit unsigned
     in if wholeRaw = [] then None
        else if rest = [] then Some (wholeRaw, [])
        else if hd rest = CHR ''.'' \<and> tl rest \<noteq> [] \<and> list_all is_digit (tl rest)
        then Some (wholeRaw, tl rest)
        else None)"

definition decimal_parts :: "string \<Rightarrow> (bool \<times> string \<times> string) option" where
  "decimal_parts text =
    (let neg = (text \<noteq> [] \<and> hd text = CHR ''-'');
         unsigned = (if neg then tl text else text)
     in map_option (Pair neg) (decimal_unsigned unsigned))"

definition parseDecimalToMinor :: "js_raw \<Rightarrow> int \<Rightarrow> js_error + int" where
  "parseDecimalToMinor raw scale =
    (case raw of
       RBig k \<Rightarrow> Inr k
     | _ \<Rightarrow>
         (case decimal_parts (amount_text raw) of
            None \<Rightarrow> Inl (InfraMoneyError ''INVALID_AMOUNT'' 400)
          | Some (neg, wholeRaw, fracRaw) \<Rightarrow>
              if 7 < length fracRaw then Inl (InfraMoneyError ''INVALID_AMOUNT'' 400)
              else
                let whole = int (nat_of_digits wholeRaw);
                    fracPadded = take 7 (fracRaw @ ''0000000'');
                    minor = whole * scale + int (nat_of_digits fracPadded)
                in Inr (if neg then - minor else minor)))"

definition parseUsdcToMinor :: "js_raw \<Rightarrow> js_error + int" where
  "parseUsdcToMinor raw = parseDecimalToMinor raw USDC_SCALE"

definition parseXlmToMinor :: "js_raw \<Rightarrow> js_error + int" where
  "parseXlmToMinor raw = parseDecimalToMinor raw XLM_SCALE"

text \<open>\<open>.replace(/0+$/, '')\<close>\<close>

definition strip_zeros :: "string \<Rightarrow> string" where
  "strip_zeros s = rev (dropWhile (\<lambda>c. c = CHR ''0'') (rev s))"

definition formatMinor :: "int \<Rightarrow> int \<Rightarrow> string" where
  "formatMinor minor scale =
    (let neg = minor < 0; absv = (if neg then - minor else minor);
         whole = absv div scale;
         frac = strip_zeros (pad7 (nat (absv mod scale)))
     in (if neg then ''-'' else []) @ show_nat (nat whole) @ (if frac \<noteq> [] then ''.'' @ frac else []))"

definition formatUsdc :: "int \<Rightarrow> string" where
  "formatUsdc minor = formatMinor minor USDC_SCALE"

definition formatXlm :: "int \<Rightarrow> string" where
  "formatXlm minor = formatMinor minor XLM_SCALE"

definition addMinor :: "int \<Rightarrow> int \<Rightarrow> int" where
  "addMinor a b = a + b"

definition assertPositiveMinor :: "int \<Rightarrow> js_error + int" where
  "assertPositiveMinor minor =
    (if minor \<le> 0 then Inl (InfraMoneyError ''INVALID_AMOUNT'' 400) else Inr minor)"

definition usdcMinorToLedgerInput :: "int \<Rightarrow> string" where
  "usdcMinorToLedgerInput minor = formatUsdc minor"

definition stellarBaseFeeXlm :: "int \<times> string" where
  "stellarBaseFeeXlm = (STELLAR_BASE_FEE_STROOPS, formatXlm STELLAR_BASE_FEE_STROOPS)"

section \<open>Shape of the printed text\<close>

lemma strip_zeros_split: "\<exists>k. s = strip_zeros s @ replicate k CHR ''0''"
proof -
  have "rev s = takeWhile (\<lambda>c. c = CHR ''0'') (rev s) @ dropWhile (\<lambda>c. c = CHR ''0'') (rev s)"
    by simp
  moreover have "takeWhile (\<lambda>c. c = CHR ''0'') (rev s)
      = replicate (length (takeWhile (\<lambda>c. c = CHR ''0'') (rev s))) CHR ''0''"
    by (rule replicate_length_same [symmetric]) (auto dest: set_takeWhileD)
  ultimately show ?thesis
    unfolding strip_zeros_def by (metis rev_append rev_replicate rev_rev_ident)
qed

lemma strip_zeros_pad:
  assumes "length s = 7"
  shows "take 7 (strip_zeros s @ ''0000000'') = s"
proof -
  obtain k where k: "s = strip_zeros s @ replicate k CHR ''0''"
    using strip_zeros_split by blast
  have "''0000000'' = replicate 7 CHR ''0''" by (simp add: numeral_eq_Suc)
  moreover have "k \<le> 7" and "7 - length (strip_zeros s) = k"
    using assms k by (metis length_append length_replicate le_add2, metis length_append length_replicate add_diff_cancel_left')
  moreover have "length (strip_zeros s) \<le> 7"
    using assms k by (metis length_append le_add1)
  ultimately show ?thesis using k
    by (metis append_eq_conv_conj min_absorb1 take_all take_append take_replicate)
qed

lemma strip_zeros_digits: "\<forall>c \<in> set s. is_digit c \<Longrightarrow> \<forall>c \<in> set (strip_zeros s). is_digit c"
  by (auto simp: strip_zeros_def dest: set_dropWhileD)

lemma length_strip_zeros: "length (strip_zeros s) \<le> length s"
  by (metis length_append le_add1 strip_zeros_split)

lemma strip_zeros_last: "strip_zeros s \<noteq> [] \<Longrightarrow> last (strip_zeros s) \<noteq> CHR ''0''"
  using hd_dropWhile [of "\<lambda>c. c = CHR ''0''" "rev s"] by (simp add: strip_zeros_def last_rev)

text \<open>The three parts of the text printed for \<open>minor\<close>.\<close>

definition fmt_whole :: "int \<Rightarrow> string" where
  "fmt_whole minor = show_nat (nat (\<bar>minor\<bar> div 10000000))"

definition fmt_frac :: "int \<Rightarrow> string" where
  "fmt_frac minor = strip_zeros (pad7 (nat (\<bar>minor\<bar> mod 10000000)))"

lemma formatUsdc_parts:
  "formatUsdc minor = (if minor < 0 then ''-'' else []) @ fmt_whole minor
     @ (if fmt_frac minor \<noteq> [] then ''.'' @ fmt_frac minor else [])"
  by (simp add: formatUsdc_def formatMinor_def USDC_SCALE_def fmt_whole_def fmt_frac_def Let_def)

lemma fmt_whole_digits: "\<forall>c \<in> set (fmt_whole minor). is_digit c"
  by (simp add: fmt_whole_def show_nat_digits)

lemma fmt_whole_nonempty [simp]: "fmt_whole minor \<noteq> []"
  by (simp add: fmt_whole_def)

lemma fmt_frac_digits: "\<forall>c \<in> set (fmt_frac minor). is_digit c"
  unfolding fmt_frac_def by (rule strip_zeros_digits) (rule pad7_digits)

lemma nat_mod_scale: "nat (\<bar>minor\<bar> mod 10000000) < 10000000"
  by simp

lemma length_fmt_frac: "length (fmt_frac minor) \<le> 7"
  unfolding fmt_frac_def
  using length_strip_zeros [of "pad7 (nat (\<bar>minor\<bar> mod 10000000))"] length_pad7 [OF nat_mod_scale]
  by metis

lemma fmt_frac_pad: "nat_of_digits (take 7 (fmt_frac minor @ ''0000000'')) = nat (\<bar>minor\<bar> mod 10000000)"
  unfolding fmt_frac_def by (simp only: strip_zeros_pad length_pad7 [OF nat_mod_scale] nat_of_digits_pad7)


lemma decimal_unsigned_of:
  assumes "w \<noteq> []" and w: "\<forall>c \<in> set w. is_digit c" and f: "\<forall>c \<in> set f. is_digit c"
  shows "decimal_unsigned (w @ (if f \<noteq> [] then ''.'' @ f else [])) = Some (w, f)"
proof -
  have [simp]: "\<not> is_digit CHR ''.''" by (simp add: is_digit_def)
  have "takeWhile is_digit (w @ CHR ''.'' # f) = w" "dropWhile is_digit (w @ CHR ''.'' # f) = CHR ''.'' # f"
    using w by (simp_all add: takeWhile_digits_append dropWhile_digits_append)
  with assms show ?thesis by (simp add: decimal_unsigned_def Let_def list_all_iff)
qed

lemma decimal_unsigned_Some:
  assumes "decimal_unsigned u = Some (w, f)"
  shows "u = w @ (if f \<noteq> [] then ''.'' @ f else [])"
    and "w \<noteq> []" and "\<forall>c \<in> set w. is_digit c" and "\<forall>c \<in> set f. is_digit c"
proof -
  have w: "w = takeWhile is_digit u" "w \<noteq> []"
    using assms by (simp_all add: decimal_unsigned_def Let_def split: if_splits)
  have "u = w @ dropWhile is_digit u" using w by simp
  moreover have "dropWhile is_digit u = (if f \<noteq> [] then ''.'' @ f else []) \<and> list_all is_digit f"
    using assms by (cases "dropWhile is_digit u") (simp_all add: decimal_unsigned_def Let_def split: if_splits)
  ultimately show "u = w @ (if f \<noteq> [] then ''.'' @ f else [])" "\<forall>c \<in> set f. is_digit c"
    by (simp_all add: list_all_iff)
  show "w \<noteq> []" by fact
  show "\<forall>c \<in> set w. is_digit c" using w(1) by (metis set_takeWhileD)
qed

lemma decimal_parts_of:
  assumes "w \<noteq> []" and "\<forall>c \<in> set w. is_digit c" and "\<forall>c \<in> set f. is_digit c"
  shows "decimal_parts ((if n then ''-'' else []) @ w @ (if f \<noteq> [] then ''.'' @ f else []))
    = Some (n, w, f)"
proof -
  have "hd (w @ (if f \<noteq> [] then ''.'' @ f else [])) \<noteq> CHR ''-''"
    using assms by (simp add: is_digit_not_special)
  with decimal_unsigned_of [OF assms] show ?thesis
    by (cases n) (simp_all add: decimal_parts_def Let_def split del: if_split)
qed

lemma not_ws_minus [simp]: "\<not> is_ws CHR ''-''"
  by (simp add: is_ws_def)

lemma trim_formatUsdc [simp]: "trim (formatUsdc minor) = formatUsdc minor"
proof (rule trim_id)
  show "formatUsdc minor \<noteq> []" by (simp add: formatUsdc_parts)
  have "is_digit (hd (fmt_whole minor))" "is_digit (last (fmt_whole minor))"
    using fmt_whole_digits [of minor] by simp_all
  then show "\<not> is_ws (hd (formatUsdc minor))"
    by (auto simp: formatUsdc_parts hd_append is_digit_not_ws)
  have "fmt_frac minor \<noteq> [] \<Longrightarrow> is_digit (last (fmt_frac minor))"
    using fmt_frac_digits [of minor] by simp
  then show "\<not> is_ws (last (formatUsdc minor))"
    using \<open>is_digit (last (fmt_whole minor))\<close>
    by (auto simp: formatUsdc_parts is_digit_not_ws)
qed

lemma decimal_parts_formatUsdc:
  "decimal_parts (formatUsdc minor) = Some (minor < 0, fmt_whole minor, fmt_frac minor)"
  unfolding formatUsdc_parts
  by (rule decimal_parts_of) (simp_all add: fmt_whole_digits fmt_frac_digits)

lemma abs_split_scale:
  fixes m :: int
  shows "int (nat (\<bar>m\<bar> div 10000000)) * 10000000 + int (nat (\<bar>m\<bar> mod 10000000)) = \<bar>m\<bar>"
  by (simp add: pos_imp_zdiv_nonneg_iff)

lemma parse_formatUsdc: "parseUsdcToMinor (RStr (formatUsdc minor)) = Inr minor"
proof -
  have "int (nat_of_digits (fmt_whole minor)) * 10000000
      + int (nat_of_digits (take 7 (fmt_frac minor @ ''0000000''))) = \<bar>minor\<bar>"
    unfolding fmt_frac_pad fmt_whole_def nat_of_digits_show by (rule abs_split_scale)
  then show ?thesis
    using length_fmt_frac [of minor]
    by (auto simp: parseUsdcToMinor_def parseDecimalToMinor_def decimal_parts_formatUsdc
        USDC_SCALE_def Let_def)
qed

text \<open>Reading the text with \<open>Number\<close>, as the ledger does.\<close>

lemma decimal_parts_Some:
  assumes "decimal_parts text = Some (n, w, f)"
  shows "text = (if n then ''-'' else []) @ w @ (if f \<noteq> [] then ''.'' @ f else [])"
    and "w \<noteq> []" and "\<forall>c \<in> set w. is_digit c" and "\<forall>c \<in> set f. is_digit c"
proof -
  obtain u where u: "decimal_unsigned u = Some (w, f)" and t: "text = (if n then ''-'' else []) @ u"
    using assms by (cases "text") (auto simp: decimal_parts_def Let_def split: if_splits)
  note parts = decimal_unsigned_Some [OF u]
  show "text = (if n then ''-'' else []) @ w @ (if f \<noteq> [] then ''.'' @ f else [])"
    unfolding t using parts(1) by simp
  show "w \<noteq> []" "\<forall>c \<in> set w. is_digit c" "\<forall>c \<in> set f. is_digit c" using parts by auto
qed

lemma js_Number_trimmed_decimal:
  assumes u: "parse_unsigned_decimal u = Some x" and dig: "u \<noteq> []" "is_digit (hd u)"
    and nr: "\<forall>c \<in> set u. is_digit c \<or> c = CHR ''.''"
  shows "js_Number_trimmed ((if neg then ''-'' else []) @ u) = Fin (if neg then - x else x)"
proof -
  obtain c r where cr: "u = c # r" and c: "is_digit c" using dig by (cases u) auto
  have noinf: "u \<noteq> ''Infinity''" using cr c by (auto simp: is_digit_def)
  have minus: "lower_char CHR ''-'' = CHR ''-''" by (simp add: lower_char_def)
  have low: "is_digit d \<or> d = CHR ''.'' \<Longrightarrow> lower_char d = d" for d
    by (auto simp: lower_char_def is_digit_def Let_def)
  show ?thesis
  proof (cases neg)
    case True
    then show ?thesis using u noinf cr
      by (simp add: js_Number_trimmed_def Let_def to_lower_def minus)
  next
    case False
    have "to_lower (take 2 u) = take 2 u"
      unfolding to_lower_def using nr low by (intro map_idI) (blast dest: in_set_takeD)
    moreover have "take 2 u \<noteq> ''0x''" "take 2 u \<noteq> ''0o''" "take 2 u \<noteq> ''0b''"
      using nr cr by (cases r; auto simp: is_digit_def)+
    ultimately show ?thesis using u noinf dig c False
      by (simp add: js_Number_trimmed_def Let_def is_digit_not_special)
  qed
qed

lemma scale_arith:
  fixes w f l k t m :: rat
  assumes "l * k = t" and "w * t + f * k = m" and "t \<noteq> 0"
  shows "(w * l + f) / l = m / t"
proof -
  have "l \<noteq> 0" "k \<noteq> 0" using assms by auto
  then show ?thesis using assms(1) assms(2) [symmetric] by (auto simp: field_simps)
qed

lemma padded_fraction:
  assumes "length f \<le> 7"
  shows "nat_of_digits (take 7 (f @ ''0000000'')) = nat_of_digits f * 10 ^ (7 - length f)"
proof -
  have zeros: "''0000000'' = replicate 7 CHR ''0''" by (simp add: numeral_eq_Suc)
  have "take 7 (f @ ''0000000'') = f @ replicate (7 - length f) CHR ''0''"
    unfolding zeros using assms by simp
  then show ?thesis by (simp only: nat_of_digits_append length_replicate nat_of_digits_replicate_0)
qed

lemma padded_value:
  assumes "length f \<le> 7"
  shows "(of_nat (nat_of_digits (w @ f)) :: rat) / 10 ^ length f
    = of_int (int (nat_of_digits w) * 10000000 + int (nat_of_digits (take 7 (f @ ''0000000'')))) / 10000000"
proof -
  have "(10 :: rat) ^ length f * 10 ^ (7 - length f) = 10000000"
    using assms by (simp flip: power_add)
  then have "((of_nat (nat_of_digits w) :: rat) * 10 ^ length f + of_nat (nat_of_digits f)) / 10 ^ length f
    = of_int (int (nat_of_digits w) * 10000000 + int (nat_of_digits f * 10 ^ (7 - length f))) / 10000000"
    by (intro scale_arith [where k = "10 ^ (7 - length f)"]) simp_all
  then show ?thesis
    unfolding padded_fraction [OF assms] nat_of_digits_append by simp
qed

lemma parse_agrees_Number:
  assumes "parseUsdcToMinor (RStr s) = Inr m"
  shows "js_Number (RStr s) = Fin (of_int m / 10000000)"
proof -
  obtain n w f where p: "decimal_parts (trim s) = Some (n, w, f)" and len: "length f \<le> 7"
    and m: "m = (if n then - (int (nat_of_digits w) * 10000000 + int (nat_of_digits (take 7 (f @ ''0000000''))))
      else int (nat_of_digits w) * 10000000 + int (nat_of_digits (take 7 (f @ ''0000000''))))"
    using assms by (auto simp: parseUsdcToMinor_def parseDecimalToMinor_def USDC_SCALE_def Let_def
        split: option.splits if_splits)
  note parts = decimal_parts_Some [OF p]
  have num: "js_Number_trimmed (trim s) = Fin (if n then - (of_nat (nat_of_digits (w @ f)) / 10 ^ length f)
      else of_nat (nat_of_digits (w @ f)) / 10 ^ length f)"
    unfolding parts(1)
    by (rule js_Number_trimmed_decimal [OF parse_unsigned_digits])
      (use parts(2-4) in \<open>auto simp: hd_append split: if_splits\<close>)
  obtain v where v: "v = int (nat_of_digits w) * 10000000 + int (nat_of_digits (take 7 (f @ ''0000000'')))"
    by blast
  show ?thesis
    using num unfolding padded_value [OF len] m v [symmetric] js_Number.simps js_Number_string_def
    by simp
qed

lemma js_Number_formatUsdc: "js_Number (RStr (formatUsdc minor)) = Fin (of_int minor / 10000000)"
  by (rule parse_agrees_Number) (rule parse_formatUsdc)

text \<open>Numbers are read through \<open>toFixed(7)\<close>: rounded half away from zero at the seventh decimal.\<close>

lemma decimal_parts_to_fixed7:
  assumes "\<bar>x\<bar> < 1000000000000000000000"
  shows "decimal_parts (to_fixed7 x) = Some (x < 0,
    show_nat (nat (math_round (\<bar>x\<bar> * 10000000)) div 10000000),
    pad7 (nat (math_round (\<bar>x\<bar> * 10000000)) mod 10000000))"
proof -
  let ?k = "nat (math_round (\<bar>x\<bar> * 10000000))"
  have "pad7 (?k mod 10000000) \<noteq> []"
    using length_pad7 [of "?k mod 10000000"] by (metis list.size(3) mod_less_divisor zero_less_numeral zero_neq_numeral)
  then show ?thesis
    using decimal_parts_of [of "show_nat (?k div 10000000)" "pad7 (?k mod 10000000)" "x < 0"] assms
    by (simp add: to_fixed7_def Let_def show_nat_digits pad7_digits)
qed

lemma parse_number:
  assumes "\<bar>x\<bar> < 1000000000000000000000"
  shows "parseUsdcToMinor (RNum (Fin x)) =
    Inr ((if x < 0 then -1 else 1) * math_round (\<bar>x\<bar> * 10000000))"
proof -
  have "0 \<le> math_round (\<bar>x\<bar> * 10000000)" by (simp add: math_round_def)
  then obtain r where r: "math_round (\<bar>x\<bar> * 10000000) = int r" by (metis nonneg_int_cases)
  have len: "length (pad7 (r mod 10000000)) = 7" by simp
  then have frac: "take 7 (pad7 (r mod 10000000) @ ''0000000'') = pad7 (r mod 10000000)" by simp
  have "decimal_parts (amount_text (RNum (Fin x)))
      = Some (x < 0, show_nat (r div 10000000), pad7 (r mod 10000000))"
    using decimal_parts_to_fixed7 [OF assms] by (simp add: r)
  then have "parseUsdcToMinor (RNum (Fin x)) = Inr (if x < 0
      then - (int (r div 10000000) * 10000000 + int (r mod 10000000))
      else int (r div 10000000) * 10000000 + int (r mod 10000000))"
    using frac len by (simp add: parseUsdcToMinor_def parseDecimalToMinor_def USDC_SCALE_def Let_def
        del: of_nat_mod of_nat_div)
  moreover have "int (r div 10000000) * 10000000 + int (r mod 10000000) = int r"
    by (simp add: zdiv_int zmod_int)
  ultimately show ?thesis by (simp only: r) simp
qed

text \<open>Text with more than seven decimals is refused, never rounded.\<close>

lemma parse_too_precise:
  assumes "w \<noteq> []" "\<forall>c \<in> set w. is_digit c" "\<forall>c \<in> set f. is_digit c" "7 < length f"
    and "\<not> is_ws (last f)"
  shows "parseUsdcToMinor (RStr (w @ ''.'' @ f)) = Inl (InfraMoneyError ''INVALID_AMOUNT'' 400)"
proof -
  have "f \<noteq> []" using assms by auto
  have "trim (w @ ''.'' @ f) = w @ ''.'' @ f"
    using assms \<open>f \<noteq> []\<close> by (intro trim_id) (auto simp: hd_append is_digit_not_ws)
  with decimal_parts_of [of w f False] assms \<open>f \<noteq> []\<close> show ?thesis
    by (simp add: parseUsdcToMinor_def parseDecimalToMinor_def)
qed

lemma formatUsdc_inject [simp]: "formatUsdc a = formatUsdc b \<longleftrightarrow> a = b"
  by (metis parse_formatUsdc sum.inject(2))

section \<open>The decimal codec as an interface\<close>

text \<open>
  What the services rely on when they hand an amount from one to the other as text: reading back
  the printed amount returns it, and the ledger's own reading has the same value.
\<close>

locale decimal_codec =
  fixes parse :: "string \<Rightarrow> js_error + int" and print :: "int \<Rightarrow> string" and read :: "string \<Rightarrow> js_num"
  assumes parse_print: "parse (print m) = Inr m"
    and read_parse: "parse s = Inr m \<Longrightarrow> read s = Fin (of_int m / 10000000)"
begin

lemma print_inject: "print a = print b \<longleftrightarrow> a = b"
  by (metis parse_print sum.inject(2))

lemma read_print: "read (print m) = Fin (of_int m / 10000000)"
  by (rule read_parse) (rule parse_print)

lemma canonical: "parse s = Inr m \<Longrightarrow> parse (print m) = parse s \<and> read (print m) = read s"
  by (simp add: parse_print read_print read_parse)

lemma read_order: "parse s = Inr m \<Longrightarrow> parse t = Inr n \<Longrightarrow> read s = Fin x \<Longrightarrow> read t = Fin y \<Longrightarrow> m < n \<longleftrightarrow> x < y"
  by (auto dest!: read_parse)

end

interpretation usdc: decimal_codec "\<lambda>s. parseUsdcToMinor (RStr s)" formatUsdc "\<lambda>s. js_Number (RStr s)"
  by unfold_locales (rule parse_formatUsdc, erule parse_agrees_Number)

interpretation xlm: decimal_codec "\<lambda>s. parseXlmToMinor (RStr s)" formatXlm "\<lambda>s. js_Number (RStr s)"
  rewrites "(\<lambda>s. parseXlmToMinor (RStr s)) = (\<lambda>s. parseUsdcToMinor (RStr s))"
    and "formatXlm = formatUsdc"
proof -
  show p: "(\<lambda>s. parseXlmToMinor (RStr s)) = (\<lambda>s. parseUsdcToMinor (RStr s))"
    by (simp add: parseXlmToMinor_def parseUsdcToMinor_def XLM_SCALE_def USDC_SCALE_def)
  show f: "formatXlm = formatUsdc"
    by (simp add: fun_eq_iff formatXlm_def formatUsdc_def XLM_SCALE_def USDC_SCALE_def)
  show "decimal_codec (\<lambda>s. parseXlmToMinor (RStr s)) formatXlm (\<lambda>s. js_Number (RStr s))"
    unfolding p f by (rule usdc.decimal_codec_axioms)
qed

section \<open>Evaluation\<close>

text \<open>Printing is evaluated on explicit integers, reading on explicit text.\<close>

lemmas decimal_parts_code [code] = decimal_parts_def [of "[]"] decimal_parts_def [of "c # s"] for c s

lemmas formatMinor_code [code] = formatMinor_def [where minor = "0"] formatMinor_def [where minor = "Int.Pos n"]
  formatMinor_def [where minor = "Int.Neg n"] for n

end
