(* ===== verification/Database.thy ===== *)
theory Database
  imports Prelude
begin

text \<open>
  The PostgreSQL tables behind the infrastructure services, as the migrations under
  \<open>src/migrations/sqls\<close> create them: one record per row type, a table as the list of its rows with
  the newest first, and the constraints the services rely on (primary keys, unique indexes, checks
  and foreign keys) checked by the insertions and updates. Timestamps are not kept: the order of a
  table is the order of creation. The database's random identifiers are a supply: \<open>uuid_of n\<close> is
  the \<open>n\<close>-th identifier drawn. Two families of state-passing combinators run over the database:
  statements inside a transaction, where an error discards the state, and service code outside it,
  where the effects committed before an error stay.
\<close>

section \<open>Rows\<close>

datatype infra_env = Test | Live

datatype wallet_status = Active | Frozen | Closed

datatype direction = Credit | Debit

record org =
  o_id :: string
  o_slug :: string
  o_name :: string

record member =
  mb_id :: string
  mb_tag :: string
  mb_org :: "string option"
  mb_name :: "string option"
  mb_email :: "string option"
  mb_phone :: "string option"
  mb_dob :: "string option"
  mb_address :: "string option"
  mb_bvn :: "string option"
  mb_country :: "string option"

text \<open>\<open>infra_wallet_accounts\<close> (\<open>InfraWalletAccount\<close>)\<close>

record wallet =
  w_id :: string
  w_org :: string
  w_env :: infra_env
  w_asset :: string
  w_status :: wallet_status
  w_available :: rat
  w_pending :: rat
  w_locked :: rat

text \<open>\<open>infra_ledger_movements\<close> (\<open>InfraLedgerMovement\<close>)\<close>

record movement =
  m_id :: string
  m_wallet :: string
  m_org :: string
  m_env :: infra_env
  m_direction :: direction
  m_amount :: rat
  m_asset :: string
  m_type :: string
  m_reference :: "string option"
  m_reference_type :: "string option"
  m_reference_id :: "string option"
  m_key :: string
  m_metadata :: jmap
  m_available_after :: rat
  m_pending_after :: rat
  m_locked_after :: rat

text \<open>\<open>infra_transactions\<close>\<close>

record txn =
  t_id :: string
  t_org :: string
  t_env :: infra_env
  t_amount :: rat
  t_currency :: string
  t_country :: "string option"
  t_status :: string
  t_method :: string
  t_direction :: string
  t_fee :: rat
  t_external_id :: "string option"
  t_metadata :: jmap
  t_client_key :: "string option"
  t_fingerprint :: "string option"

text \<open>\<open>infra_internal_transfers\<close>\<close>

record transfer =
  x_id :: string
  x_sender :: string
  x_recipient :: string
  x_env :: infra_env
  x_amount :: rat
  x_asset :: string
  x_status :: string
  x_sender_tx :: "string option"
  x_recipient_tx :: "string option"
  x_sender_movement :: "string option"
  x_recipient_movement :: "string option"
  x_key :: "string option"
  x_fingerprint :: "string option"
  x_metadata :: jmap
  x_mode :: string
  x_fee_id :: "string option"

text \<open>\<open>infra_transaction_fees\<close>\<close>

record fee =
  f_id :: string
  f_org :: string
  f_env :: infra_env
  f_transfer_group :: string
  f_transaction :: string
  f_amount :: rat
  f_transfer_amount :: rat
  f_customer_debit :: rat
  f_actual_network_fee :: "rat option"
  f_revenue_amount :: rat
  f_revenue_org :: string
  f_customer_movement :: "string option"
  f_revenue_movement :: "string option"
  f_mode :: string
  f_key :: string
  f_status :: string
  f_metadata :: jmap

text \<open>\<open>infra_settlements\<close>\<close>

record settlement =
  s_id :: string
  s_org :: string
  s_env :: infra_env
  s_payout_tx :: "string option"
  s_collection_tx :: "string option"
  s_rail :: string
  s_asset :: string
  s_amount :: rat
  s_source :: "string option"
  s_destination :: "string option"
  s_status :: string
  s_external :: "string option"
  s_provider :: "string option"
  s_metadata :: jmap
  s_failure :: "string option"
  s_key :: string

text \<open>\<open>exchange_rates\<close>\<close>

record fx_rate =
  r_base :: string
  r_target :: string
  r_rate :: rat
  r_source :: string

text \<open>\<open>infra_stellar_accounts\<close> and \<open>infra_stellar_custody\<close>\<close>

record stellar_account =
  a_id :: string
  a_org :: string
  a_env :: infra_env
  a_public :: string
  a_network :: string
  a_asset :: string
  a_issuer :: "string option"
  a_status :: string
  a_custody :: string
  a_failure :: "string option"
  a_metadata :: jmap

record custody =
  c_id :: string
  c_secret :: string

text \<open>\<open>infra_recipients\<close> and \<open>infra_recipient_destinations\<close>\<close>

record recipient =
  rp_id :: string
  rp_org :: string
  rp_env :: infra_env
  rp_name :: string
  rp_country :: "string option"
  rp_email :: "string option"
  rp_phone :: "string option"
  rp_status :: string
  rp_metadata :: jmap

record destination =
  ds_id :: string
  ds_recipient :: string
  ds_org :: string
  ds_env :: infra_env
  ds_rail :: string
  ds_country :: "string option"
  ds_currency :: "string option"
  ds_provider :: "string option"
  ds_label :: "string option"
  ds_hint :: string
  ds_lastFour :: "string option"
  ds_verification :: string
  ds_data :: jmap
  ds_default :: bool
  ds_status :: string

text \<open>\<open>infra_stellar_deposits\<close> and \<open>infra_treasury_rebalances\<close>\<close>

record deposit =
  dp_id :: string
  dp_org :: string
  dp_env :: infra_env
  dp_account :: "string option"
  dp_tx :: "string option"
  dp_hash :: string
  dp_source :: "string option"
  dp_destination :: string
  dp_asset :: string
  dp_issuer :: string
  dp_amount :: rat
  dp_network :: string
  dp_status :: string
  dp_pending :: "string option"
  dp_available :: "string option"
  dp_failure :: "string option"
  dp_key :: string
  dp_metadata :: jmap

record rebalance =
  rb_id :: string
  rb_env :: infra_env
  rb_asset :: string
  rb_source_kind :: string
  rb_destination_kind :: string
  rb_source :: string
  rb_destination :: string
  rb_amount :: rat
  rb_status :: string
  rb_purpose :: string
  rb_external :: "string option"
  rb_metadata :: jmap
  rb_failure :: "string option"
  rb_key :: string
  rb_by :: "string option"
  rb_liabilities :: "rat option"
  rb_liquidity :: "rat option"
  rb_shortfall :: "rat option"

text \<open>\<open>infra_bulk_batches\<close> and \<open>infra_bulk_items\<close>\<close>

record batch =
  bb_id :: string
  bb_org :: string
  bb_env :: infra_env
  bb_code :: string
  bb_label :: "string option"
  bb_status :: string
  bb_source :: string
  bb_currency :: string
  bb_items :: nat
  bb_total :: rat
  bb_fee :: rat
  bb_completed :: rat
  bb_released :: rat
  bb_locked :: rat
  bb_completed_count :: nat
  bb_failed_count :: nat
  bb_processing_count :: nat
  bb_preflight :: jmap
  bb_metadata :: jmap
  bb_confirmed :: bool

record bulk_item =
  bi_id :: string
  bi_batch :: string
  bi_org :: string
  bi_line :: nat
  bi_recipient :: "string option"
  bi_destination :: "string option"
  bi_amount :: rat
  bi_currency :: string
  bi_usdc :: "rat option"
  bi_fee :: rat
  bi_rate :: "rat option"
  bi_status :: string
  bi_errors :: "json list"
  bi_payout :: "string option"
  bi_instruction :: jmap
  bi_metadata :: jmap

record db =
  orgs :: "org list"
  members :: "member list"
  wallets :: "wallet list"
  movements :: "movement list"
  txns :: "txn list"
  transfers :: "transfer list"
  fees :: "fee list"
  settlements :: "settlement list"
  fx_rates :: "fx_rate list"
  st_accounts :: "stellar_account list"
  st_custody :: "custody list"
  recipients :: "recipient list"
  destinations :: "destination list"
  deposits :: "deposit list"
  rebalances :: "rebalance list"
  batches :: "batch list"
  bulk_items :: "bulk_item list"
  uuid_of :: "nat \<Rightarrow> string"
  uuid_next :: nat

section \<open>Statements inside a database transaction\<close>

text \<open>
  A statement maps the database to an error, or to its result and the new database: an error rolls
  the whole transaction back, so no state comes with it.
\<close>

type_synonym ('s, 'a) tx = "'s \<Rightarrow> js_error + ('a \<times> 's)"

definition ret :: "'a \<Rightarrow> ('s, 'a) tx" where
  "ret a s = Inr (a, s)"

definition fail :: "js_error \<Rightarrow> ('s, 'a) tx" where
  "fail e s = Inl e"

definition bnd :: "(db, 'a) tx \<Rightarrow> ('a \<Rightarrow> (db, 'b) tx) \<Rightarrow> (db, 'b) tx" where
  "bnd m f s = (case m s of Inl e \<Rightarrow> Inl e | Inr (a, s') \<Rightarrow> f a s')"

definition query :: "('s \<Rightarrow> 'a) \<Rightarrow> ('s, 'a) tx" where
  "query f s = Inr (f s, s)"

definition of_sum :: "js_error + 'a \<Rightarrow> ('s, 'a) tx" where
  "of_sum r s = (case r of Inl e \<Rightarrow> Inl e | Inr a \<Rightarrow> Inr (a, s))"

definition require :: "bool \<Rightarrow> js_error \<Rightarrow> ('s, unit) tx" where
  "require b e s = (if b then Inr ((), s) else Inl e)"

lemma ret_run [simp, tx_simps]: "ret a s = Inr (a, s)" by (simp add: ret_def)

lemma fail_run [simp, tx_simps]: "fail e s = Inl e" by (simp add: fail_def)

lemma query_run [simp, tx_simps]: "query f s = Inr (f s, s)" by (simp add: query_def)

lemma require_run: "require b e s = (if b then Inr ((), s) else Inl e)"
  by (simp add: require_def)

lemma bnd_Inr_iff [tx_simps]:
  "bnd m f s = Inr (b, s'') \<longleftrightarrow> (\<exists>a s'. m s = Inr (a, s') \<and> f a s' = Inr (b, s''))"
  by (auto simp: bnd_def split: sum.splits)

lemma bndE:
  assumes "bnd m f s = Inr (b, s'')"
  obtains a s' where "m s = Inr (a, s')" "f a s' = Inr (b, s'')"
  using assms by (auto simp: bnd_def split: sum.splits)

lemma bnd_Inl_iff [tx_simps]:
  "bnd m f s = Inl e \<longleftrightarrow> m s = Inl e \<or> (\<exists>a s'. m s = Inr (a, s') \<and> f a s' = Inl e)"
  by (auto simp: bnd_def split: sum.splits)

lemma bnd_run [simp]:
  "m s = Inr (a, s') \<Longrightarrow> bnd m f s = f a s'" "m s = Inl e \<Longrightarrow> bnd m f s = Inl e"
  by (simp_all add: bnd_def)

lemma require_Inr_iff [tx_simps]: "require b e s = Inr (u, s') \<longleftrightarrow> b \<and> s' = s"
  by (auto simp: require_def)

lemma of_sum_run [simp]:
  "of_sum (Inr a) s = Inr (a, s)" "of_sum (Inl e) s = Inl e"
  by (simp_all add: of_sum_def)

lemma of_sum_Inr_iff [tx_simps]: "of_sum r s = Inr (a, s') \<longleftrightarrow> r = Inr a \<and> s' = s"
  by (auto simp: of_sum_def split: sum.splits)

section \<open>Service code outside a transaction\<close>

text \<open>
  Service code returns the state in both cases: what it committed before an error stays committed.
\<close>

type_synonym ('s, 'a) act = "'s \<Rightarrow> (js_error + 'a) \<times> 's"

definition aret :: "'a \<Rightarrow> ('s, 'a) act" where
  "aret a s = (Inr a, s)"

definition athrow :: "js_error \<Rightarrow> ('s, 'a) act" where
  "athrow e s = (Inl e, s)"

definition abnd :: "(db, 'a) act \<Rightarrow> ('a \<Rightarrow> (db, 'b) act) \<Rightarrow> (db, 'b) act" where
  "abnd m f s = (case m s of (Inl e, s') \<Rightarrow> (Inl e, s') | (Inr a, s') \<Rightarrow> f a s')"

definition acatch :: "(db, 'a) act \<Rightarrow> (js_error \<Rightarrow> (db, 'a) act) \<Rightarrow> (db, 'a) act" where
  "acatch m h s = (case m s of (Inl e, s') \<Rightarrow> h e s' | (Inr a, s') \<Rightarrow> (Inr a, s'))"

definition arequire :: "bool \<Rightarrow> js_error \<Rightarrow> ('s, unit) act" where
  "arequire b e = (if b then aret () else athrow e)"

definition aquery :: "('s \<Rightarrow> 'a) \<Rightarrow> ('s, 'a) act" where
  "aquery f s = (Inr (f s), s)"

definition aof_sum :: "js_error + 'a \<Rightarrow> ('s, 'a) act" where
  "aof_sum r s = (r, s)"

text \<open>\<open>db.tx\<close>: commit the transaction's state, or roll back to the one it started from.\<close>

definition run_tx :: "('s, 'a) tx \<Rightarrow> ('s, 'a) act" where
  "run_tx m s = (case m s of Inl e \<Rightarrow> (Inl e, s) | Inr (a, s') \<Rightarrow> (Inr a, s'))"

lemma aret_run [simp]: "aret a s = (Inr a, s)" by (simp add: aret_def)

lemma athrow_run [simp]: "athrow e s = (Inl e, s)" by (simp add: athrow_def)

lemma aquery_run [simp]: "aquery f s = (Inr (f s), s)" by (simp add: aquery_def)

lemma arequire_run [act_simps]: "arequire b e s = (if b then (Inr (), s) else (Inl e, s))"
  by (simp add: arequire_def)

lemma aof_sum_run [simp]: "aof_sum r s = (r, s)" by (simp add: aof_sum_def)

lemma abnd_run [simp]:
  "m s = (Inr a, s') \<Longrightarrow> abnd m f s = f a s'" "m s = (Inl e, s') \<Longrightarrow> abnd m f s = (Inl e, s')"
  by (simp_all add: abnd_def)

lemma abnd_Inr_iff [act_simps]:
  "abnd m f s = (Inr b, s'') \<longleftrightarrow> (\<exists>a s'. m s = (Inr a, s') \<and> f a s' = (Inr b, s''))"
  by (auto simp: abnd_def split: sum.splits prod.splits)

lemma abndE:
  assumes "abnd m f s = (Inr b, s'')"
  obtains a s' where "m s = (Inr a, s')" "f a s' = (Inr b, s'')"
  using assms by (auto simp: abnd_def split: sum.splits prod.splits)

lemma abnd_Inl_iff [act_simps]:
  "abnd m f s = (Inl e, s'') \<longleftrightarrow>
     m s = (Inl e, s'') \<or> (\<exists>a s'. m s = (Inr a, s') \<and> f a s' = (Inl e, s''))"
  by (auto simp: abnd_def split: sum.splits prod.splits)

lemma acatch_run [simp]:
  "m s = (Inr a, s') \<Longrightarrow> acatch m h s = (Inr a, s')" "m s = (Inl e, s') \<Longrightarrow> acatch m h s = h e s'"
  by (simp_all add: acatch_def)

lemma run_tx_run [simp]:
  "m s = Inr (a, s') \<Longrightarrow> run_tx m s = (Inr a, s')" "m s = Inl e \<Longrightarrow> run_tx m s = (Inl e, s)"
  by (simp_all add: run_tx_def)

lemma run_tx_Inr_iff [act_simps]: "run_tx m s = (Inr a, s') \<longleftrightarrow> m s = Inr (a, s')"
  by (auto simp: run_tx_def split: sum.splits)

lemma run_tx_Inl_iff [act_simps]: "run_tx m s = (Inl e, s') \<longleftrightarrow> m s = Inl e \<and> s' = s"
  by (auto simp: run_tx_def split: sum.splits)

section \<open>Evaluation\<close>

text \<open>
  The combinators run only on an explicit database, so that evaluation does not unfold the
  continuations of a statement before it has run.
\<close>

lemma bnd_code [code]:
  "bnd m f \<lparr>orgs = og, members = mb, wallets = ws, movements = ms, txns = ts, transfers = xs, fees = fs, settlements = ss, fx_rates = fx, st_accounts = sa, st_custody = sc, recipients = rp, destinations = ds, deposits = dp, rebalances = rb, batches = bb, bulk_items = bi, uuid_of = u, uuid_next = n\<rparr> =
    (case m \<lparr>orgs = og, members = mb, wallets = ws, movements = ms, txns = ts, transfers = xs, fees = fs, settlements = ss, fx_rates = fx, st_accounts = sa, st_custody = sc, recipients = rp, destinations = ds, deposits = dp, rebalances = rb, batches = bb, bulk_items = bi, uuid_of = u, uuid_next = n\<rparr> of Inl e \<Rightarrow> Inl e | Inr (a, s') \<Rightarrow> f a s')"
  by (simp add: bnd_def)

lemma abnd_code [code]:
  "abnd m f \<lparr>orgs = og, members = mb, wallets = ws, movements = ms, txns = ts, transfers = xs, fees = fs, settlements = ss, fx_rates = fx, st_accounts = sa, st_custody = sc, recipients = rp, destinations = ds, deposits = dp, rebalances = rb, batches = bb, bulk_items = bi, uuid_of = u, uuid_next = n\<rparr> =
    (case m \<lparr>orgs = og, members = mb, wallets = ws, movements = ms, txns = ts, transfers = xs, fees = fs, settlements = ss, fx_rates = fx, st_accounts = sa, st_custody = sc, recipients = rp, destinations = ds, deposits = dp, rebalances = rb, batches = bb, bulk_items = bi, uuid_of = u, uuid_next = n\<rparr> of
      (Inl e, s') \<Rightarrow> (Inl e, s') | (Inr a, s') \<Rightarrow> f a s')"
  by (simp add: abnd_def)

lemma acatch_code [code]:
  "acatch m h \<lparr>orgs = og, members = mb, wallets = ws, movements = ms, txns = ts, transfers = xs, fees = fs, settlements = ss, fx_rates = fx, st_accounts = sa, st_custody = sc, recipients = rp, destinations = ds, deposits = dp, rebalances = rb, batches = bb, bulk_items = bi, uuid_of = u, uuid_next = n\<rparr> =
    (case m \<lparr>orgs = og, members = mb, wallets = ws, movements = ms, txns = ts, transfers = xs, fees = fs, settlements = ss, fx_rates = fx, st_accounts = sa, st_custody = sc, recipients = rp, destinations = ds, deposits = dp, rebalances = rb, batches = bb, bulk_items = bi, uuid_of = u, uuid_next = n\<rparr> of
      (Inl e, s') \<Rightarrow> h e s' | (Inr a, s') \<Rightarrow> (Inr a, s'))"
  by (simp add: acatch_def)

section \<open>Statements\<close>

definition new_uuid :: "(db, string) tx" where
  "new_uuid s = Inr (uuid_of s (uuid_next s), s\<lparr>uuid_next := Suc (uuid_next s)\<rparr>)"

definition org_exists :: "string \<Rightarrow> db \<Rightarrow> bool" where
  "org_exists i s \<longleftrightarrow> i \<in> o_id ` set (orgs s)"

definition the_row :: "'r option \<Rightarrow> ('s, 'r) tx" where
  "the_row r = (case r of Some x \<Rightarrow> ret x | None \<Rightarrow> fail NoData)"

text \<open>
  Statements are checked in the order of PostgreSQL: the values are converted to the types of their
  columns, then the \<open>CHECK\<close> constraints, the unique indexes and the foreign keys. The conversion
  to \<open>NUMERIC(28,7)\<close> or \<open>NUMERIC(20,7)\<close> raises a numeric field overflow (\<open>22003\<close>) when the rounded
  value has more than 21 or 13 integer digits.
\<close>

definition fits28 :: "rat \<Rightarrow> bool" where
  "fits28 x \<longleftrightarrow> \<bar>x\<bar> < 1000000000000000000000"

definition fits20 :: "rat \<Rightarrow> bool" where
  "fits20 x \<longleftrightarrow> \<bar>x\<bar> < 10000000000000"

text \<open>
  \<open>infra_wallet_accounts\<close>: the primary key, \<open>UNIQUE (org_id, environment, asset)\<close>, the
  foreign key to the organisation and the checks that no balance is negative.
\<close>

definition wallet_fits :: "wallet \<Rightarrow> bool" where
  "wallet_fits w \<longleftrightarrow> fits28 (w_available w) \<and> fits28 (w_pending w) \<and> fits28 (w_locked w)"

definition wallet_key :: "wallet \<Rightarrow> string \<times> infra_env \<times> string" where
  "wallet_key w = (w_org w, w_env w, w_asset w)"

definition wallet_ok :: "wallet \<Rightarrow> bool" where
  "wallet_ok w \<longleftrightarrow> 0 \<le> w_available w \<and> 0 \<le> w_pending w \<and> 0 \<le> w_locked w"

definition insert_wallet :: "wallet \<Rightarrow> (db, wallet) tx" where
  "insert_wallet w s =
    (if \<not> wallet_fits w then Inl NumericOverflow
     else if \<not> wallet_ok w then Inl CheckViolation
     else if w_id w \<in> w_id ` set (wallets s) \<or> wallet_key w \<in> wallet_key ` set (wallets s)
     then Inl UniqueViolation
     else if \<not> org_exists (w_org w) s then Inl ForeignKeyViolation
     else Inr (w, s\<lparr>wallets := w # wallets s\<rparr>))"

definition update_wallet :: "string \<Rightarrow> (wallet \<Rightarrow> wallet) \<Rightarrow> (db, unit) tx" where
  "update_wallet i f s =
    (if \<not> list_all (\<lambda>w. w_id w = i \<longrightarrow> wallet_fits (f w)) (wallets s) then Inl NumericOverflow
     else if list_all (\<lambda>w. w_id w = i \<longrightarrow> wallet_ok (f w)) (wallets s)
     then Inr ((), s\<lparr>wallets := update_rows w_id i f (wallets s)\<rparr>)
     else Inl CheckViolation)"

text \<open>
  \<open>infra_ledger_movements\<close>: the primary key, the unique idempotency key, the partial unique index
  on organisation, environment, reference and movement type (migration
  \<open>20260822210000-infra-ledger-phase2\<close>), and the check that the amount is positive.
\<close>

definition movement_ref :: "movement \<Rightarrow> (string \<times> infra_env \<times> string \<times> string \<times> string) option" where
  "movement_ref m = (case (m_reference_type m, m_reference_id m) of
     (Some ty, Some i) \<Rightarrow> Some (m_org m, m_env m, ty, i, m_type m)
   | _ \<Rightarrow> None)"

definition movement_fits :: "movement \<Rightarrow> bool" where
  "movement_fits m \<longleftrightarrow> fits28 (m_amount m) \<and> fits28 (m_available_after m) \<and> fits28 (m_pending_after m)
     \<and> fits28 (m_locked_after m)"

definition insert_movement :: "movement \<Rightarrow> (db, movement) tx" where
  "insert_movement m s =
    (if \<not> movement_fits m then Inl NumericOverflow
     else if m_amount m \<le> 0 then Inl CheckViolation
     else if m_id m \<in> m_id ` set (movements s) \<or> m_key m \<in> m_key ` set (movements s)
        \<or> (movement_ref m \<noteq> None \<and> movement_ref m \<in> movement_ref ` set (movements s))
     then Inl UniqueViolation
     else if m_wallet m \<notin> w_id ` set (wallets s) then Inl ForeignKeyViolation
     else Inr (m, s\<lparr>movements := m # movements s\<rparr>))"

text \<open>
  \<open>infra_organizations\<close>, \<open>infra_transactions\<close>, \<open>infra_internal_transfers\<close> and
  \<open>infra_transaction_fees\<close>: primary keys, unique indexes, checks and foreign keys. An index on a
  nullable column holds for the rows where the column is not null.
\<close>

definition insert_org :: "org \<Rightarrow> (db, org) tx" where
  "insert_org g s =
    (if o_id g \<in> o_id ` set (orgs s) \<or> o_slug g \<in> o_slug ` set (orgs s) then Inl UniqueViolation
     else Inr (g, s\<lparr>orgs := g # orgs s\<rparr>))"

definition txn_directions :: "string list" where
  "txn_directions = [''payment'', ''payout'', ''settlement'', ''fee'', ''other'', ''deposit'', ''internal_transfer'']"

definition txn_client_key :: "txn \<Rightarrow> (string \<times> infra_env \<times> string) option" where
  "txn_client_key t = map_option (\<lambda>k. (t_org t, t_env t, k)) (t_client_key t)"

definition insert_txn :: "txn \<Rightarrow> (db, txn) tx" where
  "insert_txn t s =
    (if \<not> (fits28 (t_amount t) \<and> fits28 (t_fee t)) then Inl NumericOverflow
     else if \<not> List.member txn_directions (t_direction t) then Inl CheckViolation
     else if t_id t \<in> t_id ` set (txns s)
        \<or> (txn_client_key t \<noteq> None \<and> txn_client_key t \<in> txn_client_key ` set (txns s))
     then Inl UniqueViolation
     else if \<not> org_exists (t_org t) s then Inl ForeignKeyViolation
     else Inr (t, s\<lparr>txns := t # txns s\<rparr>))"

definition update_txn :: "string \<Rightarrow> (txn \<Rightarrow> txn) \<Rightarrow> (db, unit) tx" where
  "update_txn i f s = Inr ((), s\<lparr>txns := update_rows t_id i f (txns s)\<rparr>)"

definition transfer_key :: "transfer \<Rightarrow> (string \<times> infra_env \<times> string) option" where
  "transfer_key x = map_option (\<lambda>k. (x_sender x, x_env x, k)) (x_key x)"

definition transfer_ok :: "transfer \<Rightarrow> bool" where
  "transfer_ok x \<longleftrightarrow> 0 < x_amount x \<and> x_sender x \<noteq> x_recipient x
     \<and> List.member [''processing'', ''submitted'', ''completed'', ''failed''] (x_status x)
     \<and> List.member [''INTERNAL_LEDGER'', ''STELLAR_ONCHAIN''] (x_mode x)"

definition insert_transfer :: "transfer \<Rightarrow> (db, transfer) tx" where
  "insert_transfer x s =
    (if \<not> fits28 (x_amount x) then Inl NumericOverflow
     else if \<not> transfer_ok x then Inl CheckViolation
     else if x_id x \<in> x_id ` set (transfers s)
        \<or> (transfer_key x \<noteq> None \<and> transfer_key x \<in> transfer_key ` set (transfers s))
     then Inl UniqueViolation
     else if \<not> org_exists (x_sender x) s \<or> \<not> org_exists (x_recipient x) s then Inl ForeignKeyViolation
     else Inr (x, s\<lparr>transfers := x # transfers s\<rparr>))"

text \<open>\<open>UPDATE ... WHERE id = $1 RETURNING ...\<close> through \<open>t.one\<close>\<close>

definition update_transfer :: "string \<Rightarrow> (transfer \<Rightarrow> transfer) \<Rightarrow> (db, transfer) tx" where
  "update_transfer i f s =
    (case find_row x_id i (transfers s) of
       None \<Rightarrow> Inl NoData
     | Some x \<Rightarrow> if transfer_ok (f x) then Inr (f x, s\<lparr>transfers := update_rows x_id i f (transfers s)\<rparr>)
         else Inl CheckViolation)"

definition fee_ok :: "fee \<Rightarrow> bool" where
  "fee_ok f \<longleftrightarrow> 0 \<le> f_amount f \<and> 0 < f_transfer_amount f \<and> 0 < f_customer_debit f \<and> 0 \<le> f_revenue_amount f
     \<and> List.member [''INTERNAL_LEDGER'', ''STELLAR_ONCHAIN''] (f_mode f)
     \<and> List.member [''quoted'', ''recorded'', ''skipped''] (f_status f)"

definition fee_fits :: "fee \<Rightarrow> bool" where
  "fee_fits f \<longleftrightarrow> fits28 (f_amount f) \<and> fits28 (f_transfer_amount f) \<and> fits28 (f_customer_debit f)
     \<and> fits28 (f_revenue_amount f)"

definition insert_fee :: "fee \<Rightarrow> (db, fee) tx" where
  "insert_fee f s =
    (if \<not> fee_fits f then Inl NumericOverflow
     else if \<not> fee_ok f then Inl CheckViolation
     else if f_id f \<in> f_id ` set (fees s) \<or> f_key f \<in> f_key ` set (fees s) then Inl UniqueViolation
     else if \<not> org_exists (f_org f) s \<or> \<not> org_exists (f_revenue_org f) s
        \<or> f_transfer_group f \<notin> x_id ` set (transfers s) \<or> f_transaction f \<notin> t_id ` set (txns s)
     then Inl ForeignKeyViolation
     else Inr (f, s\<lparr>fees := f # fees s\<rparr>))"

definition update_fee :: "string \<Rightarrow> (fee \<Rightarrow> fee) \<Rightarrow> (db, unit) tx" where
  "update_fee i f s = Inr ((), s\<lparr>fees := update_rows f_id i f (fees s)\<rparr>)"

text \<open>
  \<open>infra_settlements\<close>: the primary key, \<open>UNIQUE (org_id, idempotency_key)\<close>, the two partial unique
  indexes that admit one open or confirmed settlement per transaction and rail (migration
  \<open>20260823080000-infra-collection-funding\<close>), the checks and the foreign keys. An update is checked
  against the same constraints.
\<close>

definition settlement_statuses :: "string list" where
  "settlement_statuses = [''pending'', ''submitted'', ''confirmed'', ''failed'', ''cancelled'', ''pending_treasury'']"

definition settlement_ok :: "settlement \<Rightarrow> bool" where
  "settlement_ok st \<longleftrightarrow> List.member settlement_statuses (s_status st) \<and> (s_payout_tx st \<noteq> None \<or> s_collection_tx st \<noteq> None)"

definition settlement_live :: "settlement \<Rightarrow> bool" where
  "settlement_live st \<longleftrightarrow> List.member [''pending'', ''submitted'', ''confirmed'', ''pending_treasury''] (s_status st)"

definition settlement_slots :: "settlement \<Rightarrow> (bool \<times> string \<times> string) list" where
  "settlement_slots st = (if settlement_live st then
     (case s_payout_tx st of Some i \<Rightarrow> [(True, i, s_rail st)] | None \<Rightarrow> []) @
     (case s_collection_tx st of Some i \<Rightarrow> [(False, i, s_rail st)] | None \<Rightarrow> []) else [])"

definition settlements_unique :: "settlement list \<Rightarrow> bool" where
  "settlements_unique sts \<longleftrightarrow> distinct (map s_id sts) \<and> distinct (map (\<lambda>st. (s_org st, s_key st)) sts)
     \<and> distinct (concat (map settlement_slots sts))"

definition txn_exists :: "string option \<Rightarrow> db \<Rightarrow> bool" where
  "txn_exists i s \<longleftrightarrow> (case i of None \<Rightarrow> True | Some t \<Rightarrow> t \<in> t_id ` set (txns s))"

definition insert_settlement :: "settlement \<Rightarrow> (db, settlement) tx" where
  "insert_settlement st s =
    (if \<not> fits20 (s_amount st) then Inl NumericOverflow
     else if \<not> settlement_ok st then Inl CheckViolation
     else if \<not> settlements_unique (st # settlements s) then Inl UniqueViolation
     else if \<not> org_exists (s_org st) s \<or> \<not> txn_exists (s_payout_tx st) s \<or> \<not> txn_exists (s_collection_tx st) s
     then Inl ForeignKeyViolation
     else Inr (st, s\<lparr>settlements := st # settlements s\<rparr>))"

definition update_settlements :: "(settlement \<Rightarrow> bool) \<Rightarrow> (settlement \<Rightarrow> settlement) \<Rightarrow> (db, unit) tx" where
  "update_settlements p f s =
    (let rows = map (\<lambda>st. if p st then f st else st) (settlements s) in
     if \<not> list_all settlement_ok rows then Inl CheckViolation
     else if \<not> settlements_unique rows then Inl UniqueViolation
     else Inr ((), s\<lparr>settlements := rows\<rparr>))"

text \<open>\<open>exchange_rates\<close>: an insertion that leaves an existing pair alone.\<close>

definition fx_pair :: "fx_rate \<Rightarrow> string \<times> string" where
  "fx_pair r = (r_base r, r_target r)"

definition insert_rate_on_conflict :: "fx_rate \<Rightarrow> (db, unit) tx" where
  "insert_rate_on_conflict r s =
    (if fx_pair r \<in> fx_pair ` set (fx_rates s) then Inr ((), s) else Inr ((), s\<lparr>fx_rates := r # fx_rates s\<rparr>))"

text \<open>
  \<open>infra_stellar_custody\<close> and \<open>infra_stellar_accounts\<close>: one account per organisation, environment,
  network and asset, and no public key twice.
\<close>

definition insert_custody :: "custody \<Rightarrow> (db, custody) tx" where
  "insert_custody c s = (if c_id c \<in> c_id ` set (st_custody s) then Inl UniqueViolation
     else Inr (c, s\<lparr>st_custody := c # st_custody s\<rparr>))"

definition account_slot :: "stellar_account \<Rightarrow> string \<times> infra_env \<times> string \<times> string" where
  "account_slot a = (a_org a, a_env a, a_network a, a_asset a)"

definition account_ok :: "stellar_account \<Rightarrow> bool" where
  "account_ok a \<longleftrightarrow> List.member [''testnet'', ''mainnet''] (a_network a)
     \<and> List.member [''provisioning'', ''xlm_ready'', ''trustline_ready'', ''active'', ''failed''] (a_status a)"

definition insert_account :: "stellar_account \<Rightarrow> (db, stellar_account) tx" where
  "insert_account a s =
    (if \<not> account_ok a then Inl CheckViolation
     else if a_id a \<in> a_id ` set (st_accounts s) \<or> account_slot a \<in> account_slot ` set (st_accounts s)
        \<or> a_public a \<in> a_public ` set (st_accounts s)
     then Inl UniqueViolation
     else if \<not> org_exists (a_org a) s \<or> a_custody a \<notin> c_id ` set (st_custody s) then Inl ForeignKeyViolation
     else Inr (a, s\<lparr>st_accounts := a # st_accounts s\<rparr>))"

definition update_account :: "string \<Rightarrow> (stellar_account \<Rightarrow> stellar_account) \<Rightarrow> (db, stellar_account) tx" where
  "update_account i f s =
    (case find_row a_id i (st_accounts s) of
       None \<Rightarrow> Inl NoData
     | Some a \<Rightarrow> if account_ok (f a) then Inr (f a, s\<lparr>st_accounts := update_rows a_id i f (st_accounts s)\<rparr>)
         else Inl CheckViolation)"

text \<open>
  Service code that runs on another connection while a transaction is open. Its effects are merged
  into the state of the transaction.
\<close>

definition on_pool :: "(db, 'a) act \<Rightarrow> (db, 'a) tx" where
  "on_pool m s = (case m s of (Inl e, s') \<Rightarrow> Inl e | (Inr a, s') \<Rightarrow> Inr (a, s'))"

section \<open>Running the statements\<close>

lemma new_uuid_Inr_iff [tx_simps]:
  "new_uuid s = Inr (i, s') \<longleftrightarrow> i = uuid_of s (uuid_next s) \<and> s' = s\<lparr>uuid_next := Suc (uuid_next s)\<rparr>"
  by (auto simp: new_uuid_def)

lemma the_row_Inr_iff [tx_simps]: "the_row r s = Inr (x, s') \<longleftrightarrow> r = Some x \<and> s' = s"
  by (auto simp: the_row_def split: option.splits)

lemma the_row_run [simp]: "the_row (Some x) = ret x" "the_row None = fail NoData"
  by (simp_all add: the_row_def)

lemma insert_wallet_Inr_iff [tx_simps]:
  "insert_wallet w s = Inr (w', s') \<longleftrightarrow> w' = w \<and> w_id w \<notin> w_id ` set (wallets s)
     \<and> wallet_key w \<notin> wallet_key ` set (wallets s) \<and> wallet_fits w \<and> wallet_ok w \<and> org_exists (w_org w) s
     \<and> s' = s\<lparr>wallets := w # wallets s\<rparr>"
  by (auto simp: insert_wallet_def)

lemma update_wallet_Inr_iff [tx_simps]:
  "update_wallet i f s = Inr (u, s') \<longleftrightarrow> (\<forall>w \<in> set (wallets s). w_id w = i \<longrightarrow> wallet_fits (f w) \<and> wallet_ok (f w))
     \<and> s' = s\<lparr>wallets := update_rows w_id i f (wallets s)\<rparr>"
  by (auto simp: update_wallet_def list_all_iff)

lemma insert_movement_Inr_iff [tx_simps]:
  "insert_movement m s = Inr (m', s') \<longleftrightarrow> m' = m \<and> m_id m \<notin> m_id ` set (movements s)
     \<and> m_key m \<notin> m_key ` set (movements s)
     \<and> (movement_ref m = None \<or> movement_ref m \<notin> movement_ref ` set (movements s))
     \<and> movement_fits m \<and> 0 < m_amount m \<and> m_wallet m \<in> w_id ` set (wallets s)
     \<and> s' = s\<lparr>movements := m # movements s\<rparr>"
  by (cases "movement_ref m = None") (auto simp: insert_movement_def)

lemma insert_txn_Inr_iff [tx_simps]:
  "insert_txn t s = Inr (t', s') \<longleftrightarrow> t' = t \<and> t_id t \<notin> t_id ` set (txns s)
     \<and> (txn_client_key t = None \<or> txn_client_key t \<notin> txn_client_key ` set (txns s))
     \<and> fits28 (t_amount t) \<and> fits28 (t_fee t) \<and> List.member txn_directions (t_direction t) \<and> org_exists (t_org t) s
     \<and> s' = s\<lparr>txns := t # txns s\<rparr>"
  by (cases "txn_client_key t = None") (auto simp: insert_txn_def)

lemma insert_transfer_Inr_iff [tx_simps]:
  "insert_transfer x s = Inr (x', s') \<longleftrightarrow> x' = x \<and> x_id x \<notin> x_id ` set (transfers s)
     \<and> (transfer_key x = None \<or> transfer_key x \<notin> transfer_key ` set (transfers s))
     \<and> fits28 (x_amount x) \<and> transfer_ok x \<and> org_exists (x_sender x) s \<and> org_exists (x_recipient x) s
     \<and> s' = s\<lparr>transfers := x # transfers s\<rparr>"
  by (cases "transfer_key x = None") (auto simp: insert_transfer_def)

lemma update_transfer_Inr_iff [tx_simps]:
  "update_transfer i f s = Inr (x', s') \<longleftrightarrow> (\<exists>x. find_row x_id i (transfers s) = Some x \<and> x' = f x
     \<and> transfer_ok (f x) \<and> s' = s\<lparr>transfers := update_rows x_id i f (transfers s)\<rparr>)"
  by (auto simp: update_transfer_def split: option.splits)

lemma insert_fee_Inr_iff [tx_simps]:
  "insert_fee f s = Inr (f', s') \<longleftrightarrow> f' = f \<and> f_id f \<notin> f_id ` set (fees s)
     \<and> f_key f \<notin> f_key ` set (fees s) \<and> fee_fits f \<and> fee_ok f \<and> org_exists (f_org f) s \<and> org_exists (f_revenue_org f) s
     \<and> f_transfer_group f \<in> x_id ` set (transfers s) \<and> f_transaction f \<in> t_id ` set (txns s)
     \<and> s' = s\<lparr>fees := f # fees s\<rparr>"
  by (auto simp: insert_fee_def)

lemma insert_org_Inr_iff [tx_simps]:
  "insert_org g s = Inr (g', s') \<longleftrightarrow> g' = g \<and> o_id g \<notin> o_id ` set (orgs s) \<and> o_slug g \<notin> o_slug ` set (orgs s)
     \<and> s' = s\<lparr>orgs := g # orgs s\<rparr>"
  by (auto simp: insert_org_def)

lemma update_Inr_iff [tx_simps]:
  "update_txn i f s = Inr (u, s') \<longleftrightarrow> s' = s\<lparr>txns := update_rows t_id i f (txns s)\<rparr>"
  "update_fee i g s = Inr (u, s') \<longleftrightarrow> s' = s\<lparr>fees := update_rows f_id i g (fees s)\<rparr>"
  by (auto simp: update_txn_def update_fee_def)

lemma insert_settlement_Inr_iff [tx_simps]:
  "insert_settlement st s = Inr (st', s') \<longleftrightarrow> st' = st \<and> fits20 (s_amount st) \<and> settlements_unique (st # settlements s) \<and> settlement_ok st
     \<and> org_exists (s_org st) s \<and> txn_exists (s_payout_tx st) s \<and> txn_exists (s_collection_tx st) s
     \<and> s' = s\<lparr>settlements := st # settlements s\<rparr>"
  by (auto simp: insert_settlement_def)

lemma update_settlements_Inr_iff [tx_simps]:
  "update_settlements p f s = Inr (u, s') \<longleftrightarrow>
     (let rows = map (\<lambda>st. if p st then f st else st) (settlements s) in
      settlements_unique rows \<and> list_all settlement_ok rows \<and> s' = s\<lparr>settlements := rows\<rparr>)"
  by (auto simp: update_settlements_def Let_def)

lemma insert_rate_Inr_iff [tx_simps]:
  "insert_rate_on_conflict r s = Inr (u, s') \<longleftrightarrow>
     s' = (if fx_pair r \<in> fx_pair ` set (fx_rates s) then s else s\<lparr>fx_rates := r # fx_rates s\<rparr>)"
  by (auto simp: insert_rate_on_conflict_def)

lemma insert_custody_Inr_iff [tx_simps]:
  "insert_custody c s = Inr (c', s') \<longleftrightarrow> c' = c \<and> c_id c \<notin> c_id ` set (st_custody s)
     \<and> s' = s\<lparr>st_custody := c # st_custody s\<rparr>"
  by (auto simp: insert_custody_def)

lemma insert_account_Inr_iff [tx_simps]:
  "insert_account a s = Inr (a', s') \<longleftrightarrow> a' = a \<and> a_id a \<notin> a_id ` set (st_accounts s)
     \<and> account_slot a \<notin> account_slot ` set (st_accounts s) \<and> a_public a \<notin> a_public ` set (st_accounts s)
     \<and> account_ok a \<and> org_exists (a_org a) s \<and> a_custody a \<in> c_id ` set (st_custody s)
     \<and> s' = s\<lparr>st_accounts := a # st_accounts s\<rparr>"
  by (auto simp: insert_account_def)

lemma update_account_Inr_iff [tx_simps]:
  "update_account i f s = Inr (a', s') \<longleftrightarrow> (\<exists>a. find_row a_id i (st_accounts s) = Some a \<and> a' = f a
     \<and> account_ok (f a) \<and> s' = s\<lparr>st_accounts := update_rows a_id i f (st_accounts s)\<rparr>)"
  by (auto simp: update_account_def split: option.splits)

lemma on_pool_Inr_iff [tx_simps]: "on_pool m s = Inr (a, s') \<longleftrightarrow> m s = (Inr a, s')"
  by (auto simp: on_pool_def split: sum.splits prod.splits)

end
