(* ===== verification/Ledger.thy ===== *)
theory Ledger
  imports Database
begin

text \<open>
  \<open>src/src/modules/infra/infraLedgerService.ts\<close>, the ledger of the infrastructure wallets: the
  seven idempotent write operations on one wallet, the two-legged internal transfer and the
  transaction fee, statement by statement inside their database transaction, with the handlers
  that turn a lost race on the idempotency key into a duplicate reply.
\<close>

section \<open>Parameters and input normalisation\<close>

text \<open>\<open>LedgerWriteParams\<close>\<close>

record ledger_params =
  p_orgId :: string
  p_environment :: string
  p_amount :: js_raw
  p_asset :: "string option"
  p_idempotencyKey :: "string option"
  p_movementType :: "string option"
  p_reference :: "string option"
  p_referenceType :: "string option"
  p_referenceId :: "string option"
  p_metadata :: "jmap option"

definition DEFAULT_INFRA_ASSET :: string where
  "DEFAULT_INFRA_ASSET = ''USDC''"

definition parseAmount :: "js_raw \<Rightarrow> js_error + rat" where
  "parseAmount raw = (case js_Number raw of
     Fin n \<Rightarrow> if n \<le> 0 then Inl (InfraLedgerError ''INVALID_AMOUNT'' 400) else Inr (round7 n)
   | _ \<Rightarrow> Inl (InfraLedgerError ''INVALID_AMOUNT'' 400))"

text \<open>\<open>toNumber\<close> of a numeric column read back as text.\<close>

definition toNumber :: "rat \<Rightarrow> rat" where
  "toNumber raw = round7 raw"

definition normalizeEnv :: "string \<Rightarrow> infra_env" where
  "normalizeEnv env = (if env = ''live'' then Live else Test)"

definition env_name :: "infra_env \<Rightarrow> string" where
  "env_name env = (case env of Test \<Rightarrow> ''test'' | Live \<Rightarrow> ''live'')"

definition normalizeAsset :: "string option \<Rightarrow> string" where
  "normalizeAsset asset =
    (let a = to_upper (trim (or_str asset DEFAULT_INFRA_ASSET))
     in if a = [] then DEFAULT_INFRA_ASSET else a)"

definition normalizeKey :: "string option \<Rightarrow> string" where
  "normalizeKey key = trim (or_str key [])"

record balance_view =
  b_orgId :: string
  b_environment :: infra_env
  b_asset :: string
  b_status :: wallet_status
  b_available :: rat
  b_pending :: rat
  b_locked :: rat
  b_walletAccountId :: string

definition mapBalance :: "wallet \<Rightarrow> balance_view" where
  "mapBalance row = \<lparr>b_orgId = w_org row, b_environment = w_env row, b_asset = w_asset row,
     b_status = w_status row, b_available = toNumber (w_available row),
     b_pending = toNumber (w_pending row), b_locked = toNumber (w_locked row),
     b_walletAccountId = w_id row\<rparr>"

section \<open>Statements\<close>

definition findMovementByIdempotency :: "string \<Rightarrow> (db, movement option) tx" where
  "findMovementByIdempotency key = query (\<lambda>s. find_row m_key key (movements s))"

definition lockWalletRow :: "string \<Rightarrow> (db, wallet) tx" where
  "lockWalletRow walletId = bnd (query (\<lambda>s. find_row w_id walletId (wallets s))) the_row"

definition insertMovement ::
  "wallet \<Rightarrow> direction \<Rightarrow> rat \<Rightarrow> string \<Rightarrow> string option \<Rightarrow> string option \<Rightarrow> string option \<Rightarrow>
   string \<Rightarrow> jmap \<Rightarrow> rat \<Rightarrow> rat \<Rightarrow> rat \<Rightarrow> (db, movement) tx" where
  "insertMovement wallet direction amount movementType reference referenceType referenceId
     idempotencyKey metadata availableAfter pendingAfter lockedAfter =
   bnd new_uuid (\<lambda>i. insert_movement
     \<lparr>m_id = i, m_wallet = w_id wallet, m_org = w_org wallet, m_env = w_env wallet,
      m_direction = direction, m_amount = numeric7 amount, m_asset = w_asset wallet,
      m_type = movementType, m_reference = reference, m_reference_type = referenceType,
      m_reference_id = referenceId, m_key = idempotencyKey, m_metadata = metadata,
      m_available_after = numeric7 availableAfter, m_pending_after = numeric7 pendingAfter,
      m_locked_after = numeric7 lockedAfter\<rparr>)"

definition ensureWalletAccount :: "string \<Rightarrow> string \<Rightarrow> string option \<Rightarrow> (db, wallet) tx" where
  "ensureWalletAccount orgId environment asset =
   (let env = normalizeEnv environment; assetCode = normalizeAsset asset in
    bnd (query (\<lambda>s. find_row wallet_key (orgId, env, assetCode) (wallets s)))
     (\<lambda>existing. case existing of
        Some w \<Rightarrow> ret w
      | None \<Rightarrow> bnd new_uuid (\<lambda>i. insert_wallet
          \<lparr>w_id = i, w_org = orgId, w_env = env, w_asset = assetCode, w_status = Active,
           w_available = 0, w_pending = 0, w_locked = 0\<rparr>)))"

definition bootstrapOrgWallets :: "string \<Rightarrow> (db, wallet) act" where
  "bootstrapOrgWallets orgId = run_tx (ensureWalletAccount orgId ''test'' (Some DEFAULT_INFRA_ASSET))"

definition getOrgBalance :: "string \<Rightarrow> string \<Rightarrow> string option \<Rightarrow> (db, balance_view) act" where
  "getOrgBalance orgId environment asset =
    abnd (run_tx (ensureWalletAccount orgId environment asset)) (\<lambda>wallet.
    abnd (arequire (w_status wallet \<noteq> Closed) (InfraLedgerError ''WALLET_CLOSED'' 403)) (\<lambda>_.
    aret (mapBalance wallet)))"

section \<open>The write operations\<close>

text \<open>
  The seven functions that write one wallet are the same text but for the balance computation: the
  parsed amount and trimmed key, the replay check, the wallet, its status, the row lock, then the
  computation, the update and the movement. A \<open>ledger_step\<close> is what differs: from the locked row
  and the amount, an error, or the columns to update and the three balances the movement records.
\<close>

type_synonym ledger_step = "wallet \<Rightarrow> rat \<Rightarrow> js_error + (wallet \<Rightarrow> wallet) \<times> rat \<times> rat \<times> rat"

text \<open>From the locked row to the movement.\<close>

definition ledgerPostRow ::
  "direction \<Rightarrow> string \<Rightarrow> ledger_step \<Rightarrow> ledger_params \<Rightarrow> rat \<Rightarrow> string \<Rightarrow> wallet \<Rightarrow> (db, movement) tx" where
  "ledgerPostRow dir defaultType step params amount key row =
    bnd (of_sum (step row amount)) (\<lambda>(upd, availableAfter, pendingAfter, lockedAfter).
    bnd (update_wallet (w_id row) upd) (\<lambda>_.
    insertMovement row dir amount
      (or_str (p_movementType params) defaultType)
      (or_else (p_reference params) (or_else (p_referenceId params) None))
      (or_else (p_referenceType params) None)
      (or_else (p_referenceId params) None)
      key (case p_metadata params of Some m \<Rightarrow> m | None \<Rightarrow> Map.empty)
      availableAfter pendingAfter lockedAfter))"

definition ledgerPost ::
  "direction \<Rightarrow> string \<Rightarrow> ledger_step \<Rightarrow> ledger_params \<Rightarrow> rat \<Rightarrow> string \<Rightarrow> string \<Rightarrow> (db, movement) tx" where
  "ledgerPost dir defaultType step params amount key walletId =
    bnd (lockWalletRow walletId) (ledgerPostRow dir defaultType step params amount key)"

definition ledgerWriteTx ::
  "direction \<Rightarrow> string \<Rightarrow> ledger_step \<Rightarrow> ledger_params \<Rightarrow> rat \<Rightarrow> string \<Rightarrow> (db, movement \<times> bool) tx" where
  "ledgerWriteTx dir defaultType step params amount key =
    bnd (findMovementByIdempotency key) (\<lambda>existing. case existing of
      Some m \<Rightarrow> ret (m, True)
    | None \<Rightarrow>
        bnd (ensureWalletAccount (p_orgId params) (p_environment params) (p_asset params)) (\<lambda>wallet.
        bnd (require (w_status wallet = Active) (InfraLedgerError ''WALLET_INACTIVE'' 403)) (\<lambda>_.
        bnd (ledgerPost dir defaultType step params amount key (w_id wallet)) (\<lambda>movement.
        ret (movement, False)))))"

definition isUniqueViolation :: "js_error \<Rightarrow> bool" where
  "isUniqueViolation e \<longleftrightarrow> e = UniqueViolation"

definition ledgerCatch :: "string \<Rightarrow> js_error \<Rightarrow> (db, movement \<times> bool) act" where
  "ledgerCatch key err =
    (if is_InfraLedgerError err then athrow err
     else if isUniqueViolation err then
       abnd (run_tx (findMovementByIdempotency key)) (\<lambda>existing. case existing of
         Some m \<Rightarrow> aret (m, True)
       | None \<Rightarrow> athrow err)
     else athrow err)"

definition ledgerWrite :: "direction \<Rightarrow> string \<Rightarrow> ledger_step \<Rightarrow> ledger_params \<Rightarrow> (db, movement \<times> bool) act" where
  "ledgerWrite dir defaultType step params =
    abnd (aof_sum (parseAmount (p_amount params))) (\<lambda>amount.
    let key = normalizeKey (p_idempotencyKey params) in
    if key = [] then athrow (InfraLedgerError ''IDEMPOTENCY_REQUIRED'' 400)
    else acatch (run_tx (ledgerWriteTx dir defaultType step params amount key)) (ledgerCatch key))"

definition creditStep :: ledger_step where
  "creditStep row amount =
    (let availableAfter = toNumber (w_available row) + amount;
         pendingAfter = toNumber (w_pending row); lockedAfter = toNumber (w_locked row)
     in Inr (w_available_update (\<lambda>_. numeric7 availableAfter), availableAfter, pendingAfter, lockedAfter))"

definition creditOrgWallet :: "ledger_params \<Rightarrow> (db, movement \<times> bool) act" where
  "creditOrgWallet params = ledgerWrite Credit ''adjustment'' creditStep params"

definition creditPendingStep :: ledger_step where
  "creditPendingStep row amount =
    (let availableAfter = toNumber (w_available row);
         pendingAfter = round7 (toNumber (w_pending row) + amount);
         lockedAfter = toNumber (w_locked row)
     in Inr (w_pending_update (\<lambda>_. numeric7 pendingAfter), availableAfter, pendingAfter, lockedAfter))"

definition creditOrgWalletPending :: "ledger_params \<Rightarrow> (db, movement \<times> bool) act" where
  "creditOrgWalletPending params = ledgerWrite Credit ''collection_pending'' creditPendingStep params"

definition releasePendingStep :: ledger_step where
  "releasePendingStep row amount =
    (let pendingBal = toNumber (w_pending row) in
     if pendingBal < amount then Inl (InfraLedgerError ''INSUFFICIENT_PENDING'' 400)
     else
       let availableAfter = round7 (toNumber (w_available row) + amount);
           pendingAfter = round7 (pendingBal - amount);
           lockedAfter = toNumber (w_locked row)
       in Inr (\<lambda>w. w\<lparr>w_available := numeric7 availableAfter, w_pending := numeric7 pendingAfter\<rparr>,
               availableAfter, pendingAfter, lockedAfter))"

definition releasePendingToAvailable :: "ledger_params \<Rightarrow> (db, movement \<times> bool) act" where
  "releasePendingToAvailable params = ledgerWrite Credit ''collection_credit'' releasePendingStep params"

definition debitStep :: ledger_step where
  "debitStep row amount =
    (let available = toNumber (w_available row) in
     if available < amount then Inl (InfraLedgerError ''INSUFFICIENT_BALANCE'' 400)
     else
       let availableAfter = round7 (available - amount);
           pendingAfter = toNumber (w_pending row);
           lockedAfter = toNumber (w_locked row)
       in Inr (w_available_update (\<lambda>_. numeric7 availableAfter), availableAfter, pendingAfter, lockedAfter))"

definition debitOrgWallet :: "ledger_params \<Rightarrow> (db, movement \<times> bool) act" where
  "debitOrgWallet params = ledgerWrite Debit ''adjustment'' debitStep params"

definition lockStep :: ledger_step where
  "lockStep row amount =
    (let available = toNumber (w_available row) in
     if available < amount then Inl (InfraLedgerError ''INSUFFICIENT_BALANCE'' 400)
     else
       let availableAfter = round7 (available - amount);
           pendingAfter = toNumber (w_pending row);
           lockedAfter = round7 (toNumber (w_locked row) + amount)
       in Inr (\<lambda>w. w\<lparr>w_available := numeric7 availableAfter, w_locked := numeric7 lockedAfter\<rparr>,
               availableAfter, pendingAfter, lockedAfter))"

definition lockOrgFunds :: "ledger_params \<Rightarrow> (db, movement \<times> bool) act" where
  "lockOrgFunds params = ledgerWrite Debit ''funds_lock'' lockStep params"

definition releaseStep :: ledger_step where
  "releaseStep row amount =
    (let lockedBal = toNumber (w_locked row) in
     if lockedBal < amount then Inl (InfraLedgerError ''INSUFFICIENT_LOCKED'' 400)
     else
       let availableAfter = round7 (toNumber (w_available row) + amount);
           pendingAfter = toNumber (w_pending row);
           lockedAfter = round7 (lockedBal - amount)
       in Inr (\<lambda>w. w\<lparr>w_available := numeric7 availableAfter, w_locked := numeric7 lockedAfter\<rparr>,
               availableAfter, pendingAfter, lockedAfter))"

definition releaseOrgFunds :: "ledger_params \<Rightarrow> (db, movement \<times> bool) act" where
  "releaseOrgFunds params = ledgerWrite Credit ''funds_release'' releaseStep params"

definition finalizeStep :: ledger_step where
  "finalizeStep row amount =
    (let lockedBal = toNumber (w_locked row) in
     if lockedBal < amount then Inl (InfraLedgerError ''INSUFFICIENT_LOCKED'' 400)
     else
       let availableAfter = toNumber (w_available row);
           pendingAfter = toNumber (w_pending row);
           lockedAfter = round7 (lockedBal - amount)
       in Inr (w_locked_update (\<lambda>_. numeric7 lockedAfter), availableAfter, pendingAfter, lockedAfter))"

definition finalizeLockedDebit :: "ledger_params \<Rightarrow> (db, movement \<times> bool) act" where
  "finalizeLockedDebit params = ledgerWrite Debit ''payout_settle'' finalizeStep params"


section \<open>Two-legged writes\<close>

text \<open>
  \<open>transferAvailableBalance\<close>: both legs in one transaction. Rows are locked in the order of their
  ids; a read under the lock does not depend on that order. The function's \<open>catch\<close> block never
  runs: inside \<open>try\<close> the promise is returned without \<open>await\<close>, so a rejection leaves the function
  as it is, and the model has no handler either.
\<close>

record transfer_params =
  tp_senderOrgId :: string
  tp_recipientOrgId :: string
  tp_environment :: string
  tp_amount :: js_raw
  tp_asset :: "string option"
  tp_transferGroupId :: string
  tp_debitKey :: "string option"
  tp_creditKey :: "string option"
  tp_senderReferenceId :: string
  tp_recipientReferenceId :: string
  tp_metadata :: "jmap option"

definition INTERNAL_TRANSFER_DEBIT :: string where
  "INTERNAL_TRANSFER_DEBIT = ''internal_transfer_debit''"

definition INTERNAL_TRANSFER_CREDIT :: string where
  "INTERNAL_TRANSFER_CREDIT = ''internal_transfer_credit''"

definition lockWalletRows :: "string \<Rightarrow> string \<Rightarrow> (db, wallet \<times> wallet) tx" where
  "lockWalletRows a b = bnd (lockWalletRow a) (\<lambda>ra. bnd (lockWalletRow b) (\<lambda>rb. ret (ra, rb)))"

text \<open>The last part: update both rows and write both movements.\<close>

definition writeTransferLegs ::
  "transfer_params \<Rightarrow> rat \<Rightarrow> string \<Rightarrow> string \<Rightarrow> wallet \<Rightarrow> wallet \<Rightarrow> (db, movement \<times> movement \<times> bool) tx" where
  "writeTransferLegs params amount debitKey creditKey senderRow recipientRow =
    (let senderAvailableAfter = round7 (toNumber (w_available senderRow) - amount);
         recipientAvailableAfter = round7 (toNumber (w_available recipientRow) + amount);
         sharedMeta = (case tp_metadata params of Some m \<Rightarrow> m | None \<Rightarrow> Map.empty)
           (''transferGroupId'' \<mapsto> JStr (tp_transferGroupId params), ''rail'' \<mapsto> JStr ''internal_transfer'')
     in
     bnd (update_wallet (w_id senderRow) (w_available_update (\<lambda>_. numeric7 senderAvailableAfter))) (\<lambda>_.
     bnd (update_wallet (w_id recipientRow) (w_available_update (\<lambda>_. numeric7 recipientAvailableAfter))) (\<lambda>_.
     bnd (insertMovement senderRow Debit amount INTERNAL_TRANSFER_DEBIT
            (Some (tp_transferGroupId params)) (Some ''internal_transfer'') (Some (tp_senderReferenceId params))
            debitKey
            (sharedMeta(''role'' \<mapsto> JStr ''sender'', ''counterpartyOrgId'' \<mapsto> JStr (tp_recipientOrgId params)))
            senderAvailableAfter (toNumber (w_pending senderRow)) (toNumber (w_locked senderRow))) (\<lambda>debit.
     bnd (insertMovement recipientRow Credit amount INTERNAL_TRANSFER_CREDIT
            (Some (tp_transferGroupId params)) (Some ''internal_transfer'') (Some (tp_recipientReferenceId params))
            creditKey
            (sharedMeta(''role'' \<mapsto> JStr ''recipient'', ''counterpartyOrgId'' \<mapsto> JStr (tp_senderOrgId params)))
            recipientAvailableAfter (toNumber (w_pending recipientRow)) (toNumber (w_locked recipientRow))) (\<lambda>credit.
     ret (debit, credit, False))))))"

definition transferAvailableTx :: "transfer_params \<Rightarrow> (db, movement \<times> movement \<times> bool) tx" where
  "transferAvailableTx params =
    bnd (of_sum (parseAmount (tp_amount params))) (\<lambda>amount.
    let debitKey = normalizeKey (tp_debitKey params); creditKey = normalizeKey (tp_creditKey params) in
    bnd (require (debitKey \<noteq> [] \<and> creditKey \<noteq> []) (InfraLedgerError ''IDEMPOTENCY_REQUIRED'' 400)) (\<lambda>_.
    bnd (require (tp_senderOrgId params \<noteq> tp_recipientOrgId params) (InfraLedgerError ''SELF_TRANSFER'' 400)) (\<lambda>_.
    bnd (findMovementByIdempotency debitKey) (\<lambda>existingDebit.
    bnd (findMovementByIdempotency creditKey) (\<lambda>existingCredit.
    case (existingDebit, existingCredit) of
      (Some d, Some c) \<Rightarrow> ret (d, c, True)
    | (Some _, None) \<Rightarrow> fail (InfraLedgerError ''TRANSFER_INCONSISTENT'' 409)
    | (None, Some _) \<Rightarrow> fail (InfraLedgerError ''TRANSFER_INCONSISTENT'' 409)
    | (None, None) \<Rightarrow>
        bnd (ensureWalletAccount (tp_senderOrgId params) (tp_environment params) (tp_asset params)) (\<lambda>senderWallet.
        bnd (ensureWalletAccount (tp_recipientOrgId params) (tp_environment params) (tp_asset params)) (\<lambda>recipientWallet.
        bnd (require (w_env senderWallet = w_env recipientWallet) (InfraLedgerError ''CROSS_ENVIRONMENT'' 400)) (\<lambda>_.
        bnd (require (w_status senderWallet = Active) (InfraLedgerError ''WALLET_INACTIVE'' 403)) (\<lambda>_.
        bnd (require (w_status recipientWallet = Active) (InfraLedgerError ''RECIPIENT_INACTIVE'' 400)) (\<lambda>_.
        bnd (lockWalletRows (w_id senderWallet) (w_id recipientWallet)) (\<lambda>(senderRow, recipientRow).
        bnd (require (w_status senderRow = Active) (InfraLedgerError ''WALLET_INACTIVE'' 403)) (\<lambda>_.
        bnd (require (w_status recipientRow = Active) (InfraLedgerError ''RECIPIENT_INACTIVE'' 400)) (\<lambda>_.
        bnd (require (\<not> toNumber (w_available senderRow) < amount) (InfraLedgerError ''INSUFFICIENT_BALANCE'' 400)) (\<lambda>_.
        writeTransferLegs params amount debitKey creditKey senderRow recipientRow))))))))))))))"

definition transferAvailableBalance :: "transfer_params \<Rightarrow> (db, movement \<times> movement \<times> bool) act" where
  "transferAvailableBalance params = run_tx (transferAvailableTx params)"

text \<open>\<open>applyDayfiTransactionFee\<close>, always in the caller's transaction.\<close>

record fee_params =
  fp_payerOrgId :: string
  fp_revenueOrgId :: string
  fp_environment :: string
  fp_amount :: js_raw
  fp_transferGroupId :: string
  fp_payerReferenceId :: string
  fp_revenueReferenceId :: string
  fp_debitKey :: "string option"
  fp_creditKey :: "string option"
  fp_metadata :: "jmap option"

definition FEE_DEBIT :: string where
  "FEE_DEBIT = ''fee_debit''"

definition FEE_REVENUE :: string where
  "FEE_REVENUE = ''fee_revenue''"

definition writeFeeLegs ::
  "fee_params \<Rightarrow> rat \<Rightarrow> string \<Rightarrow> string \<Rightarrow> wallet \<Rightarrow> wallet \<Rightarrow> (db, movement \<times> movement \<times> bool) tx" where
  "writeFeeLegs params amount debitKey creditKey payerRow revenueRow =
    (let payerAvailableAfter = round7 (toNumber (w_available payerRow) - amount);
         revenueAvailableAfter = round7 (toNumber (w_available revenueRow) + amount);
         shared = (case fp_metadata params of Some m \<Rightarrow> m | None \<Rightarrow> Map.empty)
           (''transferGroupId'' \<mapsto> JStr (fp_transferGroupId params),
            ''feeType'' \<mapsto> JStr ''DAYFI_TRANSACTION_FEE'', ''feeCurrency'' \<mapsto> JStr ''USDC'');
         reference = Some (''fee:'' @ fp_transferGroupId params)
     in
     bnd (update_wallet (w_id payerRow) (w_available_update (\<lambda>_. numeric7 payerAvailableAfter))) (\<lambda>_.
     bnd (update_wallet (w_id revenueRow) (w_available_update (\<lambda>_. numeric7 revenueAvailableAfter))) (\<lambda>_.
     bnd (insertMovement payerRow Debit amount FEE_DEBIT reference
            (Some ''transaction_fee'') (Some (fp_payerReferenceId params)) debitKey
            (shared(''role'' \<mapsto> JStr ''customer_fee''))
            payerAvailableAfter (toNumber (w_pending payerRow)) (toNumber (w_locked payerRow))) (\<lambda>debit.
     bnd (insertMovement revenueRow Credit amount FEE_REVENUE reference
            (Some ''transaction_fee'') (Some (fp_revenueReferenceId params)) creditKey
            (shared(''role'' \<mapsto> JStr ''fee_revenue''))
            revenueAvailableAfter (toNumber (w_pending revenueRow)) (toNumber (w_locked revenueRow))) (\<lambda>credit.
     ret (debit, credit, False))))))"

definition applyDayfiTransactionFee :: "fee_params \<Rightarrow> (db, (movement \<times> movement \<times> bool) option) tx" where
  "applyDayfiTransactionFee params =
    bnd (of_sum (parseAmount (fp_amount params))) (\<lambda>amount.
    if amount \<le> 0 then ret None
    else
      let debitKey = normalizeKey (fp_debitKey params); creditKey = normalizeKey (fp_creditKey params) in
      bnd (require (debitKey \<noteq> [] \<and> creditKey \<noteq> []) (InfraLedgerError ''IDEMPOTENCY_REQUIRED'' 400)) (\<lambda>_.
      bnd (findMovementByIdempotency debitKey) (\<lambda>existingDebit.
      bnd (findMovementByIdempotency creditKey) (\<lambda>existingCredit.
      case (existingDebit, existingCredit) of
        (Some d, Some c) \<Rightarrow> ret (Some (d, c, True))
      | _ \<Rightarrow>
        bnd (ensureWalletAccount (fp_payerOrgId params) (fp_environment params) (Some DEFAULT_INFRA_ASSET)) (\<lambda>payerWallet.
        bnd (ensureWalletAccount (fp_revenueOrgId params) (fp_environment params) (Some DEFAULT_INFRA_ASSET)) (\<lambda>revenueWallet.
        bnd (require (w_status payerWallet = Active) (InfraLedgerError ''WALLET_INACTIVE'' 403)) (\<lambda>_.
        bnd (require (w_status revenueWallet = Active) (InfraLedgerError ''WALLET_INACTIVE'' 403)) (\<lambda>_.
        bnd (lockWalletRows (w_id payerWallet) (w_id revenueWallet)) (\<lambda>(payerRow, revenueRow).
        bnd (require (\<not> toNumber (w_available payerRow) < amount) (InfraLedgerError ''INSUFFICIENT_BALANCE'' 400)) (\<lambda>_.
        bnd (writeFeeLegs params amount debitKey creditKey payerRow revenueRow) (\<lambda>r. ret (Some r))))))))))))"

section \<open>Evaluation\<close>

text \<open>
  The two-legged writes are evaluated only on explicit arguments, after the rows and the identifiers
  have been read, not symbolically inside the continuations that mention them.
\<close>

lemmas writeTransferLegs_code [code] = writeTransferLegs_def
  [where senderRow = "\<lparr>w_id = i1, w_org = o1, w_env = e1, w_asset = a1, w_status = st1, w_available = av1, w_pending = pe1, w_locked = lo1\<rparr>"
     and recipientRow = "\<lparr>w_id = i2, w_org = o2, w_env = e2, w_asset = a2, w_status = st2, w_available = av2, w_pending = pe2, w_locked = lo2\<rparr>"]
  for i1 o1 e1 a1 st1 av1 pe1 lo1 i2 o2 e2 a2 st2 av2 pe2 lo2

lemmas writeFeeLegs_code [code] = writeFeeLegs_def
  [where payerRow = "\<lparr>w_id = i1, w_org = o1, w_env = e1, w_asset = a1, w_status = st1, w_available = av1, w_pending = pe1, w_locked = lo1\<rparr>"
     and revenueRow = "\<lparr>w_id = i2, w_org = o2, w_env = e2, w_asset = a2, w_status = st2, w_available = av2, w_pending = pe2, w_locked = lo2\<rparr>"]
  for i1 o1 e1 a1 st1 av1 pe1 lo1 i2 o2 e2 a2 st2 av2 pe2 lo2

lemmas transferAvailableTx_code [code] = transferAvailableTx_def
  [where params = "\<lparr>tp_senderOrgId = so, tp_recipientOrgId = ro, tp_environment = en, tp_amount = am, tp_asset = as, tp_transferGroupId = tg, tp_debitKey = dk, tp_creditKey = ck, tp_senderReferenceId = c # sr, tp_recipientReferenceId = rr, tp_metadata = md\<rparr>"]
  for so ro en am as tg dk ck c sr rr md

lemmas applyDayfiTransactionFee_code [code] = applyDayfiTransactionFee_def
  [where params = "\<lparr>fp_payerOrgId = po, fp_revenueOrgId = ro, fp_environment = en, fp_amount = am, fp_transferGroupId = tg, fp_payerReferenceId = pr, fp_revenueReferenceId = c # rr, fp_debitKey = dk, fp_creditKey = ck, fp_metadata = md\<rparr>"]
  for po ro en am tg pr c rr dk ck md

end
