(* ===== verification/Ledger_Invariant.thy ===== *)
theory Ledger_Invariant
  imports Ledger
begin

text \<open>
  The invariant of the ledger tables and what every write operation does to them. The invariant
  says that a wallet row is the projection of its movements (the balances are those its newest
  movement records), that balances are on the seven-decimal grid and never negative, and that ids,
  wallet keys and idempotency keys are unique. The contract that the balance computations of the
  write operations share is a locale; its lemmas give preservation, atomicity, idempotency and the
  change of the total for each operation.
\<close>

section \<open>The invariant\<close>

definition wallet_grid :: "wallet \<Rightarrow> bool" where
  "wallet_grid w \<longleftrightarrow> on_grid (w_available w) \<and> on_grid (w_pending w) \<and> on_grid (w_locked w)"

definition projected :: "movement list \<Rightarrow> wallet \<Rightarrow> bool" where
  "projected ms w = (case find_row m_wallet (w_id w) ms of
     None \<Rightarrow> w_available w = 0 \<and> w_pending w = 0 \<and> w_locked w = 0
   | Some m \<Rightarrow> w_available w = m_available_after m \<and> w_pending w = m_pending_after m
       \<and> w_locked w = m_locked_after m)"

definition movement_of :: "wallet list \<Rightarrow> movement \<Rightarrow> bool" where
  "movement_of ws m = (case find_row w_id (m_wallet m) ws of
     None \<Rightarrow> False
   | Some w \<Rightarrow> (m_org m, m_env m, m_asset m) = wallet_key w)"

definition movement_ok :: "movement \<Rightarrow> bool" where
  "movement_ok m \<longleftrightarrow> 0 < m_amount m \<and> on_grid (m_amount m)"

definition ledger_inv :: "db \<Rightarrow> bool" where
  "ledger_inv s \<longleftrightarrow>
     distinct (map w_id (wallets s)) \<and> distinct (map wallet_key (wallets s))
     \<and> list_all (\<lambda>w. wallet_ok w \<and> wallet_grid w \<and> wallet_fits w \<and> org_exists (w_org w) s) (wallets s)
     \<and> distinct (map m_id (movements s)) \<and> distinct (map m_key (movements s))
     \<and> list_all (\<lambda>m. movement_ok m \<and> movement_of (wallets s) m) (movements s)
     \<and> list_all (projected (movements s)) (wallets s)"

lemma ledger_invD:
  assumes "ledger_inv s"
  shows "distinct (map w_id (wallets s))" "distinct (map wallet_key (wallets s))"
    "distinct (map m_id (movements s))" "distinct (map m_key (movements s))"
    "w \<in> set (wallets s) \<Longrightarrow> wallet_ok w" "w \<in> set (wallets s) \<Longrightarrow> wallet_grid w"
    "w \<in> set (wallets s) \<Longrightarrow> org_exists (w_org w) s"
    "w \<in> set (wallets s) \<Longrightarrow> projected (movements s) w"
    "m \<in> set (movements s) \<Longrightarrow> movement_ok m"
    "m \<in> set (movements s) \<Longrightarrow> movement_of (wallets s) m"
    "w \<in> set (wallets s) \<Longrightarrow> wallet_fits w"
  using assms by (auto simp: ledger_inv_def list_all_iff)

definition wallet_total :: "wallet \<Rightarrow> rat" where
  "wallet_total w = w_available w + w_pending w + w_locked w"

definition money :: "db \<Rightarrow> rat" where
  "money s = sum_list (map wallet_total (wallets s))"

text \<open>Fields outside the ledger's two tables do not matter.\<close>

lemma ledger_inv_cong:
  "wallets s = wallets s' \<Longrightarrow> movements s = movements s' \<Longrightarrow> orgs s = orgs s' \<Longrightarrow> ledger_inv s = ledger_inv s'"
  by (simp add: ledger_inv_def org_exists_def)

lemma ledger_inv_uuid [simp]: "ledger_inv (s\<lparr>uuid_next := n\<rparr>) = ledger_inv s"
  by (rule ledger_inv_cong) simp_all

section \<open>The wallet of an organisation\<close>

lemma movement_of_wallet: "movement_of ws m \<Longrightarrow> m_wallet m \<in> w_id ` set ws"
  by (force simp: movement_of_def split: option.splits dest!: find_row_Some)

lemma ledger_inv_new_wallet:
  assumes inv: "ledger_inv s" and "w_id w \<notin> w_id ` set (wallets s)"
    and "wallet_key w \<notin> wallet_key ` set (wallets s)" and "org_exists (w_org w) s"
    and "w_available w = 0" "w_pending w = 0" "w_locked w = 0"
  shows "ledger_inv (s\<lparr>uuid_next := n, wallets := w # wallets s\<rparr>)"
proof -
  have "m_wallet m \<noteq> w_id w" if "m \<in> set (movements s)" for m
    using movement_of_wallet [OF ledger_invD(10) [OF inv that]] assms(2) by auto
  then have "find_row m_wallet (w_id w) (movements s) = None"
    and "\<forall>m \<in> set (movements s). movement_of (w # wallets s) m = movement_of (wallets s) m"
    by (metis find_row_None imageE, metis find_row_Cons(1) movement_of_def)
  moreover have "wallet_ok w" "wallet_grid w" "wallet_fits w"
    using assms(5-7) by (simp_all add: wallet_ok_def wallet_grid_def wallet_fits_def fits28_def)
  ultimately show ?thesis
    using assms by (simp add: ledger_inv_def list_all_iff org_exists_def projected_def)
qed

lemma ensureWalletAccount_Inr:
  assumes inv: "ledger_inv s" and run: "ensureWalletAccount i e a s = Inr (w, s1)"
  shows "ledger_inv s1" "find_row w_id (w_id w) (wallets s1) = Some w" "w \<in> set (wallets s1)"
    "wallet_key w = (i, normalizeEnv e, normalizeAsset a)" "movements s1 = movements s"
    "money s1 = money s" "orgs s1 = orgs s"
    "wallets s1 = wallets s \<or> (wallets s1 = w # wallets s \<and> w_status w = Active
       \<and> w_id w \<notin> w_id ` set (wallets s) \<and> wallet_key w \<notin> wallet_key ` set (wallets s)
       \<and> w_available w = 0 \<and> w_pending w = 0 \<and> w_locked w = 0)"
proof -
  let ?k = "(i, normalizeEnv e, normalizeAsset a)"
  have "ledger_inv s1 \<and> w \<in> set (wallets s1) \<and> wallet_key w = ?k \<and> movements s1 = movements s
      \<and> money s1 = money s \<and> orgs s1 = orgs s \<and> (wallets s1 = wallets s \<or>
        (wallets s1 = w # wallets s \<and> w_status w = Active
       \<and> w_id w \<notin> w_id ` set (wallets s) \<and> wallet_key w \<notin> wallet_key ` set (wallets s)
       \<and> w_available w = 0 \<and> w_pending w = 0 \<and> w_locked w = 0))"
  proof (cases "find_row wallet_key ?k (wallets s)")
    case (Some x)
    with run inv show ?thesis
      by (auto simp: ensureWalletAccount_def Let_def bnd_def dest: find_row_Some)
  next
    case None
    with run obtain j where "w = \<lparr>w_id = j, w_org = i, w_env = normalizeEnv e, w_asset = normalizeAsset a,
        w_status = Active, w_available = 0, w_pending = 0, w_locked = 0\<rparr>"
      and "j \<notin> w_id ` set (wallets s)" and "wallet_key w \<notin> wallet_key ` set (wallets s)"
      and "org_exists i s"
      and s1: "s1 = s\<lparr>uuid_next := Suc (uuid_next s), wallets := w # wallets s\<rparr>"
      by (auto simp: ensureWalletAccount_def Let_def tx_simps org_exists_def split: option.splits)
    with inv show ?thesis
      by (auto simp: wallet_key_def money_def wallet_total_def intro!: ledger_inv_new_wallet)
  qed
  then show "ledger_inv s1" "w \<in> set (wallets s1)" "wallet_key w = ?k" "movements s1 = movements s"
    "money s1 = money s" "orgs s1 = orgs s"
    "wallets s1 = wallets s \<or> (wallets s1 = w # wallets s \<and> w_status w = Active
       \<and> w_id w \<notin> w_id ` set (wallets s) \<and> wallet_key w \<notin> wallet_key ` set (wallets s)
       \<and> w_available w = 0 \<and> w_pending w = 0 \<and> w_locked w = 0)"
    by blast+
  then show "find_row w_id (w_id w) (wallets s1) = Some w"
    using ledger_invD(1) [of s1] by (intro find_row_mem) auto
qed

section \<open>One balance update with its movement\<close>

text \<open>What a committed write does: the row of one wallet and one new movement.\<close>

definition post_write :: "db \<Rightarrow> wallet \<Rightarrow> movement \<Rightarrow> nat \<Rightarrow> db" where
  "post_write s w' m n = s\<lparr>wallets := update_rows w_id (w_id w') (\<lambda>_. w') (wallets s),
     uuid_next := n, movements := m # movements s\<rparr>"

lemma update_rows_const:
  assumes "distinct (map key rows)" and "find_row key k rows = Some r"
  shows "update_rows key k f rows = update_rows key k (\<lambda>_. f r) rows"
  unfolding update_rows_def
proof (rule map_cong [OF refl])
  fix x assume "x \<in> set rows"
  then have "key x = k \<Longrightarrow> x = r"
    using assms find_row_mem [of key rows x] by auto
  then show "(if key x = k then f x else x) = (if key x = k then f r else x)" by simp
qed

lemma update_rows_const_keys:
  assumes "distinct (map key rows)" and "find_row key k rows = Some r" and "g w' = g r"
  shows "map g (update_rows key k (\<lambda>_. w') rows) = map g rows"
  unfolding update_rows_def map_map
proof (rule map_cong [OF refl])
  fix x assume "x \<in> set rows"
  then have "key x = k \<Longrightarrow> x = r"
    using assms find_row_mem [of key rows x] by auto
  with assms(3) show "(g \<circ> (\<lambda>r. if key r = k then w' else r)) x = g x" by auto
qed

lemma find_row_update_const:
  assumes "find_row key k rows = Some r" and "key w' = k"
  shows "find_row key k' (update_rows key k (\<lambda>_. w') rows) =
    (if k' = k then Some w' else find_row key k' rows)"
proof (cases "k' = k")
  case True
  have "find_row key k rows = Some r \<Longrightarrow> find_row key k (update_rows key k (\<lambda>_. w') rows) = Some w'"
    using assms(2) by (induction rows) (auto simp: update_rows_def split: if_splits)
  with True assms show ?thesis by simp
next
  case False
  then show ?thesis using assms(2) by (induction rows) (auto simp: update_rows_def find_row_def)
qed

text \<open>The row after a write, against the row before it.\<close>

definition same_wallet :: "wallet \<Rightarrow> wallet \<Rightarrow> bool" where
  "same_wallet w w' \<longleftrightarrow> w_id w' = w_id w \<and> wallet_key w' = wallet_key w \<and> w_status w' = w_status w"

definition records :: "movement \<Rightarrow> wallet \<Rightarrow> bool" where
  "records m w \<longleftrightarrow> m_wallet m = w_id w \<and> (m_org m, m_env m, m_asset m) = wallet_key w
     \<and> m_available_after m = w_available w \<and> m_pending_after m = w_pending w
     \<and> m_locked_after m = w_locked w"

lemma records_fits: "records m w \<Longrightarrow> movement_fits m \<Longrightarrow> wallet_fits w"
  by (simp add: records_def movement_fits_def wallet_fits_def)

lemma org_of_key: "wallet_key w' = wallet_key w \<Longrightarrow> w_org w' = w_org w"
  by (simp add: wallet_key_def)

lemma ledger_inv_write:
  assumes inv: "ledger_inv s" and row: "find_row w_id (w_id w) (wallets s) = Some w"
    and same: "same_wallet w w'" and ok: "wallet_ok w'" "wallet_grid w'" "wallet_fits w'"
    and rec: "records m w'" and mok: "movement_ok m"
    and fresh: "m_id m \<notin> m_id ` set (movements s)" "m_key m \<notin> m_key ` set (movements s)"
  shows "ledger_inv (post_write s w' m n)"
proof -
  let ?ws = "update_rows w_id (w_id w') (\<lambda>_. w') (wallets s)"
  note d = ledger_invD [OF inv]
  have id: "w_id w' = w_id w" and key: "wallet_key w' = wallet_key w"
    using same by (auto simp: same_wallet_def)
  have row': "find_row w_id (w_id w') (wallets s) = Some w" using row id by simp
  have find: "find_row w_id k ?ws = (if k = w_id w' then Some w' else find_row w_id k (wallets s))" for k
    by (rule find_row_update_const [OF row']) simp
  have keys: "map w_id ?ws = map w_id (wallets s)" "map wallet_key ?ws = map wallet_key (wallets s)"
    using update_rows_const_keys [OF d(1) row', of w_id w'] update_rows_const_keys [OF d(1) row', of wallet_key w']
      id key by simp_all
  have mem: "x \<in> set ?ws \<Longrightarrow> x = w' \<or> (x \<in> set (wallets s) \<and> w_id x \<noteq> w_id w')" for x
    by (auto simp: set_update_rows split: if_splits)
  have mof: "movement_of ?ws y = movement_of (wallets s) y" for y
    using find row' key by (simp add: movement_of_def)
  have "wallet_ok x \<and> wallet_grid x \<and> wallet_fits x \<and> org_exists (w_org x) s" if "x \<in> set ?ws" for x
    using mem [OF that] ok d(5-7) [of x] d(11) [of x] d(7) [of w] org_of_key [OF key] find_row_Some [OF row] by auto
  moreover have "projected (m # movements s) x" if "x \<in> set ?ws" for x
    using mem [OF that] rec d(8) [of x] by (auto simp: projected_def records_def)
  moreover have "movement_of ?ws m"
    using rec find by (simp add: movement_of_def records_def)
  ultimately show ?thesis
    using d(1-4) keys fresh mok d(9,10) mof
    by (auto simp: ledger_inv_def post_write_def list_all_iff org_exists_def)
qed

lemma money_write:
  assumes inv: "ledger_inv s" and row: "find_row w_id (w_id w) (wallets s) = Some w"
    and same: "same_wallet w w'"
  shows "money (post_write s w' m n) = money s - wallet_total w + wallet_total w'"
  using sum_list_update_rows [OF ledger_invD(1) [OF inv], of "w_id w'" w wallet_total "\<lambda>_. w'"] row same
  by (simp add: money_def post_write_def same_wallet_def)


section \<open>The contract of a write operation\<close>

text \<open>
  Every balance computation of the ledger obeys this contract: on a row with non-negative balances
  on the grid and a non-negative amount on the grid it either refuses with a ledger error, or
  returns columns to write whose values are non-negative, on the grid and the ones the movement
  records, and the wallet's total changes by \<open>delta amount\<close>.
\<close>

definition row_after :: "wallet \<Rightarrow> rat \<times> rat \<times> rat \<Rightarrow> wallet" where
  "row_after row = (\<lambda>(a, p, l). row\<lparr>w_available := a, w_pending := p, w_locked := l\<rparr>)"

lemma row_after_sel [simp]:
  "w_id (row_after row b) = w_id row" "wallet_key (row_after row b) = wallet_key row"
  "w_status (row_after row b) = w_status row" "w_available (row_after row (a, p, l)) = a"
  "w_pending (row_after row (a, p, l)) = p" "w_locked (row_after row (a, p, l)) = l"
  by (simp_all add: row_after_def wallet_key_def split: prod.splits)

locale write_contract =
  fixes step :: ledger_step and delta :: "rat \<Rightarrow> rat"
  assumes step_Inr: "wallet_ok row \<Longrightarrow> wallet_grid row \<Longrightarrow> 0 \<le> amount \<Longrightarrow> on_grid amount \<Longrightarrow>
      step row amount = Inr (write, a, p, l) \<Longrightarrow>
      write row = row_after row (a, p, l) \<and> wallet_ok (write row) \<and> wallet_grid (write row)
      \<and> wallet_total (write row) = wallet_total row + delta amount"
    and step_Inl: "step row amount = Inl e \<Longrightarrow> is_InfraLedgerError e"
begin

text \<open>The transaction: a replay, or exactly one row and one movement.\<close>

lemma tx_replay:
  "find_row m_key key (movements s) = Some m \<Longrightarrow> ledgerWriteTx dir ty step params amount key s = Inr ((m, True), s)"
  by (simp add: ledgerWriteTx_def findMovementByIdempotency_def bnd_def)

lemma post_Inr:
  assumes inv: "ledger_inv s" and amount: "0 \<le> amount" "on_grid amount"
    and row: "find_row w_id i (wallets s) = Some w"
    and run: "ledgerPost dir ty step params amount key i s = Inr (m, s')"
  obtains upd a p l n where "step w amount = Inr (upd, a, p, l)"
    "s' = post_write s (row_after w (a, p, l)) m n" "records m (row_after w (a, p, l))"
    "m_key m = key" "m_amount m = amount" "m_direction m = dir"
    "m_type m = or_str (p_movementType params) ty" "movement_ok m"
    "m_id m \<notin> m_id ` set (movements s)" "m_key m \<notin> m_key ` set (movements s)"
    "wallet_fits (row_after w (a, p, l))"
proof -
  have w: "w \<in> set (wallets s)" "w_id w = i" using find_row_Some [OF row] by auto
  from run row w(2) obtain upd a p l where st: "step w amount = Inr (upd, a, p, l)"
    and ins: "insertMovement w dir amount (or_str (p_movementType params) ty)
      (or_else (p_reference params) (or_else (p_referenceId params) None))
      (or_else (p_referenceType params) None) (or_else (p_referenceId params) None)
      key (case p_metadata params of Some m \<Rightarrow> m | None \<Rightarrow> Map.empty) a p l
      (s\<lparr>wallets := update_rows w_id i upd (wallets s)\<rparr>) = Inr (m, s')"
    and upd: "\<forall>x \<in> set (wallets s). w_id x = i \<longrightarrow> wallet_fits (upd x)"
    by (auto simp: ledgerPost_def ledgerPostRow_def lockWalletRow_def tx_simps)
  have fits: "wallet_fits (upd w)" using upd w by blast
  have wr: "wallet_ok w" "wallet_grid w" using ledger_invD(5,6) [OF inv w(1)] by auto
  note c = step_Inr [OF wr amount st]
  have grid: "on_grid a" "on_grid p" "on_grid l" using c by (auto simp: wallet_grid_def)
  have rows: "update_rows w_id i upd (wallets s) = update_rows w_id i (\<lambda>_. row_after w (a, p, l)) (wallets s)"
    using update_rows_const [OF ledger_invD(1) [OF inv] row, of upd] c by simp
  show thesis
    by (rule that [OF st, where n = "Suc (uuid_next s)"])
      (use ins grid amount w fits c in \<open>auto simp: insertMovement_def tx_simps rows post_write_def records_def
        wallet_key_def row_after_def movement_ok_def\<close>)
qed

lemma tx_commit:
  assumes inv: "ledger_inv s" and amount: "0 \<le> amount" "on_grid amount"
    and none: "find_row m_key key (movements s) = None"
    and run: "ledgerWriteTx dir ty step params amount key s = Inr (r, s')"
  obtains w s1 m upd a p l n where
    "r = (m, False)" "ensureWalletAccount (p_orgId params) (p_environment params) (p_asset params) s = Inr (w, s1)"
    "w_status w = Active" "step w amount = Inr (upd, a, p, l)"
    "s' = post_write s1 (row_after w (a, p, l)) m n" "records m (row_after w (a, p, l))"
    "m_key m = key" "m_amount m = amount" "m_direction m = dir"
    "m_type m = or_str (p_movementType params) ty" "movement_ok m"
    "m_id m \<notin> m_id ` set (movements s)" "m_key m \<notin> m_key ` set (movements s)"
    "wallet_fits (row_after w (a, p, l))"
proof -
  from run none obtain w s1 m where r: "r = (m, False)"
    and ens: "ensureWalletAccount (p_orgId params) (p_environment params) (p_asset params) s = Inr (w, s1)"
    and act: "w_status w = Active" and post: "ledgerPost dir ty step params amount key (w_id w) s1 = Inr (m, s')"
    by (auto simp: ledgerWriteTx_def findMovementByIdempotency_def tx_simps)
  note e = ensureWalletAccount_Inr [OF inv ens]
  show thesis
    by (rule post_Inr [OF e(1) amount e(2) post]) (rule that [OF r ens act], simp_all add: e(5))
qed

lemma tx_inv:
  assumes inv: "ledger_inv s" and amount: "0 \<le> amount" "on_grid amount"
    and run: "ledgerWriteTx dir ty step params amount key s = Inr ((m, dup), s')"
  shows "ledger_inv s'" and "m \<in> set (movements s')" and "m_key m = key"
    and "movements s' = (if dup then movements s else m # movements s)"
    and "money s' = money s + (if dup then 0 else delta amount)"
    and "dup \<Longrightarrow> s' = s" and "orgs s' = orgs s"
proof -
  have "ledger_inv s' \<and> m \<in> set (movements s') \<and> m_key m = key
    \<and> movements s' = (if dup then movements s else m # movements s)
    \<and> money s' = money s + (if dup then 0 else delta amount) \<and> (dup \<longrightarrow> s' = s) \<and> orgs s' = orgs s"
  proof (cases "find_row m_key key (movements s)")
    case (Some x)
    with run inv show ?thesis by (auto simp: tx_replay dest: find_row_Some)
  next
    case None
    from tx_commit [OF inv amount this run] obtain w s1 m' upd a p l n where
      r: "(m, dup) = (m', False)" and ens: "ensureWalletAccount (p_orgId params) (p_environment params) (p_asset params) s = Inr (w, s1)"
      and st: "step w amount = Inr (upd, a, p, l)" and s': "s' = post_write s1 (row_after w (a, p, l)) m' n"
      and rec: "records m' (row_after w (a, p, l))" and key: "m_key m' = key" and mok: "movement_ok m'"
      and fresh: "m_id m' \<notin> m_id ` set (movements s)" "m_key m' \<notin> m_key ` set (movements s)"
      and fits: "wallet_fits (row_after w (a, p, l))"
      .
    have m: "m' = m" "\<not> dup" using r by auto
    note e = ensureWalletAccount_Inr [OF inv ens]
    have c: "upd w = row_after w (a, p, l) \<and> wallet_ok (upd w) \<and> wallet_grid (upd w)
        \<and> wallet_total (upd w) = wallet_total w + delta amount"
      by (rule step_Inr [OF _ _ amount st]) (use ledger_invD(5,6) [OF e(1) e(3)] in auto)
    have same: "same_wallet w (row_after w (a, p, l))" by (simp add: same_wallet_def)
    have total: "wallet_total (row_after w (a, p, l)) = wallet_total w + delta amount"
      using c by (elim conjE) simp
    have "ledger_inv s'"
      unfolding s' by (rule ledger_inv_write [OF e(1,2) same _ _ fits rec mok]) (use c fresh e(5) in auto)
    moreover have "money s' = money s + delta amount"
      unfolding s' using money_write [OF e(1,2) same] total e(6) by simp
    ultimately show ?thesis using m key e(5,7) by (simp add: s' post_write_def)
  qed
  then show "ledger_inv s'" "m \<in> set (movements s')" "m_key m = key"
    "movements s' = (if dup then movements s else m # movements s)"
    "money s' = money s + (if dup then 0 else delta amount)" "dup \<Longrightarrow> s' = s" "orgs s' = orgs s"
    by blast+
qed

text \<open>The operation: an error changes nothing, otherwise the transaction's result stands.\<close>

lemma op_cases:
  assumes "ledgerWrite dir ty step params s = (r, s')"
  obtains (err) e where "r = Inl e" "s' = s"
  | (ok) m dup amount where "r = Inr (m, dup)" "parseAmount (p_amount params) = Inr amount"
      "normalizeKey (p_idempotencyKey params) \<noteq> []"
      "ledgerWriteTx dir ty step params amount (normalizeKey (p_idempotencyKey params)) s = Inr ((m, dup), s')"
proof (cases "parseAmount (p_amount params)")
  case (Inl e)
  with assms err show thesis by (auto simp: ledgerWrite_def)
next
  case (Inr amount)
  let ?key = "normalizeKey (p_idempotencyKey params)"
  show thesis
  proof (cases "?key = []")
    case True
    with assms err Inr show thesis by (auto simp: ledgerWrite_def)
  next
    case False
    show thesis
    proof (cases "ledgerWriteTx dir ty step params amount ?key s")
      case tx: (Inl e)
      then have "find_row m_key ?key (movements s) = None"
        by (cases "find_row m_key ?key (movements s)") (simp_all add: tx_replay)
      with assms Inr False tx have "r = Inl e \<and> s' = s"
        by (auto simp: ledgerWrite_def Let_def ledgerCatch_def findMovementByIdempotency_def
            split: if_splits)
      with err show thesis by blast
    next
      case tx: (Inr x)
      then obtain m dup s1 where "x = ((m, dup), s1)" by (cases x) auto
      with assms Inr False tx ok show thesis by (auto simp: ledgerWrite_def Let_def)
    qed
  qed
qed

lemma parseAmount_grid: "parseAmount raw = Inr amount \<Longrightarrow> 0 \<le> amount \<and> on_grid amount"
  by (auto simp: parseAmount_def intro: round7_nonneg split: js_num.splits if_splits)

theorem op_inv: "ledger_inv s \<Longrightarrow> ledgerWrite dir ty step params s = (r, s') \<Longrightarrow> ledger_inv s'"
  by (erule op_cases) (auto dest!: parseAmount_grid dest: tx_inv(1))

theorem op_atomic: "ledgerWrite dir ty step params s = (Inl e, s') \<Longrightarrow> s' = s"
  by (erule op_cases) auto

theorem op_money:
  assumes "ledger_inv s" and "ledgerWrite dir ty step params s = (Inr (m, dup), s')"
  shows "money s' = money s + (if dup then 0 else delta (m_amount m))"
  using assms(2)
proof (cases rule: op_cases)
  case (ok m' dup' amount)
  note g = parseAmount_grid [OF ok(2)]
  show ?thesis
  proof (cases "find_row m_key (normalizeKey (p_idempotencyKey params)) (movements s)")
    case (Some x)
    with ok tx_replay [OF Some, of dir ty params amount] show ?thesis by simp
  next
    case None
    have "m_amount m = amount"
      by (rule tx_commit [OF assms(1) g [THEN conjunct1] g [THEN conjunct2] None ok(4)]) (use ok(1) in auto)
    moreover have "money s' = money s + (if dup' then 0 else delta amount)"
      by (rule tx_inv(5) [OF assms(1) g [THEN conjunct1] g [THEN conjunct2] ok(4)])
    ultimately show ?thesis using ok(1) by simp
  qed
qed simp

theorem op_grows:
  assumes "ledger_inv s" and "ledgerWrite dir ty step params s = (r, s')"
  shows "\<exists>new. movements s' = new @ movements s \<and> length new \<le> 1"
  using assms(2)
proof (cases rule: op_cases)
  case (err e)
  then show ?thesis by (intro exI [of _ "[]"]) simp
next
  case (ok m dup amount)
  have "movements s' = (if dup then movements s else m # movements s)"
    by (rule tx_inv(4) [OF assms(1) _ _ ok(4)]) (use parseAmount_grid [OF ok(2)] in auto)
  then show ?thesis by (intro exI [of _ "if dup then [] else [m]"]) simp
qed

theorem op_recorded:
  assumes "ledger_inv s" and "ledgerWrite dir ty step params s = (Inr (m, dup), s')"
  shows "m \<in> set (movements s')" and "m_key m = normalizeKey (p_idempotencyKey params)"
proof -
  have "m \<in> set (movements s') \<and> m_key m = normalizeKey (p_idempotencyKey params)"
    using assms(2)
  proof (cases rule: op_cases)
    case (ok m' dup' amount)
    then show ?thesis
      using tx_inv(2,3) [OF assms(1) _ _ ok(4)] parseAmount_grid [OF ok(2)] by auto
  qed simp
  then show "m \<in> set (movements s')" "m_key m = normalizeKey (p_idempotencyKey params)" by auto
qed

text \<open>A key that has a movement is answered with it, whatever the other parameters are.\<close>

theorem op_replay:
  assumes "ledger_inv s" and "m \<in> set (movements s)" and "m_key m = normalizeKey (p_idempotencyKey params)"
    and "m_key m \<noteq> []" and "parseAmount (p_amount params) = Inr amount"
  shows "ledgerWrite dir ty step params s = (Inr (m, True), s)"
proof -
  have "find_row m_key (normalizeKey (p_idempotencyKey params)) (movements s) = Some m"
    using find_row_mem [OF ledger_invD(4) [OF assms(1)] assms(2)] assms(3) by simp
  from tx_replay [OF this] assms(3-5) show ?thesis by (simp add: ledgerWrite_def Let_def)
qed

end

section \<open>The seven operations\<close>

lemma row_after_partial:
  "row_after row (a, w_pending row, w_locked row) = row\<lparr>w_available := a\<rparr>"
  "row_after row (w_available row, p, w_locked row) = row\<lparr>w_pending := p\<rparr>"
  "row_after row (w_available row, w_pending row, l) = row\<lparr>w_locked := l\<rparr>"
  "row_after row (a, p, w_locked row) = row\<lparr>w_available := a, w_pending := p\<rparr>"
  "row_after row (a, w_pending row, l) = row\<lparr>w_available := a, w_locked := l\<rparr>"
  by (cases row; simp add: row_after_def)+

lemmas step_defs = creditStep_def creditPendingStep_def releasePendingStep_def debitStep_def lockStep_def
  releaseStep_def finalizeStep_def

lemmas contract_defs = step_defs toNumber_def Let_def wallet_ok_def wallet_total_def

interpretation credit: write_contract creditStep "\<lambda>x. x"
  by unfold_locales (auto simp: contract_defs row_after_partial wallet_grid_def split: if_splits)

interpretation credit_pending: write_contract creditPendingStep "\<lambda>x. x"
  by unfold_locales (auto simp: contract_defs row_after_partial wallet_grid_def split: if_splits)

interpretation release_pending: write_contract releasePendingStep "\<lambda>x. 0"
  by unfold_locales (auto simp: contract_defs row_after_partial wallet_grid_def split: if_splits)

interpretation debit: write_contract debitStep "\<lambda>x. - x"
  by unfold_locales (auto simp: contract_defs row_after_partial wallet_grid_def split: if_splits)

interpretation lock: write_contract lockStep "\<lambda>x. 0"
  by unfold_locales (auto simp: contract_defs row_after_partial wallet_grid_def split: if_splits)

interpretation release: write_contract releaseStep "\<lambda>x. 0"
  by unfold_locales (auto simp: contract_defs row_after_partial wallet_grid_def split: if_splits)

interpretation finalize: write_contract finalizeStep "\<lambda>x. - x"
  by unfold_locales (auto simp: contract_defs row_after_partial wallet_grid_def split: if_splits)

end
