(* ===== verification/Ledger_Transfer.thy ===== *)
theory Ledger_Transfer
  imports Ledger_Invariant
begin

text \<open>
  The two-legged writes of the ledger, \<open>transferAvailableBalance\<close> and
  \<open>applyDayfiTransactionFee\<close>: between two different wallets they keep the invariant and the total,
  they move exactly the amount, and they answer a replay with the recorded legs.
\<close>

section \<open>Two legs\<close>

definition legs_tx ::
  "wallet \<Rightarrow> wallet \<Rightarrow> rat \<Rightarrow> (db, movement) tx \<Rightarrow> (db, movement) tx \<Rightarrow> (db, movement \<times> movement \<times> bool) tx" where
  "legs_tx sr rr amount debitLeg creditLeg =
    bnd (update_wallet (w_id sr) (w_available_update (\<lambda>_. numeric7 (round7 (toNumber (w_available sr) - amount))))) (\<lambda>_.
    bnd (update_wallet (w_id rr) (w_available_update (\<lambda>_. numeric7 (round7 (toNumber (w_available rr) + amount))))) (\<lambda>_.
    bnd debitLeg (\<lambda>debit. bnd creditLeg (\<lambda>credit. ret (debit, credit, False)))))"

text \<open>The rows after the two legs.\<close>

definition debited :: "wallet \<Rightarrow> rat \<Rightarrow> wallet" where
  "debited w amount = w\<lparr>w_available := w_available w - amount\<rparr>"

definition credited :: "wallet \<Rightarrow> rat \<Rightarrow> wallet" where
  "credited w amount = w\<lparr>w_available := w_available w + amount\<rparr>"

lemma leg_rows [simp]:
  "w_id (debited w x) = w_id w" "w_id (credited w x) = w_id w"
  "wallet_key (debited w x) = wallet_key w" "wallet_key (credited w x) = wallet_key w"
  "w_status (debited w x) = w_status w" "w_status (credited w x) = w_status w"
  "w_org (debited w x) = w_org w" "w_org (credited w x) = w_org w"
  "w_env (debited w x) = w_env w" "w_env (credited w x) = w_env w"
  "w_asset (debited w x) = w_asset w" "w_asset (credited w x) = w_asset w"
  "wallet_total (debited w x) = wallet_total w - x" "wallet_total (credited w x) = wallet_total w + x"
  "w_available (debited w x) = w_available w - x" "w_available (credited w x) = w_available w + x"
  "w_pending (debited w x) = w_pending w" "w_pending (credited w x) = w_pending w"
  "w_locked (debited w x) = w_locked w" "w_locked (credited w x) = w_locked w"
  by (simp_all add: debited_def credited_def wallet_key_def wallet_total_def)

definition leg_movement ::
  "string \<Rightarrow> wallet \<Rightarrow> direction \<Rightarrow> rat \<Rightarrow> string \<Rightarrow> string option \<Rightarrow> string option \<Rightarrow> string option \<Rightarrow>
   string \<Rightarrow> jmap \<Rightarrow> rat \<Rightarrow> movement" where
  "leg_movement i w dir amount ty ref rty rid key md avail =
    \<lparr>m_id = i, m_wallet = w_id w, m_org = w_org w, m_env = w_env w, m_direction = dir,
     m_amount = amount, m_asset = w_asset w, m_type = ty, m_reference = ref, m_reference_type = rty,
     m_reference_id = rid, m_key = key, m_metadata = md, m_available_after = avail,
     m_pending_after = w_pending w, m_locked_after = w_locked w\<rparr>"

lemma legs_Inr:
  assumes inv: "ledger_inv s" and sr: "find_row w_id (w_id sr) (wallets s) = Some sr"
    and rr: "find_row w_id (w_id rr) (wallets s) = Some rr" and diff: "w_id sr \<noteq> w_id rr"
    and amount: "0 \<le> amount" "on_grid amount"
    and run: "legs_tx sr rr amount
       (insertMovement sr Debit amount ty1 r1 rt1 ri1 k1 md1 (round7 (toNumber (w_available sr) - amount))
          (toNumber (w_pending sr)) (toNumber (w_locked sr)))
       (insertMovement rr Credit amount ty2 r2 rt2 ri2 k2 md2 (round7 (toNumber (w_available rr) + amount))
          (toNumber (w_pending rr)) (toNumber (w_locked rr))) s = Inr ((d, c, dup), s')"
  shows "\<not> dup" "amount \<le> w_available sr" "0 < amount"
    "\<exists>i. d = leg_movement i sr Debit amount ty1 r1 rt1 ri1 k1 md1 (w_available sr - amount)"
    "\<exists>i. c = leg_movement i rr Credit amount ty2 r2 rt2 ri2 k2 md2 (w_available rr + amount)"
    "\<exists>n1 n2. s' = post_write (post_write s (debited sr amount) d n1) (credited rr amount) c n2"
    "ledger_inv s'" "money s' = money s"
proof -
  have mem: "sr \<in> set (wallets s)" "rr \<in> set (wallets s)" using sr rr by (auto dest: find_row_Some)
  have ok: "wallet_ok sr" "wallet_ok rr" and grid: "wallet_grid sr" "wallet_grid rr"
    using ledger_invD(5,6) [OF inv] mem by auto
  have after: "round7 (toNumber (w_available sr) - amount) = w_available sr - amount"
    "round7 (toNumber (w_available rr) + amount) = w_available rr + amount"
    "toNumber (w_pending sr) = w_pending sr" "toNumber (w_locked sr) = w_locked sr"
    "toNumber (w_pending rr) = w_pending rr" "toNumber (w_locked rr) = w_locked rr"
    "numeric7 amount = amount" "numeric7 (w_available sr - amount) = w_available sr - amount"
    "numeric7 (w_available rr + amount) = w_available rr + amount"
    "numeric7 (w_pending sr) = w_pending sr" "numeric7 (w_locked sr) = w_locked sr"
    "numeric7 (w_pending rr) = w_pending rr" "numeric7 (w_locked rr) = w_locked rr"
    using grid amount by (simp_all add: wallet_grid_def toNumber_def)
  let ?u1 = "w_available_update (\<lambda>_. w_available sr - amount)"
  let ?u2 = "w_available_update (\<lambda>_. w_available rr + amount)"
  let ?ws1 = "update_rows w_id (w_id sr) ?u1 (wallets s)"
  let ?ws2 = "update_rows w_id (w_id rr) ?u2 ?ws1"
  let ?n = "uuid_next s"
  from run have r: "d = leg_movement (uuid_of s ?n) sr Debit amount ty1 r1 rt1 ri1 k1 md1 (w_available sr - amount)"
      "c = leg_movement (uuid_of s (Suc ?n)) rr Credit amount ty2 r2 rt2 ri2 k2 md2 (w_available rr + amount)"
      "\<not> dup" "0 < amount" "\<forall>w \<in> set (wallets s). w_id w = w_id sr \<longrightarrow> wallet_ok (?u1 w)"
      "m_id d \<notin> m_id ` set (movements s)" "m_key d \<notin> m_key ` set (movements s)"
      "m_id c \<notin> m_id ` set (d # movements s)" "m_key c \<notin> m_key ` set (d # movements s)"
      "s' = s\<lparr>wallets := ?ws2, uuid_next := Suc (Suc ?n), movements := c # d # movements s\<rparr>"
      "movement_fits d" "movement_fits c"
    by (auto simp: legs_tx_def tx_simps insertMovement_def after leg_movement_def)
  show "\<not> dup" "0 < amount" by fact+
  show le: "amount \<le> w_available sr" using r(5) mem(1) by (auto simp: wallet_ok_def)
  show "\<exists>i. d = leg_movement i sr Debit amount ty1 r1 rt1 ri1 k1 md1 (w_available sr - amount)"
    "\<exists>i. c = leg_movement i rr Credit amount ty2 r2 rt2 ri2 k2 md2 (w_available rr + amount)"
    using r(1,2) by blast+
  have ws1: "?ws1 = update_rows w_id (w_id sr) (\<lambda>_. debited sr amount) (wallets s)"
    using update_rows_const [OF ledger_invD(1) [OF inv] sr, of ?u1] by (simp add: debited_def)
  let ?s1 = "post_write s (debited sr amount) d (Suc ?n)"
  have rd: "records d (debited sr amount)" "movement_ok d" "records c (credited rr amount)" "movement_ok c"
    using r(1,2,4) amount by (simp_all add: leg_movement_def records_def wallet_key_def movement_ok_def)
  have same: "same_wallet sr (debited sr amount)" "same_wallet rr (credited rr amount)"
    by (simp_all add: same_wallet_def)
  have ok': "wallet_ok (debited sr amount)" "wallet_grid (debited sr amount)"
    "wallet_ok (credited rr amount)" "wallet_grid (credited rr amount)"
    using ok grid amount le by (auto simp: wallet_ok_def wallet_grid_def)
  note fits = records_fits [OF rd(1) r(11)] records_fits [OF rd(3) r(12)]
  have inv1: "ledger_inv ?s1"
    by (rule ledger_inv_write [OF inv sr same(1) ok'(1,2) fits(1) rd(1,2) r(6,7)])
  have rr1: "find_row w_id (w_id rr) (wallets ?s1) = Some rr"
    using find_row_update_const [OF sr, of "debited sr amount" "w_id rr"] rr diff
    by (simp add: post_write_def)
  have "?ws2 = update_rows w_id (w_id rr) (\<lambda>_. credited rr amount) ?ws1"
    using update_rows_const [OF ledger_invD(1) [OF inv1] rr1, of ?u2]
    by (simp add: credited_def post_write_def ws1)
  then have s': "s' = post_write ?s1 (credited rr amount) c (Suc (Suc ?n))"
    using r(10) ws1 by (simp add: post_write_def)
  then show "\<exists>n1 n2. s' = post_write (post_write s (debited sr amount) d n1) (credited rr amount) c n2"
    by blast
  have fresh2: "m_id c \<notin> m_id ` set (movements ?s1)" "m_key c \<notin> m_key ` set (movements ?s1)"
    using r(8,9) by (simp_all add: post_write_def)
  show "ledger_inv s'"
    unfolding s' by (rule ledger_inv_write [OF inv1 rr1 same(2) ok'(3,4) fits(2) rd(3,4) fresh2])
  show "money s' = money s"
    unfolding s' using money_write [OF inv1 rr1 same(2)] money_write [OF inv sr same(1)] by simp
qed


lemma writeTransferLegs_legs:
  "writeTransferLegs params amount k1 k2 sr rr = legs_tx sr rr amount
     (insertMovement sr Debit amount INTERNAL_TRANSFER_DEBIT (Some (tp_transferGroupId params))
        (Some ''internal_transfer'') (Some (tp_senderReferenceId params)) k1
        (((case tp_metadata params of Some m \<Rightarrow> m | None \<Rightarrow> Map.empty)
           (''transferGroupId'' \<mapsto> JStr (tp_transferGroupId params), ''rail'' \<mapsto> JStr ''internal_transfer''))
           (''role'' \<mapsto> JStr ''sender'', ''counterpartyOrgId'' \<mapsto> JStr (tp_recipientOrgId params)))
        (round7 (toNumber (w_available sr) - amount)) (toNumber (w_pending sr)) (toNumber (w_locked sr)))
     (insertMovement rr Credit amount INTERNAL_TRANSFER_CREDIT (Some (tp_transferGroupId params))
        (Some ''internal_transfer'') (Some (tp_recipientReferenceId params)) k2
        (((case tp_metadata params of Some m \<Rightarrow> m | None \<Rightarrow> Map.empty)
           (''transferGroupId'' \<mapsto> JStr (tp_transferGroupId params), ''rail'' \<mapsto> JStr ''internal_transfer''))
           (''role'' \<mapsto> JStr ''recipient'', ''counterpartyOrgId'' \<mapsto> JStr (tp_senderOrgId params)))
        (round7 (toNumber (w_available rr) + amount)) (toNumber (w_pending rr)) (toNumber (w_locked rr)))"
  by (simp add: writeTransferLegs_def legs_tx_def Let_def)

lemma writeFeeLegs_legs:
  "writeFeeLegs params amount k1 k2 sr rr = legs_tx sr rr amount
     (insertMovement sr Debit amount FEE_DEBIT (Some (''fee:'' @ fp_transferGroupId params))
        (Some ''transaction_fee'') (Some (fp_payerReferenceId params)) k1
        (((case fp_metadata params of Some m \<Rightarrow> m | None \<Rightarrow> Map.empty)
           (''transferGroupId'' \<mapsto> JStr (fp_transferGroupId params),
            ''feeType'' \<mapsto> JStr ''DAYFI_TRANSACTION_FEE'', ''feeCurrency'' \<mapsto> JStr ''USDC''))
           (''role'' \<mapsto> JStr ''customer_fee''))
        (round7 (toNumber (w_available sr) - amount)) (toNumber (w_pending sr)) (toNumber (w_locked sr)))
     (insertMovement rr Credit amount FEE_REVENUE (Some (''fee:'' @ fp_transferGroupId params))
        (Some ''transaction_fee'') (Some (fp_revenueReferenceId params)) k2
        (((case fp_metadata params of Some m \<Rightarrow> m | None \<Rightarrow> Map.empty)
           (''transferGroupId'' \<mapsto> JStr (fp_transferGroupId params),
            ''feeType'' \<mapsto> JStr ''DAYFI_TRANSACTION_FEE'', ''feeCurrency'' \<mapsto> JStr ''USDC''))
           (''role'' \<mapsto> JStr ''fee_revenue''))
        (round7 (toNumber (w_available rr) + amount)) (toNumber (w_pending rr)) (toNumber (w_locked rr)))"
  by (simp add: writeFeeLegs_def legs_tx_def Let_def)

section \<open>Two wallets of two organisations\<close>

lemma ensure_keeps_row:
  assumes inv: "ledger_inv s" and ens: "ensureWalletAccount i e a s = Inr (w, s1)"
    and row: "find_row w_id (w_id x) (wallets s) = Some x"
  shows "find_row w_id (w_id x) (wallets s1) = Some x"
  using ensureWalletAccount_Inr(8) [OF inv ens] row find_row_Some [OF row] by auto

lemma lockWalletRows_Inr_iff:
  "lockWalletRows a b s = Inr ((ra, rb), s') \<longleftrightarrow>
     find_row w_id a (wallets s) = Some ra \<and> find_row w_id b (wallets s) = Some rb \<and> s' = s"
  by (auto simp: lockWalletRows_def lockWalletRow_def tx_simps)

lemma two_wallets:
  assumes inv: "ledger_inv s" and e1: "ensureWalletAccount i e a s = Inr (w1, s1)"
    and e2: "ensureWalletAccount j e a s1 = Inr (w2, s2)"
  shows "ledger_inv s2" "find_row w_id (w_id w1) (wallets s2) = Some w1"
    "find_row w_id (w_id w2) (wallets s2) = Some w2" "i \<noteq> j \<Longrightarrow> w_id w1 \<noteq> w_id w2"
    "money s2 = money s" "movements s2 = movements s" "orgs s2 = orgs s"
proof -
  note a1 = ensureWalletAccount_Inr [OF inv e1]
  note a2 = ensureWalletAccount_Inr [OF a1(1) e2]
  show "ledger_inv s2" "find_row w_id (w_id w2) (wallets s2) = Some w2" "money s2 = money s"
    "movements s2 = movements s" "orgs s2 = orgs s"
    using a1 a2 by simp_all
  show r1: "find_row w_id (w_id w1) (wallets s2) = Some w1"
    by (rule ensure_keeps_row [OF a1(1) e2 a1(2)])
  show "w_id w1 \<noteq> w_id w2" if "i \<noteq> j"
    using r1 a2(2) a1(4) a2(4) that by (metis option.inject prod.inject)
qed

lemma transferAvailableTx_cases:
  assumes inv: "ledger_inv s" and run: "transferAvailableTx params s = Inr ((d, c, dup), s')"
  obtains (replay) "dup" "s' = s" "d \<in> set (movements s)" "c \<in> set (movements s)"
      "m_key d = normalizeKey (tp_debitKey params)" "m_key c = normalizeKey (tp_creditKey params)"
  | (moved) amount sw s1 rw s2 where "\<not> dup" "parseAmount (tp_amount params) = Inr amount"
      "tp_senderOrgId params \<noteq> tp_recipientOrgId params"
      "ensureWalletAccount (tp_senderOrgId params) (tp_environment params) (tp_asset params) s = Inr (sw, s1)"
      "ensureWalletAccount (tp_recipientOrgId params) (tp_environment params) (tp_asset params) s1 = Inr (rw, s2)"
      "w_status sw = Active" "w_status rw = Active" "w_id sw \<noteq> w_id rw" "amount \<le> w_available sw"
      "writeTransferLegs params amount (normalizeKey (tp_debitKey params)) (normalizeKey (tp_creditKey params))
         sw rw s2 = Inr ((d, c, dup), s')"
proof -
  from run obtain amount where am: "parseAmount (tp_amount params) = Inr amount"
    and diff: "tp_senderOrgId params \<noteq> tp_recipientOrgId params"
    by (auto simp: transferAvailableTx_def tx_simps Let_def)
  let ?d = "find_row m_key (normalizeKey (tp_debitKey params)) (movements s)"
  let ?c = "find_row m_key (normalizeKey (tp_creditKey params)) (movements s)"
  consider (both) d0 c0 where "?d = Some d0" "?c = Some c0" | (one) "(?d = None) \<noteq> (?c = None)"
    | (none) "?d = None" "?c = None"
    by (cases ?d; cases ?c) auto
  then show thesis
  proof cases
    case both
    with run show thesis
      by (intro replay) (auto simp: transferAvailableTx_def tx_simps Let_def findMovementByIdempotency_def
          dest: find_row_Some)
  next
    case one
    with run show thesis
      by (cases ?d; cases ?c) (auto simp: transferAvailableTx_def tx_simps Let_def findMovementByIdempotency_def)
  next
    case none
    with run am obtain sw s1 rw s2 sr rr where
      e1: "ensureWalletAccount (tp_senderOrgId params) (tp_environment params) (tp_asset params) s = Inr (sw, s1)"
      and e2: "ensureWalletAccount (tp_recipientOrgId params) (tp_environment params) (tp_asset params) s1 = Inr (rw, s2)"
      and act: "w_status sw = Active" "w_status rw = Active"
      and rows: "lockWalletRows (w_id sw) (w_id rw) s2 = Inr ((sr, rr), s2)"
      and enough: "\<not> toNumber (w_available sr) < amount"
      and legs: "writeTransferLegs params amount (normalizeKey (tp_debitKey params)) (normalizeKey (tp_creditKey params))
         sr rr s2 = Inr ((d, c, dup), s')"
      by (auto simp: transferAvailableTx_def tx_simps Let_def findMovementByIdempotency_def lockWalletRows_Inr_iff)
    note w = two_wallets [OF inv e1 e2]
    have sr: "sr = sw" "rr = rw" using rows w(2,3) by (auto simp: lockWalletRows_Inr_iff)
    have "sw \<in> set (wallets s2)" using find_row_Some [OF w(2)] by simp
    then have "toNumber (w_available sw) = w_available sw"
      using ledger_invD(6) [OF w(1)] by (simp add: toNumber_def wallet_grid_def)
    with enough sr have le: "amount \<le> w_available sw" by simp
    have "\<not> dup"
      by (rule legs_Inr(1) [OF w(1-3) w(4) [OF diff]])
        (use legs sr am in \<open>auto simp: writeTransferLegs_legs dest: credit.parseAmount_grid\<close>)
    from moved [OF this am diff e1 e2 act w(4) [OF diff] le] legs sr show thesis by simp
  qed
qed


text \<open>What both kinds of two-legged write guarantee between two different wallets.\<close>

definition legs_result ::
  "db \<Rightarrow> db \<Rightarrow> wallet \<Rightarrow> wallet \<Rightarrow> rat \<Rightarrow> movement \<Rightarrow> movement \<Rightarrow> bool" where
  "legs_result s2 s' sw rw amount d c \<longleftrightarrow>
     ledger_inv s' \<and> money s' = money s2 \<and> orgs s' = orgs s2 \<and> movements s' = c # d # movements s2
     \<and> 0 < amount \<and> amount \<le> w_available sw
     \<and> find_row w_id (w_id sw) (wallets s') = Some (debited sw amount)
     \<and> find_row w_id (w_id rw) (wallets s') = Some (credited rw amount)
     \<and> (\<forall>i. i \<noteq> w_id sw \<longrightarrow> i \<noteq> w_id rw \<longrightarrow> find_row w_id i (wallets s') = find_row w_id i (wallets s2))
     \<and> m_amount d = amount \<and> m_amount c = amount \<and> m_direction d = Debit \<and> m_direction c = Credit"

lemma legs_resultI:
  assumes inv: "ledger_inv s" and sr: "find_row w_id (w_id sr) (wallets s) = Some sr"
    and rr: "find_row w_id (w_id rr) (wallets s) = Some rr" and diff: "w_id sr \<noteq> w_id rr"
    and amount: "0 \<le> amount \<and> on_grid amount"
    and run: "legs_tx sr rr amount
       (insertMovement sr Debit amount ty1 r1 rt1 ri1 k1 md1 (round7 (toNumber (w_available sr) - amount))
          (toNumber (w_pending sr)) (toNumber (w_locked sr)))
       (insertMovement rr Credit amount ty2 r2 rt2 ri2 k2 md2 (round7 (toNumber (w_available rr) + amount))
          (toNumber (w_pending rr)) (toNumber (w_locked rr))) s = Inr ((d, c, dup), s')"
  shows "legs_result s s' sr rr amount d c \<and> m_key d = k1 \<and> m_key c = k2 \<and> \<not> dup"
proof -
  note r = legs_Inr [OF inv sr rr diff amount [THEN conjunct1] amount [THEN conjunct2] run]
  from r(6) obtain n1 n2 where s': "s' = post_write (post_write s (debited sr amount) d n1) (credited rr amount) c n2"
    by blast
  have rr1: "find_row w_id (w_id rr) (wallets (post_write s (debited sr amount) d n1)) = Some rr"
    using find_row_update_const [OF sr, of "debited sr amount" "w_id rr"] rr diff by (simp add: post_write_def)
  have "find_row w_id i (wallets s') = (if i = w_id rr then Some (credited rr amount)
      else if i = w_id sr then Some (debited sr amount) else find_row w_id i (wallets s))" for i
    using find_row_update_const [OF rr1, of "credited rr amount" i]
      find_row_update_const [OF sr, of "debited sr amount" i] by (simp add: s' post_write_def)
  then show ?thesis
    using r diff by (auto simp: legs_result_def s' post_write_def leg_movement_def)
qed

lemma transferAvailableTx_moved:
  assumes inv: "ledger_inv s" and run: "transferAvailableTx params s = Inr ((d, c, dup), s')" and new: "\<not> dup"
  obtains amount sw s1 rw s2 where "parseAmount (tp_amount params) = Inr amount"
    "ensureWalletAccount (tp_senderOrgId params) (tp_environment params) (tp_asset params) s = Inr (sw, s1)"
    "ensureWalletAccount (tp_recipientOrgId params) (tp_environment params) (tp_asset params) s1 = Inr (rw, s2)"
    "w_id sw \<noteq> w_id rw" "legs_result s2 s' sw rw amount d c"
    "m_key d = normalizeKey (tp_debitKey params)" "m_key c = normalizeKey (tp_creditKey params)"
    "money s' = money s" "movements s' = c # d # movements s"
  using inv run
proof (cases rule: transferAvailableTx_cases)
  case replay
  with new show thesis by simp
next
  case (moved amount sw s1 rw s2)
  note w = two_wallets [OF inv moved(4,5)]
  have res: "legs_result s2 s' sw rw amount d c \<and> m_key d = normalizeKey (tp_debitKey params)
      \<and> m_key c = normalizeKey (tp_creditKey params) \<and> \<not> dup"
    by (rule legs_resultI [OF w(1-3) moved(8) credit.parseAmount_grid [OF moved(2)]
          moved(10) [unfolded writeTransferLegs_legs]])
  then have "money s' = money s" "movements s' = c # d # movements s"
    using w(5,6) by (auto simp: legs_result_def)
  with that [OF moved(2,4,5,8)] res show thesis by blast
qed

lemma transferAvailableTx_inv:
  assumes inv: "ledger_inv s" and run: "transferAvailableTx params s = Inr ((d, c, dup), s')"
  shows "ledger_inv s' \<and> money s' = money s"
proof (cases dup)
  case True
  from inv run show ?thesis
    by (cases rule: transferAvailableTx_cases) (use True inv in auto)
next
  case False
  show ?thesis
    by (rule transferAvailableTx_moved [OF inv run False]) (simp add: legs_result_def)
qed

section \<open>The transaction fee\<close>

lemma applyFee_cases:
  assumes inv: "ledger_inv s" and run: "applyDayfiTransactionFee params s = Inr (res, s')"
  obtains (none) "res = None" "s' = s"
  | (replay) d c where "res = Some (d, c, True)" "s' = s" "d \<in> set (movements s)" "c \<in> set (movements s)"
      "m_key d = normalizeKey (fp_debitKey params)" "m_key c = normalizeKey (fp_creditKey params)"
  | (charged) amount pw s1 rw s2 d c dup where "parseAmount (fp_amount params) = Inr amount"
      "res = Some (d, c, dup)"
      "ensureWalletAccount (fp_payerOrgId params) (fp_environment params) (Some DEFAULT_INFRA_ASSET) s = Inr (pw, s1)"
      "ensureWalletAccount (fp_revenueOrgId params) (fp_environment params) (Some DEFAULT_INFRA_ASSET) s1 = Inr (rw, s2)"
      "w_status pw = Active" "w_status rw = Active" "amount \<le> w_available pw" "0 < amount"
      "writeFeeLegs params amount (normalizeKey (fp_debitKey params)) (normalizeKey (fp_creditKey params))
         pw rw s2 = Inr ((d, c, dup), s')"
proof -
  from run obtain amount where am: "parseAmount (fp_amount params) = Inr amount"
    by (auto simp: applyDayfiTransactionFee_def tx_simps)
  let ?d = "find_row m_key (normalizeKey (fp_debitKey params)) (movements s)"
  let ?c = "find_row m_key (normalizeKey (fp_creditKey params)) (movements s)"
  consider (zero) "amount \<le> 0" | (both) d0 c0 where "0 < amount" "?d = Some d0" "?c = Some c0"
    | (go) "0 < amount" "?d = None \<or> ?c = None"
    by (cases ?d; cases ?c) fastforce+
  then show thesis
  proof cases
    case zero
    with run am show thesis by (intro none) (auto simp: applyDayfiTransactionFee_def tx_simps)
  next
    case both
    with run am show thesis
      by (intro replay) (auto simp: applyDayfiTransactionFee_def tx_simps Let_def
          findMovementByIdempotency_def dest: find_row_Some)
  next
    case go
    from run am go obtain pw s1 rw s2 sr rr d c dup where
      e1: "ensureWalletAccount (fp_payerOrgId params) (fp_environment params) (Some DEFAULT_INFRA_ASSET) s = Inr (pw, s1)"
      and e2: "ensureWalletAccount (fp_revenueOrgId params) (fp_environment params) (Some DEFAULT_INFRA_ASSET) s1 = Inr (rw, s2)"
      and act: "w_status pw = Active" "w_status rw = Active"
      and rows: "lockWalletRows (w_id pw) (w_id rw) s2 = Inr ((sr, rr), s2)"
      and enough: "\<not> toNumber (w_available sr) < amount" and res: "res = Some (d, c, dup)"
      and legs: "writeFeeLegs params amount (normalizeKey (fp_debitKey params)) (normalizeKey (fp_creditKey params))
         sr rr s2 = Inr ((d, c, dup), s')"
      by (cases ?d; cases ?c) (auto simp: applyDayfiTransactionFee_def tx_simps Let_def
          findMovementByIdempotency_def lockWalletRows_Inr_iff)
    note w = two_wallets [OF inv e1 e2]
    have sr: "sr = pw" "rr = rw" using rows w(2,3) by (auto simp: lockWalletRows_Inr_iff)
    have "pw \<in> set (wallets s2)" using find_row_Some [OF w(2)] by simp
    then have "toNumber (w_available pw) = w_available pw"
      using ledger_invD(6) [OF w(1)] by (simp add: toNumber_def wallet_grid_def)
    with enough sr have "amount \<le> w_available pw" by simp
    from charged [OF am res e1 e2 act this go(1)] legs sr show thesis by simp
  qed
qed


lemma applyFee_charged:
  assumes inv: "ledger_inv s" and run: "applyDayfiTransactionFee params s = Inr (Some (d, c, False), s')"
    and diff: "fp_payerOrgId params \<noteq> fp_revenueOrgId params"
  obtains amount pw s1 rw s2 where "parseAmount (fp_amount params) = Inr amount"
    "ensureWalletAccount (fp_payerOrgId params) (fp_environment params) (Some DEFAULT_INFRA_ASSET) s = Inr (pw, s1)"
    "ensureWalletAccount (fp_revenueOrgId params) (fp_environment params) (Some DEFAULT_INFRA_ASSET) s1 = Inr (rw, s2)"
    "legs_result s2 s' pw rw amount d c" "money s' = money s" "movements s' = c # d # movements s"
  using inv run
proof (cases rule: applyFee_cases)
  case (charged amount pw s1 rw s2 d' c' dup)
  note w = two_wallets [OF inv charged(3,4)]
  have "legs_result s2 s' pw rw amount d' c' \<and> m_key d' = normalizeKey (fp_debitKey params)
      \<and> m_key c' = normalizeKey (fp_creditKey params) \<and> \<not> dup"
    by (rule legs_resultI [OF w(1-3) w(4) [OF diff] credit.parseAmount_grid [OF charged(1)]
          charged(9) [unfolded writeFeeLegs_legs]])
  then have res: "legs_result s2 s' pw rw amount d c" using charged(2) by simp
  then have "money s' = money s" "movements s' = c # d # movements s"
    using w(5,6) by (auto simp: legs_result_def)
  with that [OF charged(1,3,4) res] show thesis by blast
qed simp_all

text \<open>
  When the payer is the revenue organisation itself, both legs address one row: the second update
  overwrites the first with the balance read before it, and the fee is added to the wallet.
\<close>

lemma legs_self:
  assumes inv: "ledger_inv s" and row: "find_row w_id (w_id w) (wallets s) = Some w"
    and amount: "0 < amount" "on_grid amount"
    and run: "legs_tx w w amount
       (insertMovement w Debit amount ty1 r1 rt1 ri1 k1 md1 (round7 (toNumber (w_available w) - amount))
          (toNumber (w_pending w)) (toNumber (w_locked w)))
       (insertMovement w Credit amount ty2 r2 rt2 ri2 k2 md2 (round7 (toNumber (w_available w) + amount))
          (toNumber (w_pending w)) (toNumber (w_locked w))) s = Inr ((d, c, dup), s')"
  shows "ledger_inv s'" "money s' = money s + amount" "\<not> dup"
    "find_row w_id (w_id w) (wallets s') = Some (credited w amount)"
    "amount \<le> w_available w" "m_amount d = amount"
    "i \<noteq> w_id w \<Longrightarrow> find_row w_id i (wallets s') = find_row w_id i (wallets s)"
proof -
  have mem: "w \<in> set (wallets s)" using row by (auto dest: find_row_Some)
  have ok: "wallet_ok w" and grid: "wallet_grid w" using ledger_invD(5,6) [OF inv mem] by auto
  have after: "round7 (toNumber (w_available w) - amount) = w_available w - amount"
    "round7 (toNumber (w_available w) + amount) = w_available w + amount"
    "toNumber (w_pending w) = w_pending w" "toNumber (w_locked w) = w_locked w"
    "numeric7 amount = amount" "numeric7 (w_available w - amount) = w_available w - amount"
    "numeric7 (w_available w + amount) = w_available w + amount"
    "numeric7 (w_pending w) = w_pending w" "numeric7 (w_locked w) = w_locked w"
    using grid amount by (simp_all add: wallet_grid_def toNumber_def)
  let ?u1 = "w_available_update (\<lambda>_. w_available w - amount)"
  let ?u2 = "w_available_update (\<lambda>_. w_available w + amount)"
  let ?n = "uuid_next s"
  from run have r: "d = leg_movement (uuid_of s ?n) w Debit amount ty1 r1 rt1 ri1 k1 md1 (w_available w - amount)"
      "c = leg_movement (uuid_of s (Suc ?n)) w Credit amount ty2 r2 rt2 ri2 k2 md2 (w_available w + amount)"
      "\<not> dup" "\<forall>x \<in> set (wallets s). w_id x = w_id w \<longrightarrow> wallet_ok (?u1 x)"
      "m_id d \<notin> m_id ` set (movements s)" "m_key d \<notin> m_key ` set (movements s)"
      "m_id c \<notin> m_id ` set (d # movements s)" "m_key c \<notin> m_key ` set (d # movements s)"
      "s' = s\<lparr>wallets := update_rows w_id (w_id w) ?u2 (update_rows w_id (w_id w) ?u1 (wallets s)),
         uuid_next := Suc (Suc ?n), movements := c # d # movements s\<rparr>"
      "movement_fits d" "movement_fits c"
    by (auto simp: legs_tx_def tx_simps insertMovement_def after leg_movement_def)
  show "\<not> dup" by fact
  show le: "amount \<le> w_available w" using r(4) mem by (auto simp: wallet_ok_def)
  show "m_amount d = amount" using r(1) by (simp add: leg_movement_def)
  have ws: "update_rows w_id (w_id w) ?u2 (update_rows w_id (w_id w) ?u1 (wallets s))
      = update_rows w_id (w_id w) (\<lambda>_. credited w amount) (wallets s)"
    using update_rows_const [OF ledger_invD(1) [OF inv] row, of ?u2]
      update_rows_twice [of w_id ?u1 ?u2 "w_id w" "wallets s"] by (simp add: credited_def)
  have d1: "update_rows w_id (w_id w) (\<lambda>_. credited w amount) (update_rows w_id (w_id w) (\<lambda>_. debited w amount) (wallets s))
      = update_rows w_id (w_id w) (\<lambda>_. credited w amount) (wallets s)"
    by (simp add: update_rows_def)
  let ?s1 = "post_write s (debited w amount) d (Suc ?n)"
  have s': "s' = post_write ?s1 (credited w amount) c (Suc (Suc ?n))"
    using r(9) ws d1 by (simp add: post_write_def)
  have row1: "find_row w_id (w_id w) (wallets ?s1) = Some (debited w amount)"
    using find_row_update_const [OF row, of "debited w amount" "w_id w"] by (simp add: post_write_def)
  have same: "same_wallet w (debited w amount)" "same_wallet (debited w amount) (credited w amount)"
    by (simp_all add: same_wallet_def)
  have rd: "records d (debited w amount)" "movement_ok d" "records c (credited w amount)" "movement_ok c"
    using r(1,2) amount by (simp_all add: leg_movement_def records_def wallet_key_def movement_ok_def)
  note fits = records_fits [OF rd(1) r(10)] records_fits [OF rd(3) r(11)]
  have ok': "wallet_ok (debited w amount)" "wallet_grid (debited w amount)"
    "wallet_ok (credited w amount)" "wallet_grid (credited w amount)"
    using ok grid amount le by (auto simp: wallet_ok_def wallet_grid_def)
  have inv1: "ledger_inv ?s1"
    by (rule ledger_inv_write [OF inv row same(1) ok'(1,2) fits(1) rd(1,2) r(5,6)])
  have fresh2: "m_id c \<notin> m_id ` set (movements ?s1)" "m_key c \<notin> m_key ` set (movements ?s1)"
    using r(7,8) by (simp_all add: post_write_def)
  have row1': "find_row w_id (w_id (debited w amount)) (wallets ?s1) = Some (debited w amount)"
    using row1 by simp
  show "ledger_inv s'"
    unfolding s' by (rule ledger_inv_write [OF inv1 row1' same(2) ok'(3,4) fits(2) rd(3,4) fresh2])
  show "money s' = money s + amount"
    unfolding s' using money_write [OF inv1 row1' same(2)] money_write [OF inv row same(1)] by simp
  show "find_row w_id (w_id w) (wallets s') = Some (credited w amount)"
    using find_row_update_const [OF row1, of "credited w amount" "w_id w"] by (simp add: s' post_write_def)
  show "find_row w_id i (wallets s') = find_row w_id i (wallets s)" if "i \<noteq> w_id w"
    using find_row_update_const [OF row1, of "credited w amount" i] find_row_update_const [OF row, of "debited w amount" i] that
    by (simp add: s' post_write_def)
qed

lemma applyFee_inv:
  assumes inv: "ledger_inv s" and run: "applyDayfiTransactionFee params s = Inr (res, s')"
  shows "ledger_inv s'"
  using inv run
proof (cases rule: applyFee_cases)
  case (charged amount pw s1 rw s2 d c dup)
  note w = two_wallets [OF inv charged(3,4)]
  have am: "0 \<le> amount \<and> on_grid amount" using credit.parseAmount_grid [OF charged(1)] .
  show ?thesis
  proof (cases "w_id pw = w_id rw")
    case True
    have eq: "rw = pw" using w(2,3) by (metis True option.inject)
    show ?thesis
      by (rule legs_self(1) [OF w(1,2) charged(8) am [THEN conjunct2]
            charged(9) [unfolded writeFeeLegs_legs eq]])
  next
    case False
    show ?thesis
      using legs_resultI [OF w(1-3) False am charged(9) [unfolded writeFeeLegs_legs]]
      by (simp add: legs_result_def)
  qed
qed (use inv in simp_all)

end
