(* ===== verification/Ledger_Spec.thy ===== *)
theory Ledger_Spec
  imports Ledger_Transfer
begin

text \<open>
  The abstract specification of the ledger and its refinement. Abstractly the ledger is a map from
  (organisation, environment, asset) to three balances, and an operation is a partial function on
  them. The code's operations refine it: a committed write performs exactly the abstract step on
  one entry and leaves every other entry alone, a refused one is refused abstractly, and an
  abstractly possible step on an active wallet with a fresh key commits.
\<close>

section \<open>The abstract ledger\<close>

type_synonym balance = "rat \<times> rat \<times> rat"

type_synonym account = "string \<times> infra_env \<times> string"

definition row_balance :: "wallet \<Rightarrow> balance" where
  "row_balance w = (w_available w, w_pending w, w_locked w)"

definition balances :: "db \<Rightarrow> account \<Rightarrow> balance" where
  "balances s k = (case find_row wallet_key k (wallets s) of None \<Rightarrow> (0, 0, 0) | Some w \<Rightarrow> row_balance w)"

datatype wallet_op = OpCredit | OpCreditPending | OpReleasePending | OpDebit | OpLock | OpRelease | OpFinalize

fun spec_step :: "wallet_op \<Rightarrow> balance \<Rightarrow> rat \<Rightarrow> balance option" where
  "spec_step OpCredit (a, p, l) x = Some (a + x, p, l)"
| "spec_step OpCreditPending (a, p, l) x = Some (a, p + x, l)"
| "spec_step OpReleasePending (a, p, l) x = (if p < x then None else Some (a + x, p - x, l))"
| "spec_step OpDebit (a, p, l) x = (if a < x then None else Some (a - x, p, l))"
| "spec_step OpLock (a, p, l) x = (if a < x then None else Some (a - x, p, l + x))"
| "spec_step OpRelease (a, p, l) x = (if l < x then None else Some (a + x, p, l - x))"
| "spec_step OpFinalize (a, p, l) x = (if l < x then None else Some (a, p, l - x))"

fun op_step :: "wallet_op \<Rightarrow> ledger_step" where
  "op_step OpCredit = creditStep"
| "op_step OpCreditPending = creditPendingStep"
| "op_step OpReleasePending = releasePendingStep"
| "op_step OpDebit = debitStep"
| "op_step OpLock = lockStep"
| "op_step OpRelease = releaseStep"
| "op_step OpFinalize = finalizeStep"

fun run_op :: "wallet_op \<Rightarrow> ledger_params \<Rightarrow> (db, movement \<times> bool) act" where
  "run_op OpCredit = creditOrgWallet"
| "run_op OpCreditPending = creditOrgWalletPending"
| "run_op OpReleasePending = releasePendingToAvailable"
| "run_op OpDebit = debitOrgWallet"
| "run_op OpLock = lockOrgFunds"
| "run_op OpRelease = releaseOrgFunds"
| "run_op OpFinalize = finalizeLockedDebit"

fun op_delta :: "wallet_op \<Rightarrow> rat \<Rightarrow> rat" where
  "op_delta OpCredit x = x"
| "op_delta OpCreditPending x = x"
| "op_delta OpReleasePending x = 0"
| "op_delta OpDebit x = - x"
| "op_delta OpLock x = 0"
| "op_delta OpRelease x = 0"
| "op_delta OpFinalize x = - x"

fun op_direction :: "wallet_op \<Rightarrow> direction" where
  "op_direction OpDebit = Debit"
| "op_direction OpLock = Debit"
| "op_direction OpFinalize = Debit"
| "op_direction _ = Credit"

fun op_type :: "wallet_op \<Rightarrow> string" where
  "op_type OpCredit = ''adjustment''"
| "op_type OpCreditPending = ''collection_pending''"
| "op_type OpReleasePending = ''collection_credit''"
| "op_type OpDebit = ''adjustment''"
| "op_type OpLock = ''funds_lock''"
| "op_type OpRelease = ''funds_release''"
| "op_type OpFinalize = ''payout_settle''"

definition account_of :: "ledger_params \<Rightarrow> account" where
  "account_of params = (p_orgId params, normalizeEnv (p_environment params), normalizeAsset (p_asset params))"

lemmas run_op_defs = creditOrgWallet_def creditOrgWalletPending_def releasePendingToAvailable_def
  debitOrgWallet_def lockOrgFunds_def releaseOrgFunds_def finalizeLockedDebit_def

lemma run_op_write: "run_op op params = ledgerWrite (op_direction op) (op_type op) (op_step op) params"
  by (cases op) (simp_all add: run_op_defs fun_eq_iff)

lemma ensure_balances:
  assumes inv: "ledger_inv s" and ens: "ensureWalletAccount i e a s = Inr (w, s1)"
  shows "balances s1 = balances s"
    and "balances s (i, normalizeEnv e, normalizeAsset a) = row_balance w"
proof -
  note e = ensureWalletAccount_Inr [OF inv ens]
  show eq: "balances s1 = balances s"
  proof
    fix k
    show "balances s1 k = balances s k"
      using e(8)
    proof
      assume new: "wallets s1 = w # wallets s \<and> w_status w = Active
       \<and> w_id w \<notin> w_id ` set (wallets s) \<and> wallet_key w \<notin> wallet_key ` set (wallets s)
       \<and> w_available w = 0 \<and> w_pending w = 0 \<and> w_locked w = 0"
      then have "find_row wallet_key (wallet_key w) (wallets s) = None" by (simp add: find_row_None)
      with new show ?thesis
        by (cases "k = wallet_key w") (simp_all add: balances_def row_balance_def)
    qed (simp add: balances_def)
  qed
  have "find_row wallet_key (wallet_key w) (wallets s1) = Some w"
    by (rule find_row_mem [OF ledger_invD(2) [OF e(1)] e(3)])
  then show "balances s (i, normalizeEnv e, normalizeAsset a) = row_balance w"
    using e(4) by (simp add: balances_def flip: eq)
qed

text \<open>The reference of the movement a request posts, as the unique index of the movements sees it.\<close>

definition param_ref :: "string \<Rightarrow> ledger_params \<Rightarrow> (string \<times> infra_env \<times> string \<times> string \<times> string) option" where
  "param_ref ty params = (case (or_else (p_referenceType params) None, or_else (p_referenceId params) None) of
     (Some rt, Some i) \<Rightarrow>
       Some (p_orgId params, normalizeEnv (p_environment params), rt, i, or_str (p_movementType params) ty)
   | _ \<Rightarrow> None)"

definition ref_taken :: "(string \<times> infra_env \<times> string \<times> string \<times> string) option \<Rightarrow> db \<Rightarrow> bool" where
  "ref_taken ref s \<longleftrightarrow> ref \<noteq> None \<and> ref \<in> movement_ref ` set (movements s)"

text \<open>The balances that the columns of a wallet can hold.\<close>

definition balance_fits :: "balance \<Rightarrow> bool" where
  "balance_fits b = (case b of (a, p, l) \<Rightarrow> fits28 a \<and> fits28 p \<and> fits28 l)"

lemma balances_fit: "ledger_inv s \<Longrightarrow> balance_fits (balances s k)"
  by (auto simp: balances_def row_balance_def balance_fits_def wallet_fits_def fits28_def
      split: option.splits dest!: find_row_Some ledger_invD(11))

section \<open>The contract extended with its specification\<close>

text \<open>A write contract whose computation is the abstract step.\<close>

locale write_spec = write_contract +
  fixes spec :: "balance \<Rightarrow> rat \<Rightarrow> balance option"
  assumes step_spec: "wallet_ok row \<Longrightarrow> wallet_grid row \<Longrightarrow> 0 \<le> amount \<Longrightarrow> on_grid amount \<Longrightarrow>
      spec (row_balance row) amount =
        (case step row amount of Inl e \<Rightarrow> None | Inr (upd, b) \<Rightarrow> Some b)"
    and spec_bound: "wallet_ok row \<Longrightarrow> 0 \<le> amount \<Longrightarrow> balance_fits (row_balance row) \<Longrightarrow>
      spec (row_balance row) amount = Some b \<Longrightarrow> balance_fits b \<Longrightarrow> fits28 amount"
begin

lemma refines:
  assumes inv: "ledger_inv s" and run: "ledgerWrite dir ty step params s = (Inr (m, False), s')"
  shows "spec (balances s (account_of params)) (m_amount m) = Some (balances s' (account_of params))"
    and "k \<noteq> account_of params \<Longrightarrow> balances s' k = balances s k"
proof -
  let ?key = "normalizeKey (p_idempotencyKey params)"
  from run obtain amount where am: "parseAmount (p_amount params) = Inr amount"
    and tx: "ledgerWriteTx dir ty step params amount ?key s = Inr ((m, False), s')"
    by (cases rule: op_cases) auto
  have g: "0 \<le> amount" "on_grid amount" using parseAmount_grid [OF am] by auto
  have none: "find_row m_key ?key (movements s) = None"
    using tx tx_replay [of ?key s _ dir ty params amount] by (cases "find_row m_key ?key (movements s)") auto
  from tx_commit [OF inv g none tx] obtain w s1 upd a p l n where
    ens: "ensureWalletAccount (p_orgId params) (p_environment params) (p_asset params) s = Inr (w, s1)"
    and st: "step w amount = Inr (upd, a, p, l)" and s': "s' = post_write s1 (row_after w (a, p, l)) m n"
    and ma: "m_amount m = amount"
    by (metis (no_types, lifting) prod.inject)
  note e = ensureWalletAccount_Inr [OF inv ens]
  have key: "wallet_key w = account_of params" using e(4) by (simp add: account_of_def)
  have before: "balances s (account_of params) = row_balance w"
    using ensure_balances(2) [OF inv ens] by (simp add: account_of_def)
  have keep: "balances s1 k = balances s k" for k
    by (simp add: ensure_balances(1) [OF inv ens])
  have rows: "wallets s' = update_rows w_id (w_id w) (\<lambda>_. row_after w (a, p, l)) (wallets s1)"
    by (simp add: s' post_write_def)
  have upd: "find_row wallet_key k (wallets s') =
      (if k = account_of params then Some (row_after w (a, p, l)) else find_row wallet_key k (wallets s1))" for k
  proof -
    have "update_rows w_id (w_id w) (\<lambda>_. row_after w (a, p, l)) (wallets s1)
        = update_rows wallet_key (wallet_key w) (\<lambda>_. row_after w (a, p, l)) (wallets s1)"
      unfolding update_rows_def
    proof (rule map_cong [OF refl])
      fix x assume "x \<in> set (wallets s1)"
      then have "(w_id x = w_id w) = (wallet_key x = wallet_key w)"
        using find_row_mem [OF ledger_invD(1) [OF e(1)]] find_row_mem [OF ledger_invD(2) [OF e(1)]] e(3)
        by (metis option.inject)
      then show "(if w_id x = w_id w then row_after w (a, p, l) else x)
          = (if wallet_key x = wallet_key w then row_after w (a, p, l) else x)" by simp
    qed
    then show ?thesis
      using find_row_update_const [OF find_row_mem [OF ledger_invD(2) [OF e(1)] e(3)],
          of "row_after w (a, p, l)" k] key rows by simp
  qed
  have wr: "wallet_ok w" "wallet_grid w" using ledger_invD(5,6) [OF e(1) e(3)] by auto
  show "spec (balances s (account_of params)) (m_amount m) = Some (balances s' (account_of params))"
    using step_spec [OF wr g] st upd before by (simp add: ma balances_def row_balance_def)
  show "k \<noteq> account_of params \<Longrightarrow> balances s' k = balances s k"
    using upd keep [of k] by (simp add: balances_def)
qed

text \<open>The movement records the parsed amount.\<close>

lemma committed_amount:
  assumes inv: "ledger_inv s" and run: "ledgerWrite dir ty step params s = (Inr (m, False), s')"
    and am: "parseAmount (p_amount params) = Inr amount"
  shows "m_amount m = amount"
proof -
  let ?key = "normalizeKey (p_idempotencyKey params)"
  from run am have tx: "ledgerWriteTx dir ty step params amount ?key s = Inr ((m, False), s')"
    by (cases rule: op_cases) auto
  have g: "0 \<le> amount" "on_grid amount" using parseAmount_grid [OF am] by auto
  have "find_row m_key ?key (movements s) = None"
    using tx tx_replay [of ?key s _ dir ty params amount] by (cases "find_row m_key ?key (movements s)") auto
  from tx_commit [OF inv g this tx] show ?thesis by (metis prod.inject)
qed

text \<open>Refusal: with a fresh key, an abstractly impossible step is a ledger error and no change.\<close>

lemma refuses:
  assumes inv: "ledger_inv s" and am: "parseAmount (p_amount params) = Inr amount"
    and key: "normalizeKey (p_idempotencyKey params) \<noteq> []"
      "normalizeKey (p_idempotencyKey params) \<notin> m_key ` set (movements s)"
    and ens: "ensureWalletAccount (p_orgId params) (p_environment params) (p_asset params) s = Inr (w, s1)"
    and act: "w_status w = Active" and no: "spec (balances s (account_of params)) amount = None"
  shows "\<exists>e. ledgerWrite dir ty step params s = (Inl e, s) \<and> is_InfraLedgerError e"
proof -
  note e = ensureWalletAccount_Inr [OF inv ens]
  have wr: "wallet_ok w" "wallet_grid w" using ledger_invD(5,6) [OF e(1) e(3)] by auto
  have g: "0 \<le> amount" "on_grid amount" using parseAmount_grid [OF am] by auto
  have "spec (row_balance w) amount = None"
    using no ensure_balances(2) [OF inv ens] by (simp add: account_of_def)
  then obtain err where st: "step w amount = Inl err"
    using step_spec [OF wr g] by (cases "step w amount") auto
  have "find_row m_key (normalizeKey (p_idempotencyKey params)) (movements s) = None"
    using key(2) by (simp add: find_row_None)
  then have "ledgerWriteTx dir ty step params amount (normalizeKey (p_idempotencyKey params)) s = Inl err"
    using ens act st e(2) by (simp add: ledgerWriteTx_def findMovementByIdempotency_def bnd_def require_def
        ledgerPost_def ledgerPostRow_def lockWalletRow_def)
  then have "ledgerWrite dir ty step params s = (Inl err, s)"
    using am key(1) step_Inl [OF st] by (simp add: ledgerWrite_def Let_def ledgerCatch_def)
  with step_Inl [OF st] show ?thesis by blast
qed

text \<open>A possible step of a positive amount on an active wallet is decided: it overflows the columns, or
  its reference is taken, or it commits.\<close>

lemma decides:
  assumes inv: "ledger_inv s" and am: "parseAmount (p_amount params) = Inr amount" and pos: "0 < amount"
    and key: "normalizeKey (p_idempotencyKey params) \<noteq> []"
      "normalizeKey (p_idempotencyKey params) \<notin> m_key ` set (movements s)"
    and ens: "ensureWalletAccount (p_orgId params) (p_environment params) (p_asset params) s = Inr (w, s1)"
    and act: "w_status w = Active" and yes: "spec (balances s (account_of params)) amount = Some b"
    and fresh: "uuid_of s1 (uuid_next s1) \<notin> m_id ` set (movements s)"
  shows "if \<not> balance_fits b then ledgerWrite dir ty step params s = (Inl NumericOverflow, s)
    else if ref_taken (param_ref ty params) s then ledgerWrite dir ty step params s = (Inl UniqueViolation, s)
    else \<exists>m s'. ledgerWrite dir ty step params s = (Inr (m, False), s')"
proof -
  let ?key = "normalizeKey (p_idempotencyKey params)"
  note e = ensureWalletAccount_Inr [OF inv ens]
  have wr: "wallet_ok w" "wallet_grid w" "wallet_fits w" using ledger_invD(5,6,11) [OF e(1) e(3)] by auto
  have g: "0 \<le> amount" "on_grid amount" using parseAmount_grid [OF am] by auto
  have spec: "spec (row_balance w) amount = Some b"
    using yes ensure_balances(2) [OF inv ens] by (simp add: account_of_def)
  then obtain upd a p l where st: "step w amount = Inr (upd, a, p, l)" and b: "b = (a, p, l)"
    using step_spec [OF wr(1,2) g] by (cases "step w amount") (auto split: prod.splits)
  note c = step_Inr [OF wr(1,2) g st]
  have only: "x \<in> set (wallets s1) \<Longrightarrow> w_id x = w_id w \<Longrightarrow> x = w" for x
    using find_row_mem [OF ledger_invD(1) [OF e(1)]] e(2) by (metis option.inject)
  have rows: "list_all (\<lambda>x. w_id x = w_id w \<longrightarrow> P (upd x)) (wallets s1) = P (upd w)" for P
    using only e(3) by (auto simp: list_all_iff)
  have fits: "wallet_fits (upd w) = balance_fits b"
    using c by (simp add: wallet_fits_def balance_fits_def b)
  have "w_id w \<in> w_id ` set (update_rows w_id (w_id w) upd (wallets s1))"
  proof -
    have "upd w \<in> set (update_rows w_id (w_id w) upd (wallets s1))"
      using e(3) by (auto simp: set_update_rows)
    moreover have "w_id (upd w) = w_id w" using c by (metis row_after_sel(1))
    ultimately show ?thesis by (metis imageI)
  qed
  moreover have "fits28 amount" if "balance_fits b"
    using spec_bound [OF wr(1) g(1) _ spec that] wr(3) by (simp add: row_balance_def balance_fits_def wallet_fits_def)
  moreover have "numeric7 amount = amount" "numeric7 a = a" "numeric7 p = p" "numeric7 l = l"
    using g c by (auto simp: wallet_grid_def)
  moreover have "\<bar>a\<bar> < 1000000000000000000000 \<and> \<bar>p\<bar> < 1000000000000000000000 \<and> \<bar>l\<bar> < 1000000000000000000000"
    if "balance_fits b" using that by (simp add: balance_fits_def b fits28_def)
  ultimately have ins: "insertMovement w dir amount ty' r (or_else (p_referenceType params) None)
      (or_else (p_referenceId params) None) ?key md a p l (s1\<lparr>wallets := update_rows w_id (w_id w) upd (wallets s1)\<rparr>)
    = (if ref_taken (param_ref ty params) s then Inl UniqueViolation
       else Inr (row i, s1\<lparr>wallets := update_rows w_id (w_id w) upd (wallets s1), uuid_next := Suc (uuid_next s1),
         movements := row i # movements s1\<rparr>))"
    if "balance_fits b" and "ty' = or_str (p_movementType params) ty"
      and "i = uuid_of s1 (uuid_next s1)"
      and "row = (\<lambda>i. \<lparr>m_id = i, m_wallet = w_id w, m_org = w_org w, m_env = w_env w, m_direction = dir,
         m_amount = amount, m_asset = w_asset w, m_type = ty', m_reference = r,
         m_reference_type = or_else (p_referenceType params) None, m_reference_id = or_else (p_referenceId params) None,
         m_key = ?key, m_metadata = md, m_available_after = a, m_pending_after = p, m_locked_after = l\<rparr>)"
      for ty' r md row i
    using that key(2) fresh pos e(4,5)
    by (simp add: insertMovement_def bnd_def new_uuid_def insert_movement_def movement_fits_def fits28_def
        movement_ref_def param_ref_def ref_taken_def wallet_key_def split: option.split)
  let ?post = "ledgerPost dir ty step params amount ?key (w_id w) s1"
  have upds: "update_wallet (w_id w) upd s1 = (if balance_fits b
      then Inr ((), s1\<lparr>wallets := update_rows w_id (w_id w) upd (wallets s1)\<rparr>) else Inl NumericOverflow)"
    using conjunct1 [OF conjunct2 [OF c]] rows [of wallet_ok] rows [of wallet_fits] fits by (simp add: update_wallet_def)
  have over: "?post = Inl NumericOverflow" if "\<not> balance_fits b"
    using st e(2) that by (simp add: ledgerPost_def ledgerPostRow_def lockWalletRow_def bnd_def upds)
  have taken: "?post = Inl UniqueViolation" if "balance_fits b" "ref_taken (param_ref ty params) s"
    using st e(2) that by (simp add: ledgerPost_def ledgerPostRow_def lockWalletRow_def bnd_def upds ins)
  have new: "\<exists>m s'. ?post = Inr (m, s')" if "balance_fits b" "\<not> ref_taken (param_ref ty params) s"
    using st e(2) that by (simp add: ledgerPost_def ledgerPostRow_def lockWalletRow_def bnd_def upds ins)
  have none: "find_row m_key ?key (movements s) = None"
    using key(2) by (simp add: find_row_None)
  then have tx: "ledgerWriteTx dir ty step params amount ?key s =
      (case ledgerPost dir ty step params amount ?key (w_id w) s1 of Inl e \<Rightarrow> Inl e | Inr (m, s') \<Rightarrow> Inr ((m, False), s'))"
    using ens act by (simp add: ledgerWriteTx_def findMovementByIdempotency_def bnd_def require_def split: sum.splits)
  have run: "ledgerWrite dir ty step params s = acatch (run_tx (\<lambda>s. ledgerWriteTx dir ty step params amount ?key s)) (ledgerCatch ?key) s"
    using am key(1) by (simp add: ledgerWrite_def Let_def)
  show ?thesis
  proof (cases "\<exists>m s'. ?post = Inr (m, s')")
    case True
    then obtain m s' where p: "?post = Inr (m, s')" by blast
    with over taken have "balance_fits b" "\<not> ref_taken (param_ref ty params) s" by force+
    with p show ?thesis by (simp add: run tx run_tx_def acatch_def)
  next
    case False
    with over taken new show ?thesis
      by (auto simp: run tx run_tx_def acatch_def ledgerCatch_def isUniqueViolation_def findMovementByIdempotency_def
          abnd_def none)
  qed
qed

text \<open>Progress: a possible step that fits the columns and has a new reference commits.\<close>

lemma commits:
  assumes inv: "ledger_inv s" and am: "parseAmount (p_amount params) = Inr amount" and pos: "0 < amount"
    and key: "normalizeKey (p_idempotencyKey params) \<noteq> []"
      "normalizeKey (p_idempotencyKey params) \<notin> m_key ` set (movements s)"
    and ens: "ensureWalletAccount (p_orgId params) (p_environment params) (p_asset params) s = Inr (w, s1)"
    and act: "w_status w = Active" and yes: "spec (balances s (account_of params)) amount = Some b"
    and fits: "balance_fits b" and fresh: "uuid_of s1 (uuid_next s1) \<notin> m_id ` set (movements s)"
    and ref: "\<not> ref_taken (param_ref ty params) s"
  shows "\<exists>m s'. ledgerWrite dir ty step params s = (Inr (m, False), s')"
  using decides [OF inv am pos key ens act yes fresh] fits ref by simp

end

section \<open>Every operation refines its specification\<close>

lemmas spec_defs = contract_defs row_balance_def wallet_grid_def

lemma spec_step_bound:
  assumes "spec_step op (row_balance row) x = Some b" and "wallet_ok row" and "0 \<le> x"
    and "balance_fits (row_balance row)" and "balance_fits b"
  shows "fits28 x"
  using assms by (cases op) (auto simp: row_balance_def wallet_ok_def balance_fits_def fits28_def split: if_splits)

lemma op_delta_funs:
  "op_delta OpCredit = (\<lambda>x. x)" "op_delta OpCreditPending = (\<lambda>x. x)" "op_delta OpReleasePending = (\<lambda>x. 0)"
  "op_delta OpDebit = (\<lambda>x. - x)" "op_delta OpLock = (\<lambda>x. 0)" "op_delta OpRelease = (\<lambda>x. 0)"
  "op_delta OpFinalize = (\<lambda>x. - x)"
  by (rule ext, simp)+

lemmas op_contracts = credit.write_contract_axioms credit_pending.write_contract_axioms
  release_pending.write_contract_axioms debit.write_contract_axioms lock.write_contract_axioms
  release.write_contract_axioms finalize.write_contract_axioms

lemma op_contract: "write_contract (op_step op) (op_delta op)"
  by (cases op) (simp_all only: op_step.simps op_delta_funs op_contracts)

lemma op_step_spec:
  assumes "wallet_ok row" and "wallet_grid row" and "0 \<le> amount" and "on_grid amount"
  shows "spec_step op (row_balance row) amount =
    (case op_step op row amount of Inl e \<Rightarrow> None | Inr (upd, b) \<Rightarrow> Some b)"
  using assms by (cases op) (auto simp: spec_defs)

lemma op_write_spec: "write_spec (op_step op) (op_delta op) (spec_step op)"
proof (intro write_spec.intro op_contract write_spec_axioms.intro)
  fix row amount
  assume "wallet_ok row" "wallet_grid row" "0 \<le> amount" "on_grid amount"
  then show "spec_step op (row_balance row) amount =
      (case op_step op row amount of Inl e \<Rightarrow> None | Inr (upd, b) \<Rightarrow> Some b)"
    by (rule op_step_spec)
qed (rule spec_step_bound)

interpretation op: write_spec "op_step op" "op_delta op" "spec_step op" for op
  by (rule op_write_spec)

lemma run_op_refines:
  assumes "ledger_inv s" and "run_op op params s = (Inr (m, False), s')"
  shows "spec_step op (balances s (account_of params)) (m_amount m) = Some (balances s' (account_of params))"
    and "k \<noteq> account_of params \<Longrightarrow> balances s' k = balances s k"
  using op.refines [OF assms(1) assms(2) [unfolded run_op_write]] by blast+

section \<open>Transfers refine an abstract transfer\<close>

definition spec_transfer ::
  "account \<Rightarrow> account \<Rightarrow> rat \<Rightarrow> (account \<Rightarrow> balance) \<Rightarrow> (account \<Rightarrow> balance) option" where
  "spec_transfer from to x b =
    (case (b from, b to) of ((a, p, l), (a', p', l')) \<Rightarrow>
       if from = to \<or> x \<le> 0 \<or> a < x then None
       else Some (b(from := (a - x, p, l), to := (a' + x, p', l'))))"

lemma balances_row:
  assumes "ledger_inv s" and "find_row w_id i (wallets s) = Some w"
  shows "balances s (wallet_key w) = row_balance w"
  using find_row_mem [OF ledger_invD(2) [OF assms(1)]] find_row_Some [OF assms(2)] by (simp add: balances_def)

lemma balances_other:
  assumes inv: "ledger_inv s" "ledger_inv s'"
    and same: "\<And>i. i \<notin> I \<Longrightarrow> find_row w_id i (wallets s') = find_row w_id i (wallets s)"
    and I: "\<And>i w. i \<in> I \<Longrightarrow> find_row w_id i (wallets s) = Some w \<or> find_row w_id i (wallets s') = Some w \<Longrightarrow> wallet_key w \<noteq> k"
  shows "balances s' k = balances s k"
proof -
  have half: "find_row wallet_key k (wallets y') = Some w"
    if "ledger_inv y" "ledger_inv y'" "find_row wallet_key k (wallets y) = Some w"
      "\<And>i. i \<notin> I \<Longrightarrow> find_row w_id i (wallets y') = find_row w_id i (wallets y)"
      "\<And>i w. i \<in> I \<Longrightarrow> find_row w_id i (wallets y) = Some w \<Longrightarrow> wallet_key w \<noteq> k" for y y' w
  proof -
    have w: "w \<in> set (wallets y)" "wallet_key w = k" using find_row_Some [OF that(3)] by auto
    have id: "find_row w_id (w_id w) (wallets y) = Some w"
      by (rule find_row_mem [OF ledger_invD(1) [OF that(1)] w(1)])
    with that(5) w(2) have "w_id w \<notin> I" by blast
    with that(4) id have "find_row w_id (w_id w) (wallets y') = Some w" by simp
    then have "w \<in> set (wallets y')" using find_row_Some by fast
    with find_row_mem [OF ledger_invD(2) [OF that(2)]] w(2) show ?thesis by blast
  qed
  have "find_row wallet_key k (wallets s') = find_row wallet_key k (wallets s)"
  proof (cases "find_row wallet_key k (wallets s)")
    case (Some w)
    with half [OF inv Some] same I show ?thesis by fastforce
  next
    case None
    show ?thesis
    proof (cases "find_row wallet_key k (wallets s')")
      case (Some w)
      with half [OF inv(2,1) Some] same I None show ?thesis by fastforce
    qed (use None in simp)
  qed
  then show ?thesis by (simp add: balances_def)
qed

lemma legs_balances:
  assumes inv: "ledger_inv s" and sr: "find_row w_id (w_id sw) (wallets s) = Some sw"
    and rr: "find_row w_id (w_id rw) (wallets s) = Some rw" and diff: "w_id sw \<noteq> w_id rw"
    and legs: "legs_result s s' sw rw amount d c"
  shows "spec_transfer (wallet_key sw) (wallet_key rw) amount (balances s) = Some (balances s')"
proof -
  have inv': "ledger_inv s'" and amount: "0 < amount" "amount \<le> w_available sw"
    and rows: "find_row w_id (w_id sw) (wallets s') = Some (debited sw amount)"
      "find_row w_id (w_id rw) (wallets s') = Some (credited rw amount)"
    and other: "\<And>i. i \<noteq> w_id sw \<Longrightarrow> i \<noteq> w_id rw \<Longrightarrow> find_row w_id i (wallets s') = find_row w_id i (wallets s)"
    using legs by (auto simp: legs_result_def)
  have keys: "wallet_key sw \<noteq> wallet_key rw"
    using find_row_mem [OF ledger_invD(2) [OF inv]] find_row_Some [OF sr] find_row_Some [OF rr] diff
    by (metis option.inject)
  have b: "balances s (wallet_key sw) = row_balance sw" "balances s (wallet_key rw) = row_balance rw"
    using balances_row [OF inv sr] balances_row [OF inv rr] by simp_all
  have b': "balances s' (wallet_key sw) = row_balance (debited sw amount)"
    "balances s' (wallet_key rw) = row_balance (credited rw amount)"
    using balances_row [OF inv' rows(1)] balances_row [OF inv' rows(2)] by simp_all
  have rest: "balances s' k = balances s k" if "k \<noteq> wallet_key sw" "k \<noteq> wallet_key rw" for k
    by (rule balances_other [OF inv inv', where I = "{w_id sw, w_id rw}"]) (use that other sr rr rows in auto)
  have "balances s' = (balances s)(wallet_key sw := row_balance (debited sw amount),
      wallet_key rw := row_balance (credited rw amount))"
    using b' rest by (auto simp: fun_eq_iff)
  with keys amount b show ?thesis by (simp add: spec_transfer_def row_balance_def)
qed

text \<open>The accounts of the two sides.\<close>

definition sender_account :: "transfer_params \<Rightarrow> account" where
  "sender_account params = (tp_senderOrgId params, normalizeEnv (tp_environment params), normalizeAsset (tp_asset params))"

definition recipient_account :: "transfer_params \<Rightarrow> account" where
  "recipient_account params = (tp_recipientOrgId params, normalizeEnv (tp_environment params), normalizeAsset (tp_asset params))"

definition payer_account :: "fee_params \<Rightarrow> account" where
  "payer_account params = (fp_payerOrgId params, normalizeEnv (fp_environment params), ''USDC'')"

definition revenue_account :: "fee_params \<Rightarrow> account" where
  "revenue_account params = (fp_revenueOrgId params, normalizeEnv (fp_environment params), ''USDC'')"

lemma normalizeAsset_default [simp]: "normalizeAsset (Some DEFAULT_INFRA_ASSET) = ''USDC''"
  by code_simp

lemma transfer_refines:
  assumes inv: "ledger_inv s" and run: "transferAvailableBalance params s = (Inr (d, c, False), s')"
  shows "spec_transfer (sender_account params) (recipient_account params) (m_amount d) (balances s) = Some (balances s')"
    and "m_amount c = m_amount d" "money s' = money s"
    and "parseAmount (tp_amount params) = Inr (m_amount d)"
proof -
  have tx: "transferAvailableTx params s = Inr ((d, c, False), s')"
    using run by (simp add: transferAvailableBalance_def act_simps)
  obtain amount sw s1 rw s2 where am: "parseAmount (tp_amount params) = Inr amount"
    and e1: "ensureWalletAccount (tp_senderOrgId params) (tp_environment params) (tp_asset params) s = Inr (sw, s1)"
    and e2: "ensureWalletAccount (tp_recipientOrgId params) (tp_environment params) (tp_asset params) s1 = Inr (rw, s2)"
    and diff: "w_id sw \<noteq> w_id rw" and legs: "legs_result s2 s' sw rw amount d c" and m: "money s' = money s"
    by (rule transferAvailableTx_moved [OF inv tx]) auto
  note w = two_wallets [OF inv e1 e2]
  have keys: "wallet_key sw = sender_account params" "wallet_key rw = recipient_account params"
    using ensureWalletAccount_Inr(1,4) [OF inv e1] ensureWalletAccount_Inr(4) [OF _ e2]
    by (auto simp: sender_account_def recipient_account_def)
  have bal: "balances s2 = balances s"
    using ensure_balances(1) [OF inv e1] ensure_balances(1) [OF ensureWalletAccount_Inr(1) [OF inv e1] e2] by simp
  have amounts: "m_amount d = amount" "m_amount c = amount" using legs by (simp_all add: legs_result_def)
  show "spec_transfer (sender_account params) (recipient_account params) (m_amount d) (balances s) = Some (balances s')"
    using legs_balances [OF w(1-3) diff legs] by (simp add: keys bal amounts)
  show "m_amount c = m_amount d" "money s' = money s" "parseAmount (tp_amount params) = Inr (m_amount d)"
    using amounts m am by simp_all
qed

lemma fee_refines:
  assumes inv: "ledger_inv s" and run: "applyDayfiTransactionFee params s = Inr (Some (d, c, False), s')"
    and diff: "fp_payerOrgId params \<noteq> fp_revenueOrgId params"
  shows "spec_transfer (payer_account params) (revenue_account params) (m_amount d) (balances s) = Some (balances s')"
    and "m_amount c = m_amount d" "money s' = money s"
    and "parseAmount (fp_amount params) = Inr (m_amount d)"
proof -
  obtain amount pw s1 rw s2 where am: "parseAmount (fp_amount params) = Inr amount"
    and e1: "ensureWalletAccount (fp_payerOrgId params) (fp_environment params) (Some DEFAULT_INFRA_ASSET) s = Inr (pw, s1)"
    and e2: "ensureWalletAccount (fp_revenueOrgId params) (fp_environment params) (Some DEFAULT_INFRA_ASSET) s1 = Inr (rw, s2)"
    and legs: "legs_result s2 s' pw rw amount d c" and m: "money s' = money s"
    by (rule applyFee_charged [OF inv run diff]) auto
  note w = two_wallets [OF inv e1 e2]
  have keys: "wallet_key pw = payer_account params" "wallet_key rw = revenue_account params"
    using ensureWalletAccount_Inr(1,4) [OF inv e1] ensureWalletAccount_Inr(4) [OF _ e2]
    by (auto simp: payer_account_def revenue_account_def)
  have bal: "balances s2 = balances s"
    using ensure_balances(1) [OF inv e1] ensure_balances(1) [OF ensureWalletAccount_Inr(1) [OF inv e1] e2] by simp
  have amounts: "m_amount d = amount" "m_amount c = amount" using legs by (simp_all add: legs_result_def)
  show "spec_transfer (payer_account params) (revenue_account params) (m_amount d) (balances s) = Some (balances s')"
    using legs_balances [OF w(1-3) w(4) [OF diff] legs] by (simp add: keys bal amounts)
  show "m_amount c = m_amount d" "money s' = money s" "parseAmount (fp_amount params) = Inr (m_amount d)"
    using amounts m am by simp_all
qed

text \<open>A fee whose payer is the revenue organisation is not moved but added: both legs write the one row
  from the balance that was read before the first.\<close>

definition spec_fee ::
  "account \<Rightarrow> account \<Rightarrow> rat \<Rightarrow> (account \<Rightarrow> balance) \<Rightarrow> (account \<Rightarrow> balance) option" where
  "spec_fee payer revenue x b =
    (if payer = revenue then
       (case b payer of (a, p, l) \<Rightarrow> if x \<le> 0 \<or> a < x then None else Some (b(payer := (a + x, p, l))))
     else spec_transfer payer revenue x b)"

lemma fee_self:
  assumes inv: "ledger_inv s" and run: "applyDayfiTransactionFee params s = Inr (Some (d, c, dup), s')"
    and new: "\<not> dup" and same: "fp_payerOrgId params = fp_revenueOrgId params"
  shows "parseAmount (fp_amount params) = Inr (m_amount d)" "0 < m_amount d" "money s' = money s + m_amount d"
    "spec_fee (payer_account params) (revenue_account params) (m_amount d) (balances s) = Some (balances s')"
proof -
  have "parseAmount (fp_amount params) = Inr (m_amount d) \<and> 0 < m_amount d \<and> money s' = money s + m_amount d
    \<and> spec_fee (payer_account params) (revenue_account params) (m_amount d) (balances s) = Some (balances s')"
    using inv run
  proof (cases rule: applyFee_cases)
    case (charged amount pw s1 rw s2 d' c' dup')
    note w = two_wallets [OF inv charged(3,4)]
    have am: "on_grid amount" using credit.parseAmount_grid [OF charged(1)] by simp
    have key: "wallet_key pw = payer_account params" "revenue_account params = payer_account params"
      using ensureWalletAccount_Inr(4) [OF inv charged(3)] same by (simp_all add: payer_account_def revenue_account_def)
    have "wallet_key pw = wallet_key rw"
      using ensureWalletAccount_Inr(1,4) [OF inv charged(3)] ensureWalletAccount_Inr(4) [OF _ charged(4)] same by simp
    then have eq: "rw = pw"
      using find_row_mem [OF ledger_invD(2) [OF w(1)]] find_row_Some [OF w(2)] find_row_Some [OF w(3)]
      by (metis option.inject)
    note legs = legs_self [OF w(1,2) charged(8) am charged(9) [unfolded writeFeeLegs_legs eq]]
    have bal: "balances s2 = balances s"
      using ensure_balances(1) [OF inv charged(3)]
        ensure_balances(1) [OF ensureWalletAccount_Inr(1) [OF inv charged(3)] charged(4)] by simp
    have rest: "balances s' k = balances s2 k" if "k \<noteq> wallet_key pw" for k
      by (rule balances_other [OF w(1) legs(1), where I = "{w_id pw}"]) (use that legs(4,7) w(2) in auto)
    have "balances s' = (balances s)(wallet_key pw := row_balance (credited pw amount))"
      using rest balances_row [OF legs(1), of "w_id pw"] legs(4) bal by (auto simp: fun_eq_iff)
    moreover have "balances s (wallet_key pw) = row_balance pw" using balances_row [OF w(1,2)] bal by simp
    ultimately show ?thesis
      using legs(2,5,6) charged(1,2,8) w(5) key by (simp add: spec_fee_def row_balance_def)
  qed (use new in simp_all)
  then show "parseAmount (fp_amount params) = Inr (m_amount d)" "0 < m_amount d" "money s' = money s + m_amount d"
    "spec_fee (payer_account params) (revenue_account params) (m_amount d) (balances s) = Some (balances s')"
    by simp_all
qed

text \<open>Whoever pays it, a fee is one abstract step.\<close>

lemma fee_spec:
  assumes inv: "ledger_inv s" and run: "applyDayfiTransactionFee params s = Inr (Some (d, c, False), s')"
  shows "spec_fee (payer_account params) (revenue_account params) (m_amount d) (balances s) = Some (balances s')"
    and "parseAmount (fp_amount params) = Inr (m_amount d)"
    and "money s' = money s + (if fp_payerOrgId params = fp_revenueOrgId params then m_amount d else 0)"
proof (atomize (full), cases "fp_payerOrgId params = fp_revenueOrgId params")
  case True
  with fee_self [OF inv run _ True] show "spec_fee (payer_account params) (revenue_account params) (m_amount d) (balances s) = Some (balances s')
    \<and> parseAmount (fp_amount params) = Inr (m_amount d)
    \<and> money s' = money s + (if fp_payerOrgId params = fp_revenueOrgId params then m_amount d else 0)"
    by simp
next
  case False
  then have "payer_account params \<noteq> revenue_account params" by (simp add: payer_account_def revenue_account_def)
  with fee_refines [OF inv run False] False
  show "spec_fee (payer_account params) (revenue_account params) (m_amount d) (balances s) = Some (balances s')
    \<and> parseAmount (fp_amount params) = Inr (m_amount d)
    \<and> money s' = money s + (if fp_payerOrgId params = fp_revenueOrgId params then m_amount d else 0)"
    by (simp add: spec_fee_def)
qed

section \<open>Runs of the ledger\<close>

text \<open>One call of a ledger function, whatever it returns.\<close>

inductive ledger_call :: "db \<Rightarrow> db \<Rightarrow> bool" where
  wallet_op: "run_op op params s = (r, s') \<Longrightarrow> ledger_call s s'"
| transfer: "transferAvailableBalance tparams s = (tr, s') \<Longrightarrow> ledger_call s s'"
| fee: "run_tx (applyDayfiTransactionFee fparams) s = (fr, s') \<Longrightarrow> ledger_call s s'"
| balance: "getOrgBalance i e a s = (b, s') \<Longrightarrow> ledger_call s s'"
| bootstrap: "bootstrapOrgWallets i s = (w, s') \<Longrightarrow> ledger_call s s'"

inductive_cases ledger_callE: "ledger_call s s'"

inductive ledger_calls :: "db \<Rightarrow> db \<Rightarrow> bool" where
  none: "ledger_calls s s"
| more: "ledger_calls s s1 \<Longrightarrow> ledger_call s1 s2 \<Longrightarrow> ledger_calls s s2"

definition extends :: "db \<Rightarrow> db \<Rightarrow> bool" where
  "extends s s' \<longleftrightarrow> ledger_inv s' \<and> (\<exists>new. movements s' = new @ movements s)"

lemma extends_refl: "ledger_inv s \<Longrightarrow> extends s s"
  by (simp add: extends_def)

lemma extends_trans: "extends s s1 \<Longrightarrow> extends s1 s2 \<Longrightarrow> extends s s2"
  by (auto simp: extends_def)

lemma run_op_extends: "ledger_inv s \<Longrightarrow> run_op op params s = (r, s') \<Longrightarrow> extends s s'"
  using op.op_inv op.op_grows by (auto simp: extends_def run_op_write) blast

lemma transfer_extends:
  assumes inv: "ledger_inv s" and run: "transferAvailableBalance params s = (r, s')"
  shows "extends s s'"
proof (cases r)
  case (Inl e)
  with run inv show ?thesis by (auto simp: transferAvailableBalance_def act_simps intro: extends_refl)
next
  case (Inr x)
  then obtain d c dup where tx: "transferAvailableTx params s = Inr ((d, c, dup), s')"
    using run by (cases x) (auto simp: transferAvailableBalance_def act_simps)
  have "\<exists>new. movements s' = new @ movements s"
  proof (cases dup)
    case True
    from inv tx show ?thesis by (cases rule: transferAvailableTx_cases) (use True in auto)
  next
    case False
    show ?thesis by (rule transferAvailableTx_moved [OF inv tx False]) auto
  qed
  with transferAvailableTx_inv [OF inv tx] show ?thesis by (simp add: extends_def)
qed

lemma applyFee_grows:
  assumes inv: "ledger_inv s" and run: "applyDayfiTransactionFee params s = Inr (res, s')"
  shows "\<exists>new. movements s' = new @ movements s"
  using inv run
proof (cases rule: applyFee_cases)
  case (charged amount pw s1 rw s2 d c dup)
  have "movements s2 = movements s" by (rule two_wallets(6) [OF inv charged(3,4)])
  moreover have "\<exists>d c. movements s' = c # d # movements s2"
    using charged(9) by (auto simp: writeFeeLegs_legs legs_tx_def tx_simps insertMovement_def)
  ultimately show ?thesis by auto
qed auto

lemma ledger_call_extends:
  assumes call: "ledger_call s s'" and inv: "ledger_inv s"
  shows "extends s s'"
  using call
proof (cases rule: ledger_call.cases)
  case (fee params r)
  then show ?thesis using inv
    by (cases r) (auto simp: act_simps extends_def dest: applyFee_inv applyFee_grows)
next
  case (balance i e a b)
  then show ?thesis
  proof (cases "ensureWalletAccount i e a s")
    case (Inr x)
    then obtain w s1 where "ensureWalletAccount i e a s = Inr (w, s1)" by (cases x) auto
    with balance ensureWalletAccount_Inr(1,5) [OF inv this] show ?thesis
      by (auto simp: getOrgBalance_def abnd_def arequire_run extends_def split: if_splits)
  qed (use balance inv in \<open>auto simp: getOrgBalance_def intro: extends_refl\<close>)
next
  case (bootstrap i w)
  then show ?thesis using inv
    by (cases w) (auto simp: bootstrapOrgWallets_def act_simps extends_def
        dest: ensureWalletAccount_Inr(1,5))
qed (use inv in \<open>auto intro: run_op_extends transfer_extends\<close>)

lemma ledger_calls_extends: "ledger_calls s s' \<Longrightarrow> ledger_inv s \<Longrightarrow> extends s s'"
proof (induction rule: ledger_calls.induct)
  case (none s)
  then show ?case by (rule extends_refl)
next
  case (more s s1 s2)
  then have "extends s s1" by simp
  moreover have "extends s1 s2"
    by (rule ledger_call_extends [OF more(2)]) (use \<open>extends s s1\<close> in \<open>simp add: extends_def\<close>)
  ultimately show ?case by (rule extends_trans)
qed

end
