(* ===== verification/Ledger_Concurrency.thy ===== *)
theory Ledger_Concurrency
  imports Ledger_Spec
begin

text \<open>
  Concurrent ledger writes under PostgreSQL's READ COMMITTED isolation. Any number of clients run a
  write operation; each statement of a transaction is a step of its own that sees the rows committed
  so far, \<open>SELECT ... FOR UPDATE\<close> waits while another client holds the row, and the update, the
  movement and the commit are one step, since nobody sees them before. A client that finds no wallet
  inserts one: the entry of the unique index makes every other \<open>INSERT ... ON CONFLICT DO UPDATE\<close>
  of the same account wait until the inserting transaction ends, and then lock and return the row that
  it has committed, or insert in its place when it was rolled back. The new row itself is invisible to
  the others until its transaction commits, so its identifier is drawn there. The result is that every
  interleaving is equivalent to running the committed operations one after the other.
\<close>

section \<open>Clients and steps\<close>

datatype pc = Begin | Checked | Missing | Inserting | Ensured string | Holding wallet | Finished "js_error + movement \<times> bool"

record client =
  cl_op :: wallet_op
  cl_params :: ledger_params
  cl_amount :: rat
  cl_pc :: pc

record sys =
  sys_db :: db
  sys_clients :: "nat \<Rightarrow> client"

definition cl_key :: "client \<Rightarrow> string" where
  "cl_key c = normalizeKey (p_idempotencyKey (cl_params c))"

text \<open>The parameters passed the checks that come before the transaction.\<close>

definition cl_valid :: "client \<Rightarrow> bool" where
  "cl_valid c \<longleftrightarrow> parseAmount (p_amount (cl_params c)) = Inr (cl_amount c) \<and> cl_key c \<noteq> []"

definition set_pc :: "sys \<Rightarrow> nat \<Rightarrow> pc \<Rightarrow> sys" where
  "set_pc y i p = y\<lparr>sys_clients := (sys_clients y)(i := (sys_clients y i)\<lparr>cl_pc := p\<rparr>)\<rparr>"

fun held_row :: "pc \<Rightarrow> string option" where
  "held_row (Holding row) = Some (w_id row)"
| "held_row _ = None"

definition cl_post :: "client \<Rightarrow> wallet \<Rightarrow> (db, movement) tx" where
  "cl_post c row = ledgerPostRow (op_direction (cl_op c)) (op_type (cl_op c)) (op_step (cl_op c))
     (cl_params c) (cl_amount c) (cl_key c) row"

text \<open>The transaction of a client that inserts the wallet: the insertion, then the write on the new row,
  which is active and locked by its own transaction.\<close>

definition cl_create :: "client \<Rightarrow> (db, movement) tx" where
  "cl_create c = (case account_of (cl_params c) of (orgId, env, asset) \<Rightarrow>
     bnd new_uuid (\<lambda>i. bnd (insert_wallet
       \<lparr>w_id = i, w_org = orgId, w_env = env, w_asset = asset, w_status = Active,
        w_available = 0, w_pending = 0, w_locked = 0\<rparr>) (cl_post c)))"

definition inserting :: "client \<Rightarrow> account option" where
  "inserting c = (if cl_pc c = Inserting then Some (account_of (cl_params c)) else None)"

definition lost_race :: "client \<Rightarrow> db \<Rightarrow> js_error + movement \<times> bool" where
  "lost_race c s = (case find_row m_key (cl_key c) (movements s) of
     Some m \<Rightarrow> Inr (m, True) | None \<Rightarrow> Inl UniqueViolation)"

inductive sys_step :: "sys \<Rightarrow> sys \<Rightarrow> bool" where
  find_hit: "c = sys_clients y i \<Longrightarrow> cl_pc c = Begin \<Longrightarrow>
     find_row m_key (cl_key c) (movements (sys_db y)) = Some m \<Longrightarrow>
     sys_step y (set_pc y i (Finished (Inr (m, True))))"
| find_miss: "c = sys_clients y i \<Longrightarrow> cl_pc c = Begin \<Longrightarrow>
     find_row m_key (cl_key c) (movements (sys_db y)) = None \<Longrightarrow>
     sys_step y (set_pc y i Checked)"
| ensure: "c = sys_clients y i \<Longrightarrow> cl_pc c = Checked \<Longrightarrow>
     find_row wallet_key (account_of (cl_params c)) (wallets (sys_db y)) = Some w \<Longrightarrow> w_status w = Active \<Longrightarrow>
     sys_step y (set_pc y i (Ensured (w_id w)))"
| inactive: "c = sys_clients y i \<Longrightarrow> cl_pc c = Checked \<Longrightarrow>
     find_row wallet_key (account_of (cl_params c)) (wallets (sys_db y)) = Some w \<Longrightarrow> w_status w \<noteq> Active \<Longrightarrow>
     sys_step y (set_pc y i (Finished (Inl (InfraLedgerError ''WALLET_INACTIVE'' 403))))"
| absent: "c = sys_clients y i \<Longrightarrow> cl_pc c = Checked \<Longrightarrow>
     find_row wallet_key (account_of (cl_params c)) (wallets (sys_db y)) = None \<Longrightarrow>
     sys_step y (set_pc y i Missing)"
| insert: "c = sys_clients y i \<Longrightarrow> cl_pc c = Missing \<Longrightarrow>
     find_row wallet_key (account_of (cl_params c)) (wallets (sys_db y)) = None \<Longrightarrow>
     (\<forall>j. inserting (sys_clients y j) \<noteq> Some (account_of (cl_params c))) \<Longrightarrow>
     org_exists (p_orgId (cl_params c)) (sys_db y) \<Longrightarrow>
     sys_step y (set_pc y i Inserting)"
| no_org: "c = sys_clients y i \<Longrightarrow> cl_pc c = Missing \<Longrightarrow>
     find_row wallet_key (account_of (cl_params c)) (wallets (sys_db y)) = None \<Longrightarrow>
     (\<forall>j. inserting (sys_clients y j) \<noteq> Some (account_of (cl_params c))) \<Longrightarrow>
     \<not> org_exists (p_orgId (cl_params c)) (sys_db y) \<Longrightarrow>
     sys_step y (set_pc y i (Finished (Inl ForeignKeyViolation)))"
| conflict: "c = sys_clients y i \<Longrightarrow> cl_pc c = Missing \<Longrightarrow>
     find_row wallet_key (account_of (cl_params c)) (wallets (sys_db y)) = Some w \<Longrightarrow>
     (\<forall>j. held_row (cl_pc (sys_clients y j)) \<noteq> Some (w_id w)) \<Longrightarrow> w_status w = Active \<Longrightarrow>
     sys_step y (set_pc y i (Holding w))"
| conflict_inactive: "c = sys_clients y i \<Longrightarrow> cl_pc c = Missing \<Longrightarrow>
     find_row wallet_key (account_of (cl_params c)) (wallets (sys_db y)) = Some w \<Longrightarrow>
     (\<forall>j. held_row (cl_pc (sys_clients y j)) \<noteq> Some (w_id w)) \<Longrightarrow> w_status w \<noteq> Active \<Longrightarrow>
     sys_step y (set_pc y i (Finished (Inl (InfraLedgerError ''WALLET_INACTIVE'' 403))))"
| create: "c = sys_clients y i \<Longrightarrow> cl_pc c = Inserting \<Longrightarrow> cl_create c (sys_db y) = Inr (m, s') \<Longrightarrow>
     sys_step y ((set_pc y i (Finished (Inr (m, False))))\<lparr>sys_db := s'\<rparr>)"
| create_race: "c = sys_clients y i \<Longrightarrow> cl_pc c = Inserting \<Longrightarrow> cl_create c (sys_db y) = Inl UniqueViolation \<Longrightarrow>
     sys_step y (set_pc y i (Finished (lost_race c (sys_db y))))"
| create_refuse: "c = sys_clients y i \<Longrightarrow> cl_pc c = Inserting \<Longrightarrow> cl_create c (sys_db y) = Inl e \<Longrightarrow>
     e \<noteq> UniqueViolation \<Longrightarrow>
     sys_step y (set_pc y i (Finished (Inl e)))"
| lock: "c = sys_clients y i \<Longrightarrow> cl_pc c = Ensured wid \<Longrightarrow>
     (\<forall>j. held_row (cl_pc (sys_clients y j)) \<noteq> Some wid) \<Longrightarrow>
     find_row w_id wid (wallets (sys_db y)) = Some row \<Longrightarrow>
     sys_step y (set_pc y i (Holding row))"
| commit: "c = sys_clients y i \<Longrightarrow> cl_pc c = Holding row \<Longrightarrow> cl_post c row (sys_db y) = Inr (m, s') \<Longrightarrow>
     sys_step y ((set_pc y i (Finished (Inr (m, False))))\<lparr>sys_db := s'\<rparr>)"
| race: "c = sys_clients y i \<Longrightarrow> cl_pc c = Holding row \<Longrightarrow> cl_post c row (sys_db y) = Inl UniqueViolation \<Longrightarrow>
     sys_step y (set_pc y i (Finished (lost_race c (sys_db y))))"
| refuse: "c = sys_clients y i \<Longrightarrow> cl_pc c = Holding row \<Longrightarrow> cl_post c row (sys_db y) = Inl e \<Longrightarrow>
     e \<noteq> UniqueViolation \<Longrightarrow>
     sys_step y (set_pc y i (Finished (Inl e)))"

inductive_cases sys_stepE: "sys_step y y'"

inductive sys_run :: "sys \<Rightarrow> sys \<Rightarrow> bool" where
  start: "sys_run y y"
| next_step: "sys_run y y1 \<Longrightarrow> sys_step y1 y2 \<Longrightarrow> sys_run y y2"

section \<open>The invariant of the interleaving\<close>

text \<open>A client that has passed the status check keeps an active wallet; a held row is current; while a
  wallet is being inserted, its account has no committed row.\<close>

definition pc_ok :: "db \<Rightarrow> client \<Rightarrow> bool" where
  "pc_ok s c = (case cl_pc c of
     Ensured wid \<Rightarrow> (\<exists>w. find_row w_id wid (wallets s) = Some w \<and> wallet_key w = account_of (cl_params c)
        \<and> w_status w = Active)
   | Holding row \<Rightarrow> find_row w_id (w_id row) (wallets s) = Some row
        \<and> wallet_key row = account_of (cl_params c) \<and> w_status row = Active
   | Inserting \<Rightarrow> find_row wallet_key (account_of (cl_params c)) (wallets s) = None
   | Finished (Inr (m, dup)) \<Rightarrow> m \<in> set (movements s) \<and> m_key m = cl_key c
   | _ \<Rightarrow> True)"

definition exclusive :: "sys \<Rightarrow> bool" where
  "exclusive y \<longleftrightarrow> (\<forall>i j. i \<noteq> j \<longrightarrow> held_row (cl_pc (sys_clients y i)) \<noteq> None \<longrightarrow>
     held_row (cl_pc (sys_clients y i)) \<noteq> held_row (cl_pc (sys_clients y j)))
   \<and> (\<forall>i j. i \<noteq> j \<longrightarrow> inserting (sys_clients y i) \<noteq> None \<longrightarrow>
     inserting (sys_clients y i) \<noteq> inserting (sys_clients y j))"

definition sys_inv :: "sys \<Rightarrow> bool" where
  "sys_inv y \<longleftrightarrow> ledger_inv (sys_db y) \<and> exclusive y
     \<and> (\<forall>i. cl_valid (sys_clients y i) \<and> pc_ok (sys_db y) (sys_clients y i))"

lemma set_pc_sel [simp]:
  "sys_db (set_pc y i p) = sys_db y"
  "sys_clients (set_pc y i p) j = (if j = i then (sys_clients y i)\<lparr>cl_pc := p\<rparr> else sys_clients y j)"
  by (simp_all add: set_pc_def)

lemma cl_upd [simp]:
  "cl_key (c\<lparr>cl_pc := p\<rparr>) = cl_key c" "cl_valid (c\<lparr>cl_pc := p\<rparr>) = cl_valid c"
  by (simp_all add: cl_key_def cl_valid_def)

lemma inserting_upd [simp]:
  "inserting (c\<lparr>cl_pc := p\<rparr>) = (if p = Inserting then Some (account_of (cl_params c)) else None)"
  by (simp add: inserting_def)

text \<open>A step that leaves the database alone.\<close>

lemma sys_inv_set_pc:
  assumes "sys_inv y" and "pc_ok (sys_db y) ((sys_clients y i)\<lparr>cl_pc := p\<rparr>)"
    and "held_row p = None \<or> (\<forall>j. held_row (cl_pc (sys_clients y j)) \<noteq> held_row p)"
    and "p = Inserting \<Longrightarrow> \<forall>j. inserting (sys_clients y j) \<noteq> Some (account_of (cl_params (sys_clients y i)))"
  shows "sys_inv (set_pc y i p)"
  using assms by (auto simp: sys_inv_def exclusive_def)

text \<open>Where a held row is current, the commit is the sequential operation.\<close>

lemma commit_sequential:
  assumes inv: "ledger_inv s" and valid: "cl_valid c"
    and row: "find_row w_id (w_id row) (wallets s) = Some row"
    and key: "wallet_key row = account_of (cl_params c)" and act: "w_status row = Active"
    and post: "cl_post c row s = Inr (m, s')"
  shows "run_op (cl_op c) (cl_params c) s = (Inr (m, False), s')"
proof -
  have "row \<in> set (wallets s)" using row by (auto dest: find_row_Some)
  then have "find_row wallet_key (account_of (cl_params c)) (wallets s) = Some row"
    using find_row_mem [OF ledger_invD(2) [OF inv]] key by metis
  then have ens: "ensureWalletAccount (p_orgId (cl_params c)) (p_environment (cl_params c)) (p_asset (cl_params c)) s
      = Inr (row, s)"
    by (simp add: ensureWalletAccount_def Let_def bnd_def account_of_def)
  have lp: "ledgerPost (op_direction (cl_op c)) (op_type (cl_op c)) (op_step (cl_op c)) (cl_params c)
      (cl_amount c) (cl_key c) (w_id row) s = Inr (m, s')"
    using post row by (simp add: ledgerPost_def lockWalletRow_def bnd_def cl_post_def)
  have am: "0 \<le> cl_amount c" "on_grid (cl_amount c)"
    using valid credit.parseAmount_grid by (auto simp: cl_valid_def)
  have "m_key m = cl_key c \<and> m_key m \<notin> m_key ` set (movements s)"
    by (rule op.post_Inr [OF inv am row lp]) simp
  then have "find_row m_key (cl_key c) (movements s) = None" by (metis find_row_None)
  then have "ledgerWriteTx (op_direction (cl_op c)) (op_type (cl_op c)) (op_step (cl_op c)) (cl_params c)
      (cl_amount c) (cl_key c) s = Inr ((m, False), s')"
    using ens act lp by (simp add: ledgerWriteTx_def findMovementByIdempotency_def bnd_def require_def)
  then show ?thesis
    using valid by (simp add: run_op_write ledgerWrite_def cl_valid_def cl_key_def Let_def)
qed

text \<open>Where the account has no row, the transaction that inserts it is the sequential operation too.\<close>

lemma create_sequential:
  assumes valid: "cl_valid c" and none: "find_row wallet_key (account_of (cl_params c)) (wallets s) = None"
    and run: "cl_create c s = Inr (m, s')" and inv: "ledger_inv s"
  obtains w s1 where "ensureWalletAccount (p_orgId (cl_params c)) (p_environment (cl_params c)) (p_asset (cl_params c)) s
      = Inr (w, s1)" "cl_post c w s1 = Inr (m, s')" "run_op (cl_op c) (cl_params c) s = (Inr (m, False), s')"
proof -
  from run none obtain w s1 where ens:
      "ensureWalletAccount (p_orgId (cl_params c)) (p_environment (cl_params c)) (p_asset (cl_params c)) s = Inr (w, s1)"
    and post: "cl_post c w s1 = Inr (m, s')"
    by (auto simp: cl_create_def account_of_def ensureWalletAccount_def Let_def tx_simps)
  note e = ensureWalletAccount_Inr [OF inv ens]
  have act: "w_status w = Active"
    using ens none by (auto simp: account_of_def ensureWalletAccount_def Let_def tx_simps)
  have lp: "ledgerPost (op_direction (cl_op c)) (op_type (cl_op c)) (op_step (cl_op c)) (cl_params c)
      (cl_amount c) (cl_key c) (w_id w) s1 = Inr (m, s')"
    using post e(2) by (simp add: ledgerPost_def lockWalletRow_def bnd_def cl_post_def)
  have am: "0 \<le> cl_amount c" "on_grid (cl_amount c)"
    using valid credit.parseAmount_grid by (auto simp: cl_valid_def)
  have "m_key m = cl_key c \<and> m_key m \<notin> m_key ` set (movements s1)"
    by (rule op.post_Inr [OF e(1) am e(2) lp]) simp
  then have "find_row m_key (cl_key c) (movements s) = None" by (metis find_row_None e(5))
  then have "ledgerWriteTx (op_direction (cl_op c)) (op_type (cl_op c)) (op_step (cl_op c)) (cl_params c)
      (cl_amount c) (cl_key c) s = Inr ((m, False), s')"
    using ens act lp by (simp add: ledgerWriteTx_def findMovementByIdempotency_def bnd_def require_def)
  then have "run_op (cl_op c) (cl_params c) s = (Inr (m, False), s')"
    using valid by (simp add: run_op_write ledgerWrite_def cl_valid_def cl_key_def Let_def)
  with ens post show thesis by (rule that)
qed

text \<open>What a commit leaves for the other clients: their movements, every other row, and the accounts
  that have a wallet.\<close>

lemma post_frame:
  assumes inv: "ledger_inv s" and valid: "cl_valid c"
    and row: "find_row w_id (w_id row) (wallets s) = Some row"
    and post: "cl_post c row s = Inr (m, s')"
  shows "movements s' = m # movements s" "m_key m = cl_key c"
    "\<exists>b. \<forall>k. find_row w_id k (wallets s') =
       (if k = w_id row then Some (row_after row b) else find_row w_id k (wallets s))"
    "wallet_key ` set (wallets s') = wallet_key ` set (wallets s)"
proof -
  have lp: "ledgerPost (op_direction (cl_op c)) (op_type (cl_op c)) (op_step (cl_op c)) (cl_params c)
      (cl_amount c) (cl_key c) (w_id row) s = Inr (m, s')"
    using post row by (simp add: ledgerPost_def lockWalletRow_def bnd_def cl_post_def)
  have am: "0 \<le> cl_amount c" "on_grid (cl_amount c)"
    using valid credit.parseAmount_grid by (auto simp: cl_valid_def)
  obtain a p l n where s': "s' = post_write s (row_after row (a, p, l)) m n" and k: "m_key m = cl_key c"
    by (rule op.post_Inr [OF inv am row lp]) blast
  show "movements s' = m # movements s" "m_key m = cl_key c" using s' k by (simp_all add: post_write_def)
  have "find_row w_id k (wallets s') = (if k = w_id row then Some (row_after row (a, p, l))
      else find_row w_id k (wallets s))" for k
    using find_row_update_const [OF row, of "row_after row (a, p, l)" k] by (simp add: s' post_write_def)
  then show "\<exists>b. \<forall>k. find_row w_id k (wallets s') =
       (if k = w_id row then Some (row_after row b) else find_row w_id k (wallets s))" by blast
  have "map wallet_key (wallets s') = map wallet_key (wallets s)"
    using update_rows_const_keys [OF ledger_invD(1) [OF inv] row, of wallet_key "row_after row (a, p, l)"]
    by (simp add: s' post_write_def)
  then show "wallet_key ` set (wallets s') = wallet_key ` set (wallets s)" by (metis set_map)
qed

lemma pc_ok_frame:
  assumes ok: "pc_ok s c" and grows: "set (movements s) \<subseteq> set (movements s')"
    and other: "held_row (cl_pc c) \<noteq> Some (w_id row)"
    and rows: "\<forall>k. find_row w_id k (wallets s') =
       (if k = w_id row then Some (row_after row b) else find_row w_id k (wallets s))"
    and row: "find_row w_id (w_id row) (wallets s) \<in> {None, Some row}"
    and keys: "inserting c = None \<or> wallet_key ` set (wallets s') \<subseteq> insert k (wallet_key ` set (wallets s)) \<and> inserting c \<noteq> Some k"
  shows "pc_ok s' c"
proof (cases "cl_pc c")
  case Inserting
  with ok keys have "account_of (cl_params c) \<notin> wallet_key ` set (wallets s')"
    by (auto simp: pc_ok_def inserting_def find_row_None)
  with Inserting show ?thesis by (simp add: pc_ok_def find_row_None)
next
  case (Ensured wid)
  with ok rows row show ?thesis by (cases "wid = w_id row") (auto simp: pc_ok_def)
next
  case (Holding r)
  with ok rows other show ?thesis by (auto simp: pc_ok_def)
next
  case (Finished r)
  with ok grows show ?thesis by (auto simp: pc_ok_def split: sum.splits)
qed (simp_all add: pc_ok_def)


lemma create_frame:
  assumes inv: "ledger_inv s" and valid: "cl_valid c"
    and none: "find_row wallet_key (account_of (cl_params c)) (wallets s) = None"
    and ens: "ensureWalletAccount (p_orgId (cl_params c)) (p_environment (cl_params c)) (p_asset (cl_params c)) s = Inr (w, s1)"
    and post: "cl_post c w s1 = Inr (m, s')"
  shows "movements s' = m # movements s" "m_key m = cl_key c" "find_row w_id (w_id w) (wallets s) = None"
    "\<exists>b. \<forall>k. find_row w_id k (wallets s') =
       (if k = w_id w then Some (row_after w b) else find_row w_id k (wallets s))"
    "wallet_key ` set (wallets s') = insert (account_of (cl_params c)) (wallet_key ` set (wallets s))"
proof -
  note e = ensureWalletAccount_Inr [OF inv ens]
  have key: "wallet_key w = account_of (cl_params c)" using e(4) by (simp add: account_of_def)
  have new: "wallets s1 = w # wallets s" "w_id w \<notin> w_id ` set (wallets s)"
    using e(3,8) none key imageI [of w "set (wallets s)" wallet_key] by (auto simp: find_row_None)
  note fr = post_frame [OF e(1) valid e(2) post]
  show "movements s' = m # movements s" "m_key m = cl_key c" using fr(1,2) e(5) by simp_all
  show "find_row w_id (w_id w) (wallets s) = None" using new(2) by (simp add: find_row_None)
  show "\<exists>b. \<forall>k. find_row w_id k (wallets s') =
       (if k = w_id w then Some (row_after w b) else find_row w_id k (wallets s))"
  proof -
    obtain b where "\<forall>k. find_row w_id k (wallets s') = (if k = w_id w then Some (row_after w b) else find_row w_id k (wallets s1))"
      using fr(3) by blast
    moreover have "find_row w_id k (wallets s1) = find_row w_id k (wallets s)" if "k \<noteq> w_id w" for k
      using that by (simp add: new(1))
    ultimately show ?thesis by (intro exI [of _ b]) simp
  qed
  show "wallet_key ` set (wallets s') = insert (account_of (cl_params c)) (wallet_key ` set (wallets s))"
    using fr(4) by (simp add: new(1) key)
qed

section \<open>Every step keeps the invariant and is a sequential step\<close>

text \<open>The clients whose write was committed.\<close>

definition committed :: "sys \<Rightarrow> nat set" where
  "committed y = {i. \<exists>m. cl_pc (sys_clients y i) = Finished (Inr (m, False))}"

lemma committed_set_pc [simp]:
  "committed (y\<lparr>sys_db := s\<rparr>) = committed y"
  "(\<And>r. cl_pc (sys_clients y i) \<noteq> Finished r) \<Longrightarrow> committed (set_pc y i p) =
     (if \<exists>m. p = Finished (Inr (m, False)) then insert i (committed y) else committed y)"
  by (auto simp: committed_def split: if_splits)

lemma lost_race_dup [simp]: "lost_race c s \<noteq> Inr (m, False)"
  by (auto simp: lost_race_def split: option.splits)

text \<open>A step that commits: one row written or added, which no other client holds or inserts.\<close>

lemma sys_inv_commit:
  assumes inv: "sys_inv y" and c: "c = sys_clients y i"
    and run: "run_op (cl_op c) (cl_params c) (sys_db y) = (Inr (m, False), s')"
    and moved: "movements s' = m # movements (sys_db y)" "m_key m = cl_key c"
    and rows: "\<forall>k. find_row w_id k (wallets s') =
       (if k = w_id row then Some (row_after row b) else find_row w_id k (wallets (sys_db y)))"
    and row: "find_row w_id (w_id row) (wallets (sys_db y)) \<in> {None, Some row}"
    and other: "\<And>j. j \<noteq> i \<Longrightarrow> held_row (cl_pc (sys_clients y j)) \<noteq> Some (w_id row)"
    and keys: "wallet_key ` set (wallets s') \<subseteq> insert k (wallet_key ` set (wallets (sys_db y)))"
      "\<And>j. j \<noteq> i \<Longrightarrow> inserting (sys_clients y j) \<noteq> Some k"
  shows "sys_inv ((set_pc y i (Finished (Inr (m, False))))\<lparr>sys_db := s'\<rparr>)"
proof -
  have all: "ledger_inv (sys_db y)" "\<And>i. cl_valid (sys_clients y i)"
    "\<And>i. pc_ok (sys_db y) (sys_clients y i)" "exclusive y"
    using inv by (auto simp: sys_inv_def)
  have grows: "set (movements (sys_db y)) \<subseteq> set (movements s')" using moved(1) by auto
  have "pc_ok s' (sys_clients y j)" if "j \<noteq> i" for j
    by (rule pc_ok_frame [OF all(3) grows other [OF that] rows row]) (use keys(1) keys(2) [OF that] in blast)
  moreover have "pc_ok s' (c\<lparr>cl_pc := Finished (Inr (m, False))\<rparr>)"
    using moved by (simp add: pc_ok_def)
  moreover have "ledger_inv s'"
    using run_op_extends [OF all(1) run] by (simp add: extends_def)
  moreover have "exclusive ((set_pc y i (Finished (Inr (m, False))))\<lparr>sys_db := s'\<rparr>)"
    using all(4) by (auto simp: exclusive_def)
  ultimately show ?thesis using c all(2) by (auto simp: sys_inv_def)
qed

lemma sys_step_cases:
  assumes inv: "sys_inv y" and st: "sys_step y y'"
  shows "sys_inv y' \<and> (sys_db y' = sys_db y \<and> committed y' = committed y \<or> (\<exists>i m.
    i \<notin> committed y \<and> committed y' = insert i (committed y) \<and> cl_pc (sys_clients y' i) = Finished (Inr (m, False))
    \<and> run_op (cl_op (sys_clients y i)) (cl_params (sys_clients y i)) (sys_db y) = (Inr (m, False), sys_db y')))"
proof -
  have all: "ledger_inv (sys_db y)" "\<And>i. cl_valid (sys_clients y i)"
    "\<And>i. pc_ok (sys_db y) (sys_clients y i)" "exclusive y"
    using inv by (auto simp: sys_inv_def)
  from st show ?thesis
  proof (cases rule: sys_step.cases)
    case (find_hit c i m)
    then have "pc_ok (sys_db y) ((sys_clients y i)\<lparr>cl_pc := Finished (Inr (m, True))\<rparr>)"
      by (auto simp: pc_ok_def dest: find_row_Some)
    with find_hit inv show ?thesis by (auto intro!: sys_inv_set_pc)
  next
    case (find_miss c i)
    with inv show ?thesis by (auto intro!: sys_inv_set_pc simp: pc_ok_def)
  next
    case (ensure c i w)
    have "w \<in> set (wallets (sys_db y))" "wallet_key w = account_of (cl_params c)"
      using ensure(4) by (auto dest: find_row_Some)
    then have "pc_ok (sys_db y) ((sys_clients y i)\<lparr>cl_pc := Ensured (w_id w)\<rparr>)"
      using find_row_mem [OF ledger_invD(1) [OF all(1)]] ensure by (auto simp: pc_ok_def)
    with ensure inv show ?thesis by (auto intro!: sys_inv_set_pc)
  next
    case (inactive c i w)
    with inv show ?thesis by (auto intro!: sys_inv_set_pc simp: pc_ok_def)
  next
    case (lock c i wid row)
    have "pc_ok (sys_db y) ((sys_clients y i)\<lparr>cl_pc := Holding row\<rparr>)"
      using all(3) [of i] lock find_row_Some [OF lock(5)] by (auto simp: pc_ok_def)
    with lock inv show ?thesis
      using find_row_Some [OF lock(5)] by (auto intro!: sys_inv_set_pc)
  next
    case (commit c i row m s')
    have ok: "find_row w_id (w_id row) (wallets (sys_db y)) = Some row"
      "wallet_key row = account_of (cl_params c)" "w_status row = Active"
      using all(3) [of i] commit by (auto simp: pc_ok_def)
    have valid: "cl_valid c" using all(2) commit by simp
    have run: "run_op (cl_op c) (cl_params c) (sys_db y) = (Inr (m, False), s')"
      by (rule commit_sequential [OF all(1) valid ok commit(4)])
    note fr = post_frame [OF all(1) valid ok(1) commit(4)]
    obtain b where rows: "\<forall>k. find_row w_id k (wallets s') =
       (if k = w_id row then Some (row_after row b) else find_row w_id k (wallets (sys_db y)))"
      using fr(3) by blast
    have other: "held_row (cl_pc (sys_clients y j)) \<noteq> Some (w_id row)" if "j \<noteq> i" for j
    proof -
      have "held_row (cl_pc (sys_clients y i)) = Some (w_id row)" using commit by simp
      with all(4) that show ?thesis unfolding exclusive_def by fastforce
    qed
    have taken: "account_of (cl_params c) \<in> wallet_key ` set (wallets (sys_db y))"
      using find_row_Some [OF ok(1)] ok(2) by (metis imageI)
    then have others: "inserting (sys_clients y j) \<noteq> Some (account_of (cl_params c))" for j
      using all(3) [of j] by (auto simp: inserting_def pc_ok_def find_row_None)
    have "sys_inv y'"
      unfolding commit(1)
      by (rule sys_inv_commit [OF inv commit(2) run fr(1,2) rows _ other _ others])
        (use ok(1) fr(4) in auto)
    moreover have "cl_pc (sys_clients y' i) = Finished (Inr (m, False))" "sys_db y' = s'"
      "i \<notin> committed y" "committed y' = insert i (committed y)"
      using commit by (simp_all add: committed_def) auto
    ultimately show ?thesis using run commit(2) by blast
  next
    case (absent c i)
    with inv show ?thesis by (auto intro!: sys_inv_set_pc simp: pc_ok_def)
  next
    case (insert c i)
    with inv show ?thesis by (auto intro!: sys_inv_set_pc simp: pc_ok_def)
  next
    case (no_org c i)
    with inv show ?thesis by (auto intro!: sys_inv_set_pc simp: pc_ok_def)
  next
    case (conflict c i w)
    have w: "w \<in> set (wallets (sys_db y))" "wallet_key w = account_of (cl_params c)"
      using conflict(4) by (auto dest: find_row_Some)
    then have "pc_ok (sys_db y) ((sys_clients y i)\<lparr>cl_pc := Holding w\<rparr>)"
      using find_row_mem [OF ledger_invD(1) [OF all(1)]] conflict by (auto simp: pc_ok_def)
    with conflict inv show ?thesis by (auto intro!: sys_inv_set_pc)
  next
    case (conflict_inactive c i w)
    with inv show ?thesis by (auto intro!: sys_inv_set_pc simp: pc_ok_def)
  next
    case (create c i m s')
    have none: "find_row wallet_key (account_of (cl_params c)) (wallets (sys_db y)) = None"
      using all(3) [of i] create by (simp add: pc_ok_def)
    have valid: "cl_valid c" using all(2) create by simp
    obtain w s1 where ens: "ensureWalletAccount (p_orgId (cl_params c)) (p_environment (cl_params c))
        (p_asset (cl_params c)) (sys_db y) = Inr (w, s1)"
      and post: "cl_post c w s1 = Inr (m, s')" and run: "run_op (cl_op c) (cl_params c) (sys_db y) = (Inr (m, False), s')"
      by (rule create_sequential [OF valid none create(4) all(1)])
    note fr = create_frame [OF all(1) valid none ens post]
    obtain b where rows: "\<forall>k. find_row w_id k (wallets s') =
       (if k = w_id w then Some (row_after w b) else find_row w_id k (wallets (sys_db y)))"
      using fr(4) by blast
    have other: "held_row (cl_pc (sys_clients y j)) \<noteq> Some (w_id w)" for j
    proof (cases "cl_pc (sys_clients y j)")
      case (Holding r)
      with all(3) [of j] fr(3) show ?thesis by (auto simp: pc_ok_def)
    qed simp_all
    have mine: "inserting (sys_clients y i) = Some (account_of (cl_params c))"
      using create by (simp add: inserting_def)
    have others: "inserting (sys_clients y j) \<noteq> Some (account_of (cl_params c))" if "j \<noteq> i" for j
      using all(4) mine that unfolding exclusive_def by (metis option.distinct(1))
    have "sys_inv y'"
      unfolding create(1)
      by (rule sys_inv_commit [OF inv create(2) run fr(1,2) rows _ other _ others])
        (use fr(3,5) in auto)
    moreover have "cl_pc (sys_clients y' i) = Finished (Inr (m, False))" "sys_db y' = s'"
      "i \<notin> committed y" "committed y' = insert i (committed y)"
      using create by (simp_all add: committed_def) auto
    ultimately show ?thesis using run create(2) by blast
  next
    case (create_race c i)
    have "pc_ok (sys_db y) ((sys_clients y i)\<lparr>cl_pc := Finished (lost_race c (sys_db y))\<rparr>)"
      using create_race by (auto simp: pc_ok_def lost_race_def split: option.splits dest: find_row_Some)
    with create_race inv show ?thesis by (auto intro!: sys_inv_set_pc)
  next
    case (create_refuse c i e)
    with inv show ?thesis by (auto intro!: sys_inv_set_pc simp: pc_ok_def)
  next
    case (race c i row)
    have "pc_ok (sys_db y) ((sys_clients y i)\<lparr>cl_pc := Finished (lost_race c (sys_db y))\<rparr>)"
      using race by (auto simp: pc_ok_def lost_race_def split: option.splits dest: find_row_Some)
    with race inv show ?thesis by (auto intro!: sys_inv_set_pc)
  next
    case (refuse c i row e)
    with inv show ?thesis by (auto intro!: sys_inv_set_pc simp: pc_ok_def)
  qed
qed

lemma sys_run_inv: "sys_run y y' \<Longrightarrow> sys_inv y \<Longrightarrow> sys_inv y'"
  by (induction rule: sys_run.induct) (auto dest: sys_step_cases)

lemma ledger_calls_trans: "ledger_calls s1 s2 \<Longrightarrow> ledger_calls s s1 \<Longrightarrow> ledger_calls s s2"
  by (induction rule: ledger_calls.induct) (auto intro: ledger_calls.more)

lemma sys_run_sequential: "sys_run y y' \<Longrightarrow> sys_inv y \<Longrightarrow> ledger_calls (sys_db y) (sys_db y')"
proof (induction rule: sys_run.induct)
  case (start y)
  show ?case by (rule ledger_calls.none)
next
  case (next_step y y1 y2)
  then have calls: "ledger_calls (sys_db y) (sys_db y1)" by simp
  have "sys_inv y1" by (rule sys_run_inv [OF next_step(1,4)])
  from sys_step_cases [OF this next_step(2)]
  show ?case
  proof (elim conjE disjE exE)
    assume "sys_db y2 = sys_db y1"
    with calls show ?thesis by simp
  next
    fix i m
    assume "run_op (cl_op (sys_clients y1 i)) (cl_params (sys_clients y1 i)) (sys_db y1) = (Inr (m, False), sys_db y2)"
    then have "ledger_call (sys_db y1) (sys_db y2)" by (rule ledger_call.wallet_op)
    with calls show ?thesis by (rule ledger_calls.more)
  qed
qed

text \<open>Running the operations of clients one after the other.\<close>

fun serial :: "(nat \<Rightarrow> client) \<Rightarrow> nat list \<Rightarrow> db \<Rightarrow> db \<Rightarrow> bool" where
  "serial cl [] s s' \<longleftrightarrow> s' = s"
| "serial cl (i # order) s s' \<longleftrightarrow>
     (case (cl_pc (cl i), run_op (cl_op (cl i)) (cl_params (cl i)) s) of
        (Finished r, (r', s1)) \<Rightarrow> r' = r \<and> serial cl order s1 s'
      | _ \<Rightarrow> False)"

lemma serial_snoc:
  "serial cl order s s1 \<Longrightarrow> cl_pc (cl i) = Finished r \<Longrightarrow> run_op (cl_op (cl i)) (cl_params (cl i)) s1 = (r, s2) \<Longrightarrow>
   serial cl (order @ [i]) s s2"
  by (induction order arbitrary: s) (auto split: pc.splits prod.splits)

lemma serial_cong:
  assumes "serial cl order s s'"
    and "\<And>i. i \<in> set order \<Longrightarrow> cl_op (cl' i) = cl_op (cl i) \<and> cl_params (cl' i) = cl_params (cl i) \<and> cl_pc (cl' i) = cl_pc (cl i)"
  shows "serial cl' order s s'"
  using assms by (induction order arbitrary: s) (auto split: pc.splits prod.splits)

lemma sys_step_stable:
  assumes "sys_step y y'"
  shows "cl_op (sys_clients y' i) = cl_op (sys_clients y i) \<and> cl_params (sys_clients y' i) = cl_params (sys_clients y i)
    \<and> (\<forall>r. cl_pc (sys_clients y i) = Finished r \<longrightarrow> cl_pc (sys_clients y' i) = Finished r)"
  using assms by (cases rule: sys_step.cases) auto

text \<open>Whatever the interleaving, some serial order of exactly the committed clients explains it.\<close>

lemma sys_run_serial:
  assumes "sys_run y y'" and "sys_inv y" and "committed y = {}"
  shows "\<exists>order. distinct order \<and> set order = committed y' \<and> serial (sys_clients y') order (sys_db y) (sys_db y')"
  using assms
proof (induction rule: sys_run.induct)
  case (start y)
  then show ?case by (intro exI [of _ "[]"]) simp
next
  case (next_step y y1 y2)
  then obtain order where o: "distinct order" "set order = committed y1"
    "serial (sys_clients y1) order (sys_db y) (sys_db y1)" by auto
  note st = sys_step_stable [OF next_step(2)]
  have ser: "serial (sys_clients y2) order (sys_db y) (sys_db y1)"
    by (rule serial_cong [OF o(3)]) (use st o(2) in \<open>auto simp: committed_def\<close>)
  have inv: "sys_inv y1" by (rule sys_run_inv [OF next_step(1,4)])
  from sys_step_cases [OF inv next_step(2)] show ?case
  proof (elim disjE conjE exE)
    assume "sys_db y2 = sys_db y1" "committed y2 = committed y1"
    with o ser show ?thesis by auto
  next
    fix i m assume new: "i \<notin> committed y1" "committed y2 = insert i (committed y1)"
      and "cl_pc (sys_clients y2 i) = Finished (Inr (m, False))"
      "run_op (cl_op (sys_clients y1 i)) (cl_params (sys_clients y1 i)) (sys_db y1) = (Inr (m, False), sys_db y2)"
    with serial_snoc [OF ser, of i] st [of i] have "serial (sys_clients y2) (order @ [i]) (sys_db y) (sys_db y2)"
      by simp
    with o new show ?thesis by (intro exI [of _ "order @ [i]"]) auto
  qed
qed

text \<open>In a serial run a key is created once.\<close>

lemma serial_fresh:
  assumes "serial cl order s s'" and "ledger_inv s" and "m \<in> set (movements s)" and "j \<in> set order"
    and "cl_valid (cl j)" and "cl_key (cl j) = m_key m" and "cl_pc (cl j) = Finished (Inr (m', False))"
  shows False
  using assms
proof (induction order arbitrary: s)
  case (Cons k order)
  then obtain r s1 where k: "cl_pc (cl k) = Finished r" "run_op (cl_op (cl k)) (cl_params (cl k)) s = (r, s1)"
    and rest: "serial cl order s1 s'" by (auto split: pc.splits prod.splits)
  show False
  proof (cases "k = j")
    case True
    have "run_op (cl_op (cl j)) (cl_params (cl j)) s = (Inr (m, True), s)"
      unfolding run_op_write
      by (rule op.op_replay [OF Cons.prems(2,3)]) (use Cons.prems(5,6) in \<open>auto simp: cl_valid_def cl_key_def\<close>)
    with k(2) True have "r = Inr (m, True)" by simp
    moreover have "r = Inr (m', False)" using k(1) True Cons.prems(7) by simp
    ultimately show False by simp
  next
    case False
    have "extends s s1" by (rule run_op_extends [OF Cons.prems(2) k(2)])
    with Cons.prems False show False
      by (intro Cons.IH [OF rest]) (auto simp: extends_def)
  qed
qed simp

lemma serial_once:
  assumes "serial cl order s s'" and "ledger_inv s" and "distinct order" and "i \<in> set order" "j \<in> set order" "i \<noteq> j"
    and "\<And>k. cl_valid (cl k)" and "cl_key (cl i) = cl_key (cl j)"
    and "cl_pc (cl i) = Finished (Inr (m, False))" "cl_pc (cl j) = Finished (Inr (m', False))"
  shows False
  using assms
proof (induction order arbitrary: s)
  case (Cons k order)
  then obtain r s1 where k: "cl_pc (cl k) = Finished r" "run_op (cl_op (cl k)) (cl_params (cl k)) s = (r, s1)"
    and rest: "serial cl order s1 s'" by (auto split: pc.splits prod.splits)
  have ext: "ledger_inv s1" using run_op_extends [OF Cons.prems(2) k(2)] by (simp add: extends_def)
  show False
  proof (cases "k = i \<or> k = j")
    case True
    then obtain n where r: "r = Inr (n, False)" using k Cons.prems by auto
    obtain other where other: "k = i \<and> other = j \<or> k = j \<and> other = i" using True by blast
    have "n \<in> set (movements s1) \<and> m_key n = cl_key (cl k)"
      using op.op_recorded [OF Cons.prems(2) k(2) [unfolded run_op_write r]] by (simp add: cl_key_def)
    moreover have "cl_key (cl other) = cl_key (cl k)" "other \<in> set order"
      "\<exists>m''. cl_pc (cl other) = Finished (Inr (m'', False))"
      using other Cons.prems by auto
    ultimately show False using serial_fresh [OF rest ext _ _ Cons.prems(7)] by metis
  next
    case False
    with Cons.prems show False by (intro Cons.IH [OF rest ext]) auto
  qed
qed simp

lemma sys_run_posts_once:
  assumes "sys_run y y'" and "sys_inv y" and "committed y = {}"
    and "cl_pc (sys_clients y' i) = Finished (Inr (m, d))" and "cl_pc (sys_clients y' j) = Finished (Inr (m', d'))"
    and "cl_key (sys_clients y' i) = cl_key (sys_clients y' j)" and "i \<noteq> j"
  shows "d \<or> d'"
proof (rule ccontr)
  assume "\<not> (d \<or> d')"
  with assms(4,5) have fin: "cl_pc (sys_clients y' i) = Finished (Inr (m, False))"
    "cl_pc (sys_clients y' j) = Finished (Inr (m', False))" by simp_all
  obtain order where "distinct order" "set order = committed y'" "serial (sys_clients y') order (sys_db y) (sys_db y')"
    using sys_run_serial [OF assms(1-3)] by blast
  moreover have "i \<in> committed y'" "j \<in> committed y'" using fin by (auto simp: committed_def)
  moreover have "ledger_inv (sys_db y)" "\<And>k. cl_valid (sys_clients y' k)"
    using assms(2) sys_run_inv [OF assms(1,2)] by (auto simp: sys_inv_def)
  ultimately show False using serial_once [OF _ _ _ _ _ assms(7) _ assms(6) fin] by blast
qed

text \<open>A client that runs alone.\<close>

lemma solo_commit:
  assumes start: "\<And>j. cl_pc (sys_clients y j) = Begin" and c: "c = sys_clients y i"
    and new: "find_row m_key (cl_key c) (movements (sys_db y)) = None"
    and w: "find_row wallet_key (account_of (cl_params c)) (wallets (sys_db y)) = Some w" "w_status w = Active"
    and row: "find_row w_id (w_id w) (wallets (sys_db y)) = Some w"
    and post: "cl_post c w (sys_db y) = Inr (m, s')"
  shows "sys_run y ((set_pc y i (Finished (Inr (m, False))))\<lparr>sys_db := s'\<rparr>)"
proof -
  have twice: "set_pc (set_pc y i p) i p' = set_pc y i p'" for p p' by (simp add: set_pc_def)
  have "sys_step y (set_pc y i Checked)"
    by (rule sys_step.find_miss [OF c]) (use start c new in simp_all)
  then have "sys_run y (set_pc y i Checked)" by (rule sys_run.next_step [OF sys_run.start])
  moreover have "sys_step (set_pc y i Checked) (set_pc y i (Ensured (w_id w)))"
    using sys_step.ensure [OF refl, of "set_pc y i Checked" i w] w c by (simp add: twice)
  ultimately have "sys_run y (set_pc y i (Ensured (w_id w)))" by (rule sys_run.next_step)
  moreover have "sys_step (set_pc y i (Ensured (w_id w))) (set_pc y i (Holding w))"
    using sys_step.lock [OF refl, of "set_pc y i (Ensured (w_id w))" i "w_id w" w] row start by (simp add: twice)
  ultimately have run: "sys_run y (set_pc y i (Holding w))" by (rule sys_run.next_step)
  have "cl_post (c\<lparr>cl_pc := p\<rparr>) w = cl_post c w" for p by (simp add: cl_post_def fun_eq_iff)
  then have "sys_step (set_pc y i (Holding w)) ((set_pc y i (Finished (Inr (m, False))))\<lparr>sys_db := s'\<rparr>)"
    using sys_step.commit [OF refl, of "set_pc y i (Holding w)" i w m s'] post c by (simp add: twice)
  with run show ?thesis by (rule sys_run.next_step)
qed

text \<open>Two finished clients with one key hold the same movement: it was posted once.\<close>

lemma same_key_same_movement:
  assumes "sys_inv y" and "cl_pc (sys_clients y i) = Finished (Inr (m, d))"
    and "cl_pc (sys_clients y j) = Finished (Inr (m', d'))" and "cl_key (sys_clients y i) = cl_key (sys_clients y j)"
  shows "m = m'"
proof -
  have "pc_ok (sys_db y) (sys_clients y i)" "pc_ok (sys_db y) (sys_clients y j)" "ledger_inv (sys_db y)"
    using assms(1) by (auto simp: sys_inv_def)
  then have "m \<in> set (movements (sys_db y))" "m' \<in> set (movements (sys_db y))" "m_key m = m_key m'"
    using assms(2-4) by (auto simp: pc_ok_def)
  then show ?thesis
    using find_row_mem [OF ledger_invD(4) [OF \<open>ledger_inv (sys_db y)\<close>]] by (metis option.inject)
qed

end
