(* ===== verification/Examples.thy ===== *)
theory Examples
  imports Money_Amount Ledger_Concurrency
begin

text \<open>
  Concrete databases and requests, on which the properties are evaluated: two organisations, a
  supply of identifiers, and wallets funded through the ledger's own operations.
\<close>

definition ex_uuid :: "nat \<Rightarrow> string" where
  "ex_uuid n = CHR ''u'' # show_nat n"

definition ex_member :: "string \<Rightarrow> string \<Rightarrow> member" where
  "ex_member tag orgId = \<lparr>mb_id = ''m-'' @ tag, mb_tag = tag, mb_org = Some orgId, mb_name = Some ''Ada'', mb_email = Some ''ada@acme.co'',
     mb_phone = Some ''+2347000000000'', mb_dob = Some ''1990-01-02'', mb_address = Some ''1 Marina'', mb_bvn = Some ''12345678901'',
     mb_country = Some ''NG''\<rparr>"

definition ex_db :: db where
  "ex_db = \<lparr>orgs = [\<lparr>o_id = ''acme'', o_slug = ''acme'', o_name = ''acme''\<rparr>, \<lparr>o_id = ''beta'', o_slug = ''beta'', o_name = ''beta''\<rparr>],
     members = [], wallets = [], movements = [], txns = [], transfers = [], fees = [], settlements = [],
     fx_rates = [], st_accounts = [], st_custody = [], recipients = [], destinations = [], deposits = [], rebalances = [],
     batches = [], bulk_items = [], uuid_of = ex_uuid, uuid_next = 0\<rparr>"

definition ex_params :: "string \<Rightarrow> string \<Rightarrow> rat \<Rightarrow> ledger_params" where
  "ex_params i key x = \<lparr>p_orgId = i, p_environment = ''test'', p_amount = RNum (Fin x), p_asset = None,
     p_idempotencyKey = Some key, p_movementType = None, p_reference = None, p_referenceType = None,
     p_referenceId = None, p_metadata = None\<rparr>"

definition ex_funded :: db where
  "ex_funded = snd (creditOrgWallet (ex_params ''acme'' ''k1'' 100) ex_db)"

definition ex_locked :: db where
  "ex_locked = snd (lockOrgFunds (ex_params ''acme'' ''k2'' 40) ex_funded)"

definition ex_account :: account where
  "ex_account = (''acme'', Test, ''USDC'')"

definition ex_transfer :: transfer_params where
  "ex_transfer = \<lparr>tp_senderOrgId = ''acme'', tp_recipientOrgId = ''beta'', tp_environment = ''test'',
     tp_amount = RNum (Fin (25 / 2)), tp_asset = None, tp_transferGroupId = ''g1'', tp_debitKey = Some ''d1'',
     tp_creditKey = Some ''c1'', tp_senderReferenceId = ''s1'', tp_recipientReferenceId = ''r1'',
     tp_metadata = None\<rparr>"

definition ex_fee :: "string \<Rightarrow> fee_params" where
  "ex_fee revenue = \<lparr>fp_payerOrgId = ''acme'', fp_revenueOrgId = revenue, fp_environment = ''test'',
     fp_amount = RStr ''0.5'', fp_transferGroupId = ''g1'', fp_payerReferenceId = ''p1'',
     fp_revenueReferenceId = ''v1'', fp_debitKey = Some ''fd'', fp_creditKey = Some ''fc'', fp_metadata = None\<rparr>"

text \<open>The value and the state of a run that succeeded.\<close>

definition succeeded :: "(js_error + 'a) \<times> 's \<Rightarrow> bool" where
  "succeeded r \<longleftrightarrow> (case fst r of Inl e \<Rightarrow> False | Inr a \<Rightarrow> True)"

definition posted :: "(js_error + 'a \<times> bool) \<times> 's \<Rightarrow> bool" where
  "posted r \<longleftrightarrow> (case fst r of Inl e \<Rightarrow> False | Inr (m, dup) \<Rightarrow> \<not> dup)"

definition value_of :: "(js_error + 'a) \<times> 's \<Rightarrow> 'a" where
  "value_of r = projr (fst r)"

lemma succeeded_run: "succeeded r \<Longrightarrow> r = (Inr (value_of r), snd r)"
  by (cases r) (auto simp: succeeded_def value_of_def split: sum.splits)

lemma posted_run: "posted r \<Longrightarrow> r = (Inr (fst (value_of r), False), snd r)"
  by (cases r) (auto simp: posted_def value_of_def split: sum.splits)

lemma ex_db_inv: "ledger_inv ex_db" by code_simp

lemma ex_funded_inv: "ledger_inv ex_funded" by code_simp

lemma ex_locked_inv: "ledger_inv ex_locked" by code_simp

end
