(* ===== verification/Ledger_Properties.thy ===== *)
theory Ledger_Properties
  imports Examples
begin

text \<open>
  The properties of the ledger and of the money arithmetic, stated over the definitions of the code,
  each with a witness that applies it to concrete data.
\<close>

section \<open>The wallet operations\<close>

text \<open>C1: Refinement. Each of the seven wallet operations of the ledger, when it commits, performs
  exactly its abstract step on the balances of one organisation, environment and asset, for the
  amount that its movement records, and leaves every other account alone.\<close>

theorem wallet_op_refines:
  assumes "ledger_inv s" and "run_op op params s = (Inr (m, False), s')"
  shows "spec_step op (balances s (account_of params)) (m_amount m) = Some (balances s' (account_of params))
    \<and> (\<forall>k. k \<noteq> account_of params \<longrightarrow> balances s' k = balances s k)"
  using run_op_refines [OF assms] by blast

lemma wallet_op_refines_witness:
  "spec_step OpLock (balances ex_funded ex_account) 40 = Some (balances ex_locked ex_account)
   \<and> balances ex_locked ex_account = (60, 0, 40)"
proof -
  let ?r = "run_op OpLock (ex_params ''acme'' ''k2'' 40) ex_funded"
  have "posted ?r" by code_simp
  note w = wallet_op_refines [OF ex_funded_inv posted_run [OF this]]
  have "m_amount (fst (value_of ?r)) = 40" "account_of (ex_params ''acme'' ''k2'' 40) = ex_account"
    "balances ex_locked ex_account = (60, 0, 40)" by code_simp+
  with w show ?thesis by (simp add: ex_locked_def)
qed



text \<open>Money supply. A wallet operation that answers changes the total of all available, pending
  and locked balances by exactly the amount of its movement for a credit, takes it away for a debit
  and a settlement, leaves the total alone for a lock, a release and a pending release, and by
  nothing at all when it answers a replay.\<close>

theorem wallet_op_money:
  assumes "ledger_inv s" and "run_op op params s = (Inr (m, dup), s')"
  shows "money s' = money s + (if dup then 0 else op_delta op (m_amount m))"
  using op.op_money [OF assms(1) assms(2) [unfolded run_op_write]] .

lemma wallet_op_money_witness: "money ex_locked = money ex_funded \<and> money ex_funded = 100"
proof -
  have "posted (run_op OpLock (ex_params ''acme'' ''k2'' 40) ex_funded)" by code_simp
  note w = wallet_op_money [OF ex_funded_inv posted_run [OF this]]
  have "money ex_funded = 100" by code_simp
  with w show ?thesis by (simp add: ex_locked_def)
qed

text \<open>C7: Ledger history. Whatever sequence of ledger calls runs, with whatever arguments and
  results, the ledger stays well formed (unique ids and keys, no negative balance, every balance the
  projection of its newest movement) and the movement table is append-only.\<close>

theorem ledger_history:
  assumes "ledger_inv s" and "ledger_calls s s'"
  shows "ledger_inv s' \<and> (\<exists>new. movements s' = new @ movements s)"
  using ledger_calls_extends [OF assms(2,1)] by (simp add: extends_def)

lemma ledger_history_witness: "ledger_inv (snd (transferAvailableBalance ex_transfer ex_locked))"
proof -
  have "ledger_call ex_funded ex_locked"
    by (rule ledger_call.wallet_op [of OpLock "ex_params ''acme'' ''k2'' 40" _ "fst (lockOrgFunds (ex_params ''acme'' ''k2'' 40) ex_funded)"])
      (simp add: ex_locked_def)
  moreover have "ledger_call ex_locked (snd (transferAvailableBalance ex_transfer ex_locked))"
    by (rule ledger_call.transfer [of ex_transfer _ "fst (transferAvailableBalance ex_transfer ex_locked)"]) simp
  ultimately have "ledger_calls ex_funded (snd (transferAvailableBalance ex_transfer ex_locked))"
    by (blast intro: ledger_calls.intros)
  from ledger_history [OF ex_funded_inv this] show ?thesis ..
qed

text \<open>C23: Idempotency. Once a wallet operation has answered with a movement, any later wallet operation
  that carries the same idempotency key and a parseable amount, after any number of other ledger
  calls, is answered with that very movement as a duplicate and changes nothing.\<close>

theorem wallet_op_idempotent:
  assumes "ledger_inv s" and "run_op op params s = (Inr (m, dup), s1)" and "ledger_calls s1 s2"
    and "normalizeKey (p_idempotencyKey params') = normalizeKey (p_idempotencyKey params)"
    and "normalizeKey (p_idempotencyKey params) \<noteq> []"
    and "parseAmount (p_amount params') = Inr amount"
  shows "run_op op' params' s2 = (Inr (m, True), s2)"
proof -
  note r = op.op_recorded [OF assms(1) assms(2) [unfolded run_op_write]]
  have "ledger_inv s1" using run_op_extends [OF assms(1,2)] by (simp add: extends_def)
  with ledger_calls_extends [OF assms(3)] have s2: "ledger_inv s2" "m \<in> set (movements s2)"
    using r(1) by (auto simp: extends_def)
  show ?thesis
    unfolding run_op_write by (rule op.op_replay [OF s2 _ _ assms(6)]) (use r(2) assms(4,5) in simp_all)
qed

lemma wallet_op_idempotent_witness:
  "\<exists>m. run_op OpCredit (ex_params ''acme'' ''k2'' 7) ex_locked = (Inr (m, True), ex_locked)"
proof -
  let ?r = "run_op OpLock (ex_params ''acme'' ''k2'' 40) ex_funded"
  have "posted ?r" by code_simp
  then have run: "?r = (Inr (fst (value_of ?r), False), ex_locked)"
    using posted_run [of ?r] by (simp add: ex_locked_def)
  have "normalizeKey (p_idempotencyKey (ex_params ''acme'' ''k2'' 7)) = normalizeKey (p_idempotencyKey (ex_params ''acme'' ''k2'' 40))"
    "normalizeKey (p_idempotencyKey (ex_params ''acme'' ''k2'' 40)) \<noteq> []"
    "parseAmount (p_amount (ex_params ''acme'' ''k2'' 7)) = Inr 7" by code_simp+
  from wallet_op_idempotent [OF ex_funded_inv run ledger_calls.none this] show ?thesis by blast
qed

text \<open>Reservation life cycle. Locking an amount and then releasing it restores the account, and
  locking then settling it equals an immediate debit: in both cases nothing stays locked.\<close>

theorem lock_release_settle:
  assumes "ledger_inv s" and "lockOrgFunds p1 s = (Inr (m1, False), s1)"
    and "account_of p2 = account_of p1" and "m_amount m2 = m_amount m1"
  shows "(releaseOrgFunds p2 s1 = (Inr (m2, False), s2) \<longrightarrow> balances s2 = balances s)
    \<and> (finalizeLockedDebit p2 s1 = (Inr (m2, False), s2) \<longrightarrow>
         spec_step OpDebit (balances s (account_of p1)) (m_amount m1) = Some (balances s2 (account_of p1)))"
proof -
  let ?k = "account_of p1"
  obtain a p l where b: "balances s ?k = (a, p, l)" by (cases "balances s ?k") auto
  have s1: "ledger_inv s1" using run_op_extends [OF assms(1), of OpLock p1] assms(2) by (simp add: extends_def)
  have b1: "spec_step OpLock (balances s ?k) (m_amount m1) = Some (balances s1 ?k)"
    "\<And>k. k \<noteq> ?k \<Longrightarrow> balances s1 k = balances s k"
    using run_op_refines [OF assms(1), of OpLock p1 m1 s1] assms(2) by simp_all
  have after: "balances s1 ?k = (a - m_amount m1, p, l + m_amount m1)"
    using b b1(1) by (simp split: if_splits)
  have rel: "balances s2 = balances s" if r: "releaseOrgFunds p2 s1 = (Inr (m2, False), s2)"
  proof
    fix k
    have "spec_step OpRelease (balances s1 ?k) (m_amount m2) = Some (balances s2 ?k)"
      and "k \<noteq> ?k \<Longrightarrow> balances s2 k = balances s1 k"
      using run_op_refines [OF s1, of OpRelease p2 m2 s2] r assms(3) by simp_all
    with b b1(2) after assms(4) show "balances s2 k = balances s k"
      by (cases "k = ?k") (simp_all split: if_splits)
  qed
  have fin: "spec_step OpDebit (balances s ?k) (m_amount m1) = Some (balances s2 ?k)"
    if r: "finalizeLockedDebit p2 s1 = (Inr (m2, False), s2)"
  proof -
    have "spec_step OpFinalize (balances s1 ?k) (m_amount m2) = Some (balances s2 ?k)"
      using run_op_refines(1) [OF s1, of OpFinalize p2 m2 s2] r assms(3) by simp
    with b b1(1) after assms(4) show ?thesis by (simp split: if_splits)
  qed
  from rel fin show ?thesis by blast
qed

lemma lock_release_settle_witness:
  "balances (snd (releaseOrgFunds (ex_params ''acme'' ''k3'' 40) ex_locked)) = balances ex_funded"
proof -
  let ?l = "lockOrgFunds (ex_params ''acme'' ''k2'' 40) ex_funded"
  let ?r = "releaseOrgFunds (ex_params ''acme'' ''k3'' 40) ex_locked"
  have "posted ?l" "posted ?r" by code_simp+
  then have l: "?l = (Inr (fst (value_of ?l), False), ex_locked)"
    and r: "?r = (Inr (fst (value_of ?r), False), snd ?r)"
    using posted_run [of ?l] posted_run [of ?r] by (simp_all add: ex_locked_def)
  have "account_of (ex_params ''acme'' ''k3'' 40) = account_of (ex_params ''acme'' ''k2'' 40)"
    "m_amount (fst (value_of ?r)) = m_amount (fst (value_of ?l))" by code_simp+
  from lock_release_settle [OF ex_funded_inv l this] r show ?thesis by blast
qed

section \<open>Transfers and fees\<close>

text \<open>Transfer refinement. A committed internal transfer moves exactly the parsed amount from the
  sender's account to the recipient's, both legs record that amount, the sender had it, no other
  account changes, and the total money is conserved.\<close>

theorem transfer_moves:
  assumes "ledger_inv s" and "transferAvailableBalance params s = (Inr (d, c, False), s')"
  shows "spec_transfer (sender_account params) (recipient_account params) (m_amount d) (balances s) = Some (balances s')
    \<and> parseAmount (tp_amount params) = Inr (m_amount d) \<and> m_amount c = m_amount d \<and> money s' = money s"
  using transfer_refines [OF assms] by simp

lemma transfer_moves_witness:
  "balances (snd (transferAvailableBalance ex_transfer ex_locked)) (''beta'', Test, ''USDC'') = (25 / 2, 0, 0)
   \<and> money (snd (transferAvailableBalance ex_transfer ex_locked)) = money ex_locked"
proof -
  let ?r = "transferAvailableBalance ex_transfer ex_locked"
  have v: "succeeded ?r" "snd (snd (value_of ?r)) = False" "m_amount (fst (value_of ?r)) = 25 / 2"
    "sender_account ex_transfer = ex_account" "recipient_account ex_transfer = (''beta'', Test, ''USDC'')"
    "balances ex_locked ex_account = (60, 0, 40)" "balances ex_locked (''beta'', Test, ''USDC'') = (0, 0, 0)" by code_simp+
  obtain d c where dc: "value_of ?r = (d, c, False)" using v(2) by (cases "value_of ?r") auto
  have run: "?r = (Inr (d, c, False), snd ?r)" using succeeded_run [OF v(1)] dc by simp
  note w = transfer_moves [OF ex_locked_inv run]
  have "m_amount d = 25 / 2" using v(3) dc by simp
  with w v have "balances (snd ?r) = (balances ex_locked)(ex_account := (95 / 2, 0, 40), (''beta'', Test, ''USDC'') := (25 / 2, 0, 0))"
    by (simp add: spec_transfer_def ex_account_def)
  with w show ?thesis by simp
qed

text \<open>Transfer idempotency. A transfer that has answered is answered again with the same two
  movements as a duplicate, and without any change, whenever a transfer between two different
  organisations comes with the same two keys, after any other ledger calls, whichever the
  organisations and the amount of the second request are.\<close>

theorem transfer_idempotent:
  assumes "ledger_inv s" and "transferAvailableBalance params s = (Inr (d, c, dup), s1)" and "ledger_calls s1 s2"
    and "normalizeKey (tp_debitKey params') = normalizeKey (tp_debitKey params)"
    and "normalizeKey (tp_creditKey params') = normalizeKey (tp_creditKey params)"
    and "parseAmount (tp_amount params') = Inr amount"
    and "tp_senderOrgId params' \<noteq> tp_recipientOrgId params'"
  shows "transferAvailableBalance params' s2 = (Inr (d, c, True), s2)"
proof -
  have tx: "transferAvailableTx params s = Inr ((d, c, dup), s1)"
    using assms(2) by (simp add: transferAvailableBalance_def act_simps)
  have keys: "normalizeKey (tp_debitKey params) \<noteq> []" "normalizeKey (tp_creditKey params) \<noteq> []"
    using tx by (auto simp: transferAvailableTx_def tx_simps Let_def)
  have "d \<in> set (movements s1) \<and> c \<in> set (movements s1) \<and> m_key d = normalizeKey (tp_debitKey params)
      \<and> m_key c = normalizeKey (tp_creditKey params)"
  proof (cases dup)
    case True
    from assms(1) tx show ?thesis by (cases rule: transferAvailableTx_cases) (use True in auto)
  next
    case False
    show ?thesis by (rule transferAvailableTx_moved [OF assms(1) tx False]) auto
  qed
  moreover have "ledger_inv s1" using transfer_extends [OF assms(1,2)] by (simp add: extends_def)
  with ledger_calls_extends [OF assms(3)] have "ledger_inv s2" "set (movements s1) \<subseteq> set (movements s2)"
    by (auto simp: extends_def)
  ultimately have "find_row m_key (normalizeKey (tp_debitKey params)) (movements s2) = Some d"
    "find_row m_key (normalizeKey (tp_creditKey params)) (movements s2) = Some c"
    using find_row_mem [OF ledger_invD(4), of s2 d] find_row_mem [OF ledger_invD(4), of s2 c] by auto
  with keys assms(4-7) show ?thesis
    by (simp add: transferAvailableBalance_def transferAvailableTx_def Let_def bnd_def require_def
        findMovementByIdempotency_def run_tx_def)
qed

lemma transfer_idempotent_witness:
  "\<exists>d c. transferAvailableBalance (ex_transfer\<lparr>tp_senderOrgId := ''beta'', tp_recipientOrgId := ''acme''\<rparr>)
     (snd (transferAvailableBalance ex_transfer ex_locked))
   = (Inr (d, c, True), snd (transferAvailableBalance ex_transfer ex_locked))"
proof -
  let ?r = "transferAvailableBalance ex_transfer ex_locked"
  let ?p = "ex_transfer\<lparr>tp_senderOrgId := ''beta'', tp_recipientOrgId := ''acme''\<rparr>"
  have v: "succeeded ?r" "parseAmount (tp_amount ?p) = Inr (25 / 2)" "tp_senderOrgId ?p \<noteq> tp_recipientOrgId ?p" by code_simp+
  obtain d c dup where "value_of ?r = (d, c, dup)" by (cases "value_of ?r") auto
  then have run: "?r = (Inr (d, c, dup), snd ?r)" using succeeded_run [OF v(1)] by simp
  from transfer_idempotent [OF ex_locked_inv run ledger_calls.none _ _ v(2,3)] show ?thesis by simp
qed

text \<open>Fee. A transaction fee that is charged to one organisation for another moves exactly the
  parsed amount of USDC from the payer's account to the revenue account and conserves the money;
  charged to the revenue organisation itself it creates the amount instead, because the second row
  update is computed from the balance read before the first.\<close>

theorem fee_moves_or_mints:
  assumes "ledger_inv s" and "applyDayfiTransactionFee params s = Inr (Some (d, c, False), s')"
  shows "if fp_payerOrgId params \<noteq> fp_revenueOrgId params
    then spec_transfer (payer_account params) (revenue_account params) (m_amount d) (balances s) = Some (balances s')
      \<and> m_amount c = m_amount d \<and> money s' = money s
    else parseAmount (fp_amount params) = Inr (m_amount d) \<and> 0 < m_amount d \<and> money s' = money s + m_amount d"
  using fee_refines [OF assms] fee_self [OF assms] by simp

lemma fee_moves_or_mints_witness:
  "money (projr (map_sum id snd (applyDayfiTransactionFee (ex_fee ''acme'') ex_funded))) = money ex_funded + 1 / 2"
proof -
  let ?r = "applyDayfiTransactionFee (ex_fee ''acme'') ex_funded"
  have v: "(case ?r of Inr (Some (d, c, dup), s') \<Rightarrow> \<not> dup | _ \<Rightarrow> False)"
    "parseAmount (fp_amount (ex_fee ''acme'')) = Inr (1 / 2)"
    "fp_payerOrgId (ex_fee ''acme'') = fp_revenueOrgId (ex_fee ''acme'')" by code_simp+
  then obtain d c s' where run: "?r = Inr (Some (d, c, False), s')"
    by (auto split: sum.splits prod.splits option.splits)
  from fee_moves_or_mints [OF ex_funded_inv run] v(2,3) run show ?thesis by auto
qed

section \<open>Concurrent writes\<close>

text \<open>C3: Serialisability. Any interleaving of the statements of any number of concurrent wallet
  operations, under READ COMMITTED with the row lock, ends in the database that some serial order of
  exactly the committed operations produces, each of them returning there what it returned here. The
  statements include the creation of the wallet of an account that has none, which clients may race for.
  The requests are those that pass the checks of the amount and of the key, which come before the
  transaction (\<open>sys_inv\<close>); the others never issue a statement.\<close>

theorem concurrent_writes_serialise:
  assumes "sys_run y y'" and "sys_inv y" and "committed y = {}"
  shows "\<exists>order. distinct order \<and> set order = committed y'
    \<and> serial (sys_clients y') order (sys_db y) (sys_db y')"
  by (rule sys_run_serial [OF assms])

text \<open>Any number of requests race to lock 70 of the 100 available, the even ones with one key.\<close>

definition ex_client :: "nat \<Rightarrow> client" where
  "ex_client i = \<lparr>cl_op = OpLock, cl_params = ex_params ''acme'' (if even i then ''race'' else ''other'') 70,
     cl_amount = 70, cl_pc = Begin\<rparr>"

definition ex_sys :: sys where
  "ex_sys = \<lparr>sys_db = ex_funded, sys_clients = ex_client\<rparr>"

definition ex_wallet :: wallet where
  "ex_wallet = the (find_row wallet_key ex_account (wallets ex_funded))"

definition ex_race :: "movement \<times> db" where
  "ex_race = projr (cl_post (ex_client 0) ex_wallet ex_funded)"

definition ex_raced :: sys where
  "ex_raced = (set_pc ex_sys 0 (Finished (Inr (fst ex_race, False))))\<lparr>sys_db := snd ex_race\<rparr>"

lemma ex_sys_inv: "sys_inv ex_sys"
proof -
  have "parseAmount (RNum (Fin 70)) = Inr 70" "normalizeKey (Some ''race'') \<noteq> []"
    "normalizeKey (Some ''other'') \<noteq> []" by code_simp+
  then show ?thesis
    by (auto simp: sys_inv_def ex_sys_def exclusive_def cl_valid_def cl_key_def pc_ok_def ex_params_def
        ex_client_def ex_funded_inv inserting_def)
qed

lemma ex_raced_run: "sys_run ex_sys ex_raced"
proof -
  have f: "find_row wallet_key (account_of (cl_params (ex_client 0))) (wallets ex_funded) \<noteq> None"
    "account_of (cl_params (ex_client 0)) = ex_account"
    "w_status ex_wallet = Active" "cl_key (ex_client 0) \<notin> m_key ` set (movements ex_funded)"
    "(case cl_post (ex_client 0) ex_wallet ex_funded of Inl e \<Rightarrow> False | Inr r \<Rightarrow> True)" by code_simp+
  have w: "find_row wallet_key ex_account (wallets ex_funded) = Some ex_wallet"
    using f(1,2) by (simp add: ex_wallet_def)
  have row: "find_row w_id (w_id ex_wallet) (wallets ex_funded) = Some ex_wallet"
    using find_row_mem [OF ledger_invD(1) [OF ex_funded_inv]] find_row_Some [OF w] by blast
  have post: "cl_post (ex_client 0) ex_wallet ex_funded = Inr (fst ex_race, snd ex_race)"
    using f(5) by (simp add: ex_race_def split: sum.splits)
  show ?thesis
    unfolding ex_raced_def
    by (rule solo_commit [where c = "ex_client 0" and w = ex_wallet])
      (use f w row post in \<open>simp_all add: ex_sys_def find_row_None\<close>, simp add: ex_client_def)
qed

lemma ex_committed: "committed ex_sys = {}" "committed ex_raced = {0}"
  by (auto simp: committed_def ex_sys_def ex_raced_def ex_client_def)

text \<open>Two clients credit an account that has no wallet. Both find none; the first inserts and credits it,
  the insertion of the second waits, and then finds the row that the first has committed.\<close>

definition ex_rival :: "nat \<Rightarrow> client" where
  "ex_rival i = \<lparr>cl_op = OpCredit, cl_params = ex_params ''beta'' (if even i then ''race'' else ''other'') 70,
     cl_amount = 70, cl_pc = Begin\<rparr>"

definition ex_rivals :: sys where
  "ex_rivals = \<lparr>sys_db = ex_funded, sys_clients = ex_rival\<rparr>"

definition ex_made :: "movement \<times> db" where
  "ex_made = projr (cl_create (ex_rival 0) ex_funded)"

definition ex_new_wallet :: wallet where
  "ex_new_wallet = the (find_row wallet_key (''beta'', Test, ''USDC'') (wallets (snd ex_made)))"

definition ex_joined :: "movement \<times> db" where
  "ex_joined = projr (cl_post (ex_rival 3) ex_new_wallet (snd ex_made))"

definition ex_stage :: "pc \<Rightarrow> pc \<Rightarrow> db \<Rightarrow> sys" where
  "ex_stage p q s = \<lparr>sys_db = s, sys_clients = (\<lambda>i. if i = 0 then (ex_rival 0)\<lparr>cl_pc := p\<rparr>
     else if i = 3 then (ex_rival 3)\<lparr>cl_pc := q\<rparr> else ex_rival i)\<rparr>"

definition ex_both :: sys where
  "ex_both = ex_stage (Finished (Inr (fst ex_made, False))) (Finished (Inr (fst ex_joined, False))) (snd ex_joined)"

lemma ex_rival_pc: "cl_pc (ex_rival i) = Begin" "(ex_rival i)\<lparr>cl_pc := Begin\<rparr> = ex_rival i"
  by (simp_all add: ex_rival_def)

lemma ex_stage_simps:
  "sys_db (ex_stage p q s) = s" "sys_clients (ex_stage p q s) 0 = (ex_rival 0)\<lparr>cl_pc := p\<rparr>"
  "sys_clients (ex_stage p q s) 3 = (ex_rival 3)\<lparr>cl_pc := q\<rparr>"
  "set_pc (ex_stage p q s) 0 r = ex_stage r q s" "set_pc (ex_stage p q s) 3 r = ex_stage p r s"
  "(ex_stage p q s)\<lparr>sys_db := s'\<rparr> = ex_stage p q s'"
  by (simp_all add: ex_stage_def set_pc_def fun_eq_iff)

lemma ex_rivals_stage: "ex_rivals = ex_stage Begin Begin ex_funded"
  by (simp add: ex_stage_def fun_eq_iff ex_rivals_def ex_rival_pc)

lemma ex_stage_others:
  "held_row (cl_pc (sys_clients (ex_stage p q s) j)) = (if j = 0 then held_row p else if j = 3 then held_row q else None)"
  "inserting (sys_clients (ex_stage p q s) j) = (if j = 0 then inserting ((ex_rival 0)\<lparr>cl_pc := p\<rparr>)
     else if j = 3 then inserting ((ex_rival 3)\<lparr>cl_pc := q\<rparr>) else None)"
  by (simp_all add: ex_stage_def ex_rival_pc inserting_def)

lemma ex_rivals_inv: "sys_inv ex_rivals"
proof -
  have "parseAmount (RNum (Fin 70)) = Inr 70" "normalizeKey (Some ''race'') \<noteq> []"
    "normalizeKey (Some ''other'') \<noteq> []" by code_simp+
  then show ?thesis
    by (auto simp: sys_inv_def ex_rivals_def exclusive_def cl_valid_def cl_key_def pc_ok_def ex_params_def
        ex_rival_def ex_funded_inv inserting_def)
qed

lemma cl_post_upd: "cl_post (c\<lparr>cl_pc := p\<rparr>) = cl_post c"
  by (simp add: cl_post_def fun_eq_iff)

lemma cl_create_upd: "cl_create (c\<lparr>cl_pc := p\<rparr>) = cl_create c"
  by (simp add: cl_create_def cl_post_upd fun_eq_iff)

lemma ex_rival_facts:
  "account_of (cl_params (ex_rival i)) = (''beta'', Test, ''USDC'')" "p_orgId (cl_params (ex_rival i)) = ''beta''"
  "find_row m_key (cl_key (ex_rival 0)) (movements ex_funded) = None"
  "find_row m_key (cl_key (ex_rival 3)) (movements ex_funded) = None"
  "find_row wallet_key (''beta'', Test, ''USDC'') (wallets ex_funded) = None" "org_exists ''beta'' ex_funded"
  "cl_create (ex_rival 0) ex_funded = Inr (fst ex_made, snd ex_made)"
  "find_row wallet_key (''beta'', Test, ''USDC'') (wallets (snd ex_made)) = Some ex_new_wallet"
  "w_status ex_new_wallet = Active"
  "cl_post (ex_rival 3) ex_new_wallet (snd ex_made) = Inr (fst ex_joined, snd ex_joined)"
proof -
  have f: "account_of (cl_params (ex_rival 0)) = (''beta'', Test, ''USDC'')"
    "find_row wallet_key (''beta'', Test, ''USDC'') (wallets ex_funded) = None"
    "cl_key (ex_rival 0) \<notin> m_key ` set (movements ex_funded)" "cl_key (ex_rival 3) \<notin> m_key ` set (movements ex_funded)"
    "org_exists ''beta'' ex_funded" "find_row wallet_key (''beta'', Test, ''USDC'') (wallets (snd ex_made)) \<noteq> None"
    "w_status ex_new_wallet = Active"
    "(case cl_create (ex_rival 0) ex_funded of Inl e \<Rightarrow> False | Inr r \<Rightarrow> True)"
    "(case cl_post (ex_rival 3) ex_new_wallet (snd ex_made) of Inl e \<Rightarrow> False | Inr r \<Rightarrow> True)" by code_simp+
  then show "find_row wallet_key (''beta'', Test, ''USDC'') (wallets ex_funded) = None" "org_exists ''beta'' ex_funded"
    "w_status ex_new_wallet = Active" by blast+
  show "account_of (cl_params (ex_rival i)) = (''beta'', Test, ''USDC'')" "p_orgId (cl_params (ex_rival i)) = ''beta''"
    using f(1) by (simp_all add: ex_rival_def ex_params_def account_of_def)
  show "find_row m_key (cl_key (ex_rival 0)) (movements ex_funded) = None"
    "find_row m_key (cl_key (ex_rival 3)) (movements ex_funded) = None"
    using f(3,4) by (simp_all add: find_row_None)
  show "cl_create (ex_rival 0) ex_funded = Inr (fst ex_made, snd ex_made)"
    using f(8) by (simp add: ex_made_def split: sum.splits)
  show "find_row wallet_key (''beta'', Test, ''USDC'') (wallets (snd ex_made)) = Some ex_new_wallet"
    using f(6) by (simp add: ex_new_wallet_def)
  show "cl_post (ex_rival 3) ex_new_wallet (snd ex_made) = Inr (fst ex_joined, snd ex_joined)"
    using f(9) by (simp add: ex_joined_def split: sum.splits)
qed

lemma ex_both_run: "sys_run ex_rivals ex_both"
proof -
  let ?f = "Finished (Inr (fst ex_made, False))"
  note stage = ex_stage_simps ex_stage_others ex_rival_facts cl_post_upd cl_create_upd
  have "sys_step (ex_stage Begin Begin ex_funded) (ex_stage Checked Begin ex_funded)"
    using sys_step.find_miss [OF refl, of "ex_stage Begin Begin ex_funded" 0] by (simp add: stage)
  moreover have "sys_step (ex_stage Checked Begin ex_funded) (ex_stage Missing Begin ex_funded)"
    using sys_step.absent [OF refl, of "ex_stage Checked Begin ex_funded" 0] by (simp add: stage)
  moreover have "sys_step (ex_stage Missing Begin ex_funded) (ex_stage Missing Checked ex_funded)"
    using sys_step.find_miss [OF refl, of "ex_stage Missing Begin ex_funded" 3] by (simp add: stage)
  moreover have "sys_step (ex_stage Missing Checked ex_funded) (ex_stage Missing Missing ex_funded)"
    using sys_step.absent [OF refl, of "ex_stage Missing Checked ex_funded" 3] by (simp add: stage)
  moreover have "sys_step (ex_stage Missing Missing ex_funded) (ex_stage Inserting Missing ex_funded)"
    using sys_step.insert [OF refl, of "ex_stage Missing Missing ex_funded" 0] by (simp add: stage)
  moreover have "sys_step (ex_stage Inserting Missing ex_funded) (ex_stage ?f Missing (snd ex_made))"
    using sys_step.create [OF refl, of "ex_stage Inserting Missing ex_funded" 0] by (simp add: stage)
  moreover have "sys_step (ex_stage ?f Missing (snd ex_made)) (ex_stage ?f (Holding ex_new_wallet) (snd ex_made))"
    using sys_step.conflict [OF refl, of "ex_stage ?f Missing (snd ex_made)" 3] by (simp add: stage)
  moreover have "sys_step (ex_stage ?f (Holding ex_new_wallet) (snd ex_made)) ex_both"
    using sys_step.commit [OF refl, of "ex_stage ?f (Holding ex_new_wallet) (snd ex_made)" 3]
    by (simp add: stage ex_both_def)
  ultimately show ?thesis unfolding ex_rivals_stage by (meson sys_run.intros)
qed

lemma ex_both_committed: "committed ex_rivals = {}" "committed ex_both = {0, 3}"
  by (auto simp: committed_def ex_rivals_def ex_both_def ex_stage_def ex_rival_def)

lemma concurrent_writes_serialise_witness:
  "\<exists>order. distinct order \<and> set order = {0, 3} \<and> serial (sys_clients ex_both) order ex_funded (sys_db ex_both)"
  using concurrent_writes_serialise [OF ex_both_run ex_rivals_inv ex_both_committed(1)]
  by (simp add: ex_both_committed(2) ex_rivals_def)

text \<open>Exactly once. In every reachable state of the interleaving, two clients that have finished
  successfully with the same idempotency key hold the same movement, and at most one of them
  created it.\<close>

theorem same_key_posts_once:
  assumes "sys_run y y'" and "sys_inv y" and "committed y = {}"
    and "cl_pc (sys_clients y' i) = Finished (Inr (m, d))" and "cl_pc (sys_clients y' j) = Finished (Inr (m', d'))"
    and "cl_key (sys_clients y' i) = cl_key (sys_clients y' j)" and "i \<noteq> j"
  shows "m = m' \<and> (d \<or> d')"
proof -
  have inv: "sys_inv y'" by (rule sys_run_inv [OF assms(1,2)])
  show ?thesis
    using same_key_same_movement [OF inv assms(4-6)] sys_run_posts_once [OF assms] by blast
qed

lemma same_key_posts_once_witness:
  "\<exists>y'. sys_run ex_sys y' \<and> cl_pc (sys_clients y' 0) = Finished (Inr (fst ex_race, False))
    \<and> (\<exists>m d. cl_pc (sys_clients y' 2) = Finished (Inr (m, d)) \<and> m = fst ex_race \<and> d)"
proof -
  let ?y = ex_raced and ?k = "cl_key (sys_clients ex_raced 2)"
  have "cl_key (ex_client 2) \<in> m_key ` set (movements (snd ex_race))" by code_simp
  then have "find_row m_key ?k (movements (sys_db ?y)) \<noteq> None"
    by (simp add: find_row_None ex_raced_def ex_sys_def)
  then obtain m where m: "find_row m_key ?k (movements (sys_db ?y)) = Some m" by blast
  let ?y' = "set_pc ?y 2 (Finished (Inr (m, True)))"
  have "sys_step ?y ?y'"
    by (rule sys_step.find_hit [OF refl _ m]) (simp add: ex_raced_def ex_sys_def ex_client_def)
  with ex_raced_run have run: "sys_run ex_sys ?y'" by (rule sys_run.next_step)
  have fin: "cl_pc (sys_clients ?y' 0) = Finished (Inr (fst ex_race, False))"
    "cl_pc (sys_clients ?y' 2) = Finished (Inr (m, True))"
    "cl_key (sys_clients ?y' 0) = cl_key (sys_clients ?y' 2)" "(0::nat) \<noteq> 2"
    by (simp_all add: ex_raced_def ex_sys_def) (simp add: ex_client_def cl_key_def)
  from same_key_posts_once [OF run ex_sys_inv ex_committed(1) fin] run fin show ?thesis by blast
qed

section \<open>Money amounts\<close>

text \<open>Exact hand-over. The text that the minor-unit arithmetic hands to the ledger is read back by
  the ledger's own amount parser, and by the minor-unit parser, as exactly the same amount: a
  positive minor amount is that many ten-millionths, and zero and negative ones are refused.\<close>

theorem minor_units_reach_ledger:
  "parseAmount (RStr (usdcMinorToLedgerInput minor)) =
     (if minor \<le> 0 then Inl (InfraLedgerError ''INVALID_AMOUNT'' 400) else Inr (of_int minor / 10000000))
   \<and> parseUsdcToMinor (RStr (usdcMinorToLedgerInput minor)) = Inr minor"
proof -
  have "js_Number_string (formatUsdc minor) = Fin (of_int minor / 10000000)"
    using js_Number_formatUsdc [of minor] by simp
  then show ?thesis
    using parse_formatUsdc [of minor]
    by (simp add: parseAmount_def usdcMinorToLedgerInput_def divide_le_0_iff)
qed

text \<open>Agreement of the two parsers. Text that the exact minor-unit parser accepts denotes the same
  number to \<open>Number\<close>, hence to the ledger, at any length and with any padding.\<close>

theorem parsers_agree:
  assumes "parseUsdcToMinor (RStr text1) = Inr minor"
  shows "js_Number (RStr text1) = Fin (of_int minor / 10000000)
    \<and> (0 < minor \<longrightarrow> parseAmount (RStr text1) = Inr (of_int minor / 10000000))"
proof -
  have n: "js_Number_string text1 = Fin (of_int minor / 10000000)"
    using parse_agrees_Number [OF assms] by simp
  moreover have "0 < minor \<Longrightarrow> (0 :: rat) < of_int minor / 10000000" by simp
  ultimately show ?thesis by (auto simp: parseAmount_def divide_le_0_iff)
qed

lemma parsers_agree_witness:
  "js_Number (RStr ''  -0012.0000050 '') = Fin (of_int (-120000050) / 10000000)"
proof -
  have "parseUsdcToMinor (RStr ''  -0012.0000050 '') = Inr (-120000050)" by code_simp
  from parsers_agree [OF this] show ?thesis ..
qed

text \<open>C40: Amounts below half of the last decimal. The ledger's amount check looks at the number before
  it is rounded: a positive amount below half a unit of the seventh decimal passes it as zero, and no
  wallet operation ever posts a movement for such an amount, because the database refuses it.\<close>

theorem dust_never_posts:
  assumes "ledger_inv s" and "p_amount params = RNum (Fin x)" and "0 < x" and "x < 1 / 20000000"
  shows "parseAmount (p_amount params) = Inr 0 \<and> run_op op params s \<noteq> (Inr (m, False), s')"
proof -
  have "\<not> 0 < round7 x" using round7_pos_iff [of x] assms(4) by simp
  moreover have "0 \<le> round7 x" using assms(3) by (intro round7_nonneg) simp
  ultimately have parsed: "parseAmount (p_amount params) = Inr 0"
    using assms(2,3) by (simp add: parseAmount_def)
  moreover have "run_op op params s \<noteq> (Inr (m, False), s')"
  proof
    assume run: "run_op op params s = (Inr (m, False), s')"
    have "m_amount m = 0"
      by (rule op.committed_amount [OF assms(1) run [unfolded run_op_write] parsed])
    moreover have "m \<in> set (movements s')" "ledger_inv s'"
      using op.op_recorded(1) [OF assms(1) run [unfolded run_op_write]] run_op_extends [OF assms(1) run]
      by (simp_all add: extends_def)
    then have "0 < m_amount m" using ledger_invD(9) [of s' m] by (simp add: movement_ok_def)
    ultimately show False by simp
  qed
  ultimately show ?thesis ..
qed

lemma dust_never_posts_witness:
  "\<not> posted (run_op OpCredit (ex_params ''acme'' ''k2'' (1 / 100000000)) ex_funded)"
proof
  let ?r = "run_op OpCredit (ex_params ''acme'' ''k2'' (1 / 100000000)) ex_funded"
  assume "posted ?r"
  with dust_never_posts [OF ex_funded_inv, of "ex_params ''acme'' ''k2'' (1 / 100000000)" "1 / 100000000" OpCredit
      "fst (value_of ?r)" "snd ?r"] posted_run [of ?r]
  show False by (simp add: ex_params_def)
qed

end
