(* ===== verification/Ledger_Frame.thy ===== *)
theory Ledger_Frame
  imports Ledger_Spec
begin

text \<open>
  What the services around the ledger rely on: statements on the other tables leave the ledger
  alone, and a transaction that only appends ledger writes extends it. \<open>ledger_same s s'\<close> says that
  no balance, no movement and no wallet status changed; \<open>extends\<close> that movements were only added.
\<close>

section \<open>Statements on other tables\<close>

lemma ledger_inv_frame [simp]:
  "ledger_inv (txns_update f s) = ledger_inv s" "ledger_inv (transfers_update g s) = ledger_inv s"
  "ledger_inv (fees_update h s) = ledger_inv s" "ledger_inv (settlements_update k s) = ledger_inv s"
  "ledger_inv (uuid_next_update u s) = ledger_inv s" "ledger_inv (fx_rates_update v s) = ledger_inv s"
  "ledger_inv (st_accounts_update a s) = ledger_inv s" "ledger_inv (st_custody_update c s) = ledger_inv s"
  "ledger_inv (recipients_update x0 s) = ledger_inv s"
  "ledger_inv (destinations_update x1 s) = ledger_inv s"
  "ledger_inv (deposits_update x2 s) = ledger_inv s"
  "ledger_inv (rebalances_update x3 s) = ledger_inv s"
  "ledger_inv (batches_update x4 s) = ledger_inv s"
  "ledger_inv (bulk_items_update x5 s) = ledger_inv s"
  by (rule ledger_inv_cong; simp)+

lemma balances_frame [simp]:
  "balances (txns_update f s) = balances s" "balances (transfers_update g s) = balances s"
  "balances (fees_update h s) = balances s" "balances (settlements_update k s) = balances s"
  "balances (uuid_next_update u s) = balances s" "balances (orgs_update o' s) = balances s"
  "balances (fx_rates_update v s) = balances s" "balances (st_accounts_update a s) = balances s"
  "balances (st_custody_update c s) = balances s"
  "balances (recipients_update x0 s) = balances s"
  "balances (destinations_update x1 s) = balances s"
  "balances (deposits_update x2 s) = balances s"
  "balances (rebalances_update x3 s) = balances s"
  "balances (batches_update x4 s) = balances s"
  "balances (bulk_items_update x5 s) = balances s"
  by (simp_all add: balances_def fun_eq_iff)

lemma money_frame [simp]:
  "money (txns_update f s) = money s" "money (transfers_update g s) = money s"
  "money (fees_update h s) = money s" "money (settlements_update k s) = money s"
  "money (uuid_next_update u s) = money s" "money (orgs_update o' s) = money s"
  "money (fx_rates_update v s) = money s" "money (st_accounts_update a s) = money s"
  "money (st_custody_update c s) = money s"
  "money (recipients_update x0 s) = money s"
  "money (destinations_update x1 s) = money s"
  "money (deposits_update x2 s) = money s"
  "money (rebalances_update x3 s) = money s"
  "money (batches_update x4 s) = money s"
  "money (bulk_items_update x5 s) = money s"
  by (simp_all add: money_def)

lemma ledger_inv_new_org:
  assumes "ledger_inv s"
  shows "ledger_inv (s\<lparr>orgs := g # orgs s\<rparr>)"
  using assms by (auto simp: ledger_inv_def list_all_iff org_exists_def)

section \<open>Keeping and extending the ledger\<close>

definition ledger_same :: "db \<Rightarrow> db \<Rightarrow> bool" where
  "ledger_same s s' \<longleftrightarrow> ledger_inv s' \<and> movements s' = movements s \<and> balances s' = balances s \<and> money s' = money s"

lemma ledger_same_refl [simp]: "ledger_same s s = ledger_inv s"
  by (auto simp: ledger_same_def)

lemma ledger_same_trans: "ledger_same s s1 \<Longrightarrow> ledger_same s1 s2 \<Longrightarrow> ledger_same s s2"
  by (simp add: ledger_same_def)

lemma ledger_same_inv: "ledger_same s s' \<Longrightarrow> ledger_inv s'"
  by (simp add: ledger_same_def)

lemma ledger_same_extends: "ledger_same s s' \<Longrightarrow> extends s s'"
  by (auto simp: ledger_same_def extends_def)

lemma ensure_same: "ledger_inv s \<Longrightarrow> ensureWalletAccount i e a s = Inr (w, s1) \<Longrightarrow> ledger_same s s1"
  using ensureWalletAccount_Inr [of s i e a w s1] ensure_balances(1) [of s i e a w s1]
  by (simp add: ledger_same_def)

lemma bootstrap_same: "ledger_inv s \<Longrightarrow> bootstrapOrgWallets i s = (r, s') \<Longrightarrow> ledger_same s s'"
  by (cases r) (auto simp: bootstrapOrgWallets_def act_simps intro: ensure_same)

lemma getOrgBalance_same: "ledger_inv s \<Longrightarrow> getOrgBalance i e a s = (r, s') \<Longrightarrow> ledger_same s s'"
  by (cases "ensureWalletAccount i e a s")
    (auto simp: getOrgBalance_def abnd_def run_tx_def arequire_run split: if_splits dest: ensure_same)

text \<open>The view is the account's balances.\<close>

lemma getOrgBalance_view:
  assumes inv: "ledger_inv s" and run: "getOrgBalance i e a s = (Inr v, s')"
  shows "balances s (i, normalizeEnv e, normalizeAsset a) = (b_available v, b_pending v, b_locked v)"
proof -
  from run obtain w s1 where ens: "ensureWalletAccount i e a s = Inr (w, s1)" and v: "v = mapBalance w"
    by (auto simp: getOrgBalance_def act_simps split: if_splits)
  note e = ensureWalletAccount_Inr [OF inv ens]
  have "wallet_grid w" by (rule ledger_invD(6) [OF e(1,3)])
  then have "balances s (i, normalizeEnv e, normalizeAsset a) = row_balance w"
    using ensure_balances(2) [OF inv ens] by simp
  with v \<open>wallet_grid w\<close> show ?thesis
    by (simp add: mapBalance_def toNumber_def row_balance_def wallet_grid_def)
qed

lemma getOrgBalance_grid:
  assumes inv: "ledger_inv s" and run: "getOrgBalance i e a s = (Inr v, s')"
  shows "on_grid (b_available v) \<and> 0 \<le> b_available v"
proof -
  from run obtain w s1 where ens: "ensureWalletAccount i e a s = Inr (w, s1)" and v: "v = mapBalance w"
    by (auto simp: getOrgBalance_def act_simps split: if_splits)
  note e = ensureWalletAccount_Inr [OF inv ens]
  show ?thesis
    using ledger_invD(5,6) [OF e(1,3)] v by (simp add: mapBalance_def toNumber_def wallet_grid_def wallet_ok_def)
qed

lemma normalizeAsset_none [simp]: "normalizeAsset None = ''USDC''"
  by code_simp

lemma normalizeEnv_name [simp]: "normalizeEnv (env_name e) = e"
  by (cases e) (simp_all add: normalizeEnv_def env_name_def)

lemma normalizeAsset_USDC [simp]: "normalizeAsset (Some ''USDC'') = ''USDC''"
  by code_simp

lemma normalizeKey_wrapped:
  assumes "p \<noteq> []" "\<not> is_ws (hd p)" "q \<noteq> []" "\<not> is_ws (last q)"
  shows "normalizeKey (Some (p @ k @ q)) = p @ k @ q"
  using assms by (simp add: normalizeKey_def trim_id)

lemma extends_inv: "extends s s' \<Longrightarrow> ledger_inv s'"
  by (simp add: extends_def)

lemma applyFee_same_or_posted:
  assumes "ledger_inv s" and "applyDayfiTransactionFee params s = Inr (res, s')"
  shows "extends s s'"
  using applyFee_inv [OF assms] applyFee_grows [OF assms] by (simp add: extends_def)

section \<open>Tables a statement does not touch\<close>

definition preserves :: "(db \<Rightarrow> 'f) \<Rightarrow> (db, 'a) tx \<Rightarrow> bool" where
  "preserves f m \<longleftrightarrow> (\<forall>s a s'. m s = Inr (a, s') \<longrightarrow> f s' = f s)"

named_theorems preserves_intros \<open>tables that a statement does not touch\<close>

lemma preservesD: "preserves f m \<Longrightarrow> m s = Inr (a, s') \<Longrightarrow> f s' = f s"
  by (auto simp: preserves_def)

lemma preserves_bnd [preserves_intros]:
  "preserves f m \<Longrightarrow> (\<And>a. preserves f (g a)) \<Longrightarrow> preserves f (bnd m g)"
  by (auto simp: preserves_def tx_simps)

lemma preserves_pure [preserves_intros, simp]:
  "preserves f (ret a)" "preserves f (fail e)" "preserves f (query q)" "preserves f (of_sum r)"
  "preserves f (require b e)" "preserves f (the_row x)"
  by (auto simp: preserves_def tx_simps)

lemma preserves_tables [preserves_intros, simp]:
  "preserves transfers new_uuid" "preserves transfers (insert_wallet w)" "preserves transfers (update_wallet i u)"
  "preserves transfers (insert_movement m)" "preserves transfers (insert_fee x)" "preserves transfers (update_fee i v)"
  "preserves fees new_uuid" "preserves fees (insert_wallet w)" "preserves fees (update_wallet i u)"
  "preserves fees (insert_movement m)"
  "preserves txns new_uuid" "preserves txns (insert_wallet w)" "preserves txns (update_wallet i u)"
  "preserves txns (insert_movement m)" "preserves txns (insert_fee x)" "preserves txns (update_fee i v)"
  "preserves settlements new_uuid" "preserves settlements (insert_wallet w)" "preserves settlements (update_wallet i u)"
  "preserves settlements (insert_movement m)" "preserves settlements (insert_fee x)" "preserves settlements (update_fee i v)"
  "preserves orgs new_uuid" "preserves orgs (insert_wallet w)" "preserves orgs (update_wallet i u)"
  "preserves orgs (insert_movement m)" "preserves orgs (insert_fee x)" "preserves orgs (update_fee i v)"
  by (auto simp: preserves_def tx_simps)

lemma preserves_option [preserves_intros]:
  "preserves f a \<Longrightarrow> (\<And>x. preserves f (b x)) \<Longrightarrow> preserves f (case y of None \<Rightarrow> a | Some x \<Rightarrow> b x)"
  by (cases y) simp_all

lemma preserves_prod [preserves_intros]:
  "(\<And>x y. preserves f (b x y)) \<Longrightarrow> preserves f (case p of (x, y) \<Rightarrow> b x y)"
  by (cases p) simp

lemma preserves_if [preserves_intros]:
  "preserves f a \<Longrightarrow> preserves f b \<Longrightarrow> preserves f (if c then a else b)"
  by simp

lemmas ledger_statements = ensureWalletAccount_def insertMovement_def lockWalletRow_def lockWalletRows_def
  findMovementByIdempotency_def writeTransferLegs_def writeFeeLegs_def

lemma preserves_ledger [preserves_intros, simp]:
  "preserves transfers (transferAvailableTx tp)" "preserves fees (transferAvailableTx tp)"
  "preserves txns (transferAvailableTx tp)" "preserves settlements (transferAvailableTx tp)"
  "preserves transfers (applyDayfiTransactionFee fp)" "preserves fees (applyDayfiTransactionFee fp)"
  "preserves txns (applyDayfiTransactionFee fp)" "preserves settlements (applyDayfiTransactionFee fp)"
  "preserves transfers (ensureWalletAccount i e a)" "preserves fees (ensureWalletAccount i e a)"
  "preserves txns (ensureWalletAccount i e a)" "preserves settlements (ensureWalletAccount i e a)"
  "preserves orgs (applyDayfiTransactionFee fp)" "preserves orgs (ensureWalletAccount i e a)"
  unfolding transferAvailableTx_def applyDayfiTransactionFee_def ledger_statements Let_def
  by (intro preserves_intros)+

lemma preserves_ledgerWrite [preserves_intros, simp]:
  "preserves transfers (ledgerWriteTx dir ty step p a k)" "preserves fees (ledgerWriteTx dir ty step p a k)"
  "preserves txns (ledgerWriteTx dir ty step p a k)" "preserves settlements (ledgerWriteTx dir ty step p a k)"
  unfolding ledgerWriteTx_def ledgerPost_def ledgerPostRow_def ledger_statements Let_def
  by (intro preserves_intros)+

text \<open>One ledger operation: it changed nothing, or it put one movement with its key on the ledger.\<close>

lemma run_op_cases:
  assumes inv: "ledger_inv s" and run: "run_op op params s = (r, s')"
  obtains (err) e where "r = Inl e" "s' = s"
  | (dup) m where "r = Inr (m, True)" "s' = s" "m \<in> set (movements s)"
      "m_key m = normalizeKey (p_idempotencyKey params)"
  | (posted) m where "r = Inr (m, False)" "movements s' = m # movements s" "ledger_inv s'"
      "m_key m = normalizeKey (p_idempotencyKey params)" "m_key m \<notin> m_key ` set (movements s)"
      "txns s' = txns s" "settlements s' = settlements s" "transfers s' = transfers s"
  using run [unfolded run_op_write]
proof (cases rule: op.op_cases)
  case (err e)
  with that(1) show thesis by blast
next
  case (ok m isdup amount)
  note g = op.parseAmount_grid [OF ok(2)]
  note t = op.tx_inv [OF inv g [THEN conjunct1] g [THEN conjunct2] ok(4)]
  have same: "txns s' = txns s" "settlements s' = settlements s" "transfers s' = transfers s"
    using preservesD [OF preserves_ledgerWrite(3) ok(4)] preservesD [OF preserves_ledgerWrite(4) ok(4)]
      preservesD [OF preserves_ledgerWrite(1) ok(4)] by auto
  show thesis
  proof (cases isdup)
    case True
    show thesis
      by (rule that(2) [of m]) (use ok(1) t(2,3,6) True in auto)
  next
    case False
    have "distinct (map m_key (movements s'))" by (rule ledger_invD(4) [OF t(1)])
    then have "m_key m \<notin> m_key ` set (movements s)" using t(4) False by simp
    show thesis
      by (rule that(3) [of m]) (use ok(1) t(1,3,4) False same \<open>m_key m \<notin> m_key ` set (movements s)\<close> in auto)
  qed
qed

section \<open>Calls that change nothing but wallets that come into being\<close>

definition unchanged :: "db \<Rightarrow> db \<Rightarrow> bool" where
  "unchanged s s' \<longleftrightarrow> ledger_same s s' \<and> transfers s' = transfers s \<and> txns s' = txns s \<and> fees s' = fees s
     \<and> settlements s' = settlements s"

lemma unchanged_refl [simp]: "unchanged s s = ledger_inv s"
  by (auto simp: unchanged_def)

lemma unchanged_trans: "unchanged s s1 \<Longrightarrow> unchanged s1 s2 \<Longrightarrow> unchanged s s2"
  by (auto simp: unchanged_def intro: ledger_same_trans)

lemma unchanged_inv: "unchanged s s' \<Longrightarrow> ledger_inv s'"
  by (simp add: unchanged_def ledger_same_def)

lemma unchanged_same: "unchanged s s' \<Longrightarrow> ledger_same s s'"
  by (simp add: unchanged_def)

lemma ensure_unchanged: "ledger_inv s \<Longrightarrow> ensureWalletAccount i e a s = Inr (w, s1) \<Longrightarrow> unchanged s s1"
  using ensure_same [of s i e a w s1] preservesD [of transfers "ensureWalletAccount i e a" s w s1]
    preservesD [of txns "ensureWalletAccount i e a" s w s1] preservesD [of fees "ensureWalletAccount i e a" s w s1]
    preservesD [of settlements "ensureWalletAccount i e a" s w s1]
  by (simp add: unchanged_def)

lemma bootstrap_unchanged: "ledger_inv s \<Longrightarrow> bootstrapOrgWallets i s = (r, s') \<Longrightarrow> unchanged s s'"
  by (cases r) (auto simp: bootstrapOrgWallets_def act_simps intro: ensure_unchanged)

lemma getOrgBalance_unchanged: "ledger_inv s \<Longrightarrow> getOrgBalance i e a s = (r, s') \<Longrightarrow> unchanged s s'"
  by (cases "ensureWalletAccount i e a s")
    (auto simp: getOrgBalance_def abnd_def run_tx_def arequire_run split: if_splits dest: ensure_unchanged)

text \<open>\<open>keeps m\<close>: whatever the service call answers, nothing it may rely on has changed.\<close>

definition keeps :: "(db, 'a) act \<Rightarrow> bool" where
  "keeps m \<longleftrightarrow> (\<forall>s r s'. ledger_inv s \<longrightarrow> m s = (r, s') \<longrightarrow> unchanged s s')"

named_theorems keeps_intros \<open>service calls that change nothing\<close>

lemma keepsD: "keeps m \<Longrightarrow> ledger_inv s \<Longrightarrow> m s = (r, s') \<Longrightarrow> unchanged s s'"
  by (auto simp: keeps_def)

lemma keeps_pure [keeps_intros, simp]:
  "keeps (aret a)" "keeps (athrow e)" "keeps (aquery f)" "keeps (aof_sum r)"
  by (auto simp: keeps_def)

lemma keeps_arequire [keeps_intros, simp]: "keeps (arequire b e)"
  by (simp add: arequire_def)

lemma keeps_abnd [keeps_intros]:
  assumes "keeps m" and "\<And>a. keeps (f a)"
  shows "keeps (abnd m f)"
  unfolding keeps_def
proof (intro allI impI)
  fix s r s' assume inv: "ledger_inv s" and run: "abnd m f s = (r, s')"
  obtain r1 s1 where m: "m s = (r1, s1)" by (cases "m s") auto
  have same: "unchanged s s1" by (rule keepsD [OF assms(1) inv m])
  show "unchanged s s'"
  proof (cases r1)
    case (Inl e)
    with run m same show ?thesis by (auto simp: abnd_def)
  next
    case (Inr a)
    with run m have "f a s1 = (r, s')" by (simp add: abnd_def)
    from keepsD [OF assms(2) unchanged_inv [OF same] this] same show ?thesis
      by (rule unchanged_trans [rotated])
  qed
qed

lemma keeps_acatch [keeps_intros]:
  assumes "keeps m" and "\<And>e. keeps (h e)"
  shows "keeps (acatch m h)"
  unfolding keeps_def
proof (intro allI impI)
  fix s r s' assume inv: "ledger_inv s" and run: "acatch m h s = (r, s')"
  obtain r1 s1 where m: "m s = (r1, s1)" by (cases "m s") auto
  have same: "unchanged s s1" by (rule keepsD [OF assms(1) inv m])
  show "unchanged s s'"
  proof (cases r1)
    case (Inl e)
    with run m have "h e s1 = (r, s')" by (simp add: acatch_def)
    from keepsD [OF assms(2) unchanged_inv [OF same] this] same show ?thesis
      by (rule unchanged_trans [rotated])
  next
    case (Inr a)
    with run m same show ?thesis by (auto simp: acatch_def)
  qed
qed

lemma keeps_option [keeps_intros]:
  "keeps a \<Longrightarrow> (\<And>x. keeps (b x)) \<Longrightarrow> keeps (case y of None \<Rightarrow> a | Some x \<Rightarrow> b x)"
  by (cases y) simp_all

lemma keeps_if [keeps_intros]: "keeps a \<Longrightarrow> keeps b \<Longrightarrow> keeps (if c then a else b)"
  by simp

lemma keeps_wallets [keeps_intros, simp]: "keeps (getOrgBalance i e a)" "keeps (bootstrapOrgWallets i)"
  by (auto simp: keeps_def intro: getOrgBalance_unchanged bootstrap_unchanged)

text \<open>A request whose tail may write: the part before it is invisible to it.\<close>

lemma abnd_keeps_cases:
  assumes "keeps m" and "ledger_inv s" and "abnd m f s = (r, s')"
  obtains (err) e where "r = Inl e" "unchanged s s'"
  | (go) a s1 where "m s = (Inr a, s1)" "unchanged s s1" "f a s1 = (r, s')"
proof (cases "m s")
  case (Pair r1 s1)
  with keepsD [OF assms(1,2)] have u: "unchanged s s1" by blast
  show thesis
  proof (cases r1)
    case (Inl e)
    with Pair assms(3) u err show thesis by (auto simp: abnd_def)
  next
    case (Inr a)
    with Pair assms(3) u go show thesis by (auto simp: abnd_def)
  qed
qed

end
