(* ===== verification/Fee.thy ===== *)
theory Fee
  imports Ledger_Frame Money_Amount
begin

text \<open>
  \<open>src/src/modules/infra/infraFeeService.ts\<close>: the fee policy read from the environment, the quote in
  exact minor units, the affordability check, the revenue organisation, and the fee row that is
  written with its two ledger movements inside the caller's transaction.
\<close>

section \<open>Policy and quote\<close>

definition FEE_TYPE_DAYFI_TRANSACTION :: string where
  "FEE_TYPE_DAYFI_TRANSACTION = ''DAYFI_TRANSACTION_FEE''"

definition FEE_ORG_SLUG :: string where
  "FEE_ORG_SLUG = ''dayfi-platform-fee-revenue''"

record fee_quote =
  q_feeAmountUsdc :: string
  q_transferAmount :: string
  q_customerDebitAmount :: string
  q_feeCharged :: bool
  q_feePolicyAmountUsdc :: string
  q_feeRevenueAmount :: string
  q_estimatedNetworkFeeAmount :: string
  q_actualNetworkFeeAmount :: "string option"

definition getTransferSettlementMode :: "process_env \<Rightarrow> string option \<Rightarrow> string" where
  "getTransferSettlementMode penv override =
    (let raw = replace_char (CHR ''-'') (CHR ''_'') (to_upper (trim
       (or_str override (env_str penv ''DAYFI_INFRA_TRANSFER_SETTLEMENT_MODE''))))
     in if raw = ''STELLAR_ONCHAIN'' \<or> raw = ''ONCHAIN'' then ''STELLAR_ONCHAIN'' else ''INTERNAL_LEDGER'')"

definition isInternalTransferFeeEnabled :: "process_env \<Rightarrow> bool" where
  "isInternalTransferFeeEnabled penv =
    (let raw = to_lower (trim (env_str penv ''DAYFI_INFRA_INTERNAL_TRANSFER_FEE''))
     in raw = ''on'' \<or> raw = ''true'' \<or> raw = ''1'')"

definition getConfiguredFeeUsdcMinor :: "process_env \<Rightarrow> js_error + int" where
  "getConfiguredFeeUsdcMinor penv =
    (let raw = trim (or_str (penv ''DAYFI_TRANSACTION_FEE_USDC'') ''0.01'') in
     case parseUsdcToMinor (RStr raw) of
       Inr n \<Rightarrow> Inr (if n < 0 then 0 else n)
     | Inl e \<Rightarrow> parseUsdcToMinor (RStr ''0.01''))"

definition quoteDayfiTransactionFee :: "process_env \<Rightarrow> js_raw \<Rightarrow> bool \<Rightarrow> js_error + fee_quote" where
  "quoteDayfiTransactionFee penv transferAmount chargeFee =
    (case parseUsdcToMinor transferAmount of
       Inl e \<Rightarrow> Inl e
     | Inr transferMinor \<Rightarrow>
         if transferMinor \<le> 0 then Inl (InfraFeeError ''INVALID_AMOUNT'' 400)
         else (case getConfiguredFeeUsdcMinor penv of
             Inl e \<Rightarrow> Inl e
           | Inr policyMinor \<Rightarrow>
               let feeMinor = (if chargeFee then policyMinor else 0);
                   customerDebit = addMinor transferMinor feeMinor
               in Inr \<lparr>q_feeAmountUsdc = formatUsdc feeMinor,
                    q_transferAmount = formatUsdc transferMinor,
                    q_customerDebitAmount = formatUsdc customerDebit,
                    q_feeCharged = (0 < feeMinor),
                    q_feePolicyAmountUsdc = formatUsdc policyMinor,
                    q_feeRevenueAmount = formatUsdc feeMinor,
                    q_estimatedNetworkFeeAmount = snd stellarBaseFeeXlm,
                    q_actualNetworkFeeAmount = None\<rparr>))"

definition assertCustomerCanPay :: "js_raw \<Rightarrow> js_raw \<Rightarrow> js_raw \<Rightarrow> js_error + unit" where
  "assertCustomerCanPay availableUsdc transferAmount feeAmountUsdc =
    (case parseUsdcToMinor availableUsdc of Inl e \<Rightarrow> Inl e | Inr available \<Rightarrow>
     case parseUsdcToMinor transferAmount of Inl e \<Rightarrow> Inl e | Inr transferMinor \<Rightarrow>
     case parseUsdcToMinor feeAmountUsdc of Inl e \<Rightarrow> Inl e | Inr feeMinor \<Rightarrow>
       if available < addMinor transferMinor feeMinor
       then Inl (InfraLedgerError ''INSUFFICIENT_BALANCE'' 400) else Inr ())"

section \<open>The revenue organisation\<close>

definition ensureFeeRevenueOrg :: "process_env \<Rightarrow> (db, string) act" where
  "ensureFeeRevenueOrg penv =
    (let fromEnv = trim (env_str penv ''DAYFI_INFRA_FEE_ORG_ID'') in
     if fromEnv \<noteq> [] then aret fromEnv
     else abnd (aquery (\<lambda>s. find_row o_slug FEE_ORG_SLUG (orgs s))) (\<lambda>existing. case existing of
       Some g \<Rightarrow> abnd (bootstrapOrgWallets (o_id g)) (\<lambda>_. aret (o_id g))
     | None \<Rightarrow> abnd (run_tx (bnd new_uuid (\<lambda>i. insert_org \<lparr>o_id = i, o_slug = FEE_ORG_SLUG, o_name = ''Dayfi Platform Fee Revenue''\<rparr>))) (\<lambda>g.
         abnd (bootstrapOrgWallets (o_id g)) (\<lambda>_. aret (o_id g)))))"

definition loadFeeForTransfer :: "string \<Rightarrow> (db, fee option) act" where
  "loadFeeForTransfer transferGroupId = aquery (\<lambda>s. find_row f_transfer_group transferGroupId (fees s))"

section \<open>Recording a fee\<close>

record record_fee =
  rf_payerOrgId :: string
  rf_environment :: infra_env
  rf_transferGroupId :: string
  rf_senderTransactionId :: string
  rf_quote :: fee_quote
  rf_settlementMode :: string
  rf_idempotencyKey :: string

text \<open>A decimal text bound to a \<open>NUMERIC(28,7)\<close> parameter.\<close>

definition numeric_param :: "string \<Rightarrow> rat" where
  "numeric_param t = (case js_Number (RStr t) of Fin x \<Rightarrow> numeric7 x | _ \<Rightarrow> 0)"

text \<open>The fee row of a quote, its ledger posting, and the row's link to the two movements.\<close>

definition fee_row :: "record_fee \<Rightarrow> string \<Rightarrow> string \<Rightarrow> fee" where
  "fee_row input revenueOrgId feeId =
    \<lparr>f_id = feeId, f_org = rf_payerOrgId input, f_env = rf_environment input,
     f_transfer_group = rf_transferGroupId input, f_transaction = rf_senderTransactionId input,
     f_amount = numeric_param (q_feeAmountUsdc (rf_quote input)),
     f_transfer_amount = numeric_param (q_transferAmount (rf_quote input)),
     f_customer_debit = numeric_param (q_customerDebitAmount (rf_quote input)),
     f_actual_network_fee = None,
     f_revenue_amount = numeric_param (q_feeRevenueAmount (rf_quote input)),
     f_revenue_org = revenueOrgId, f_customer_movement = None, f_revenue_movement = None,
     f_mode = rf_settlementMode input, f_key = rf_idempotencyKey input, f_status = ''recorded'',
     f_metadata = [''networkFeePayer'' \<mapsto> JStr ''DAYFI_XLM_RESERVE'',
       ''estimatedNetworkFeeAmount'' \<mapsto> JStr (q_estimatedNetworkFeeAmount (rf_quote input)),
       ''estimatedNetworkFeeCurrency'' \<mapsto> JStr ''XLM'', ''customerFeeIsNotNetworkFee'' \<mapsto> JBool True]\<rparr>"

definition fee_posting :: "record_fee \<Rightarrow> string \<Rightarrow> string \<Rightarrow> int \<Rightarrow> fee_params" where
  "fee_posting input revenueOrgId feeId feeMinor =
     \<lparr>fp_payerOrgId = rf_payerOrgId input, fp_revenueOrgId = revenueOrgId,
      fp_environment = env_name (rf_environment input), fp_amount = RStr (usdcMinorToLedgerInput feeMinor),
      fp_transferGroupId = rf_transferGroupId input, fp_payerReferenceId = rf_senderTransactionId input,
      fp_revenueReferenceId = feeId, fp_debitKey = Some (rf_idempotencyKey input @ '':debit''),
      fp_creditKey = Some (rf_idempotencyKey input @ '':revenue''),
      fp_metadata = Some [''feeId'' \<mapsto> JStr feeId, ''feeType'' \<mapsto> JStr FEE_TYPE_DAYFI_TRANSACTION]\<rparr>"

definition link_fee :: "string \<Rightarrow> (movement \<times> movement \<times> bool) option \<Rightarrow> (db, (string \<times> bool) option) tx" where
  "link_fee feeId posted = (case posted of
     None \<Rightarrow> ret (Some (feeId, False))
   | Some (d, c, duplicate) \<Rightarrow>
       bnd (update_fee feeId (\<lambda>f. f\<lparr>f_customer_movement := Some (m_id d), f_revenue_movement := Some (m_id c)\<rparr>)) (\<lambda>_.
       ret (Some (feeId, duplicate))))"

definition recordTransferFee :: "process_env \<Rightarrow> record_fee \<Rightarrow> (db, (string \<times> bool) option) tx" where
  "recordTransferFee penv input =
    (if \<not> q_feeCharged (rf_quote input) then ret None
     else bnd (query (\<lambda>s. find_row f_key (rf_idempotencyKey input) (fees s))) (\<lambda>existing. case existing of
       Some f \<Rightarrow> ret (Some (f_id f, True))
     | None \<Rightarrow>
       bnd (on_pool (ensureFeeRevenueOrg penv)) (\<lambda>revenueOrgId.
       bnd new_uuid (\<lambda>feeId.
       bnd (insert_fee (fee_row input revenueOrgId feeId)) (\<lambda>_.
       bnd (of_sum (parseUsdcToMinor (RStr (q_feeAmountUsdc (rf_quote input))))) (\<lambda>feeMinor.
       bnd (applyDayfiTransactionFee (fee_posting input revenueOrgId feeId feeMinor)) (link_fee feeId)))))))"

text \<open>The on-chain preflight; the fee payer's XLM reserve check is the Stellar client's.\<close>

definition preflightOnchainInternalTransfer ::
  "process_env \<Rightarrow> (db, 'p) act \<Rightarrow> string \<Rightarrow> string \<Rightarrow> js_raw \<Rightarrow> (db, fee_quote \<times> 'p) act" where
  "preflightOnchainInternalTransfer penv assertNetworkFeeReserve senderOrgId environment amount =
    abnd (aof_sum (quoteDayfiTransactionFee penv amount True)) (\<lambda>quote.
    abnd (getOrgBalance senderOrgId environment None) (\<lambda>sender.
    abnd (aof_sum (assertCustomerCanPay (RNum (Fin (b_available sender))) (RStr (q_transferAmount quote))
      (RStr (q_feeAmountUsdc quote)))) (\<lambda>_.
    abnd assertNetworkFeeReserve (\<lambda>feePayer. aret (quote, feePayer)))))"

section \<open>The quote is exact\<close>

lemma parse_default_fee: "parseUsdcToMinor (RStr ''0.01'') = Inr 100000"
  by code_simp

lemma configured_fee: "\<exists>p. getConfiguredFeeUsdcMinor penv = Inr p \<and> 0 \<le> p"
  by (auto simp: getConfiguredFeeUsdcMinor_def Let_def parse_default_fee split: sum.splits)

lemma quote_Inr:
  assumes "quoteDayfiTransactionFee penv raw charge = Inr q"
  obtains t f where "parseUsdcToMinor raw = Inr t" "0 < t" "0 \<le> f" "\<not> charge \<Longrightarrow> f = 0"
    "charge \<Longrightarrow> getConfiguredFeeUsdcMinor penv = Inr f"
    "q_transferAmount q = formatUsdc t" "q_feeAmountUsdc q = formatUsdc f"
    "q_customerDebitAmount q = formatUsdc (t + f)" "q_feeRevenueAmount q = formatUsdc f"
    "q_feeCharged q = (0 < f)"
proof -
  obtain p where "getConfiguredFeeUsdcMinor penv = Inr p" "0 \<le> p" using configured_fee by blast
  with assms that show thesis
    by (auto simp: quoteDayfiTransactionFee_def addMinor_def Let_def split: sum.splits if_splits)
qed

lemma parse_grid_number:
  assumes "on_grid a" and "0 \<le> a" and "a < 1000000000000000000000"
  shows "\<exists>k. parseUsdcToMinor (RNum (Fin a)) = Inr k \<and> a = of_int k / 10000000"
proof -
  obtain k :: int where k: "a = of_int k / 10000000" using assms(1) by (auto simp: on_grid_iff)
  have "math_round (\<bar>a\<bar> * 10000000) = k" using assms(2) by (simp add: k)
  then have "parseUsdcToMinor (RNum (Fin a)) = Inr k" using parse_number [of a] assms(2,3) by simp
  with k show ?thesis by blast
qed

lemma canPay_texts:
  assumes "on_grid a" and "0 \<le> a" and "a < 1000000000000000000000"
  shows "assertCustomerCanPay (RNum (Fin a)) (RStr (formatUsdc t)) (RStr (formatUsdc f)) =
    (if of_int (t + f) / 10000000 \<le> a then Inr () else Inl (InfraLedgerError ''INSUFFICIENT_BALANCE'' 400))"
proof -
  obtain k where k: "parseUsdcToMinor (RNum (Fin a)) = Inr k" "a = of_int k / 10000000"
    using parse_grid_number [OF assms] by blast
  have "(of_int (t + f) / 10000000 \<le> (of_int k / 10000000 :: rat)) \<longleftrightarrow> t + f \<le> k"
    by (simp add: divide_le_cancel del: of_int_add)
  then show ?thesis
    unfolding assertCustomerCanPay_def k(2) [symmetric] k(1)
    by (auto simp: parse_formatUsdc addMinor_def)
qed

section \<open>The revenue organisation and the recorded fee\<close>

lemma keeps_insert_org: "keeps (run_tx (bnd new_uuid (\<lambda>i. insert_org (g i))))"
  unfolding keeps_def
proof (intro allI impI)
  fix s r s' assume inv: "ledger_inv s" and run: "run_tx (bnd new_uuid (\<lambda>i. insert_org (g i))) s = (r, s')"
  show "unchanged s s'"
  proof (cases r)
    case (Inl e)
    with run inv show ?thesis by (simp add: run_tx_Inl_iff)
  next
    case (Inr x)
    let ?s1 = "s\<lparr>uuid_next := Suc (uuid_next s)\<rparr>"
    from run Inr have s': "s' = ?s1\<lparr>orgs := g (uuid_of s (uuid_next s)) # orgs ?s1\<rparr>"
      by (simp add: run_tx_Inr_iff tx_simps)
    have "ledger_inv s'" unfolding s' by (rule ledger_inv_new_org) (simp add: inv)
    then show ?thesis by (simp add: s' unchanged_def ledger_same_def)
  qed
qed

lemma keeps_ensureFeeRevenueOrg [keeps_intros, simp]: "keeps (ensureFeeRevenueOrg penv)"
  unfolding ensureFeeRevenueOrg_def Let_def by (intro keeps_intros keeps_insert_org)

lemma ensureFeeRevenueOrg_same: "ledger_inv s \<Longrightarrow> ensureFeeRevenueOrg penv s = (r, s') \<Longrightarrow> ledger_same s s'"
  using keepsD [OF keeps_ensureFeeRevenueOrg] unchanged_same by blast

text \<open>The revenue organisation: the one that the environment names, or the one with the platform's slug.\<close>

definition revenue_org :: "process_env \<Rightarrow> db \<Rightarrow> string option" where
  "revenue_org penv s =
    (let fromEnv = trim (env_str penv ''DAYFI_INFRA_FEE_ORG_ID'') in
     if fromEnv \<noteq> [] then Some fromEnv else map_option o_id (find_row o_slug FEE_ORG_SLUG (orgs s)))"

lemma bootstrap_orgs: "bootstrapOrgWallets i s = (Inr w, s') \<Longrightarrow> orgs s' = orgs s"
  by (auto simp: bootstrapOrgWallets_def run_tx_Inr_iff dest: preservesD [OF preserves_ledger(14)])

lemma ensureFeeRevenueOrg_org: "ensureFeeRevenueOrg penv s = (Inr rg, s') \<Longrightarrow> revenue_org penv s' = Some rg"
  by (auto simp: ensureFeeRevenueOrg_def revenue_org_def Let_def act_simps tx_simps
      dest!: bootstrap_orgs split: if_splits option.splits)

lemma revenue_org_cong: "orgs s' = orgs s \<Longrightarrow> revenue_org penv s' = revenue_org penv s"
  by (simp add: revenue_org_def Let_def)

text \<open>What recording a fee does to the ledger.\<close>

lemma link_fee_Inr:
  "link_fee feeId posted s = Inr (res, s') \<Longrightarrow>
     res = Some (feeId, case posted of None \<Rightarrow> False | Some (d, c, dup) \<Rightarrow> dup) \<and> (s' = s \<or> (\<exists>u. s' = fees_update u s))"
  by (auto simp: link_fee_def tx_simps split: option.splits)

lemma recordTransferFee_cases:
  assumes inv: "ledger_inv s" and run: "recordTransferFee penv input s = Inr (res, s')"
  obtains (free) "\<not> q_feeCharged (rf_quote input)" "res = None" "s' = s"
  | (known) f where "f \<in> set (fees s)" "f_key f = rf_idempotencyKey input" "res = Some (f_id f, True)" "s' = s"
  | (fresh) rg feeId s1 feeMinor posted s2 where "q_feeCharged (rf_quote input)"
      "rf_idempotencyKey input \<notin> f_key ` set (fees s)"
      "ledger_same s s1" "parseUsdcToMinor (RStr (q_feeAmountUsdc (rf_quote input))) = Inr feeMinor"
      "applyDayfiTransactionFee (fee_posting input rg feeId feeMinor) s1 = Inr (posted, s2)"
      "ledger_same s2 s'" "revenue_org penv s' = Some rg"
      "res = Some (feeId, case posted of None \<Rightarrow> False | Some (d, c, dup) \<Rightarrow> dup)"
proof (cases "q_feeCharged (rf_quote input)")
  case False
  with run free show thesis by (simp add: recordTransferFee_def)
next
  case True
  show thesis
  proof (cases "find_row f_key (rf_idempotencyKey input) (fees s)")
    case (Some f)
    with True run have "res = Some (f_id f, True)" "s' = s" by (simp_all add: recordTransferFee_def)
    with find_row_Some [OF Some] show thesis using known by blast
  next
    case None
    from run True None have "bnd (on_pool (ensureFeeRevenueOrg penv)) (\<lambda>revenueOrgId.
       bnd new_uuid (\<lambda>feeId.
       bnd (insert_fee (fee_row input revenueOrgId feeId)) (\<lambda>_.
       bnd (of_sum (parseUsdcToMinor (RStr (q_feeAmountUsdc (rf_quote input))))) (\<lambda>feeMinor.
       bnd (applyDayfiTransactionFee (fee_posting input revenueOrgId feeId feeMinor)) (link_fee feeId))))) s = Inr (res, s')"
      by (simp add: recordTransferFee_def)
    then obtain rg s0 feeId s0a row s0b feeMinor s0c posted s2 where
      org: "on_pool (ensureFeeRevenueOrg penv) s = Inr (rg, s0)" and u: "new_uuid s0 = Inr (feeId, s0a)"
      and ins: "insert_fee (fee_row input rg feeId) s0a = Inr (row, s0b)"
      and am: "of_sum (parseUsdcToMinor (RStr (q_feeAmountUsdc (rf_quote input)))) s0b = Inr (feeMinor, s0c)"
      and post: "applyDayfiTransactionFee (fee_posting input rg feeId feeMinor) s0c = Inr (posted, s2)"
      and fin: "link_fee feeId posted s2 = Inr (res, s')"
      by (elim bndE)
    have org: "ensureFeeRevenueOrg penv s = (Inr rg, s0)" using org by (simp add: on_pool_Inr_iff)
    have am: "parseUsdcToMinor (RStr (q_feeAmountUsdc (rf_quote input))) = Inr feeMinor" "s0c = s0b"
      using am by (simp_all add: of_sum_Inr_iff)
    have same: "ledger_same s s0" by (rule ensureFeeRevenueOrg_same [OF inv org])
    then have s1: "ledger_same s s0c"
      using u ins am(2) by (simp add: ledger_same_def new_uuid_Inr_iff insert_fee_Inr_iff)
    have "ledger_inv s2" by (rule applyFee_inv [OF ledger_same_inv [OF s1] post])
    then have s2: "ledger_same s2 s'" using link_fee_Inr [OF fin] by (auto simp: ledger_same_def)
    have "orgs s' = orgs s2" using link_fee_Inr [OF fin] by auto
    also have "orgs s2 = orgs s0"
      using u ins am(2) preservesD [OF preserves_ledger(13) post] by (simp add: new_uuid_Inr_iff insert_fee_Inr_iff)
    finally have rg: "revenue_org penv s' = Some rg"
      using revenue_org_cong ensureFeeRevenueOrg_org [OF org] by metis
    show thesis
      by (rule fresh [OF True _ s1 am(1) post s2 rg]) (use None link_fee_Inr [OF fin] in \<open>simp_all add: find_row_None\<close>)
  qed
qed

lemma recordTransferFee_extends:
  assumes inv: "ledger_inv s" and run: "recordTransferFee penv input s = Inr (res, s')"
  shows "extends s s'"
  using inv run
proof (cases rule: recordTransferFee_cases)
  case (fresh rg feeId s1 feeMinor posted s2)
  have "extends s1 s2" by (rule applyFee_same_or_posted [OF ledger_same_inv [OF fresh(3)] fresh(5)])
  then show ?thesis
    using ledger_same_extends [OF fresh(3)] ledger_same_extends [OF fresh(6)] extends_trans by blast
qed (use inv in \<open>auto intro: extends_refl\<close>)

text \<open>A fresh fee is one abstract fee step from the payer's account to the revenue account.\<close>

lemma recordTransferFee_moves:
  assumes inv: "ledger_inv s" and run: "recordTransferFee penv input s = Inr (res, s')"
    and charged: "q_feeCharged (rf_quote input)" and am: "q_feeAmountUsdc (rf_quote input) = formatUsdc f" "0 < f"
    and new: "rf_idempotencyKey input \<notin> f_key ` set (fees s)"
      "normalizeKey (Some (rf_idempotencyKey input @ '':debit'')) \<notin> m_key ` set (movements s)"
  shows "\<exists>rg. revenue_org penv s' = Some rg
    \<and> spec_fee (rf_payerOrgId input, rf_environment input, ''USDC'') (rg, rf_environment input, ''USDC'')
      (of_int f / 10000000) (balances s) = Some (balances s')
    \<and> money s' = money s + (if rg = rf_payerOrgId input then of_int f / 10000000 else 0)"
  using inv run
proof (cases rule: recordTransferFee_cases)
  case free
  with charged show ?thesis by simp
next
  case (known f)
  with new(1) show ?thesis by (metis imageI)
next
  case (fresh rg feeId s1 feeMinor posted s2)
  let ?p = "fee_posting input rg feeId f"
  have eq: "feeMinor = f" using fresh(4) am parse_formatUsdc by auto
  have amount: "parseAmount (fp_amount ?p) = Inr (of_int f / 10000000)"
    using js_Number_formatUsdc [of f] am(2)
    by (simp add: fee_posting_def parseAmount_def usdcMinorToLedgerInput_def divide_le_0_iff)
  have inv1: "ledger_inv s1" by (rule ledger_same_inv [OF fresh(3)])
  have "\<exists>d c. posted = Some (d, c, False)"
    using inv1 fresh(5) [unfolded eq]
  proof (cases rule: applyFee_cases)
    case none
    with fresh(5) [unfolded eq] amount am(2) show ?thesis
      by (auto simp: applyDayfiTransactionFee_def tx_simps Let_def split: option.splits if_splits)
  next
    case (replay d c)
    with new(2) fresh(3) show ?thesis by (auto simp: fee_posting_def ledger_same_def image_iff)
  next
    case (charged amount pw s1a rw s2a d c dup)
    then have "\<not> dup" by (auto simp: writeFeeLegs_legs legs_tx_def tx_simps)
    with charged show ?thesis by simp
  qed
  then obtain d c where p: "posted = Some (d, c, False)" by blast
  have "normalizeEnv (env_name (rf_environment input)) = rf_environment input"
    by (cases "rf_environment input") (simp_all add: normalizeEnv_def env_name_def)
  then have acc: "payer_account ?p = (rf_payerOrgId input, rf_environment input, ''USDC'')"
    "revenue_account ?p = (rg, rf_environment input, ''USDC'')"
    by (simp_all add: payer_account_def revenue_account_def fee_posting_def)
  note r = fee_spec [OF inv1 fresh(5) [unfolded eq p]]
  have d: "m_amount d = of_int f / 10000000" using r(2) amount by simp
  have m: "money s2 = money s1 + (if rg = rf_payerOrgId input then of_int f / 10000000 else 0)"
    using r(3) d by (auto simp: fee_posting_def)
  show ?thesis
    using r(1) m acc d fresh(3,6,7) by (intro exI [of _ rg]) (simp add: ledger_same_def)
qed

section \<open>Other tables\<close>

lemma on_pool_preserves:
  assumes "\<And>s r s'. m s = (Inr r, s') \<Longrightarrow> f s' = f s"
  shows "preserves f (on_pool m)"
  using assms by (auto simp: preserves_def on_pool_Inr_iff)

lemma ensureFeeRevenueOrg_tables:
  assumes "ensureFeeRevenueOrg penv s = (Inr r, s')"
  shows "transfers s' = transfers s \<and> txns s' = txns s \<and> fees s' = fees s"
proof -
  have ens: "transfers s1 = transfers s0 \<and> txns s1 = txns s0 \<and> fees s1 = fees s0"
    if "bootstrapOrgWallets i s0 = (Inr w, s1)" for i s0 w s1
    using that preservesD [of transfers "ensureWalletAccount i ''test'' (Some DEFAULT_INFRA_ASSET)"]
      preservesD [of fees "ensureWalletAccount i ''test'' (Some DEFAULT_INFRA_ASSET)"]
      preservesD [of txns "ensureWalletAccount i ''test'' (Some DEFAULT_INFRA_ASSET)"]
    by (auto simp: bootstrapOrgWallets_def run_tx_Inr_iff)
  show ?thesis
    using assms
    by (auto simp: ensureFeeRevenueOrg_def Let_def act_simps tx_simps dest!: ens split: if_splits option.splits)
qed

lemma preserves_revenue_org [preserves_intros, simp]:
  "preserves transfers (on_pool (ensureFeeRevenueOrg penv))" "preserves txns (on_pool (ensureFeeRevenueOrg penv))"
  by (auto intro!: on_pool_preserves dest: ensureFeeRevenueOrg_tables)

lemma preserves_recordTransferFee [preserves_intros, simp]:
  "preserves transfers (recordTransferFee penv input)" "preserves txns (recordTransferFee penv input)"
  unfolding recordTransferFee_def link_fee_def by (intro preserves_intros)+

section \<open>Evaluation\<close>

lemmas quoteDayfiTransactionFee_code [code] = quoteDayfiTransactionFee_def [where transferAmount = "RStr (c # s)"]
  quoteDayfiTransactionFee_def [where transferAmount = "RNum x"] for c s x

lemmas recordTransferFee_code [code] = recordTransferFee_def
  [where input = "\<lparr>rf_payerOrgId = po, rf_environment = en, rf_transferGroupId = tg,
     rf_senderTransactionId = c # st, rf_quote = q, rf_settlementMode = m, rf_idempotencyKey = k\<rparr>"]
  for po en tg c st q m k

end
