(* ===== verification/Internal_Transfer.thy ===== *)
theory Internal_Transfer
  imports Fee
begin

text \<open>
  \<open>src/src/modules/infra/infraInternalTransferService.ts\<close>: the transfer between two organisations,
  from the request's validation through the recipient's resolution, the fee quote and the
  idempotency replay to the one transaction that writes the transfer row, both transaction rows, the
  two ledger legs and the fee. Node's SHA-256, the on-chain executor and the issuer constant of the
  Stellar configuration are fields of \<open>services\<close>.
\<close>

section \<open>Requests, rows and replies\<close>

record transfer_input =
  ti_senderOrgId :: string
  ti_environment :: string
  ti_amount :: js_raw
  ti_recipientOrgId :: "string option"
  ti_recipientEnvironment :: "string option"
  ti_dayfiTag :: "string option"
  ti_idempotencyKey :: "string option"
  ti_reason :: "string option"
  ti_asset :: "string option"
  ti_settlementMode :: "string option"

record onchain_input =
  oi_senderOrgId :: string
  oi_recipientOrgId :: string
  oi_environment :: infra_env
  oi_amount :: string
  oi_idempotencyKey :: "string option"
  oi_fingerprint :: string
  oi_reason :: "string option"

record services =
  sv_env :: process_env
  sv_sha256 :: "string \<Rightarrow> string"
  sv_usdcIssuer :: string
  sv_executeOnchain :: "onchain_input \<Rightarrow> (db, transfer) act"

record transfer_view =
  v_id :: string
  v_senderOrgId :: string
  v_recipientOrgId :: string
  v_environment :: infra_env
  v_amount :: rat
  v_asset :: string
  v_status :: string
  v_settlementMode :: string
  v_senderTransactionId :: "string option"
  v_recipientTransactionId :: "string option"
  v_senderMovementId :: "string option"
  v_recipientMovementId :: "string option"
  v_idempotencyKey :: "string option"
  v_stellarTouched :: bool
  v_settlement :: "json option"
  v_fee :: json
  v_metadata :: jmap
  v_duplicate :: bool
  v_senderBalance :: "balance_view option"
  v_recipientBalance :: "balance_view option"

section \<open>Fingerprints\<close>

definition hex_digit :: "nat \<Rightarrow> char" where
  "hex_digit n = (if n < 10 then digit_char n else char_of (87 + n))"

definition json_char :: "char \<Rightarrow> string" where
  "json_char c = (let n = of_char c :: nat in
     if c = CHR 0x22 then [CHR 0x5C, CHR 0x22]
     else if n = 92 then [c, c]
     else if n = 8 then [CHR 0x5C, CHR ''b''] else if n = 9 then [CHR 0x5C, CHR ''t'']
     else if n = 10 then [CHR 0x5C, CHR ''n''] else if n = 12 then [CHR 0x5C, CHR ''f'']
     else if n = 13 then [CHR 0x5C, CHR ''r'']
     else if n < 32 then [CHR 0x5C, CHR ''u'', CHR ''0'', CHR ''0'', hex_digit (n div 16), hex_digit (n mod 16)]
     else [c])"

definition json_string :: "string \<Rightarrow> string" where
  "json_string s = CHR 0x22 # concat (map json_char s) @ [CHR 0x22]"

definition join_comma :: "string list \<Rightarrow> string" where
  "join_comma ss = (case ss of [] \<Rightarrow> [] | s # rest \<Rightarrow> s @ concat (map (\<lambda>t. CHR '','' # t) rest))"

text \<open>\<open>Object.keys(obj).sort()\<close> compares the code units.\<close>

fun string_le :: "string \<Rightarrow> string \<Rightarrow> bool" where
  "string_le [] t = True"
| "string_le (a # s) [] = False"
| "string_le (a # s) (b # t) =
     (if (of_char a :: nat) < of_char b then True else if a = b then string_le s t else False)"

fun insert_key :: "string \<times> string \<Rightarrow> (string \<times> string) list \<Rightarrow> (string \<times> string) list" where
  "insert_key p [] = [p]"
| "insert_key p (q # ps) = (if string_le (fst p) (fst q) then p # q # ps else q # insert_key p ps)"

text \<open>Numbers are printed as the decimals of the seven-decimal grid.\<close>

fun stableJson :: "json \<Rightarrow> string" where
  "stableJson JNull = ''null''"
| "stableJson (JBool b) = (if b then ''true'' else ''false'')"
| "stableJson (JNum x) = formatUsdc (math_round (x * 10000000))"
| "stableJson (JStr s) = json_string s"
| "stableJson (JArr js) = ''['' @ join_comma (map stableJson js) @ '']''"
| "stableJson (JObj kvs) = ''{'' @ join_comma (map (\<lambda>(k, v). json_string k @ '':'' @ v)
     (foldr insert_key (map (\<lambda>(k, v). (k, stableJson v)) kvs) [])) @ ''}''"

definition fingerprintPayload :: "services \<Rightarrow> (string \<times> json) list \<Rightarrow> string" where
  "fingerprintPayload sv parts = sv_sha256 sv (stableJson (JObj parts))"

section \<open>Reading transfers\<close>

definition quote_json :: "fee_quote \<Rightarrow> json" where
  "quote_json q = JObj [(''feeAmountUsdc'', JStr (q_feeAmountUsdc q)), (''feeCurrency'', JStr ''USDC''),
     (''feeType'', JStr FEE_TYPE_DAYFI_TRANSACTION), (''transferAmount'', JStr (q_transferAmount q)),
     (''customerDebitAmount'', JStr (q_customerDebitAmount q)), (''feeCharged'', JBool (q_feeCharged q)),
     (''feePolicyAmountUsdc'', JStr (q_feePolicyAmountUsdc q)), (''feeRevenueAmount'', JStr (q_feeRevenueAmount q)),
     (''estimatedNetworkFeeAmount'', JStr (q_estimatedNetworkFeeAmount q)),
     (''estimatedNetworkFeeCurrency'', JStr ''XLM''),
     (''actualNetworkFeeAmount'', case q_actualNetworkFeeAmount q of Some t \<Rightarrow> JStr t | None \<Rightarrow> JNull),
     (''actualNetworkFeeCurrency'', JStr ''XLM''), (''networkFeePayer'', JStr ''DAYFI_XLM_RESERVE'')]"

fun json_field :: "string \<Rightarrow> json \<Rightarrow> json option" where
  "json_field k (JObj kvs) = map_of kvs k"
| "json_field k _ = None"

definition mapTransfer ::
  "transfer \<Rightarrow> bool \<Rightarrow> balance_view option \<Rightarrow> balance_view option \<Rightarrow> json \<Rightarrow> json option \<Rightarrow> transfer_view" where
  "mapTransfer row duplicate senderBalance recipientBalance fee settlement =
    (let meta = x_metadata row in
     \<lparr>v_id = x_id row, v_senderOrgId = x_sender row, v_recipientOrgId = x_recipient row,
      v_environment = x_env row, v_amount = toNumber (x_amount row), v_asset = x_asset row,
      v_status = x_status row,
      v_settlementMode = (if x_mode row = [] then ''INTERNAL_LEDGER'' else x_mode row),
      v_senderTransactionId = x_sender_tx row, v_recipientTransactionId = x_recipient_tx row,
      v_senderMovementId = x_sender_movement row, v_recipientMovementId = x_recipient_movement row,
      v_idempotencyKey = x_key row, v_stellarTouched = json_truthy (meta ''stellarTouched''),
      v_settlement = settlement,
      v_fee = (if fee = JNull then json_or_null (meta ''fee'') else fee),
      v_metadata = meta, v_duplicate = duplicate, v_senderBalance = senderBalance,
      v_recipientBalance = recipientBalance\<rparr>)"

definition loadTransfer :: "string \<Rightarrow> (db, transfer option) act" where
  "loadTransfer i = aquery (\<lambda>s. find_row x_id i (transfers s))"

definition loadTransferByIdempotency :: "string \<Rightarrow> infra_env \<Rightarrow> string \<Rightarrow> (db, transfer option) act" where
  "loadTransferByIdempotency senderOrgId env key =
    aquery (\<lambda>s. find_row transfer_key (Some (senderOrgId, env, key)) (transfers s))"

definition is_hex :: "char \<Rightarrow> bool" where
  "is_hex c \<longleftrightarrow> radix_val c < 16"

definition is_uuid :: "string \<Rightarrow> bool" where
  "is_uuid s \<longleftrightarrow> length s = 36 \<and>
     list_all (\<lambda>(i, c).
       if i \<in> {8, 13, 18, 23} then c = CHR ''-''
       else if i = 14 then c \<in> set ''12345''
       else if i = 19 then lower_char c \<in> set ''89ab''
       else is_hex c) (zip [0..<36] s)"

definition resolveRecipientOrgId :: "string option \<Rightarrow> string option \<Rightarrow> (db, string) act" where
  "resolveRecipientOrgId recipientOrgId dayfiTag =
    (let explicit = trim (or_str recipientOrgId []); unknown = InfraTransferError ''UNKNOWN_RECIPIENT'' 404 in
     if explicit \<noteq> [] then
       abnd (arequire (is_uuid explicit) unknown) (\<lambda>_.
       abnd (aquery (org_exists explicit)) (\<lambda>known.
       abnd (arequire known unknown) (\<lambda>_. aret explicit)))
     else
       let tag = to_lower (dropWhile (\<lambda>c. c = CHR ''@'') (trim (or_str dayfiTag []))) in
       abnd (arequire (tag \<noteq> []) (InfraTransferError ''RECIPIENT_REQUIRED'' 400)) (\<lambda>_.
       abnd (aquery (\<lambda>s. find_row (\<lambda>m. to_lower (mb_tag m)) (to_lower tag) (members s))) (\<lambda>member.
       case or_else (case member of None \<Rightarrow> None | Some m \<Rightarrow> mb_org m) None of
         None \<Rightarrow> athrow unknown
       | Some i \<Rightarrow>
           abnd (aquery (org_exists i)) (\<lambda>known.
           abnd (arequire known unknown) (\<lambda>_. aret i)))))"

text \<open>A \<open>NUMERIC(28,7)\<close> column cast to text has seven decimals.\<close>

definition stored_usdc :: "rat \<Rightarrow> (db, string) act" where
  "stored_usdc x = aof_sum (map_sum id formatUsdc (parseUsdcToMinor (RStr (to_fixed7 x))))"

definition stored_fee_json :: "transfer \<Rightarrow> fee \<Rightarrow> (db, json) act" where
  "stored_fee_json row stored =
    abnd (stored_usdc (f_amount stored)) (\<lambda>amount.
    abnd (stored_usdc (f_transfer_amount stored)) (\<lambda>transferAmount.
    abnd (stored_usdc (f_customer_debit stored)) (\<lambda>customerDebit.
    abnd (stored_usdc (f_revenue_amount stored)) (\<lambda>revenue.
    let estimated = (case Option.bind (x_metadata row ''fee'') (json_field ''estimatedNetworkFeeAmount'') of
          Some (JStr t) \<Rightarrow> if t = [] then ''0.00001'' else t
        | _ \<Rightarrow> ''0.00001'') in
    abnd (case f_actual_network_fee stored of
        None \<Rightarrow> aret None
      | Some x \<Rightarrow> aof_sum (map_sum id (\<lambda>m. Some (formatXlm m)) (parseXlmToMinor (RStr (to_fixed7 x))))) (\<lambda>actual.
    aret (quote_json \<lparr>q_feeAmountUsdc = amount, q_transferAmount = transferAmount,
      q_customerDebitAmount = customerDebit, q_feeCharged = True, q_feePolicyAmountUsdc = amount,
      q_feeRevenueAmount = revenue, q_estimatedNetworkFeeAmount = estimated,
      q_actualNetworkFeeAmount = actual\<rparr>))))))"

definition settlement_json :: "services \<Rightarrow> settlement \<Rightarrow> json" where
  "settlement_json sv st =
    (let meta = s_metadata st in
     JObj [(''id'', JStr (s_id st)), (''status'', JStr (s_status st)),
       (''stellarTransactionHash'', case s_external st of Some h \<Rightarrow> JStr h | None \<Rightarrow> JNull),
       (''sourcePublicKey'', case or_else (s_source st) None of Some k \<Rightarrow> JStr k
          | None \<Rightarrow> json_or_null (meta ''usdcSource'')),
       (''destinationPublicKey'', str_or_null (s_destination st)),
       (''usdcAmount'', JStr (to_fixed7 (s_amount st))),
       (''usdcIssuer'', JStr (sv_usdcIssuer sv)),
       (''feePayerPublicKey'', json_or_null (meta ''feePayerPublicKey'')),
       (''actualNetworkFeeXlm'', json_or_null (meta ''actualNetworkFeeXlm'')),
       (''settlementStatus'', JStr (s_status st))])"

definition presentTransfer ::
  "services \<Rightarrow> transfer \<Rightarrow> bool \<Rightarrow> balance_view option \<Rightarrow> balance_view option \<Rightarrow> (db, transfer_view) act" where
  "presentTransfer sv row duplicate senderBalance recipientBalance =
    abnd (loadFeeForTransfer (x_id row)) (\<lambda>stored.
    abnd (case stored of
        Some f \<Rightarrow> stored_fee_json row f
      | None \<Rightarrow> aret (json_or_null (x_metadata row ''fee''))) (\<lambda>fee.
    abnd (aquery (\<lambda>s. find_row s_key (''stellar:internal_transfer:'' @ x_id row) (settlements s))) (\<lambda>settlementRow.
    let settlement = (case settlementRow of
          Some st \<Rightarrow> if x_mode row = ''STELLAR_ONCHAIN'' then Some (settlement_json sv st) else None
        | None \<Rightarrow> None)
    in aret (mapTransfer row duplicate senderBalance recipientBalance fee settlement))))"

definition getInternalTransfer :: "services \<Rightarrow> string \<Rightarrow> string \<Rightarrow> (db, transfer_view) act" where
  "getInternalTransfer sv orgId transferId =
    abnd (loadTransfer transferId) (\<lambda>found. case found of
      None \<Rightarrow> athrow (InfraTransferError ''NOT_FOUND'' 404)
    | Some row \<Rightarrow>
        if x_sender row \<noteq> orgId \<and> x_recipient row \<noteq> orgId
        then athrow (InfraTransferError ''NOT_FOUND'' 404)
        else presentTransfer sv row False None None)"

section \<open>Creating a transfer\<close>

text \<open>Both balances, then the view.\<close>

definition presentWithBalances :: "services \<Rightarrow> transfer \<Rightarrow> bool \<Rightarrow> (db, transfer_view) act" where
  "presentWithBalances sv row duplicate =
    abnd (getOrgBalance (x_sender row) (env_name (x_env row)) None) (\<lambda>senderBalance.
    abnd (getOrgBalance (x_recipient row) (env_name (x_env row)) None) (\<lambda>recipientBalance.
    presentTransfer sv row duplicate (Some senderBalance) (Some recipientBalance)))"

definition fingerprint_conflict :: "string \<Rightarrow> transfer \<Rightarrow> bool" where
  "fingerprint_conflict fingerprint existing =
    (case x_fingerprint existing of None \<Rightarrow> False | Some f \<Rightarrow> f \<noteq> [] \<and> f \<noteq> fingerprint)"

definition conflict_error :: js_error where
  "conflict_error = InfraTransferError ''IDEMPOTENCY_CONFLICT'' 409"

definition transferFingerprint :: "services \<Rightarrow> string \<Rightarrow> string \<Rightarrow> infra_env \<Rightarrow> string \<Rightarrow> string \<Rightarrow> string" where
  "transferFingerprint sv amount asset env recipientOrgId settlementMode =
    fingerprintPayload sv [(''amount'', JStr amount), (''asset'', JStr asset), (''env'', JStr (env_name env)),
      (''recipientOrgId'', JStr recipientOrgId), (''settlementMode'', JStr settlementMode)]"

text \<open>What the transaction of the ledger mode inserts, and its calls of the ledger and the fee service.\<close>

definition base_key :: "string option \<Rightarrow> string \<Rightarrow> string" where
  "base_key idem transferGroupId = (case idem of Some k \<Rightarrow> k | None \<Rightarrow> transferGroupId)"

definition transfer_row ::
  "transfer_input \<Rightarrow> infra_env \<Rightarrow> string \<Rightarrow> string \<Rightarrow> string \<Rightarrow> string \<Rightarrow> fee_quote \<Rightarrow> string option \<Rightarrow> string \<Rightarrow>
   string \<Rightarrow> transfer" where
  "transfer_row input env amount asset recipientOrgId settlementMode feeQuote idem fingerprint transferGroupId =
    \<lparr>x_id = transferGroupId, x_sender = ti_senderOrgId input, x_recipient = recipientOrgId,
     x_env = env, x_amount = numeric_param amount, x_asset = asset, x_status = ''completed'',
     x_sender_tx = None, x_recipient_tx = None, x_sender_movement = None, x_recipient_movement = None,
     x_key = idem, x_fingerprint = Some fingerprint,
     x_metadata = [''type'' \<mapsto> JStr ''internal_transfer'', ''reason'' \<mapsto> str_or_null (ti_reason input),
       ''stellarTouched'' \<mapsto> JBool False, ''settlementMode'' \<mapsto> JStr settlementMode,
       ''fee'' \<mapsto> quote_json feeQuote],
     x_mode = settlementMode, x_fee_id = None\<rparr>"

definition transfer_txn ::
  "string \<Rightarrow> string \<Rightarrow> string \<Rightarrow> string \<Rightarrow> string \<Rightarrow> infra_env \<Rightarrow> string \<Rightarrow> string \<Rightarrow> fee_quote \<Rightarrow> rat \<Rightarrow> string option \<Rightarrow>
   string \<Rightarrow> string \<Rightarrow> txn" where
  "transfer_txn i orgId role suffix counterparty env amount settlementMode feeQuote feeAmount idem fingerprint transferGroupId =
    \<lparr>t_id = i, t_org = orgId, t_env = env, t_amount = numeric_param amount, t_currency = ''USDC'', t_country = None,
     t_status = ''completed'', t_method = ''internal_transfer'', t_direction = ''internal_transfer'', t_fee = feeAmount,
     t_external_id = Some (''internal-transfer:'' @ transferGroupId @ suffix),
     t_metadata = [''type'' \<mapsto> JStr ''internal_transfer'', ''transferGroupId'' \<mapsto> JStr transferGroupId,
       ''usdcAmount'' \<mapsto> JStr amount, ''rail'' \<mapsto> JStr ''internal_transfer'', ''stellarTouched'' \<mapsto> JBool False,
       ''provider'' \<mapsto> JNull, ''settlementRail'' \<mapsto> JStr ''NONE'', ''settlementMode'' \<mapsto> JStr settlementMode,
       ''fee'' \<mapsto> quote_json feeQuote, ''role'' \<mapsto> JStr role, ''counterpartyOrgId'' \<mapsto> JStr counterparty],
     t_client_key = map_option (\<lambda>k. k @ suffix) idem, t_fingerprint = Some fingerprint\<rparr>"

definition leg_params ::
  "transfer_input \<Rightarrow> infra_env \<Rightarrow> string \<Rightarrow> string \<Rightarrow> string \<Rightarrow> string \<Rightarrow> string \<Rightarrow> string \<Rightarrow> string \<Rightarrow> string \<Rightarrow> transfer_params" where
  "leg_params input env amount asset recipientOrgId settlementMode transferGroupId base senderTxId recipientTxId =
    \<lparr>tp_senderOrgId = ti_senderOrgId input, tp_recipientOrgId = recipientOrgId,
     tp_environment = env_name env, tp_amount = RStr amount, tp_asset = Some asset,
     tp_transferGroupId = transferGroupId, tp_debitKey = Some (''internal_transfer:'' @ base @ '':debit''),
     tp_creditKey = Some (''internal_transfer:'' @ base @ '':credit''),
     tp_senderReferenceId = senderTxId, tp_recipientReferenceId = recipientTxId,
     tp_metadata = Some [''reason'' \<mapsto> str_or_null (ti_reason input), ''settlementMode'' \<mapsto> JStr settlementMode]\<rparr>"

definition fee_input ::
  "transfer_input \<Rightarrow> infra_env \<Rightarrow> string \<Rightarrow> string \<Rightarrow> string \<Rightarrow> fee_quote \<Rightarrow> string \<Rightarrow> record_fee" where
  "fee_input input env transferGroupId base senderTxId feeQuote settlementMode =
    \<lparr>rf_payerOrgId = ti_senderOrgId input, rf_environment = env, rf_transferGroupId = transferGroupId,
     rf_senderTransactionId = senderTxId, rf_quote = feeQuote, rf_settlementMode = settlementMode,
     rf_idempotencyKey = ''transfer:'' @ base @ '':fee''\<rparr>"

definition complete_row :: "string \<Rightarrow> string \<Rightarrow> movement \<Rightarrow> movement \<Rightarrow> (string \<times> bool) option \<Rightarrow> transfer \<Rightarrow> transfer" where
  "complete_row senderTxId recipientTxId debit credit recordedFee x =
    x\<lparr>x_sender_tx := Some senderTxId, x_recipient_tx := Some recipientTxId,
      x_sender_movement := Some (m_id debit), x_recipient_movement := Some (m_id credit),
      x_fee_id := map_option fst recordedFee\<rparr>"

definition internalTransferTx ::
  "services \<Rightarrow> transfer_input \<Rightarrow> infra_env \<Rightarrow> string \<Rightarrow> string \<Rightarrow> string \<Rightarrow> string \<Rightarrow> fee_quote \<Rightarrow>
   string option \<Rightarrow> string \<Rightarrow> string \<Rightarrow> (db, transfer) tx" where
  "internalTransferTx sv input env amount asset recipientOrgId settlementMode feeQuote idem fingerprint transferGroupId =
     bnd (insert_transfer (transfer_row input env amount asset recipientOrgId settlementMode feeQuote idem
            fingerprint transferGroupId)) (\<lambda>_.
     bnd new_uuid (\<lambda>senderTxId.
     bnd (insert_txn (transfer_txn senderTxId (ti_senderOrgId input) ''sender'' '':out'' recipientOrgId env amount
            settlementMode feeQuote (if q_feeCharged feeQuote then numeric_param (q_feeAmountUsdc feeQuote) else 0)
            idem fingerprint transferGroupId)) (\<lambda>_.
     bnd new_uuid (\<lambda>recipientTxId.
     bnd (insert_txn (transfer_txn recipientTxId recipientOrgId ''recipient'' '':in'' (ti_senderOrgId input) env amount
            settlementMode feeQuote 0 idem fingerprint transferGroupId)) (\<lambda>_.
     bnd (transferAvailableTx (leg_params input env amount asset recipientOrgId settlementMode transferGroupId
            (base_key idem transferGroupId) senderTxId recipientTxId)) (\<lambda>(debit, credit, duplicate).
     bnd (recordTransferFee (sv_env sv) (fee_input input env transferGroupId (base_key idem transferGroupId)
            senderTxId feeQuote settlementMode)) (\<lambda>recordedFee.
     update_transfer transferGroupId (complete_row senderTxId recipientTxId debit credit recordedFee))))))))"

text \<open>\<open>crypto.randomUUID()\<close> outside a transaction\<close>

definition randomUUID :: "(db, string) act" where
  "randomUUID s = (Inr (uuid_of s (uuid_next s)), s\<lparr>uuid_next := Suc (uuid_next s)\<rparr>)"

definition replayTransfer :: "services \<Rightarrow> string \<Rightarrow> transfer \<Rightarrow> (db, transfer_view) act" where
  "replayTransfer sv fingerprint existing =
    (if fingerprint_conflict fingerprint existing then athrow conflict_error
     else presentWithBalances sv existing True)"

text \<open>\<open>String(input.idempotencyKey || '').trim() || null\<close>\<close>

definition request_key :: "transfer_input \<Rightarrow> string option" where
  "request_key input = or_else (Some (trim (or_str (ti_idempotencyKey input) []))) None"

definition createOnchain ::
  "services \<Rightarrow> transfer_input \<Rightarrow> infra_env \<Rightarrow> string \<Rightarrow> string \<Rightarrow> string \<Rightarrow> string \<Rightarrow> (db, transfer_view) act" where
  "createOnchain sv input env amount asset recipientOrgId settlementMode =
    (let fingerprint = transferFingerprint sv amount asset env recipientOrgId settlementMode;
         idem = request_key input;
         execute = abnd (sv_executeOnchain sv \<lparr>oi_senderOrgId = ti_senderOrgId input,
             oi_recipientOrgId = recipientOrgId, oi_environment = env, oi_amount = amount,
             oi_idempotencyKey = idem, oi_fingerprint = fingerprint, oi_reason = ti_reason input\<rparr>)
           (\<lambda>completed. presentWithBalances sv completed False)
     in
     abnd (arequire (\<not> (env = Live \<and> idem = None)) (InfraTransferError ''IDEMPOTENCY_REQUIRED'' 400)) (\<lambda>_.
     case idem of
       None \<Rightarrow> execute
     | Some k \<Rightarrow>
         abnd (loadTransferByIdempotency (ti_senderOrgId input) env k) (\<lambda>found. case found of
           None \<Rightarrow> execute
         | Some existing \<Rightarrow>
             if fingerprint_conflict fingerprint existing then athrow conflict_error
             else if x_status existing = ''completed'' \<or> x_status existing = ''failed''
             then presentWithBalances sv existing True
             else execute)))"

text \<open>The parts of the ledger mode: the affordability check of a charged fee, the lookup of the
  idempotency key, and the \<open>catch\<close> block.\<close>

definition chargeCheck :: "services \<Rightarrow> transfer_input \<Rightarrow> infra_env \<Rightarrow> fee_quote \<Rightarrow> (db, unit) act" where
  "chargeCheck sv input env feeQuote =
    (if q_feeCharged feeQuote then
       abnd (ensureFeeRevenueOrg (sv_env sv)) (\<lambda>_.
       abnd (getOrgBalance (ti_senderOrgId input) (env_name env) None) (\<lambda>senderBal.
       aof_sum (assertCustomerCanPay (RNum (Fin (b_available senderBal))) (RStr (q_transferAmount feeQuote))
         (RStr (q_feeAmountUsdc feeQuote)))))
     else aret ())"

definition lookupRequest :: "transfer_input \<Rightarrow> infra_env \<Rightarrow> (db, transfer option) act" where
  "lookupRequest input env = (case request_key input of None \<Rightarrow> aret None
     | Some k \<Rightarrow> loadTransferByIdempotency (ti_senderOrgId input) env k)"

definition transferCatch ::
  "services \<Rightarrow> transfer_input \<Rightarrow> infra_env \<Rightarrow> string \<Rightarrow> js_error \<Rightarrow> (db, transfer_view) act" where
  "transferCatch sv input env fingerprint err =
    (case err of
       InfraTransferError c st \<Rightarrow> athrow err
     | InfraLedgerError c st \<Rightarrow> athrow err
     | _ \<Rightarrow>
       if isUniqueViolation err \<and> request_key input \<noteq> None then
         abnd (lookupRequest input env) (\<lambda>again. case again of
           Some existing \<Rightarrow> replayTransfer sv fingerprint existing
         | None \<Rightarrow> athrow err)
       else athrow err)"

definition createLedger ::
  "services \<Rightarrow> transfer_input \<Rightarrow> infra_env \<Rightarrow> string \<Rightarrow> string \<Rightarrow> string \<Rightarrow> string \<Rightarrow> fee_quote \<Rightarrow> (db, transfer_view) act" where
  "createLedger sv input env amount asset recipientOrgId settlementMode feeQuote =
    (let fingerprint = transferFingerprint sv amount asset env recipientOrgId settlementMode in
     abnd (chargeCheck sv input env feeQuote) (\<lambda>_.
     abnd (arequire (\<not> (env = Live \<and> request_key input = None)) (InfraTransferError ''IDEMPOTENCY_REQUIRED'' 400)) (\<lambda>_.
     abnd (lookupRequest input env) (\<lambda>found. case found of
       Some existing \<Rightarrow> replayTransfer sv fingerprint existing
     | None \<Rightarrow>
         abnd randomUUID (\<lambda>transferGroupId.
         acatch
           (abnd (run_tx (internalTransferTx sv input env amount asset recipientOrgId settlementMode feeQuote
               (request_key input) fingerprint transferGroupId)) (\<lambda>completed.
            presentWithBalances sv completed False))
           (transferCatch sv input env fingerprint))))))"

definition request_env :: "transfer_input \<Rightarrow> infra_env" where
  "request_env input = normalizeEnv (if ti_environment input = [] then ''test'' else ti_environment input)"

definition request_asset :: "transfer_input \<Rightarrow> string" where
  "request_asset input =
    (let a = to_upper (trim (or_str (ti_asset input) ''USDC'')) in if a = [] then ''USDC'' else a)"

definition createInternalTransfer :: "services \<Rightarrow> transfer_input \<Rightarrow> (db, transfer_view) act" where
  "createInternalTransfer sv input =
    (let env = request_env input; asset = request_asset input in
     abnd (aof_sum (parseUsdcToMinor (ti_amount input))) (\<lambda>transferMinor.
     abnd (arequire (0 < transferMinor) (InfraTransferError ''INVALID_AMOUNT'' 400)) (\<lambda>_.
     let amount = formatUsdc transferMinor in
     abnd (arequire (asset = ''USDC'') (InfraTransferError ''UNSUPPORTED_ASSET'' 400)) (\<lambda>_.
     abnd (arequire (case or_else (ti_recipientEnvironment input) None of
         None \<Rightarrow> True | Some e \<Rightarrow> normalizeEnv e = env) (InfraTransferError ''CROSS_ENVIRONMENT'' 400)) (\<lambda>_.
     abnd (resolveRecipientOrgId (ti_recipientOrgId input) (ti_dayfiTag input)) (\<lambda>recipientOrgId.
     abnd (arequire (recipientOrgId \<noteq> ti_senderOrgId input) (InfraTransferError ''SELF_TRANSFER'' 400)) (\<lambda>_.
     let settlementMode = getTransferSettlementMode (sv_env sv) (ti_settlementMode input) in
     abnd (aof_sum (quoteDayfiTransactionFee (sv_env sv) (RStr amount)
         (settlementMode = ''INTERNAL_LEDGER'' \<and> isInternalTransferFeeEnabled (sv_env sv)))) (\<lambda>feeQuote.
     if settlementMode = ''STELLAR_ONCHAIN''
     then createOnchain sv input env amount asset recipientOrgId settlementMode
     else createLedger sv input env amount asset recipientOrgId settlementMode feeQuote))))))))"

section \<open>Evaluation\<close>

lemmas presentWithBalances_code [code] = presentWithBalances_def
  [where row = "\<lparr>x_id = c # i, x_sender = se, x_recipient = re, x_env = en, x_amount = am, x_asset = as, x_status = st, x_sender_tx = stx, x_recipient_tx = rtx, x_sender_movement = sm, x_recipient_movement = rm, x_key = k, x_fingerprint = fp, x_metadata = md, x_mode = mo, x_fee_id = fi\<rparr>"]
  for c i se re en am as st stx rtx sm rm k fp md mo fi

lemmas stored_fee_json_code [code] = stored_fee_json_def
  [where stored = "\<lparr>f_id = c # i, f_org = og, f_env = en, f_transfer_group = tg, f_transaction = tx, f_amount = am, f_transfer_amount = ta, f_customer_debit = cd, f_actual_network_fee = an, f_revenue_amount = ra, f_revenue_org = ro, f_customer_movement = cm, f_revenue_movement = rm, f_mode = mo, f_key = k, f_status = st, f_metadata = md\<rparr>"]
  for c i og en tg tx am ta cd an ra ro cm rm mo k st md

lemmas settlement_json_code [code] = settlement_json_def
  [where st = "\<lparr>s_id = c # i, s_org = og, s_env = en, s_payout_tx = px, s_collection_tx = cx, s_rail = ra, s_asset = as, s_amount = am, s_source = so, s_destination = de, s_status = st, s_external = ex, s_provider = pr, s_metadata = md, s_failure = fa, s_key = k\<rparr>"]
  for c i og en px cx ra as am so de st ex pr md fa k

lemmas internalTransferTx_code [code] = internalTransferTx_def [where transferGroupId = "c # tg"] for c tg

lemmas create_code [code] = createLedger_def [where amount = "c # a"] for c a

lemmas createOnchain_code [code] = createOnchain_def [where amount = "c # a"] for c a

end
