(* ===== verification/Transfer_Facts.thy ===== *)
theory Transfer_Facts
  imports Internal_Transfer
begin

text \<open>
  What a created internal transfer does: the one transaction moves the parsed amount and the fee and
  touches nothing else of the ledger; the reads around it leave the ledger as it is.
\<close>

section \<open>Reads keep the ledger\<close>

lemma keeps_randomUUID [keeps_intros, simp]: "keeps randomUUID"
  by (auto simp: keeps_def randomUUID_def unchanged_def ledger_same_def)

lemma keeps_loads [keeps_intros, simp]:
  "keeps (loadFeeForTransfer i)" "keeps (loadTransfer i)" "keeps (loadTransferByIdempotency i e k)"
  "keeps (stored_usdc x)"
  by (simp_all add: loadFeeForTransfer_def loadTransfer_def loadTransferByIdempotency_def stored_usdc_def)

lemma keeps_stored_fee_json [keeps_intros, simp]: "keeps (stored_fee_json row f)"
  unfolding stored_fee_json_def Let_def
  by (intro keeps_intros)

lemma keeps_presentTransfer [keeps_intros, simp]: "keeps (presentTransfer sv row d b1 b2)"
  unfolding presentTransfer_def Let_def
  by (intro keeps_intros)

lemma keeps_presentWithBalances [keeps_intros, simp]: "keeps (presentWithBalances sv row d)"
  unfolding presentWithBalances_def by (intro keeps_intros)

lemma keeps_replayTransfer [keeps_intros, simp]: "keeps (replayTransfer sv f x)"
  by (simp add: replayTransfer_def)

lemma keeps_getInternalTransfer: "keeps (getInternalTransfer sv i t)"
  unfolding getInternalTransfer_def
  by (intro keeps_intros)

lemma keeps_resolveRecipientOrgId [keeps_intros, simp]: "keeps (resolveRecipientOrgId r t)"
  unfolding resolveRecipientOrgId_def Let_def
  by (auto intro!: keeps_intros split: option.split)

section \<open>The transaction\<close>

lemma transfer_row_sel [simp]:
  "x_id (transfer_row i e a as r m q k f t) = t" "x_sender (transfer_row i e a as r m q k f t) = ti_senderOrgId i"
  "x_recipient (transfer_row i e a as r m q k f t) = r" "x_env (transfer_row i e a as r m q k f t) = e"
  "x_amount (transfer_row i e a as r m q k f t) = numeric_param a" "x_status (transfer_row i e a as r m q k f t) = ''completed''"
  "x_key (transfer_row i e a as r m q k f t) = k" "x_fingerprint (transfer_row i e a as r m q k f t) = Some f"
  "x_mode (transfer_row i e a as r m q k f t) = m"
  by (simp_all add: transfer_row_def)

lemma complete_row_sel [simp]:
  "x_id (complete_row a b d c f x) = x_id x" "x_sender (complete_row a b d c f x) = x_sender x"
  "x_recipient (complete_row a b d c f x) = x_recipient x" "x_env (complete_row a b d c f x) = x_env x"
  "x_amount (complete_row a b d c f x) = x_amount x" "x_status (complete_row a b d c f x) = x_status x"
  "x_key (complete_row a b d c f x) = x_key x" "x_fingerprint (complete_row a b d c f x) = x_fingerprint x"
  "x_mode (complete_row a b d c f x) = x_mode x" "x_sender_movement (complete_row a b d c f x) = Some (m_id d)"
  "x_recipient_movement (complete_row a b d c f x) = Some (m_id c)" "x_fee_id (complete_row a b d c f x) = map_option fst f"
  by (simp_all add: complete_row_def)

lemma transferTx_extends: "ledger_inv s \<Longrightarrow> transferAvailableTx p s = Inr (r, s') \<Longrightarrow> extends s s'"
  using transfer_extends [of s p "Inr r" s'] by (simp add: transferAvailableBalance_def run_tx_Inr_iff)

text \<open>Everything but the two legs and the fee is outside the ledger.\<close>

lemma internalTransferTx_Inr:
  assumes inv: "ledger_inv s"
    and run: "internalTransferTx sv input env amount asset recipientOrgId settlementMode feeQuote idem fingerprint tg s
      = Inr (row, s')"
  obtains s1 i1 i2 d c dup s2 fee s3 where "ledger_same s s1" "fees s1 = fees s" "orgs s1 = orgs s"
    "transferAvailableTx (leg_params input env amount asset recipientOrgId settlementMode tg (base_key idem tg) i1 i2) s1
       = Inr ((d, c, dup), s2)"
    "recordTransferFee (sv_env sv) (fee_input input env tg (base_key idem tg) i1 feeQuote settlementMode) s2 = Inr (fee, s3)"
    "ledger_same s3 s'" "orgs s' = orgs s3" "x_sender_movement row = Some (m_id d)" "x_recipient_movement row = Some (m_id c)"
    "x_fee_id row = map_option fst fee" "x_id row = tg" "x_sender row = ti_senderOrgId input" "x_recipient row = recipientOrgId"
    "x_env row = env" "x_amount row = numeric_param amount" "x_status row = ''completed''" "x_key row = idem"
    "x_fingerprint row = Some fingerprint" "find_row x_id tg (transfers s') = Some row"
    "ti_senderOrgId input \<noteq> recipientOrgId"
proof -
  let ?row = "transfer_row input env amount asset recipientOrgId settlementMode feeQuote idem fingerprint tg"
  from run obtain xr sa i1 sb y1 t1 sc i2 sd y2 t2 s1 legs s2 where
    st: "insert_transfer ?row s = Inr (xr, sa)" "new_uuid sa = Inr (i1, sb)" "insert_txn y1 sb = Inr (t1, sc)"
      "new_uuid sc = Inr (i2, sd)" "insert_txn y2 sd = Inr (t2, s1)"
    and legs: "transferAvailableTx (leg_params input env amount asset recipientOrgId settlementMode tg (base_key idem tg) i1 i2) s1
       = Inr (legs, s2)"
    and rest: "(case legs of (d, c, dup) \<Rightarrow>
       bnd (recordTransferFee (sv_env sv) (fee_input input env tg (base_key idem tg) i1 feeQuote settlementMode))
         (\<lambda>fee. update_transfer tg (complete_row i1 i2 d c fee))) s2 = Inr (row, s')"
    unfolding internalTransferTx_def by (elim bndE) blast
  obtain d c dup where l: "legs = (d, c, dup)" by (cases legs) auto
  from rest obtain fee s3 where
    fee: "recordTransferFee (sv_env sv) (fee_input input env tg (base_key idem tg) i1 feeQuote settlementMode) s2 = Inr (fee, s3)"
    and upd: "update_transfer tg (complete_row i1 i2 d c fee) s3 = Inr (row, s')"
    unfolding l by (auto elim: bndE)
  have s1: "ledger_same s s1 \<and> fees s1 = fees s \<and> orgs s1 = orgs s \<and> transfers s1 = ?row # transfers s"
    and self: "ti_senderOrgId input \<noteq> recipientOrgId"
    using st inv by (simp_all add: tx_simps ledger_same_def transfer_ok_def)
  have tr: "transfers s3 = ?row # transfers s"
    using s1 preservesD [OF preserves_ledger(1) legs] preservesD [OF preserves_recordTransferFee(1) fee] by simp
  have row: "row = complete_row i1 i2 d c fee ?row"
    and s': "s' = s3\<lparr>transfers := update_rows x_id tg (complete_row i1 i2 d c fee) (transfers s3)\<rparr>"
    using upd tr by (auto simp: update_transfer_Inr_iff)
  have "extends s1 s2" using transferTx_extends legs s1 by (simp add: ledger_same_def)
  then have "ledger_inv s3" using recordTransferFee_extends [OF _ fee] by (auto simp: extends_def)
  then have "ledger_same s3 s'" by (simp add: s' ledger_same_def)
  moreover have "find_row x_id tg (transfers s') = Some row"
    by (simp add: s' row tr update_rows_def)
  moreover have "orgs s' = orgs s3" by (simp add: s')
  ultimately show thesis
    using s1 legs [unfolded l] fee self
    by (intro that [of s1 i1 i2 d c dup s2 fee s3]) (simp_all add: row)
qed

section \<open>The created transfer\<close>

lemma presentWithBalances_Inr:
  assumes "presentWithBalances sv row d s = (Inr v, s')"
  shows "v_duplicate v = d" "v_id v = x_id row" "v_senderOrgId v = x_sender row" "v_recipientOrgId v = x_recipient row"
    "v_status v = x_status row" "v_senderMovementId v = x_sender_movement row" "v_amount v = toNumber (x_amount row)"
  using assms
  by (auto simp: presentWithBalances_def presentTransfer_def mapTransfer_def act_simps Let_def split: option.splits)

lemma keeps_createLedger_parts [keeps_intros, simp]:
  "keeps (chargeCheck sv input env q)" "keeps (lookupRequest input env)" "keeps (transferCatch sv input env f err)"
proof -
  show a: "keeps (chargeCheck sv input env q)" unfolding chargeCheck_def by (intro keeps_intros)
  show b: "keeps (lookupRequest input env)" unfolding lookupRequest_def by (intro keeps_intros)
  show "keeps (transferCatch sv input env f err)"
    unfolding transferCatch_def by (cases err) (auto intro!: keeps_intros b split: option.split)
qed

lemma replayTransfer_dup: "replayTransfer sv f x s = (Inr v, s') \<Longrightarrow> v_duplicate v"
  by (auto simp: replayTransfer_def dest: presentWithBalances_Inr(1) split: if_splits)

lemma transferCatch_dup: "transferCatch sv input env f err s = (Inr v, s') \<Longrightarrow> v_duplicate v"
  by (cases err) (auto simp: transferCatch_def act_simps dest: replayTransfer_dup split: if_splits option.splits)

lemma createLedger_Inr:
  assumes inv: "ledger_inv s"
    and run: "createLedger sv input env amount asset rcpt mode q s = (Inr v, s')" and new: "\<not> v_duplicate v"
  obtains tg s0 row s1 where "unchanged s s0"
    "internalTransferTx sv input env amount asset rcpt mode q (request_key input)
       (transferFingerprint sv amount asset env rcpt mode) tg s0 = Inr (row, s1)"
    "presentWithBalances sv row False s1 = (Inr v, s')"
proof -
  let ?fp = "transferFingerprint sv amount asset env rcpt mode"
  from run obtain u s0a u' s0b found s0c where
    a: "chargeCheck sv input env q s = (Inr u, s0a)"
    and b: "arequire (\<not> (env = Live \<and> request_key input = None)) (InfraTransferError ''IDEMPOTENCY_REQUIRED'' 400) s0a
      = (Inr u', s0b)"
    and c: "lookupRequest input env s0b = (Inr found, s0c)"
    and d: "(case found of
       Some existing \<Rightarrow> replayTransfer sv ?fp existing
     | None \<Rightarrow>
         abnd randomUUID (\<lambda>tg. acatch
           (abnd (run_tx (internalTransferTx sv input env amount asset rcpt mode q (request_key input) ?fp tg)) (\<lambda>completed.
            presentWithBalances sv completed False))
           (transferCatch sv input env ?fp))) s0c = (Inr v, s')"
    unfolding createLedger_def Let_def by (elim abndE)
  have ua: "unchanged s s0a" by (rule keepsD [OF keeps_createLedger_parts(1) inv a])
  have ub: "unchanged s0a s0b" by (rule keepsD [OF keeps_arequire unchanged_inv [OF ua] b])
  have uc: "unchanged s0b s0c" by (rule keepsD [OF keeps_createLedger_parts(2) unchanged_inv [OF ub] c])
  have none: "found = None" using d new replayTransfer_dup by (cases found) auto
  obtain tg s0 where r: "randomUUID s0c = (Inr tg, s0)" by (simp add: randomUUID_def)
  have ur: "unchanged s0c s0" by (rule keepsD [OF keeps_randomUUID unchanged_inv [OF uc] r])
  let ?m = "abnd (run_tx (internalTransferTx sv input env amount asset rcpt mode q (request_key input) ?fp tg)) (\<lambda>completed.
            presentWithBalances sv completed False)"
  have "acatch ?m (transferCatch sv input env ?fp) s0 = (Inr v, s')" using d none r by (simp add: abnd_def)
  then have "?m s0 = (Inr v, s')"
    using new transferCatch_dup by (auto simp: acatch_def split: sum.splits prod.splits)
  then obtain row s1 where "internalTransferTx sv input env amount asset rcpt mode q (request_key input) ?fp tg s0 = Inr (row, s1)"
    "presentWithBalances sv row False s1 = (Inr v, s')"
    by (auto simp: act_simps)
  moreover have "unchanged s s0" using ua ub uc ur by (blast intro: unchanged_trans)
  ultimately show thesis using that by blast
qed

lemma createInternalTransfer_cases:
  assumes inv: "ledger_inv s" and run: "createInternalTransfer sv input s = (r, s')"
    and mode: "getTransferSettlementMode (sv_env sv) (ti_settlementMode input) = ''INTERNAL_LEDGER''"
  obtains (refused) e where "r = Inl e" "unchanged s s'"
  | (ledger) m rcpt q env s0 where "parseUsdcToMinor (ti_amount input) = Inr m" "0 < m"
    "env = request_env input"
    "rcpt \<noteq> ti_senderOrgId input" "unchanged s s0"
    "resolveRecipientOrgId (ti_recipientOrgId input) (ti_dayfiTag input) s = (Inr rcpt, s0)"
    "quoteDayfiTransactionFee (sv_env sv) (RStr (formatUsdc m)) (isInternalTransferFeeEnabled (sv_env sv)) = Inr q"
    "createLedger sv input env (formatUsdc m) ''USDC'' rcpt ''INTERNAL_LEDGER'' q s0 = (r, s')"
proof (cases "\<exists>e. r = Inl e \<and> unchanged s s'")
  case True
  with refused show thesis by blast
next
  case no: False
  obtain m where m: "parseUsdcToMinor (ti_amount input) = Inr m"
    using run no inv by (cases "parseUsdcToMinor (ti_amount input)") (auto simp: createInternalTransfer_def abnd_def Let_def)
  obtain res s0 where rv: "resolveRecipientOrgId (ti_recipientOrgId input) (ti_dayfiTag input) s = (res, s0)"
    by (cases "resolveRecipientOrgId (ti_recipientOrgId input) (ti_dayfiTag input) s") auto
  have u: "unchanged s s0" by (rule keepsD [OF keeps_resolveRecipientOrgId inv rv])
  let ?ok = "0 < m \<and> request_asset input = ''USDC''
    \<and> (case or_else (ti_recipientEnvironment input) None of None \<Rightarrow> True | Some e \<Rightarrow> normalizeEnv e = request_env input)"
  have ok: ?ok
  proof (rule ccontr)
    assume "\<not> ?ok"
    then have "\<exists>e. r = Inl e \<and> s' = s"
      using run m by (auto simp: createInternalTransfer_def abnd_def arequire_run Let_def split: if_splits)
    with no inv show False by auto
  qed
  have tail: "(case res of Inl e \<Rightarrow> (Inl e, s0) | Inr rcpt \<Rightarrow>
      abnd (arequire (rcpt \<noteq> ti_senderOrgId input) (InfraTransferError ''SELF_TRANSFER'' 400)) (\<lambda>_.
      abnd (aof_sum (quoteDayfiTransactionFee (sv_env sv) (RStr (formatUsdc m)) (isInternalTransferFeeEnabled (sv_env sv))))
        (createLedger sv input (request_env input) (formatUsdc m) ''USDC'' rcpt ''INTERNAL_LEDGER'')) s0) = (r, s')"
    using run m ok rv mode
    by (auto simp: createInternalTransfer_def abnd_def [of "aof_sum _"] abnd_def [of "arequire _ _"]
        abnd_def [of "resolveRecipientOrgId _ _"] arequire_run Let_def split: sum.splits)
  obtain rcpt where rc: "res = Inr rcpt" using tail no u by (cases res) auto
  have self: "rcpt \<noteq> ti_senderOrgId input" using tail rc no u by (auto simp: abnd_def arequire_run split: if_splits)
  obtain q where q: "quoteDayfiTransactionFee (sv_env sv) (RStr (formatUsdc m)) (isInternalTransferFeeEnabled (sv_env sv)) = Inr q"
    using tail rc self no u by (auto simp: abnd_def arequire_run split: sum.splits)
  show thesis
    by (rule ledger [OF m _ refl self u _ q]) (use tail rc self q ok rv in \<open>simp_all add: abnd_def arequire_run\<close>)
qed

text \<open>The view is read without a change to the organisations.\<close>

lemma getOrgBalance_orgs: "getOrgBalance i e a s = (Inr b, s') \<Longrightarrow> orgs s' = orgs s"
  by (auto simp: getOrgBalance_def act_simps dest: preservesD [OF preserves_ledger(14)] split: if_splits)

lemma stored_fee_json_reads: "stored_fee_json row f s = (Inr v, s') \<Longrightarrow> s' = s"
  by (auto simp: stored_fee_json_def stored_usdc_def act_simps Let_def split: option.splits)

lemma presentTransfer_reads: "presentTransfer sv row d b1 b2 s = (Inr v, s') \<Longrightarrow> s' = s"
  unfolding presentTransfer_def loadFeeForTransfer_def Let_def
  by (elim abndE) (auto dest: stored_fee_json_reads split: option.splits)

lemma presentWithBalances_orgs: "presentWithBalances sv row d s = (Inr v, s') \<Longrightarrow> orgs s' = orgs s"
  by (auto simp: presentWithBalances_def act_simps dest!: getOrgBalance_orgs presentTransfer_reads)

section \<open>The ledger effect\<close>

lemma parseAmount_formatUsdc: "0 < m \<Longrightarrow> parseAmount (RStr (formatUsdc m)) = Inr (of_int m / 10000000)"
  using js_Number_formatUsdc [of m] by (simp add: parseAmount_def divide_le_0_iff)

lemma leg_accounts [simp]:
  "sender_account (leg_params input env a ''USDC'' r mode tg base i1 i2) = (ti_senderOrgId input, env, ''USDC'')"
  "recipient_account (leg_params input env a ''USDC'' r mode tg base i1 i2) = (r, env, ''USDC'')"
  by (simp_all add: sender_account_def recipient_account_def leg_params_def)

lemma leg_keys [simp]:
  "normalizeKey (tp_debitKey (leg_params input env a as r mode tg base i1 i2)) = ''internal_transfer:'' @ base @ '':debit''"
  "normalizeKey (tp_creditKey (leg_params input env a as r mode tg base i1 i2)) = ''internal_transfer:'' @ base @ '':credit''"
  using normalizeKey_wrapped [of "''internal_transfer:''" "'':debit''" base]
    normalizeKey_wrapped [of "''internal_transfer:''" "'':credit''" base]
  by (simp_all add: leg_params_def is_ws_def)

lemma fee_key [simp]:
  "normalizeKey (Some (rf_idempotencyKey (fee_input input env tg base i q mode) @ '':debit''))
    = ''transfer:'' @ base @ '':fee:debit''"
  using normalizeKey_wrapped [of "''transfer:''" "'':fee:debit''" base] by (simp add: fee_input_def is_ws_def)

lemma transferTx_legs:
  assumes inv: "ledger_inv s" and run: "transferAvailableTx p s = Inr ((d, c, dup), s')"
  shows "if dup then s' = s \<and> d \<in> set (movements s) \<and> m_key d = normalizeKey (tp_debitKey p)
    else spec_transfer (sender_account p) (recipient_account p) (m_amount d) (balances s) = Some (balances s')
      \<and> parseAmount (tp_amount p) = Inr (m_amount d) \<and> money s' = money s \<and> ledger_inv s'
      \<and> movements s' = c # d # movements s \<and> m_key d = normalizeKey (tp_debitKey p) \<and> m_key c = normalizeKey (tp_creditKey p)"
proof (cases dup)
  case True
  from inv run show ?thesis by (cases rule: transferAvailableTx_cases) (use True in auto)
next
  case False
  have bal: "transferAvailableBalance p s = (Inr (d, c, False), s')"
    using run False by (simp add: transferAvailableBalance_def run_tx_Inr_iff)
  have "movements s' = c # d # movements s \<and> m_key d = normalizeKey (tp_debitKey p) \<and> m_key c = normalizeKey (tp_creditKey p)"
    by (rule transferAvailableTx_moved [OF inv run False]) auto
  with False transfer_refines [OF inv bal] transferTx_extends [OF inv run] show ?thesis
    by (simp add: extends_def)
qed

text \<open>The transaction with fresh keys: one abstract transfer, and one more step for the fee.\<close>

lemma internalTransferTx_moves:
  assumes inv: "ledger_inv s" and m: "0 < m"
    and run: "internalTransferTx sv input env (formatUsdc m) ''USDC'' r mode q idem fp tg s = Inr (row, s')"
    and k: "k = base_key idem tg"
    and fresh: "''internal_transfer:'' @ k @ '':debit'' \<notin> m_key ` set (movements s)"
    and quote: "q_feeCharged q = (0 < f)" "q_feeAmountUsdc q = formatUsdc f" "0 \<le> f"
    and feefresh: "0 < f \<Longrightarrow> ''transfer:'' @ k @ '':fee'' \<notin> f_key ` set (fees s)"
      "0 < f \<Longrightarrow> ''transfer:'' @ k @ '':fee:debit'' \<notin> m_key ` set (movements s)"
  shows "\<exists>b1 rg. spec_transfer (ti_senderOrgId input, env, ''USDC'') (r, env, ''USDC'') (of_int m / 10000000) (balances s) = Some b1
    \<and> (if f = 0 then balances s' = b1 \<and> money s' = money s
       else revenue_org (sv_env sv) s' = Some rg
         \<and> spec_fee (ti_senderOrgId input, env, ''USDC'') (rg, env, ''USDC'') (of_int f / 10000000) b1 = Some (balances s')
         \<and> money s' = money s + (if rg = ti_senderOrgId input then of_int f / 10000000 else 0))"
  using inv run
proof (cases rule: internalTransferTx_Inr)
  case (1 s1 i1 i2 d c dup s2 fee s3)
  let ?p = "leg_params input env (formatUsdc m) ''USDC'' r mode tg (base_key idem tg) i1 i2"
  let ?f = "fee_input input env tg (base_key idem tg) i1 q mode"
  have inv1: "ledger_inv s1" by (rule ledger_same_inv [OF 1(1)])
  have base: "base_key idem tg = k" using k by simp
  note legs = transferTx_legs [OF inv1 1(4)]
  have "\<not> dup" using legs fresh 1(1) by (auto simp: base ledger_same_def image_iff split: if_splits)
  then have moved: "spec_transfer (ti_senderOrgId input, env, ''USDC'') (r, env, ''USDC'') (m_amount d) (balances s) = Some (balances s2)"
    "m_amount d = of_int m / 10000000" "money s2 = money s" "ledger_inv s2" "movements s2 = c # d # movements s"
    "m_key d = ''internal_transfer:'' @ k @ '':debit''" "m_key c = ''internal_transfer:'' @ k @ '':credit''"
    using legs 1(1) parseAmount_formatUsdc [OF m] by (simp_all add: ledger_same_def base) (simp_all add: leg_params_def)
  show ?thesis
  proof (cases "f = 0")
    case True
    then have "s3 = s2" using 1(5) quote(1) by (simp add: recordTransferFee_def fee_input_def)
    with True moved 1(6) show ?thesis by (simp add: ledger_same_def)
  next
    case False
    then have f: "0 < f" using quote(3) by simp
    have new: "rf_idempotencyKey ?f \<notin> f_key ` set (fees s2)"
      using feefresh(1) [OF f] 1(2) preservesD [OF preserves_ledger(2) 1(4)] by (simp add: fee_input_def base)
    have new': "normalizeKey (Some (rf_idempotencyKey ?f @ '':debit'')) \<notin> m_key ` set (movements s2)"
      using feefresh(2) [OF f] moved(5-7) unfolding fee_key base by simp
    have q: "q_feeCharged (rf_quote ?f)" "q_feeAmountUsdc (rf_quote ?f) = formatUsdc f"
      using quote f by (simp_all add: fee_input_def)
    obtain rg where rg: "revenue_org (sv_env sv) s3 = Some rg"
      "spec_fee (ti_senderOrgId input, env, ''USDC'') (rg, env, ''USDC'') (of_int f / 10000000) (balances s2) = Some (balances s3)"
      "money s3 = money s2 + (if rg = ti_senderOrgId input then of_int f / 10000000 else 0)"
      using recordTransferFee_moves [OF moved(4) 1(5) q f new new'] by (auto simp: fee_input_def)
    have "revenue_org (sv_env sv) s' = Some rg" using rg(1) revenue_org_cong [OF 1(7)] by simp
    with rg moved False 1(6) show ?thesis by (intro exI [of _ "balances s2"] exI [of _ rg]) (simp add: ledger_same_def)
  qed
qed

end
