(* ===== verification/Transfer_Properties.thy ===== *)
theory Transfer_Properties
  imports Transfer_Facts Examples
begin

text \<open>
  The properties of the fee service and of internal transfers, each with a witness on concrete
  requests.
\<close>

section \<open>Concrete services\<close>

definition ex_env :: "string option \<Rightarrow> process_env" where
  "ex_env feeSwitch name =
    (if name = ''DAYFI_INFRA_INTERNAL_TRANSFER_FEE'' then feeSwitch
     else if name = ''DAYFI_TRANSACTION_FEE_USDC'' then Some ''0.5''
     else if name = ''DAYFI_INFRA_FEE_ORG_ID'' then Some ''beta''
     else None)"

definition ex_services :: "string option \<Rightarrow> services" where
  "ex_services feeSwitch = \<lparr>sv_env = ex_env feeSwitch, sv_sha256 = (\<lambda>t. t), sv_usdcIssuer = ''issuer'',
     sv_executeOnchain = (\<lambda>_. athrow (JsError ''offline''))\<rparr>"

definition ex_net :: db where
  "ex_net = ex_locked\<lparr>orgs := \<lparr>o_id = ''gamma'', o_slug = ''gamma'', o_name = ''gamma''\<rparr> # orgs ex_locked,
     members := [ex_member ''Gamma'' ''gamma'', ex_member ''acme'' ''acme'']\<rparr>"

definition ex_request :: "string \<Rightarrow> string \<Rightarrow> transfer_input" where
  "ex_request sender amount = \<lparr>ti_senderOrgId = sender, ti_environment = ''test'', ti_amount = RStr amount,
     ti_recipientOrgId = None, ti_recipientEnvironment = None, ti_dayfiTag = Some ''@gamma'',
     ti_idempotencyKey = Some ''order-1'', ti_reason = None, ti_asset = None, ti_settlementMode = None\<rparr>"

lemma ex_net_inv: "ledger_inv ex_net" by code_simp

definition ex_plain :: services where
  "ex_plain = ex_services None"

text \<open>A transfer that empties the sender's available balance.\<close>

definition ex_first :: "(js_error + transfer_view) \<times> db" where
  "ex_first = createInternalTransfer ex_plain (ex_request ''acme'' ''60'') ex_net"

lemma ex_first_run:
  "case ex_first of (Inl e, s') \<Rightarrow> False
   | (Inr v, s') \<Rightarrow> \<not> v_duplicate v \<and> v_recipientOrgId v = ''gamma'' \<and> ledger_inv s'
      \<and> ''internal_transfer:order-1:debit'' \<in> m_key ` set (movements s')
      \<and> (case find_row transfer_key (Some (''acme'', Test, ''order-1'')) (transfers s') of None \<Rightarrow> False
         | Some x \<Rightarrow> x_fingerprint x = Some (transferFingerprint ex_plain ''60'' ''USDC'' Test ''gamma'' ''INTERNAL_LEDGER''))"
  by code_simp

definition ex_paid :: db where
  "ex_paid = snd ex_first"

lemma ex_first_facts:
  obtains v x where "ex_first = (Inr v, ex_paid)" "\<not> v_duplicate v" "v_recipientOrgId v = ''gamma''" "ledger_inv ex_paid"
    "''internal_transfer:order-1:debit'' \<in> m_key ` set (movements ex_paid)"
    "find_row transfer_key (Some (''acme'', Test, ''order-1'')) (transfers ex_paid) = Some x"
    "x_fingerprint x = Some (transferFingerprint ex_plain ''60'' ''USDC'' Test ''gamma'' ''INTERNAL_LEDGER'')"
proof -
  obtain r s' where e: "ex_first = (r, s')" by (cases ex_first) auto
  note run = ex_first_run [unfolded e prod.case]
  then obtain v where r: "r = Inr v" by (cases r) simp_all
  show thesis
    using run that unfolding ex_paid_def e r by (auto split: option.splits)
qed

lemma ex_request_facts:
  "getTransferSettlementMode (sv_env ex_plain) (ti_settlementMode (ex_request i a)) = ''INTERNAL_LEDGER''"
  "getTransferSettlementMode (sv_env (ex_services (Some ''on''))) (ti_settlementMode (ex_request i a)) = ''INTERNAL_LEDGER''"
  "request_key (ex_request i a) = Some ''order-1''" "request_env (ex_request i a) = Test"
  "ti_senderOrgId (ex_request i a) = i" "ti_amount (ex_request i a) = RStr a"
  "ti_recipientOrgId (ex_request i a) = None" "ti_dayfiTag (ex_request i a) = Some ''@gamma''"
proof -
  have "getTransferSettlementMode (sv_env ex_plain) None = ''INTERNAL_LEDGER''"
    "getTransferSettlementMode (sv_env (ex_services (Some ''on''))) None = ''INTERNAL_LEDGER''"
    "or_else (Some (trim (or_str (Some ''order-1'') []))) None = Some ''order-1''" by code_simp+
  then show "getTransferSettlementMode (sv_env ex_plain) (ti_settlementMode (ex_request i a)) = ''INTERNAL_LEDGER''"
    "getTransferSettlementMode (sv_env (ex_services (Some ''on''))) (ti_settlementMode (ex_request i a)) = ''INTERNAL_LEDGER''"
    "request_key (ex_request i a) = Some ''order-1''" "request_env (ex_request i a) = Test"
    "ti_senderOrgId (ex_request i a) = i" "ti_amount (ex_request i a) = RStr a"
    "ti_recipientOrgId (ex_request i a) = None" "ti_dayfiTag (ex_request i a) = Some ''@gamma''"
    by (simp_all add: ex_request_def request_key_def request_env_def normalizeEnv_def)
qed

lemma ex_switch: "\<not> isInternalTransferFeeEnabled (sv_env ex_plain)"
  "isInternalTransferFeeEnabled (sv_env (ex_services (Some ''on'')))"
  "getConfiguredFeeUsdcMinor (sv_env (ex_services (Some ''on''))) = Inr 5000000"
  "parseUsdcToMinor (RStr ''60'') = Inr 600000000" "parseUsdcToMinor (RStr ''99'') = Inr 990000000"
  by code_simp+

lemma ex_net_balances:
  "balances ex_net (''acme'', Test, ''USDC'') = (60, 0, 40)" "balances ex_net (''gamma'', Test, ''USDC'') = (0, 0, 0)"
  by code_simp+

section \<open>Fees\<close>

text \<open>Exact quote. A fee quote adds up in exact minor units: the customer's debit is the transfer
  plus the fee, the fee is the configured policy or nothing, it is marked as charged when it is
  positive, and the affordability check on the quote's own texts lets a balance pass exactly when it
  covers both.\<close>

theorem fee_quote_exact:
  assumes "quoteDayfiTransactionFee penv raw charge = Inr q"
  shows "\<exists>t f. parseUsdcToMinor raw = Inr t \<and> 0 < t \<and> 0 \<le> f
    \<and> (if charge then getConfiguredFeeUsdcMinor penv = Inr f else f = 0)
    \<and> parseUsdcToMinor (RStr (q_transferAmount q)) = Inr t
    \<and> parseUsdcToMinor (RStr (q_feeAmountUsdc q)) = Inr f
    \<and> parseUsdcToMinor (RStr (q_customerDebitAmount q)) = Inr (t + f)
    \<and> q_feeCharged q = (0 < f)
    \<and> (\<forall>a. on_grid a \<longrightarrow> 0 \<le> a \<longrightarrow> a < 1000000000000000000000 \<longrightarrow>
         (assertCustomerCanPay (RNum (Fin a)) (RStr (q_transferAmount q)) (RStr (q_feeAmountUsdc q)) = Inr ()
           \<longleftrightarrow> of_int (t + f) / 10000000 \<le> a))"
proof -
  obtain t f where q: "parseUsdcToMinor raw = Inr t" "0 < t" "0 \<le> f" "\<not> charge \<Longrightarrow> f = 0"
    "charge \<Longrightarrow> getConfiguredFeeUsdcMinor penv = Inr f"
    "q_transferAmount q = formatUsdc t" "q_feeAmountUsdc q = formatUsdc f"
    "q_customerDebitAmount q = formatUsdc (t + f)" "q_feeCharged q = (0 < f)"
    using quote_Inr [OF assms] by metis
  then show ?thesis
    by (intro exI [of _ t] exI [of _ f]) (auto simp: parse_formatUsdc canPay_texts)
qed

lemma fee_quote_exact_witness:
  "\<exists>q. quoteDayfiTransactionFee (ex_env (Some ''on'')) (RStr ''12.5'') True = Inr q
     \<and> parseUsdcToMinor (RStr (q_customerDebitAmount q)) = Inr 130000000"
proof -
  have "(case quoteDayfiTransactionFee (ex_env (Some ''on'')) (RStr ''12.5'') True of Inl e \<Rightarrow> False | Inr q \<Rightarrow> True)"
    "parseUsdcToMinor (RStr ''12.5'') = Inr 125000000"
    "getConfiguredFeeUsdcMinor (ex_env (Some ''on'')) = Inr 5000000" by code_simp+
  moreover from this(1) obtain q where q: "quoteDayfiTransactionFee (ex_env (Some ''on'')) (RStr ''12.5'') True = Inr q"
    by (auto split: sum.splits)
  ultimately show ?thesis using fee_quote_exact [OF q] by auto
qed

section \<open>Internal transfers\<close>

text \<open>C11: Internal transfer. In ledger mode, a transfer that is answered as new, and whose base key -
  its idempotency key, or the identifier of the transfer when it has none - has no ledger movements or fee
  yet, moves exactly the requested amount from the sender's to the recipient's USDC account of the
  environment and, when the fee is switched on, charges exactly the configured fee to the sender for the
  revenue organisation - the one that the environment names, or the one with the platform's slug - and
  nothing else, and the transfer is completed. Money is conserved, except when the sender is the revenue
  organisation itself: then the fee is not moved but added to its balance.\<close>

theorem internal_transfer_moves:
  assumes "ledger_inv s" and "createInternalTransfer sv input s = (Inr v, s')" and "\<not> v_duplicate v"
    and "getTransferSettlementMode (sv_env sv) (ti_settlementMode input) = ''INTERNAL_LEDGER''"
    and "k = base_key (request_key input) (v_id v)"
    and "''internal_transfer:'' @ k @ '':debit'' \<notin> m_key ` set (movements s)"
    and "''transfer:'' @ k @ '':fee'' \<notin> f_key ` set (fees s)"
    and "''transfer:'' @ k @ '':fee:debit'' \<notin> m_key ` set (movements s)"
    and "env = request_env input"
  shows "\<exists>m f b1 rg. parseUsdcToMinor (ti_amount input) = Inr m
    \<and> (if isInternalTransferFeeEnabled (sv_env sv) then getConfiguredFeeUsdcMinor (sv_env sv) = Inr f else f = 0)
    \<and> spec_transfer (ti_senderOrgId input, env, ''USDC'') (v_recipientOrgId v, env, ''USDC'')
        (of_int m / 10000000) (balances s) = Some b1
    \<and> (if f = 0 then balances s' = b1 \<and> money s' = money s
       else revenue_org (sv_env sv) s' = Some rg
         \<and> spec_fee (ti_senderOrgId input, env, ''USDC'') (rg, env, ''USDC'') (of_int f / 10000000) b1
           = Some (balances s')
         \<and> money s' = money s + (if rg = ti_senderOrgId input then of_int f / 10000000 else 0))
    \<and> v_status v = ''completed'' \<and> v_senderOrgId v = ti_senderOrgId input"
  using assms(1,2,4)
proof (cases rule: createInternalTransfer_cases)
  case (ledger m rcpt q env' s0)
  note 1 = ledger
  have env: "env' = env" using 1(3) assms(9) by simp
  obtain tg s1 row s2 where l: "unchanged s0 s1"
    "internalTransferTx sv input env (formatUsdc m) ''USDC'' rcpt ''INTERNAL_LEDGER'' q (request_key input)
       (transferFingerprint sv (formatUsdc m) ''USDC'' env rcpt ''INTERNAL_LEDGER'') tg s1 = Inr (row, s2)"
    "presentWithBalances sv row False s2 = (Inr v, s')"
    by (rule createLedger_Inr [OF unchanged_inv [OF 1(5)] 1(8) [unfolded env] assms(3)])
  have u: "unchanged s s1" by (rule unchanged_trans [OF 1(5) l(1)])
  then have same: "movements s1 = movements s" "fees s1 = fees s" "balances s1 = balances s" "money s1 = money s"
    and inv1: "ledger_inv s1" by (simp_all add: unchanged_def ledger_same_def)
  obtain f where f: "0 \<le> f" "\<not> isInternalTransferFeeEnabled (sv_env sv) \<Longrightarrow> f = 0"
    "isInternalTransferFeeEnabled (sv_env sv) \<Longrightarrow> getConfiguredFeeUsdcMinor (sv_env sv) = Inr f"
    "q_feeAmountUsdc q = formatUsdc f" "q_feeCharged q = (0 < f)"
    using quote_Inr [OF 1(7)] by metis
  note view = presentWithBalances_Inr [OF l(3)]
  have row: "x_recipient row = rcpt" "x_sender row = ti_senderOrgId input" "x_status row = ''completed''" "x_id row = tg"
    and inv2: "ledger_inv s2"
    using inv1 l(2) by (cases rule: internalTransferTx_Inr; auto simp: ledger_same_def)+
  have key: "k = base_key (request_key input) tg" using assms(5) view(2) row(4) by simp
  obtain b1 rg where b1: "spec_transfer (ti_senderOrgId input, env, ''USDC'') (rcpt, env, ''USDC'') (of_int m / 10000000) (balances s) = Some b1"
    "(if f = 0 then balances s2 = b1 \<and> money s2 = money s
      else revenue_org (sv_env sv) s2 = Some rg
        \<and> spec_fee (ti_senderOrgId input, env, ''USDC'') (rg, env, ''USDC'') (of_int f / 10000000) b1 = Some (balances s2)
        \<and> money s2 = money s + (if rg = ti_senderOrgId input then of_int f / 10000000 else 0))"
    using internalTransferTx_moves [OF inv1 1(2) l(2) key _ f(5,4,1), unfolded same, OF assms(6,7,8)] by blast
  have "ledger_same s2 s'"
    using keepsD [OF keeps_presentWithBalances inv2 l(3)] by (rule unchanged_same)
  then have after: "balances s' = balances s2" "money s' = money s2" "revenue_org (sv_env sv) s' = revenue_org (sv_env sv) s2"
    using revenue_org_cong [OF presentWithBalances_orgs [OF l(3)]] by (simp_all add: ledger_same_def)
  show ?thesis
    using 1(1) f(1-3) b1 view row after
    by (intro exI [of _ m] exI [of _ f] exI [of _ b1] exI [of _ rg]) auto
qed simp

lemma internal_transfer_moves_witness:
  "balances ex_paid (''gamma'', Test, ''USDC'') = (60, 0, 0) \<and> balances ex_paid (''acme'', Test, ''USDC'') = (0, 0, 40)
   \<and> money ex_paid = money ex_net"
proof -
  obtain v where f: "ex_first = (Inr v, ex_paid)" "\<not> v_duplicate v" "v_recipientOrgId v = ''gamma''"
    by (rule ex_first_facts)
  have run: "createInternalTransfer ex_plain (ex_request ''acme'' ''60'') ex_net = (Inr v, ex_paid)"
    using f(1) by (simp add: ex_first_def)
  have c: "''internal_transfer:'' @ ''order-1'' @ '':debit'' \<notin> m_key ` set (movements ex_net)"
    "''transfer:'' @ ''order-1'' @ '':fee'' \<notin> f_key ` set (fees ex_net)"
    "''transfer:'' @ ''order-1'' @ '':fee:debit'' \<notin> m_key ` set (movements ex_net)" by code_simp+
  have k: "''order-1'' = base_key (request_key (ex_request ''acme'' ''60'')) (v_id v)"
    by (simp add: base_key_def ex_request_facts)
  have "balances ex_paid = (balances ex_net)((''acme'', Test, ''USDC'') := (0, 0, 40),
      (''gamma'', Test, ''USDC'') := (60, 0, 0)) \<and> money ex_paid = money ex_net"
    using internal_transfer_moves [OF ex_net_inv run f(2) ex_request_facts(1) k c refl] f(3)
      ex_switch ex_net_balances ex_request_facts
    by (auto simp: spec_transfer_def split: if_splits)
  then show ?thesis by simp
qed

text \<open>Replay by key. When the sender already has a transfer with the request's idempotency key in
  that environment, a request that passes validation never moves money again and writes nothing: with
  another fingerprint it is a conflict, otherwise it is answered as a duplicate of the stored
  transfer, or refused by the balance view of a closed wallet.\<close>

theorem transfer_key_replay:
  assumes "ledger_inv s" and "getTransferSettlementMode (sv_env sv) (ti_settlementMode input) = ''INTERNAL_LEDGER''"
    and "\<not> isInternalTransferFeeEnabled (sv_env sv)"
    and "env = request_env input"
    and "request_key input = Some k" and "find_row transfer_key (Some (ti_senderOrgId input, env, k)) (transfers s) = Some x"
    and "createInternalTransfer sv input s = (r, s')"
  shows "unchanged s s' \<and> (\<forall>v. r = Inr v \<longrightarrow> v_duplicate v \<and> v_id v = x_id x)
    \<and> (\<forall>m rcpt. parseUsdcToMinor (ti_amount input) = Inr m \<longrightarrow>
         fst (resolveRecipientOrgId (ti_recipientOrgId input) (ti_dayfiTag input) s) = Inr rcpt \<longrightarrow>
         fingerprint_conflict (transferFingerprint sv (formatUsdc m) ''USDC'' env rcpt ''INTERNAL_LEDGER'') x \<longrightarrow>
         (\<exists>e. r = Inl e))"
proof -
  have led: "unchanged s0 s' \<and> (\<forall>v. r = Inr v \<longrightarrow> v_duplicate v \<and> v_id v = x_id x \<and>
       \<not> fingerprint_conflict (transferFingerprint sv a ''USDC'' env rcpt ''INTERNAL_LEDGER'') x)"
    if u: "unchanged s s0" and q: "q_feeCharged q = False"
      and run: "createLedger sv input env a ''USDC'' rcpt ''INTERNAL_LEDGER'' q s0 = (r, s')" for s0 a rcpt q
  proof -
    have "find_row transfer_key (Some (ti_senderOrgId input, env, k)) (transfers s0) = Some x"
      using assms(6) u by (simp add: unchanged_def)
    then have "createLedger sv input env a ''USDC'' rcpt ''INTERNAL_LEDGER'' q s0
        = replayTransfer sv (transferFingerprint sv a ''USDC'' env rcpt ''INTERNAL_LEDGER'') x s0"
      using assms(5) q by (simp add: createLedger_def Let_def chargeCheck_def lookupRequest_def
          loadTransferByIdempotency_def abnd_def arequire_def)
    with run have rep: "replayTransfer sv (transferFingerprint sv a ''USDC'' env rcpt ''INTERNAL_LEDGER'') x s0 = (r, s')"
      by simp
    show ?thesis
      using keepsD [OF keeps_replayTransfer unchanged_inv [OF u] rep] rep
      by (auto simp: replayTransfer_def dest: presentWithBalances_Inr(1,2) split: if_splits)
  qed
  from assms(1,7,2) show ?thesis
  proof (cases rule: createInternalTransfer_cases)
    case (ledger m rcpt q env' s0)
    have "q_feeCharged q = False" using quote_Inr [OF ledger(7)] assms(3) by (metis less_irrefl)
    from led [OF ledger(5) this] ledger assms(4) show ?thesis
      by (cases r) (auto intro: unchanged_trans)
  qed simp
qed

lemma transfer_key_replay_witness:
  "\<exists>e. fst (createInternalTransfer ex_plain (ex_request ''acme'' ''99'') ex_paid) = Inl e"
proof -
  obtain v x where f: "ex_first = (Inr v, ex_paid)" "ledger_inv ex_paid"
    "find_row transfer_key (Some (''acme'', Test, ''order-1'')) (transfers ex_paid) = Some x"
    "x_fingerprint x = Some (transferFingerprint ex_plain ''60'' ''USDC'' Test ''gamma'' ''INTERNAL_LEDGER'')"
    by (rule ex_first_facts)
  let ?r = "createInternalTransfer ex_plain (ex_request ''acme'' ''99'') ex_paid"
  have differ: "transferFingerprint ex_plain ''60'' ''USDC'' Test ''gamma'' ''INTERNAL_LEDGER''
      \<noteq> transferFingerprint ex_plain (formatUsdc 990000000) ''USDC'' Test ''gamma'' ''INTERNAL_LEDGER''"
    "transferFingerprint ex_plain ''60'' ''USDC'' Test ''gamma'' ''INTERNAL_LEDGER'' \<noteq> []" by code_simp+
  have conflict: "fingerprint_conflict (transferFingerprint ex_plain (formatUsdc 990000000) ''USDC'' Test ''gamma'' ''INTERNAL_LEDGER'') x"
    using f(4) differ by (simp add: fingerprint_conflict_def)
  have tag: "fst (resolveRecipientOrgId None (Some ''@gamma'') ex_paid) = Inr ''gamma''" by code_simp
  have "?r = (fst ?r, snd ?r)" by simp
  from transfer_key_replay [OF f(2) ex_request_facts(1) ex_switch(1) refl ex_request_facts(3) _ this, of x] f(3)
    conflict tag ex_switch(5)
  show ?thesis by (simp add: ex_request_facts)
qed

text \<open>Affordability before replay. With the fee switched on, a request whose amount and fee exceed
  the sender's available balance is refused as insufficient before its idempotency key is looked up,
  even when that key belongs to a transfer that has been completed: a retry of a transfer that
  emptied the wallet is reported as a failure.\<close>

theorem retry_refused_when_drained:
  assumes "ledger_inv s" and "getTransferSettlementMode (sv_env sv) (ti_settlementMode input) = ''INTERNAL_LEDGER''"
    and "isInternalTransferFeeEnabled (sv_env sv)" and "getConfiguredFeeUsdcMinor (sv_env sv) = Inr f" and "0 < f"
    and "env = request_env input"
    and "parseUsdcToMinor (ti_amount input) = Inr m"
    and "fst (balances s (ti_senderOrgId input, env, ''USDC'')) < of_int (m + f) / 10000000"
    and "fst (balances s (ti_senderOrgId input, env, ''USDC'')) < 1000000000000000000000"
    and "createInternalTransfer sv input s = (r, s')"
  shows "(\<exists>e. r = Inl e) \<and> unchanged s s'"
  using assms(1,10,2)
proof (cases rule: createInternalTransfer_cases)
  case (ledger m' rcpt q env' s0)
  have m: "m' = m" "env' = env" using ledger(1,3) assms(6,7) by simp_all
  have inv0: "ledger_inv s0" by (rule unchanged_inv [OF ledger(5)])
  obtain t f' where q: "parseUsdcToMinor (RStr (formatUsdc m)) = Inr t" "q_transferAmount q = formatUsdc t"
    "q_feeAmountUsdc q = formatUsdc f'" "getConfiguredFeeUsdcMinor (sv_env sv) = Inr f'" "q_feeCharged q = (0 < f')"
    using quote_Inr [OF ledger(7) [unfolded m]] assms(3) by metis
  have eq: "t = m" "f' = f" using q(1,4) assms(4) parse_formatUsdc [of m] by simp_all
  obtain c s1 where c: "chargeCheck sv input env q s0 = (c, s1)" by (cases "chargeCheck sv input env q s0") auto
  have u1: "unchanged s0 s1" by (rule keepsD [OF keeps_createLedger_parts(1) inv0 c])
  have "\<exists>e. c = Inl e"
  proof (rule ccontr)
    assume "\<nexists>e. c = Inl e"
    then obtain u where "c = Inr u" by (cases c) auto
    then obtain rg sa b sb where o: "ensureFeeRevenueOrg (sv_env sv) s0 = (Inr rg, sa)"
      and b: "getOrgBalance (ti_senderOrgId input) (env_name env) None sa = (Inr b, sb)"
      and pay: "assertCustomerCanPay (RNum (Fin (b_available b))) (RStr (formatUsdc m)) (RStr (formatUsdc f)) = Inr u"
      using c q(2,3,5) assms(5) unfolding chargeCheck_def eq by (auto simp: act_simps)
    have ua: "unchanged s0 sa" by (rule keepsD [OF keeps_ensureFeeRevenueOrg inv0 o])
    have inva: "ledger_inv sa" by (rule unchanged_inv [OF ua])
    have "balances sa (ti_senderOrgId input, env, ''USDC'') = (b_available b, b_pending b, b_locked b)"
      using getOrgBalance_view [OF inva b] normalizeAsset_none by simp
    then have av: "fst (balances s (ti_senderOrgId input, env, ''USDC'')) = b_available b"
      using ua ledger(5) by (simp add: unchanged_def ledger_same_def)
    have "on_grid (b_available b) \<and> 0 \<le> b_available b"
      using getOrgBalance_grid [OF inva b] .
    with canPay_texts [of "b_available b" m f] pay av assms(8,9) show False by (simp split: if_splits)
  qed
  then show ?thesis
    using ledger(8) c u1 ledger(5) unfolding m by (auto simp: createLedger_def abnd_def Let_def intro: unchanged_trans)
qed simp

lemma retry_refused_when_drained_witness:
  "\<exists>e. fst (createInternalTransfer (ex_services (Some ''on'')) (ex_request ''acme'' ''60'') ex_paid) = Inl e"
proof -
  obtain v where f: "ex_first = (Inr v, ex_paid)" "ledger_inv ex_paid" by (rule ex_first_facts)
  let ?r = "createInternalTransfer (ex_services (Some ''on'')) (ex_request ''acme'' ''60'') ex_paid"
  have low: "fst (balances ex_paid (''acme'', Test, ''USDC'')) = 0" by code_simp
  have "?r = (fst ?r, snd ?r)" by simp
  from retry_refused_when_drained [OF f(2) ex_request_facts(2) ex_switch(2,3) _ refl _ _ _ this, of 600000000] low ex_switch(4)
  show ?thesis by (simp add: ex_request_facts)
qed

text \<open>Keys are shared between organisations. The ledger keys of an internal transfer are made of the
  idempotency key alone: when another organisation has used it, a new request is stored and answered
  as a completed transfer, and not a single balance or movement changes.\<close>

theorem foreign_key_completes_without_moving:
  assumes "ledger_inv s" and "createInternalTransfer sv input s = (Inr v, s')" and "\<not> v_duplicate v"
    and "getTransferSettlementMode (sv_env sv) (ti_settlementMode input) = ''INTERNAL_LEDGER''"
    and "\<not> isInternalTransferFeeEnabled (sv_env sv)" and "request_key input = Some k"
    and "''internal_transfer:'' @ k @ '':debit'' \<in> m_key ` set (movements s)"
  shows "v_status v = ''completed'' \<and> balances s' = balances s \<and> movements s' = movements s"
  using assms(1,2,4)
proof (cases rule: createInternalTransfer_cases)
  case (ledger m rcpt q env s0)
  obtain tg s1 row s2 where l: "unchanged s0 s1"
    "internalTransferTx sv input env (formatUsdc m) ''USDC'' rcpt ''INTERNAL_LEDGER'' q (Some k)
       (transferFingerprint sv (formatUsdc m) ''USDC'' env rcpt ''INTERNAL_LEDGER'') tg s1 = Inr (row, s2)"
    "presentWithBalances sv row False s2 = (Inr v, s')"
    by (rule createLedger_Inr [OF unchanged_inv [OF ledger(5)] ledger(8) assms(3)]) (auto simp: assms(6))
  have u: "unchanged s s1" by (rule unchanged_trans [OF ledger(5) l(1)])
  have free: "q_feeCharged q = False" using quote_Inr [OF ledger(7)] assms(5) by (metis less_irrefl)
  have tx: "ledger_same s1 s2 \<and> x_status row = ''completed''"
    using unchanged_inv [OF u] l(2)
  proof (cases rule: internalTransferTx_Inr)
    case (1 sa i1 i2 d c dup sb fee sc)
    note legs = transferTx_legs [OF ledger_same_inv [OF 1(1)] 1(4)]
    have invb: "ledger_inv sb" using transferTx_extends [OF ledger_same_inv [OF 1(1)] 1(4)] by (simp add: extends_def)
    have dup
    proof (rule ccontr)
      assume new: "\<not> dup"
      then have "movements sb = c # d # movements s" "m_key d = ''internal_transfer:'' @ k @ '':debit''"
        using legs 1(1) u by (simp_all add: base_key_def unchanged_def ledger_same_def)
      with assms(7) ledger_invD(4) [OF invb] show False by auto
    qed
    then have "sb = sa" using legs by simp
    moreover have "sc = sb" using 1(5) free by (simp add: recordTransferFee_def fee_input_def)
    ultimately have "ledger_same s1 s2" using 1(1,6) by (simp add: ledger_same_def)
    with 1 show ?thesis by simp
  qed
  then have "ledger_same s2 s'" using keepsD [OF keeps_presentWithBalances _ l(3)] by (simp add: unchanged_def ledger_same_def)
  with tx u presentWithBalances_Inr(5) [OF l(3)] show ?thesis by (simp add: unchanged_def ledger_same_def)
qed simp

text \<open>The penniless beta "sends" a thousand with the key that acme has used.\<close>

definition ex_reuse :: transfer_input where
  "ex_reuse = (ex_request ''beta'' ''1000'')\<lparr>ti_dayfiTag := Some ''acme''\<rparr>"

definition ex_second :: "(js_error + transfer_view) \<times> db" where
  "ex_second = createInternalTransfer ex_plain ex_reuse ex_paid"

lemma ex_reuse_facts:
  "getTransferSettlementMode (sv_env ex_plain) (ti_settlementMode ex_reuse) = ''INTERNAL_LEDGER''"
  "request_key ex_reuse = Some ''order-1''"
  by code_simp+

lemma ex_second_run: "case ex_second of (Inl e, s') \<Rightarrow> False | (Inr v, s') \<Rightarrow> \<not> v_duplicate v"
  by code_simp

lemma foreign_key_completes_without_moving_witness:
  "\<exists>v s'. createInternalTransfer ex_plain ex_reuse ex_paid = (Inr v, s')
     \<and> v_status v = ''completed'' \<and> balances s' = balances ex_paid"
proof -
  obtain v s' where run: "createInternalTransfer ex_plain ex_reuse ex_paid = (Inr v, s')"
    and new: "\<not> v_duplicate v"
    using ex_second_run unfolding ex_second_def
    by (cases "createInternalTransfer ex_plain ex_reuse ex_paid") (auto split: sum.splits)
  obtain v1 where f: "ex_first = (Inr v1, ex_paid)" "ledger_inv ex_paid"
    "''internal_transfer:order-1:debit'' \<in> m_key ` set (movements ex_paid)" by (rule ex_first_facts)
  from foreign_key_completes_without_moving [OF f(2) run new ex_reuse_facts(1) ex_switch(1) ex_reuse_facts(2)] f(3) run
  show ?thesis by simp
qed

end
