(* ===== verification/Stellar_Network.thy ===== *)
theory Stellar_Network
  imports Database
begin

text \<open>
  \<open>src/src/config/stellarConfig.ts\<close>, \<open>stellarIssuers.ts\<close> and \<open>productionNetworkGuard.ts\<close>: which
  Stellar network the process runs on, with which Horizon server and which asset issuers, and the
  guards that refuse a production process on a test network. The Stellar SDK, Node's crypto, the
  clock and the network are fields of the record \<open>sdk\<close>; each call of a service gets its own, so an
  answer of the network may differ from one call to the next.
\<close>

section \<open>What is not in the repository\<close>

text \<open>A built payment transaction, and the answers of Horizon and of the RPC server.\<close>

record built_tx =
  bt_source :: string
  bt_destination :: string
  bt_issuer :: string
  bt_amount :: string
  bt_memo :: "string option"
  bt_passphrase :: string

record horizon_balance =
  hb_code :: "string option"
  hb_issuer :: "string option"
  hb_type :: "string option"
  hb_balance :: string

record horizon_tx =
  ht_successful :: bool
  ht_ledger :: "int option"
  ht_fee_charged :: "string option"
  ht_fee_account :: "string option"

record horizon_op =
  ho_type :: string
  ho_from :: string
  ho_to :: string
  ho_code :: string
  ho_issuer :: string
  ho_amount :: string
  ho_id :: string

record payment_record =
  pg_type :: string
  pg_from :: string
  pg_to :: string
  pg_code :: string
  pg_issuer :: string
  pg_hash :: string

record send_reply =
  sr_status :: "string option"
  sr_hash :: "string option"

record submit_reply =
  su_hash :: "string option"
  su_ledger :: "int option"
  su_fee_charged :: "string option"

record sdk =
  sdk_env :: process_env
  sdk_now :: string
  sdk_sha256 :: "string \<Rightarrow> string"
  sdk_PUBLIC :: string
  sdk_TESTNET :: string
  sdk_publicKey :: "string \<Rightarrow> string option"
  sdk_random :: "nat \<Rightarrow> string"
  sdk_cipher :: "string \<Rightarrow> nat \<Rightarrow> string \<Rightarrow> string \<times> string \<times> string"
  sdk_decipher :: "string \<Rightarrow> string \<Rightarrow> string \<Rightarrow> string \<Rightarrow> string option"
  sdk_loadAccount :: "string \<Rightarrow> string \<Rightarrow> horizon_balance list option"
  sdk_friendbot :: "string \<Rightarrow> string \<Rightarrow> bool"
  sdk_changeTrust :: "string \<Rightarrow> string \<Rightarrow> string \<Rightarrow> bool"
  sdk_horizonTx :: "string \<Rightarrow> string \<Rightarrow> horizon_tx option"
  sdk_horizonOps :: "string \<Rightarrow> string \<Rightarrow> horizon_op list option"
  sdk_payments :: "string \<Rightarrow> string \<Rightarrow> nat \<Rightarrow> payment_record list option"
  sdk_rpcAccount :: "string \<Rightarrow> string \<Rightarrow> bool"
  sdk_txHash :: "built_tx \<Rightarrow> string"
  sdk_send :: "string \<Rightarrow> built_tx \<Rightarrow> string + send_reply"
  sdk_poll :: "string \<Rightarrow> string \<Rightarrow> (string option \<times> int option) option"
  sdk_getTransaction :: "string \<Rightarrow> string \<Rightarrow> (string \<times> int option) option"
  sdk_feeBump :: "built_tx \<Rightarrow> string \<Rightarrow> string \<times> string"
  sdk_submitXdr :: "string \<Rightarrow> string \<Rightarrow> string \<Rightarrow> (string \<times> string) + submit_reply"

text \<open>\<open>process.env.X?.trim()\<close> and \<open>String(process.env.X || d).trim().toLowerCase()\<close>\<close>

definition env_trim :: "sdk \<Rightarrow> string \<Rightarrow> string" where
  "env_trim sd name = trim (env_str (sdk_env sd) name)"

definition env_word :: "sdk \<Rightarrow> string \<Rightarrow> string \<Rightarrow> string" where
  "env_word sd name d = to_lower (trim (or_str (sdk_env sd name) d))"

section \<open>Production runtime\<close>

definition nodeEnv :: "sdk \<Rightarrow> string" where
  "nodeEnv sd = to_lower (trim (or_str (or_else (sdk_env sd ''DAYFI_NODE_ENV'') (or_else (sdk_env sd ''NODE_ENV'') None)) []))"

definition isProductionRuntime :: "sdk \<Rightarrow> bool" where
  "isProductionRuntime sd \<longleftrightarrow> nodeEnv sd = ''production'' \<or> env_str (sdk_env sd) ''RAILWAY_ENVIRONMENT'' \<noteq> []
     \<or> env_word sd ''DAYFI_REQUIRE_MAINNET'' [] = ''true''"

section \<open>Network and Horizon\<close>

definition TESTNET_HORIZON :: string where
  "TESTNET_HORIZON = ''https://horizon-testnet.stellar.org''"

definition MAINNET_HORIZON :: string where
  "MAINNET_HORIZON = ''https://horizon.stellar.org''"

record stellar_config =
  cfg_network :: string
  cfg_isTestnet :: bool
  cfg_horizonUrl :: string
  cfg_networkPassphrase :: string
  cfg_friendbotUrl :: "string option"

definition test_url :: "string \<Rightarrow> bool" where
  "test_url url \<longleftrightarrow> str_includes url ''testnet'' \<or> str_includes url ''futurenet'' \<or> str_includes url ''localhost''
     \<or> str_includes url ''127.0.0.1''"

definition horizon_for :: "sdk \<Rightarrow> bool \<Rightarrow> js_error + string" where
  "horizon_for sd isTestnet =
    (let url = env_trim sd ''STELLAR_HORIZON_URL'' in
     if url = [] then Inr (if isTestnet then TESTNET_HORIZON else MAINNET_HORIZON)
     else if isTestnet \<and> \<not> test_url url then
       (if isProductionRuntime sd then Inl (JsError ''Horizon mismatch in production'') else Inr TESTNET_HORIZON)
     else if \<not> isTestnet \<and> test_url url then
       (if isProductionRuntime sd then Inl (JsError ''Production Horizon must be mainnet'') else Inr MAINNET_HORIZON)
     else Inr url)"

definition getStellarConfig :: "sdk \<Rightarrow> js_error + stellar_config" where
  "getStellarConfig sd =
    (let raw = env_word sd ''STELLAR_NETWORK'' [];
         network = (if raw \<noteq> [] then raw else if isProductionRuntime sd then [] else ''testnet'');
         isTestnet = (network \<noteq> ''mainnet'')
     in case horizon_for sd isTestnet of Inl e \<Rightarrow> Inl e | Inr url \<Rightarrow>
       Inr \<lparr>cfg_network = (if network \<noteq> [] then network else if isTestnet then ''testnet'' else ''mainnet''),
         cfg_isTestnet = isTestnet, cfg_horizonUrl = url,
         cfg_networkPassphrase = (if isTestnet then sdk_TESTNET sd else sdk_PUBLIC sd),
         cfg_friendbotUrl = (if isTestnet then Some ''https://friendbot.stellar.org'' else None)\<rparr>)"

section \<open>Asset issuers\<close>

definition MAINNET_USDC_ISSUER :: string where
  "MAINNET_USDC_ISSUER = ''GA5ZSEJYB37JRC5AVCIA5MOP4RHTM335X2KGX3IHOJAPP5RE34K4KZVN''"

definition TESTNET_USDC_ISSUER :: string where
  "TESTNET_USDC_ISSUER = ''GBBD47IF6LWK7P7MDEVSCWR7DPUWV3NY3DTQEVFL4NAT4AQH3ZLLFLA5''"

definition MAINNET_EURC_ISSUER :: string where
  "MAINNET_EURC_ISSUER = ''GDHU6WRG4IEQXM5NZ4BMPKOXHW76MZM4Y2IEMFDVXBSDP6SJY4ITNPP2''"

definition TESTNET_EURC_ISSUER :: string where
  "TESTNET_EURC_ISSUER = ''GB3Q6QDZYTHWT7E5PVS3W7FUT5GVAFC5KSZFFLPU25GO7VTC3NM2ZTVO''"

definition is_upper :: "char \<Rightarrow> bool" where
  "is_upper c \<longleftrightarrow> 65 \<le> (of_char c :: nat) \<and> (of_char c :: nat) \<le> 90"

text \<open>\<open>/^G[A-Z2-7]{55}$/\<close>\<close>

definition isValidIssuerKey :: "string \<Rightarrow> bool" where
  "isValidIssuerKey key \<longleftrightarrow> length key = 56 \<and> hd key = CHR ''G''
     \<and> list_all (\<lambda>c. is_upper c \<or> 50 \<le> (of_char c :: nat) \<and> (of_char c :: nat) \<le> 55) (tl key)"

definition isStellarTestnet :: "sdk \<Rightarrow> bool" where
  "isStellarTestnet sd \<longleftrightarrow> to_lower (or_str (sdk_env sd ''STELLAR_NETWORK'') ''testnet'') \<noteq> ''mainnet''"

definition resolve_issuer :: "string \<Rightarrow> string \<Rightarrow> string \<Rightarrow> bool \<Rightarrow> string" where
  "resolve_issuer fromEnv testnetIssuer mainnetIssuer isTestnet =
    (let fallback = (if isTestnet then testnetIssuer else mainnetIssuer) in
     if fromEnv = [] \<or> \<not> isValidIssuerKey fromEnv then fallback
     else if isTestnet \<and> fromEnv = mainnetIssuer then testnetIssuer
     else if \<not> isTestnet \<and> fromEnv = testnetIssuer then mainnetIssuer
     else fromEnv)"

definition env_first :: "sdk \<Rightarrow> string \<Rightarrow> string \<Rightarrow> string" where
  "env_first sd a b = (let x = env_trim sd a in if x \<noteq> [] then x else env_trim sd b)"

definition resolveUsdcIssuer :: "sdk \<Rightarrow> bool \<Rightarrow> string" where
  "resolveUsdcIssuer sd isTestnet =
    resolve_issuer (env_first sd ''STELLAR_USDC_ISSUER'' ''USDC_ISSUER'') TESTNET_USDC_ISSUER MAINNET_USDC_ISSUER isTestnet"

definition resolveEurcIssuer :: "sdk \<Rightarrow> bool \<Rightarrow> string" where
  "resolveEurcIssuer sd isTestnet =
    resolve_issuer (env_first sd ''STELLAR_EURC_ISSUER'' ''EURC_ISSUER'') TESTNET_EURC_ISSUER MAINNET_EURC_ISSUER isTestnet"

definition buildReceiveTrustlineAssets :: "sdk \<Rightarrow> (string \<times> string) list" where
  "buildReceiveTrustlineAssets sd =
    [(''USDC'', resolveUsdcIssuer sd (isStellarTestnet sd)), (''EURC'', resolveEurcIssuer sd (isStellarTestnet sd))]"

record eth_contracts =
  eth_network :: string
  eth_usdc :: string
  eth_eurc :: string

definition resolveEthTokenContracts :: "sdk \<Rightarrow> eth_contracts" where
  "resolveEthTokenContracts sd =
    (let net = to_lower (env_str (sdk_env sd) ''ETH_NETWORK'');
         testnet = (net = ''sepolia'' \<or> net \<noteq> ''mainnet'' \<and> isStellarTestnet sd);
         pick = (\<lambda>name d. let x = env_trim sd name in if x \<noteq> [] then x else d)
     in if testnet then
          \<lparr>eth_network = ''sepolia'',
           eth_usdc = pick ''ETH_SEPOLIA_USDC_ADDRESS'' ''0x1c7D4B196Cb0C7B01f48AbaE9d411a3C0f2c31E9'',
           eth_eurc = pick ''ETH_SEPOLIA_EURC_ADDRESS'' ''0x08210F9170F89Ab7658F0B5E3fF39b0E03C594D4''\<rparr>
        else
          \<lparr>eth_network = ''mainnet'',
           eth_usdc = pick ''ETH_MAINNET_USDC_ADDRESS'' ''0xA0b86991c6218b36c1d19D4a2e9Eb0cE3606eB48'',
           eth_eurc = pick ''ETH_MAINNET_EURC_ADDRESS'' ''0x1aBaEA1f7C830bD89Acc67eC4af516284b1bC33c''\<rparr>)"

section \<open>Guards\<close>

definition assertStellarMainnetForProduction :: "sdk \<Rightarrow> js_error + unit" where
  "assertStellarMainnetForProduction sd =
    (if \<not> isProductionRuntime sd then Inr ()
     else if env_word sd ''STELLAR_NETWORK'' [] \<noteq> ''mainnet'' then Inl (JsError ''Production requires STELLAR_NETWORK=mainnet'')
     else case getStellarConfig sd of Inl e \<Rightarrow> Inl e | Inr cfg \<Rightarrow>
       if cfg_isTestnet cfg then Inl (JsError ''Production Stellar config resolved to testnet'')
       else if cfg_networkPassphrase cfg \<noteq> sdk_PUBLIC sd then Inl (JsError ''Production Stellar passphrase mismatch'')
       else if test_url (cfg_horizonUrl cfg) then Inl (JsError ''Production Stellar Horizon must be mainnet'')
       else Inr ())"

definition assertEthereumMainnetForProduction :: "sdk \<Rightarrow> js_error + unit" where
  "assertEthereumMainnetForProduction sd =
    (let ethNet = env_word sd ''ETH_NETWORK'' ''mainnet'' in
     if isProductionRuntime sd \<and> ethNet \<noteq> [] \<and> ethNet \<noteq> ''mainnet''
     then Inl (JsError ''Production requires ETH_NETWORK=mainnet'') else Inr ())"

definition assertStellarTxNetworkSafe :: "sdk \<Rightarrow> string \<Rightarrow> js_error + unit" where
  "assertStellarTxNetworkSafe sd passphrase =
    (if \<not> isProductionRuntime sd then Inr ()
     else if passphrase \<noteq> sdk_PUBLIC sd then Inl (JsError ''passphrase is not Mainnet PUBLIC'')
     else case getStellarConfig sd of Inl e \<Rightarrow> Inl e | Inr cfg \<Rightarrow>
       if cfg_isTestnet cfg \<or> cfg_networkPassphrase cfg \<noteq> sdk_PUBLIC sd
       then Inl (JsError ''STELLAR_NETWORK is not mainnet'') else Inr ())"

definition assertEvmChainIdMainnet :: "sdk \<Rightarrow> int \<Rightarrow> js_error + unit" where
  "assertEvmChainIdMainnet sd chainId =
    (if isProductionRuntime sd \<and> chainId \<noteq> 1 then Inl (JsError ''Refusing EVM submit'')
     else if \<not> isProductionRuntime sd \<and> chainId \<noteq> 1 then Inl (JsError ''EVM chainId is not Ethereum Mainnet'')
     else Inr ())"

section \<open>The configuration is of one network\<close>

lemma default_horizons: "test_url TESTNET_HORIZON" "\<not> test_url MAINNET_HORIZON"
  by code_simp+

lemma horizon_for_Inr: "horizon_for sd t = Inr url \<Longrightarrow> test_url url = t"
  by (auto simp: horizon_for_def Let_def default_horizons split: if_splits)

lemma known_issuers:
  "TESTNET_USDC_ISSUER \<noteq> MAINNET_USDC_ISSUER" "TESTNET_EURC_ISSUER \<noteq> MAINNET_EURC_ISSUER"
  "isValidIssuerKey TESTNET_USDC_ISSUER" "isValidIssuerKey MAINNET_USDC_ISSUER"
  "isValidIssuerKey TESTNET_EURC_ISSUER" "isValidIssuerKey MAINNET_EURC_ISSUER"
  by code_simp+

lemma resolve_issuer_safe:
  assumes "t \<noteq> m" and "isValidIssuerKey t" and "isValidIssuerKey m"
  shows "resolve_issuer e t m isTestnet \<noteq> (if isTestnet then m else t) \<and> isValidIssuerKey (resolve_issuer e t m isTestnet)"
  using assms by (auto simp: resolve_issuer_def Let_def)

lemma getStellarConfig_Inr:
  assumes "getStellarConfig sd = Inr cfg"
  shows "test_url (cfg_horizonUrl cfg) = cfg_isTestnet cfg"
    and "cfg_networkPassphrase cfg = (if cfg_isTestnet cfg then sdk_TESTNET sd else sdk_PUBLIC sd)"
    and "cfg_isTestnet cfg \<longleftrightarrow> env_word sd ''STELLAR_NETWORK'' [] \<noteq> ''mainnet''"
  using assms by (auto simp: getStellarConfig_def Let_def horizon_for_Inr split: sum.splits if_splits)

end
