(* ===== verification/Stellar_Adapter.thy ===== *)
theory Stellar_Adapter
  imports Stellar_Network Money_Amount
begin

text \<open>
  \<open>src/src/modules/infra/stellarSettlementAdapter.ts\<close>: one USDC payment, mock or live, the
  fee-bump payment that is prepared and then submitted, and the verification of a hash. The
  functions do not touch the database, so they return an error or a value.
\<close>

section \<open>Inputs and results\<close>

record payment_input =
  pi_destination :: string
  pi_amount :: js_raw
  pi_memo :: "string option"
  pi_sourceSecret :: "string option"

record payment =
  pr_mode :: string
  pr_hash :: string
  pr_ledger :: "int option"
  pr_source :: string
  pr_destination :: string
  pr_amount :: string
  pr_passphrase :: string
  pr_rpcUrl :: "string option"
  pr_finalStatus :: string

record prepared =
  pp_xdr :: string
  pp_hash :: string
  pp_source :: string
  pp_feePayer :: string
  pp_destination :: string
  pp_amount :: string

record sponsored =
  sp_mode :: string
  sp_hash :: string
  sp_ledger :: "int option"
  sp_source :: string
  sp_destination :: string
  sp_amount :: string
  sp_feePayer :: string
  sp_feeXlm :: "string option"
  sp_feeStroops :: "string option"

record verification =
  ve_confirmed :: bool
  ve_status :: string
  ve_ledger :: "int option"

text \<open>\<open>then m f\<close>: the next step of a computation that may throw.\<close>

definition bind_sum :: "js_error + 'a \<Rightarrow> ('a \<Rightarrow> js_error + 'b) \<Rightarrow> js_error + 'b" where
  "bind_sum m f = (case m of Inl e \<Rightarrow> Inl e | Inr a \<Rightarrow> f a)"

lemma bind_sum_simps [simp]: "bind_sum (Inl e) f = Inl e" "bind_sum (Inr a) f = f a"
  by (simp_all add: bind_sum_def)

lemma bind_sum_Inr: "bind_sum m f = Inr b \<longleftrightarrow> (\<exists>a. m = Inr a \<and> f a = Inr b)"
  by (cases m) auto

lemmas bind_sum_code [code] = bind_sum_simps

section \<open>Reading the configuration and the arguments\<close>

definition getStellarSettlementMode :: "sdk \<Rightarrow> string" where
  "getStellarSettlementMode sd =
    (let raw = env_word sd ''DAYFI_STELLAR_SETTLEMENT_MODE'' [] in
     if raw = ''live'' \<or> raw = ''mock'' then raw else ''mock'')"

definition rpcUrl :: "sdk \<Rightarrow> bool \<Rightarrow> string" where
  "rpcUrl sd isTestnet =
    (let fromEnv = env_first sd ''DAYFI_STELLAR_RPC_URL'' ''STELLAR_RPC_URL'' in
     if fromEnv \<noteq> [] then fromEnv
     else if isTestnet then ''https://soroban-testnet.stellar.org'' else ''https://mainnet.sorobanrpc.com'')"

definition sourceSecret :: "sdk \<Rightarrow> string option \<Rightarrow> js_error + string" where
  "sourceSecret sd override =
    (let o1 = trim (or_str override []);
         secret = (if o1 \<noteq> [] then o1 else env_first sd ''DAYFI_STELLAR_SETTLEMENT_SECRET'' ''MASTER_WALLET_SECRET_KEY'')
     in if secret = [] then Inl (StellarAdapterError ''settlement secret required for live mode'' ''MISSING_SECRET'')
        else Inr secret)"

text \<open>\<open>/^G[A-Z0-9]{55}$/\<close>\<close>

definition is_g_address :: "string \<Rightarrow> bool" where
  "is_g_address a \<longleftrightarrow> length a = 56 \<and> hd a = CHR ''G'' \<and> list_all (\<lambda>c. is_upper c \<or> is_digit c) (tl a)"

definition assertGAddress :: "string \<Rightarrow> js_error + string" where
  "assertGAddress addr =
    (let a = trim addr in
     if is_g_address a then Inr a else Inl (StellarAdapterError ''Invalid Stellar address'' ''INVALID_ADDRESS''))"

text \<open>\<open>fixed.replace(/\.?0+$/, '')\<close>: the zeros at the end, and a dot before them.\<close>

definition strip_fraction_zeros :: "string \<Rightarrow> string" where
  "strip_fraction_zeros s =
    (let r = dropWhile (\<lambda>c. c = CHR ''0'') (rev s) in
     if length r = length s then s
     else rev (if r \<noteq> [] \<and> hd r = CHR ''.'' then tl r else r))"

definition formatUsdcAmount :: "js_raw \<Rightarrow> js_error + string" where
  "formatUsdcAmount amount = (case js_Number amount of
     Fin n \<Rightarrow> if n \<le> 0 then Inl (StellarAdapterError ''Amount must be positive'' ''INVALID_AMOUNT'')
       else Inr (or_str (Some (strip_fraction_zeros (to_fixed7 (round7 n)))) (to_fixed7 n))
   | _ \<Rightarrow> Inl (StellarAdapterError ''Amount must be positive'' ''INVALID_AMOUNT''))"

definition keypair :: "sdk \<Rightarrow> string \<Rightarrow> js_error + string" where
  "keypair sd secret = (case sdk_publicKey sd secret of
     Some pk \<Rightarrow> Inr pk | None \<Rightarrow> Inl (JsError ''invalid secret seed''))"

text \<open>The first 28 characters of a memo that is not blank.\<close>

definition memo_text :: "string option \<Rightarrow> string option" where
  "memo_text memo = (let m = trim (or_str memo []) in if m = [] then None else Some (take 28 m))"

section \<open>A direct payment\<close>

definition verifyOnHorizon :: "sdk \<Rightarrow> string \<Rightarrow> js_error + verification" where
  "verifyOnHorizon sd hash = bind_sum (getStellarConfig sd) (\<lambda>cfg.
     Inr (case sdk_horizonTx sd (cfg_horizonUrl cfg) hash of
       Some t \<Rightarrow> \<lparr>ve_confirmed = ht_successful t, ve_status = (if ht_successful t then ''SUCCESS'' else ''FAILED''),
         ve_ledger = ht_ledger t\<rparr>
     | None \<Rightarrow> \<lparr>ve_confirmed = False, ve_status = ''NOT_FOUND'', ve_ledger = None\<rparr>))"

definition mock_source :: "sdk \<Rightarrow> string option \<Rightarrow> string" where
  "mock_source sd secret =
    (let placeholder = CHR ''G'' # replicate 55 CHR ''A'' in
     if or_str secret [] \<noteq> [] then
       (case keypair sd (trim (or_str secret [])) of Inr pk \<Rightarrow> pk | Inl e \<Rightarrow> placeholder)
     else if env_str (sdk_env sd) ''DAYFI_STELLAR_SETTLEMENT_SECRET'' \<noteq> [] then
       (case bind_sum (sourceSecret sd secret) (keypair sd) of Inr pk \<Rightarrow> pk | Inl e \<Rightarrow> placeholder)
     else placeholder)"

definition mockPayment :: "sdk \<Rightarrow> payment_input \<Rightarrow> js_error + payment" where
  "mockPayment sd input =
    bind_sum (getStellarConfig sd) (\<lambda>cfg.
    bind_sum (assertGAddress (pi_destination input)) (\<lambda>dest.
    bind_sum (formatUsdcAmount (pi_amount input)) (\<lambda>amount.
    let source = mock_source sd (pi_sourceSecret input);
        hash = sdk_sha256 sd (source @ '':'' @ dest @ '':'' @ amount @ '':'' @ or_str (pi_memo input) [])
    in Inr \<lparr>pr_mode = ''mock'', pr_hash = hash, pr_ledger = Some 1, pr_source = source, pr_destination = dest,
         pr_amount = amount, pr_passphrase = cfg_networkPassphrase cfg, pr_rpcUrl = None, pr_finalStatus = []\<rparr>)))"

text \<open>
  The polled status of a sent transaction: an error of the poll is \<open>None\<close> and leaves the payment
  unconfirmed, a failure on the chain is thrown.
\<close>

definition poll_result :: "sdk \<Rightarrow> string \<Rightarrow> string \<Rightarrow> string \<Rightarrow> js_error + (int option \<times> string)" where
  "poll_result sd url hash sent = (case sdk_poll sd url hash of
     None \<Rightarrow> Inr (None, ''SUBMITTED_UNCONFIRMED'')
   | Some (status, ledger) \<Rightarrow>
       let final = or_str status sent in
       if final = ''SUCCESS'' then Inr (ledger, final)
       else if final = ''FAILED'' then Inl (StellarAdapterError ''Stellar transaction failed on-chain'' ''TX_FAILED'')
       else Inr (None, final))"

definition live_tx :: "sdk \<Rightarrow> stellar_config \<Rightarrow> payment_input \<Rightarrow> string \<Rightarrow> string \<Rightarrow> string \<Rightarrow> built_tx" where
  "live_tx sd cfg input source dest amount =
    \<lparr>bt_source = source, bt_destination = dest, bt_issuer = resolveUsdcIssuer sd (cfg_isTestnet cfg),
     bt_amount = amount, bt_memo = memo_text (pi_memo input), bt_passphrase = cfg_networkPassphrase cfg\<rparr>"

definition livePayment :: "sdk \<Rightarrow> payment_input \<Rightarrow> js_error + payment" where
  "livePayment sd input =
    bind_sum (getStellarConfig sd) (\<lambda>cfg.
    let url = rpcUrl sd (cfg_isTestnet cfg) in
    bind_sum (sourceSecret sd (pi_sourceSecret input)) (\<lambda>secret.
    bind_sum (keypair sd secret) (\<lambda>source.
    bind_sum (assertGAddress (pi_destination input)) (\<lambda>dest.
    bind_sum (formatUsdcAmount (pi_amount input)) (\<lambda>amount.
    if \<not> sdk_rpcAccount sd url source
    then Inl (StellarAdapterError ''Unable to load source account via RPC'' ''ACCOUNT_LOAD_FAILED'')
    else
      let t = live_tx sd cfg input source dest amount in
      case sdk_send sd url t of
        Inl message \<Rightarrow> Inl (StellarAdapterError (''RPC sendTransaction failed: '' @ message) ''SUBMIT_FAILED'')
      | Inr reply \<Rightarrow>
          if sr_status reply = Some ''ERROR''
          then Inl (StellarAdapterError ''RPC rejected transaction'' ''SUBMIT_REJECTED'')
          else
            let hash = or_str (sr_hash reply) (sdk_txHash sd t) in
            bind_sum (poll_result sd url hash (or_str (sr_status reply) ''PENDING'')) (\<lambda>(ledger, final).
            bind_sum (if ledger = None
                then bind_sum (verifyOnHorizon sd hash) (\<lambda>h.
                  Inr (if ve_confirmed h then (ve_ledger h, ''SUCCESS'') else (ledger, final)))
                else Inr (ledger, final)) (\<lambda>(ledger, final).
            Inr \<lparr>pr_mode = ''live'', pr_hash = hash, pr_ledger = ledger, pr_source = source, pr_destination = dest,
              pr_amount = amount, pr_passphrase = cfg_networkPassphrase cfg, pr_rpcUrl = Some url,
              pr_finalStatus = final\<rparr>)))))))"

definition submitUsdcPayment :: "sdk \<Rightarrow> payment_input \<Rightarrow> js_error + payment" where
  "submitUsdcPayment sd input =
    (if getStellarSettlementMode sd = ''mock'' then mockPayment sd input else livePayment sd input)"

definition verifyUsdcPayment :: "sdk \<Rightarrow> string \<Rightarrow> js_error + verification" where
  "verifyUsdcPayment sd hash =
    (if getStellarSettlementMode sd = ''mock''
     then Inr \<lparr>ve_confirmed = True, ve_status = ''SUCCESS'', ve_ledger = Some 1\<rparr>
     else bind_sum (getStellarConfig sd) (\<lambda>cfg.
       case sdk_getTransaction sd (rpcUrl sd (cfg_isTestnet cfg)) hash of
         Some (status, ledger) \<Rightarrow> Inr \<lparr>ve_confirmed = (status = ''SUCCESS''), ve_status = status, ve_ledger = ledger\<rparr>
       | None \<Rightarrow> verifyOnHorizon sd hash))"

section \<open>The fee-bump payment\<close>

text \<open>\<open>BigInt\<close> division truncates, and \<open>%\<close> has the sign of the dividend.\<close>

definition show_int :: "int \<Rightarrow> string" where
  "show_int k = (if k < 0 then CHR ''-'' # show_nat (nat (- k)) else show_nat (nat k))"

definition stroopsToXlm :: "string option \<Rightarrow> js_error + string option" where
  "stroopsToXlm stroops = (case or_else stroops None of
     None \<Rightarrow> Inr None
   | Some t \<Rightarrow> (case js_Number (RStr t) of
       Fin x \<Rightarrow>
         let n = (if x < 0 then - \<lfloor>- x\<rfloor> else \<lfloor>x\<rfloor>);
             whole = sgn n * (\<bar>n\<bar> div 10000000);
             part = show_int (sgn n * (\<bar>n\<bar> mod 10000000));
             frac = rev (dropWhile (\<lambda>c. c = CHR ''0'') (rev (replicate (7 - length part) CHR ''0'' @ part)))
         in Inr (Some (if frac \<noteq> [] then show_int whole @ ''.'' @ frac else show_int whole))
     | _ \<Rightarrow> Inl (JsError ''Cannot convert to a BigInt'')))"

definition assertDistinctFeePayer :: "string \<Rightarrow> string \<Rightarrow> string \<Rightarrow> js_error + unit" where
  "assertDistinctFeePayer alicePk feePayerPk dest =
    (if alicePk = feePayerPk then Inl (StellarAdapterError ''Fee payer cannot be the USDC source'' ''FEE_PAYER_IS_SOURCE'')
     else if dest = alicePk then Inl (StellarAdapterError ''Cannot send to the source account'' ''SELF_TRANSFER'')
     else Inr ())"

record sponsored_input =
  si_destination :: string
  si_amount :: js_raw
  si_memo :: "string option"
  si_sourceSecret :: string
  si_feePayerSecret :: string

definition mockSponsoredPayment :: "sdk \<Rightarrow> sponsored_input \<Rightarrow> js_error + sponsored" where
  "mockSponsoredPayment sd input =
    bind_sum (keypair sd (trim (si_sourceSecret input))) (\<lambda>alice.
    bind_sum (keypair sd (trim (si_feePayerSecret input))) (\<lambda>feePayer.
    if alice = feePayer
    then Inl (StellarAdapterError ''Fee payer cannot be the USDC source'' ''FEE_PAYER_IS_SOURCE'')
    else
    bind_sum (assertGAddress (si_destination input)) (\<lambda>dest.
    if dest = alice then Inl (StellarAdapterError ''Cannot send to the source account'' ''SELF_TRANSFER'')
    else
    bind_sum (formatUsdcAmount (si_amount input)) (\<lambda>amount.
    let hash = sdk_sha256 sd (''feebump:'' @ alice @ '':'' @ dest @ '':'' @ amount @ '':'' @ or_str (si_memo input) []
          @ '':'' @ feePayer)
    in bind_sum (getStellarConfig sd) (\<lambda>cfg.
       Inr \<lparr>sp_mode = ''mock'', sp_hash = hash, sp_ledger = Some 1, sp_source = alice, sp_destination = dest,
        sp_amount = amount, sp_feePayer = feePayer, sp_feeXlm = Some ''0.00001'', sp_feeStroops = Some ''100''\<rparr>)))))"

definition prepareSponsoredUsdcPayment :: "sdk \<Rightarrow> sponsored_input \<Rightarrow> js_error + prepared" where
  "prepareSponsoredUsdcPayment sd input =
    bind_sum (keypair sd (trim (si_sourceSecret input))) (\<lambda>alice.
    bind_sum (keypair sd (trim (si_feePayerSecret input))) (\<lambda>feePayer.
    bind_sum (assertGAddress (si_destination input)) (\<lambda>dest.
    bind_sum (assertDistinctFeePayer alice feePayer dest) (\<lambda>_.
    bind_sum (formatUsdcAmount (si_amount input)) (\<lambda>amount.
    if getStellarSettlementMode sd = ''mock'' then
      bind_sum (mockSponsoredPayment sd input) (\<lambda>preview.
      Inr \<lparr>pp_xdr = ''mock-feebump:'' @ sp_hash preview, pp_hash = sp_hash preview, pp_source = sp_source preview,
        pp_feePayer = sp_feePayer preview, pp_destination = dest, pp_amount = amount\<rparr>)
    else
      bind_sum (getStellarConfig sd) (\<lambda>cfg.
      if \<not> cfg_isTestnet cfg
      then Inl (StellarAdapterError ''Sponsored org-to-org USDC is Testnet-only in E-ONCHAIN'' ''MAINNET_BLOCKED'')
      else case sdk_loadAccount sd (cfg_horizonUrl cfg) alice of
        None \<Rightarrow> Inl (StellarAdapterError ''Unable to load Alice account'' ''ACCOUNT_LOAD_FAILED'')
      | Some _ \<Rightarrow>
          let inner = \<lparr>bt_source = alice, bt_destination = dest, bt_issuer = resolveUsdcIssuer sd True,
                bt_amount = amount, bt_memo = memo_text (si_memo input), bt_passphrase = cfg_networkPassphrase cfg\<rparr>;
              (xdr, hash) = sdk_feeBump sd inner (trim (si_feePayerSecret input))
          in Inr \<lparr>pp_xdr = xdr, pp_hash = hash, pp_source = alice, pp_feePayer = feePayer, pp_destination = dest,
               pp_amount = amount\<rparr>))))))"

definition loadHorizonFeeCharged :: "sdk \<Rightarrow> string \<Rightarrow> js_error + (string option \<times> string option)" where
  "loadHorizonFeeCharged sd hash = bind_sum (getStellarConfig sd) (\<lambda>cfg.
     Inr (case sdk_horizonTx sd (cfg_horizonUrl cfg) hash of
       Some t \<Rightarrow> (ht_fee_charged t, or_else (ht_fee_account t) None)
     | None \<Rightarrow> (None, None)))"

definition sponsored_result ::
  "prepared \<Rightarrow> string \<Rightarrow> string \<Rightarrow> int option \<Rightarrow> string option \<Rightarrow> string option \<Rightarrow> sponsored" where
  "sponsored_result p mode hash ledger feeXlm feeStroops =
    \<lparr>sp_mode = mode, sp_hash = hash, sp_ledger = ledger, sp_source = pp_source p,
     sp_destination = pp_destination p, sp_amount = pp_amount p, sp_feePayer = pp_feePayer p,
     sp_feeXlm = feeXlm, sp_feeStroops = feeStroops\<rparr>"

definition submitPreparedSponsoredPayment :: "sdk \<Rightarrow> prepared \<Rightarrow> js_error + sponsored" where
  "submitPreparedSponsoredPayment sd p =
    (if env_str (sdk_env sd) ''DAYFI_INFRA_ONCHAIN_FORCE_FAIL'' = ''1''
     then Inl (StellarAdapterError ''Forced Stellar submit failure'' ''SUBMIT_FAILED'')
     else if getStellarSettlementMode sd = ''mock''
     then bind_sum (getStellarConfig sd) (\<lambda>cfg.
       Inr (sponsored_result p ''mock'' (pp_hash p) (Some 1) (Some ''0.00001'') (Some ''100'')))
     else
       bind_sum (getStellarConfig sd) (\<lambda>cfg.
       bind_sum (case sdk_submitXdr sd (cfg_horizonUrl cfg) (cfg_networkPassphrase cfg) (pp_xdr p) of
           Inl (codes, message) \<Rightarrow>
             if \<not> (str_includes codes ''tx_duplicate'' \<or> str_includes (to_lower message) ''duplicate'')
             then Inl (StellarAdapterError (take 500 (''Fee-bump submit failed: '' @ codes)) ''SUBMIT_FAILED'')
             else Inr \<lparr>su_hash = Some (pp_hash p), su_ledger = None, su_fee_charged = None\<rparr>
         | Inr reply \<Rightarrow> Inr reply) (\<lambda>result.
       let hash = or_str (su_hash result) (pp_hash p) in
       bind_sum (case or_else (su_fee_charged result) None of
           Some stroops \<Rightarrow> Inr (Some stroops, None)
         | None \<Rightarrow> loadHorizonFeeCharged sd hash) (\<lambda>(feeCharged, feeAccount).
       if feeAccount \<noteq> None \<and> feeAccount \<noteq> Some (pp_feePayer p)
       then Inl (StellarAdapterError ''Confirmed fee account is not the Dayfi fee-payer'' ''FEE_PAYER_MISMATCH'')
       else bind_sum (stroopsToXlm feeCharged) (\<lambda>feeXlm.
         Inr (sponsored_result p ''live'' hash (su_ledger result) feeXlm feeCharged))))))"

definition submitSponsoredUsdcPayment :: "sdk \<Rightarrow> sponsored_input \<Rightarrow> js_error + sponsored" where
  "submitSponsoredUsdcPayment sd input =
    bind_sum (prepareSponsoredUsdcPayment sd input) (submitPreparedSponsoredPayment sd)"

section \<open>The amount on the chain is the amount of the ledger\<close>

lemma strip_fraction:
  assumes f: "\<forall>c \<in> set f. is_digit c" and "f \<noteq> []"
  shows "strip_fraction_zeros (w @ ''.'' @ f) = w @ (if strip_zeros f \<noteq> [] then ''.'' @ strip_zeros f else [])"
proof -
  let ?z = "\<lambda>c. c = CHR ''0''"
  have r: "rev (w @ ''.'' @ f) = rev f @ CHR ''.'' # rev w" by simp
  show ?thesis
  proof (cases "strip_zeros f = []")
    case True
    then have "\<forall>c \<in> set (rev f). ?z c" by (auto simp: strip_zeros_def)
    then have "dropWhile ?z (rev f @ CHR ''.'' # rev w) = dropWhile ?z (CHR ''.'' # rev w)"
      by (intro dropWhile_append2) blast
    then have "dropWhile ?z (rev f @ CHR ''.'' # rev w) = CHR ''.'' # rev w" by simp
    with True \<open>f \<noteq> []\<close> show ?thesis by (simp add: strip_fraction_zeros_def Let_def)
  next
    case False
    then have ne: "dropWhile ?z (rev f) \<noteq> []" by (simp add: strip_zeros_def)
    then obtain x where "x \<in> set (rev f)" "\<not> ?z x" by (auto simp: dropWhile_eq_Nil_conv)
    then have d: "dropWhile ?z (rev f @ CHR ''.'' # rev w) = dropWhile ?z (rev f) @ CHR ''.'' # rev w"
      by (rule dropWhile_append1)
    have "hd (dropWhile ?z (rev f)) \<in> set (rev f)" using ne by (meson hd_in_set set_dropWhileD)
    then have "hd (dropWhile ?z (rev f)) \<noteq> CHR ''.''" using f by (auto simp: is_digit_def)
    moreover have "f = strip_zeros f" if "length (dropWhile ?z (rev f)) = length f"
      using that strip_zeros_split [of f] by (metis append_eq_append_conv append.right_neutral length_rev strip_zeros_def)
    ultimately show ?thesis using ne False unfolding strip_fraction_zeros_def Let_def r d
      by (auto simp: strip_zeros_def)
  qed
qed

lemma pad7_nonempty [simp]: "pad7 n \<noteq> []"
  by (simp add: pad7_def Let_def)

lemma formatUsdcAmount_formatUsdc:
  assumes "0 < k" and "k < 10000000000000000000000000000"
  shows "formatUsdcAmount (RNum (Fin (of_int k / 10000000))) = Inr (formatUsdc k)"
proof -
  have pos: "0 < (of_int k / 10000000 :: rat)" using assms(1) by simp
  have bound: "(of_int k / 10000000 :: rat) < 1000000000000000000000"
  proof -
    have "(of_int k :: rat) < of_int 10000000000000000000000000000" using assms(2) by (simp only: of_int_less_iff)
    then show ?thesis by (simp add: field_simps)
  qed
  have round: "math_round (\<bar>of_int k / 10000000 :: rat\<bar> * 10000000) = k" using assms(1) by simp
  have "to_fixed7 (round7 (of_int k / 10000000)) =
      show_nat (nat k div 10000000) @ ''.'' @ pad7 (nat k mod 10000000)"
    using pos bound round assms(1) by (simp add: to_fixed7_def Let_def)
  then have "strip_fraction_zeros (to_fixed7 (round7 (of_int k / 10000000))) = formatUsdc k"
    using strip_fraction [OF pad7_digits [of "nat k mod 10000000"], of "show_nat (nat k div 10000000)"] assms(1)
    by (simp add: formatUsdc_def formatMinor_def USDC_SCALE_def Let_def nat_div_distrib nat_mod_distrib)
  moreover have "formatUsdc k \<noteq> []" by (simp add: formatUsdc_parts)
  ultimately show ?thesis using pos by (simp add: formatUsdcAmount_def)
qed

end
