(* ===== verification/Stellar_Account.thy ===== *)
theory Stellar_Account
  imports Stellar_Adapter Ledger_Frame
begin

text \<open>
  \<open>src/src/modules/infra/infraStellarCustody.ts\<close> and \<open>infraStellarAccountService.ts\<close>: the vault that
  keeps the encrypted secrets, and the provisioning of one Stellar account per organisation,
  environment, network and asset. AES-256-GCM is \<open>sdk_cipher\<close> and \<open>sdk_decipher\<close>. The process-local
  map of running provisions is not modelled: one call runs at a time.
\<close>

section \<open>Custody\<close>

definition DEV_ENCRYPTION_KEY_HEX :: string where
  "DEV_ENCRYPTION_KEY_HEX = replicate 64 CHR ''b''"

definition getEncryptionKey :: "sdk \<Rightarrow> js_error + string" where
  "getEncryptionKey sd =
    (let keyHex = trim (or_str (or_else (sdk_env sd ''DAYFI_INFRA_STELLAR_CUSTODY_KEY'')
           (or_else (sdk_env sd ''WALLET_ENCRYPTION_KEY'') None)) []);
         node_env = to_lower (or_str (or_else (sdk_env sd ''DAYFI_NODE_ENV'')
           (or_else (sdk_env sd ''NODE_ENV'') None)) []);
         effective = (if length keyHex = 64 \<and> list_all (\<lambda>c. radix_val c < 16) keyHex then keyHex
           else if node_env = ''production'' then [] else DEV_ENCRYPTION_KEY_HEX)
     in if effective = [] then Inl (StellarCustodyError ''MISSING_CUSTODY_KEY'' 500) else Inr effective)"

text \<open>\<open>[ivHex, tagHex, enc] = text.split(':')\<close>: what follows a third colon is dropped.\<close>

fun split_on :: "char \<Rightarrow> string \<Rightarrow> string list" where
  "split_on d [] = [[]]"
| "split_on d (c # s) = (if c = d then [] # split_on d s
     else (case split_on d s of [] \<Rightarrow> [[c]] | w # ws \<Rightarrow> (c # w) # ws))"

definition encryptSecret :: "sdk \<Rightarrow> nat \<Rightarrow> string \<Rightarrow> js_error + string" where
  "encryptSecret sd seed plain = bind_sum (getEncryptionKey sd) (\<lambda>key.
     case sdk_cipher sd key seed plain of (iv, tag, enc) \<Rightarrow> Inr (iv @ '':'' @ tag @ '':'' @ enc))"

definition decryptSecret :: "sdk \<Rightarrow> string \<Rightarrow> js_error + string" where
  "decryptSecret sd encText = bind_sum (getEncryptionKey sd) (\<lambda>key.
     case split_on (CHR '':'') encText of
       iv # tag # enc # rest \<Rightarrow>
         if iv = [] \<or> tag = [] \<or> enc = [] then Inl (StellarCustodyError ''INVALID_CIPHER'' 500)
         else (case sdk_decipher sd key iv tag enc of
             Some plain \<Rightarrow> Inr plain | None \<Rightarrow> Inl (JsError ''Unsupported state or unable to authenticate data''))
     | _ \<Rightarrow> Inl (StellarCustodyError ''INVALID_CIPHER'' 500))"

text \<open>The random key pair and the random initialisation vector come from the state's supply.\<close>

definition draw :: "(db, nat) act" where
  "draw s = (Inr (uuid_next s), s\<lparr>uuid_next := Suc (uuid_next s)\<rparr>)"

definition createKeypairAndStore :: "sdk \<Rightarrow> (db, string \<times> string) act" where
  "createKeypairAndStore sd =
    abnd draw (\<lambda>n.
    let secret = sdk_random sd n in
    abnd (aof_sum (keypair sd secret)) (\<lambda>publicKey.
    abnd draw (\<lambda>seed.
    abnd (aof_sum (encryptSecret sd seed secret)) (\<lambda>secretEncrypted.
    abnd (run_tx (bnd new_uuid (\<lambda>i. insert_custody \<lparr>c_id = i, c_secret = secretEncrypted\<rparr>))) (\<lambda>row.
    aret (c_id row, publicKey))))))"

definition getSigningSecret :: "sdk \<Rightarrow> string \<Rightarrow> (db, string) act" where
  "getSigningSecret sd custodyRef =
    abnd (aquery (\<lambda>s. find_row c_id custodyRef (st_custody s))) (\<lambda>row. case row of
      None \<Rightarrow> athrow (StellarCustodyError ''CUSTODY_NOT_FOUND'' 404)
    | Some c \<Rightarrow> aof_sum (decryptSecret sd (c_secret c)))"

definition getPublicKey :: "sdk \<Rightarrow> string \<Rightarrow> (db, string) act" where
  "getPublicKey sd custodyRef =
    abnd (getSigningSecret sd custodyRef) (\<lambda>secret. aof_sum (keypair sd secret))"

section \<open>Reading accounts\<close>

definition getInfraStellarProvisionMode :: "sdk \<Rightarrow> string" where
  "getInfraStellarProvisionMode sd =
    (let raw = env_word sd ''DAYFI_INFRA_STELLAR_PROVISION_MODE'' [] in
     if raw = ''live'' \<or> raw = ''mock'' then raw else ''mock'')"

record account_view =
  av_id :: string
  av_orgId :: string
  av_environment :: infra_env
  av_publicKey :: string
  av_network :: string
  av_asset :: string
  av_usdcIssuer :: "string option"
  av_status :: string
  av_failureReason :: "string option"
  av_refPresent :: bool

definition mapPublic :: "stellar_account \<Rightarrow> account_view" where
  "mapPublic row = \<lparr>av_id = a_id row, av_orgId = a_org row, av_environment = a_env row,
     av_publicKey = a_public row, av_network = a_network row, av_asset = a_asset row,
     av_usdcIssuer = a_issuer row, av_status = a_status row, av_failureReason = a_failure row,
     av_refPresent = (a_custody row \<noteq> [])\<rparr>"

definition network_name :: "stellar_config \<Rightarrow> string" where
  "network_name cfg = (if cfg_isTestnet cfg then ''testnet'' else ''mainnet'')"

definition loadAccount :: "string \<Rightarrow> infra_env \<Rightarrow> string \<Rightarrow> string \<Rightarrow> (db, stellar_account option) act" where
  "loadAccount orgId env network asset =
    aquery (\<lambda>s. find_row account_slot (orgId, env, network, asset) (st_accounts s))"

definition getOrgStellarAccount :: "sdk \<Rightarrow> string \<Rightarrow> string \<Rightarrow> (db, account_view option) act" where
  "getOrgStellarAccount sd orgId environment =
    abnd (aof_sum (getStellarConfig sd)) (\<lambda>cfg.
    abnd (loadAccount orgId (normalizeEnv environment) (network_name cfg) ''USDC'') (\<lambda>row.
    aret (map_option mapPublic row)))"

definition findOrgStellarAccountByPublicKey :: "string \<Rightarrow> (db, account_view option) act" where
  "findOrgStellarAccountByPublicKey publicKey =
    (let pk = trim publicKey in
     if \<not> is_g_address pk then aret None
     else abnd (aquery (\<lambda>s. find_row a_public pk (st_accounts s))) (\<lambda>row. aret (map_option mapPublic row)))"

definition listActiveOrgStellarAccounts :: "sdk \<Rightarrow> string option \<Rightarrow> string option \<Rightarrow> (db, account_view list) act" where
  "listActiveOrgStellarAccounts sd environment networkName =
    abnd (aof_sum (getStellarConfig sd)) (\<lambda>cfg.
    let network = or_str networkName (network_name cfg);
        env = map_option normalizeEnv (or_else environment None) in
    aquery (\<lambda>s. map mapPublic (filter (\<lambda>a. a_status a = ''active'' \<and> a_network a = network
      \<and> (case env of None \<Rightarrow> True | Some e \<Rightarrow> a_env a = e) \<and> a_asset a = ''USDC'') (st_accounts s))))"

section \<open>Provisioning\<close>

text \<open>\<open>COALESCE($3, failure_reason)\<close>: a null reason keeps the one that is stored.\<close>

definition patchStatus :: "string \<Rightarrow> string \<Rightarrow> string option \<Rightarrow> jmap \<Rightarrow> (db, stellar_account) act" where
  "patchStatus i status failureReason metadata =
    run_tx (update_account i (\<lambda>a. a\<lparr>a_status := status,
      a_failure := (case failureReason of Some r \<Rightarrow> Some r | None \<Rightarrow> a_failure a),
      a_metadata := a_metadata a ++ metadata\<rparr>))"

definition fundWithFriendbot :: "sdk \<Rightarrow> string \<Rightarrow> js_error + unit" where
  "fundWithFriendbot sd publicKey = bind_sum (getStellarConfig sd) (\<lambda>cfg.
     case cfg_friendbotUrl cfg of
       None \<Rightarrow> Inl (InfraStellarAccountError ''FRIENDBOT_UNAVAILABLE'' 400)
     | Some url \<Rightarrow>
         if \<not> cfg_isTestnet cfg then Inl (InfraStellarAccountError ''FRIENDBOT_UNAVAILABLE'' 400)
         else if sdk_friendbot sd url publicKey then Inr ()
         else if sdk_loadAccount sd (cfg_horizonUrl cfg) publicKey \<noteq> None then Inr ()
         else Inl (InfraStellarAccountError ''XLM_FUND_FAILED'' 502))"

definition ensureUsdcTrustline :: "sdk \<Rightarrow> string \<Rightarrow> string \<Rightarrow> string \<Rightarrow> js_error + unit" where
  "ensureUsdcTrustline sd publicKey secret issuer = bind_sum (getStellarConfig sd) (\<lambda>cfg.
     case sdk_loadAccount sd (cfg_horizonUrl cfg) publicKey of
       None \<Rightarrow> Inl (JsError ''Not Found'')
     | Some hbs \<Rightarrow>
         if list_ex (\<lambda>b. hb_code b = Some ''USDC'' \<and> hb_issuer b = Some issuer) hbs then Inr ()
         else bind_sum (keypair sd secret) (\<lambda>_.
           if sdk_changeTrust sd publicKey secret issuer then Inr ()
           else Inl (InfraStellarAccountError ''TRUSTLINE_FAILED'' 502)))"

definition runLiveProvision :: "sdk \<Rightarrow> stellar_account \<Rightarrow> (db, stellar_account) act" where
  "runLiveProvision sd row =
    abnd (aof_sum (getStellarConfig sd)) (\<lambda>cfg.
    abnd (arequire (cfg_isTestnet cfg) (InfraStellarAccountError ''MAINNET_PROVISION_BLOCKED'' 400)) (\<lambda>_.
    abnd (getSigningSecret sd (a_custody row)) (\<lambda>secret.
    let issuer = resolveUsdcIssuer sd True in
    abnd (aof_sum (fundWithFriendbot sd (a_public row))) (\<lambda>_.
    abnd (patchStatus (a_id row) ''xlm_ready'' None
      [''provisionMode'' \<mapsto> JStr ''live'', ''xlmSource'' \<mapsto> JStr ''friendbot'']) (\<lambda>next1.
    abnd (aof_sum (ensureUsdcTrustline sd (a_public row) secret issuer)) (\<lambda>_.
    abnd (patchStatus (a_id next1) ''trustline_ready'' None [''usdcIssuer'' \<mapsto> JStr issuer]) (\<lambda>next2.
    patchStatus (a_id next2) ''active'' None Map.empty)))))))"

definition runMockProvision :: "sdk \<Rightarrow> stellar_account \<Rightarrow> (db, stellar_account) act" where
  "runMockProvision sd row =
    abnd (aof_sum (getStellarConfig sd)) (\<lambda>cfg.
    let issuer = resolveUsdcIssuer sd (cfg_isTestnet cfg) in
    abnd (patchStatus (a_id row) ''xlm_ready'' None
      [''provisionMode'' \<mapsto> JStr ''mock'', ''xlmSource'' \<mapsto> JStr ''mock'']) (\<lambda>next1.
    abnd (patchStatus (a_id next1) ''trustline_ready'' None
      [''usdcIssuer'' \<mapsto> JStr issuer, ''trustline'' \<mapsto> JStr ''mock'']) (\<lambda>next2.
    patchStatus (a_id next2) ''active'' None Map.empty)))"

text \<open>
  The message of an error, as it is stored in a failure reason: the adapter's errors carry theirs,
  the other classes stand for it with their code.
\<close>

fun message_of :: "js_error \<Rightarrow> string" where
  "message_of (StellarAdapterError m c) = m"
| "message_of (JsError m) = m"
| "message_of (InfraLedgerError c n) = c"
| "message_of (InfraMoneyError c n) = c"
| "message_of (InfraFeeError c n) = c"
| "message_of (InfraTransferError c n) = c"
| "message_of (InfraLifecycleError c n) = c"
| "message_of (InfraStellarFundingError c n) = c"
| "message_of (InfraFiatWithdrawalError c n) = c"
| "message_of (InfraStellarAccountError c n) = c"
| "message_of (StellarCustodyError c n) = c"
| "message_of (InfraFeePayerError c n) = c"
| "message_of (InfraSettlementError c n) = c"
| "message_of (InfraRecipientError c n) = c"
| "message_of (InfraStellarDepositError c n) = c"
| "message_of (InfraTreasuryError c n) = c"
| "message_of (InfraBulkError c n) = c"
| "message_of (InfraReconciliationError c n) = c"
| "message_of (InfraRailError n i) = ''rail''"
| "message_of (InfraIdempotencyError i) = ''Idempotency-Key reused with different parameters''"
| "message_of (InfraBillError c n i) = c"
| "message_of (YellowCardAuthError n) = ''webhook''"
| "message_of UniqueViolation = ''23505''"
| "message_of CheckViolation = ''23514''"
| "message_of NumericOverflow = ''22003''"
| "message_of ForeignKeyViolation = ''23503''"
| "message_of NoData = ''No data returned''"

definition new_account :: "string \<Rightarrow> infra_env \<Rightarrow> string \<Rightarrow> string \<Rightarrow> string \<Rightarrow> string \<Rightarrow> string \<Rightarrow> string \<Rightarrow> stellar_account" where
  "new_account i env orgId publicKey network issuer custodyRef mode =
    \<lparr>a_id = i, a_org = orgId, a_env = env, a_public = publicKey, a_network = network, a_asset = ''USDC'',
     a_issuer = Some issuer, a_status = ''provisioning'', a_custody = custodyRef, a_failure = None,
     a_metadata = [''provisionMode'' \<mapsto> JStr mode]\<rparr>"

text \<open>The row of the organisation, created when there is none; a lost race reads the winner's row.\<close>

definition ensureAccountRow :: "sdk \<Rightarrow> stellar_config \<Rightarrow> string \<Rightarrow> infra_env \<Rightarrow> string \<Rightarrow> (db, stellar_account) act" where
  "ensureAccountRow sd cfg orgId env mode =
    abnd (loadAccount orgId env (network_name cfg) ''USDC'') (\<lambda>found. case found of
      Some row \<Rightarrow> aret row
    | None \<Rightarrow>
        abnd (createKeypairAndStore sd) (\<lambda>(custodyRef, publicKey).
        acatch
          (run_tx (bnd new_uuid (\<lambda>i. insert_account (new_account i env orgId publicKey (network_name cfg)
             (resolveUsdcIssuer sd (cfg_isTestnet cfg)) custodyRef mode))))
          (\<lambda>err. if isUniqueViolation err then
             abnd (loadAccount orgId env (network_name cfg) ''USDC'') (\<lambda>again. case again of
               Some row \<Rightarrow> aret row | None \<Rightarrow> athrow err)
           else athrow err)))"

definition is_account_error :: "js_error \<Rightarrow> bool" where
  "is_account_error e = (case e of InfraStellarAccountError c n \<Rightarrow> True | StellarCustodyError c n \<Rightarrow> True | _ \<Rightarrow> False)"

definition finishProvision :: "sdk \<Rightarrow> string \<Rightarrow> stellar_account \<Rightarrow> (db, account_view) act" where
  "finishProvision sd mode row =
    acatch
      (abnd (if mode = ''live'' then runLiveProvision sd row else runMockProvision sd row) (\<lambda>finished.
       aret (mapPublic finished)))
      (\<lambda>err. abnd (patchStatus (a_id row) ''failed'' (Some (take 1000 (message_of err))) Map.empty) (\<lambda>_.
         if is_account_error err then athrow err
         else athrow (InfraStellarAccountError ''PROVISION_FAILED'' 502)))"

definition provisionOrgStellarAccount :: "sdk \<Rightarrow> string \<Rightarrow> string \<Rightarrow> string option \<Rightarrow> (db, account_view) act" where
  "provisionOrgStellarAccount sd orgId environment modeOverride =
    abnd (aof_sum (getStellarConfig sd)) (\<lambda>cfg.
    let mode = or_str modeOverride (getInfraStellarProvisionMode sd) in
    abnd (ensureAccountRow sd cfg orgId (normalizeEnv environment) mode) (\<lambda>row.
    if a_status row = ''active'' then aret (mapPublic row)
    else finishProvision sd mode row))"

record signing =
  sg_publicKey :: string
  sg_secret :: string
  sg_accountId :: string

definition getOrgStellarSigningSecret :: "sdk \<Rightarrow> string \<Rightarrow> string \<Rightarrow> (db, signing) act" where
  "getOrgStellarSigningSecret sd orgId environment =
    abnd (getOrgStellarAccount sd orgId environment) (\<lambda>account. case account of
      None \<Rightarrow> athrow (InfraStellarAccountError ''WALLET_NOT_ACTIVE'' 409)
    | Some a \<Rightarrow>
        if av_status a \<noteq> ''active'' then athrow (InfraStellarAccountError ''WALLET_NOT_ACTIVE'' 409)
        else
          abnd (loadAccount orgId (normalizeEnv environment) (av_network a) ''USDC'') (\<lambda>found. case found of
            None \<Rightarrow> athrow (InfraStellarAccountError ''NOT_FOUND'' 404)
          | Some row \<Rightarrow>
              abnd (getSigningSecret sd (a_custody row)) (\<lambda>secret.
              aret \<lparr>sg_publicKey = a_public row, sg_secret = secret, sg_accountId = a_id row\<rparr>)))"

section \<open>The ledger does not notice\<close>

lemma keeps_draw [keeps_intros, simp]: "keeps draw"
  by (auto simp: keeps_def draw_def unchanged_def ledger_same_def)

lemma keeps_account_statements [keeps_intros, simp]:
  "keeps (run_tx (update_account i f))" "keeps (run_tx (bnd new_uuid (\<lambda>i. insert_account (g i))))"
  "keeps (run_tx (bnd new_uuid (\<lambda>i. insert_custody (h i))))"
  by (auto simp: keeps_def run_tx_def unchanged_def ledger_same_def tx_simps split: sum.splits)

lemma keeps_prod [keeps_intros]: "(\<And>x y. keeps (b x y)) \<Longrightarrow> keeps (case p of (x, y) \<Rightarrow> b x y)"
  by (cases p) simp

lemma keeps_getOrgStellarAccount [keeps_intros, simp]: "keeps (getOrgStellarAccount sd i e)"
  unfolding getOrgStellarAccount_def loadAccount_def by (intro keeps_intros)

lemma keeps_createKeypair [keeps_intros, simp]: "keeps (createKeypairAndStore sd)"
  unfolding createKeypairAndStore_def Let_def by (intro keeps_intros)

lemma keeps_getSigningSecret [keeps_intros, simp]: "keeps (getSigningSecret sd c)"
  unfolding getSigningSecret_def by (intro keeps_intros)

lemma keeps_patchStatus [keeps_intros, simp]: "keeps (patchStatus i st r m)"
  unfolding patchStatus_def by (intro keeps_intros)

lemma keeps_provision [keeps_intros, simp]: "keeps (provisionOrgStellarAccount sd i e m)"
  unfolding provisionOrgStellarAccount_def ensureAccountRow_def finishProvision_def runLiveProvision_def
    runMockProvision_def loadAccount_def Let_def
  by (intro keeps_intros)

lemma keeps_getOrgStellarSigningSecret [keeps_intros, simp]: "keeps (getOrgStellarSigningSecret sd i e)"
  unfolding getOrgStellarSigningSecret_def loadAccount_def by (intro keeps_intros)

section \<open>The vault returns what was stored\<close>

lemma split_on_plain: "d \<notin> set w \<Longrightarrow> split_on d (w @ d # s) = w # split_on d s"
  by (induction w) auto

lemma split_on_end: "d \<notin> set w \<Longrightarrow> split_on d w = [w]"
  by (induction w) auto

text \<open>Hexadecimal text has no colon; authenticated decryption returns the plain text.\<close>

definition good_cipher :: "sdk \<Rightarrow> bool" where
  "good_cipher sd \<longleftrightarrow> (\<forall>key seed plain. case sdk_cipher sd key seed plain of (iv, tag, enc) \<Rightarrow>
     iv \<noteq> [] \<and> tag \<noteq> [] \<and> (plain \<noteq> [] \<longrightarrow> enc \<noteq> []) \<and> CHR '':'' \<notin> set iv \<and> CHR '':'' \<notin> set tag \<and> CHR '':'' \<notin> set enc
       \<and> sdk_decipher sd key iv tag enc = Some plain)"

lemma decrypt_encrypt:
  assumes "good_cipher sd" and "plain \<noteq> []" and "encryptSecret sd seed plain = Inr ct"
  shows "decryptSecret sd ct = Inr plain"
proof -
  obtain key where k: "getEncryptionKey sd = Inr key"
    using assms(3) by (auto simp: encryptSecret_def bind_sum_Inr)
  obtain iv tag enc where c: "sdk_cipher sd key seed plain = (iv, tag, enc)"
    by (cases "sdk_cipher sd key seed plain") auto
  have ct: "ct = iv @ '':'' @ tag @ '':'' @ enc"
    using assms(3) by (simp add: encryptSecret_def k c)
  have "iv \<noteq> []" "tag \<noteq> []" "enc \<noteq> []" "CHR '':'' \<notin> set iv" "CHR '':'' \<notin> set tag" "CHR '':'' \<notin> set enc"
    "sdk_decipher sd key iv tag enc = Some plain"
    using assms(1) [unfolded good_cipher_def, rule_format, where key = key and seed = seed and plain = plain] assms(2) by (simp_all add: c)
  then show ?thesis by (simp add: decryptSecret_def k ct split_on_plain split_on_end)
qed

lemma custody_roundtrip:
  assumes "good_cipher sd" and "\<forall>n. sdk_random sd n \<noteq> []"
    and run: "createKeypairAndStore sd s = (Inr (custodyRef, publicKey), s')"
  shows "\<exists>secret. getSigningSecret sd custodyRef s' = (Inr secret, s') \<and> keypair sd secret = Inr publicKey"
proof -
  let ?secret = "sdk_random sd (uuid_next s)"
  obtain ct where pk: "keypair sd ?secret = Inr publicKey"
    and enc: "encryptSecret sd (Suc (uuid_next s)) ?secret = Inr ct"
    and s': "st_custody s' = \<lparr>c_id = custodyRef, c_secret = ct\<rparr> # st_custody s"
    using run by (auto simp: createKeypairAndStore_def act_simps tx_simps draw_def Let_def)
  have "decryptSecret sd ct = Inr ?secret"
    by (rule decrypt_encrypt [OF assms(1) _ enc]) (use assms(2) in blast)
  then show ?thesis using pk by (simp add: getSigningSecret_def s')
qed

section \<open>Provisioning ends in the active state\<close>

lemma patchStatus_Inr:
  "patchStatus i st r m s = (Inr a, s') \<Longrightarrow> a_status a = st \<and> a_id a = i \<and>
     (\<exists>a0. find_row a_id i (st_accounts s) = Some a0 \<and> a_public a = a_public a0 \<and> account_slot a = account_slot a0
        \<and> a_custody a = a_custody a0 \<and> (r = None \<longrightarrow> a_failure a = a_failure a0)) \<and> find_row a_id i (st_accounts s') = Some a"
  by (auto simp: patchStatus_def act_simps tx_simps account_slot_def find_row_update_rows dest: find_row_Some)

lemma run_provision_active:
  assumes "(if live then runLiveProvision sd row else runMockProvision sd row) s = (Inr a, s')"
  shows "a_status a = ''active''"
  using assms by (auto simp: runLiveProvision_def runMockProvision_def act_simps Let_def split: if_splits
    dest: patchStatus_Inr)

lemma provision_active:
  assumes "provisionOrgStellarAccount sd orgId e m s = (Inr v, s')"
  shows "av_status v = ''active''"
proof -
  from assms obtain row s1 mode where run: "(if a_status row = ''active'' then aret (mapPublic row)
      else finishProvision sd mode row) s1 = (Inr v, s')"
    unfolding provisionOrgStellarAccount_def Let_def by (elim abndE) blast
  show ?thesis
  proof (cases "a_status row = ''active''")
    case True
    with run show ?thesis by (auto simp: mapPublic_def)
  next
    case False
    with run have "finishProvision sd mode row s1 = (Inr v, s')" by simp
    then obtain a where "(if mode = ''live'' then runLiveProvision sd row else runMockProvision sd row) s1 = (Inr a, s')"
      "v = mapPublic a"
      by (auto simp: finishProvision_def acatch_def act_simps split: prod.splits sum.splits if_splits)
    then show ?thesis using run_provision_active [of "mode = ''live''"] by (simp add: mapPublic_def)
  qed
qed

end
