(* ===== verification/Funding.thy ===== *)
theory Funding
  imports Stellar_Account
begin

text \<open>
  \<open>src/src/modules/infra/infraStellarFundingService.ts\<close>: after a collection is credited as pending,
  the treasury pays the same USDC amount to the organisation's Stellar wallet, and the confirmation
  of that payment releases the pending amount. Every statement commits by itself.
\<close>

section \<open>Mode and treasury\<close>

definition getInfraStellarFundingMode :: "sdk \<Rightarrow> string" where
  "getInfraStellarFundingMode sd =
    (let raw = env_word sd ''DAYFI_INFRA_STELLAR_FUNDING_MODE'' ''off'' in
     if raw = ''mock'' \<or> raw = ''live'' \<or> raw = ''off'' then raw else ''off'')"

definition treasurySecret :: "sdk \<Rightarrow> string option" where
  "treasurySecret sd = or_else (Some (env_first sd ''DAYFI_STELLAR_SETTLEMENT_SECRET'' ''MASTER_WALLET_SECRET_KEY'')) None"

definition treasuryPublicKey :: "sdk \<Rightarrow> string option" where
  "treasuryPublicKey sd =
    (let settlementSecret = env_trim sd ''DAYFI_STELLAR_SETTLEMENT_SECRET'';
         fromEnv = env_trim sd ''MASTER_WALLET_PUBLIC_KEY''
     in if settlementSecret \<noteq> [] then sdk_publicKey sd settlementSecret
        else if fromEnv \<noteq> [] then Some fromEnv
        else case treasurySecret sd of None \<Rightarrow> None | Some secret \<Rightarrow> sdk_publicKey sd secret)"

definition getDayfiTreasuryPublicKey :: "sdk \<Rightarrow> string option" where
  "getDayfiTreasuryPublicKey sd = treasuryPublicKey sd"

record observation =
  ob_publicKey :: string
  ob_network :: string
  ob_isTestnet :: bool
  ob_usdcIssuer :: string
  ob_usdc :: rat
  ob_xlm :: rat
  ob_observedAt :: string

definition finite_or_0 :: "js_num \<Rightarrow> rat" where
  "finite_or_0 n = (case n of Fin x \<Rightarrow> x | _ \<Rightarrow> 0)"

text \<open>The sequence number of the account is not kept.\<close>

definition observeDayfiTreasuryOnChain :: "sdk \<Rightarrow> js_error + observation option" where
  "observeDayfiTreasuryOnChain sd =
    bind_sum (getStellarConfig sd) (\<lambda>cfg.
    case treasuryPublicKey sd of
      None \<Rightarrow> Inr None
    | Some pk \<Rightarrow>
        let issuer = resolveUsdcIssuer sd (cfg_isTestnet cfg);
            network = (if cfg_isTestnet cfg then ''testnet'' else ''public'');
            obs = (\<lambda>usdc xlm. \<lparr>ob_publicKey = pk, ob_network = network, ob_isTestnet = cfg_isTestnet cfg,
              ob_usdcIssuer = issuer, ob_usdc = finite_or_0 usdc, ob_xlm = finite_or_0 xlm, ob_observedAt = sdk_now sd\<rparr>)
        in if getStellarSettlementMode sd = ''mock'' then
             Inr (Some (obs (js_Number_string (or_str (sdk_env sd ''DAYFI_TREASURY_MOCK_USDC'') ''0''))
               (js_Number_string (or_str (sdk_env sd ''DAYFI_TREASURY_MOCK_XLM'') ''100''))))
           else (case sdk_loadAccount sd (cfg_horizonUrl cfg) pk of
               None \<Rightarrow> Inr None
             | Some hbs \<Rightarrow>
                 let usdcRow = find (\<lambda>b. hb_code b = Some ''USDC'' \<and> hb_issuer b = Some issuer) hbs;
                     native = find (\<lambda>b. hb_type b = Some ''native'') hbs
                 in Inr (Some (obs (parse_float (or_str (map_option hb_balance usdcRow) ''0''))
                      (parse_float (or_str (map_option hb_balance native) ''0''))))))"

definition treasuryUsdcBalance :: "sdk \<Rightarrow> js_error + rat option" where
  "treasuryUsdcBalance sd = map_sum id (map_option ob_usdc) (observeDayfiTreasuryOnChain sd)"

section \<open>Statements\<close>

record funding_view =
  fv_id :: string
  fv_orgId :: string
  fv_collection :: "string option"
  fv_rail :: string
  fv_asset :: string
  fv_amount :: rat
  fv_source :: "string option"
  fv_destination :: "string option"
  fv_status :: string
  fv_external :: "string option"
  fv_key :: string
  fv_metadata :: jmap
  fv_failure :: "string option"

definition mapFundingSettlement :: "settlement \<Rightarrow> funding_view" where
  "mapFundingSettlement row = \<lparr>fv_id = s_id row, fv_orgId = s_org row, fv_collection = s_collection_tx row,
     fv_rail = s_rail row, fv_asset = s_asset row, fv_amount = s_amount row, fv_source = s_source row,
     fv_destination = s_destination row, fv_status = s_status row, fv_external = s_external row,
     fv_key = s_key row, fv_metadata = s_metadata row, fv_failure = s_failure row\<rparr>"

definition sql_txn :: "string \<Rightarrow> (txn \<Rightarrow> txn) \<Rightarrow> (db, unit) act" where
  "sql_txn i f = run_tx (update_txn i f)"

definition sql_settlement :: "string \<Rightarrow> (settlement \<Rightarrow> settlement) \<Rightarrow> (db, unit) act" where
  "sql_settlement i f = run_tx (update_settlements (\<lambda>st. s_id st = i) f)"

definition one_settlement :: "string \<Rightarrow> (db, settlement) act" where
  "one_settlement i = run_tx (bnd (query (\<lambda>s. find_row s_id i (settlements s))) the_row)"

definition settlement_by_key :: "string \<Rightarrow> string \<Rightarrow> (db, settlement option) act" where
  "settlement_by_key orgId key = aquery (\<lambda>s. find_row (\<lambda>st. (s_org st, s_key st)) (orgId, key) (settlements s))"

definition insert_settlement_row :: "(string \<Rightarrow> settlement) \<Rightarrow> (db, settlement) act" where
  "insert_settlement_row row = run_tx (bnd new_uuid (\<lambda>i. insert_settlement (row i)))"

definition opt_json :: "string option \<Rightarrow> json" where
  "opt_json x = (case x of Some t \<Rightarrow> JStr t | None \<Rightarrow> JNull)"

definition patchCollectionFundingMeta :: "string \<Rightarrow> (string \<times> json) list \<Rightarrow> (db, unit) act" where
  "patchCollectionFundingMeta collectionId patch =
    sql_txn collectionId (\<lambda>t. t\<lparr>t_metadata := (t_metadata t)(''walletFunding'' \<mapsto> JObj patch)\<rparr>)"

section \<open>Confirmation\<close>

definition confirm_settlement :: "sdk \<Rightarrow> string option \<Rightarrow> int option \<Rightarrow> settlement \<Rightarrow> settlement" where
  "confirm_settlement sd hash ledger st =
    st\<lparr>s_status := ''confirmed'',
       s_external := (case hash of Some h \<Rightarrow> Some h | None \<Rightarrow> s_external st),
       s_provider := (case hash of Some h \<Rightarrow> Some h | None \<Rightarrow> s_provider st),
       s_metadata := s_metadata st ++ [''purpose'' \<mapsto> JStr ''collection_wallet_funding'',
         ''confirmedAt'' \<mapsto> JStr (sdk_now sd),
         ''confirmedLedgerSequence'' \<mapsto> (case ledger of Some k \<Rightarrow> JNum (of_int k) | None \<Rightarrow> JNull)],
       s_failure := None\<rparr>"

definition available_params :: "settlement \<Rightarrow> string \<Rightarrow> string option \<Rightarrow> ledger_params" where
  "available_params st collectionId hash =
    \<lparr>p_orgId = s_org st, p_environment = env_name (s_env st), p_amount = RNum (Fin (s_amount st)), p_asset = None,
     p_idempotencyKey = Some (''collection:'' @ collectionId @ '':available''),
     p_movementType = Some ''collection_credit'', p_reference = Some collectionId,
     p_referenceType = Some ''collection'', p_referenceId = Some collectionId,
     p_metadata = Some [''stellarTransactionHash'' \<mapsto> opt_json hash, ''settlementId'' \<mapsto> JStr (s_id st),
       ''ledgerPhase'' \<mapsto> JStr ''available'']\<rparr>"

definition confirmed_meta :: "sdk \<Rightarrow> settlement \<Rightarrow> string option \<Rightarrow> (string \<times> json) list" where
  "confirmed_meta sd st hash =
    [(''mode'', JStr (getInfraStellarFundingMode sd)), (''status'', JStr ''confirmed''),
     (''settlementId'', JStr (s_id st)), (''stellarTransactionHash'', opt_json hash),
     (''sourceAccount'', opt_json (or_else (s_source st) (treasuryPublicKey sd))),
     (''destinationAccount'', opt_json (s_destination st)), (''amount'', JNum (s_amount st)),
     (''asset'', JStr ''USDC''), (''confirmedAt'', JStr (sdk_now sd))]"

definition settled_txn :: "sdk \<Rightarrow> string option \<Rightarrow> txn \<Rightarrow> txn" where
  "settled_txn sd hash t = t\<lparr>t_status := ''settled'',
     t_metadata := t_metadata t ++ [''settledAt'' \<mapsto> JStr (sdk_now sd), ''ledgerPhase'' \<mapsto> JStr ''available'',
       ''stellarTransactionHash'' \<mapsto> opt_json hash]\<rparr>"

definition confirmCollectionFunding :: "sdk \<Rightarrow> settlement \<Rightarrow> string option \<Rightarrow> int option \<Rightarrow> (db, funding_view) act" where
  "confirmCollectionFunding sd settlement optHash ledger =
    (let hash = or_else optHash (s_external settlement);
         collectionId = (case s_collection_tx settlement of Some i \<Rightarrow> i | None \<Rightarrow> ''null'')
     in
     abnd (sql_settlement (s_id settlement) (confirm_settlement sd hash ledger)) (\<lambda>_.
     abnd (one_settlement (s_id settlement)) (\<lambda>updated.
     abnd (patchCollectionFundingMeta collectionId (confirmed_meta sd settlement hash)) (\<lambda>_.
     abnd (releasePendingToAvailable (available_params settlement collectionId hash)) (\<lambda>_.
     abnd (sql_txn collectionId (settled_txn sd hash)) (\<lambda>_.
     aret (mapFundingSettlement updated)))))))"

section \<open>Funding a wallet\<close>

record funding_result =
  cf_status :: string
  cf_skipped :: bool
  cf_reason :: "string option"
  cf_settlement :: "funding_view option"
  cf_hash :: "string option"
  cf_destination :: "string option"

record fund_input =
  fu_orgId :: string
  fu_environment :: string
  fu_collection :: string
  fu_usdcAmount :: rat

definition fundingKey :: "string \<Rightarrow> string" where
  "fundingKey collectionId = ''stellar:funding:collection:'' @ collectionId"

definition funding_row ::
  "sdk \<Rightarrow> fund_input \<Rightarrow> rat \<Rightarrow> string \<Rightarrow> string \<Rightarrow> string option \<Rightarrow> jmap \<Rightarrow> string \<Rightarrow> settlement" where
  "funding_row sd input amount destination status failure extra i =
    \<lparr>s_id = i, s_org = fu_orgId input, s_env = normalizeEnv (fu_environment input), s_payout_tx = None,
     s_collection_tx = Some (fu_collection input), s_rail = ''STELLAR'', s_asset = ''USDC'',
     s_amount = numeric7 amount, s_source = None, s_destination = Some destination, s_status = status,
     s_external = None, s_provider = None,
     s_metadata = [''purpose'' \<mapsto> JStr ''collection_wallet_funding'',
       ''adapterMode'' \<mapsto> JStr (getStellarSettlementMode sd),
       ''fundingMode'' \<mapsto> JStr (getInfraStellarFundingMode sd)] ++ extra,
     s_failure = failure, s_key = fundingKey (fu_collection input)\<rparr>"

text \<open>The organisation's wallet, provisioned when it is not active.\<close>

definition fundingWallet :: "sdk \<Rightarrow> fund_input \<Rightarrow> string \<Rightarrow> (db, account_view) act" where
  "fundingWallet sd input mode =
    (let env = env_name (normalizeEnv (fu_environment input)) in
     abnd (acatch
       (abnd (getOrgStellarAccount sd (fu_orgId input) env) (\<lambda>found. case found of
          Some a \<Rightarrow> if av_status a = ''active'' then aret a
            else provisionOrgStellarAccount sd (fu_orgId input) env (Some (if mode = ''live'' then ''live'' else ''mock''))
        | None \<Rightarrow> provisionOrgStellarAccount sd (fu_orgId input) env (Some (if mode = ''live'' then ''live'' else ''mock''))))
       (\<lambda>err. athrow (InfraStellarFundingError ''WALLET_PROVISION_FAILED'' 502))) (\<lambda>orgWallet.
     if av_status orgWallet \<noteq> ''active'' then athrow (InfraStellarFundingError ''WALLET_NOT_ACTIVE'' 409)
     else aret orgWallet))"

text \<open>The live mode's checks: \<open>None\<close> when the treasury can pay, else the reason it cannot.\<close>

definition liquidityCheck :: "sdk \<Rightarrow> string \<Rightarrow> rat \<Rightarrow> js_error + string option" where
  "liquidityCheck sd mode amount =
    (if mode \<noteq> ''live'' then Inr None
     else bind_sum (getStellarConfig sd) (\<lambda>cfg.
       if \<not> cfg_isTestnet cfg then Inl (InfraStellarFundingError ''MAINNET_BLOCKED'' 400)
       else if treasurySecret sd = None then Inl (InfraStellarFundingError ''MISSING_TREASURY_SECRET'' 500)
       else bind_sum (treasuryUsdcBalance sd) (\<lambda>found. case found of
           None \<Rightarrow> Inl (InfraStellarFundingError ''TREASURY_BALANCE_UNKNOWN'' 502)
         | Some balance \<Rightarrow>
             if balance + 1 / 10000000 < amount
             then Inr (Some (''Treasury USDC ('' @ formatUsdc (math_round (balance * 10000000)) @ '') insufficient for ''
               @ formatUsdc (math_round (amount * 10000000))))
             else Inr None)))"

definition awaitTreasury ::
  "sdk \<Rightarrow> fund_input \<Rightarrow> rat \<Rightarrow> string \<Rightarrow> settlement option \<Rightarrow> string \<Rightarrow> (db, funding_result) act" where
  "awaitTreasury sd input amount destination existing reason =
    abnd (case existing of
        None \<Rightarrow> insert_settlement_row (funding_row sd input amount destination ''pending_treasury'' (Some reason) Map.empty)
      | Some st \<Rightarrow>
          abnd (sql_settlement (s_id st) (\<lambda>st. st\<lparr>s_status := ''pending_treasury'', s_failure := Some reason\<rparr>)) (\<lambda>_.
          one_settlement (s_id st))) (\<lambda>settlement.
    abnd (patchCollectionFundingMeta (fu_collection input)
      [(''mode'', JStr (getInfraStellarFundingMode sd)), (''status'', JStr ''pending_treasury''),
       (''settlementId'', JStr (s_id settlement)), (''reason'', opt_json (s_failure settlement))]) (\<lambda>_.
    aret \<lparr>cf_status = ''pending_treasury'', cf_skipped = False, cf_reason = or_else (s_failure settlement) None,
      cf_settlement = Some (mapFundingSettlement settlement), cf_hash = None, cf_destination = Some destination\<rparr>))"

definition submitted_settlement :: "payment \<Rightarrow> settlement \<Rightarrow> settlement" where
  "submitted_settlement p st =
    st\<lparr>s_status := ''submitted'', s_source := Some (pr_source p), s_destination := Some (pr_destination p),
       s_external := Some (pr_hash p), s_provider := Some (pr_hash p),
       s_metadata := (s_metadata st)(''stellar'' \<mapsto> JObj [(''transactionHash'', JStr (pr_hash p)),
         (''ledgerSequence'', case pr_ledger p of Some k \<Rightarrow> JNum (of_int k) | None \<Rightarrow> JNull),
         (''mode'', JStr (pr_mode p)), (''amount'', JStr (pr_amount p))])\<rparr>"

definition should_confirm :: "payment \<Rightarrow> bool" where
  "should_confirm p \<longleftrightarrow> pr_mode p = ''mock'' \<or> pr_ledger p \<noteq> None
     \<or> str_includes (to_upper (pr_finalStatus p)) ''SUCCESS''"

definition confirmedResult :: "funding_view \<Rightarrow> string \<Rightarrow> string \<Rightarrow> funding_result" where
  "confirmedResult view hash destination =
    \<lparr>cf_status = ''confirmed'', cf_skipped = False, cf_reason = None, cf_settlement = Some view,
     cf_hash = Some hash, cf_destination = Some destination\<rparr>"

text \<open>After the payment was sent: record it, then confirm it or leave it submitted.\<close>

definition afterSubmit :: "sdk \<Rightarrow> fund_input \<Rightarrow> string \<Rightarrow> string \<Rightarrow> payment \<Rightarrow> (db, funding_result) act" where
  "afterSubmit sd input destination settlementId p =
    abnd (sql_settlement settlementId (submitted_settlement p)) (\<lambda>_.
    abnd (one_settlement settlementId) (\<lambda>settlement.
    if should_confirm p then
      abnd (confirmCollectionFunding sd settlement (Some (pr_hash p)) (pr_ledger p)) (\<lambda>view.
      aret (confirmedResult view (pr_hash p) destination))
    else
      abnd (aof_sum (verifyUsdcPayment sd (pr_hash p))) (\<lambda>verified.
      if ve_confirmed verified then
        abnd (confirmCollectionFunding sd settlement (Some (pr_hash p)) (ve_ledger verified)) (\<lambda>view.
        aret (confirmedResult view (pr_hash p) destination))
      else
        abnd (patchCollectionFundingMeta (fu_collection input)
          [(''mode'', JStr (getInfraStellarFundingMode sd)), (''status'', JStr ''submitted''),
           (''settlementId'', JStr settlementId), (''stellarTransactionHash'', JStr (pr_hash p))]) (\<lambda>_.
        aret \<lparr>cf_status = ''submitted'', cf_skipped = False, cf_reason = None,
          cf_settlement = Some (mapFundingSettlement settlement), cf_hash = Some (pr_hash p),
          cf_destination = Some destination\<rparr>))))"

definition fundingMemo :: "string \<Rightarrow> string" where
  "fundingMemo collectionId = ''fund:'' @ take 20 (filter (\<lambda>c. c \<noteq> CHR ''-'') collectionId)"

definition sendFunding :: "sdk \<Rightarrow> fund_input \<Rightarrow> rat \<Rightarrow> string \<Rightarrow> string \<Rightarrow> (db, funding_result) act" where
  "sendFunding sd input amount destination settlementId =
    (case submitUsdcPayment sd \<lparr>pi_destination = destination, pi_amount = RNum (Fin amount),
        pi_memo = Some (fundingMemo (fu_collection input)), pi_sourceSecret = None\<rparr> of
       Inr p \<Rightarrow> afterSubmit sd input destination settlementId p
     | Inl err \<Rightarrow>
         abnd (sql_settlement settlementId (\<lambda>st. st\<lparr>s_status := ''failed'', s_failure := Some (message_of err)\<rparr>)) (\<lambda>_.
         abnd (patchCollectionFundingMeta (fu_collection input)
           [(''mode'', JStr (getInfraStellarFundingMode sd)), (''status'', JStr ''failed''),
            (''settlementId'', JStr settlementId), (''failureReason'', JStr (message_of err))]) (\<lambda>_.
         athrow (InfraStellarFundingError ''STELLAR_FUNDING_FAILED'' 502))))"

definition payFunding ::
  "sdk \<Rightarrow> fund_input \<Rightarrow> rat \<Rightarrow> settlement option \<Rightarrow> string \<Rightarrow> (db, funding_result) act" where
  "payFunding sd input amount existing mode =
    abnd (fundingWallet sd input mode) (\<lambda>orgWallet.
    let destination = av_publicKey orgWallet in
    abnd (patchCollectionFundingMeta (fu_collection input)
      [(''mode'', JStr mode), (''status'', JStr ''pending''), (''destinationPublicKey'', JStr destination),
       (''usdcAmount'', JNum amount), (''startedAt'', JStr (sdk_now sd))]) (\<lambda>_.
    abnd (aof_sum (liquidityCheck sd mode amount)) (\<lambda>short. case short of
      Some reason \<Rightarrow> awaitTreasury sd input amount destination existing reason
    | None \<Rightarrow>
        abnd (case existing of
            Some st \<Rightarrow> aret st
          | None \<Rightarrow> insert_settlement_row (funding_row sd input amount destination ''pending'' None
              [''stellarAccountId'' \<mapsto> JStr (av_id orgWallet)])) (\<lambda>settlement.
        sendFunding sd input amount destination (s_id settlement)))))"

definition fundCollectionStellarWallet :: "sdk \<Rightarrow> fund_input \<Rightarrow> (db, funding_result) act" where
  "fundCollectionStellarWallet sd input =
    (let mode = getInfraStellarFundingMode sd; amount = round7 (fu_usdcAmount input) in
     if mode = ''off'' then aret \<lparr>cf_status = ''skipped'', cf_skipped = True, cf_reason = Some ''funding_mode_off'',
       cf_settlement = None, cf_hash = None, cf_destination = None\<rparr>
     else if amount \<le> 0 then athrow (InfraStellarFundingError ''INVALID_AMOUNT'' 400)
     else
       abnd (settlement_by_key (fu_orgId input) (fundingKey (fu_collection input))) (\<lambda>existing. case existing of
         None \<Rightarrow> payFunding sd input amount None mode
       | Some st \<Rightarrow>
           if s_status st = ''confirmed'' \<and> or_else (s_external st) None \<noteq> None then
             aret \<lparr>cf_status = ''confirmed'', cf_skipped = False, cf_reason = None,
               cf_settlement = Some (mapFundingSettlement st), cf_hash = s_external st,
               cf_destination = or_else (s_destination st) None\<rparr>
           else if s_status st = ''pending_treasury'' then
             aret \<lparr>cf_status = ''pending_treasury'', cf_skipped = False,
               cf_reason = Some (or_str (s_failure st) ''treasury_liquidity''),
               cf_settlement = Some (mapFundingSettlement st), cf_hash = None, cf_destination = None\<rparr>
           else payFunding sd input amount (Some st) mode))"

definition getCollectionFundingSettlement :: "string \<Rightarrow> string \<Rightarrow> (db, funding_view option) act" where
  "getCollectionFundingSettlement orgId collectionId =
    abnd (aquery (\<lambda>s. find_row (\<lambda>st. (s_org st, s_collection_tx st)) (orgId, Some collectionId) (settlements s)))
      (\<lambda>row. aret (map_option mapFundingSettlement row))"

end
