(* ===== verification/Fx.thy ===== *)
theory Fx
  imports Database
begin

text \<open>
  \<open>src/src/modules/payment/fxService.ts\<close>: conversion at the rates of \<open>exchange_rates\<close>, directly or
  through the USD hub, and the platform's default rates.
\<close>

section \<open>Rounding to cents\<close>

text \<open>\<open>Number(x.toFixed(n))\<close>: from \<open>10^21\<close> on, \<open>toFixed\<close> prints the number itself.\<close>

definition fixed :: "nat \<Rightarrow> rat \<Rightarrow> rat" where
  "fixed n x = (if 1000000000000000000000 \<le> \<bar>x\<bar> then x
     else (let r = of_int (math_round (\<bar>x\<bar> * 10 ^ n)) / 10 ^ n in if x < 0 then - r else r))"

definition PRIMARY_CURRENCY :: string where
  "PRIMARY_CURRENCY = ''USD''"

section \<open>Conversion\<close>

definition select_rate :: "string \<Rightarrow> string \<Rightarrow> (db, rat option) act" where
  "select_rate base target = aquery (\<lambda>s. map_option r_rate (find_row fx_pair (base, target) (fx_rates s)))"

definition currency_code :: "string \<Rightarrow> string" where
  "currency_code c = to_upper (trim c)"

definition checked_amount :: "js_num \<Rightarrow> (db, rat) act" where
  "checked_amount amount = (case amount of
     Fin x \<Rightarrow> if x < 0 then athrow (JsError ''Invalid inflow amount'') else aret x
   | _ \<Rightarrow> athrow (JsError ''Invalid inflow amount''))"

text \<open>
  A \<open>NUMERIC\<close> rate is read back as text, so \<open>!row?.rate\<close> only holds when there is no row.
\<close>

definition convertAmountToUsd :: "js_num \<Rightarrow> string \<Rightarrow> (db, rat \<times> rat option) act" where
  "convertAmountToUsd amount fromCurrency =
    (let src = currency_code fromCurrency in
     abnd (checked_amount amount) (\<lambda>normalized.
     if src = PRIMARY_CURRENCY then aret (normalized, Some 1)
     else if normalized = 0 then aret (0, None)
     else abnd (select_rate src PRIMARY_CURRENCY) (\<lambda>row. case row of
       None \<Rightarrow> athrow (JsError ''No exchange rate configured'')
     | Some rate \<Rightarrow> aret (fixed 2 (normalized * rate), Some rate))))"

definition fetchDirectRate :: "string \<Rightarrow> string \<Rightarrow> (db, rat option) act" where
  "fetchDirectRate base target = abnd (select_rate base target) (\<lambda>row. aret (case row of
     None \<Rightarrow> None | Some rate \<Rightarrow> if 0 < rate then Some rate else None))"

definition resolveExchangeRate :: "string \<Rightarrow> string \<Rightarrow> (db, rat) act" where
  "resolveExchangeRate fromCurrency toCurrency =
    (let src = currency_code fromCurrency; dst = currency_code toCurrency in
     if src = dst then aret 1
     else abnd (fetchDirectRate src dst) (\<lambda>direct. case direct of Some r \<Rightarrow> aret r | None \<Rightarrow>
       abnd (if src = PRIMARY_CURRENCY then fetchDirectRate PRIMARY_CURRENCY dst else aret None) (\<lambda>usdTo.
       case usdTo of Some r \<Rightarrow> aret r | None \<Rightarrow>
       abnd (if dst = PRIMARY_CURRENCY then fetchDirectRate src PRIMARY_CURRENCY else aret None) (\<lambda>fromUsd.
       case fromUsd of Some r \<Rightarrow> aret r | None \<Rightarrow>
       abnd (fetchDirectRate src PRIMARY_CURRENCY) (\<lambda>fromUsd.
       abnd (fetchDirectRate PRIMARY_CURRENCY dst) (\<lambda>usdTo.
       case (fromUsd, usdTo) of
         (Some a, Some b) \<Rightarrow> aret (fixed 8 (a * b))
       | _ \<Rightarrow> athrow (JsError ''No exchange rate'')))))))"

definition convertAmountBetween :: "js_num \<Rightarrow> string \<Rightarrow> string \<Rightarrow> (db, rat \<times> rat option) act" where
  "convertAmountBetween amount fromCurrency toCurrency =
    (let src = currency_code fromCurrency; dst = currency_code toCurrency in
     abnd (checked_amount amount) (\<lambda>normalized.
     if src = dst then aret (normalized, Some 1)
     else if normalized = 0 then aret (0, None)
     else abnd (resolveExchangeRate src dst) (\<lambda>rate. aret (fixed 2 (normalized * rate), Some rate))))"

definition platform_rates :: "(string \<times> string \<times> rat) list" where
  "platform_rates = [(''NGN'', ''USD'', 65 / 100000), (''GBP'', ''USD'', 127 / 100), (''EUR'', ''USD'', 11625 / 10000),
     (''USD'', ''NGN'', 1540), (''USD'', ''GBP'', 79 / 100), (''USD'', ''EUR'', 860215 / 1000000)]"

fun insert_rates :: "(string \<times> string \<times> rat) list \<Rightarrow> (db, unit) act" where
  "insert_rates [] = aret ()"
| "insert_rates ((base, target, rate) # pairs) =
     abnd (run_tx (insert_rate_on_conflict
       \<lparr>r_base = base, r_target = target, r_rate = rate, r_source = ''platform_default''\<rparr>)) (\<lambda>_. insert_rates pairs)"

definition ensurePlatformExchangeRates :: "(db, unit) act" where
  "ensurePlatformExchangeRates = insert_rates platform_rates"

record money_wallet =
  mw_currency :: string
  mw_balance :: js_num

fun sum_wallets :: "money_wallet list \<Rightarrow> rat \<Rightarrow> (db, rat) act" where
  "sum_wallets [] acc = aret acc"
| "sum_wallets (w # ws) acc =
    (case mw_balance w of
       Fin bal \<Rightarrow>
         if bal = 0 then sum_wallets ws acc
         else if to_upper (mw_currency w) = PRIMARY_CURRENCY then sum_wallets ws (acc + bal)
         else abnd (convertAmountToUsd (Fin bal) (to_upper (mw_currency w))) (\<lambda>(usd, _). sum_wallets ws (acc + usd))
     | _ \<Rightarrow> sum_wallets ws acc)"

definition sumBalancesToUsd :: "money_wallet list \<Rightarrow> (db, rat) act" where
  "sumBalancesToUsd ws = abnd (sum_wallets ws 0) (\<lambda>acc. aret (fixed 2 acc))"

section \<open>Rates as a partial function\<close>

text \<open>The usable rates of a database, and the rate the resolution is to find.\<close>

definition direct_rate :: "db \<Rightarrow> string \<Rightarrow> string \<Rightarrow> rat option" where
  "direct_rate s base target =
    (case find_row fx_pair (base, target) (fx_rates s) of None \<Rightarrow> None
     | Some r \<Rightarrow> if 0 < r_rate r then Some (r_rate r) else None)"

definition spec_rate :: "db \<Rightarrow> string \<Rightarrow> string \<Rightarrow> rat option" where
  "spec_rate s src dst =
    (if src = dst then Some 1
     else case direct_rate s src dst of Some r \<Rightarrow> Some r
       | None \<Rightarrow> (case (direct_rate s src ''USD'', direct_rate s ''USD'' dst) of
           (Some a, Some b) \<Rightarrow> Some (fixed 8 (a * b)) | _ \<Rightarrow> None))"

lemma fetchDirectRate_run [simp]: "fetchDirectRate base target s = (Inr (direct_rate s base target), s)"
  by (simp add: fetchDirectRate_def select_rate_def direct_rate_def abnd_def split: option.splits)

lemma resolve_spec:
  "resolveExchangeRate f t s =
    (case spec_rate s (currency_code f) (currency_code t) of
       Some r \<Rightarrow> Inr r | None \<Rightarrow> Inl (JsError ''No exchange rate''), s)"
  by (auto simp: resolveExchangeRate_def spec_rate_def PRIMARY_CURRENCY_def Let_def abnd_def split: option.splits)

lemma fixed_nonneg: "0 \<le> x \<Longrightarrow> 0 \<le> fixed n x"
  by (auto simp: fixed_def Let_def math_round_def intro!: divide_nonneg_nonneg)

lemma direct_rate_pos: "direct_rate s a b = Some r \<Longrightarrow> 0 < r"
  by (auto simp: direct_rate_def split: option.splits if_splits)

lemma insert_rates_Inr: "\<exists>s'. insert_rates ps s = (Inr (), s')"
  by (induction ps arbitrary: s) (auto simp: abnd_def run_tx_def insert_rate_on_conflict_def)

text \<open>An insertion never changes a pair that is present, and every pair of the list is present after it.\<close>

lemma insert_rate_find:
  "find_row fx_pair p (fx_rates (snd (run_tx (insert_rate_on_conflict r) s))) =
    (if p = fx_pair r \<and> find_row fx_pair p (fx_rates s) = None then Some r else find_row fx_pair p (fx_rates s))"
  by (auto simp: run_tx_def insert_rate_on_conflict_def find_row_None)

lemma insert_rates_Cons:
  assumes "insert_rates ((b, t, x) # ps) s = (Inr (), s')"
  obtains s1 where "insert_rates ps s1 = (Inr (), s')"
    and "\<And>p. find_row fx_pair p (fx_rates s1) =
      (if p = (b, t) \<and> find_row fx_pair p (fx_rates s) = None
       then Some \<lparr>r_base = b, r_target = t, r_rate = x, r_source = ''platform_default''\<rparr>
       else find_row fx_pair p (fx_rates s))"
proof -
  let ?r = "\<lparr>r_base = b, r_target = t, r_rate = x, r_source = ''platform_default''\<rparr>"
  define s1 where "s1 = snd (run_tx (insert_rate_on_conflict ?r) s)"
  have "run_tx (insert_rate_on_conflict ?r) s = (Inr (), s1)"
    by (simp add: s1_def run_tx_def insert_rate_on_conflict_def)
  with assms have "insert_rates ps s1 = (Inr (), s')" by simp
  with that insert_rate_find [of _ ?r s, folded s1_def] show thesis by (simp add: fx_pair_def)
qed

lemma insert_rates_keep:
  "insert_rates ps s = (Inr (), s') \<Longrightarrow> find_row fx_pair p (fx_rates s) = Some r \<Longrightarrow>
     find_row fx_pair p (fx_rates s') = Some r"
proof (induction ps arbitrary: s)
  case (Cons q ps)
  obtain b t x where q: "q = (b, t, x)" by (cases q) auto
  from Cons.prems(1) show ?case unfolding q
    by (rule insert_rates_Cons) (use Cons.IH Cons.prems(2) in auto)
qed simp

lemma insert_rates_present:
  "insert_rates ps s = (Inr (), s') \<Longrightarrow> (b, t, x) \<in> set ps \<Longrightarrow> find_row fx_pair (b, t) (fx_rates s') \<noteq> None"
proof (induction ps arbitrary: s)
  case (Cons q ps)
  obtain b' t' x' where q: "q = (b', t', x')" by (cases q) auto
  from Cons.prems(1) obtain s1 where rest: "insert_rates ps s1 = (Inr (), s')"
    and found: "find_row fx_pair (b', t') (fx_rates s1) \<noteq> None"
    unfolding q by (rule insert_rates_Cons) auto
  show ?case
  proof (cases "(b, t, x) = q")
    case True
    with found insert_rates_keep [OF rest] show ?thesis by (auto simp: q)
  next
    case False
    with Cons.prems(2) Cons.IH [OF rest] show ?thesis by auto
  qed
qed simp

end
