(* ===== verification/Webhook.thy ===== *)
theory Webhook
  imports Database
begin

text \<open>
  \<open>src/src/modules/payment/yellowCardStatus.ts\<close> and \<open>yellowCardWebhook.ts\<close>: the provider's status
  texts mapped to the three statuses of a payment, the status of a webhook, and the check of its
  signature. Node's HMAC-SHA256 in base64 is the parameter \<open>hmac\<close>, of the secret and the body.
\<close>

section \<open>Provider status\<close>

definition contains_any :: "string \<Rightarrow> string list \<Rightarrow> bool" where
  "contains_any s ps \<longleftrightarrow> list_ex (str_includes s) ps"

text \<open>The argument is \<open>String(status ?? '')\<close>.\<close>

definition mapYellowCardProviderStatus :: "string \<Rightarrow> string" where
  "mapYellowCardProviderStatus status =
    (let s = replace_char (CHR ''_'') (CHR ''-'') (to_lower (trim status)) in
     if s = [] then ''pending-payment''
     else if s = ''complete'' \<or> s = ''completed'' \<or> contains_any s [''settlement-complete'', ''settlement_complete'']
     then ''success-payment''
     else if contains_any s [''fail'', ''reject'', ''cancel'', ''declin'', ''expired'', ''refund-failed'']
     then ''failed-payment''
     else if contains_any s [''complete'', ''success'', ''settled''] \<or> s = ''paid''
     then ''success-payment''
     else if contains_any s [''pending'', ''processing'', ''process'', ''queued'', ''submitted'', ''progress'',
         ''approval'', ''liquidity''] \<or> s = ''created''
     then ''pending-payment''
     else ''pending-payment'')"

text \<open>
  \<open>??\<close> skips a missing field and \<open>null\<close>; \<open>String(x)\<close> of what is left. A number is printed in
  decimals: no branch of the mapping looks at digits.
\<close>

definition nullish :: "json option \<Rightarrow> json option \<Rightarrow> json option" where
  "nullish a b = (case a of None \<Rightarrow> b | Some JNull \<Rightarrow> b | Some v \<Rightarrow> a)"

fun js_String :: "json \<Rightarrow> string" where
  "js_String JNull = ''null''"
| "js_String (JBool b) = (if b then ''true'' else ''false'')"
| "js_String (JNum x) = to_fixed7 x"
| "js_String (JStr s) = s"
| "js_String (JArr js) = (case js of [] \<Rightarrow> [] | j # rest \<Rightarrow> (if j = JNull then [] else js_String j)
     @ concat (map (\<lambda>k. CHR '','' # (if k = JNull then [] else js_String k)) rest))"
| "js_String (JObj kvs) = ''[object Object]''"

text \<open>\<open>String(a || b || ... || d)\<close> on JSON values\<close>

definition first_text :: "json option list \<Rightarrow> string \<Rightarrow> string" where
  "first_text vs d = (case find json_truthy vs of Some (Some v) \<Rightarrow> js_String v | _ \<Rightarrow> d)"

definition object_field :: "json option \<Rightarrow> string \<Rightarrow> json option" where
  "object_field j k = (case j of Some (JObj kvs) \<Rightarrow> map_of kvs k | _ \<Rightarrow> None)"

definition resolveYellowCardPaymentStatus :: "json option \<Rightarrow> string" where
  "resolveYellowCardPaymentStatus payment =
    (case payment of
       Some (JObj p) \<Rightarrow>
         let nested = (case map_of p ''payment'' of Some (JObj n) \<Rightarrow> map_of n | _ \<Rightarrow> Map.empty);
             status = nullish (map_of p ''status'') (nullish (map_of p ''state'') (nullish (map_of p ''paymentStatus'')
               (nullish (nested ''status'') (nested ''state''))))
         in mapYellowCardProviderStatus (case nullish status None of None \<Rightarrow> [] | Some v \<Rightarrow> js_String v)
     | _ \<Rightarrow> ''pending-payment'')"

section \<open>Webhooks\<close>

record yc_payload =
  yc_id :: "string option"
  yc_sequenceId :: "string option"
  yc_status :: "string option"
  yc_event :: "string option"

definition resolveYellowCardWebhookSecret :: "process_env \<Rightarrow> string option \<Rightarrow> string" where
  "resolveYellowCardWebhookSecret penv configured =
    trim (or_str (or_else configured (or_else (penv ''DAYFI_YELLOWCARD_API_SECRET'')
      (or_else (penv ''YELLOWCARD_API_SECRET'') None))) [])"

text \<open>\<open>Buffer.from(text)\<close> of the header and of the base64 text; \<open>timingSafeEqual\<close> is equality.\<close>

definition verifyYellowCardWebhookSignature ::
  "(string \<Rightarrow> string \<Rightarrow> string) \<Rightarrow> string \<Rightarrow> string option \<Rightarrow> string \<Rightarrow> bool" where
  "verifyYellowCardWebhookSignature hmac rawBody signatureHeader secretText =
    (let secret = trim secretText; header = trim (or_str signatureHeader []) in
     if secret = [] \<or> header = [] then False
     else let expected = hmac secret rawBody in length header = length expected \<and> header = expected)"

definition assertYellowCardWebhookAuthenticated ::
  "(string \<Rightarrow> string \<Rightarrow> string) \<Rightarrow> string \<Rightarrow> string option \<Rightarrow> string \<Rightarrow> js_error + unit" where
  "assertYellowCardWebhookAuthenticated hmac rawBody signatureHeader secretText =
    (let secret = trim secretText in
     if secret = [] then Inl (YellowCardAuthError 503)
     else if trim (or_str signatureHeader []) = [] then Inl (YellowCardAuthError 401)
     else if \<not> verifyYellowCardWebhookSignature hmac rawBody signatureHeader secret then Inl (YellowCardAuthError 401)
     else Inr ())"

definition resolveWalletStatusFromYellowCardWebhook :: "yc_payload \<Rightarrow> string option" where
  "resolveWalletStatusFromYellowCardWebhook payload =
    (let event = to_upper (trim (or_str (yc_event payload) [])) in
     case or_else (yc_status payload) None of
       Some status \<Rightarrow> Some (mapYellowCardProviderStatus status)
     | None \<Rightarrow>
         if ends_with event ''.COMPLETE'' then Some ''success-payment''
         else if ends_with event ''.FAILED'' \<or> ends_with event ''.EXPIRED'' then Some ''failed-payment''
         else if contains_any event [''PENDING'', ''PROCESSING'', ''PROCESS''] then Some ''pending-payment''
         else None)"

definition isYellowCardSendWebhookEvent :: "string \<Rightarrow> bool" where
  "isYellowCardSendWebhookEvent event =
    (let e = to_upper event in starts_with e ''PAYMENT.'' \<or> starts_with e ''SEND.'')"

definition isYellowCardReceiveWebhookEvent :: "string \<Rightarrow> bool" where
  "isYellowCardReceiveWebhookEvent event =
    (let e = to_upper event in starts_with e ''COLLECTION.'' \<or> starts_with e ''RECEIVE.'')"

section \<open>What the mapping can answer\<close>

definition payment_statuses :: "string list" where
  "payment_statuses = [''pending-payment'', ''success-payment'', ''failed-payment'']"

lemma map_status_range: "mapYellowCardProviderStatus st \<in> set payment_statuses"
  by (simp add: mapYellowCardProviderStatus_def payment_statuses_def Let_def)

lemma trim_dropWhile_ws: "dropWhile is_ws (trim s) = trim s"
proof -
  have *: "trim s = [] \<or> \<not> is_ws (hd (trim s))"
  proof (cases "trim s = []")
    case False
    let ?t = "dropWhile is_ws s"
    from False have ne: "dropWhile is_ws (rev ?t) \<noteq> []" by (simp add: trim_def)
    obtain k where k: "rev ?t = k @ dropWhile is_ws (rev ?t)"
      by (metis takeWhile_dropWhile_id)
    then have "?t = trim s @ rev k" by (metis rev_append rev_rev_ident trim_def)
    with False have "hd ?t = hd (trim s)" "?t \<noteq> []" by (auto simp: hd_append)
    then show ?thesis using hd_dropWhile [of is_ws s] by auto
  qed simp
  from * show ?thesis by (rule dropWhile_no_head)
qed

lemma trim_trim [simp]: "trim (trim s) = trim s"
proof -
  have "dropWhile is_ws (rev (trim s)) = rev (trim s)"
    by (simp add: trim_def)
  then show ?thesis
    unfolding trim_def [of "trim s"] trim_dropWhile_ws by simp
qed

lemma assert_verified:
  "assertYellowCardWebhookAuthenticated hmac body header secret = Inr () \<longleftrightarrow>
     trim secret \<noteq> [] \<and> trim (or_str header []) \<noteq> [] \<and> trim (or_str header []) = hmac (trim secret) body"
  by (auto simp: assertYellowCardWebhookAuthenticated_def verifyYellowCardWebhookSignature_def Let_def)

end
