(* ===== verification/Lifecycle.thy ===== *)
theory Lifecycle
  imports Funding Fx Webhook
begin

text \<open>
  \<open>src/src/modules/infra/infraLifecycleService.ts\<close>: a collection is credited once its settlement is
  verified; a payout locks available USDC, and the provider's answer consumes the lock or returns
  it. The webhooks of Yellow Card and Flutterwave call these operations. A service call runs its
  statements and its ledger transactions one after the other: an error leaves the earlier ones done.
\<close>

section \<open>Amounts and rows\<close>

fun js_Number_json :: "json \<Rightarrow> js_num" where
  "js_Number_json JNull = Fin 0"
| "js_Number_json (JBool b) = Fin (if b then 1 else 0)"
| "js_Number_json (JNum x) = Fin x"
| "js_Number_json (JStr s) = js_Number_string s"
| "js_Number_json (JArr js) = (case js of [] \<Rightarrow> Fin 0 | [j] \<Rightarrow> (case j of
     JNull \<Rightarrow> Fin 0 | JBool b \<Rightarrow> NaN | JObj kvs \<Rightarrow> NaN | _ \<Rightarrow> js_Number_json j) | _ \<Rightarrow> NaN)"
| "js_Number_json (JObj kvs) = NaN"

record usdc_amount =
  ua_usdcAmount :: rat
  ua_rate :: "rat option"
  ua_sourceCurrency :: string

definition resolveUsdcAmount :: "rat \<Rightarrow> string \<Rightarrow> (db, usdc_amount) act" where
  "resolveUsdcAmount amount currency =
    (let cur = to_upper (if currency = [] then ''USDC'' else currency) in
     if cur = ''USDC'' \<or> cur = ''USD''
     then aret \<lparr>ua_usdcAmount = round7 amount, ua_rate = Some 1, ua_sourceCurrency = cur\<rparr>
     else abnd (convertAmountToUsd (Fin amount) cur) (\<lambda>(usdAmount, rate).
       aret \<lparr>ua_usdcAmount = round7 usdAmount, ua_rate = rate, ua_sourceCurrency = cur\<rparr>))"

definition metaUsdc :: "txn \<Rightarrow> rat option" where
  "metaUsdc row =
    (let m = t_metadata row; v = nullish (m ''usdcAmount'') (nullish (m ''ledgerAmount'') (m ''settlementUsdc'')) in
     case nullish v None of
       None \<Rightarrow> None
     | Some j \<Rightarrow> (case js_Number_json j of Fin n \<Rightarrow> if 0 < n then Some n else None | _ \<Rightarrow> None))"

definition loadTx :: "string \<Rightarrow> string option \<Rightarrow> (db, txn option) act" where
  "loadTx i orgId = (case or_else orgId None of
     Some org \<Rightarrow> aquery (\<lambda>s. find_row (\<lambda>t. (t_id t, t_org t)) (i, org) (txns s))
   | None \<Rightarrow> aquery (\<lambda>s. find_row t_id i (txns s)))"

definition loadTxByExternalId :: "string \<Rightarrow> (db, txn option) act" where
  "loadTxByExternalId externalId = aquery (\<lambda>s. find_row t_external_id (Some externalId) (txns s))"

definition patchTx :: "string \<Rightarrow> string \<Rightarrow> jmap \<Rightarrow> (db, unit) act" where
  "patchTx i status metadataPatch = sql_txn i (\<lambda>t. t\<lparr>t_status := status, t_metadata := t_metadata t ++ metadataPatch\<rparr>)"

definition is_settled :: "string \<Rightarrow> bool" where
  "is_settled status \<longleftrightarrow> List.member [''settled'', ''completed'', ''success''] (to_lower status)"

definition opt_num :: "rat option \<Rightarrow> json" where
  "opt_num x = (case x of Some r \<Rightarrow> JNum r | None \<Rightarrow> JNull)"

text \<open>\<open>metaUsdc(row)\<close>, or the conversion of the row's own amount.\<close>

definition usdcOf :: "txn \<Rightarrow> rat option \<Rightarrow> (db, rat \<times> rat option) act" where
  "usdcOf row known = (case known of
     Some x \<Rightarrow> aret (x, None)
   | None \<Rightarrow> abnd (resolveUsdcAmount (t_amount row) (t_currency row)) (\<lambda>r. aret (ua_usdcAmount r, ua_rate r)))"

text \<open>The parameters of the ledger calls of this service.\<close>

definition lifecycle_params ::
  "txn \<Rightarrow> rat \<Rightarrow> string \<Rightarrow> string \<Rightarrow> string \<Rightarrow> string \<Rightarrow> jmap \<Rightarrow> ledger_params" where
  "lifecycle_params row usdcAmount prefix suffix movementType referenceType meta =
    \<lparr>p_orgId = t_org row, p_environment = env_name (t_env row), p_amount = RNum (Fin usdcAmount), p_asset = None,
     p_idempotencyKey = Some (prefix @ t_id row @ suffix), p_movementType = Some movementType,
     p_reference = Some (or_str (t_external_id row) (t_id row)), p_referenceType = Some referenceType,
     p_referenceId = Some (t_id row), p_metadata = Some meta\<rparr>"

section \<open>Collections\<close>

record settle_input =
  se_orgId :: string
  se_transactionId :: string
  se_providerEventId :: "string option"
  se_source :: "string option"

record settle_result =
  sr_transactionId :: string
  sr_credit :: "movement \<times> bool"
  sr_balance :: balance_view
  sr_usdcAmount :: rat
  sr_walletFunding :: "funding_result option"
  sr_ledgerPhase :: string

definition credit_meta :: "settle_input \<Rightarrow> txn \<Rightarrow> rat option \<Rightarrow> bool \<Rightarrow> jmap" where
  "credit_meta input row rate usesWalletFunding =
    [''source'' \<mapsto> JStr (or_str (se_source input) ''settlement''), ''fiatAmount'' \<mapsto> JNum (t_amount row),
     ''fiatCurrency'' \<mapsto> JStr (t_currency row), ''rate'' \<mapsto> opt_num rate,
     ''providerEventId'' \<mapsto> str_or_null (se_providerEventId input),
     ''ledgerPhase'' \<mapsto> JStr (if usesWalletFunding then ''pending'' else ''available'')]"

definition collectionCredit :: "settle_input \<Rightarrow> txn \<Rightarrow> rat \<Rightarrow> rat option \<Rightarrow> bool \<Rightarrow> (db, movement \<times> bool) act" where
  "collectionCredit input row usdcAmount rate usesWalletFunding =
    (if usesWalletFunding
     then creditOrgWalletPending (lifecycle_params row usdcAmount ''collection:'' '':pending'' ''collection_pending''
       ''collection'' (credit_meta input row rate True))
     else creditOrgWallet (lifecycle_params row usdcAmount ''collection:'' '':credit'' ''collection_credit''
       ''collection'' (credit_meta input row rate False)))"

definition credit_patch :: "sdk \<Rightarrow> settle_input \<Rightarrow> rat \<Rightarrow> rat option \<Rightarrow> bool \<Rightarrow> movement \<Rightarrow> jmap" where
  "credit_patch sd input usdcAmount rate usesWalletFunding credit =
    [''settledAt'' \<mapsto> (if usesWalletFunding then JNull else JStr (sdk_now sd)), ''usdcAmount'' \<mapsto> JNum usdcAmount,
     ''rate'' \<mapsto> opt_num rate, ''ledgerCreditId'' \<mapsto> JStr (m_id credit),
     ''settlementSource'' \<mapsto> JStr (or_str (se_source input) ''settlement''),
     ''walletFundingExpected'' \<mapsto> JBool usesWalletFunding]"

definition patchCredited :: "sdk \<Rightarrow> settle_input \<Rightarrow> txn \<Rightarrow> rat \<Rightarrow> rat option \<Rightarrow> bool \<Rightarrow> movement \<Rightarrow> (db, unit) act" where
  "patchCredited sd input row usdcAmount rate usesWalletFunding credit =
    (if \<not> is_settled (t_status row)
     then patchTx (t_id row) (if usesWalletFunding then ''processing'' else ''settled'')
       (credit_patch sd input usdcAmount rate usesWalletFunding credit)
     else patchTx (t_id row) (t_status row)
       [''usdcAmount'' \<mapsto> JNum usdcAmount, ''ledgerCreditId'' \<mapsto> JStr (m_id credit)])"

text \<open>A failure of the wallet funding is logged and reported in the result.\<close>

definition fundOrReport :: "sdk \<Rightarrow> txn \<Rightarrow> rat \<Rightarrow> (db, funding_result option) act" where
  "fundOrReport sd row usdcAmount =
    acatch (abnd (fundCollectionStellarWallet sd \<lparr>fu_orgId = t_org row, fu_environment = env_name (t_env row),
        fu_collection = t_id row, fu_usdcAmount = usdcAmount\<rparr>) (\<lambda>r. aret (Some r)))
      (\<lambda>err. aret (Some \<lparr>cf_status = ''failed'', cf_skipped = False, cf_reason = Some (message_of err),
        cf_settlement = None, cf_hash = None, cf_destination = None\<rparr>))"

definition settleCredited :: "sdk \<Rightarrow> settle_input \<Rightarrow> txn \<Rightarrow> rat \<Rightarrow> rat option \<Rightarrow> (db, settle_result) act" where
  "settleCredited sd input row usdcAmount rate =
    (let usesWalletFunding = (getInfraStellarFundingMode sd \<noteq> ''off'') in
     abnd (collectionCredit input row usdcAmount rate usesWalletFunding) (\<lambda>credit.
     abnd (patchCredited sd input row usdcAmount rate usesWalletFunding (fst credit)) (\<lambda>_.
     abnd (if usesWalletFunding then fundOrReport sd row usdcAmount else aret None) (\<lambda>walletFunding.
     abnd (getOrgBalance (t_org row) (env_name (t_env row)) None) (\<lambda>balance.
     aret \<lparr>sr_transactionId = t_id row, sr_credit = credit, sr_balance = balance, sr_usdcAmount = usdcAmount,
       sr_walletFunding = walletFunding,
       sr_ledgerPhase = (if usesWalletFunding \<and> map_option cf_status walletFunding = Some ''confirmed'' then ''available''
         else if usesWalletFunding then ''pending'' else ''available'')\<rparr>)))))"

definition settleCollectionCredit :: "sdk \<Rightarrow> settle_input \<Rightarrow> (db, settle_result) act" where
  "settleCollectionCredit sd input =
    abnd (loadTx (se_transactionId input) (Some (se_orgId input))) (\<lambda>found. case found of
      None \<Rightarrow> athrow (JsError ''Collection not found'')
    | Some row \<Rightarrow>
        if t_direction row \<noteq> ''payment'' then athrow (JsError ''Transaction is not a collection'')
        else abnd (usdcOf row (metaUsdc row)) (\<lambda>(usdcAmount, rate). settleCredited sd input row usdcAmount rate))"

section \<open>Payouts\<close>

record lock_result =
  lr_lock :: "movement \<times> bool"
  lr_usdcAmount :: rat
  lr_balance :: balance_view

definition lockPayoutRow :: "txn \<Rightarrow> rat \<Rightarrow> rat option \<Rightarrow> (db, lock_result) act" where
  "lockPayoutRow row usdcAmount rate =
    abnd (lockOrgFunds (lifecycle_params row usdcAmount ''payout:'' '':lock'' ''funds_lock'' ''payout''
      [''fiatAmount'' \<mapsto> JNum (t_amount row), ''fiatCurrency'' \<mapsto> JStr (t_currency row), ''rate'' \<mapsto> opt_num rate])) (\<lambda>lock.
    abnd (patchTx (t_id row) (t_status row)
      [''usdcAmount'' \<mapsto> JNum usdcAmount, ''rate'' \<mapsto> opt_num rate, ''fundsLocked'' \<mapsto> JBool True,
       ''ledgerLockId'' \<mapsto> JStr (m_id (fst lock))]) (\<lambda>_.
    abnd (getOrgBalance (t_org row) (env_name (t_env row)) None) (\<lambda>balance.
    aret \<lparr>lr_lock = lock, lr_usdcAmount = usdcAmount, lr_balance = balance\<rparr>)))"

definition lockPayoutFunds :: "string \<Rightarrow> string \<Rightarrow> rat option \<Rightarrow> (db, lock_result) act" where
  "lockPayoutFunds orgId transactionId usdcInput =
    abnd (loadTx transactionId (Some orgId)) (\<lambda>found. case found of
      None \<Rightarrow> athrow (JsError ''Payout not found'')
    | Some row \<Rightarrow>
        if t_direction row \<noteq> ''payout'' then athrow (JsError ''Transaction is not a payout'')
        else abnd (usdcOf row (case usdcInput of Some x \<Rightarrow> Some x | None \<Rightarrow> metaUsdc row)) (\<lambda>(usdcAmount, rate).
          lockPayoutRow row usdcAmount rate))"

definition flag :: "jmap \<Rightarrow> string \<Rightarrow> bool" where
  "flag m k \<longleftrightarrow> m k = Some (JBool True)"

record payout_input =
  py_orgId :: "string option"
  py_transactionId :: string
  py_providerEventId :: "string option"
  py_source :: "string option"
  py_status :: "string option"

definition payout_meta :: "payout_input \<Rightarrow> string \<Rightarrow> jmap" where
  "payout_meta input d = [''source'' \<mapsto> JStr (or_str (py_source input) d),
     ''providerEventId'' \<mapsto> str_or_null (py_providerEventId input)]"

definition finalizePayoutRow :: "sdk \<Rightarrow> payout_input \<Rightarrow> txn \<Rightarrow> rat \<Rightarrow> (db, (movement \<times> bool) \<times> balance_view) act" where
  "finalizePayoutRow sd input row usdcAmount =
    abnd (finalizeLockedDebit (lifecycle_params row usdcAmount ''payout:'' '':finalize'' ''payout_settle'' ''payout''
      (payout_meta input ''settlement''))) (\<lambda>finalize.
    abnd (patchTx (t_id row) ''settled''
      [''settledAt'' \<mapsto> JStr (sdk_now sd), ''fundsLocked'' \<mapsto> JBool False, ''fundsFinalized'' \<mapsto> JBool True,
       ''ledgerFinalizeId'' \<mapsto> JStr (m_id (fst finalize)),
       ''settlementSource'' \<mapsto> JStr (or_str (py_source input) ''settlement'')]) (\<lambda>_.
    abnd (getOrgBalance (t_org row) (env_name (t_env row)) None) (\<lambda>balance. aret (finalize, balance))))"

definition finalizePayoutDebit :: "sdk \<Rightarrow> payout_input \<Rightarrow> (db, (movement \<times> bool) \<times> balance_view) act" where
  "finalizePayoutDebit sd input =
    abnd (loadTx (py_transactionId input) (py_orgId input)) (\<lambda>found. case found of
      None \<Rightarrow> athrow (JsError ''Payout not found'')
    | Some row \<Rightarrow>
        if t_direction row \<noteq> ''payout'' then athrow (JsError ''Transaction is not a payout'')
        else if flag (t_metadata row) ''fundsReleased'' then athrow (InfraLifecycleError ''PAYOUT_ALREADY_RELEASED'' 409)
        else (case metaUsdc row of
            None \<Rightarrow> athrow (JsError ''Payout has no locked USDC amount'')
          | Some usdcAmount \<Rightarrow> finalizePayoutRow sd input row usdcAmount))"

definition releasePayoutRow :: "sdk \<Rightarrow> payout_input \<Rightarrow> txn \<Rightarrow> rat \<Rightarrow> (db, (movement \<times> bool) \<times> balance_view) act" where
  "releasePayoutRow sd input row usdcAmount =
    abnd (releaseOrgFunds (lifecycle_params row usdcAmount ''payout:'' '':release'' ''funds_release'' ''payout''
      (payout_meta input ''failure''))) (\<lambda>release.
    abnd (patchTx (t_id row) (or_str (py_status input) ''failed'')
      [''failedAt'' \<mapsto> JStr (sdk_now sd), ''fundsLocked'' \<mapsto> JBool False, ''fundsReleased'' \<mapsto> JBool True,
       ''ledgerReleaseId'' \<mapsto> JStr (m_id (fst release)),
       ''settlementSource'' \<mapsto> JStr (or_str (py_source input) ''failure'')]) (\<lambda>_.
    abnd (getOrgBalance (t_org row) (env_name (t_env row)) None) (\<lambda>balance. aret (release, balance))))"

definition releasePayoutLock :: "sdk \<Rightarrow> payout_input \<Rightarrow> (db, (movement \<times> bool) \<times> balance_view) act" where
  "releasePayoutLock sd input =
    abnd (loadTx (py_transactionId input) (py_orgId input)) (\<lambda>found. case found of
      None \<Rightarrow> athrow (JsError ''Payout not found'')
    | Some row \<Rightarrow>
        if t_direction row \<noteq> ''payout'' then athrow (JsError ''Transaction is not a payout'')
        else if flag (t_metadata row) ''fundsFinalized'' then athrow (InfraLifecycleError ''PAYOUT_ALREADY_FINALIZED'' 409)
        else (case metaUsdc row of
            None \<Rightarrow> athrow (JsError ''Payout has no locked USDC amount'')
          | Some usdcAmount \<Rightarrow> releasePayoutRow sd input row usdcAmount))"

section \<open>Webhooks\<close>

record webhook_reply =
  wr_handled :: bool
  wr_action :: "string option"
  wr_transactionId :: "string option"

definition not_handled :: webhook_reply where
  "not_handled = \<lparr>wr_handled = False, wr_action = None, wr_transactionId = None\<rparr>"

definition handled :: "txn \<Rightarrow> string \<Rightarrow> webhook_reply" where
  "handled row act = \<lparr>wr_handled = True, wr_action = Some act, wr_transactionId = Some (t_id row)\<rparr>"

text \<open>The \<open>try\<close> around a payout operation: one lifecycle error is an answer, every other is rethrown.\<close>

definition or_answer :: "string \<Rightarrow> webhook_reply \<Rightarrow> (db, webhook_reply) act \<Rightarrow> (db, webhook_reply) act" where
  "or_answer code reply m = acatch m (\<lambda>err. case err of
     InfraLifecycleError c st \<Rightarrow> if c = code then aret reply else athrow err
   | _ \<Rightarrow> athrow err)"

definition event_text :: "yc_payload \<Rightarrow> string" where
  "event_text payload = trim (or_str (yc_event payload) [])"

text \<open>\<open>payload.status || event || d\<close>\<close>

definition status_or_event :: "yc_payload \<Rightarrow> string \<Rightarrow> string" where
  "status_or_event payload d = or_str (or_else (yc_status payload) (Some (event_text payload))) d"

definition provider_event :: "yc_payload \<Rightarrow> string \<Rightarrow> string" where
  "provider_event payload sequenceId = or_str (yc_id payload) (sequenceId @ '':'' @ status_or_event payload ''event'')"

definition webhook_payout :: "txn \<Rightarrow> string \<Rightarrow> payout_input" where
  "webhook_payout row providerEventId = \<lparr>py_orgId = None, py_transactionId = t_id row,
     py_providerEventId = Some providerEventId, py_source = Some ''yellowcard_webhook'', py_status = Some ''failed''\<rparr>"

definition collectionWebhook :: "sdk \<Rightarrow> txn \<Rightarrow> string option \<Rightarrow> string \<Rightarrow> (db, webhook_reply) act" where
  "collectionWebhook sd row mapped providerEventId =
    (if mapped = Some ''success-payment'' then
       abnd (settleCollectionCredit sd \<lparr>se_orgId = t_org row, se_transactionId = t_id row,
           se_providerEventId = Some providerEventId, se_source = Some ''yellowcard_webhook''\<rparr>) (\<lambda>_.
       aret (handled row ''collection_credit''))
     else if mapped = Some ''failed-payment'' then
       (if is_settled (t_status row) then aret (handled row ''collection_already_settled'')
        else abnd (patchTx (t_id row) ''failed''
            [''failedAt'' \<mapsto> JStr (sdk_now sd), ''providerEventId'' \<mapsto> JStr providerEventId,
             ''settlementSource'' \<mapsto> JStr ''yellowcard_webhook'']) (\<lambda>_.
          aret (handled row ''collection_failed'')))
     else aret (handled row ''collection_pending''))"

definition yc_settlement :: "string \<Rightarrow> settlement \<Rightarrow> bool" where
  "yc_settlement i st \<longleftrightarrow> s_payout_tx st = Some i \<and> s_rail st = ''YELLOW_CARD''"

definition provider_confirmed :: "string \<Rightarrow> settlement \<Rightarrow> settlement" where
  "provider_confirmed eventId st = st\<lparr>s_status := ''confirmed'',
     s_external := (case s_external st of Some x \<Rightarrow> Some x | None \<Rightarrow> Some eventId),
     s_provider := (case s_provider st of Some x \<Rightarrow> Some x | None \<Rightarrow> Some eventId), s_failure := None\<rparr>"

definition payoutSuccess :: "sdk \<Rightarrow> txn \<Rightarrow> string \<Rightarrow> (db, webhook_reply) act" where
  "payoutSuccess sd row providerEventId =
    (let meta = t_metadata row in
     if flag meta ''fundsReleased'' then aret (handled row ''payout_already_released'')
     else if flag meta ''offRamp'' \<and> \<not> flag meta ''stellarConfirmed'' then aret (handled row ''offramp_awaiting_stellar'')
     else
       let finalized = handled row ''payout_finalize'' in
       abnd (or_answer ''PAYOUT_ALREADY_RELEASED'' (handled row ''payout_already_released'')
         (abnd (finalizePayoutDebit sd (webhook_payout row providerEventId)) (\<lambda>_. aret finalized))) (\<lambda>answer.
       if answer \<noteq> finalized then aret answer
       else if flag meta ''offRamp'' then
         abnd (run_tx (update_settlements (yc_settlement (t_id row)) (provider_confirmed providerEventId))) (\<lambda>_.
         abnd (patchTx (t_id row) ''settled'' [''offRampPhase'' \<mapsto> JStr ''completed'',
           ''providerRetryRequired'' \<mapsto> JBool False, ''providerConfirmed'' \<mapsto> JBool True]) (\<lambda>_.
         aret finalized))
       else aret finalized))"

definition payoutFailure :: "sdk \<Rightarrow> txn \<Rightarrow> yc_payload \<Rightarrow> string \<Rightarrow> (db, webhook_reply) act" where
  "payoutFailure sd row payload providerEventId =
    (let meta = t_metadata row; reason = status_or_event payload ''provider_failed'' in
     if flag meta ''fundsFinalized'' then aret (handled row ''payout_already_finalized'')
     else if flag meta ''offRamp'' \<and> flag meta ''stellarConfirmed'' then
       abnd (patchTx (t_id row) ''processing'' [''offRampPhase'' \<mapsto> JStr ''provider_failed'',
         ''providerRetryRequired'' \<mapsto> JBool True, ''providerEventId'' \<mapsto> JStr providerEventId,
         ''settlementSource'' \<mapsto> JStr ''yellowcard_webhook'', ''providerFailureReason'' \<mapsto> JStr reason]) (\<lambda>_.
       abnd (run_tx (update_settlements
          (\<lambda>st. yc_settlement (t_id row) st \<and> List.member [''pending'', ''submitted''] (s_status st))
          (\<lambda>st. st\<lparr>s_status := ''failed'', s_failure := Some (take 500 reason)\<rparr>))) (\<lambda>_.
       aret (handled row ''offramp_provider_retry_required'')))
     else or_answer ''PAYOUT_ALREADY_FINALIZED'' (handled row ''payout_already_finalized'')
       (abnd (releasePayoutLock sd (webhook_payout row providerEventId)) (\<lambda>_. aret (handled row ''payout_release''))))"

definition payoutWebhook :: "sdk \<Rightarrow> txn \<Rightarrow> yc_payload \<Rightarrow> string option \<Rightarrow> string \<Rightarrow> (db, webhook_reply) act" where
  "payoutWebhook sd row payload mapped providerEventId =
    (if mapped = Some ''success-payment'' then payoutSuccess sd row providerEventId
     else if mapped = Some ''failed-payment'' then payoutFailure sd row payload providerEventId
     else aret (handled row ''payout_pending''))"

definition dispatchWebhook :: "sdk \<Rightarrow> txn \<Rightarrow> yc_payload \<Rightarrow> string \<Rightarrow> (db, webhook_reply) act" where
  "dispatchWebhook sd row payload sequenceId =
    (let event = event_text payload; mapped = resolveWalletStatusFromYellowCardWebhook payload;
         providerEventId = provider_event payload sequenceId
     in if t_direction row = ''payment'' \<or> isYellowCardReceiveWebhookEvent event then
          (if t_direction row \<noteq> ''payment'' then aret not_handled
           else collectionWebhook sd row mapped providerEventId)
        else if t_direction row = ''payout'' \<or> isYellowCardSendWebhookEvent event then
          (if t_direction row \<noteq> ''payout'' then aret not_handled
           else payoutWebhook sd row payload mapped providerEventId)
        else aret not_handled)"

definition applyInfraYellowCardWebhook :: "sdk \<Rightarrow> yc_payload \<Rightarrow> (db, webhook_reply) act" where
  "applyInfraYellowCardWebhook sd payload =
    (let sequenceId = trim (or_str (or_else (yc_sequenceId payload) (or_else (yc_id payload) None)) []) in
     if sequenceId = [] then aret not_handled
     else abnd (loadTxByExternalId sequenceId) (\<lambda>found. case found of
       None \<Rightarrow> aret not_handled
     | Some row \<Rightarrow> dispatchWebhook sd row payload sequenceId))"

text \<open>
  Flutterwave: \<open>data.tx_ref\<close> is the collection's external id, the rail must be Flutterwave's, the
  currency NGN, and the amount within one unit of the expected one.
\<close>

record flw_payload =
  fw_txRef :: "string option"
  fw_bodyTxRef :: "string option"
  fw_amount :: js_num
  fw_currency :: string
  fw_reference :: "string option"
  fw_transactionId :: "string option"

definition option_or :: "'a option \<Rightarrow> 'a option \<Rightarrow> 'a option" where
  "option_or a b = (case a of Some x \<Rightarrow> Some x | None \<Rightarrow> b)"

definition flw_ref :: "flw_payload \<Rightarrow> string" where
  "flw_ref p = trim (or_str (option_or (fw_txRef p) (option_or (fw_bodyTxRef p) (fw_reference p))) [])"

definition rail_of :: "txn \<Rightarrow> string" where
  "rail_of row = (case t_metadata row ''rail'' of
     Some v \<Rightarrow> if json_truthy (Some v) then js_String v else [] | None \<Rightarrow> [])"

definition flutterwaveAmount :: "sdk \<Rightarrow> txn \<Rightarrow> flw_payload \<Rightarrow> string \<Rightarrow> rat \<Rightarrow> (db, webhook_reply) act" where
  "flutterwaveAmount sd row payload ref received =
    (if 1 < \<bar>received - t_amount row\<bar> then
       abnd (patchTx (t_id row) (t_status row) [''providerWarning'' \<mapsto> JStr ''flutterwave_amount_mismatch'',
         ''expectedAmount'' \<mapsto> JNum (t_amount row), ''receivedAmount'' \<mapsto> JNum received]) (\<lambda>_.
       aret (handled row ''amount_mismatch''))
     else if is_settled (t_status row) then aret (handled row ''collection_already_settled'')
     else
       abnd (settleCollectionCredit sd \<lparr>se_orgId = t_org row, se_transactionId = t_id row,
         se_providerEventId = Some (or_str (fw_transactionId payload) (or_str (fw_reference payload) ref)),
         se_source = Some ''flutterwave_webhook''\<rparr>) (\<lambda>_.
       aret (handled row ''collection_credit'')))"

definition applyInfraFlutterwaveWebhook :: "sdk \<Rightarrow> flw_payload \<Rightarrow> (db, webhook_reply) act" where
  "applyInfraFlutterwaveWebhook sd payload =
    (let ref = flw_ref payload in
     if ref = [] then aret not_handled
     else abnd (loadTxByExternalId ref) (\<lambda>found. case found of
       None \<Rightarrow> aret not_handled
     | Some row \<Rightarrow>
         if t_direction row \<noteq> ''payment'' then aret not_handled
         else if rail_of row \<noteq> ''flutterwave'' then aret not_handled
         else if to_upper (or_str (or_else (Some (fw_currency payload)) (or_else (Some (t_currency row)) None)) ''NGN'') \<noteq> ''NGN''
         then aret not_handled
         else (case fw_amount payload of
             Fin received \<Rightarrow>
               if received \<le> 0 then aret (handled row ''invalid_amount'')
               else flutterwaveAmount sd row payload ref received
           | _ \<Rightarrow> aret (handled row ''invalid_amount''))))"

end
