(* ===== verification/Recipient.thy ===== *)
theory Recipient
  imports Lifecycle
begin

text \<open>
  \<open>src/src/modules/infra/infraRecipientService.ts\<close>: the people an organisation pays and the
  destinations that reach them. A destination keeps the account it pays to in its data; what a list
  or a read returns is the hint that \<open>maskDestination\<close> makes of it. The invariant says that every
  destination belongs to a recipient of its own organisation and environment, that a recipient has at
  most one active default, and that the stored hint is the mask of the stored data.
\<close>

section \<open>Tables\<close>

definition recipient_ok :: "recipient \<Rightarrow> bool" where
  "recipient_ok r \<longleftrightarrow> List.member [''active'', ''archived''] (rp_status r)"

definition insert_recipient :: "recipient \<Rightarrow> (db, recipient) tx" where
  "insert_recipient r s =
    (if rp_id r \<in> rp_id ` set (recipients s) then Inl UniqueViolation
     else if \<not> recipient_ok r then Inl CheckViolation
     else if \<not> org_exists (rp_org r) s then Inl ForeignKeyViolation
     else Inr (r, s\<lparr>recipients := r # recipients s\<rparr>))"

definition update_recipient :: "string \<Rightarrow> string \<Rightarrow> (recipient \<Rightarrow> recipient) \<Rightarrow> (db, recipient) tx" where
  "update_recipient i orgId f s =
    (case find_row (\<lambda>r. (rp_id r, rp_org r)) (i, orgId) (recipients s) of
       None \<Rightarrow> Inl NoData
     | Some r \<Rightarrow> if recipient_ok (f r)
         then Inr (f r, s\<lparr>recipients := update_rows (\<lambda>r. (rp_id r, rp_org r)) (i, orgId) f (recipients s)\<rparr>)
         else Inl CheckViolation)"

definition destination_ok :: "destination \<Rightarrow> bool" where
  "destination_ok d \<longleftrightarrow> List.member [''bank'', ''mobile_money'', ''crypto'', ''dayfi''] (ds_rail d)
     \<and> List.member [''unverified'', ''pending'', ''verified'', ''failed''] (ds_verification d)
     \<and> List.member [''active'', ''archived''] (ds_status d)"

text \<open>\<open>uq_infra_dest_default\<close>: one active default per recipient\<close>

definition default_slot :: "destination \<Rightarrow> string list" where
  "default_slot d = (if ds_default d \<and> ds_status d = ''active'' then [ds_recipient d] else [])"

definition destinations_unique :: "destination list \<Rightarrow> bool" where
  "destinations_unique ds \<longleftrightarrow> distinct (map ds_id ds) \<and> distinct (concat (map default_slot ds))"

definition insert_destination :: "destination \<Rightarrow> (db, destination) tx" where
  "insert_destination d s =
    (if \<not> destinations_unique (d # destinations s) then Inl UniqueViolation
     else if \<not> destination_ok d then Inl CheckViolation
     else if \<not> org_exists (ds_org d) s \<or> ds_recipient d \<notin> rp_id ` set (recipients s) then Inl ForeignKeyViolation
     else Inr (d, s\<lparr>destinations := d # destinations s\<rparr>))"

definition update_destinations :: "(destination \<Rightarrow> bool) \<Rightarrow> (destination \<Rightarrow> destination) \<Rightarrow> (db, unit) tx" where
  "update_destinations p f s =
    (let rows = map (\<lambda>d. if p d then f d else d) (destinations s) in
     if \<not> destinations_unique rows then Inl UniqueViolation
     else if \<not> list_all destination_ok rows then Inl CheckViolation
     else Inr ((), s\<lparr>destinations := rows\<rparr>))"

text \<open>\<open>ORDER BY\<close> is a stable sort; \<open>ILIKE\<close> matches \<open>%\<close>, \<open>_\<close> and a backslash escape.\<close>

fun insert_by :: "('r \<Rightarrow> 'r \<Rightarrow> bool) \<Rightarrow> 'r \<Rightarrow> 'r list \<Rightarrow> 'r list" where
  "insert_by le x [] = [x]"
| "insert_by le x (y # ys) = (if le x y then x # y # ys else y # insert_by le x ys)"

definition sort_by :: "('r \<Rightarrow> 'r \<Rightarrow> bool) \<Rightarrow> 'r list \<Rightarrow> 'r list" where
  "sort_by le xs = foldr (insert_by le) xs []"

fun like :: "string \<Rightarrow> string \<Rightarrow> bool" where
  "like [] t \<longleftrightarrow> t = []"
| "like (c # p) [] \<longleftrightarrow> c = CHR ''%'' \<and> like p []"
| "like (c # p) (x # t) \<longleftrightarrow>
     (if c = CHR ''%'' then like p (x # t) \<or> like (c # p) t
      else if c = CHR ''_'' then like p t
      else if c = CHR 0x5C then (case p of e # q \<Rightarrow> x = e \<and> like q t | [] \<Rightarrow> False)
      else x = c \<and> like p t)"

definition ilike :: "string \<Rightarrow> string \<Rightarrow> bool" where
  "ilike t p \<longleftrightarrow> like (to_lower p) (to_lower t)"

section \<open>Rails and masks\<close>

text \<open>\<open>replace(/[\s-]+/g, '_')\<close>\<close>

function squash :: "string \<Rightarrow> string" where
  "squash [] = []"
| "squash (c # s) = (if is_ws c \<or> c = CHR ''-''
     then CHR ''_'' # squash (dropWhile (\<lambda>d. is_ws d \<or> d = CHR ''-'') s) else c # squash s)"
  by pat_completeness auto
termination
  by (relation "measure length") (simp_all add: length_dropWhile_le less_Suc_eq_le)

definition normalizeRail :: "string \<Rightarrow> js_error + string" where
  "normalizeRail raw =
    (let r = squash (to_lower (trim raw)) in
     if List.member [''bank'', ''bank_transfer''] r then Inr ''bank''
     else if List.member [''mobile_money'', ''momo'', ''mobilemoney''] r then Inr ''mobile_money''
     else if List.member [''crypto'', ''stellar'', ''usdc''] r then Inr ''crypto''
     else if List.member [''dayfi'', ''dayfi_tag'', ''tag''] r then Inr ''dayfi''
     else Inl (InfraRecipientError ''INVALID_RAIL'' 400))"

definition last4 :: "string \<Rightarrow> string" where
  "last4 s = drop (length s - 4) s"

definition some_text :: "string \<Rightarrow> string option" where
  "some_text s = (if s = [] then None else Some s)"

definition no_space :: "string \<Rightarrow> string" where
  "no_space s = filter (\<lambda>c. \<not> is_ws c) s"

text \<open>The middle dots of the hints are the character \<open>0xB7\<close>.\<close>

definition four_dots :: string where
  "four_dots = replicate 4 (CHR 0xB7)"

definition hint_of :: "string \<Rightarrow> string option \<Rightarrow> string" where
  "hint_of name lastFour = (case lastFour of Some l \<Rightarrow> name @ '' '' @ four_dots @ '' '' @ l | None \<Rightarrow> name)"

definition secret_of :: "string \<Rightarrow> jmap \<Rightarrow> string" where
  "secret_of rail data =
    (if rail = ''bank'' then no_space (first_text [data ''accountNumber''] [])
     else if rail = ''mobile_money'' then no_space (first_text [data ''phone'', data ''accountNumber''] [])
     else if rail = ''crypto'' then trim (first_text [data ''walletAddress'', data ''accountNumber''] [])
     else to_lower (dropWhile (\<lambda>c. c = CHR ''@'') (first_text [data ''dayfiTag'', data ''accountNumber''] [])))"

definition maskDestination :: "string \<Rightarrow> jmap \<Rightarrow> string option \<Rightarrow> string option \<times> string" where
  "maskDestination rail data provider =
    (let acct = secret_of rail data; prov = map_option JStr provider in
     if rail = ''bank'' then
       (let lastFour = some_text (last4 acct) in
        (lastFour, hint_of (first_text [prov, data ''bankName''] ''Bank'') lastFour))
     else if rail = ''mobile_money'' then
       (let lastFour = some_text (last4 acct) in
        (lastFour, hint_of (first_text [prov, data ''bankName''] ''Mobile Money'') lastFour))
     else if rail = ''crypto'' then
       (let lastFour = some_text (to_upper (last4 acct));
            asset = to_upper (first_text [data ''asset''] ''USDC'');
            network = first_text [data ''network'', prov] ''stellar'';
            head = asset @ '' '' @ [CHR 0xB7] @ '' '' @ network
        in (lastFour, case lastFour of Some l \<Rightarrow> head @ '' '' @ four_dots @ l | None \<Rightarrow> head))
     else (if acct = [] then (None, ''Dayfi tag'') else (Some (last4 acct), CHR ''@'' # acct)))"

definition validateDestinationData :: "string \<Rightarrow> jmap \<Rightarrow> js_error + unit" where
  "validateDestinationData rail data =
    (let given = (\<lambda>keys. trim (first_text (map data keys) []) \<noteq> []);
         needed = (if rail = ''bank'' then [[''accountNumber''], [''accountName''], [''bankCode'']]
           else if rail = ''mobile_money'' then [[''phone'', ''accountNumber'']]
           else if rail = ''crypto'' then [[''walletAddress'', ''accountNumber'']]
           else if rail = ''dayfi'' then [[''dayfiTag'', ''accountNumber'']] else [])
     in if list_all given needed then Inr () else Inl (InfraRecipientError ''INVALID_DESTINATION'' 400))"

section \<open>What reads return\<close>

record destination_view =
  dv_id :: string
  dv_recipientId :: string
  dv_orgId :: string
  dv_environment :: infra_env
  dv_rail :: string
  dv_country :: "string option"
  dv_currency :: "string option"
  dv_provider :: "string option"
  dv_label :: "string option"
  dv_displayHint :: string
  dv_lastFour :: "string option"
  dv_verification :: string
  dv_isDefault :: bool
  dv_status :: string

definition mapDestinationPublic :: "destination \<Rightarrow> destination_view" where
  "mapDestinationPublic d = \<lparr>dv_id = ds_id d, dv_recipientId = ds_recipient d, dv_orgId = ds_org d,
     dv_environment = ds_env d, dv_rail = ds_rail d, dv_country = ds_country d, dv_currency = ds_currency d,
     dv_provider = ds_provider d, dv_label = ds_label d, dv_displayHint = ds_hint d, dv_lastFour = ds_lastFour d,
     dv_verification = ds_verification d, dv_isDefault = ds_default d, dv_status = ds_status d\<rparr>"

text \<open>\<open>mapRecipient\<close> returns every column; the destinations come with it.\<close>

record recipient_view =
  rv_recipient :: recipient
  rv_destinations :: "destination_view list"

text \<open>\<open>ORDER BY is_default DESC, created_at ASC\<close> on a table that lists the newest first\<close>

definition default_first :: "destination list \<Rightarrow> destination list" where
  "default_first ds = (let old = rev ds in filter ds_default old @ filter (\<lambda>d. \<not> ds_default d) old)"

definition active_of :: "string \<Rightarrow> string \<Rightarrow> destination \<Rightarrow> bool" where
  "active_of orgId recipientId d \<longleftrightarrow> ds_org d = orgId \<and> ds_recipient d = recipientId \<and> ds_status d = ''active''"

definition listDestinationsPublic :: "string \<Rightarrow> string \<Rightarrow> (db, destination_view list) act" where
  "listDestinationsPublic orgId recipientId =
    aquery (\<lambda>s. map mapDestinationPublic (default_first (filter (active_of orgId recipientId) (destinations s))))"

definition with_destinations :: "string \<Rightarrow> recipient \<Rightarrow> (db, recipient_view) act" where
  "with_destinations orgId row =
    abnd (listDestinationsPublic orgId (rp_id row)) (\<lambda>ds. aret \<lparr>rv_recipient = row, rv_destinations = ds\<rparr>)"

fun each_recipient :: "string \<Rightarrow> recipient list \<Rightarrow> (db, recipient_view list) act" where
  "each_recipient orgId [] = aret []"
| "each_recipient orgId (r # rs) =
    abnd (with_destinations orgId r) (\<lambda>v. abnd (each_recipient orgId rs) (\<lambda>vs. aret (v # vs)))"

text \<open>The collation of the database is the parameter \<open>le\<close>.\<close>

definition listRecipients ::
  "(string \<Rightarrow> string \<Rightarrow> bool) \<Rightarrow> string \<Rightarrow> string \<Rightarrow> string option \<Rightarrow> bool \<Rightarrow> (db, recipient_view list) act" where
  "listRecipients le orgId environment search includeArchived =
    (let env = normalizeEnv environment; q = trim (or_str search []); pat = ''%'' @ q @ ''%'' in
     abnd (aquery (\<lambda>s. take 200 (sort_by (\<lambda>a b. le (rp_name a) (rp_name b))
       (filter (\<lambda>r. rp_org r = orgId \<and> rp_env r = env \<and> (includeArchived \<or> rp_status r = ''active'')
          \<and> (q = [] \<or> ilike (rp_name r) pat \<or> ilike (case rp_email r of Some e \<Rightarrow> e | None \<Rightarrow> []) pat))
        (recipients s))))) (each_recipient orgId))"

definition getRecipient :: "string \<Rightarrow> string \<Rightarrow> string option \<Rightarrow> (db, recipient_view) act" where
  "getRecipient orgId recipientId environment =
    (let env = map_option normalizeEnv (or_else environment None) in
     abnd (aquery (\<lambda>s. find (\<lambda>r. rp_id r = recipientId \<and> rp_org r = orgId
       \<and> (case env of None \<Rightarrow> True | Some e \<Rightarrow> rp_env r = e)) (recipients s))) (\<lambda>found. case found of
       None \<Rightarrow> athrow (InfraRecipientError ''NOT_FOUND'' 404)
     | Some row \<Rightarrow> with_destinations orgId row))"

section \<open>Operations\<close>

record destination_input =
  di_rail :: string
  di_country :: "string option"
  di_currency :: "string option"
  di_provider :: "string option"
  di_label :: "string option"
  di_isDefault :: "bool option"
  di_verification :: "string option"
  di_data :: jmap

definition upper_or_null :: "string option \<Rightarrow> string option" where
  "upper_or_null x = map_option to_upper (or_else x None)"

definition destination_row ::
  "string \<Rightarrow> string \<Rightarrow> infra_env \<Rightarrow> recipient \<Rightarrow> string \<Rightarrow> destination_input \<Rightarrow> string \<Rightarrow> destination" where
  "destination_row orgId recipientId env rec rail input i =
    (let mask = maskDestination rail (di_data input) (di_provider input) in
     \<lparr>ds_id = i, ds_recipient = recipientId, ds_org = orgId, ds_env = env, ds_rail = rail,
      ds_country = (case upper_or_null (di_country input) of Some c \<Rightarrow> Some c | None \<Rightarrow> or_else (rp_country rec) None),
      ds_currency = upper_or_null (di_currency input), ds_provider = or_else (di_provider input) None,
      ds_label = or_else (di_label input) None, ds_hint = snd mask, ds_lastFour = fst mask,
      ds_verification = or_str (di_verification input) ''unverified'', ds_data = di_data input,
      ds_default = (di_isDefault input = Some True), ds_status = ''active''\<rparr>)"

definition addDestination :: "string \<Rightarrow> string \<Rightarrow> string \<Rightarrow> destination_input \<Rightarrow> (db, destination_view) act" where
  "addDestination orgId recipientId environment input =
    (let env = normalizeEnv environment in
     abnd (getRecipient orgId recipientId (Some (env_name env))) (\<lambda>rec.
     abnd (aof_sum (normalizeRail (di_rail input))) (\<lambda>rail.
     abnd (aof_sum (validateDestinationData rail (di_data input))) (\<lambda>_.
     abnd (if di_isDefault input = Some True then
         run_tx (update_destinations (\<lambda>d. ds_recipient d = recipientId \<and> ds_org d = orgId \<and> ds_default d)
           (\<lambda>d. d\<lparr>ds_default := False\<rparr>))
       else aret ()) (\<lambda>_.
     abnd (run_tx (bnd new_uuid (\<lambda>i.
       insert_destination (destination_row orgId recipientId env (rv_recipient rec) rail input i)))) (\<lambda>row.
     aret (mapDestinationPublic row)))))))"

record recipient_input =
  ri_orgId :: string
  ri_environment :: string
  ri_displayName :: string
  ri_country :: "string option"
  ri_email :: "string option"
  ri_phone :: "string option"
  ri_metadata :: jmap
  ri_destination :: "destination_input option"

definition recipient_row :: "recipient_input \<Rightarrow> string \<Rightarrow> string \<Rightarrow> recipient" where
  "recipient_row input displayName i =
    \<lparr>rp_id = i, rp_org = ri_orgId input, rp_env = normalizeEnv (ri_environment input), rp_name = displayName,
     rp_country = upper_or_null (ri_country input), rp_email = or_else (ri_email input) None,
     rp_phone = or_else (ri_phone input) None, rp_status = ''active'', rp_metadata = ri_metadata input\<rparr>"

definition createRecipient :: "recipient_input \<Rightarrow> (db, recipient_view) act" where
  "createRecipient input =
    (let displayName = trim (ri_displayName input) in
     if length displayName < 2 then athrow (InfraRecipientError ''INVALID_NAME'' 400)
     else
       abnd (run_tx (bnd new_uuid (\<lambda>i. insert_recipient (recipient_row input displayName i)))) (\<lambda>rec.
       case ri_destination input of
         None \<Rightarrow> aret \<lparr>rv_recipient = rec, rv_destinations = []\<rparr>
       | Some d \<Rightarrow>
           abnd (addDestination (ri_orgId input) (rp_id rec) (env_name (normalizeEnv (ri_environment input)))
             (d\<lparr>di_isDefault := Some (di_isDefault d \<noteq> Some False)\<rparr>)) (\<lambda>v.
           aret \<lparr>rv_recipient = rec, rv_destinations = [v]\<rparr>)))"

text \<open>A field of the patch that is \<open>undefined\<close> is \<open>None\<close>; \<open>email\<close> and \<open>phone\<close> may be \<open>null\<close>.\<close>

record recipient_patch =
  up_displayName :: "string option"
  up_country :: "string option"
  up_email :: "string option option"
  up_phone :: "string option option"
  up_status :: "string option"
  up_metadata :: "jmap option"

definition patch_recipient :: "recipient_patch \<Rightarrow> recipient \<Rightarrow> recipient" where
  "patch_recipient p r = r\<lparr>
     rp_name := (case up_displayName p of Some n \<Rightarrow> trim n | None \<Rightarrow> rp_name r),
     rp_country := (case up_country p of Some c \<Rightarrow> Some (to_upper c) | None \<Rightarrow> rp_country r),
     rp_email := (case up_email p of Some e \<Rightarrow> e | None \<Rightarrow> rp_email r),
     rp_phone := (case up_phone p of Some e \<Rightarrow> e | None \<Rightarrow> rp_phone r),
     rp_status := (case or_else (up_status p) None of Some st \<Rightarrow> st | None \<Rightarrow> rp_status r),
     rp_metadata := (case up_metadata p of Some m \<Rightarrow> m | None \<Rightarrow> rp_metadata r)\<rparr>"

definition updateRecipient :: "string \<Rightarrow> string \<Rightarrow> recipient_patch \<Rightarrow> (db, recipient_view) act" where
  "updateRecipient orgId recipientId patch =
    abnd (getRecipient orgId recipientId None) (\<lambda>_.
    abnd (run_tx (update_recipient recipientId orgId (patch_recipient patch))) (\<lambda>row.
    with_destinations orgId row))"

definition archiveRecipient :: "string \<Rightarrow> string \<Rightarrow> (db, recipient_view) act" where
  "archiveRecipient orgId recipientId = updateRecipient orgId recipientId
     \<lparr>up_displayName = None, up_country = None, up_email = None, up_phone = None,
      up_status = Some ''archived'', up_metadata = None\<rparr>"

definition archive_row :: "destination \<Rightarrow> destination" where
  "archive_row d = d\<lparr>ds_status := ''archived'', ds_default := False\<rparr>"

definition archiveDestination :: "string \<Rightarrow> string \<Rightarrow> (db, destination_view) act" where
  "archiveDestination orgId destinationId =
    (let this = (\<lambda>d. ds_id d = destinationId \<and> ds_org d = orgId \<and> ds_status d = ''active'') in
     abnd (aquery (\<lambda>s. find this (destinations s))) (\<lambda>found.
     abnd (run_tx (update_destinations this archive_row)) (\<lambda>_.
     case found of
       None \<Rightarrow> athrow (InfraRecipientError ''NOT_FOUND'' 404)
     | Some d \<Rightarrow> aret (mapDestinationPublic (archive_row d)))))"

section \<open>Paying a recipient\<close>

text \<open>The destination with its data: the only call that returns the account.\<close>

definition resolveDestinationForPayout ::
  "string \<Rightarrow> string \<Rightarrow> string \<Rightarrow> string option \<Rightarrow> (db, recipient \<times> destination) act" where
  "resolveDestinationForPayout orgId environment recipientId destinationId =
    (let env = normalizeEnv environment in
     abnd (aquery (\<lambda>s. find (\<lambda>r. rp_id r = recipientId \<and> rp_org r = orgId \<and> rp_env r = env
       \<and> rp_status r = ''active'') (recipients s))) (\<lambda>found. case found of
       None \<Rightarrow> athrow (InfraRecipientError ''NOT_FOUND'' 404)
     | Some rec \<Rightarrow>
         abnd (case or_else destinationId None of
             Some i \<Rightarrow> aquery (\<lambda>s. find (\<lambda>d. ds_id d = i \<and> active_of orgId recipientId d) (destinations s))
           | None \<Rightarrow> aquery (\<lambda>s. case default_first (filter (active_of orgId recipientId) (destinations s)) of
               [] \<Rightarrow> None | d # _ \<Rightarrow> Some d)) (\<lambda>dest. case dest of
           None \<Rightarrow> athrow (InfraRecipientError ''NO_DESTINATION'' 400)
         | Some d \<Rightarrow> aret (rec, d))))"

record payout_fields =
  pf_accountType :: string
  pf_currency :: "string option"
  pf_country :: "string option"
  pf_accountNumber :: "string option"
  pf_accountName :: string
  pf_bankCode :: "string option"
  pf_bankName :: "string option"
  pf_networkId :: "string option"
  pf_asset :: "string option"
  pf_network :: "string option"
  pf_walletAddress :: "string option"
  pf_dayfiTag :: "string option"
  pf_recipientPhone :: "string option"

definition no_fields :: payout_fields where
  "no_fields = \<lparr>pf_accountType = [], pf_currency = None, pf_country = None, pf_accountNumber = None,
     pf_accountName = [], pf_bankCode = None, pf_bankName = None, pf_networkId = None, pf_asset = None,
     pf_network = None, pf_walletAddress = None, pf_dayfiTag = None, pf_recipientPhone = None\<rparr>"

definition destinationToPayoutFields :: "destination \<Rightarrow> js_error + payout_fields" where
  "destinationToPayoutFields d =
    (let data = ds_data d; field = (\<lambda>keys. first_text (map data keys) []);
         prov = map_option JStr (ds_provider d); cur = map_option JStr (ds_currency d);
         named = no_fields\<lparr>pf_accountName := field [''accountName'']\<rparr>;
         local = named\<lparr>pf_currency := or_else (ds_currency d) None, pf_country := or_else (ds_country d) None\<rparr>
     in case normalizeRail (ds_rail d) of Inl e \<Rightarrow> Inl e | Inr rail \<Rightarrow>
       Inr (if rail = ''bank'' then local\<lparr>pf_accountType := ''bank'', pf_accountNumber := Some (field [''accountNumber'']),
              pf_bankCode := Some (field [''bankCode'']), pf_bankName := Some (first_text [data ''bankName'', prov] [])\<rparr>
            else if rail = ''mobile_money'' then local\<lparr>pf_accountType := ''momo'',
              pf_accountNumber := Some (field [''phone'', ''accountNumber'']),
              pf_bankCode := Some (field [''networkId'', ''bankCode'']),
              pf_bankName := Some (first_text [prov, data ''bankName''] []),
              pf_networkId := Some (field [''networkId'', ''bankCode'']),
              pf_recipientPhone := Some (field [''phone'', ''accountNumber''])\<rparr>
            else if rail = ''crypto'' then named\<lparr>pf_accountType := ''crypto'',
              pf_currency := Some (first_text [data ''asset'', cur] ''USDC''),
              pf_asset := Some (first_text [data ''asset'', cur] ''USDC''),
              pf_network := Some (first_text [data ''network''] ''stellar''),
              pf_walletAddress := Some (field [''walletAddress'', ''accountNumber''])\<rparr>
            else local\<lparr>pf_accountType := ''dayfi_tag'',
              pf_dayfiTag := Some (dropWhile (\<lambda>c. c = CHR ''@'') (field [''dayfiTag'', ''accountNumber'']))\<rparr>))"

section \<open>The invariant of the recipients\<close>

definition owner_ok :: "recipient list \<Rightarrow> destination \<Rightarrow> bool" where
  "owner_ok rs d \<longleftrightarrow> (case find_row rp_id (ds_recipient d) rs of
     Some r \<Rightarrow> rp_org r = ds_org d \<and> rp_env r = ds_env d | None \<Rightarrow> False)"

definition masked :: "destination \<Rightarrow> bool" where
  "masked d \<longleftrightarrow> maskDestination (ds_rail d) (ds_data d) (ds_provider d) = (ds_lastFour d, ds_hint d)"

definition recipients_inv :: "db \<Rightarrow> bool" where
  "recipients_inv s \<longleftrightarrow> distinct (map rp_id (recipients s)) \<and> destinations_unique (destinations s)
     \<and> list_all (owner_ok (recipients s)) (destinations s) \<and> list_all masked (destinations s)"

lemma recipients_invD:
  assumes "recipients_inv s"
  shows "distinct (map rp_id (recipients s))" "destinations_unique (destinations s)"
    "d \<in> set (destinations s) \<Longrightarrow> owner_ok (recipients s) d" "d \<in> set (destinations s) \<Longrightarrow> masked d"
  using assms by (auto simp: recipients_inv_def list_all_iff)

lemma recipients_inv_cong:
  "recipients s' = recipients s \<Longrightarrow> destinations s' = destinations s \<Longrightarrow> recipients_inv s' = recipients_inv s"
  by (simp add: recipients_inv_def)

lemma first_text_Cons: "first_text (v # vs) d = (if json_truthy v then js_String (the v) else first_text vs d)"
  by (cases v) (auto simp: first_text_def json_truthy_def)

lemma mask_provider [simp]: "maskDestination rail data (or_else p None) = maskDestination rail data p"
proof -
  have prov: "first_text (map_option JStr (or_else p None) # vs) d = first_text (map_option JStr p # vs) d" for vs d
    by (cases p) (auto simp: first_text_Cons or_else_def json_truthy_def)
  show ?thesis by (simp add: maskDestination_def first_text_Cons [of "data k" for k] Let_def prov split: option.split)
qed

text \<open>A patch of destinations that keeps the owner and what the mask is made of.\<close>

definition owner_patch :: "(destination \<Rightarrow> destination) \<Rightarrow> bool" where
  "owner_patch f \<longleftrightarrow> (\<forall>d. ds_recipient (f d) = ds_recipient d \<and> ds_org (f d) = ds_org d \<and> ds_env (f d) = ds_env d
     \<and> masked (f d) = masked d)"

lemma owner_patchD:
  "owner_patch f \<Longrightarrow> owner_ok rs (f d) = owner_ok rs d" "owner_patch f \<Longrightarrow> masked (f d) = masked d"
  by (simp_all add: owner_patch_def owner_ok_def split: option.split)

lemma owner_patches [simp]: "owner_patch (\<lambda>d. d\<lparr>ds_default := False\<rparr>)" "owner_patch archive_row"
  by (simp_all add: owner_patch_def masked_def archive_row_def)

lemma update_destinations_Inr_iff [tx_simps]:
  "update_destinations p f s = Inr (u, s') \<longleftrightarrow>
     (let rows = map (\<lambda>d. if p d then f d else d) (destinations s) in
      destinations_unique rows \<and> list_all destination_ok rows \<and> s' = s\<lparr>destinations := rows\<rparr>)"
  by (auto simp: update_destinations_def Let_def)

lemma insert_destination_Inr_iff [tx_simps]:
  "insert_destination d s = Inr (d', s') \<longleftrightarrow> d' = d \<and> destinations_unique (d # destinations s) \<and> destination_ok d
     \<and> org_exists (ds_org d) s \<and> ds_recipient d \<in> rp_id ` set (recipients s) \<and> s' = s\<lparr>destinations := d # destinations s\<rparr>"
  by (auto simp: insert_destination_def)

lemma insert_recipient_Inr_iff [tx_simps]:
  "insert_recipient r s = Inr (r', s') \<longleftrightarrow> r' = r \<and> rp_id r \<notin> rp_id ` set (recipients s) \<and> recipient_ok r
     \<and> org_exists (rp_org r) s \<and> s' = s\<lparr>recipients := r # recipients s\<rparr>"
  by (auto simp: insert_recipient_def)

lemma update_recipient_Inr_iff [tx_simps]:
  "update_recipient i orgId f s = Inr (r', s') \<longleftrightarrow> (\<exists>r. find_row (\<lambda>r. (rp_id r, rp_org r)) (i, orgId) (recipients s) = Some r
     \<and> r' = f r \<and> recipient_ok (f r)
     \<and> s' = s\<lparr>recipients := update_rows (\<lambda>r. (rp_id r, rp_org r)) (i, orgId) f (recipients s)\<rparr>)"
  by (auto simp: update_recipient_def split: option.splits)

lemma find_row_map:
  assumes "\<And>r. key (g r) = key r"
  shows "find_row key k (map g rows) = map_option g (find_row key k rows)"
  using assms by (induction rows) auto

lemma patched_destinations:
  assumes "recipients_inv s" and "owner_patch f" and "destinations_unique (map (\<lambda>d. if p d then f d else d) (destinations s))"
  shows "recipients_inv (s\<lparr>destinations := map (\<lambda>d. if p d then f d else d) (destinations s)\<rparr>)"
  using assms by (auto simp: recipients_inv_def list_all_iff owner_patchD)

lemma patched_recipient:
  assumes inv: "recipients_inv s" and f: "\<And>r. rp_id (f r) = rp_id r \<and> rp_org (f r) = rp_org r \<and> rp_env (f r) = rp_env r"
  shows "recipients_inv (s\<lparr>recipients := update_rows k i f (recipients s)\<rparr>)"
proof -
  let ?g = "\<lambda>r. if k r = i then f r else r"
  have keep: "rp_id (?g r) = rp_id r" "rp_org (?g r) = rp_org r" "rp_env (?g r) = rp_env r" for r
    using f by auto
  have "map rp_id (update_rows k i f (recipients s)) = map rp_id (recipients s)"
    using f by (simp add: update_rows_def)
  moreover have "owner_ok (update_rows k i f (recipients s)) = owner_ok (recipients s)"
    unfolding fun_eq_iff update_rows_def owner_ok_def find_row_map [where g = ?g and key = rp_id, OF keep(1)]
    using keep by (auto split: option.splits)
  ultimately show ?thesis using inv by (simp add: recipients_inv_def)
qed

lemma new_recipient:
  assumes "recipients_inv s" and "rp_id r \<notin> rp_id ` set (recipients s)"
    and s': "recipients s' = r # recipients s" "destinations s' = destinations s"
  shows "recipients_inv s'"
proof -
  have "owner_ok (r # recipients s) d" if "owner_ok (recipients s) d" for d
  proof -
    from that obtain r0 where r0: "find_row rp_id (ds_recipient d) (recipients s) = Some r0"
      by (auto simp: owner_ok_def split: option.splits)
    from find_row_Some [OF this] assms(2) have "rp_id r \<noteq> ds_recipient d" by (metis imageI)
    with that show ?thesis by (simp add: owner_ok_def)
  qed
  with assms show ?thesis by (auto simp: recipients_inv_def list_all_iff)
qed

lemma new_destination:
  assumes "recipients_inv s" and "destinations_unique (d # destinations s)" and "owner_ok (recipients s) d" and "masked d"
    and "recipients s' = recipients s" "destinations s' = d # destinations s"
  shows "recipients_inv s'"
  using assms by (simp add: recipients_inv_def)

lemma owner_in_table:
  assumes "recipients_inv s" and "r \<in> set (recipients s)" and "rp_id r = ds_recipient d" "rp_org r = ds_org d" "rp_env r = ds_env d"
  shows "owner_ok (recipients s) d"
  using find_row_mem [OF recipients_invD(1) [OF assms(1)] assms(2)] assms(3-5) by (simp add: owner_ok_def)

lemma masked_row [simp]: "masked (destination_row orgId recipientId env rec rail input i)"
  by (simp add: masked_def destination_row_def Let_def)

lemma destination_row_owner [simp]:
  "ds_recipient (destination_row orgId recipientId env rec rail input i) = recipientId"
  "ds_org (destination_row orgId recipientId env rec rail input i) = orgId"
  "ds_env (destination_row orgId recipientId env rec rail input i) = env"
  by (simp_all add: destination_row_def Let_def)

text \<open>Reading a recipient changes nothing and finds a row of the organisation.\<close>

lemma with_destinations_run:
  "with_destinations orgId row s = (Inr \<lparr>rv_recipient = row, rv_destinations =
     map mapDestinationPublic (default_first (filter (active_of orgId (rp_id row)) (destinations s)))\<rparr>, s)"
  by (simp add: with_destinations_def listDestinationsPublic_def)

lemma getRecipient_state: "getRecipient orgId i e s = (r, s') \<Longrightarrow> s' = s"
  by (auto simp: getRecipient_def Let_def with_destinations_run split: option.splits)

lemma getRecipient_found:
  assumes "getRecipient orgId i (Some (env_name env)) s = (Inr v, s')"
  shows "rv_recipient v \<in> set (recipients s)" "rp_id (rv_recipient v) = i" "rp_org (rv_recipient v) = orgId"
    "rp_env (rv_recipient v) = env"
proof -
  have e: "map_option normalizeEnv (or_else (Some (env_name env)) None) = Some env"
    by (cases env) (simp_all add: or_else_def env_name_def normalizeEnv_def)
  from assms show "rv_recipient v \<in> set (recipients s)" "rp_id (rv_recipient v) = i" "rp_org (rv_recipient v) = orgId"
    "rp_env (rv_recipient v) = env"
    by (auto simp: getRecipient_def Let_def e with_destinations_run find_Some_iff split: option.splits)
qed

end
