(* ===== verification/Fee_Payer.thy ===== *)
theory Fee_Payer
  imports Stellar_Adapter
begin

text \<open>
  \<open>src/src/modules/infra/infraStellarFeePayerService.ts\<close>: the account that pays the network fee of a
  sponsored payment, its observed reserve and the check before a submission.
\<close>

record fee_payer_view =
  fpv_publicKey :: "string option"
  fpv_network :: string
  fpv_availableXlm :: string
  fpv_minimumReserveXlm :: string
  fpv_enabled :: bool
  fpv_sufficient :: bool
  fpv_mode :: string
  fpv_hasSigningMaterial :: bool

definition getStellarFeePayerMode :: "sdk \<Rightarrow> string" where
  "getStellarFeePayerMode sd =
    (let raw = env_word sd ''DAYFI_STELLAR_FEE_PAYER_MODE'' [] in
     if raw = ''live'' \<or> raw = ''mock'' then raw else ''mock'')"

definition isStellarFeePayerEnabled :: "sdk \<Rightarrow> bool" where
  "isStellarFeePayerEnabled sd =
    (let raw = env_word sd ''DAYFI_STELLAR_FEE_PAYER_ENABLED'' ''true'' in
     raw \<noteq> ''false'' \<and> raw \<noteq> ''0'' \<and> raw \<noteq> ''off'')"

text \<open>\<open>/^S[A-Z0-9]{55}$/\<close>\<close>

definition is_s_secret :: "string \<Rightarrow> bool" where
  "is_s_secret a \<longleftrightarrow> length a = 56 \<and> hd a = CHR ''S'' \<and> list_all (\<lambda>c. is_upper c \<or> is_digit c) (tl a)"

definition configuredPublicKey :: "sdk \<Rightarrow> string option" where
  "configuredPublicKey sd =
    (let pk = env_trim sd ''DAYFI_STELLAR_FEE_PAYER_PUBLIC_KEY''; secret = env_trim sd ''DAYFI_STELLAR_FEE_PAYER_SECRET''
     in if is_g_address pk then Some pk
        else if is_s_secret secret then sdk_publicKey sd secret else None)"

definition hasSigningMaterial :: "sdk \<Rightarrow> bool" where
  "hasSigningMaterial sd = is_s_secret (env_trim sd ''DAYFI_STELLAR_FEE_PAYER_SECRET'')"

definition getMinimumReserveXlmMinor :: "sdk \<Rightarrow> js_error + int" where
  "getMinimumReserveXlmMinor sd =
    (case parseXlmToMinor (RStr (trim (or_str (sdk_env sd ''DAYFI_STELLAR_FEE_PAYER_MIN_XLM'') ''5''))) of
       Inr n \<Rightarrow> Inr n | Inl e \<Rightarrow> parseXlmToMinor (RStr ''5''))"

definition observeAvailableXlmMinor :: "sdk \<Rightarrow> js_error + int" where
  "observeAvailableXlmMinor sd =
    (if getStellarFeePayerMode sd = ''mock'' then
       (let raw = trim (or_str (sdk_env sd ''DAYFI_STELLAR_FEE_PAYER_MOCK_XLM'') ''100'')
        in parseXlmToMinor (RStr (or_str (Some raw) ''0'')))
     else case configuredPublicKey sd of
       None \<Rightarrow> Inl (InfraFeePayerError ''FEE_PAYER_UNCONFIGURED'' 503)
     | Some pk \<Rightarrow> bind_sum (getStellarConfig sd) (\<lambda>cfg.
         case sdk_loadAccount sd (cfg_horizonUrl cfg) pk of
           None \<Rightarrow> Inl (InfraFeePayerError ''FEE_PAYER_OBSERVE_FAILED'' 502)
         | Some hbs \<Rightarrow>
             (case parseXlmToMinor (RStr (or_str (map_option hb_balance (find (\<lambda>b. hb_type b = Some ''native'') hbs)) ''0'')) of
                Inr n \<Rightarrow> Inr n | Inl e \<Rightarrow> Inl (InfraFeePayerError ''FEE_PAYER_OBSERVE_FAILED'' 502))))"

definition getStellarFeePayerStatus :: "sdk \<Rightarrow> js_error + fee_payer_view" where
  "getStellarFeePayerStatus sd =
    bind_sum (getStellarConfig sd) (\<lambda>cfg.
    let publicKey = configuredPublicKey sd in
    bind_sum (getMinimumReserveXlmMinor sd) (\<lambda>minimum.
    let enabled = isStellarFeePayerEnabled sd in
    bind_sum (case observeAvailableXlmMinor sd of
        Inr n \<Rightarrow> Inr n
      | Inl e \<Rightarrow> if e = InfraFeePayerError ''FEE_PAYER_UNCONFIGURED'' 503 then Inr 0 else Inl e) (\<lambda>available.
    Inr \<lparr>fpv_publicKey = publicKey, fpv_network = (if cfg_isTestnet cfg then ''testnet'' else ''mainnet''),
      fpv_availableXlm = formatXlm available, fpv_minimumReserveXlm = formatXlm minimum, fpv_enabled = enabled,
      fpv_sufficient = (enabled \<and> publicKey \<noteq> None \<and> minimum \<le> available),
      fpv_mode = getStellarFeePayerMode sd, fpv_hasSigningMaterial = hasSigningMaterial sd\<rparr>)))"

definition assertNetworkFeeReserve :: "sdk \<Rightarrow> js_error + fee_payer_view" where
  "assertNetworkFeeReserve sd = bind_sum (getStellarFeePayerStatus sd) (\<lambda>status.
     if \<not> fpv_enabled status then Inl (InfraFeePayerError ''FEE_PAYER_DISABLED'' 503)
     else if or_else (fpv_publicKey status) None = None then Inl (InfraFeePayerError ''FEE_PAYER_UNCONFIGURED'' 503)
     else if \<not> fpv_sufficient status then Inl (InfraFeePayerError ''INSUFFICIENT_NETWORK_RESERVE'' 503)
     else Inr status)"

definition getStellarFeePayerSigningSecret :: "sdk \<Rightarrow> js_error + string" where
  "getStellarFeePayerSigningSecret sd =
    (let secret = env_trim sd ''DAYFI_STELLAR_FEE_PAYER_SECRET'' in
     if is_s_secret secret then Inr secret else Inl (InfraFeePayerError ''FEE_PAYER_SECRET_MISSING'' 503))"

section \<open>What the check promises\<close>

lemma observe_parse_error: "parseXlmToMinor raw = Inl e \<Longrightarrow> e = InfraMoneyError ''INVALID_AMOUNT'' 400"
  by (auto simp: parseXlmToMinor_def parseDecimalToMinor_def Let_def split: js_raw.splits option.splits if_splits)

lemma config_error: "getStellarConfig sd = Inl e \<Longrightarrow> \<exists>m. e = JsError m"
  by (auto simp: getStellarConfig_def horizon_for_def Let_def split: sum.splits if_splits)

lemma observe_configured:
  assumes "configuredPublicKey sd = Some pk"
  shows "observeAvailableXlmMinor sd \<noteq> Inl (InfraFeePayerError ''FEE_PAYER_UNCONFIGURED'' 503)"
proof (cases "getStellarConfig sd")
  case (Inl e)
  with config_error [of sd e] assms show ?thesis
    by (auto simp: observeAvailableXlmMinor_def Let_def dest: observe_parse_error)
next
  case (Inr cfg)
  with assms show ?thesis
    by (auto simp: observeAvailableXlmMinor_def Let_def dest: observe_parse_error split: option.splits sum.splits)
qed

lemma assertNetworkFeeReserve_Inr:
  assumes "assertNetworkFeeReserve sd = Inr v"
  obtains available minimum pk where "observeAvailableXlmMinor sd = Inr available" "getMinimumReserveXlmMinor sd = Inr minimum"
    "minimum \<le> available" "fpv_availableXlm v = formatXlm available" "fpv_minimumReserveXlm v = formatXlm minimum"
    "isStellarFeePayerEnabled sd" "configuredPublicKey sd = Some pk" "fpv_publicKey v = Some pk"
proof -
  from assms obtain cfg minimum available where
    obs: "(case observeAvailableXlmMinor sd of Inr n \<Rightarrow> Inr n
      | Inl e \<Rightarrow> if e = InfraFeePayerError ''FEE_PAYER_UNCONFIGURED'' 503 then Inr 0 else Inl e) = Inr available"
    and m: "getMinimumReserveXlmMinor sd = Inr minimum"
    and v: "fpv_sufficient v = (isStellarFeePayerEnabled sd \<and> configuredPublicKey sd \<noteq> None \<and> minimum \<le> available)"
      "fpv_availableXlm v = formatXlm available" "fpv_minimumReserveXlm v = formatXlm minimum"
      "fpv_publicKey v = configuredPublicKey sd"
    and ok: "fpv_sufficient v"
    by (auto simp: assertNetworkFeeReserve_def getStellarFeePayerStatus_def Let_def bind_sum_Inr split: if_splits)
  from v(1) ok obtain pk where pk: "configuredPublicKey sd = Some pk" "minimum \<le> available" "isStellarFeePayerEnabled sd"
    by auto
  have "observeAvailableXlmMinor sd \<noteq> Inl (InfraFeePayerError ''FEE_PAYER_UNCONFIGURED'' 503)"
    by (rule observe_configured [OF pk(1)])
  with obs have "observeAvailableXlmMinor sd = Inr available" by (auto split: sum.splits if_splits)
  then show thesis using that m pk v by simp
qed

end
