(* ===== verification/Offramp.thy ===== *)
theory Offramp
  imports Lifecycle Fee_Payer
begin

text \<open>
  \<open>src/src/modules/infra/infraFiatWithdrawalService.ts\<close>: the withdrawal of a locked payout to a bank.
  The organisation's USDC goes to the treasury on Stellar, that payment is confirmed, then the
  provider pays the bank. The provider's HTTP client is the record \<open>provider\<close>; the answers of Horizon
  to the polling loop are a function of the attempt.
\<close>

section \<open>Parameters and rows\<close>

datatype horizon_answer =
    HorizonFound horizon_tx "horizon_op list"
  | HorizonError "nat option"

record provider =
  yc_configured :: bool
  yc_channels :: "js_error + json"
  yc_payment :: "string \<Rightarrow> js_error + json"
  yc_create :: "nat \<Rightarrow> json \<Rightarrow> js_error + json"
  yc_horizon :: "nat \<Rightarrow> string \<Rightarrow> horizon_answer"

definition getInfraFiatOfframpMode :: "sdk \<Rightarrow> string" where
  "getInfraFiatOfframpMode sd =
    (let raw = env_word sd ''DAYFI_INFRA_FIAT_OFFRAMP_MODE'' ''off'' in
     if raw = ''mock'' \<or> raw = ''live'' \<or> raw = ''off'' then raw else ''off'')"

definition isFiatOfframpEnabled :: "sdk \<Rightarrow> bool" where
  "isFiatOfframpEnabled sd \<longleftrightarrow> getInfraFiatOfframpMode sd \<noteq> ''off''"

record settlement_view =
  sw_id :: string
  sw_orgId :: string
  sw_environment :: infra_env
  sw_payout :: "string option"
  sw_rail :: string
  sw_asset :: string
  sw_amount :: rat
  sw_source :: "string option"
  sw_destination :: "string option"
  sw_status :: string
  sw_external :: "string option"
  sw_provider :: "string option"
  sw_metadata :: jmap
  sw_failure :: "string option"
  sw_key :: string

definition mapSettlement :: "settlement \<Rightarrow> settlement_view" where
  "mapSettlement row = \<lparr>sw_id = s_id row, sw_orgId = s_org row, sw_environment = s_env row,
     sw_payout = s_payout_tx row, sw_rail = s_rail row, sw_asset = s_asset row, sw_amount = s_amount row,
     sw_source = s_source row, sw_destination = s_destination row, sw_status = s_status row,
     sw_external = s_external row, sw_provider = s_provider row, sw_metadata = s_metadata row,
     sw_failure = s_failure row, sw_key = s_key row\<rparr>"

definition loadPayout :: "string \<Rightarrow> string \<Rightarrow> (db, txn) act" where
  "loadPayout orgId payoutId =
    abnd (aquery (\<lambda>s. find_row (\<lambda>t. (t_id t, t_org t, t_direction t)) (payoutId, orgId, ''payout'') (txns s))) (\<lambda>row.
    case row of None \<Rightarrow> athrow (InfraFiatWithdrawalError ''PAYOUT_NOT_FOUND'' 404) | Some t \<Rightarrow> aret t)"

definition patchPayoutMeta :: "string \<Rightarrow> jmap \<Rightarrow> string option \<Rightarrow> (db, unit) act" where
  "patchPayoutMeta payoutId patch status =
    (case or_else status None of
       Some st \<Rightarrow> sql_txn payoutId (\<lambda>t. t\<lparr>t_status := st, t_metadata := t_metadata t ++ patch\<rparr>)
     | None \<Rightarrow> sql_txn payoutId (\<lambda>t. t\<lparr>t_metadata := t_metadata t ++ patch\<rparr>))"

definition loadSettlementByKey :: "string \<Rightarrow> string \<Rightarrow> (db, settlement option) act" where
  "loadSettlementByKey orgId idempotencyKey = settlement_by_key orgId idempotencyKey"

definition loadSettlementByRail :: "string \<Rightarrow> string \<Rightarrow> (db, settlement option) act" where
  "loadSettlementByRail payoutId rail =
    aquery (\<lambda>s. find_row (\<lambda>st. (s_payout_tx st, s_rail st)) (Some payoutId, rail) (settlements s))"

definition usdcAmountFromPayout :: "txn \<Rightarrow> js_error + rat" where
  "usdcAmountFromPayout payout =
    (let own = (if to_upper (t_currency payout) = ''USDC'' \<and> 0 < t_amount payout then Inr (t_amount payout)
           else Inl (InfraFiatWithdrawalError ''NO_USDC_AMOUNT'' 409))
     in case t_metadata payout ''usdcAmount'' of
          None \<Rightarrow> own
        | Some j \<Rightarrow> (case js_Number_json j of Fin n \<Rightarrow> if 0 < n then Inr n else own | _ \<Rightarrow> own))"

section \<open>Observing the chain\<close>

text \<open>An account that cannot be loaded has nothing to spend.\<close>

definition orgWalletUsdcBalance :: "sdk \<Rightarrow> string \<Rightarrow> js_error + js_num" where
  "orgWalletUsdcBalance sd publicKey = bind_sum (getStellarConfig sd) (\<lambda>cfg.
     Inr (case sdk_loadAccount sd (cfg_horizonUrl cfg) publicKey of
       None \<Rightarrow> Fin 0
     | Some hbs \<Rightarrow>
         let row = find (\<lambda>b. hb_code b = Some ''USDC'' \<and> hb_issuer b = Some (resolveUsdcIssuer sd (cfg_isTestnet cfg))) hbs
         in (case parse_float (or_str (map_option hb_balance row) ''0'') of NaN \<Rightarrow> Fin 0 | n \<Rightarrow> n)))"

text \<open>The guard \<open>onChain + 1e-7 < amount\<close>, negated, with the infinities of \<open>parseFloat\<close>.\<close>

definition covers :: "js_num \<Rightarrow> rat \<Rightarrow> bool" where
  "covers onChain amount = (case onChain of
     Fin x \<Rightarrow> \<not> x + 1 / 10000000 < amount | NaN \<Rightarrow> True | Infinite neg \<Rightarrow> \<not> neg)"

record expected_payment =
  ep_hash :: string
  ep_source :: string
  ep_destination :: string
  ep_amount :: rat

definition amount_differs :: "string \<Rightarrow> rat \<Rightarrow> bool" where
  "amount_differs observed expected = (case js_Number_string observed of
     Fin x \<Rightarrow> 1 / 10000000 < \<bar>x - expected\<bar> | NaN \<Rightarrow> False | Infinite neg \<Rightarrow> True)"

definition checkHorizonPayment ::
  "sdk \<Rightarrow> expected_payment \<Rightarrow> horizon_tx \<Rightarrow> horizon_op list \<Rightarrow> js_error + (string option \<times> string option)" where
  "checkHorizonPayment sd input t ops =
    (if \<not> ht_successful t then Inl (InfraFiatWithdrawalError ''STELLAR_TX_FAILED'' 502)
     else case find (\<lambda>op. ho_type op = ''payment'') ops of
       None \<Rightarrow> Inl (InfraFiatWithdrawalError ''STELLAR_NO_PAYMENT'' 502)
     | Some op \<Rightarrow>
         if ho_from op \<noteq> ep_source input then Inl (InfraFiatWithdrawalError ''STELLAR_SOURCE_MISMATCH'' 502)
         else if ho_to op \<noteq> ep_destination input then Inl (InfraFiatWithdrawalError ''STELLAR_DEST_MISMATCH'' 502)
         else if ho_code op \<noteq> ''USDC'' \<or> ho_issuer op \<noteq> resolveUsdcIssuer sd True
         then Inl (InfraFiatWithdrawalError ''STELLAR_ASSET_MISMATCH'' 502)
         else if amount_differs (ho_amount op) (ep_amount input)
         then Inl (InfraFiatWithdrawalError ''STELLAR_AMOUNT_MISMATCH'' 502)
         else Inr (ht_fee_charged t, or_else (ht_fee_account t) None))"

definition MAX_ATTEMPTS :: nat where
  "MAX_ATTEMPTS = 24"

text \<open>The loop: a payment that is found is judged at once, a 404 is retried until the last attempt.\<close>

function pollHorizon ::
  "sdk \<Rightarrow> provider \<Rightarrow> expected_payment \<Rightarrow> nat \<Rightarrow> js_error + (string option \<times> string option)" where
  "pollHorizon sd yc input attempt =
    (if MAX_ATTEMPTS \<le> attempt then Inl (InfraFiatWithdrawalError ''HORIZON_VERIFY_FAILED'' 502)
     else case yc_horizon yc attempt (ep_hash input) of
       HorizonFound t ops \<Rightarrow> checkHorizonPayment sd input t ops
     | HorizonError status \<Rightarrow>
         if status \<noteq> Some 404 \<or> attempt = MAX_ATTEMPTS - 1
         then Inl (InfraFiatWithdrawalError ''HORIZON_VERIFY_FAILED'' 502)
         else pollHorizon sd yc input (Suc attempt))"
  by pat_completeness auto
termination by (relation "measure (\<lambda>(sd, yc, input, attempt). MAX_ATTEMPTS - attempt)") auto

declare pollHorizon.simps [simp del]

definition assertHorizonPayment :: "sdk \<Rightarrow> provider \<Rightarrow> expected_payment \<Rightarrow> js_error + (string option \<times> string option)" where
  "assertHorizonPayment sd yc input =
    (if getStellarSettlementMode sd = ''mock'' then Inr (Some ''100'', None)
     else bind_sum (getStellarConfig sd) (\<lambda>cfg. pollHorizon sd yc input 0))"

section \<open>USDC to the treasury\<close>

definition number_text :: "rat \<Rightarrow> string" where
  "number_text x = formatUsdc (math_round (x * 10000000))"

definition stellarKey :: "string \<Rightarrow> string" where
  "stellarKey payoutId = ''stellar:offramp:'' @ payoutId"

definition payout_settlement ::
  "string \<Rightarrow> txn \<Rightarrow> string \<Rightarrow> string \<Rightarrow> rat \<Rightarrow> string \<Rightarrow> string \<Rightarrow> string \<Rightarrow> jmap \<Rightarrow> string \<Rightarrow> settlement" where
  "payout_settlement orgId payout rail asset amount source destination key meta i =
    \<lparr>s_id = i, s_org = orgId, s_env = t_env payout, s_payout_tx = Some (t_id payout), s_collection_tx = None,
     s_rail = rail, s_asset = asset, s_amount = numeric7 amount, s_source = Some source,
     s_destination = Some destination, s_status = ''pending'', s_external = None, s_provider = None,
     s_metadata = meta, s_failure = None, s_key = key\<rparr>"

record offramp_keys =
  ok_alice :: signing
  ok_treasury :: string
  ok_feePayerSecret :: string
  ok_feePayer :: string

text \<open>The checks before anything is written: treasury, signer, on-chain balance, fee reserve.\<close>

definition offrampKeys :: "sdk \<Rightarrow> string \<Rightarrow> txn \<Rightarrow> rat \<Rightarrow> (db, offramp_keys) act" where
  "offrampKeys sd orgId payout usdcAmount =
    (case or_else (getDayfiTreasuryPublicKey sd) None of
       None \<Rightarrow> athrow (InfraFiatWithdrawalError ''TREASURY_UNCONFIGURED'' 503)
     | Some treasuryPk \<Rightarrow>
         abnd (getOrgStellarSigningSecret sd orgId (env_name (t_env payout))) (\<lambda>alice.
         if sg_publicKey alice = treasuryPk then athrow (InfraFiatWithdrawalError ''TREASURY_IS_SOURCE'' 400)
         else
           abnd (if getInfraFiatOfframpMode sd = ''live'' then
               abnd (aof_sum (orgWalletUsdcBalance sd (sg_publicKey alice))) (\<lambda>onChain.
               arequire (covers onChain usdcAmount)
                 (InfraFiatWithdrawalError ''INSUFFICIENT_ONCHAIN_BALANCE'' 409))
             else aret ()) (\<lambda>_.
           abnd (aof_sum (assertNetworkFeeReserve sd)) (\<lambda>_.
           abnd (aof_sum (getStellarFeePayerSigningSecret sd)) (\<lambda>feePayerSecret.
           abnd (aof_sum (keypair sd feePayerSecret)) (\<lambda>feePayerPk.
           aret \<lparr>ok_alice = alice, ok_treasury = treasuryPk, ok_feePayerSecret = feePayerSecret,
             ok_feePayer = feePayerPk\<rparr>))))))"

definition pending_envelope :: "jmap \<Rightarrow> (string \<times> string) option" where
  "pending_envelope meta = (case meta ''pendingEnvelopeXdr'' of
     Some (JStr xdr) \<Rightarrow> if json_truthy (meta ''pendingTransactionHash'')
       then Some (xdr, case meta ''pendingTransactionHash'' of Some v \<Rightarrow> js_String v | None \<Rightarrow> []) else None
   | _ \<Rightarrow> None)"

definition offrampMemo :: "string \<Rightarrow> string" where
  "offrampMemo payoutId = ''dayfi:h:'' @ take 20 (filter (\<lambda>c. c \<noteq> CHR ''-'') payoutId)"

text \<open>The envelope that was stored, or a new one that is stored before it is sent.\<close>

definition offrampEnvelope :: "sdk \<Rightarrow> offramp_keys \<Rightarrow> txn \<Rightarrow> rat \<Rightarrow> settlement \<Rightarrow> (db, prepared) act" where
  "offrampEnvelope sd keys payout usdcAmount settlement =
    (case pending_envelope (s_metadata settlement) of
       Some (xdr, hash) \<Rightarrow> aret \<lparr>pp_xdr = xdr, pp_hash = hash, pp_source = sg_publicKey (ok_alice keys),
         pp_feePayer = ok_feePayer keys, pp_destination = ok_treasury keys, pp_amount = number_text usdcAmount\<rparr>
     | None \<Rightarrow>
         abnd (aof_sum (prepareSponsoredUsdcPayment sd \<lparr>si_destination = ok_treasury keys,
           si_amount = RNum (Fin usdcAmount), si_memo = Some (offrampMemo (t_id payout)),
           si_sourceSecret = sg_secret (ok_alice keys), si_feePayerSecret = ok_feePayerSecret keys\<rparr>)) (\<lambda>p.
         abnd (sql_settlement (s_id settlement) (\<lambda>st. st\<lparr>s_external := Some (pp_hash p),
           s_metadata := s_metadata st ++ [''pendingEnvelopeXdr'' \<mapsto> JStr (pp_xdr p),
             ''pendingTransactionHash'' \<mapsto> JStr (pp_hash p)]\<rparr>)) (\<lambda>_.
         aret p)))"

definition offramp_release :: "string \<Rightarrow> string \<Rightarrow> string \<Rightarrow> payout_input" where
  "offramp_release orgId payoutId source = \<lparr>py_orgId = Some orgId, py_transactionId = payoutId,
     py_providerEventId = None, py_source = Some source, py_status = Some ''failed''\<rparr>"

text \<open>The \<open>catch\<close> of the submission: the settlement fails and the lock is returned.\<close>

definition stellarFailed :: "sdk \<Rightarrow> string \<Rightarrow> string \<Rightarrow> string \<Rightarrow> js_error \<Rightarrow> (db, 'a) act" where
  "stellarFailed sd orgId payoutId settlementId err =
    (let reason = message_of err in
     abnd (sql_settlement settlementId (\<lambda>st. st\<lparr>s_status := ''failed'', s_failure := Some (take 500 reason)\<rparr>)) (\<lambda>_.
     abnd (releasePayoutLock sd (offramp_release orgId payoutId ''offramp_stellar_failed'')) (\<lambda>_.
     abnd (patchPayoutMeta payoutId [''offRampPhase'' \<mapsto> JStr ''stellar_failed'',
       ''stellarFailureReason'' \<mapsto> JStr reason] None) (\<lambda>_.
     athrow (InfraFiatWithdrawalError ''STELLAR_SUBMIT_FAILED'' 502)))))"

definition stellar_submitted :: "sponsored \<Rightarrow> settlement \<Rightarrow> settlement" where
  "stellar_submitted p st = st\<lparr>s_status := ''submitted'', s_external := Some (sp_hash p), s_provider := Some (sp_hash p),
     s_source := Some (sp_source p), s_destination := Some (sp_destination p),
     s_metadata := s_metadata st ++ [''stellar'' \<mapsto> JObj [(''transactionHash'', JStr (sp_hash p)),
         (''ledgerSequence'', case sp_ledger p of Some k \<Rightarrow> JNum (of_int k) | None \<Rightarrow> JNull),
         (''amount'', JStr (sp_amount p)), (''envelopeType'', JStr ''FEE_BUMP'')],
       ''usdcSource'' \<mapsto> JStr (sp_source p), ''feePayerPublicKey'' \<mapsto> JStr (sp_feePayer p),
       ''actualNetworkFeeXlm'' \<mapsto> opt_json (sp_feeXlm p), ''actualNetworkFeeStroops'' \<mapsto> opt_json (sp_feeStroops p)]\<rparr>"

text \<open>The payment is on the chain, or it is not: a failure returns the lock, anything else is an error.\<close>

definition stellarConfirmed :: "sdk \<Rightarrow> string \<Rightarrow> string \<Rightarrow> string \<Rightarrow> sponsored \<Rightarrow> (db, unit) act" where
  "stellarConfirmed sd orgId payoutId settlementId p =
    abnd (aof_sum (verifyUsdcPayment sd (sp_hash p))) (\<lambda>verified.
    if \<not> (getStellarSettlementMode sd = ''mock'' \<or> sp_mode p = ''mock'') \<and> \<not> ve_confirmed verified \<and> sp_ledger p = None then
      (if str_includes (to_upper (ve_status verified)) ''FAIL'' then
         abnd (sql_settlement settlementId (\<lambda>st. st\<lparr>s_status := ''failed'',
           s_failure := Some (''On-chain failure: '' @ ve_status verified)\<rparr>)) (\<lambda>_.
         abnd (releasePayoutLock sd (offramp_release orgId payoutId ''offramp_stellar_confirm_failed'')) (\<lambda>_.
         athrow (InfraFiatWithdrawalError ''STELLAR_CONFIRM_FAILED'' 502)))
       else athrow (InfraFiatWithdrawalError ''NOT_CONFIRMED'' 409))
    else aret ())"

definition received_meta :: "sponsored \<Rightarrow> string option \<Rightarrow> string option \<Rightarrow> jmap" where
  "received_meta p feeStroops feeAccount =
    [''treasuryReceived'' \<mapsto> JBool True, ''horizonFeeChargedStroops'' \<mapsto> opt_json feeStroops,
     ''horizonFeeAccount'' \<mapsto> opt_json feeAccount, ''actualNetworkFeeXlm'' \<mapsto> opt_json (sp_feeXlm p),
     ''actualNetworkFeeStroops'' \<mapsto> opt_json (or_else (sp_feeStroops p) feeStroops)]"

definition afterStellarSubmit ::
  "sdk \<Rightarrow> provider \<Rightarrow> string \<Rightarrow> txn \<Rightarrow> rat \<Rightarrow> offramp_keys \<Rightarrow> string \<Rightarrow> sponsored \<Rightarrow> (db, settlement) act" where
  "afterStellarSubmit sd yc orgId payout usdcAmount keys settlementId p =
    abnd (sql_settlement settlementId (stellar_submitted p)) (\<lambda>_.
    abnd (stellarConfirmed sd orgId (t_id payout) settlementId p) (\<lambda>_.
    abnd (aof_sum (assertHorizonPayment sd yc \<lparr>ep_hash = sp_hash p, ep_source = sg_publicKey (ok_alice keys),
      ep_destination = ok_treasury keys, ep_amount = usdcAmount\<rparr>)) (\<lambda>(feeStroops, feeAccount).
    abnd (sql_settlement settlementId (\<lambda>st. st\<lparr>s_status := ''confirmed'',
      s_metadata := s_metadata st ++ received_meta p feeStroops feeAccount, s_failure := None\<rparr>)) (\<lambda>_.
    abnd (patchPayoutMeta (t_id payout) [''offRampPhase'' \<mapsto> JStr ''treasury_received'',
      ''stellarConfirmed'' \<mapsto> JBool True, ''stellarTransactionHash'' \<mapsto> JStr (sp_hash p),
      ''treasuryPublicKey'' \<mapsto> JStr (ok_treasury keys), ''actualNetworkFeeXlm'' \<mapsto> opt_json (sp_feeXlm p),
      ''actualNetworkFeeStroops'' \<mapsto> opt_json (or_else (sp_feeStroops p) feeStroops)] None) (\<lambda>_.
    run_tx (bnd (query (\<lambda>s. find_row (\<lambda>st. (s_org st, s_key st)) (orgId, stellarKey (t_id payout)) (settlements s))) the_row))))))"

definition sendToTreasury ::
  "sdk \<Rightarrow> provider \<Rightarrow> string \<Rightarrow> txn \<Rightarrow> rat \<Rightarrow> offramp_keys \<Rightarrow> settlement \<Rightarrow> (db, settlement) act" where
  "sendToTreasury sd yc orgId payout usdcAmount keys settlement =
    abnd (patchPayoutMeta (t_id payout) [''offRampPhase'' \<mapsto> JStr ''stellar_submitted'', ''offRamp'' \<mapsto> JBool True] None) (\<lambda>_.
    abnd (offrampEnvelope sd keys payout usdcAmount settlement) (\<lambda>envelope.
    case submitPreparedSponsoredPayment sd envelope of
      Inl err \<Rightarrow> stellarFailed sd orgId (t_id payout) (s_id settlement) err
    | Inr p \<Rightarrow> afterStellarSubmit sd yc orgId payout usdcAmount keys (s_id settlement) p))"

definition settleStellarToTreasury :: "sdk \<Rightarrow> provider \<Rightarrow> string \<Rightarrow> txn \<Rightarrow> rat \<Rightarrow> (db, settlement) act" where
  "settleStellarToTreasury sd yc orgId payout usdcAmount =
    abnd (loadSettlementByKey orgId (stellarKey (t_id payout))) (\<lambda>existing.
    if map_option s_status existing = Some ''confirmed'' then aret (the existing)
    else
      abnd (offrampKeys sd orgId payout usdcAmount) (\<lambda>keys.
      abnd (case existing of
          Some st \<Rightarrow> aret st
        | None \<Rightarrow> insert_settlement_row (payout_settlement orgId payout ''STELLAR'' ''USDC'' usdcAmount
            (sg_publicKey (ok_alice keys)) (ok_treasury keys) (stellarKey (t_id payout))
            [''purpose'' \<mapsto> JStr ''fiat_offramp_treasury'', ''envelopeType'' \<mapsto> JStr ''FEE_BUMP'',
             ''usdcSource'' \<mapsto> JStr (sg_publicKey (ok_alice keys)), ''feePayerPublicKey'' \<mapsto> JStr (ok_feePayer keys),
             ''signingSource'' \<mapsto> JStr ''org_wallet''])) (\<lambda>settlement.
      sendToTreasury sd yc orgId payout usdcAmount keys settlement)))"

section \<open>The provider's payout\<close>

definition providerKey :: "string \<Rightarrow> string" where
  "providerKey payoutId = ''provider:offramp:'' @ payoutId"

definition sequence_of :: "txn \<Rightarrow> string" where
  "sequence_of payout = first_text [t_metadata payout ''sequenceId'', map_option JStr (t_external_id payout)] (t_id payout)"

definition is_object :: "json \<Rightarrow> bool" where
  "is_object j = (case j of JObj kvs \<Rightarrow> True | JArr js \<Rightarrow> True | _ \<Rightarrow> False)"

definition parseYellowCardChannelList :: "json \<Rightarrow> json list" where
  "parseYellowCardChannelList raw = (case raw of
     JArr cs \<Rightarrow> filter is_object cs
   | JObj kvs \<Rightarrow> (case map_of kvs ''channels'' of
       Some (JArr cs) \<Rightarrow> filter is_object cs
     | _ \<Rightarrow> (case map_of kvs ''data'' of Some (JArr cs) \<Rightarrow> filter is_object cs | _ \<Rightarrow> []))
   | _ \<Rightarrow> [])"

definition channel_for :: "string \<Rightarrow> string \<Rightarrow> json list \<Rightarrow> string" where
  "channel_for country currency cs =
    (let match = find (\<lambda>c. to_upper (first_text [object_field (Some c) ''country''] []) = country
           \<and> to_upper (first_text [object_field (Some c) ''currency'', object_field (Some c) ''localCurrency''] []) = currency) cs;
         head = (case cs of [] \<Rightarrow> None | c # _ \<Rightarrow> Some c)
     in case nullish (object_field match ''id'') (nullish (object_field head ''id'')
          (nullish (object_field head ''channelId'') None)) of
          Some v \<Rightarrow> js_String v | None \<Rightarrow> [])"

definition opt_field :: "string \<Rightarrow> json option \<Rightarrow> (string \<times> json) list" where
  "opt_field k v = (case v of Some j \<Rightarrow> [(k, j)] | None \<Rightarrow> [])"

definition json_or :: "json option \<Rightarrow> json option \<Rightarrow> json option" where
  "json_or a b = (if json_truthy a then a else b)"

definition payout_request :: "txn \<Rightarrow> string \<Rightarrow> string \<Rightarrow> json" where
  "payout_request payout sequenceId channelId =
    (let meta = t_metadata payout; recipient = json_or (meta ''recipient'') None;
         country = to_upper (or_str (t_country payout) ''NG'');
         currency = to_upper (or_str (Some (t_currency payout)) ''NGN'')
     in JObj [(''sequenceId'', JStr sequenceId), (''channelId'', JStr channelId), (''currency'', JStr currency),
       (''country'', JStr country), (''reason'', JStr (to_lower (first_text [meta ''reason''] ''other''))),
       (''amount'', JNum (t_amount payout)), (''forceAccept'', JBool True),
       (''destination'', JObj ([(''accountNumber'', JStr (trim (first_text [object_field recipient ''accountNumber''] []))),
          (''accountType'', JStr (if t_method payout = ''mobile_money'' then ''momo'' else ''bank''))]
          @ opt_field ''networkId'' (json_or (object_field recipient ''bankCode'')
              (json_or (object_field recipient ''networkId'') (meta ''networkId'')))
          @ [(''accountName'', JStr (trim (first_text [object_field recipient ''accountName''] [])))])),
       (''recipient'', if json_truthy (meta ''ycParty'') then the (meta ''ycParty'') else
          JObj [(''name'', JStr (first_text [object_field recipient ''accountName''] ''Customer'')), (''country'', JStr country),
            (''phone'', JStr ''+2348000000000''), (''address'', JStr ''Lagos''), (''dob'', JStr ''1990-01-01''),
            (''email'', JStr ''offramp@dayfi.test''), (''idNumber'', JStr ''A00000000''), (''idType'', JStr ''passport'')])])"

text \<open>
  The live call: the channel, then the payment of this sequence if there is one, else a new request.
  The inner \<open>catch\<close> covers the lookup and the creation, and creates the request (again).
\<close>

definition callProvider :: "provider \<Rightarrow> txn \<Rightarrow> string \<Rightarrow> js_error + json" where
  "callProvider yc payout sequenceId =
    bind_sum (yc_channels yc) (\<lambda>raw.
    let channels = parseYellowCardChannelList raw;
        country = to_upper (or_str (t_country payout) ''NG'');
        currency = to_upper (or_str (Some (t_currency payout)) ''NGN'');
        own = first_text [t_metadata payout ''channelId''] [];
        channelId = (if own \<noteq> [] then own else channel_for country currency channels)
    in if channelId = [] then Inl (InfraFiatWithdrawalError ''NO_PROVIDER_CHANNEL'' 502)
       else
         let request = payout_request payout sequenceId channelId;
             inner = bind_sum (yc_payment yc sequenceId) (\<lambda>found.
               if json_truthy (object_field (Some found) ''id'') \<or> json_truthy (object_field (Some found) ''sequenceId'')
               then Inr found else yc_create yc 0 request)
         in (case inner of Inr p \<Rightarrow> Inr p | Inl e \<Rightarrow> yc_create yc 1 request))"

definition providerFailed :: "string \<Rightarrow> string \<Rightarrow> string \<Rightarrow> (db, 'a) act" where
  "providerFailed payoutId settlementId reason =
    abnd (sql_settlement settlementId (\<lambda>st. st\<lparr>s_status := ''failed'', s_failure := Some (take 500 reason)\<rparr>)) (\<lambda>_.
    abnd (patchPayoutMeta payoutId [''offRampPhase'' \<mapsto> JStr ''provider_failed'',
      ''providerRetryRequired'' \<mapsto> JBool True, ''providerFailureReason'' \<mapsto> JStr reason] (Some ''processing'')) (\<lambda>_.
    athrow (InfraFiatWithdrawalError ''PROVIDER_FAILED'' 502)))"

definition mock_provider :: "txn \<Rightarrow> string \<Rightarrow> json" where
  "mock_provider payout sequenceId =
    JObj [(''id'', JStr (''mock-provider-'' @ sequenceId)), (''sequenceId'', JStr sequenceId),
      (''status'', JStr ''complete''), (''amount'', JNum (t_amount payout)), (''currency'', JStr (t_currency payout)),
      (''simulated'', JBool True), (''rail'', JStr ''PROVIDER'')]"

definition simulated_flow :: "sdk \<Rightarrow> txn \<Rightarrow> bool" where
  "simulated_flow sd payout \<longleftrightarrow> getInfraFiatOfframpMode sd = ''mock'' \<or> t_env payout = Test"

text \<open>After the provider accepted: record its reference; a simulated payout completes at once.\<close>

definition afterProvider :: "sdk \<Rightarrow> string \<Rightarrow> txn \<Rightarrow> string \<Rightarrow> string \<Rightarrow> json \<Rightarrow> (db, settlement) act" where
  "afterProvider sd orgId payout sequenceId settlementId provider =
    (let field = object_field (Some provider);
         providerRef = first_text [field ''id'', field ''paymentId'', field ''sequenceId''] sequenceId;
         simulated = (field ''simulated'' = Some (JBool True))
     in
     abnd (sql_settlement settlementId (\<lambda>st. st\<lparr>s_status := ''submitted'', s_external := Some providerRef,
       s_provider := Some providerRef, s_metadata := s_metadata st ++ [''provider'' \<mapsto> provider,
         ''sequenceId'' \<mapsto> JStr sequenceId, ''simulated'' \<mapsto> JBool simulated]\<rparr>)) (\<lambda>_.
     abnd (patchPayoutMeta (t_id payout) [''provider'' \<mapsto> provider, ''providerReference'' \<mapsto> JStr providerRef,
       ''railSubmittedAt'' \<mapsto> JStr (sdk_now sd)] None) (\<lambda>_.
     abnd (if simulated_flow sd payout \<or> simulated then
         abnd (sql_settlement settlementId (\<lambda>st. st\<lparr>s_status := ''confirmed'', s_failure := None\<rparr>)) (\<lambda>_.
         abnd (finalizePayoutDebit sd \<lparr>py_orgId = Some orgId, py_transactionId = t_id payout,
           py_providerEventId = Some (''offramp:provider:'' @ providerRef), py_source = Some ''fiat_offramp_provider'',
           py_status = None\<rparr>) (\<lambda>_.
         patchPayoutMeta (t_id payout) [''offRampPhase'' \<mapsto> JStr ''completed'', ''providerRetryRequired'' \<mapsto> JBool False,
           ''providerConfirmed'' \<mapsto> JBool True, ''settlementRail'' \<mapsto> JStr ''PROVIDER''] None))
       else aret ()) (\<lambda>_.
     run_tx (bnd (query (\<lambda>s. find_row (\<lambda>st. (s_org st, s_key st)) (orgId, providerKey (t_id payout)) (settlements s))) the_row)))))"

definition sendToProvider :: "sdk \<Rightarrow> provider \<Rightarrow> string \<Rightarrow> txn \<Rightarrow> string \<Rightarrow> settlement \<Rightarrow> (db, settlement) act" where
  "sendToProvider sd yc orgId payout sequenceId settlement =
    (if env_str (sdk_env sd) ''DAYFI_INFRA_OFFRAMP_FORCE_PROVIDER_FAIL'' = ''1''
     then providerFailed (t_id payout) (s_id settlement) ''Forced Provider failure''
     else
       abnd (patchPayoutMeta (t_id payout) [''offRampPhase'' \<mapsto> JStr ''provider_submitted''] None) (\<lambda>_.
       if simulated_flow sd payout
       then afterProvider sd orgId payout sequenceId (s_id settlement) (mock_provider payout sequenceId)
       else if \<not> yc_configured yc then athrow (InfraFiatWithdrawalError ''PROVIDER_UNCONFIGURED'' 503)
       else (case callProvider yc payout sequenceId of
           Inl err \<Rightarrow> providerFailed (t_id payout) (s_id settlement) (message_of err)
         | Inr p \<Rightarrow> afterProvider sd orgId payout sequenceId (s_id settlement) p)))"

definition provider_asset :: "txn \<Rightarrow> string" where
  "provider_asset payout = (if to_upper (or_str (Some (t_currency payout)) ''USDC'') = ''USDC'' then ''USDC''
     else to_upper (or_str (Some (t_currency payout)) ''NGN''))"

definition submitProviderPayout :: "sdk \<Rightarrow> provider \<Rightarrow> string \<Rightarrow> txn \<Rightarrow> rat \<Rightarrow> (db, settlement) act" where
  "submitProviderPayout sd yc orgId payout usdcAmount =
    abnd (loadSettlementByKey orgId (providerKey (t_id payout))) (\<lambda>existing.
    if map_option s_status existing = Some ''confirmed'' then aret (the existing)
    else
      let recipient = json_or (t_metadata payout ''recipient'') None; sequenceId = sequence_of payout in
      abnd (case existing of
          Some st \<Rightarrow> aret st
        | None \<Rightarrow> insert_settlement_row (payout_settlement orgId payout ''YELLOW_CARD'' (provider_asset payout)
            (t_amount payout) ''dayfi_treasury''
            (first_text [object_field recipient ''accountNumber'', object_field recipient ''displayHint''] ''bank'')
            (providerKey (t_id payout))
            [''purpose'' \<mapsto> JStr ''fiat_offramp_provider'', ''sequenceId'' \<mapsto> JStr sequenceId,
             ''usdcAmount'' \<mapsto> JNum usdcAmount])) (\<lambda>settlement.
      sendToProvider sd yc orgId payout sequenceId settlement))"

section \<open>The withdrawal\<close>

record offramp_view =
  ow_payoutId :: string
  ow_status :: string
  ow_phase :: string
  ow_stellar :: "settlement_view option"
  ow_provider :: "settlement_view option"
  ow_balance :: balance_view
  ow_duplicate :: bool
  ow_retryRequired :: bool

definition payout_locked :: "jmap \<Rightarrow> bool" where
  "payout_locked meta \<longleftrightarrow> json_truthy (meta ''ledgerLockId'') \<or> flag meta ''fundsLocked''
     \<or> (case meta ''usdcAmount'' of Some (JNum x) \<Rightarrow> 0 < x \<and> \<not> json_truthy (meta ''fundsReleased'') | _ \<Rightarrow> False)"

definition completedView :: "string \<Rightarrow> txn \<Rightarrow> (db, offramp_view) act" where
  "completedView orgId payout =
    abnd (loadSettlementByRail (t_id payout) ''STELLAR'') (\<lambda>stellar.
    abnd (loadSettlementByRail (t_id payout) ''YELLOW_CARD'') (\<lambda>provider.
    abnd (getOrgBalance orgId (env_name (t_env payout)) None) (\<lambda>balance.
    aret \<lparr>ow_payoutId = t_id payout, ow_status = ''completed'', ow_phase = ''completed'',
      ow_stellar = map_option mapSettlement stellar, ow_provider = map_option mapSettlement provider,
      ow_balance = balance, ow_duplicate = True, ow_retryRequired = False\<rparr>)))"

definition retryView :: "string \<Rightarrow> txn \<Rightarrow> settlement \<Rightarrow> (db, offramp_view) act" where
  "retryView orgId payout stellar =
    abnd (loadSettlementByRail (t_id payout) ''STELLAR'') (\<lambda>again.
    abnd (loadSettlementByRail (t_id payout) ''YELLOW_CARD'') (\<lambda>provider.
    abnd (getOrgBalance orgId (env_name (t_env payout)) None) (\<lambda>balance.
    aret \<lparr>ow_payoutId = t_id payout, ow_status = ''provider_retry_required'', ow_phase = ''provider_failed'',
      ow_stellar = Some (mapSettlement (case again of Some st \<Rightarrow> st | None \<Rightarrow> stellar)),
      ow_provider = map_option mapSettlement provider, ow_balance = balance, ow_duplicate = False,
      ow_retryRequired = True\<rparr>)))"

definition submittedView :: "string \<Rightarrow> txn \<Rightarrow> settlement \<Rightarrow> settlement \<Rightarrow> (db, offramp_view) act" where
  "submittedView orgId payout stellar provider =
    abnd (loadPayout orgId (t_id payout)) (\<lambda>refreshed.
    abnd (getOrgBalance orgId (env_name (t_env payout)) None) (\<lambda>balance.
    aret \<lparr>ow_payoutId = t_id payout,
      ow_status = (if to_lower (t_status refreshed) = ''settled'' then ''completed'' else ''provider_submitted''),
      ow_phase = first_text [t_metadata refreshed ''offRampPhase''] ''provider_submitted'',
      ow_stellar = Some (mapSettlement stellar), ow_provider = Some (mapSettlement provider),
      ow_balance = balance, ow_duplicate = False, ow_retryRequired = False\<rparr>))"

definition is_provider_failure :: "js_error \<Rightarrow> bool" where
  "is_provider_failure e = (case e of InfraFiatWithdrawalError c n \<Rightarrow> c = ''PROVIDER_FAILED'' | _ \<Rightarrow> False)"

text \<open>Both legs: the provider is called only with a confirmed Stellar settlement in hand.\<close>

definition settleLegs :: "sdk \<Rightarrow> provider \<Rightarrow> string \<Rightarrow> txn \<Rightarrow> rat \<Rightarrow> (db, offramp_view) act" where
  "settleLegs sd yc orgId payout usdcAmount =
    abnd (loadSettlementByRail (t_id payout) ''STELLAR'') (\<lambda>found.
    abnd (case found of
        Some st \<Rightarrow> if s_status st = ''confirmed'' then aret st
          else abnd (loadPayout orgId (t_id payout)) (\<lambda>p. settleStellarToTreasury sd yc orgId p usdcAmount)
      | None \<Rightarrow> abnd (loadPayout orgId (t_id payout)) (\<lambda>p. settleStellarToTreasury sd yc orgId p usdcAmount)) (\<lambda>stellar.
    abnd (acatch
        (abnd (loadPayout orgId (t_id payout)) (\<lambda>p.
         abnd (submitProviderPayout sd yc orgId p usdcAmount) (\<lambda>provider. aret (Some provider))))
        (\<lambda>err. if is_provider_failure err then aret None else athrow err)) (\<lambda>result. case result of
      None \<Rightarrow> retryView orgId payout stellar
    | Some provider \<Rightarrow> submittedView orgId payout stellar provider)))"

definition settleFiatOfframp :: "sdk \<Rightarrow> provider \<Rightarrow> string \<Rightarrow> string \<Rightarrow> (db, offramp_view) act" where
  "settleFiatOfframp sd yc orgId payoutTransactionId =
    (if \<not> isFiatOfframpEnabled sd then athrow (InfraFiatWithdrawalError ''OFFRAMP_DISABLED'' 409)
     else
       abnd (loadPayout orgId payoutTransactionId) (\<lambda>payout.
       let meta = t_metadata payout in
       if \<not> List.member [''bank_transfer'', ''mobile_money''] (t_method payout)
       then athrow (InfraFiatWithdrawalError ''UNSUPPORTED_METHOD'' 400)
       else if \<not> payout_locked meta \<and> \<not> flag meta ''fundsFinalized''
       then athrow (InfraFiatWithdrawalError ''NOT_LOCKED'' 409)
       else if flag meta ''fundsFinalized'' \<or> to_lower (t_status payout) = ''settled'' then completedView orgId payout
       else abnd (aof_sum (usdcAmountFromPayout payout)) (\<lambda>usdcAmount. settleLegs sd yc orgId payout usdcAmount)))"

definition retryFiatOfframpProvider :: "sdk \<Rightarrow> provider \<Rightarrow> string \<Rightarrow> string \<Rightarrow> (db, offramp_view) act" where
  "retryFiatOfframpProvider sd yc orgId payoutTransactionId =
    abnd (loadPayout orgId payoutTransactionId) (\<lambda>payout.
    let meta = t_metadata payout in
    if \<not> flag meta ''stellarConfirmed'' then athrow (InfraFiatWithdrawalError ''STELLAR_NOT_CONFIRMED'' 409)
    else if flag meta ''fundsFinalized'' then completedView orgId payout
    else
      abnd (loadSettlementByKey orgId (providerKey (t_id payout))) (\<lambda>failed.
      abnd (case failed of
          Some st \<Rightarrow> if s_status st = ''failed'' then
              sql_settlement (s_id st) (\<lambda>st. st\<lparr>s_status := ''pending'', s_failure := None, s_external := None,
                s_provider := None\<rparr>)
            else aret ()
        | None \<Rightarrow> aret ()) (\<lambda>_.
      settleFiatOfframp sd yc orgId payoutTransactionId)))"

definition shouldRetainTreasuryOnProviderFailure :: "jmap \<Rightarrow> bool" where
  "shouldRetainTreasuryOnProviderFailure meta \<longleftrightarrow> flag meta ''offRamp'' \<and> flag meta ''stellarConfirmed''"

end
