(* ===== verification/Settlement.thy ===== *)
theory Settlement
  imports Recipient Offramp
begin

text \<open>
  \<open>src/src/modules/infra/infraSettlementService.ts\<close>: the settlement of a locked crypto payout by a USDC
  payment on Stellar, its confirmation, and the reads of settlements. The payment is made by the adapter;
  the ledger is moved only by \<open>finalizePayoutDebit\<close> and \<open>releasePayoutLock\<close>. \<open>mapSettlement\<close> and its
  view are those of the fiat off-ramp, which maps the same columns.
\<close>

section \<open>Modes, addresses and balances\<close>

definition getInfraStellarPayoutMode :: "sdk \<Rightarrow> string" where
  "getInfraStellarPayoutMode sd =
    (let raw = env_word sd ''DAYFI_INFRA_STELLAR_PAYOUT_MODE'' ''off'' in
     if raw = ''mock'' \<or> raw = ''live'' \<or> raw = ''off'' then raw else ''off'')"

definition assertStellarAddress :: "string \<Rightarrow> js_error + string" where
  "assertStellarAddress addr =
    (let a = trim addr in
     if is_g_address a then Inr a else Inl (InfraSettlementError ''INVALID_ADDRESS'' 400))"

text \<open>An account that cannot be loaded has nothing to spend.\<close>

definition orgWalletUsdc :: "sdk \<Rightarrow> string \<Rightarrow> js_error + js_num" where
  "orgWalletUsdc sd publicKey = bind_sum (getStellarConfig sd) (\<lambda>cfg.
     Inr (case sdk_loadAccount sd (cfg_horizonUrl cfg) publicKey of
       None \<Rightarrow> Fin 0
     | Some hbs \<Rightarrow>
         let row = find (\<lambda>b. hb_code b = Some ''USDC'' \<and> hb_issuer b = Some (resolveUsdcIssuer sd (cfg_isTestnet cfg))) hbs
         in (case parse_float (or_str (map_option hb_balance row) ''0'') of NaN \<Rightarrow> Fin 0 | n \<Rightarrow> n)))"

record payout_signing =
  ps_secret :: string
  ps_publicKey :: string
  ps_source :: string

definition is_settlement_error :: "js_error \<Rightarrow> bool" where
  "is_settlement_error e = (case e of InfraSettlementError c n \<Rightarrow> True | _ \<Rightarrow> False)"

definition orgSigning :: "sdk \<Rightarrow> string \<Rightarrow> infra_env \<Rightarrow> rat \<Rightarrow> string \<Rightarrow> (db, payout_signing) act" where
  "orgSigning sd orgId env usdcAmount mode =
    acatch
      (abnd (getOrgStellarSigningSecret sd orgId (env_name env)) (\<lambda>signing.
       abnd (if mode = ''live'' then
           abnd (aof_sum (orgWalletUsdc sd (sg_publicKey signing))) (\<lambda>onChain.
           arequire (covers onChain usdcAmount) (InfraSettlementError ''INSUFFICIENT_ONCHAIN_BALANCE'' 409))
         else aret ()) (\<lambda>_.
       aret \<lparr>ps_secret = sg_secret signing, ps_publicKey = sg_publicKey signing, ps_source = ''org_wallet''\<rparr>)))
      (\<lambda>err. if is_settlement_error err then athrow err
         else athrow (InfraSettlementError ''ORG_WALLET_UNAVAILABLE'' 409))"

definition resolvePayoutSigning :: "sdk \<Rightarrow> string \<Rightarrow> infra_env \<Rightarrow> string option \<Rightarrow> rat \<Rightarrow> (db, payout_signing) act" where
  "resolvePayoutSigning sd orgId env explicitSecret usdcAmount =
    (let given = trim (or_str explicitSecret []); mode = getInfraStellarPayoutMode sd in
     if given \<noteq> [] then
       abnd (aof_sum (keypair sd given)) (\<lambda>pk.
       aret \<lparr>ps_secret = given, ps_publicKey = pk, ps_source = ''org_wallet''\<rparr>)
     else if mode = ''off'' then aret \<lparr>ps_secret = [], ps_publicKey = [], ps_source = ''treasury''\<rparr>
     else
       abnd (aof_sum (getStellarConfig sd)) (\<lambda>cfg.
       if mode = ''live'' \<and> \<not> cfg_isTestnet cfg then athrow (InfraSettlementError ''MAINNET_BLOCKED'' 400)
       else orgSigning sd orgId env usdcAmount mode))"

section \<open>Reading settlements and payouts\<close>

text \<open>\<open>num\<close>: \<open>Number(v || 0)\<close>, or zero when it is not finite\<close>

definition num_json :: "json \<Rightarrow> rat" where
  "num_json j = (if json_truthy (Some j) then finite_or_0 (js_Number_json j) else 0)"

definition loadSettlement :: "string \<Rightarrow> string \<Rightarrow> (db, settlement) act" where
  "loadSettlement orgId settlementId =
    abnd (aquery (\<lambda>s. find_row (\<lambda>st. (s_id st, s_org st)) (settlementId, orgId) (settlements s))) (\<lambda>row. case row of
      None \<Rightarrow> athrow (InfraSettlementError ''NOT_FOUND'' 404) | Some st \<Rightarrow> aret st)"

definition loadCryptoPayout :: "string \<Rightarrow> string \<Rightarrow> (db, txn) act" where
  "loadCryptoPayout orgId payoutId =
    abnd (aquery (\<lambda>s. find_row (\<lambda>t. (t_id t, t_org t, t_direction t)) (payoutId, orgId, ''payout'') (txns s))) (\<lambda>row.
    case row of None \<Rightarrow> athrow (InfraSettlementError ''PAYOUT_NOT_FOUND'' 404) | Some t \<Rightarrow> aret t)"

definition getSettlement :: "string \<Rightarrow> string \<Rightarrow> (db, settlement_view) act" where
  "getSettlement orgId settlementId = abnd (loadSettlement orgId settlementId) (\<lambda>row. aret (mapSettlement row))"

definition getSettlementForPayout :: "string \<Rightarrow> string \<Rightarrow> (db, settlement_view option) act" where
  "getSettlementForPayout orgId payoutId =
    aquery (\<lambda>s. map_option mapSettlement
      (find_row (\<lambda>st. (s_org st, s_payout_tx st)) (orgId, Some payoutId) (settlements s)))"

text \<open>\<open>Math.min(Math.max(Number(limit) || d, 1), top)\<close>\<close>

definition clamp_limit :: "js_num option \<Rightarrow> nat \<Rightarrow> nat \<Rightarrow> nat" where
  "clamp_limit limit d most = (case limit of
     None \<Rightarrow> d | Some NaN \<Rightarrow> d
   | Some (Fin x) \<Rightarrow> if x = 0 then d else min (nat (math_round (max x 1))) most
   | Some (Infinite neg) \<Rightarrow> if neg then 1 else most)"

definition listSettlements :: "string \<Rightarrow> string \<Rightarrow> js_num option \<Rightarrow> (db, settlement_view list) act" where
  "listSettlements orgId environment limit =
    aquery (\<lambda>s. map mapSettlement (take (clamp_limit limit 50 100)
      (filter (\<lambda>st. s_org st = orgId \<and> s_env st = normalizeEnv environment) (settlements s))))"

record payout_destination =
  pd_destination :: string
  pd_asset :: string
  pd_network :: string

definition resolvePayoutDestination :: "txn \<Rightarrow> (db, payout_destination) act" where
  "resolvePayoutDestination payout =
    (let saved = object_field (json_or (t_metadata payout ''savedRecipient'') None);
         recipient = object_field (json_or (t_metadata payout ''recipient'') None);
         currency = Some (JStr (t_currency payout))
     in if json_truthy (saved ''recipientId'') then
       abnd (resolveDestinationForPayout (t_org payout) (env_name (t_env payout)) (js_String (the (saved ''recipientId'')))
         (if json_truthy (saved ''destinationId'') then Some (js_String (the (saved ''destinationId''))) else None)) (\<lambda>(rec, d).
       let addr = trim (first_text [ds_data d ''walletAddress'', ds_data d ''accountNumber''] []) in
       if addr = [] then athrow (InfraSettlementError ''NO_DESTINATION'' 400)
       else aret \<lparr>pd_destination = addr, pd_asset = to_upper (first_text [ds_data d ''asset'', currency] ''USDC''),
         pd_network = to_lower (first_text [ds_data d ''network'', recipient ''network''] ''stellar'')\<rparr>)
     else
       let addr = trim (first_text [recipient ''walletAddress''] []) in
       if addr = [] then athrow (InfraSettlementError ''NO_DESTINATION'' 400)
       else aret \<lparr>pd_destination = addr, pd_asset = to_upper (first_text [recipient ''asset'', currency] ''USDC''),
         pd_network = to_lower (first_text [recipient ''network''] ''stellar'')\<rparr>)"

section \<open>Confirmation\<close>

record settle_reply =
  sl_settlement :: settlement_view
  sl_payoutId :: "string option"
  sl_pending :: bool

definition confirm_row :: "sdk \<Rightarrow> string option \<Rightarrow> int option \<Rightarrow> settlement \<Rightarrow> settlement" where
  "confirm_row sd hash ledger st =
    st\<lparr>s_status := ''confirmed'',
       s_external := (case hash of Some h \<Rightarrow> Some h | None \<Rightarrow> s_external st),
       s_provider := (case hash of Some h \<Rightarrow> Some h | None \<Rightarrow> s_provider st),
       s_metadata := s_metadata st ++
         [''confirmedLedgerSequence'' \<mapsto> (case ledger of Some k \<Rightarrow> JNum (of_int k) | None \<Rightarrow> JNull),
          ''confirmedAt'' \<mapsto> JStr (sdk_now sd)],
       s_failure := None\<rparr>"

text \<open>A settlement of a collection has no payout: the identifier of the payout is then \<open>null\<close>.\<close>

definition stellar_resolution :: "string \<Rightarrow> string \<Rightarrow> string \<Rightarrow> string option \<Rightarrow> payout_input" where
  "stellar_resolution orgId payoutId event status =
    \<lparr>py_orgId = Some orgId, py_transactionId = payoutId, py_providerEventId = Some event,
     py_source = Some ''stellar_settlement'', py_status = status\<rparr>"

definition finalizeSettled :: "sdk \<Rightarrow> string \<Rightarrow> settlement \<Rightarrow> string option \<Rightarrow> (db, unit) act" where
  "finalizeSettled sd orgId settlement hash =
    (case s_payout_tx settlement of
       None \<Rightarrow> athrow (JsError ''Payout not found'')
     | Some payoutId \<Rightarrow>
         abnd (finalizePayoutDebit sd (stellar_resolution orgId payoutId
           (''stellar:ok:'' @ or_str hash (s_id settlement)) None)) (\<lambda>_.
         sql_txn payoutId (\<lambda>t. t\<lparr>t_metadata := t_metadata t ++ [''settlementId'' \<mapsto> JStr (s_id settlement),
           ''stellarTransactionHash'' \<mapsto> opt_json hash, ''settlementRail'' \<mapsto> JStr ''STELLAR'']\<rparr>)))"

definition confirmAndFinalize ::
  "sdk \<Rightarrow> string \<Rightarrow> settlement \<Rightarrow> int option \<Rightarrow> string option \<Rightarrow> (db, settle_reply) act" where
  "confirmAndFinalize sd orgId settlement ledger transactionHash =
    (let hash = or_else transactionHash (or_else (s_external settlement) None) in
     abnd (sql_settlement (s_id settlement) (confirm_row sd hash ledger)) (\<lambda>_.
     abnd (finalizeSettled sd orgId settlement hash) (\<lambda>_.
     abnd (loadSettlement orgId (s_id settlement)) (\<lambda>row.
     aret \<lparr>sl_settlement = mapSettlement row, sl_payoutId = s_payout_tx settlement, sl_pending = False\<rparr>))))"

definition chain_failed :: "verification \<Rightarrow> bool" where
  "chain_failed v \<longleftrightarrow> str_includes (to_upper (ve_status v)) ''FAIL'' \<or> ve_status v = ''FAILED''"

text \<open>The settlement fails on the chain: the lock goes back to the organisation.\<close>

definition failSettlement :: "sdk \<Rightarrow> string \<Rightarrow> settlement \<Rightarrow> string \<Rightarrow> string \<Rightarrow> js_error \<Rightarrow> (db, 'a) act" where
  "failSettlement sd orgId settlement event reason err =
    abnd (sql_settlement (s_id settlement) (\<lambda>st. st\<lparr>s_status := ''failed'', s_failure := Some reason\<rparr>)) (\<lambda>_.
    abnd (case s_payout_tx settlement of
        None \<Rightarrow> athrow (JsError ''Payout not found'')
      | Some payoutId \<Rightarrow> abnd (releasePayoutLock sd (stellar_resolution orgId payoutId (event @ s_id settlement)
          (Some ''failed''))) (\<lambda>_. aret ())) (\<lambda>_.
    athrow err))"

section \<open>The settlement of a payout\<close>

definition stellarPayoutKey :: "string \<Rightarrow> string" where
  "stellarPayoutKey payoutId = ''stellar:payout:'' @ payoutId"

definition lockProof :: "jmap \<Rightarrow> bool" where
  "lockProof meta \<longleftrightarrow> json_truthy (meta ''ledgerLockId'') \<or> flag meta ''fundsLocked''
     \<or> (case meta ''usdcAmount'' of Some (JNum x) \<Rightarrow> 0 < x \<and> \<not> json_truthy (meta ''fundsReleased'')
          \<and> \<not> json_truthy (meta ''fundsFinalized'') | _ \<Rightarrow> False)"

text \<open>The checks of the destination, and the amount in USDC.\<close>

definition checkedDestination :: "sdk \<Rightarrow> string \<Rightarrow> txn \<Rightarrow> (db, string \<times> string) act" where
  "checkedDestination sd orgId payout =
    abnd (resolvePayoutDestination payout) (\<lambda>dest.
    if pd_network dest \<noteq> ''stellar'' then athrow (InfraSettlementError ''UNSUPPORTED_NETWORK'' 400)
    else if pd_asset dest \<noteq> ''USDC'' then athrow (InfraSettlementError ''UNSUPPORTED_ASSET'' 400)
    else
      abnd (aof_sum (assertStellarAddress (pd_destination dest))) (\<lambda>destination.
      abnd (getOrgStellarAccount sd orgId (env_name (t_env payout))) (\<lambda>orgWallet.
      if getInfraStellarPayoutMode sd \<noteq> ''off'' \<and> map_option av_publicKey orgWallet = Some destination
      then athrow (InfraSettlementError ''SELF_TRANSFER'' 400)
      else aret (destination, pd_network dest))))"

definition settlementAmount :: "txn \<Rightarrow> rat" where
  "settlementAmount payout = (case nullish (t_metadata payout ''usdcAmount'') None of
     Some j \<Rightarrow> num_json j | None \<Rightarrow> t_amount payout)"

definition crypto_settlement :: "sdk \<Rightarrow> string \<Rightarrow> txn \<Rightarrow> rat \<Rightarrow> string \<Rightarrow> string \<Rightarrow> string \<Rightarrow> settlement" where
  "crypto_settlement sd orgId payout usdcAmount destination network i =
    \<lparr>s_id = i, s_org = orgId, s_env = t_env payout, s_payout_tx = Some (t_id payout), s_collection_tx = None,
     s_rail = ''STELLAR'', s_asset = ''USDC'', s_amount = numeric7 usdcAmount, s_source = None,
     s_destination = Some destination, s_status = ''pending'', s_external = None, s_provider = None,
     s_metadata = [''adapterMode'' \<mapsto> JStr (getStellarSettlementMode sd),
       ''payoutMode'' \<mapsto> JStr (getInfraStellarPayoutMode sd), ''network'' \<mapsto> JStr network],
     s_failure = None, s_key = stellarPayoutKey (t_id payout)\<rparr>"

definition sent_settlement :: "payment \<Rightarrow> payout_signing \<Rightarrow> settlement \<Rightarrow> settlement" where
  "sent_settlement p signing st =
    st\<lparr>s_status := ''submitted'', s_source := Some (pr_source p), s_destination := Some (pr_destination p),
       s_external := Some (pr_hash p), s_provider := Some (pr_hash p),
       s_metadata := s_metadata st ++ [''stellar'' \<mapsto> JObj [(''transactionHash'', JStr (pr_hash p)),
           (''ledgerSequence'', case pr_ledger p of Some k \<Rightarrow> JNum (of_int k) | None \<Rightarrow> JNull),
           (''operationId'', JStr (pr_hash p @ '':0'')), (''networkPassphrase'', JStr (pr_passphrase p)),
           (''rpcUrl'', opt_json (pr_rpcUrl p)), (''mode'', JStr (pr_mode p)), (''amount'', JStr (pr_amount p))],
         ''signingSource'' \<mapsto> JStr (ps_source signing),
         ''orgWalletPublicKey'' \<mapsto> JStr (or_str (Some (ps_publicKey signing)) (pr_source p))]\<rparr>"

definition payoutMemo :: "string \<Rightarrow> string" where
  "payoutMemo payoutId = ''dayfi:'' @ take 24 (filter (\<lambda>c. c \<noteq> CHR ''-'') payoutId)"

text \<open>After the payment was accepted: record it, then confirm it, fail it, or leave it submitted.\<close>

definition afterPayout :: "sdk \<Rightarrow> string \<Rightarrow> string \<Rightarrow> payout_signing \<Rightarrow> payment \<Rightarrow> (db, settle_reply) act" where
  "afterPayout sd orgId settlementId signing p =
    abnd (sql_settlement settlementId (sent_settlement p signing)) (\<lambda>_.
    abnd (loadSettlement orgId settlementId) (\<lambda>settlement.
    if should_confirm p then confirmAndFinalize sd orgId settlement (pr_ledger p) (Some (pr_hash p))
    else
      abnd (aof_sum (verifyUsdcPayment sd (pr_hash p))) (\<lambda>verified.
      if ve_confirmed verified then confirmAndFinalize sd orgId settlement (ve_ledger verified) (Some (pr_hash p))
      else if chain_failed verified then
        failSettlement sd orgId settlement ''stellar:chain-fail:'' (''On-chain failure: '' @ ve_status verified)
          (InfraSettlementError ''TX_FAILED'' 502)
      else aret \<lparr>sl_settlement = mapSettlement settlement, sl_payoutId = s_payout_tx settlement, sl_pending = True\<rparr>)))"

definition paySettlement ::
  "sdk \<Rightarrow> string \<Rightarrow> txn \<Rightarrow> rat \<Rightarrow> string \<Rightarrow> string option \<Rightarrow> settlement \<Rightarrow> (db, settle_reply) act" where
  "paySettlement sd orgId payout usdcAmount destination secretIn settlement =
    abnd (resolvePayoutSigning sd orgId (t_env payout) secretIn usdcAmount) (\<lambda>signing.
    case submitUsdcPayment sd \<lparr>pi_destination = destination, pi_amount = RNum (Fin usdcAmount),
        pi_memo = Some (payoutMemo (t_id payout)),
        pi_sourceSecret = (if ps_source signing = ''org_wallet'' then Some (ps_secret signing) else secretIn)\<rparr> of
      Inl err \<Rightarrow> failSettlement sd orgId settlement ''stellar:fail:'' (message_of err)
        (InfraSettlementError ''STELLAR_SUBMIT_FAILED'' 502)
    | Inr p \<Rightarrow> afterPayout sd orgId (s_id settlement) signing p)"

text \<open>The settlement row of the payout: confirmed, on its way, or to be created.\<close>

definition settleRow ::
  "sdk \<Rightarrow> string \<Rightarrow> txn \<Rightarrow> rat \<Rightarrow> string \<Rightarrow> string \<Rightarrow> string option \<Rightarrow> settlement option \<Rightarrow> (db, settle_reply) act" where
  "settleRow sd orgId payout usdcAmount destination network secretIn found =
    (let pay = paySettlement sd orgId payout usdcAmount destination secretIn in
     case found of
       None \<Rightarrow> abnd (insert_settlement_row (crypto_settlement sd orgId payout usdcAmount destination network)) pay
     | Some st \<Rightarrow>
         if s_status st = ''confirmed''
         then aret \<lparr>sl_settlement = mapSettlement st, sl_payoutId = Some (t_id payout), sl_pending = False\<rparr>
         else case (s_status st = ''submitted'', or_else (s_external st) None) of
             (True, Some hash) \<Rightarrow>
               abnd (aof_sum (verifyUsdcPayment sd hash)) (\<lambda>verified.
               if ve_confirmed verified then confirmAndFinalize sd orgId st (ve_ledger verified) (Some hash)
               else pay st)
           | _ \<Rightarrow> pay st)"

definition settlePayoutOnStellar :: "sdk \<Rightarrow> string \<Rightarrow> string \<Rightarrow> string option \<Rightarrow> (db, settle_reply) act" where
  "settlePayoutOnStellar sd orgId payoutTransactionId secretIn =
    abnd (loadCryptoPayout orgId payoutTransactionId) (\<lambda>payout.
    let meta = t_metadata payout; usdcAmount = settlementAmount payout in
    if t_method payout \<noteq> ''crypto'' then athrow (InfraSettlementError ''UNSUPPORTED_METHOD'' 400)
    else if \<not> lockProof meta then athrow (InfraSettlementError ''NOT_LOCKED'' 400)
    else if json_truthy (meta ''fundsFinalized'') then
      abnd (getSettlementForPayout orgId (t_id payout)) (\<lambda>existing. case existing of
        Some v \<Rightarrow> if sw_status v = ''confirmed''
          then aret \<lparr>sl_settlement = v, sl_payoutId = Some (t_id payout), sl_pending = False\<rparr>
          else athrow (InfraSettlementError ''ALREADY_FINALIZED'' 400)
      | None \<Rightarrow> athrow (InfraSettlementError ''ALREADY_FINALIZED'' 400))
    else
      abnd (checkedDestination sd orgId payout) (\<lambda>(destination, network).
      if usdcAmount \<le> 0 then athrow (InfraSettlementError ''INVALID_AMOUNT'' 400)
      else
        abnd (settlement_by_key orgId (stellarPayoutKey (t_id payout))) (\<lambda>found.
        settleRow sd orgId payout usdcAmount destination network secretIn found)))"

definition confirmStellarSettlement :: "sdk \<Rightarrow> string \<Rightarrow> string \<Rightarrow> (db, settle_reply) act" where
  "confirmStellarSettlement sd orgId settlementId =
    abnd (loadSettlement orgId settlementId) (\<lambda>row.
    if s_rail row \<noteq> ''STELLAR'' then athrow (InfraSettlementError ''WRONG_RAIL'' 400)
    else if s_status row = ''confirmed''
    then aret \<lparr>sl_settlement = mapSettlement row, sl_payoutId = s_payout_tx row, sl_pending = False\<rparr>
    else case or_else (s_external row) None of
        None \<Rightarrow> athrow (InfraSettlementError ''NO_EXTERNAL_REF'' 400)
      | Some hash \<Rightarrow>
          abnd (aof_sum (verifyUsdcPayment sd hash)) (\<lambda>verified.
          if ve_confirmed verified then confirmAndFinalize sd orgId row (ve_ledger verified) (Some hash)
          else if chain_failed verified then
            failSettlement sd orgId row ''stellar:chain-fail:'' (''On-chain failure: '' @ ve_status verified)
              (InfraSettlementError ''TX_FAILED'' 502)
          else athrow (InfraSettlementError ''NOT_CONFIRMED'' 409)))"

end
