(* ===== verification/Service_Invariant.thy ===== *)
theory Service_Invariant
  imports Offramp
begin

text \<open>
  Invariants of service code. \<open>inv_act I m\<close> says that the call \<open>m\<close> keeps \<open>I\<close> whatever it
  answers, also when it fails half way. The locale \<open>ledger_view\<close> is the interface of an invariant that
  reads the ledger through its movements and the transaction rows: every call that leaves those alone
  keeps it. The section after it instantiates it with the invariant of the payouts.
\<close>

section \<open>Calls that keep an invariant\<close>

definition inv_act :: "(db \<Rightarrow> bool) \<Rightarrow> (db, 'a) act \<Rightarrow> bool" where
  "inv_act I m \<longleftrightarrow> (\<forall>s r s'. I s \<longrightarrow> m s = (r, s') \<longrightarrow> I s')"

named_theorems inv_intros \<open>service calls that keep an invariant\<close>

lemma inv_actD: "inv_act I m \<Longrightarrow> I s \<Longrightarrow> m s = (r, s') \<Longrightarrow> I s'"
  by (auto simp: inv_act_def)

lemma inv_act_pure [inv_intros, simp]:
  "inv_act I (aret a)" "inv_act I (athrow e)" "inv_act I (aquery f)" "inv_act I (aof_sum r)"
  by (auto simp: inv_act_def)

lemma inv_act_arequire [inv_intros, simp]: "inv_act I (arequire b e)"
  by (simp add: arequire_def)

lemma inv_act_abnd [inv_intros]:
  assumes "inv_act I m" and "\<And>a. inv_act I (f a)"
  shows "inv_act I (abnd m f)"
  unfolding inv_act_def
proof (intro allI impI)
  fix s r s' assume "I s" and run: "abnd m f s = (r, s')"
  obtain r1 s1 where m: "m s = (r1, s1)" by (cases "m s") auto
  with assms(1) \<open>I s\<close> have "I s1" by (auto simp: inv_act_def)
  with run m assms(2) show "I s'" by (cases r1) (auto simp: abnd_def inv_act_def)
qed

lemma inv_act_acatch [inv_intros]:
  assumes "inv_act I m" and "\<And>e. inv_act I (h e)"
  shows "inv_act I (acatch m h)"
  unfolding inv_act_def
proof (intro allI impI)
  fix s r s' assume "I s" and run: "acatch m h s = (r, s')"
  obtain r1 s1 where m: "m s = (r1, s1)" by (cases "m s") auto
  with assms(1) \<open>I s\<close> have "I s1" by (auto simp: inv_act_def)
  with run m assms(2) show "I s'" by (cases r1) (auto simp: acatch_def inv_act_def)
qed

lemma inv_act_option [inv_intros]:
  "inv_act I a \<Longrightarrow> (\<And>x. inv_act I (b x)) \<Longrightarrow> inv_act I (case y of None \<Rightarrow> a | Some x \<Rightarrow> b x)"
  by (cases y) simp_all

lemma inv_act_sum [inv_intros]:
  "(\<And>e. inv_act I (a e)) \<Longrightarrow> (\<And>x. inv_act I (b x)) \<Longrightarrow> inv_act I (case y of Inl e \<Rightarrow> a e | Inr x \<Rightarrow> b x)"
  by (cases y) simp_all

lemma inv_act_if [inv_intros]: "inv_act I a \<Longrightarrow> inv_act I b \<Longrightarrow> inv_act I (if c then a else b)"
  by simp

lemma inv_act_prod [inv_intros]: "(\<And>x y. inv_act I (b x y)) \<Longrightarrow> inv_act I (case p of (x, y) \<Rightarrow> b x y)"
  by (cases p) simp

lemma inv_act_num [inv_intros]:
  "(\<And>x. inv_act I (a x)) \<Longrightarrow> inv_act I b \<Longrightarrow> (\<And>n. inv_act I (c n)) \<Longrightarrow>
     inv_act I (case y of Fin x \<Rightarrow> a x | NaN \<Rightarrow> b | Infinite n \<Rightarrow> c n)"
  by (cases y) simp_all

lemma inv_act_or_answer [inv_intros]:
  "inv_act I m \<Longrightarrow> inv_act I (or_answer code reply m)"
  unfolding or_answer_def by (intro inv_act_acatch) (auto split: js_error.split)

text \<open>Calls that only read keep every invariant.\<close>

lemma reads_one [inv_intros]: "inv_act I (run_tx (bnd (query q) the_row))"
  by (auto simp: inv_act_def run_tx_def tx_simps split: sum.splits)

lemma reads_fx [inv_intros, simp]: "inv_act I (convertAmountToUsd x c)" "inv_act I (usdcOf row k)"
  unfolding convertAmountToUsd_def checked_amount_def select_rate_def usdcOf_def resolveUsdcAmount_def Let_def
  by (intro inv_intros)+

lemma reads_rows [inv_intros, simp]:
  "inv_act I (loadTx i o')" "inv_act I (loadTxByExternalId x)" "inv_act I (loadPayout i p)"
  "inv_act I (settlement_by_key i k)" "inv_act I (loadSettlementByKey i k)"
  "inv_act I (loadSettlementByRail i k)" "inv_act I (one_settlement i)"
  unfolding loadTx_def loadTxByExternalId_def loadPayout_def settlement_by_key_def loadSettlementByKey_def
    loadSettlementByRail_def one_settlement_def
  by (intro inv_intros)+

text \<open>What a call answers may be used in the rest, also to strengthen the invariant.\<close>

lemma inv_act_post:
  assumes "inv_act I m" and "\<And>s a s'. I s \<Longrightarrow> m s = (Inr a, s') \<Longrightarrow> P a" and "\<And>a. P a \<Longrightarrow> inv_act I (f a)"
  shows "inv_act I (abnd m f)"
  unfolding inv_act_def
proof (intro allI impI)
  fix s r s' assume I: "I s" and run: "abnd m f s = (r, s')"
  obtain r1 s1 where m: "m s = (r1, s1)" by (cases "m s") auto
  have I1: "I s1" by (rule inv_actD [OF assms(1) I m])
  show "I s'"
  proof (cases r1)
    case (Inl e)
    with run m I1 show ?thesis by (simp add: abnd_def)
  next
    case (Inr a)
    with run m have "f a s1 = (r, s')" by (simp add: abnd_def)
    moreover have "P a" using assms(2) [OF I] m Inr by simp
    ultimately show ?thesis using inv_actD [OF assms(3) I1] by blast
  qed
qed

lemma inv_act_sum_ok: "(\<And>a. r = Inr a \<Longrightarrow> inv_act I (f a)) \<Longrightarrow> inv_act I (abnd (aof_sum r) f)"
  by (cases r) (simp_all add: inv_act_def abnd_def aof_sum_def act_simps)

lemma inv_act_if_known: "(c \<Longrightarrow> inv_act I a) \<Longrightarrow> (\<not> c \<Longrightarrow> inv_act I b) \<Longrightarrow> inv_act I (if c then a else b)"
  by simp

lemma inv_act_strengthen:
  assumes "inv_act I m" and "\<And>s a s'. I s \<Longrightarrow> m s = (Inr a, s') \<Longrightarrow> P a \<and> J a s'"
    and "\<And>a. P a \<Longrightarrow> inv_act (J a) (f a)" and "\<And>a s. J a s \<Longrightarrow> I s"
  shows "inv_act I (abnd m f)"
  unfolding inv_act_def
proof (intro allI impI)
  fix s r s' assume I: "I s" and run: "abnd m f s = (r, s')"
  obtain r1 s1 where m: "m s = (r1, s1)" by (cases "m s") auto
  have I1: "I s1" by (rule inv_actD [OF assms(1) I m])
  show "I s'"
  proof (cases r1)
    case (Inl e)
    with run m I1 show ?thesis by (simp add: abnd_def)
  next
    case (Inr a)
    with run m have fa: "f a s1 = (r, s')" by (simp add: abnd_def)
    have "P a" "J a s1" using assms(2) [OF I] m Inr by simp_all
    then show ?thesis using inv_actD [OF assms(3) _ fa] assms(4) by blast
  qed
qed

section \<open>Invariants over movements and transaction rows\<close>

locale ledger_view =
  fixes I :: "db \<Rightarrow> bool"
  assumes ledger: "I s \<Longrightarrow> ledger_inv s"
    and same: "I s \<Longrightarrow> ledger_inv s' \<Longrightarrow> movements s' = movements s \<Longrightarrow> balances s' = balances s \<Longrightarrow>
      money s' = money s \<Longrightarrow> txns s' = txns s \<Longrightarrow> I s'"
begin

lemma keeps_inv: "keeps m \<Longrightarrow> inv_act I m"
  by (auto simp: inv_act_def keeps_def unchanged_def ledger_same_def intro: same dest: ledger)

lemma frame: "I s \<Longrightarrow> I (settlements_update f s)" "I s \<Longrightarrow> I (uuid_next_update g s)"
  by (frule ledger, erule same; simp)+

lemma settlement_inv:
  "inv_act I (sql_settlement i f)" "inv_act I (insert_settlement_row row)" "inv_act I (run_tx (update_settlements p g))"
  unfolding inv_act_def sql_settlement_def insert_settlement_row_def
  by (auto simp: run_tx_def tx_simps Let_def split: sum.splits intro!: frame)

lemma balance_inv: "inv_act I (getOrgBalance i e a)"
  by (rule keeps_inv) simp

lemma op_inv:
  assumes "\<And>s s' m. I s \<Longrightarrow> ledger_inv s' \<Longrightarrow> movements s' = m # movements s \<Longrightarrow> txns s' = txns s \<Longrightarrow>
    m_key m = normalizeKey (p_idempotencyKey params) \<Longrightarrow> I s'"
  shows "inv_act I (run_op op params)"
  unfolding inv_act_def
proof (intro allI impI)
  fix s r s' assume "I s" and run: "run_op op params s = (r, s')"
  from ledger [OF \<open>I s\<close>] run show "I s'"
    by (cases rule: run_op_cases) (use \<open>I s\<close> assms in auto)
qed

lemma txn_inv:
  assumes "\<And>s s'. I s \<Longrightarrow> ledger_inv s' \<Longrightarrow> movements s' = movements s \<Longrightarrow> balances s' = balances s \<Longrightarrow>
    money s' = money s \<Longrightarrow> txns s' = update_rows t_id i f (txns s) \<Longrightarrow> I s'"
  shows "inv_act I (sql_txn i f)"
  unfolding inv_act_def
proof (intro allI impI)
  fix s r s' assume "I s" and "sql_txn i f s = (r, s')"
  then have "s' = s\<lparr>txns := update_rows t_id i f (txns s)\<rparr>"
    by (simp add: sql_txn_def run_tx_def update_txn_def)
  with assms [OF \<open>I s\<close>, of s'] ledger [OF \<open>I s\<close>] show "I s'" by simp
qed

end

section \<open>The ledger does not move\<close>

text \<open>The second instance: no movement is posted and no balance changes. Patches of rows keep it.\<close>

definition ledger_fixed :: "db \<Rightarrow> db \<Rightarrow> bool" where
  "ledger_fixed s0 s \<longleftrightarrow> ledger_inv s \<and> movements s = movements s0 \<and> balances s = balances s0"

interpretation fixed: ledger_view "ledger_fixed s0" for s0
  by unfold_locales (auto simp: ledger_fixed_def)

lemma fixed_sql_txn: "inv_act (ledger_fixed s0) (sql_txn i f)"
  by (rule fixed.txn_inv) (auto simp: ledger_fixed_def)

lemma fixed_patches [inv_intros]:
  "inv_act (ledger_fixed s0) (patchTx i st p)" "inv_act (ledger_fixed s0) (patchPayoutMeta i p so)"
  "inv_act (ledger_fixed s0) (patchCollectionFundingMeta i kvs)"
  unfolding patchTx_def patchPayoutMeta_def patchCollectionFundingMeta_def
  by (intro inv_intros fixed_sql_txn)+

lemmas fixed_reads [inv_intros] = fixed.settlement_inv fixed.balance_inv

text \<open>A ledger operation whose key is on the ledger posts nothing.\<close>

lemma fixed_op:
  assumes "normalizeKey (p_idempotencyKey params) \<in> m_key ` set (movements s0)"
  shows "inv_act (ledger_fixed s0) (run_op op params)"
  unfolding inv_act_def
proof (intro allI impI)
  fix s r s' assume fixed: "ledger_fixed s0 s" and run: "run_op op params s = (r, s')"
  then have "ledger_inv s" by (simp add: ledger_fixed_def)
  from this run show "ledger_fixed s0 s'"
    by (cases rule: run_op_cases) (use fixed assms in \<open>auto simp: ledger_fixed_def\<close>)
qed

text \<open>
  The third instance: money is only moved between the phases of a balance, and the movements under
  the keys \<open>K\<close> stay on the ledger. Confirming a wallet funding keeps it.
\<close>

definition supply_fixed :: "string set \<Rightarrow> rat \<Rightarrow> db \<Rightarrow> bool" where
  "supply_fixed K x s \<longleftrightarrow> ledger_inv s \<and> money s = x \<and> K \<subseteq> m_key ` set (movements s)"

interpretation amount: ledger_view "supply_fixed K x" for K x
  by unfold_locales (auto simp: supply_fixed_def)

lemma supply_sql_txn: "inv_act (supply_fixed K x) (sql_txn i f)"
  by (rule amount.txn_inv) (auto simp: supply_fixed_def)

lemma supply_patches [inv_intros]:
  "inv_act (supply_fixed K x) (patchTx i st p)" "inv_act (supply_fixed K x) (patchCollectionFundingMeta i kvs)"
  "inv_act (supply_fixed K x) (sql_txn i (settled_txn sd h))"
  unfolding patchTx_def patchCollectionFundingMeta_def by (intro inv_intros supply_sql_txn)+

lemmas supply_reads [inv_intros] = amount.settlement_inv amount.balance_inv

lemma supply_accounts [inv_intros]:
  "inv_act (supply_fixed K x) (getOrgStellarAccount sd i e)" "inv_act (supply_fixed K x) (provisionOrgStellarAccount sd i e m)"
  by (rule amount.keeps_inv, simp)+

lemma supply_release_pending: "inv_act (supply_fixed K x) (releasePendingToAvailable params)"
  unfolding inv_act_def
proof (intro allI impI)
  fix s r s' assume fixed: "supply_fixed K x s" and "releasePendingToAvailable params s = (r, s')"
  then have run: "run_op OpReleasePending params s = (r, s')" and inv: "ledger_inv s" by (simp_all add: supply_fixed_def)
  have "money s' = money s" if "r = Inr (m, dup)" for m dup
    using op.op_money [OF inv run [unfolded run_op_write that]] by simp
  with inv run fixed show "supply_fixed K x s'"
    by (cases rule: run_op_cases) (auto simp: supply_fixed_def)
qed

lemma supply_funding [inv_intros]: "inv_act (supply_fixed K x) (fundOrReport sd row y)"
  unfolding fundOrReport_def fundCollectionStellarWallet_def payFunding_def fundingWallet_def awaitTreasury_def
    sendFunding_def afterSubmit_def confirmCollectionFunding_def Let_def
  by (intro inv_intros supply_release_pending)

lemma ledger_fixed_refl: "ledger_inv s \<Longrightarrow> ledger_fixed s s"
  by (simp add: ledger_fixed_def)

section \<open>Payouts are resolved once\<close>

definition finalize_key :: "string \<Rightarrow> string" where
  "finalize_key i = ''payout:'' @ i @ '':finalize''"

definition release_key :: "string \<Rightarrow> string" where
  "release_key i = ''payout:'' @ i @ '':release''"

definition is_finalize :: "string \<Rightarrow> bool" where
  "is_finalize k \<longleftrightarrow> starts_with k ''payout:'' \<and> ends_with k '':finalize''"

definition is_release :: "string \<Rightarrow> bool" where
  "is_release k \<longleftrightarrow> starts_with k ''payout:'' \<and> ends_with k '':release''"

definition finalized :: "txn \<Rightarrow> bool" where
  "finalized t \<longleftrightarrow> flag (t_metadata t) ''fundsFinalized''"

definition released :: "txn \<Rightarrow> bool" where
  "released t \<longleftrightarrow> flag (t_metadata t) ''fundsReleased''"

definition resolved_ok :: "txn list \<Rightarrow> string \<Rightarrow> bool" where
  "resolved_ok ts k \<longleftrightarrow> (is_finalize k \<longrightarrow> list_ex (\<lambda>t. k = finalize_key (t_id t) \<and> finalized t) ts)
     \<and> (is_release k \<longrightarrow> list_ex (\<lambda>t. k = release_key (t_id t) \<and> released t) ts)"

definition payout_inv :: "db \<Rightarrow> bool" where
  "payout_inv s \<longleftrightarrow> ledger_inv s \<and> distinct (map t_id (txns s))
     \<and> list_all (\<lambda>t. \<not> (finalized t \<and> released t)) (txns s)
     \<and> list_all (\<lambda>m. resolved_ok (txns s) (m_key m)) (movements s)"

lemma finalize_key_form [simp]: "is_finalize (finalize_key i)" "is_release (release_key i)"
  by (simp_all add: is_finalize_def is_release_def finalize_key_def release_key_def starts_with_def ends_with_def)

lemma finalize_not_release [simp]: "\<not> is_release (finalize_key i)" "\<not> is_finalize (release_key i)"
  by (simp_all add: is_finalize_def is_release_def finalize_key_def release_key_def starts_with_def ends_with_def)

lemma finalize_key_inject [simp]: "finalize_key i = finalize_key j \<longleftrightarrow> i = j" "release_key i = release_key j \<longleftrightarrow> i = j"
  by (simp_all add: finalize_key_def release_key_def)

lemma ends_with_snoc [simp]: "ends_with (s @ [c]) (p @ [d]) \<longleftrightarrow> c = d \<and> ends_with s p"
  by (auto simp: ends_with_def starts_with_def)

interpretation payout: ledger_view payout_inv
  by unfold_locales (auto simp: payout_inv_def)

lemma payout_invD:
  assumes "payout_inv s"
  shows "ledger_inv s" "distinct (map t_id (txns s))"
    "t \<in> set (txns s) \<Longrightarrow> \<not> (finalized t \<and> released t)"
    "m \<in> set (movements s) \<Longrightarrow> resolved_ok (txns s) (m_key m)"
  using assms by (auto simp: payout_inv_def list_all_iff)

text \<open>A movement under another key, and a patch that leaves the two flags alone.\<close>

lemma payout_other_movement:
  assumes "payout_inv s" and "ledger_inv s'" and "movements s' = m # movements s" and "txns s' = txns s"
    and "\<not> is_finalize (m_key m)" and "\<not> is_release (m_key m)"
  shows "payout_inv s'"
  using assms by (simp add: payout_inv_def resolved_ok_def)

definition neutral :: "(txn \<Rightarrow> txn) \<Rightarrow> bool" where
  "neutral f \<longleftrightarrow> (\<forall>t. t_id (f t) = t_id t \<and> finalized (f t) = finalized t \<and> released (f t) = released t)"

lemma neutral_patch [simp]:
  assumes "p ''fundsFinalized'' = None" and "p ''fundsReleased'' = None"
  shows "neutral (\<lambda>t. t\<lparr>t_status := st, t_metadata := t_metadata t ++ p\<rparr>)"
    and "neutral (\<lambda>t. t\<lparr>t_metadata := t_metadata t ++ p\<rparr>)"
  using assms by (simp_all add: neutral_def finalized_def released_def flag_def map_add_def)

lemma update_rows_ids: "(\<And>t. t_id (f t) = t_id t) \<Longrightarrow> map t_id (update_rows t_id i f ts) = map t_id ts"
  by (simp add: update_rows_def)

lemma list_ex_update_rows:
  assumes "\<And>t. P (f t) = P t"
  shows "list_ex P (update_rows t_id i f ts) = list_ex P ts"
  using assms by (auto simp: update_rows_def list_ex_iff)

lemma payout_neutral_patch:
  assumes "neutral f" and "payout_inv s" and "ledger_inv s'" and "movements s' = movements s"
    and "txns s' = update_rows t_id i f (txns s)"
  shows "payout_inv s'"
proof -
  have n: "t_id (f t) = t_id t" "finalized (f t) = finalized t" "released (f t) = released t" for t
    using assms(1) by (simp_all add: neutral_def)
  have "resolved_ok (txns s') k = resolved_ok (txns s) k" for k
    unfolding resolved_ok_def assms(5) by (simp add: list_ex_update_rows n)
  moreover have "list_all (\<lambda>t. \<not> (finalized t \<and> released t)) (txns s')"
    using assms(2) by (auto simp: assms(5) payout_inv_def update_rows_def list_all_iff n)
  ultimately show ?thesis
    using assms(2-4) by (simp add: payout_inv_def assms(5) update_rows_ids n)
qed

lemma payout_sql_txn: "neutral f \<Longrightarrow> inv_act payout_inv (sql_txn i f)"
  by (rule payout.txn_inv) (rule payout_neutral_patch)

lemma payout_patchTx [inv_intros]:
  "p ''fundsFinalized'' = None \<Longrightarrow> p ''fundsReleased'' = None \<Longrightarrow> inv_act payout_inv (patchTx i st p)"
  unfolding patchTx_def by (rule payout_sql_txn) simp

lemma payout_patchPayoutMeta [inv_intros]:
  "p ''fundsFinalized'' = None \<Longrightarrow> p ''fundsReleased'' = None \<Longrightarrow> inv_act payout_inv (patchPayoutMeta i p st)"
  unfolding patchPayoutMeta_def by (intro inv_intros payout_sql_txn) simp_all

lemma payout_patchFunding [inv_intros]: "inv_act payout_inv (patchCollectionFundingMeta i p)"
  unfolding patchCollectionFundingMeta_def
  by (rule payout_sql_txn) (simp add: neutral_def finalized_def released_def flag_def)

lemma payout_settled_txn [inv_intros]: "inv_act payout_inv (sql_txn i (settled_txn sd h))"
  unfolding settled_txn_def by (rule payout_sql_txn, rule neutral_patch) simp_all

lemmas payout_reads [inv_intros] = payout.settlement_inv payout.balance_inv

lemma payout_accounts [inv_intros]:
  "inv_act payout_inv (getOrgStellarAccount sd i e)" "inv_act payout_inv (provisionOrgStellarAccount sd i e m)"
  "inv_act payout_inv (getOrgStellarSigningSecret sd i e)"
  by (rule payout.keeps_inv, simp)+

text \<open>The keys of the ledger calls.\<close>

lemma lifecycle_key [simp]:
  "p \<noteq> [] \<Longrightarrow> \<not> is_ws (hd p) \<Longrightarrow> q \<noteq> [] \<Longrightarrow> \<not> is_ws (last q) \<Longrightarrow>
     normalizeKey (p_idempotencyKey (lifecycle_params row x p q mt rt meta)) = p @ t_id row @ q"
  by (simp add: lifecycle_params_def normalizeKey_wrapped)

lemmas key_forms = is_ws_def is_finalize_def is_release_def starts_with_def ends_with_def

lemma payout_op:
  assumes "\<not> is_finalize (normalizeKey (p_idempotencyKey params))"
    and "\<not> is_release (normalizeKey (p_idempotencyKey params))"
  shows "inv_act payout_inv (run_op op params)"
  by (rule payout.op_inv) (rule payout_other_movement, use assms in auto)

section \<open>The operations of the life cycle\<close>

lemma payout_confirm [inv_intros]: "inv_act payout_inv (confirmCollectionFunding sd st h l)"
proof -
  have "inv_act payout_inv (releasePendingToAvailable (available_params st c h'))" for c h'
  proof -
    have "normalizeKey (p_idempotencyKey (available_params st c h')) = ''collection:'' @ c @ '':available''"
      using normalizeKey_wrapped [of "''collection:''" "'':available''" c] by (simp add: available_params_def is_ws_def)
    then show ?thesis using payout_op [of "available_params st c h'" OpReleasePending] by (simp add: key_forms)
  qed
  then show ?thesis unfolding confirmCollectionFunding_def Let_def by (intro inv_intros)
qed

lemma payout_fund [inv_intros]: "inv_act payout_inv (fundCollectionStellarWallet sd input)"
  unfolding fundCollectionStellarWallet_def payFunding_def fundingWallet_def awaitTreasury_def sendFunding_def
    afterSubmit_def Let_def
  by (intro inv_intros)

lemma payout_credit [inv_intros]: "inv_act payout_inv (collectionCredit input row x r w)"
proof -
  have "inv_act payout_inv (creditOrgWallet (lifecycle_params row x ''collection:'' '':credit'' mt rt meta))" for mt rt meta
    using payout_op [of "lifecycle_params row x ''collection:'' '':credit'' mt rt meta" OpCredit] by (simp add: key_forms)
  moreover have "inv_act payout_inv (creditOrgWalletPending (lifecycle_params row x ''collection:'' '':pending'' mt rt meta))"
    for mt rt meta
    using payout_op [of "lifecycle_params row x ''collection:'' '':pending'' mt rt meta" OpCreditPending]
    by (simp add: key_forms)
  ultimately show ?thesis unfolding collectionCredit_def by (intro inv_intros)
qed

lemma payout_settle [inv_intros]: "inv_act payout_inv (settleCollectionCredit sd input)"
  unfolding settleCollectionCredit_def settleCredited_def patchCredited_def credit_patch_def fundOrReport_def Let_def
  by (intro inv_intros) simp_all

lemma payout_lock [inv_intros]: "inv_act payout_inv (lockPayoutFunds i t x)"
proof -
  have "inv_act payout_inv (lockOrgFunds (lifecycle_params row x ''payout:'' '':lock'' mt rt meta))" for row x mt rt meta
    using payout_op [of "lifecycle_params row x ''payout:'' '':lock'' mt rt meta" OpLock] by (simp add: key_forms)
  then show ?thesis unfolding lockPayoutFunds_def lockPayoutRow_def by (intro inv_intros) simp_all
qed

text \<open>
  The two resolutions. Between the ledger operation and the patch of the row the invariant is open;
  the patch closes it.
\<close>

lemma loadTx_row: "loadTx i o' s = (Inr (Some row), s') \<Longrightarrow> s' = s \<and> row \<in> set (txns s) \<and> t_id row = i"
  by (auto simp: loadTx_def split: option.splits dest: find_row_Some)

lemma loadTx_state: "loadTx i o' s = (r, s') \<Longrightarrow> s' = s \<and> (\<exists>x. r = Inr x)"
  by (auto simp: loadTx_def split: option.splits)

definition resolve_patch :: "bool \<Rightarrow> (txn \<Rightarrow> txn) \<Rightarrow> bool" where
  "resolve_patch fin f \<longleftrightarrow> (\<forall>t. t_id (f t) = t_id t
     \<and> finalized (f t) = (fin \<or> finalized t) \<and> released (f t) = (\<not> fin \<or> released t))"

lemma list_ex_map_mono: "list_ex P ts \<Longrightarrow> (\<And>t. P t \<Longrightarrow> P (g t)) \<Longrightarrow> list_ex P (map g ts)"
  by (auto simp: list_ex_iff)

lemma payout_resolve:
  assumes inv: "payout_inv s" and row: "row \<in> set (txns s)" and unres: "\<not> (if fin then released row else finalized row)"
    and s': "ledger_inv s'" "txns s' = update_rows t_id (t_id row) f (txns s)" and f: "resolve_patch fin f"
    and new: "set (movements s') \<subseteq> insert m (set (movements s))"
      "m_key m = (if fin then finalize_key (t_id row) else release_key (t_id row))"
  shows "payout_inv s'"
proof -
  note p = payout_invD [OF inv]
  have f': "t_id (f t) = t_id t" "finalized (f t) = (fin \<or> finalized t)" "released (f t) = (\<not> fin \<or> released t)" for t
    using f by (simp_all add: resolve_patch_def)
  have only: "t = row" if "t \<in> set (txns s)" "t_id t = t_id row" for t
    using p(2) row that by (metis distinct_map inj_on_eq_iff)
  let ?g = "\<lambda>t. if t_id t = t_id row then f t else t"
  have ts: "txns s' = map ?g (txns s)" by (simp add: s'(2) update_rows_def)
  have excl: "\<not> (finalized t \<and> released t)" if "t \<in> set (txns s')" for t
  proof -
    from that obtain t0 where t0: "t0 \<in> set (txns s)" "t = ?g t0" by (auto simp: ts)
    with only [OF t0(1)] unres p(3) [OF t0(1)] show ?thesis by (auto simp: f' split: if_splits)
  qed
  have keep: "resolved_ok (txns s') k" if "resolved_ok (txns s) k" for k
  proof -
    have "list_ex (\<lambda>t. k = finalize_key (t_id t) \<and> finalized t) (map ?g ts)"
      if "list_ex (\<lambda>t. k = finalize_key (t_id t) \<and> finalized t) ts" for ts
      using that by (rule list_ex_map_mono) (simp add: f'(1,2))
    moreover have "list_ex (\<lambda>t. k = release_key (t_id t) \<and> released t) (map ?g ts)"
      if "list_ex (\<lambda>t. k = release_key (t_id t) \<and> released t) ts" for ts
      using that by (rule list_ex_map_mono) (simp add: f'(1,3))
    ultimately show ?thesis using that unfolding resolved_ok_def ts by blast
  qed
  have fr: "f row \<in> set (txns s')" using row by (auto simp: ts)
  have "resolved_ok (txns s') (m_key m)"
  proof (cases fin)
    case True
    have "list_ex (\<lambda>t. finalize_key (t_id row) = finalize_key (t_id t) \<and> finalized t) (txns s')"
      unfolding list_ex_iff by (rule bexI [OF _ fr]) (simp add: f'(1,2) True)
    then show ?thesis by (simp add: resolved_ok_def new(2) True)
  next
    case False
    have "list_ex (\<lambda>t. release_key (t_id row) = release_key (t_id t) \<and> released t) (txns s')"
      unfolding list_ex_iff by (rule bexI [OF _ fr]) (simp add: f'(1,3) False)
    then show ?thesis by (simp add: resolved_ok_def new(2) False)
  qed
  moreover have "resolved_ok (txns s') (m_key x)" if "x \<in> set (movements s)" for x
    by (rule keep) (rule p(4) [OF that])
  ultimately have "\<forall>x \<in> set (movements s'). resolved_ok (txns s') (m_key x)" using new(1) by blast
  then show ?thesis
    using s'(1) p(2) excl by (simp add: payout_inv_def list_all_iff s'(2) update_rows_ids f')
qed

lemma op_then_patch:
  assumes inv: "payout_inv s" and run: "run_op op params s = (Inr (m, dup), s1)" and row: "row \<in> set (txns s)"
    and unres: "\<not> (if fin then released row else finalized row)" and f: "resolve_patch fin f"
    and key: "normalizeKey (p_idempotencyKey params) = (if fin then finalize_key (t_id row) else release_key (t_id row))"
  shows "payout_inv (s1\<lparr>txns := update_rows t_id (t_id row) f (txns s1)\<rparr>)"
  using payout_invD(1) [OF inv] run
proof (cases rule: run_op_cases)
  case (dup m')
  show ?thesis
    by (rule payout_resolve [OF inv row unres _ _ f, of _ m])
      (use dup run key payout_invD(1) [OF inv] in auto)
next
  case (posted m')
  show ?thesis
    by (rule payout_resolve [OF inv row unres _ _ f, of _ m])
      (use posted run key in auto)
qed (use run in simp)

lemma payout_resolution:
  assumes inv: "payout_inv s" and row: "row \<in> set (txns s)" and unres: "\<not> (if fin then released row else finalized row)"
    and f: "\<And>m. resolve_patch fin (\<lambda>t. t\<lparr>t_status := st, t_metadata := t_metadata t ++ p m\<rparr>)"
    and key: "normalizeKey (p_idempotencyKey params) = (if fin then finalize_key (t_id row) else release_key (t_id row))"
    and run: "abnd (run_op op params) (\<lambda>m. abnd (patchTx (t_id row) st (p m)) (\<lambda>_.
      abnd (getOrgBalance i e a) (\<lambda>b. aret (m, b)))) s = (r, s')"
  shows "payout_inv s'"
proof -
  obtain r1 s1 where op: "run_op op params s = (r1, s1)" by (cases "run_op op params s") auto
  show ?thesis
  proof (cases r1)
    case (Inl e)
    have "s1 = s" using payout_invD(1) [OF inv] op by (cases rule: run_op_cases) (use Inl in auto)
    with run op Inl inv show ?thesis by simp
  next
    case (Inr md)
    obtain m dup where md: "md = (m, dup)" by (cases md)
    let ?s2 = "s1\<lparr>txns := update_rows t_id (t_id row) (\<lambda>t. t\<lparr>t_status := st, t_metadata := t_metadata t ++ p md\<rparr>) (txns s1)\<rparr>"
    have "payout_inv ?s2"
      by (rule op_then_patch [OF inv _ row unres f key]) (use op Inr md in simp)
    moreover have "abnd (getOrgBalance i e a) (\<lambda>b. aret (md, b)) ?s2 = (r, s')"
      using run op Inr by (simp add: patchTx_def sql_txn_def run_tx_def update_txn_def abnd_def)
    moreover have "inv_act payout_inv (abnd (getOrgBalance i e a) (\<lambda>b. aret (md, b)))"
      by (intro inv_intros)
    ultimately show ?thesis using inv_actD by blast
  qed
qed

lemma resolve_patches:
  "p ''fundsFinalized'' = Some (JBool True) \<Longrightarrow> p ''fundsReleased'' = None \<Longrightarrow>
     resolve_patch True (\<lambda>t. t\<lparr>t_status := st, t_metadata := t_metadata t ++ p\<rparr>)"
  "p ''fundsReleased'' = Some (JBool True) \<Longrightarrow> p ''fundsFinalized'' = None \<Longrightarrow>
     resolve_patch False (\<lambda>t. t\<lparr>t_status := st, t_metadata := t_metadata t ++ p\<rparr>)"
  by (simp_all add: resolve_patch_def finalized_def released_def flag_def map_add_def)

lemma payout_finalizeRow:
  assumes "payout_inv s" and "row \<in> set (txns s)" and "\<not> released row"
    and "finalizePayoutRow sd input row x s = (r, s')"
  shows "payout_inv s'"
  by (rule payout_resolution [OF assms(1,2), of True, OF _ resolve_patches(1)
        _ assms(4) [unfolded finalizePayoutRow_def run_op.simps [symmetric]]])
    (use assms(3) in \<open>simp_all add: finalize_key_def is_ws_def\<close>)

lemma payout_releaseRow:
  assumes "payout_inv s" and "row \<in> set (txns s)" and "\<not> finalized row"
    and "releasePayoutRow sd input row x s = (r, s')"
  shows "payout_inv s'"
  by (rule payout_resolution [OF assms(1,2), of False, OF _ resolve_patches(2)
        _ assms(4) [unfolded releasePayoutRow_def run_op.simps [symmetric]]])
    (use assms(3) in \<open>simp_all add: release_key_def is_ws_def\<close>)

text \<open>A request that loads its row first.\<close>

lemma loadTx_inv:
  assumes "\<And>row s r s'. payout_inv s \<Longrightarrow> row \<in> set (txns s) \<Longrightarrow> f row s = (r, s') \<Longrightarrow> payout_inv s'"
  shows "inv_act payout_inv (abnd (loadTx i o') (\<lambda>found. case found of None \<Rightarrow> athrow e | Some row \<Rightarrow> f row))"
  unfolding inv_act_def
proof (intro allI impI)
  fix s r s' assume inv: "payout_inv s"
    and run: "abnd (loadTx i o') (\<lambda>found. case found of None \<Rightarrow> athrow e | Some row \<Rightarrow> f row) s = (r, s')"
  obtain r1 s1 where load: "loadTx i o' s = (r1, s1)" by (cases "loadTx i o' s") auto
  from loadTx_state [OF load] obtain found where r1: "r1 = Inr found" and "s1 = s" by blast
  show "payout_inv s'"
  proof (cases found)
    case None
    with run load r1 \<open>s1 = s\<close> inv show ?thesis by simp
  next
    case (Some row)
    with load r1 \<open>s1 = s\<close> have "row \<in> set (txns s)" using loadTx_row by blast
    moreover have "f row s = (r, s')" using run load r1 \<open>s1 = s\<close> Some by simp
    ultimately show ?thesis using assms inv by blast
  qed
qed

lemma payout_finalize [inv_intros]: "inv_act payout_inv (finalizePayoutDebit sd input)"
  unfolding finalizePayoutDebit_def
  by (rule loadTx_inv)
    (auto simp: released_def split: if_splits option.splits intro: payout_finalizeRow [unfolded released_def])

lemma payout_release [inv_intros]: "inv_act payout_inv (releasePayoutLock sd input)"
  unfolding releasePayoutLock_def
  by (rule loadTx_inv)
    (auto simp: finalized_def split: if_splits option.splits intro: payout_releaseRow [unfolded finalized_def])

section \<open>Webhooks and withdrawals\<close>

lemma payout_yellowcard [inv_intros]: "inv_act payout_inv (applyInfraYellowCardWebhook sd payload)"
  unfolding applyInfraYellowCardWebhook_def dispatchWebhook_def collectionWebhook_def payoutWebhook_def
    payoutSuccess_def payoutFailure_def Let_def
  by (intro inv_intros) simp_all

lemma payout_flutterwave [inv_intros]: "inv_act payout_inv (applyInfraFlutterwaveWebhook sd fw)"
  unfolding applyInfraFlutterwaveWebhook_def flutterwaveAmount_def Let_def
  by (intro inv_intros) simp_all

lemma payout_treasury [inv_intros]: "inv_act payout_inv (settleStellarToTreasury sd yc i row x)"
  unfolding settleStellarToTreasury_def sendToTreasury_def afterStellarSubmit_def stellarConfirmed_def
    stellarFailed_def offrampEnvelope_def offrampKeys_def Let_def
  by (intro inv_intros) simp_all

lemma payout_provider [inv_intros]: "inv_act payout_inv (submitProviderPayout sd yc i row x)"
  unfolding submitProviderPayout_def sendToProvider_def afterProvider_def providerFailed_def Let_def
  by (intro inv_intros) simp_all

lemma payout_offramp [inv_intros]: "inv_act payout_inv (settleFiatOfframp sd yc i p)"
  unfolding settleFiatOfframp_def settleLegs_def retryView_def submittedView_def completedView_def Let_def
  by (intro inv_intros)

lemma payout_retry [inv_intros]: "inv_act payout_inv (retryFiatOfframpProvider sd yc i p)"
  unfolding retryFiatOfframpProvider_def completedView_def Let_def
  by (intro inv_intros)

section \<open>What a change of the database does not touch\<close>

text \<open>
  Service code that does not read what a change of the database writes: it answers the same after the
  change and leaves the change where it is.
\<close>

definition commutes :: "(db \<Rightarrow> db) \<Rightarrow> (db, 'a) act \<Rightarrow> bool" where
  "commutes f m \<longleftrightarrow> (\<forall>s. m (f s) = (fst (m s), f (snd (m s))))"

named_theorems commute_intros \<open>code that does not read what a change writes\<close>

lemma commutes_basic [commute_intros]:
  "commutes f (aret x)" "commutes f (athrow err)" "(\<And>s. q (f s) = q s) \<Longrightarrow> commutes f (aquery q)"
  by (simp_all add: commutes_def aret_def athrow_def aquery_def)

lemma commutes_bind [commute_intros]:
  assumes "commutes f m" and "\<And>x. commutes f (k x)"
  shows "commutes f (abnd m k)"
  using assms by (auto simp: commutes_def abnd_def split: prod.splits sum.splits)

lemma commutes_catch [commute_intros]:
  assumes "commutes f m" and "\<And>x. commutes f (k x)"
  shows "commutes f (acatch m k)"
  using assms by (auto simp: commutes_def acatch_def split: prod.splits sum.splits)

lemma commutes_case [commute_intros]:
  "commutes f m \<Longrightarrow> commutes f n \<Longrightarrow> commutes f (if c then m else n)"
  "commutes f n \<Longrightarrow> (\<And>x. commutes f (k x)) \<Longrightarrow> commutes f (case opt of None \<Rightarrow> n | Some x \<Rightarrow> k x)"
  "(\<And>x. commutes f (h x)) \<Longrightarrow> (\<And>x. commutes f (k' x)) \<Longrightarrow> commutes f (case e of Inl x \<Rightarrow> h x | Inr x \<Rightarrow> k' x)"
  "(\<And>x y. commutes f (p x y)) \<Longrightarrow> commutes f (case xy of (x, y) \<Rightarrow> p x y)"
  "commutes f z \<Longrightarrow> (\<And>x. commutes f (n' x)) \<Longrightarrow> (\<And>neg. commutes f (i neg)) \<Longrightarrow>
    commutes f (case num of Fin x \<Rightarrow> n' x | NaN \<Rightarrow> z | Infinite neg \<Rightarrow> i neg)"
  by (auto split: option.split sum.split prod.split js_num.split)

lemma usdc_commutes: "(\<And>s. fx_rates (f s) = fx_rates s) \<Longrightarrow> commutes f (resolveUsdcAmount x c)"
  unfolding resolveUsdcAmount_def convertAmountToUsd_def checked_amount_def select_rate_def Let_def
  by (intro commute_intros) simp_all

lemma usdc_by_rates:
  assumes "fx_rates s = fx_rates s'"
  shows "fst (resolveUsdcAmount x c s) = fst (resolveUsdcAmount x c s')"
  using assms
  by (simp add: resolveUsdcAmount_def convertAmountToUsd_def checked_amount_def select_rate_def aquery_def abnd_def aret_def athrow_def Let_def
      split: js_num.split option.split sum.split)

lemma usdc_on_grid: "fst (resolveUsdcAmount x c s) = Inr fx \<Longrightarrow> on_grid (ua_usdcAmount fx)"
  by (auto simp: resolveUsdcAmount_def Let_def abnd_def aret_def split: if_splits sum.splits prod.splits)

end
