(* ===== verification/Payout_Facts.thy ===== *)
theory Payout_Facts
  imports Service_Invariant
begin

text \<open>
  What a payout operation of \<open>infraLifecycleService.ts\<close> does to the ledger and to its row, in terms of
  the abstract steps of the wallet operations.
\<close>

section \<open>The effect of an operation on the ledger\<close>

definition payout_account :: "txn \<Rightarrow> account" where
  "payout_account row = (t_org row, t_env row, ''USDC'')"

lemma account_of_lifecycle [simp]:
  "account_of (lifecycle_params row x p q mt rt meta) = payout_account row"
  "p_amount (lifecycle_params row x p q mt rt meta) = RNum (Fin x)"
  by (simp_all add: account_of_def lifecycle_params_def payout_account_def)

lemma usdcOf_state: "usdcOf row k s = (r, s') \<Longrightarrow> s' = s"
  using inv_actD [OF reads_fx(2), of "\<lambda>x. x = s"] by blast

text \<open>A ledger operation, then the patch of the row, then the balance: what the caller gets.\<close>

lemma op_patch_balance:
  assumes inv: "ledger_inv s" and run: "abnd (run_op op params) (\<lambda>m. abnd (patchTx i st (p m)) (\<lambda>_.
      abnd (getOrgBalance orgId (env_name env) None) (\<lambda>b. aret (m, b)))) s = (Inr ((m, dup), v), s')"
  obtains s1 where "run_op op params s = (Inr (m, dup), s1)" "ledger_inv s'" "balances s' = balances s1"
    "movements s' = movements s1" "settlements s' = settlements s"
    "txns s' = update_rows t_id i (\<lambda>t. t\<lparr>t_status := st, t_metadata := t_metadata t ++ p (m, dup)\<rparr>) (txns s)"
    "balances s' (orgId, env, ''USDC'') = (b_available v, b_pending v, b_locked v)"
proof -
  let ?f = "\<lambda>t. t\<lparr>t_status := st, t_metadata := t_metadata t ++ p (m, dup)\<rparr>"
  from run obtain s1 s2 where 1: "run_op op params s = (Inr (m, dup), s1)"
    and 2: "s2 = s1\<lparr>txns := update_rows t_id i ?f (txns s1)\<rparr>"
    and 3: "getOrgBalance orgId (env_name env) None s2 = (Inr v, s')"
    by (auto simp: act_simps patchTx_def sql_txn_def update_txn_def)
  have inv1: "ledger_inv s1" and same: "txns s1 = txns s" "settlements s1 = settlements s"
    using inv 1 by (cases rule: run_op_cases; use inv in auto)+
  then have inv2: "ledger_inv s2" by (simp add: 2)
  note u = getOrgBalance_unchanged [OF inv2 3] and view = getOrgBalance_view [OF inv2 3]
  show thesis
    by (rule that [OF 1]) (use u view 2 same in \<open>auto simp: unchanged_def ledger_same_def\<close>)
qed

text \<open>
  The contract of a payout operation: a replay does nothing, otherwise the abstract step runs on the
  account of the payout's organisation and environment for the parsed amount, and on no other.
\<close>

definition payout_effect :: "wallet_op \<Rightarrow> txn \<Rightarrow> rat \<Rightarrow> movement \<times> bool \<Rightarrow> db \<Rightarrow> db \<Rightarrow> bool" where
  "payout_effect op row x res s s' \<longleftrightarrow> (if snd res then balances s' = balances s \<and> movements s' = movements s
    else parseAmount (RNum (Fin x)) = Inr (m_amount (fst res))
      \<and> spec_step op (balances s (payout_account row)) (m_amount (fst res)) = Some (balances s' (payout_account row))
      \<and> (\<forall>k. k \<noteq> payout_account row \<longrightarrow> balances s' k = balances s k))"

lemma op_effect:
  assumes inv: "ledger_inv s" and run: "run_op op (lifecycle_params row x p q mt rt meta) s = (Inr (m, dup), s1)"
  shows "payout_effect op row x (m, dup) s s1"
proof (cases dup)
  case True
  with run have r: "run_op op (lifecycle_params row x p q mt rt meta) s = (Inr (m, True), s1)" by simp
  show ?thesis using inv r by (cases rule: run_op_cases) (simp_all add: True payout_effect_def)
next
  case False
  with run have r: "run_op op (lifecycle_params row x p q mt rt meta) s = (Inr (m, False), s1)" by simp
  obtain amount where am: "parseAmount (RNum (Fin x)) = Inr amount"
    using r [unfolded run_op_write] by (cases rule: op.op_cases) auto
  have "m_amount m = amount"
    by (rule op.committed_amount [OF inv r [unfolded run_op_write]]) (simp add: am)
  with am False run_op_refines [OF inv r] show ?thesis by (simp add: payout_effect_def)
qed

lemma payout_run:
  assumes inv: "ledger_inv s"
    and run: "abnd (run_op op (lifecycle_params row x p q mt rt meta)) (\<lambda>m. abnd (patchTx (t_id row) st (g m)) (\<lambda>_.
      abnd (getOrgBalance (t_org row) (env_name (t_env row)) None) (\<lambda>b. aret (m, b)))) s = (Inr (res, v), s')"
  shows "payout_effect op row x res s s'" and "ledger_inv s'"
    and "balances s' (payout_account row) = (b_available v, b_pending v, b_locked v)"
    and "txns s' = update_rows t_id (t_id row) (\<lambda>t. t\<lparr>t_status := st, t_metadata := t_metadata t ++ g res\<rparr>) (txns s)"
proof -
  obtain m dup where res: "res = (m, dup)" by (cases res)
  from op_patch_balance [OF inv run [unfolded res]] obtain s1 where
    1: "run_op op (lifecycle_params row x p q mt rt meta) s = (Inr (m, dup), s1)" "ledger_inv s'"
      "balances s' = balances s1" "movements s' = movements s1"
      "txns s' = update_rows t_id (t_id row) (\<lambda>t. t\<lparr>t_status := st, t_metadata := t_metadata t ++ g (m, dup)\<rparr>) (txns s)"
      "balances s' (t_org row, t_env row, ''USDC'') = (b_available v, b_pending v, b_locked v)" .
  show "payout_effect op row x res s s'"
    using op_effect [OF inv 1(1)] 1(3,4) by (cases dup) (simp_all add: payout_effect_def res)
  show "ledger_inv s'" "balances s' (payout_account row) = (b_available v, b_pending v, b_locked v)"
    "txns s' = update_rows t_id (t_id row) (\<lambda>t. t\<lparr>t_status := st, t_metadata := t_metadata t ++ g res\<rparr>) (txns s)"
    using 1 by (simp_all add: payout_account_def res)
qed

lemma loadTx_found:
  assumes "abnd (loadTx i o') (\<lambda>found. case found of None \<Rightarrow> athrow e | Some row \<Rightarrow> f row) s = (Inr r, s')"
  obtains row where "row \<in> set (txns s)" "t_id row = i" "f row s = (Inr r, s')"
proof -
  obtain r1 s1 where load: "loadTx i o' s = (r1, s1)" by (cases "loadTx i o' s") auto
  from loadTx_state [OF load] obtain found where r1: "r1 = Inr found" "s1 = s" by blast
  show thesis
  proof (cases found)
    case None
    with assms load r1 show thesis by simp
  next
    case (Some row)
    with load r1 have "row \<in> set (txns s)" "t_id row = i" using loadTx_row by blast+
    with assms load r1 Some that show thesis by simp
  qed
qed

lemma updated_row:
  assumes "txns s' = update_rows t_id i f (txns s)" and "\<And>t. t_id (f t) = t_id t" and "t \<in> set (txns s')" and "t_id t = i"
  obtains t0 where "t = f t0"
  using assms by (auto simp: set_update_rows split: if_splits)

section \<open>When an operation commits\<close>

text \<open>
  What a ledger operation of a payout needs: an amount, a fresh key and reference, an active wallet
  and the abstract step - and nothing about the payout itself.
\<close>

definition can_post :: "wallet_op \<Rightarrow> txn \<Rightarrow> rat \<Rightarrow> string \<Rightarrow> string \<Rightarrow> string \<Rightarrow> balance \<Rightarrow> db \<Rightarrow> bool" where
  "can_post op row x key mt rt b s \<longleftrightarrow> (\<exists>a w. parseAmount (RNum (Fin x)) = Inr a \<and> 0 < a \<and> key \<notin> m_key ` set (movements s)
     \<and> Some (t_org row, t_env row, rt, t_id row, mt) \<notin> movement_ref ` set (movements s)
     \<and> find_row wallet_key (payout_account row) (wallets s) = Some w \<and> w_status w = Active
     \<and> spec_step op (balances s (payout_account row)) a = Some b \<and> balance_fits b
     \<and> uuid_of s (uuid_next s) \<notin> m_id ` set (movements s))"

lemma can_postI:
  assumes "parseAmount (RNum (Fin x)) = Inr a" and "0 < a" and "key \<notin> m_key ` set (movements s)"
    and "Some (t_org row, t_env row, rt, t_id row, mt) \<notin> movement_ref ` set (movements s)"
    and "find_row wallet_key (payout_account row) (wallets s) \<noteq> None" and "list_all (\<lambda>w. w_status w = Active) (wallets s)"
    and "spec_step op (balances s (payout_account row)) a = Some b" and "balance_fits b" and "uuid_of s (uuid_next s) \<notin> m_id ` set (movements s)"
  shows "can_post op row x key mt rt b s"
proof -
  from assms(5) obtain w where w: "find_row wallet_key (payout_account row) (wallets s) = Some w" by blast
  with assms(6) have "w_status w = Active" by (auto simp: list_all_iff dest: find_row_Some)
  with assms w show ?thesis by (auto simp: can_post_def)
qed

lemma op_commits:
  assumes inv: "ledger_inv s" and can: "can_post op row x (p @ t_id row @ q) mt rt b s"
    and wrap: "p \<noteq> []" "\<not> is_ws (hd p)" "q \<noteq> []" "\<not> is_ws (last q)" and "mt \<noteq> []"
  obtains m s1 where "run_op op (lifecycle_params row x p q mt rt meta) s = (Inr (m, False), s1)"
    "ledger_inv s1" "movements s1 = m # movements s" "m_key m = p @ t_id row @ q"
    "parseAmount (RNum (Fin x)) = Inr (m_amount m)" "balances s1 (payout_account row) = b"
    "money s1 = money s + op_delta op (m_amount m)" "txns s1 = txns s"
proof -
  let ?params = "lifecycle_params row x p q mt rt meta"
  from can obtain a w where c: "parseAmount (RNum (Fin x)) = Inr a" "0 < a" "p @ t_id row @ q \<notin> m_key ` set (movements s)"
    "Some (t_org row, t_env row, rt, t_id row, mt) \<notin> movement_ref ` set (movements s)"
    "find_row wallet_key (payout_account row) (wallets s) = Some w" "w_status w = Active"
    "spec_step op (balances s (payout_account row)) a = Some b" "uuid_of s (uuid_next s) \<notin> m_id ` set (movements s)"
    "balance_fits b"
    by (auto simp: can_post_def)
  have key: "normalizeKey (p_idempotencyKey ?params) = p @ t_id row @ q"
    using wrap by simp
  have ens: "ensureWalletAccount (p_orgId ?params) (p_environment ?params) (p_asset ?params) s = Inr (w, s)"
    using c(5) by (simp add: ensureWalletAccount_def Let_def bnd_def lifecycle_params_def payout_account_def)
  have ref: "\<not> ref_taken (param_ref (op_type op) ?params) s"
    using c(4) \<open>mt \<noteq> []\<close> by (auto simp: ref_taken_def param_ref_def lifecycle_params_def or_else_def or_str_def image_iff split: if_splits)
  have yes: "spec_step op (balances s (account_of ?params)) a = Some b" using c(7) by simp
  have "\<exists>m s1. ledgerWrite (op_direction op) (op_type op) (op_step op) ?params s = (Inr (m, False), s1)"
    by (rule op.commits [OF inv _ c(2) _ _ ens c(6) yes c(9,8) ref]) (use c(1,3) key wrap in simp_all)
  then obtain m s1 where op: "run_op op ?params s = (Inr (m, False), s1)"
    by (auto simp: run_op_write)
  have s1: "ledger_inv s1" "movements s1 = m # movements s" "m_key m = p @ t_id row @ q" "txns s1 = txns s"
    using inv op by (cases rule: run_op_cases; use key in auto)+
  show thesis
    by (rule that [OF op s1(1-3) _ _ _ s1(4)])
      (use op_effect [OF inv op] op.op_money [OF inv op [unfolded run_op_write]] c(1,7) in \<open>auto simp: payout_effect_def\<close>)
qed

lemma payout_commits:
  assumes inv: "ledger_inv s" and can: "can_post op row x (p @ t_id row @ q) mt ''payout'' b s"
    and wrap: "p \<noteq> []" "\<not> is_ws (hd p)" "q \<noteq> []" "\<not> is_ws (last q)" and "mt \<noteq> []"
    and run: "abnd (run_op op (lifecycle_params row x p q mt ''payout'' meta)) (\<lambda>m. abnd (patchTx (t_id row) st (g m)) (\<lambda>_.
      abnd (getOrgBalance (t_org row) (env_name (t_env row)) None) (\<lambda>b. aret (m, b)))) s = (r, s')"
  shows "balances s' (payout_account row) = b" and "p @ t_id row @ q \<in> m_key ` set (movements s')"
    and "set (movements s) \<subseteq> set (movements s')"
proof -
  obtain m s1 where op: "run_op op (lifecycle_params row x p q mt ''payout'' meta) s = (Inr (m, False), s1)"
    and s1: "ledger_inv s1" "movements s1 = m # movements s" "m_key m = p @ t_id row @ q" "balances s1 (payout_account row) = b"
    using op_commits [OF inv can wrap \<open>mt \<noteq> []\<close>] by metis
  let ?s2 = "s1\<lparr>txns := update_rows t_id (t_id row) (\<lambda>t. t\<lparr>t_status := st, t_metadata := t_metadata t ++ g (m, False)\<rparr>) (txns s1)\<rparr>"
  have rest: "abnd (getOrgBalance (t_org row) (env_name (t_env row)) None) (\<lambda>b. aret ((m, False), b)) ?s2 = (r, s')"
    using run op by (simp add: patchTx_def sql_txn_def run_tx_def update_txn_def abnd_def)
  have "keeps (abnd (getOrgBalance (t_org row) (env_name (t_env row)) None) (\<lambda>b. aret ((m, False), b)))"
    by (intro keeps_intros)
  from keepsD [OF this _ rest] s1(1) have "unchanged ?s2 s'" by simp
  then have "balances s' = balances s1" "movements s' = movements s1" by (simp_all add: unchanged_def ledger_same_def)
  with s1 show "balances s' (payout_account row) = b" "p @ t_id row @ q \<in> m_key ` set (movements s')"
    "set (movements s) \<subseteq> set (movements s')"
    by auto
qed

section \<open>After a resolution\<close>

lemma resolution_rows:
  assumes "payout_inv s"
  shows "finalize_key i \<in> m_key ` set (movements s) \<Longrightarrow> \<exists>t \<in> set (txns s). t_id t = i \<and> finalized t \<and> \<not> released t"
    and "release_key i \<in> m_key ` set (movements s) \<Longrightarrow> \<exists>t \<in> set (txns s). t_id t = i \<and> released t \<and> \<not> finalized t"
proof -
  note p = payout_invD(3,4) [OF assms]
  assume "finalize_key i \<in> m_key ` set (movements s)"
  then have "resolved_ok (txns s) (finalize_key i)" using p(2) by auto
  then obtain t where "t \<in> set (txns s)" "i = t_id t" "finalized t" by (auto simp: resolved_ok_def list_ex_iff)
  with p(1) [of t] show "\<exists>t \<in> set (txns s). t_id t = i \<and> finalized t \<and> \<not> released t" by auto
next
  note p = payout_invD(3,4) [OF assms]
  assume "release_key i \<in> m_key ` set (movements s)"
  then have "resolved_ok (txns s) (release_key i)" using p(2) by auto
  then obtain t where "t \<in> set (txns s)" "i = t_id t" "released t" by (auto simp: resolved_ok_def list_ex_iff)
  with p(1) [of t] show "\<exists>t \<in> set (txns s). t_id t = i \<and> released t \<and> \<not> finalized t" by auto
qed

lemma loaded_flags:
  assumes "payout_inv s" and "loadTx i o' s = (Inr (Some row), s1)"
  shows "finalize_key i \<in> m_key ` set (movements s) \<Longrightarrow> finalized row"
    and "release_key i \<in> m_key ` set (movements s) \<Longrightarrow> released row"
proof -
  have row: "row \<in> set (txns s)" "t_id row = i" using loadTx_row assms(2) loadTx_state [OF assms(2)] by blast+
  have only: "t = row" if "t \<in> set (txns s)" "t_id t = i" for t
    using payout_invD(2) [OF assms(1)] row that by (metis distinct_map inj_on_eq_iff)
  show "finalize_key i \<in> m_key ` set (movements s) \<Longrightarrow> finalized row"
    "release_key i \<in> m_key ` set (movements s) \<Longrightarrow> released row"
    using resolution_rows [OF assms(1)] only by blast+
qed

text \<open>A request whose row is refused changes nothing.\<close>

lemma loadTx_refused:
  assumes "\<And>row s1. loadTx i o' s = (Inr (Some row), s1) \<Longrightarrow> \<exists>e. f row s = (Inl e, s)"
  shows "\<exists>e. abnd (loadTx i o') (\<lambda>found. case found of None \<Rightarrow> athrow e0 | Some row \<Rightarrow> f row) s = (Inl e, s)"
proof -
  obtain r1 s1 where load: "loadTx i o' s = (r1, s1)" by (cases "loadTx i o' s") auto
  from loadTx_state [OF load] obtain found where "r1 = Inr found" "s1 = s" by blast
  with load assms show ?thesis by (cases found) auto
qed

section \<open>An operation under a fresh key\<close>

definition spec_post :: "wallet_op \<Rightarrow> account \<Rightarrow> rat \<Rightarrow> (account \<Rightarrow> balance) \<Rightarrow> (account \<Rightarrow> balance) option" where
  "spec_post op k x b = map_option (\<lambda>v. b(k := v)) (spec_step op (b k) x)"

lemma fresh_op:
  assumes inv: "ledger_inv s" and run: "run_op op params s = (Inr md, s')"
    and new: "normalizeKey (p_idempotencyKey params) \<notin> m_key ` set (movements s)"
    and x: "parseAmount (p_amount params) = Inr x"
  shows "ledger_inv s'" "spec_post op (account_of params) x (balances s) = Some (balances s')"
    "m_key ` set (movements s') = insert (normalizeKey (p_idempotencyKey params)) (m_key ` set (movements s))"
    "money s' = money s + op_delta op x"
proof -
  obtain m dup where md: "md = (m, dup)" by (cases md)
  from inv run have c: "\<not> dup" "movements s' = m # movements s" "ledger_inv s'" "m_key m = normalizeKey (p_idempotencyKey params)"
    by (cases rule: run_op_cases; use new md run in force)+
  with run md have run': "run_op op params s = (Inr (m, False), s')" by simp
  have am: "m_amount m = x" using op.committed_amount [OF inv run' [unfolded run_op_write] x] .
  note ref = run_op_refines [OF inv run']
  have "balances s' = (balances s)(account_of params := balances s' (account_of params))"
    using ref(2) by (auto simp: fun_eq_iff)
  with ref(1) am show "spec_post op (account_of params) x (balances s) = Some (balances s')"
    by (simp add: spec_post_def)
  show "ledger_inv s'" by (rule c(3))
  show "m_key ` set (movements s') = insert (normalizeKey (p_idempotencyKey params)) (m_key ` set (movements s))"
    using c by simp
  show "money s' = money s + op_delta op x"
    using op.op_money [OF inv run' [unfolded run_op_write]] am by simp
qed

text \<open>A movement under a key, named by a row\<close>

definition entry :: "movement list \<Rightarrow> string \<Rightarrow> string option \<Rightarrow> bool" where
  "entry ms key i \<longleftrightarrow> (\<exists>m \<in> set ms. m_key m = key \<and> i = Some (m_id m))"

lemma entry_mono: "entry ms k i \<Longrightarrow> set ms \<subseteq> set ms' \<Longrightarrow> entry ms' k i"
  by (auto simp: entry_def)

end
