(* ===== verification/Settlement_Facts.thy ===== *)
theory Settlement_Facts
  imports Settlement Payout_Facts
begin

text \<open>
  The settlements on Stellar against the invariant of the payouts, and what a run of the settlement
  leaves behind: the lemmas of the settlement properties.
\<close>

section \<open>The settlement keeps the invariant of the payouts\<close>

lemma inv_act_bool [inv_intros]: "inv_act I a \<Longrightarrow> inv_act I b \<Longrightarrow> inv_act I (case c of True \<Rightarrow> a | False \<Rightarrow> b)"
  by (cases c) simp_all

lemma reads_settlements [inv_intros, simp]:
  "inv_act I (loadSettlement o' i)" "inv_act I (loadCryptoPayout o' i)" "inv_act I (getSettlementForPayout o' i)"
  "inv_act I (resolveDestinationForPayout o' e r d)"
  unfolding loadSettlement_def loadCryptoPayout_def getSettlementForPayout_def resolveDestinationForPayout_def Let_def
  by (intro inv_intros)+

lemma reads_destination [inv_intros, simp]: "inv_act I (resolvePayoutDestination payout)"
  unfolding resolvePayoutDestination_def Let_def by (intro inv_intros)

lemma payout_signing [inv_intros]: "inv_act payout_inv (resolvePayoutSigning sd o' e x a)"
  unfolding resolvePayoutSigning_def orgSigning_def Let_def by (intro inv_intros)

lemma payout_confirmAndFinalize [inv_intros]: "inv_act payout_inv (confirmAndFinalize sd o' st l h)"
  unfolding confirmAndFinalize_def finalizeSettled_def Let_def
  by (intro inv_intros payout_sql_txn neutral_patch) simp_all

lemma payout_failSettlement [inv_intros]: "inv_act payout_inv (failSettlement sd o' st ev reason e)"
  unfolding failSettlement_def by (intro inv_intros)

lemma payout_paySettlement [inv_intros]: "inv_act payout_inv (paySettlement sd o' row x d secret st)"
  unfolding paySettlement_def afterPayout_def by (intro inv_intros)

lemma payout_settleStellar [inv_intros]: "inv_act payout_inv (settlePayoutOnStellar sd o' i secret)"
  unfolding settlePayoutOnStellar_def checkedDestination_def settleRow_def Let_def by (intro inv_intros)

lemma payout_confirmStellar [inv_intros]: "inv_act payout_inv (confirmStellarSettlement sd o' i)"
  unfolding confirmStellarSettlement_def by (intro inv_intros)

section \<open>A resolution that is answered\<close>

lemma posted_key:
  assumes inv: "ledger_inv s" and run: "run_op op params s = (Inr (m, dup), s')"
  shows "normalizeKey (p_idempotencyKey params) \<in> m_key ` set (movements s')"
  using inv run by (cases rule: run_op_cases) force+

lemma finalize_answered:
  assumes inv: "ledger_inv s" and run: "finalizePayoutDebit sd input s = (Inr (res, v), s')"
  shows "finalize_key (py_transactionId input) \<in> m_key ` set (movements s')" "settlements s' = settlements s" "ledger_inv s'"
proof -
  obtain m dup where res: "res = (m, dup)" by (cases res)
  obtain row where row: "t_id row = py_transactionId input"
    and f: "(if t_direction row \<noteq> ''payout'' then athrow (JsError ''Transaction is not a payout'')
        else if flag (t_metadata row) ''fundsReleased'' then athrow (InfraLifecycleError ''PAYOUT_ALREADY_RELEASED'' 409)
        else (case metaUsdc row of None \<Rightarrow> athrow (JsError ''Payout has no locked USDC amount'')
          | Some usdcAmount \<Rightarrow> finalizePayoutRow sd input row usdcAmount)) s = (Inr (res, v), s')"
    using loadTx_found [OF run [unfolded finalizePayoutDebit_def]] by metis
  then obtain x where "finalizePayoutRow sd input row x s = (Inr ((m, dup), v), s')"
    by (auto simp: res split: if_splits option.splits)
  note fin = this [unfolded finalizePayoutRow_def run_op.simps [symmetric]]
  from op_patch_balance [OF inv fin] obtain s1 where
    op: "run_op OpFinalize (lifecycle_params row x ''payout:'' '':finalize'' ''payout_settle'' ''payout'' (payout_meta input ''settlement'')) s
        = (Inr (m, dup), s1)" and s': "ledger_inv s'" "movements s' = movements s1" "settlements s' = settlements s" .
  show "finalize_key (py_transactionId input) \<in> m_key ` set (movements s')"
    using posted_key [OF inv op] s'(2) row by (simp add: finalize_key_def is_ws_def)
  show "settlements s' = settlements s" "ledger_inv s'" by (rule s')+
qed

lemma release_answered:
  assumes inv: "ledger_inv s" and run: "releasePayoutLock sd input s = (Inr (res, v), s')"
  shows "release_key (py_transactionId input) \<in> m_key ` set (movements s')" "settlements s' = settlements s" "ledger_inv s'"
proof -
  obtain m dup where res: "res = (m, dup)" by (cases res)
  obtain row where row: "t_id row = py_transactionId input"
    and f: "(if t_direction row \<noteq> ''payout'' then athrow (JsError ''Transaction is not a payout'')
        else if flag (t_metadata row) ''fundsFinalized'' then athrow (InfraLifecycleError ''PAYOUT_ALREADY_FINALIZED'' 409)
        else (case metaUsdc row of None \<Rightarrow> athrow (JsError ''Payout has no locked USDC amount'')
          | Some usdcAmount \<Rightarrow> releasePayoutRow sd input row usdcAmount)) s = (Inr (res, v), s')"
    using loadTx_found [OF run [unfolded releasePayoutLock_def]] by metis
  then obtain x where "releasePayoutRow sd input row x s = (Inr ((m, dup), v), s')"
    by (auto simp: res split: if_splits option.splits)
  note rel = this [unfolded releasePayoutRow_def run_op.simps [symmetric]]
  from op_patch_balance [OF inv rel] obtain s1 where
    op: "run_op OpRelease (lifecycle_params row x ''payout:'' '':release'' ''funds_release'' ''payout'' (payout_meta input ''failure'')) s
        = (Inr (m, dup), s1)" and s': "ledger_inv s'" "movements s' = movements s1" "settlements s' = settlements s" .
  show "release_key (py_transactionId input) \<in> m_key ` set (movements s')"
    using posted_key [OF inv op] s'(2) row by (simp add: release_key_def is_ws_def)
  show "settlements s' = settlements s" "ledger_inv s'" by (rule s')+
qed

section \<open>What a run of the settlement leaves behind\<close>

definition settled_as :: "string \<Rightarrow> string \<Rightarrow> db \<Rightarrow> bool" where
  "settled_as i status s \<longleftrightarrow> (\<forall>st \<in> set (settlements s). s_id st = i \<longrightarrow> s_status st = status)"

lemma sql_settlement_Inr:
  "sql_settlement i f s = (Inr u, s') \<Longrightarrow> s' = s\<lparr>settlements := map (\<lambda>st. if s_id st = i then f st else st) (settlements s)\<rparr>"
  by (auto simp: sql_settlement_def act_simps tx_simps Let_def)

lemma settled_as_update:
  assumes "sql_settlement i f s = (Inr u, s')" and "\<And>st. s_status (f st) = status" and "\<And>st. s_id (f st) = s_id st"
  shows "settled_as i status s'"
  using sql_settlement_Inr [OF assms(1)] assms(2,3) by (auto simp: settled_as_def)

lemma settled_as_cong: "settlements s' = settlements s \<Longrightarrow> settled_as i status s' = settled_as i status s"
  by (simp add: settled_as_def)

lemma loadSettlement_Inr:
  "loadSettlement o' i s = (Inr st, s') \<Longrightarrow> s' = s \<and> st \<in> set (settlements s) \<and> s_id st = i \<and> s_org st = o'"
  by (auto simp: loadSettlement_def act_simps split: option.splits dest: find_row_Some)

lemma confirm_answered:
  assumes inv: "ledger_inv s" and run: "confirmAndFinalize sd orgId st l h s = (Inr r, s')" and payout: "s_payout_tx st = Some p"
  shows "finalize_key p \<in> m_key ` set (movements s')" "settled_as (s_id st) ''confirmed'' s'"
    "\<not> sl_pending r" "sw_status (sl_settlement r) = ''confirmed''" "sl_payoutId r = Some p"
proof -
  let ?hash = "or_else h (or_else (s_external st) None)"
  from run obtain u s1 w s2 row where 1: "sql_settlement (s_id st) (confirm_row sd ?hash l) s = (Inr u, s1)"
    and 2: "finalizeSettled sd orgId st ?hash s1 = (Inr w, s2)" and 3: "loadSettlement orgId (s_id st) s2 = (Inr row, s')"
    and r: "r = \<lparr>sl_settlement = mapSettlement row, sl_payoutId = s_payout_tx st, sl_pending = False\<rparr>"
    unfolding confirmAndFinalize_def Let_def by (elim abndE) auto
  have inv1: "ledger_inv s1" using sql_settlement_Inr [OF 1] inv by simp
  obtain rv s1a where fin0: "finalizePayoutDebit sd (stellar_resolution orgId p
      (''stellar:ok:'' @ or_str ?hash (s_id st)) None) s1 = (Inr rv, s1a)"
    and patch: "sql_txn p (\<lambda>t. t\<lparr>t_metadata := t_metadata t ++ [''settlementId'' \<mapsto> JStr (s_id st),
           ''stellarTransactionHash'' \<mapsto> opt_json ?hash, ''settlementRail'' \<mapsto> JStr ''STELLAR'']\<rparr>) s1a = (Inr w, s2)"
    using 2 unfolding finalizeSettled_def payout option.case by (elim abndE)
  obtain res v where fin: "finalizePayoutDebit sd (stellar_resolution orgId p
      (''stellar:ok:'' @ or_str ?hash (s_id st)) None) s1 = (Inr (res, v), s1a)"
    using fin0 by (cases rv) auto
  obtain ts where s2: "s2 = s1a\<lparr>txns := ts\<rparr>"
    using patch by (auto simp: sql_txn_def run_tx_def update_txn_def)
  note f = finalize_answered [OF inv1 fin]
  have c1: "settled_as (s_id st) ''confirmed'' s1"
    by (rule settled_as_update [OF 1]) (simp_all add: confirm_row_def)
  have same: "settlements s' = settlements s1" "movements s' = movements s1a"
    using loadSettlement_Inr [OF 3] f(2) by (simp_all add: s2)
  show conf: "settled_as (s_id st) ''confirmed'' s'" using c1 settled_as_cong [OF same(1)] by simp
  show "finalize_key p \<in> m_key ` set (movements s')" using f(1) same(2) by (simp add: stellar_resolution_def)
  show "\<not> sl_pending r" "sw_status (sl_settlement r) = ''confirmed''" "sl_payoutId r = Some p"
    using conf(1) loadSettlement_Inr [OF 3] payout by (auto simp: r settled_as_def mapSettlement_def)
qed

end
