(* ===== verification/Service_Examples.thy ===== *)
theory Service_Examples
  imports Offramp Examples
begin

text \<open>
  Concrete data for the service properties: a process whose environment is a list of variables and
  whose Stellar network is out of reach, a toy cipher, and an organisation with 100 USDC, two payouts
  and a collection.
\<close>

definition ex_sdk :: "(string \<times> string) list \<Rightarrow> sdk" where
  "ex_sdk env = \<lparr>sdk_env = map_of env, sdk_now = ''now'', sdk_sha256 = (\<lambda>x. ''sha:'' @ x), sdk_PUBLIC = ''public'',
     sdk_TESTNET = ''testnet'',
     sdk_publicKey = (\<lambda>secret. if starts_with secret ''S'' then Some (CHR ''G'' # replicate 54 CHR ''A'' @ [last secret]) else None),
     sdk_random = (\<lambda>n. CHR ''S'' # show_nat n), sdk_cipher = (\<lambda>key seed plain. (show_nat seed, ''tag'', plain)),
     sdk_decipher = (\<lambda>key iv tag enc. if tag = ''tag'' then Some enc else None),
     sdk_loadAccount = (\<lambda>url pk. None), sdk_friendbot = (\<lambda>url pk. False),
     sdk_changeTrust = (\<lambda>pk secret issuer. False), sdk_horizonTx = (\<lambda>url h. None), sdk_horizonOps = (\<lambda>url h. None),
     sdk_payments = (\<lambda>url pk n. None),
     sdk_rpcAccount = (\<lambda>url pk. False), sdk_txHash = (\<lambda>t. ''hash''), sdk_send = (\<lambda>url t. Inl ''offline''),
     sdk_poll = (\<lambda>url h. None), sdk_getTransaction = (\<lambda>url h. None), sdk_feeBump = (\<lambda>t secret. (''xdr'', ''hash'')),
     sdk_submitXdr = (\<lambda>url passphrase xdr. Inl ([], ''offline''))\<rparr>"

definition ex_txn :: "string \<Rightarrow> string \<Rightarrow> rat \<Rightarrow> txn" where
  "ex_txn i direction amount = \<lparr>t_id = i, t_org = ''acme'', t_env = Test, t_amount = amount, t_currency = ''USDC'',
     t_country = None, t_status = ''pending'', t_method = ''bank_transfer'', t_direction = direction, t_fee = 0,
     t_external_id = Some (''seq-'' @ i), t_metadata = [''usdcAmount'' \<mapsto> JNum amount], t_client_key = None,
     t_fingerprint = None\<rparr>"

definition ex_orders :: db where
  "ex_orders = ex_funded\<lparr>txns := [ex_txn ''p1'' ''payout'' 30, ex_txn ''p2'' ''payout'' 20, ex_txn ''c1'' ''payment'' 25]\<rparr>"

definition ex_payout :: "string \<Rightarrow> payout_input" where
  "ex_payout i = \<lparr>py_orgId = Some ''acme'', py_transactionId = i, py_providerEventId = None, py_source = None,
     py_status = None\<rparr>"

definition ex_event :: "string \<Rightarrow> string \<Rightarrow> yc_payload" where
  "ex_event i status = \<lparr>yc_id = Some ''evt'', yc_sequenceId = Some (''seq-'' @ i), yc_status = Some status, yc_event = None\<rparr>"

definition ex_locked_orders :: db where
  "ex_locked_orders = snd (lockPayoutFunds ''acme'' ''p1'' None ex_orders)"

definition ex_provider :: provider where
  "ex_provider = \<lparr>yc_configured = True, yc_channels = Inr (JArr []), yc_payment = (\<lambda>i. Inr JNull),
     yc_create = (\<lambda>n j. Inr JNull), yc_horizon = (\<lambda>n h. HorizonError (Some 404))\<rparr>"

lemma ex_orders_inv: "ledger_inv ex_orders"
  unfolding ex_orders_def using ex_funded_inv by simp

lemma ex_locked_orders_inv: "ledger_inv ex_locked_orders" by code_simp

text \<open>Both payouts locked, the second released again; its row as it was before the release.\<close>

definition ex_both_locked :: db where
  "ex_both_locked = snd (lockPayoutFunds ''acme'' ''p2'' None ex_locked_orders)"

definition ex_stale_row :: txn where
  "ex_stale_row = the (find_row t_id ''p2'' (txns ex_both_locked))"

definition ex_second_released :: db where
  "ex_second_released = snd (releasePayoutLock (ex_sdk []) (ex_payout ''p2'') ex_both_locked)"

text \<open>What the witnesses read of a run, computed once: \<open>by_run\<close> turns it into facts of its state.\<close>

lemma by_run: "(case m of (r, s) \<Rightarrow> P r s) \<Longrightarrow> P (fst m) (snd m)"
  by (cases m) simp

definition quiet :: "string \<Rightarrow> string \<Rightarrow> string \<Rightarrow> db \<Rightarrow> bool" where
  "quiet i key mt s \<longleftrightarrow> key \<notin> m_key ` set (movements s)
     \<and> Some (''acme'', Test, ''payout'', i, mt) \<notin> movement_ref ` set (movements s)
     \<and> find_row wallet_key ex_account (wallets s) \<noteq> None \<and> list_all (\<lambda>w. w_status w = Active) (wallets s)
     \<and> uuid_of s (uuid_next s) \<notin> m_id ` set (movements s)"

text \<open>The collection credited directly, and the same collection in the funding mode.\<close>

definition ex_off :: sdk where
  "ex_off = ex_sdk [(''DAYFI_INFRA_STELLAR_FUNDING_MODE'', ''off'')]"

definition ex_mock :: sdk where
  "ex_mock = ex_sdk [(''DAYFI_INFRA_STELLAR_FUNDING_MODE'', ''mock'')]"

definition ex_credited :: db where
  "ex_credited = snd (applyInfraYellowCardWebhook ex_off (ex_event ''c1'' ''complete'') ex_orders)"

definition ex_settle_input :: settle_input where
  "ex_settle_input = \<lparr>se_orgId = ''acme'', se_transactionId = ''c1'', se_providerEventId = None, se_source = None\<rparr>"

definition ex_collection :: "db \<Rightarrow> txn" where
  "ex_collection s = the (find_row (\<lambda>t. (t_id t, t_org t)) (''c1'', ''acme'') (txns s))"

text \<open>A withdrawal whose USDC has been confirmed on Stellar, and a collection on the Flutterwave rail.\<close>

definition ex_withdrawal :: db where
  "ex_withdrawal = ex_locked_orders\<lparr>txns := map (\<lambda>t. if t_id t = ''p1''
     then t\<lparr>t_metadata := t_metadata t ++ [''offRamp'' \<mapsto> JBool True, ''stellarConfirmed'' \<mapsto> JBool True]\<rparr> else t) (txns ex_locked_orders)\<rparr>"

definition ex_flutterwave :: db where
  "ex_flutterwave = ex_orders\<lparr>txns := map (\<lambda>t. if t_id t = ''c1''
     then t\<lparr>t_metadata := t_metadata t ++ [''rail'' \<mapsto> JStr ''flutterwave'']\<rparr> else t) (txns ex_orders)\<rparr>"

definition ex_flw :: flw_payload where
  "ex_flw = \<lparr>fw_txRef = Some ''seq-c1'', fw_bodyTxRef = None, fw_amount = Fin 25, fw_currency = ''NGN'', fw_reference = None,
     fw_transactionId = None\<rparr>"

text \<open>A process that can withdraw in the mock mode, and an organisation whose Stellar account is active.\<close>

definition ex_bank :: sdk where
  "ex_bank = ex_sdk [(''DAYFI_INFRA_FIAT_OFFRAMP_MODE'', ''mock''),
     (''MASTER_WALLET_PUBLIC_KEY'', CHR ''G'' # replicate 55 CHR ''B''),
     (''DAYFI_STELLAR_FEE_PAYER_SECRET'', CHR ''S'' # replicate 55 CHR ''F'')]"

definition ex_wallet_ready :: db where
  "ex_wallet_ready = snd (provisionOrgStellarAccount ex_bank ''acme'' ''test'' None ex_locked_orders)"

definition ex_returned :: db where
  "ex_returned = snd (releasePayoutLock ex_bank (ex_payout ''p1'') ex_wallet_ready)"

end
