(* ===== verification/Payout_Properties.thy ===== *)
theory Payout_Properties
  imports Settlement_Facts Service_Examples
begin

text \<open>
  The properties of payouts: their resolution, the effect of each operation on the ledger, and what
  the operations do not check.
\<close>

section \<open>Histories of the services\<close>

inductive payout_step :: "db \<Rightarrow> db \<Rightarrow> bool" where
  create: "t_id t \<notin> t_id ` set (txns s) \<Longrightarrow> \<not> finalized t \<Longrightarrow> \<not> released t \<Longrightarrow> payout_step s (s\<lparr>txns := t # txns s\<rparr>)"
| lock: "lockPayoutFunds orgId i x s = (r, s') \<Longrightarrow> payout_step s s'"
| finalize: "finalizePayoutDebit sd input s = (r', s') \<Longrightarrow> payout_step s s'"
| release: "releasePayoutLock sd input s = (r', s') \<Longrightarrow> payout_step s s'"
| settle: "settleCollectionCredit sd input' s = (r'', s') \<Longrightarrow> payout_step s s'"
| yellowcard: "applyInfraYellowCardWebhook sd payload s = (w, s') \<Longrightarrow> payout_step s s'"
| flutterwave: "applyInfraFlutterwaveWebhook sd payload' s = (w, s') \<Longrightarrow> payout_step s s'"
| withdraw: "settleFiatOfframp sd yc orgId i s = (v, s') \<Longrightarrow> payout_step s s'"
| retry: "retryFiatOfframpProvider sd yc orgId i s = (v, s') \<Longrightarrow> payout_step s s'"
| stellar: "settlePayoutOnStellar sd orgId i secret s = (q, s') \<Longrightarrow> payout_step s s'"
| confirm: "confirmStellarSettlement sd orgId i s = (q, s') \<Longrightarrow> payout_step s s'"
| ledger: "run_op op params s = (l, s') \<Longrightarrow> \<not> is_finalize (normalizeKey (p_idempotencyKey params)) \<Longrightarrow>
    \<not> is_release (normalizeKey (p_idempotencyKey params)) \<Longrightarrow> payout_step s s'"

lemma payout_create:
  assumes "payout_inv s" and "t_id t \<notin> t_id ` set (txns s)" and "\<not> finalized t"
  shows "payout_inv (s\<lparr>txns := t # txns s\<rparr>)"
  using assms by (auto simp: payout_inv_def resolved_ok_def list_all_iff)

lemma payout_step_inv: "payout_step s s' \<Longrightarrow> payout_inv s \<Longrightarrow> payout_inv s'"
proof (induction rule: payout_step.induct)
  case (create t s)
  then show ?case using payout_create by blast
next
  case (ledger op params s l s')
  then show ?case using inv_actD [OF payout_op] by blast
qed (rule inv_actD [rotated], assumption, assumption, intro inv_intros)+

lemma payout_steps_inv: "payout_step\<^sup>*\<^sup>* s s' \<Longrightarrow> payout_inv s \<Longrightarrow> payout_inv s'"
  by (induction rule: rtranclp_induct) (auto intro: payout_step_inv)

lemma at_most_one:
  assumes "distinct (map f xs)" and "a \<notin> f ` set xs \<or> b \<notin> f ` set xs"
  shows "length (filter (\<lambda>x. f x \<in> {a, b}) xs) \<le> 1"
  using assms
proof (induction xs)
  case (Cons x xs)
  show ?case
  proof (cases "f x \<in> {a, b}")
    case True
    with Cons.prems have "filter (\<lambda>x. f x \<in> {a, b}) xs = []" by (auto simp: filter_empty_conv image_iff)
    then show ?thesis by simp
  next
    case False
    with Cons show ?thesis by auto
  qed
qed simp

text \<open>C2: Payouts are resolved once. Whatever sequence of service calls runs from a consistent
  database - payouts created, locked, finalized, released, withdrawn to a bank, retried, settled and
  confirmed on Stellar, webhooks in any order and number, and other ledger operations - at most one ledger movement ever resolves a
  payout: its locked USDC is either paid out or returned, once, and the payout's row carries the flag
  of that resolution and not of the other.\<close>

theorem payout_resolved_once:
  assumes "payout_inv s" and "payout_step\<^sup>*\<^sup>* s s'"
  shows "payout_inv s'
    \<and> length (filter (\<lambda>m. m_key m \<in> {finalize_key i, release_key i}) (movements s')) \<le> 1
    \<and> (finalize_key i \<in> m_key ` set (movements s') \<longrightarrow> (\<exists>t \<in> set (txns s'). t_id t = i \<and> finalized t \<and> \<not> released t))
    \<and> (release_key i \<in> m_key ` set (movements s') \<longrightarrow> (\<exists>t \<in> set (txns s'). t_id t = i \<and> released t \<and> \<not> finalized t))"
proof -
  have inv: "payout_inv s'" by (rule payout_steps_inv [OF assms(2,1)])
  note p = payout_invD [OF inv]
  note rows = resolution_rows [OF inv, of i]
  have "t = t'" if "t \<in> set (txns s')" "t' \<in> set (txns s')" "t_id t = t_id t'" for t t'
    using p(2) that by (metis distinct_map inj_on_eq_iff)
  then have "\<not> (finalize_key i \<in> m_key ` set (movements s') \<and> release_key i \<in> m_key ` set (movements s'))"
    using rows by metis
  then show ?thesis
    using inv rows at_most_one [OF ledger_invD(4) [OF p(1)], of "finalize_key i" "release_key i"] by blast
qed

lemma payout_resolved_once_witness:
  "length (filter (\<lambda>m. m_key m \<in> {finalize_key ''p1'', release_key ''p1''})
     (movements (snd (applyInfraYellowCardWebhook (ex_sdk []) (ex_event ''p1'' ''complete'')
       (snd (releasePayoutLock (ex_sdk []) (ex_payout ''p1'') ex_locked_orders)))))) = 1"
proof -
  let ?r = "releasePayoutLock (ex_sdk []) (ex_payout ''p1'') ex_locked_orders"
  let ?w = "applyInfraYellowCardWebhook (ex_sdk []) (ex_event ''p1'' ''complete'') (snd ?r)"
  have start: "payout_inv ex_orders" by code_simp
  have "payout_step ex_orders ex_locked_orders"
    by (rule payout_step.lock [of "''acme''" "''p1''" None ex_orders "fst (lockPayoutFunds ''acme'' ''p1'' None ex_orders)"])
      (simp add: ex_locked_orders_def)
  moreover have "payout_step ex_locked_orders (snd ?r)" by (rule payout_step.release [OF prod.collapse [symmetric]])
  moreover have "payout_step (snd ?r) (snd ?w)" by (rule payout_step.yellowcard [OF prod.collapse [symmetric]])
  ultimately have "payout_step\<^sup>*\<^sup>* ex_orders (snd ?w)" by (meson converse_rtranclp_into_rtranclp r_into_rtranclp)
  from payout_resolved_once [OF start this, of "''p1''"]
  have "length (filter (\<lambda>m. m_key m \<in> {finalize_key ''p1'', release_key ''p1''}) (movements (snd ?w))) \<le> 1" by blast
  moreover have "release_key ''p1'' \<in> m_key ` set (movements (snd ?w))" by code_simp
  then have "filter (\<lambda>m. m_key m \<in> {finalize_key ''p1'', release_key ''p1''}) (movements (snd ?w)) \<noteq> []"
    by (auto simp: filter_empty_conv)
  ultimately show ?thesis by (cases "filter (\<lambda>m. m_key m \<in> {finalize_key ''p1'', release_key ''p1''}) (movements (snd ?w))") auto
qed

section \<open>The effect of an operation on the ledger\<close>

text \<open>Locking a payout. A request that locks the USDC of a payout, and is answered as new, moves
  exactly that amount from available to locked on the account of the payout's organisation and
  environment and on no other, reports the new balances and marks the row with the lock; a replay
  changes no balance and posts no movement.\<close>

theorem payout_lock_effect:
  assumes "ledger_inv s" and "lockPayoutFunds orgId i usdcInput s = (Inr r, s')"
  shows "\<exists>row. row \<in> set (txns s) \<and> t_id row = i \<and> t_direction row = ''payout''
    \<and> payout_effect OpLock row (lr_usdcAmount r) (lr_lock r) s s'
    \<and> balances s' (payout_account row) = (b_available (lr_balance r), b_pending (lr_balance r), b_locked (lr_balance r))
    \<and> (\<forall>t \<in> set (txns s'). t_id t = i \<longrightarrow> t_metadata t ''ledgerLockId'' = Some (JStr (m_id (fst (lr_lock r)))))"
  using assms(2) unfolding lockPayoutFunds_def
proof (rule loadTx_found)
  fix row assume row: "row \<in> set (txns s)" "t_id row = i"
    and run: "(if t_direction row \<noteq> ''payout'' then athrow (JsError ''Transaction is not a payout'')
      else abnd (usdcOf row (case usdcInput of Some x \<Rightarrow> Some x | None \<Rightarrow> metaUsdc row)) (\<lambda>(usdcAmount, rate).
        lockPayoutRow row usdcAmount rate)) s = (Inr r, s')"
  then obtain x rate s0 where dir: "t_direction row = ''payout''"
    and usdc: "usdcOf row (case usdcInput of Some x \<Rightarrow> Some x | None \<Rightarrow> metaUsdc row) s = (Inr (x, rate), s0)"
    and lock: "lockPayoutRow row x rate s0 = (Inr r, s')"
    by (auto simp: act_simps split: if_splits)
  have s0: "s0 = s" by (rule usdcOf_state [OF usdc])
  have x: "lr_usdcAmount r = x" using lock by (auto simp: lockPayoutRow_def act_simps)
  let ?g = "\<lambda>lock. [''usdcAmount'' \<mapsto> JNum x, ''rate'' \<mapsto> opt_num rate, ''fundsLocked'' \<mapsto> JBool True,
       ''ledgerLockId'' \<mapsto> JStr (m_id (fst lock))]"
  have "abnd (run_op OpLock (lifecycle_params row x ''payout:'' '':lock'' ''funds_lock'' ''payout''
      [''fiatAmount'' \<mapsto> JNum (t_amount row), ''fiatCurrency'' \<mapsto> JStr (t_currency row), ''rate'' \<mapsto> opt_num rate]))
      (\<lambda>m. abnd (patchTx (t_id row) (t_status row) (?g m)) (\<lambda>_.
      abnd (getOrgBalance (t_org row) (env_name (t_env row)) None) (\<lambda>b. aret (m, b)))) s = (Inr (lr_lock r, lr_balance r), s')"
    using lock unfolding s0 lockPayoutRow_def run_op.simps by (auto simp only: act_simps aret_run) auto
  note p = payout_run [OF assms(1) this]
  have "t_metadata t ''ledgerLockId'' = Some (JStr (m_id (fst (lr_lock r))))" if "t \<in> set (txns s')" "t_id t = i" for t
    by (rule updated_row [OF p(4) _ that(1)]) (use that row in auto)
  with row dir p(1,3) x show ?thesis by blast
qed

lemma payout_lock_effect_witness:
  "balances ex_locked_orders ex_account = (70, 0, 30)"
proof -
  let ?r = "lockPayoutFunds ''acme'' ''p1'' None ex_orders"
  have v: "succeeded ?r" "posted (map_sum id lr_lock (fst ?r), snd ?r)" "lr_usdcAmount (value_of ?r) = 30"
    "m_amount (fst (lr_lock (value_of ?r))) = 30" "balances ex_orders ex_account = (100, 0, 0)"
    "list_all (\<lambda>t. t_id t = ''p1'' \<longrightarrow> payout_account t = ex_account) (txns ex_orders)" by code_simp+
  have run: "?r = (Inr (value_of ?r), ex_locked_orders)"
    using succeeded_run [OF v(1)] by (simp add: ex_locked_orders_def)
  from payout_lock_effect [OF ex_orders_inv run] obtain row where
    row: "row \<in> set (txns ex_orders)" "t_id row = ''p1''" "payout_effect OpLock row (lr_usdcAmount (value_of ?r)) (lr_lock (value_of ?r)) ex_orders ex_locked_orders"
    by blast
  have "\<not> snd (lr_lock (value_of ?r))"
    using v(2) by (subst (asm) run) (auto simp: posted_def split: prod.splits)
  with row v show ?thesis by (auto simp: payout_effect_def list_all_iff)
qed

text \<open>C12: Resolving a payout. A finalization or release that answers is of a payout that carries the
  USDC amount and has not been resolved the other way; when it is new, it takes exactly that amount
  out of the locked balance - for good, or back to available - on the payout's own account and no
  other; it reports the new balances and marks the row settled or failed.\<close>

theorem payout_resolution_effect:
  assumes "ledger_inv s"
    and "op = OpFinalize \<and> finalizePayoutDebit sd input s = (Inr (res, v), s')
      \<or> op = OpRelease \<and> releasePayoutLock sd input s = (Inr (res, v), s')"
  shows "\<exists>row x. row \<in> set (txns s) \<and> t_id row = py_transactionId input \<and> t_direction row = ''payout'' \<and> metaUsdc row = Some x
    \<and> \<not> (if op = OpFinalize then released row else finalized row)
    \<and> payout_effect op row x res s s'
    \<and> balances s' (payout_account row) = (b_available v, b_pending v, b_locked v)
    \<and> (\<forall>t \<in> set (txns s'). t_id t = t_id row \<longrightarrow>
        (if op = OpFinalize then finalized t \<and> t_status t = ''settled''
         else released t \<and> t_status t = or_str (py_status input) ''failed''))"
  using assms(2)
proof (elim disjE conjE)
  assume op: "op = OpFinalize" and "finalizePayoutDebit sd input s = (Inr (res, v), s')"
  then show ?thesis unfolding finalizePayoutDebit_def
  proof (elim loadTx_found)
    fix row assume row: "row \<in> set (txns s)" "t_id row = py_transactionId input"
      and "(if t_direction row \<noteq> ''payout'' then athrow (JsError ''Transaction is not a payout'')
        else if flag (t_metadata row) ''fundsReleased'' then athrow (InfraLifecycleError ''PAYOUT_ALREADY_RELEASED'' 409)
        else (case metaUsdc row of None \<Rightarrow> athrow (JsError ''Payout has no locked USDC amount'')
          | Some usdcAmount \<Rightarrow> finalizePayoutRow sd input row usdcAmount)) s = (Inr (res, v), s')"
    then obtain x where x: "t_direction row = ''payout''" "\<not> released row" "metaUsdc row = Some x"
      "finalizePayoutRow sd input row x s = (Inr (res, v), s')"
      by (auto simp: released_def split: if_splits option.splits)
    note p = payout_run [OF assms(1) x(4) [unfolded finalizePayoutRow_def run_op.simps [symmetric]]]
    have "finalized t \<and> t_status t = ''settled''" if "t \<in> set (txns s')" "t_id t = t_id row" for t
      by (rule updated_row [OF p(4) _ that(1)]) (use that in \<open>auto simp: finalized_def flag_def\<close>)
    with row x p(1,3) op show ?thesis by auto
  qed
next
  assume op: "op = OpRelease" and "releasePayoutLock sd input s = (Inr (res, v), s')"
  then show ?thesis unfolding releasePayoutLock_def
  proof (elim loadTx_found)
    fix row assume row: "row \<in> set (txns s)" "t_id row = py_transactionId input"
      and "(if t_direction row \<noteq> ''payout'' then athrow (JsError ''Transaction is not a payout'')
        else if flag (t_metadata row) ''fundsFinalized'' then athrow (InfraLifecycleError ''PAYOUT_ALREADY_FINALIZED'' 409)
        else (case metaUsdc row of None \<Rightarrow> athrow (JsError ''Payout has no locked USDC amount'')
          | Some usdcAmount \<Rightarrow> releasePayoutRow sd input row usdcAmount)) s = (Inr (res, v), s')"
    then obtain x where x: "t_direction row = ''payout''" "\<not> finalized row" "metaUsdc row = Some x"
      "releasePayoutRow sd input row x s = (Inr (res, v), s')"
      by (auto simp: finalized_def split: if_splits option.splits)
    note p = payout_run [OF assms(1) x(4) [unfolded releasePayoutRow_def run_op.simps [symmetric]]]
    have "released t \<and> t_status t = or_str (py_status input) ''failed''" if "t \<in> set (txns s')" "t_id t = t_id row" for t
      by (rule updated_row [OF p(4) _ that(1)]) (use that in \<open>auto simp: released_def flag_def\<close>)
    with row x p(1,3) op show ?thesis by auto
  qed
qed

definition ex_release :: "(js_error + (movement \<times> bool) \<times> balance_view) \<times> db" where
  "ex_release = releasePayoutLock (ex_sdk []) (ex_payout ''p1'') ex_locked_orders"

lemma payout_resolution_effect_witness:
  "balances (snd ex_release) ex_account = (100, 0, 0)"
proof -
  have v: "succeeded ex_release" "\<not> snd (fst (value_of ex_release))" "m_amount (fst (fst (value_of ex_release))) = 30"
    "balances ex_locked_orders ex_account = (70, 0, 30)"
    "list_all (\<lambda>t. t_id t = ''p1'' \<longrightarrow> payout_account t = ex_account) (txns ex_locked_orders)" by code_simp+
  have run: "releasePayoutLock (ex_sdk []) (ex_payout ''p1'') ex_locked_orders
      = (Inr (fst (value_of ex_release), snd (value_of ex_release)), snd ex_release)"
    using succeeded_run [OF v(1)] by (simp add: ex_release_def)
  have "OpRelease = OpFinalize \<and> finalizePayoutDebit (ex_sdk []) (ex_payout ''p1'') ex_locked_orders
        = (Inr (fst (value_of ex_release), snd (value_of ex_release)), snd ex_release)
      \<or> OpRelease = OpRelease \<and> releasePayoutLock (ex_sdk []) (ex_payout ''p1'') ex_locked_orders
        = (Inr (fst (value_of ex_release), snd (value_of ex_release)), snd ex_release)"
    using run by simp
  from payout_resolution_effect [OF ex_locked_orders_inv this] obtain row x where
    "row \<in> set (txns ex_locked_orders)" "t_id row = ''p1''"
    "payout_effect OpRelease row x (fst (value_of ex_release)) ex_locked_orders (snd ex_release)"
    by (auto simp: ex_payout_def)
  with v show ?thesis by (auto simp: payout_effect_def list_all_iff)
qed

text \<open>A resolution is final. In a consistent database, once a payout's finalization is on the ledger,
  releasing it is refused, and once its release is on the ledger, finalizing it is refused, for every
  input that names the payout; the refusal leaves the database as it was.\<close>

theorem late_resolution_refused:
  assumes "payout_inv s" and "py_transactionId input = i"
  shows "(finalize_key i \<in> m_key ` set (movements s) \<longrightarrow> (\<exists>e. releasePayoutLock sd input s = (Inl e, s)))
    \<and> (release_key i \<in> m_key ` set (movements s) \<longrightarrow> (\<exists>e. finalizePayoutDebit sd input s = (Inl e, s)))"
proof (intro conjI impI)
  assume "finalize_key i \<in> m_key ` set (movements s)"
  with assms(2) have k: "finalize_key (py_transactionId input) \<in> m_key ` set (movements s)" by simp
  show "\<exists>e. releasePayoutLock sd input s = (Inl e, s)"
    unfolding releasePayoutLock_def
    by (rule loadTx_refused, drule loaded_flags(1) [OF assms(1) _ k]) (auto simp: finalized_def)
next
  assume "release_key i \<in> m_key ` set (movements s)"
  with assms(2) have k: "release_key (py_transactionId input) \<in> m_key ` set (movements s)" by simp
  show "\<exists>e. finalizePayoutDebit sd input s = (Inl e, s)"
    unfolding finalizePayoutDebit_def
    by (rule loadTx_refused, drule loaded_flags(2) [OF assms(1) _ k]) (auto simp: released_def)
qed

lemma late_resolution_refused_witness:
  "\<exists>e. finalizePayoutDebit (ex_sdk []) (ex_payout ''p1'') (snd ex_release) = (Inl e, snd ex_release)"
proof -
  have v: "case ex_release of (r, s) \<Rightarrow> payout_inv s \<and> release_key ''p1'' \<in> m_key ` set (movements s)" by code_simp
  have "payout_inv (snd ex_release)" "py_transactionId (ex_payout ''p1'') = ''p1''"
    "release_key ''p1'' \<in> m_key ` set (movements (snd ex_release))" using by_run [OF v] by (simp_all add: ex_payout_def)
  with late_resolution_refused [OF this(1,2), of "ex_sdk []"] show ?thesis by blast
qed

section \<open>What the operations do not check\<close>

text \<open>A release needs no lock of its own. Releasing a payout that is not resolved moves its amount
  from locked to available as soon as the account has that much locked, also when the payout itself
  was never locked: what is returned is then another payout's lock.\<close>

theorem release_needs_no_own_lock:
  assumes "ledger_inv s" and "loadTx (py_transactionId input) (py_orgId input) s = (Inr (Some row), s)"
    and "t_direction row = ''payout''" and "\<not> finalized row" and "metaUsdc row = Some x"
    and "''payout:'' @ t_id row @ '':lock'' \<notin> m_key ` set (movements s)"
    and "can_post OpRelease row x (release_key (t_id row)) ''funds_release'' ''payout'' b s"
    and "releasePayoutLock sd input s = (r, s')"
  shows "balances s' (payout_account row) = b \<and> release_key (t_id row) \<in> m_key ` set (movements s')"
proof -
  have "releasePayoutRow sd input row x s = (r, s')"
    using assms(2-5,8) by (simp add: releasePayoutLock_def finalized_def)
  note run = this [unfolded releasePayoutRow_def run_op.simps [symmetric]]
  show ?thesis
    using payout_commits(1,2) [OF assms(1) assms(7) [unfolded release_key_def] _ _ _ _ _ run]
    by (simp add: release_key_def is_ws_def)
qed

lemma ex_locked_orders_facts:
  "case lockPayoutFunds ''acme'' ''p1'' None ex_orders of (r, s) \<Rightarrow>
    list_all (\<lambda>t. t_id t = ''p2'' \<longrightarrow> t_direction t = ''payout'' \<and> \<not> finalized t \<and> metaUsdc t = Some 20
      \<and> t_org t = ''acme'' \<and> t_env t = Test) (txns s)
    \<and> (''p2'', ''acme'') \<in> (\<lambda>t. (t_id t, t_org t)) ` set (txns s)
    \<and> ''payout:'' @ ''p2'' @ '':lock'' \<notin> m_key ` set (movements s)
    \<and> balances s ex_account = (70, 0, 30) \<and> quiet ''p2'' (release_key ''p2'') ''funds_release'' s"
  by code_simp

lemma release_needs_no_own_lock_witness:
  "balances (snd (releasePayoutLock (ex_sdk []) (ex_payout ''p2'') ex_locked_orders)) ex_account = (90, 0, 10)"
proof -
  let ?r = "releasePayoutLock (ex_sdk []) (ex_payout ''p2'') ex_locked_orders"
  note v = by_run [OF ex_locked_orders_facts, folded ex_locked_orders_def]
  obtain row where row: "find_row (\<lambda>t. (t_id t, t_org t)) (''p2'', ''acme'') (txns ex_locked_orders) = Some row"
    using v find_row_None [of "\<lambda>t. (t_id t, t_org t)" "(''p2'', ''acme'')" "txns ex_locked_orders"] by auto
  then have load: "loadTx ''p2'' (Some ''acme'') ex_locked_orders = (Inr (Some row), ex_locked_orders)"
    by (simp add: loadTx_def or_else_def)
  from find_row_Some [OF row] have "row \<in> set (txns ex_locked_orders)" "t_id row = ''p2''" by simp_all
  with v have r: "t_direction row = ''payout''" "\<not> finalized row" "metaUsdc row = Some 20" "t_org row = ''acme''" "t_env row = Test"
    "payout_account row = ex_account" by (auto simp: list_all_iff payout_account_def ex_account_def)
  have "parseAmount (RNum (Fin 20)) = Inr 20" by code_simp
  then have can: "can_post OpRelease row 20 (release_key (t_id row)) ''funds_release'' ''payout'' (90, 0, 10) ex_locked_orders"
    using v r \<open>t_id row = ''p2''\<close> by (intro can_postI [where a = 20]) (simp_all add: quiet_def balance_fits_def fits28_def)
  have "?r = (fst ?r, snd ?r)" by simp
  from release_needs_no_own_lock [OF ex_locked_orders_inv _ r(1,2,3) _ can, of "ex_payout ''p2''" "ex_sdk []" "fst ?r" "snd ?r"]
  show ?thesis using load v r(6) \<open>t_id row = ''p2''\<close> by (simp add: ex_payout_def)
qed

text \<open>Check and act. Finalization looks at the release flag of the row it has read, not at the ledger:
  a finalization that read its row before the release was recorded still debits the account when
  another payout has enough locked, so that the payout is both returned and paid out.\<close>

theorem stale_finalize_debits_again:
  assumes "ledger_inv s" and "release_key (t_id row) \<in> m_key ` set (movements s)"
    and "can_post OpFinalize row x (finalize_key (t_id row)) ''payout_settle'' ''payout'' b s"
    and "finalizePayoutRow sd input row x s = (r, s')"
  shows "balances s' (payout_account row) = b
    \<and> {release_key (t_id row), finalize_key (t_id row)} \<subseteq> m_key ` set (movements s')"
proof -
  note run = assms(4) [unfolded finalizePayoutRow_def run_op.simps [symmetric]]
  note p = payout_commits [OF assms(1) assms(3) [unfolded finalize_key_def] _ _ _ _ _ run]
  have "balances s' (payout_account row) = b" "finalize_key (t_id row) \<in> m_key ` set (movements s')"
    "set (movements s) \<subseteq> set (movements s')"
    using p by (simp_all add: finalize_key_def is_ws_def)
  with assms(2) show ?thesis by auto
qed

lemma ex_stale_facts:
  "case lockPayoutFunds ''acme'' ''p2'' None ex_locked_orders of (r, s) \<Rightarrow>
    (case find_row t_id ''p2'' (txns s) of None \<Rightarrow> False
     | Some row \<Rightarrow> t_id row = ''p2'' \<and> t_org row = ''acme'' \<and> t_env row = Test)"
  by code_simp

lemma ex_second_facts:
  "case releasePayoutLock (ex_sdk []) (ex_payout ''p2'') ex_both_locked of (r, s) \<Rightarrow>
    ledger_inv s \<and> release_key ''p2'' \<in> m_key ` set (movements s) \<and> balances s ex_account = (70, 0, 30)
    \<and> quiet ''p2'' (finalize_key ''p2'') ''payout_settle'' s"
  by code_simp

lemma stale_finalize_debits_again_witness:
  "balances (snd (finalizePayoutRow (ex_sdk []) (ex_payout ''p2'') ex_stale_row 20 ex_second_released)) ex_account = (70, 0, 10)
   \<and> balances ex_second_released ex_account = (70, 0, 30)"
proof -
  let ?s = ex_second_released
  let ?r = "finalizePayoutRow (ex_sdk []) (ex_payout ''p2'') ex_stale_row 20 ?s"
  note v = by_run [OF ex_second_facts, folded ex_second_released_def]
  have row: "t_id ex_stale_row = ''p2''" "t_org ex_stale_row = ''acme''" "t_env ex_stale_row = Test"
    using by_run [OF ex_stale_facts, folded ex_both_locked_def] by (auto simp: ex_stale_row_def split: option.splits)
  have acc: "payout_account ex_stale_row = ex_account" by (simp add: payout_account_def ex_account_def row)
  have "parseAmount (RNum (Fin 20)) = Inr 20" by code_simp
  then have can: "can_post OpFinalize ex_stale_row 20 (finalize_key (t_id ex_stale_row)) ''payout_settle'' ''payout'' (70, 0, 10) ?s"
    using v row acc by (intro can_postI [where a = 20]) (simp_all add: quiet_def balance_fits_def fits28_def)
  have "?r = (fst ?r, snd ?r)" by simp
  from stale_finalize_debits_again [OF _ _ can this] v row acc show ?thesis by simp
qed

end
