(* ===== verification/Webhook_Properties.thy ===== *)
theory Webhook_Properties
  imports Payout_Facts Service_Examples
begin

text \<open>
  The properties of the provider webhooks and of the collections they settle: how a status text is
  read, which webhooks are accepted, and what they may do to the ledger.
\<close>

section \<open>Reading a webhook\<close>

lemma str_includes_iff: "str_includes s p \<longleftrightarrow> (\<exists>a b. s = a @ p @ b)"
proof (induction s)
  case Nil
  show ?case by (cases p) (auto simp: starts_with_def)
next
  case (Cons c s)
  have "(\<exists>a b. c # s = a @ p @ b) \<longleftrightarrow> (\<exists>b. c # s = p @ b) \<or> (\<exists>a b. s = a @ p @ b)"
    by (metis append_Cons append_Nil append_eq_Cons_conv)
  moreover have "starts_with (c # s) p \<longleftrightarrow> (\<exists>b. c # s = p @ b)"
    by (auto simp: starts_with_def) (metis append_take_drop_id)
  ultimately show ?case using Cons by simp
qed

lemma str_includes_suffix: "str_includes s (p @ q) \<Longrightarrow> str_includes s q"
  unfolding str_includes_iff by (metis append.assoc)

lemma includes_parts:
  "str_includes s ''settlement-complete'' \<Longrightarrow> str_includes s ''complete''"
  "str_includes s ''refund-failed'' \<Longrightarrow> str_includes s ''fail''"
proof -
  assume "str_includes s ''settlement-complete''"
  with str_includes_suffix [of s "''settlement-''" "''complete''"] show "str_includes s ''complete''" by simp
next
  assume "str_includes s ''refund-failed''"
  then have "str_includes s (''refund-'' @ ''fail'' @ ''ed'')" by simp
  then show "str_includes s ''fail''" unfolding str_includes_iff by (metis append.assoc)
qed

definition status_text :: "string \<Rightarrow> string" where
  "status_text st = replace_char (CHR ''_'') (CHR ''-'') (to_lower (trim st))"

lemma status_text_no_underscore: "\<not> str_includes (status_text st) ''settlement_complete''"
proof
  assume "str_includes (status_text st) ''settlement_complete''"
  then have "CHR ''_'' \<in> set (status_text st)" by (auto simp: str_includes_iff)
  then show False by (auto simp: status_text_def replace_char_def split: if_splits)
qed

lemma plain_words:
  "\<not> contains_any ''complete'' [''fail'', ''reject'', ''cancel'', ''declin'', ''expired'']"
  "\<not> contains_any ''complete'' [''settlement-complete'']"
  "\<not> contains_any ''completed'' [''fail'', ''reject'', ''cancel'', ''declin'', ''expired'']"
  "\<not> contains_any ''completed'' [''settlement-complete'']"
  "\<not> contains_any ''paid'' [''fail'', ''reject'', ''cancel'', ''declin'', ''expired'']"
  "\<not> contains_any ''paid'' [''settlement-complete'']"
  "\<not> contains_any [] [''fail'', ''reject'', ''cancel'', ''declin'', ''expired'']"
  "\<not> contains_any [] [''settlement-complete'']"
  "\<not> contains_any [] [''complete'', ''success'', ''settled'']"
  by code_simp+

text \<open>C39: Status texts. Every text of the provider is mapped to one of the three statuses of a payment; it
  is a success exactly when it is "paid", or says complete, success or settled and none of the
  failure words unless it is a bare "complete(d)" or a settlement completion; it is a failure exactly
  when it has a failure word and is not such a completion.\<close>

theorem provider_status_classified:
  "mapYellowCardProviderStatus st \<in> set payment_statuses
   \<and> (mapYellowCardProviderStatus st = ''success-payment'' \<longleftrightarrow>
        contains_any (status_text st) [''settlement-complete'']
        \<or> status_text st \<in> {''complete'', ''completed'', ''paid''}
        \<or> contains_any (status_text st) [''complete'', ''success'', ''settled'']
          \<and> \<not> contains_any (status_text st) [''fail'', ''reject'', ''cancel'', ''declin'', ''expired''])
   \<and> (mapYellowCardProviderStatus st = ''failed-payment'' \<longleftrightarrow>
        contains_any (status_text st) [''fail'', ''reject'', ''cancel'', ''declin'', ''expired'']
        \<and> \<not> contains_any (status_text st) [''settlement-complete''])"
proof -
  define s where "s = status_text st"
  have no: "\<not> str_includes s ''settlement_complete''" by (simp add: s_def status_text_no_underscore)
  have map: "mapYellowCardProviderStatus st = (if s = [] then ''pending-payment''
      else if s = ''complete'' \<or> s = ''completed'' \<or> contains_any s [''settlement-complete'', ''settlement_complete''] then ''success-payment''
      else if contains_any s [''fail'', ''reject'', ''cancel'', ''declin'', ''expired'', ''refund-failed''] then ''failed-payment''
      else if contains_any s [''complete'', ''success'', ''settled''] \<or> s = ''paid'' then ''success-payment'' else ''pending-payment'')"
    by (simp add: mapYellowCardProviderStatus_def s_def status_text_def Let_def)
  define f where "f = contains_any s [''fail'', ''reject'', ''cancel'', ''declin'', ''expired'']"
  define g where "g = contains_any s [''complete'', ''success'', ''settled'']"
  define c where "c = contains_any s [''settlement-complete'']"
  have parts: "contains_any s [''settlement-complete'', ''settlement_complete''] = c"
    using no by (simp add: c_def contains_any_def)
  have parts': "contains_any s [''fail'', ''reject'', ''cancel'', ''declin'', ''expired'', ''refund-failed''] = f"
    using includes_parts(2) [of s] by (cases "str_includes s ''refund-failed''") (simp_all add: f_def contains_any_def)
  have comp: "c \<Longrightarrow> g"
    using includes_parts(1) [of s] by (simp add: c_def g_def contains_any_def)
  have plain: "s = ''complete'' \<Longrightarrow> \<not> f \<and> \<not> c" "s = ''completed'' \<Longrightarrow> \<not> f \<and> \<not> c" "s = ''paid'' \<Longrightarrow> \<not> f \<and> \<not> c"
    by (simp_all only: f_def c_def plain_words simp_thms)
  have nil: "s = [] \<Longrightarrow> \<not> f \<and> \<not> c \<and> \<not> g"
    by (simp_all only: f_def c_def g_def plain_words simp_thms)
  have range: "mapYellowCardProviderStatus st \<in> set payment_statuses" by (rule map_status_range)
  consider "s = []" | "s = ''complete''" | "s = ''completed''" | "s = ''paid''"
    | "s \<noteq> []" "s \<noteq> ''complete''" "s \<noteq> ''completed''" "s \<noteq> ''paid''" by blast
  then show ?thesis
    unfolding s_def [symmetric] f_def [symmetric] g_def [symmetric] c_def [symmetric]
    by cases (use range parts parts' comp plain nil in \<open>simp_all add: map f_def [symmetric] g_def [symmetric]\<close>)
qed

text \<open>Webhook authentication. A webhook is accepted exactly when a secret is configured and the
  trimmed signature header is the HMAC of the raw body under that secret; without a secret it is
  refused with 503 whatever it carries, and every other refusal is a 401.\<close>

theorem webhook_authenticated:
  "assertYellowCardWebhookAuthenticated hmac body header secret =
    (if trim secret = [] then Inl (YellowCardAuthError 503)
     else if trim (or_str header []) \<noteq> [] \<and> trim (or_str header []) = hmac (trim secret) body then Inr ()
     else Inl (YellowCardAuthError 401))"
  by (auto simp: assertYellowCardWebhookAuthenticated_def verifyYellowCardWebhookSignature_def Let_def)

section \<open>What a webhook may do to the ledger\<close>

definition event_key :: "yc_payload \<Rightarrow> string" where
  "event_key payload = trim (or_str (or_else (yc_sequenceId payload) (or_else (yc_id payload) None)) [])"

lemma webhook_dispatch:
  assumes "event_key payload \<noteq> []" and "find_row t_external_id (Some (event_key payload)) (txns s) = Some row"
  shows "applyInfraYellowCardWebhook sd payload s = dispatchWebhook sd row payload (event_key payload) s"
  using assms by (simp add: applyInfraYellowCardWebhook_def event_key_def Let_def loadTxByExternalId_def)

lemma loaded_inv:
  assumes "\<And>row. t_id row = i \<Longrightarrow> inv_act I (f row)"
  shows "inv_act I (abnd (loadTx i o') (\<lambda>found. case found of None \<Rightarrow> athrow e | Some row \<Rightarrow> f row))"
  unfolding inv_act_def
proof (intro allI impI)
  fix s r s' assume "I s" and run: "abnd (loadTx i o') (\<lambda>found. case found of None \<Rightarrow> athrow e | Some row \<Rightarrow> f row) s = (r, s')"
  obtain r1 s1 where load: "loadTx i o' s = (r1, s1)" by (cases "loadTx i o' s") auto
  from loadTx_state [OF load] obtain found where r1: "r1 = Inr found" "s1 = s" by blast
  show "I s'"
  proof (cases found)
    case None
    with run load r1 \<open>I s\<close> show ?thesis by simp
  next
    case (Some row)
    with load r1 have "t_id row = i" using loadTx_row by blast
    from inv_actD [OF assms [OF this] \<open>I s\<close>] run load r1 Some show ?thesis by simp
  qed
qed

lemma fixed_settle:
  assumes "''collection:'' @ se_transactionId input @ '':credit'' \<in> m_key ` set (movements s0)"
    and "getInfraStellarFundingMode sd = ''off''"
  shows "inv_act (ledger_fixed s0) (settleCollectionCredit sd input)"
proof -
  have credit: "inv_act (ledger_fixed s0) (settleCredited sd input row x r)" if "t_id row = se_transactionId input" for row x r
  proof -
    have "inv_act (ledger_fixed s0) (creditOrgWallet (lifecycle_params row x ''collection:'' '':credit'' mt rt meta))" for mt rt meta
      using fixed_op [of "lifecycle_params row x ''collection:'' '':credit'' mt rt meta" s0 OpCredit] assms(1) that
      by (simp add: is_ws_def)
    then show ?thesis
      unfolding settleCredited_def collectionCredit_def patchCredited_def Let_def
      by (simp only: assms(2) simp_thms if_False) (intro inv_intros)
  qed
  show ?thesis
    unfolding settleCollectionCredit_def by (intro loaded_inv inv_intros credit)
qed

text \<open>Redelivery. Without wallet funding, once a collection's credit is on the ledger, no webhook of
  Yellow Card for it - any status, any number of times - posts a movement or changes a balance.\<close>

theorem collection_webhook_redelivery:
  assumes "ledger_inv s" and "getInfraStellarFundingMode sd = ''off''"
    and "find_row t_external_id (Some (event_key payload)) (txns s) = Some row" and "t_direction row = ''payment''"
    and "''collection:'' @ t_id row @ '':credit'' \<in> m_key ` set (movements s)"
    and "applyInfraYellowCardWebhook sd payload s = (r, s')"
  shows "movements s' = movements s \<and> balances s' = balances s"
proof (cases "event_key payload = []")
  case True
  then show ?thesis using assms(6) by (auto simp: applyInfraYellowCardWebhook_def event_key_def Let_def)
next
  case False
  have run: "collectionWebhook sd row (resolveWalletStatusFromYellowCardWebhook payload) (provider_event payload (event_key payload)) s = (r, s')"
    using assms(6) webhook_dispatch [OF False assms(3)] assms(4) by (simp add: dispatchWebhook_def Let_def)
  have "inv_act (ledger_fixed s) (collectionWebhook sd row mapped e)" for mapped e
    unfolding collectionWebhook_def
    by (intro inv_intros fixed_settle) (use assms(2,5) in simp_all)
  from inv_actD [OF this ledger_fixed_refl [OF assms(1)] run] show ?thesis by (simp add: ledger_fixed_def)
qed

lemma settlements_only: "update_settlements p g s = Inr (u, s') \<Longrightarrow> txns s' = txns s"
  by (auto simp: tx_simps Let_def)

lemma ex_credited_facts:
  "case applyInfraYellowCardWebhook ex_off (ex_event ''c1'' ''complete'') ex_orders of (r, s) \<Rightarrow>
    ledger_inv s \<and> balances s ex_account = (125, 0, 0) \<and> money s = 125
    \<and> ''collection:'' @ ''c1'' @ '':credit'' \<in> m_key ` set (movements s)
    \<and> (case find_row t_external_id (Some ''seq-c1'') (txns s) of None \<Rightarrow> False | Some row \<Rightarrow>
        t_id row = ''c1'' \<and> t_direction row = ''payment'')
    \<and> (case find_row (\<lambda>t. (t_id t, t_org t)) (''c1'', ''acme'') (txns s) of None \<Rightarrow> False | Some row \<Rightarrow>
        t_id row = ''c1'' \<and> t_org row = ''acme'' \<and> t_env row = Test \<and> t_direction row = ''payment'' \<and> metaUsdc row = Some 25)
    \<and> ''collection:'' @ ''c1'' @ '':pending'' \<notin> m_key ` set (movements s)
    \<and> Some (''acme'', Test, ''collection'', ''c1'', ''collection_pending'') \<notin> movement_ref ` set (movements s)
    \<and> find_row wallet_key ex_account (wallets s) \<noteq> None \<and> list_all (\<lambda>w. w_status w = Active) (wallets s)
    \<and> uuid_of s (uuid_next s) \<notin> m_id ` set (movements s)"
  by code_simp

lemmas ex_credited_run = by_run [OF ex_credited_facts, folded ex_credited_def]

lemma ex_credited_row:
  "find_row (\<lambda>t. (t_id t, t_org t)) (''c1'', ''acme'') (txns ex_credited) = Some (ex_collection ex_credited)"
  "t_id (ex_collection ex_credited) = ''c1''" "t_org (ex_collection ex_credited) = ''acme''"
  "t_env (ex_collection ex_credited) = Test" "t_direction (ex_collection ex_credited) = ''payment''"
  "metaUsdc (ex_collection ex_credited) = Some 25"
  using ex_credited_run by (auto simp: ex_collection_def split: option.splits)

lemma collection_webhook_redelivery_witness:
  "balances (snd (applyInfraYellowCardWebhook ex_off (ex_event ''c1'' ''failed'') ex_credited)) ex_account = (125, 0, 0)"
proof -
  let ?r = "applyInfraYellowCardWebhook ex_off (ex_event ''c1'' ''failed'') ex_credited"
  have v: "getInfraStellarFundingMode ex_off = ''off''" "event_key (ex_event ''c1'' ''failed'') = ''seq-c1''" by code_simp+
  obtain row where row: "find_row t_external_id (Some ''seq-c1'') (txns ex_credited) = Some row" "t_id row = ''c1''"
    "t_direction row = ''payment''"
    using ex_credited_run by (auto split: option.splits)
  have "?r = (fst ?r, snd ?r)" by simp
  from collection_webhook_redelivery [OF _ v(1) _ row(3) _ this] v(2) row ex_credited_run
  show ?thesis by simp
qed

text \<open>A provider's failure after the treasury was paid. When the USDC of a withdrawal has been
  confirmed on Stellar, a webhook that reports the provider's failure leaves the ledger as it is, lock
  included, and answers; the payout is marked for a retry unless it is already finalized.\<close>

theorem provider_failure_keeps_lock:
  assumes "ledger_inv s" and "event_key payload \<noteq> []"
    and "find_row t_external_id (Some (event_key payload)) (txns s) = Some row" and "t_direction row = ''payout''"
    and "flag (t_metadata row) ''offRamp''" and "flag (t_metadata row) ''stellarConfirmed''"
    and "resolveWalletStatusFromYellowCardWebhook payload = Some ''failed-payment''"
    and "\<not> isYellowCardReceiveWebhookEvent (event_text payload)"
    and "applyInfraYellowCardWebhook sd payload s = (r, s')"
  shows "movements s' = movements s \<and> balances s' = balances s
    \<and> (\<forall>t \<in> set (txns s'). t_id t = t_id row \<longrightarrow> flag (t_metadata row) ''fundsFinalized'' \<or>
        t_status t = ''processing'' \<and> flag (t_metadata t) ''providerRetryRequired'')"
proof -
  let ?e = "provider_event payload (event_key payload)"
  have run: "payoutFailure sd row payload ?e s = (r, s')"
    using assms(9) webhook_dispatch [OF assms(2,3)] assms(4,7,8) by (simp add: dispatchWebhook_def payoutWebhook_def Let_def)
  have "inv_act (ledger_fixed s) (payoutFailure sd row payload ?e)"
    unfolding payoutFailure_def Let_def using assms(5,6) by simp (intro impI inv_intros)
  from inv_actD [OF this ledger_fixed_refl [OF assms(1)] run]
  have "movements s' = movements s \<and> balances s' = balances s" by (simp add: ledger_fixed_def)
  moreover have "flag (t_metadata row) ''fundsFinalized'' \<or>
        t_status t = ''processing'' \<and> flag (t_metadata t) ''providerRetryRequired''" if "t \<in> set (txns s')" "t_id t = t_id row" for t
  proof (cases "flag (t_metadata row) ''fundsFinalized''")
    case False
    let ?p = "[''offRampPhase'' \<mapsto> JStr ''provider_failed'',
         ''providerRetryRequired'' \<mapsto> JBool True, ''providerEventId'' \<mapsto> JStr ?e,
         ''settlementSource'' \<mapsto> JStr ''yellowcard_webhook'',
         ''providerFailureReason'' \<mapsto> JStr (status_or_event payload ''provider_failed'')]"
    let ?f = "\<lambda>t. t\<lparr>t_status := ''processing'', t_metadata := t_metadata t ++ ?p\<rparr>"
    have "txns s' = update_rows t_id (t_id row) ?f (txns s)"
      using run assms(5,6) False by (auto simp: payoutFailure_def patchTx_def sql_txn_def run_tx_def update_txn_def
          abnd_def Let_def dest: settlements_only split: sum.splits prod.splits)
    then show ?thesis
      by (rule updated_row [OF _ _ that]) (auto simp: flag_def)
  qed simp
  ultimately show ?thesis by blast
qed

lemma ex_withdrawal_facts:
  "case lockPayoutFunds ''acme'' ''p1'' None ex_orders of (r, s) \<Rightarrow>
    case find_row t_external_id (Some ''seq-p1'') (map (\<lambda>t. if t_id t = ''p1''
     then t\<lparr>t_metadata := t_metadata t ++ [''offRamp'' \<mapsto> JBool True, ''stellarConfirmed'' \<mapsto> JBool True]\<rparr> else t) (txns s)) of
      None \<Rightarrow> False | Some row \<Rightarrow> t_direction row = ''payout'' \<and> flag (t_metadata row) ''offRamp'' \<and> flag (t_metadata row) ''stellarConfirmed''"
  by code_simp

lemma provider_failure_keeps_lock_witness:
  "balances (snd (applyInfraYellowCardWebhook (ex_sdk []) (ex_event ''p1'' ''failed'') ex_withdrawal)) ex_account = (70, 0, 30)"
proof -
  let ?r = "applyInfraYellowCardWebhook (ex_sdk []) (ex_event ''p1'' ''failed'') ex_withdrawal"
  have v: "event_key (ex_event ''p1'' ''failed'') = ''seq-p1''"
    "resolveWalletStatusFromYellowCardWebhook (ex_event ''p1'' ''failed'') = Some ''failed-payment''"
    "\<not> isYellowCardReceiveWebhookEvent (event_text (ex_event ''p1'' ''failed''))"
    "balances ex_locked_orders ex_account = (70, 0, 30)" by code_simp+
  obtain row where row: "find_row t_external_id (Some ''seq-p1'') (txns ex_withdrawal) = Some row" "t_direction row = ''payout''"
    "flag (t_metadata row) ''offRamp''" "flag (t_metadata row) ''stellarConfirmed''"
    using by_run [OF ex_withdrawal_facts, folded ex_locked_orders_def] by (auto simp: ex_withdrawal_def split: option.splits)
  have "ledger_inv ex_withdrawal" "balances ex_withdrawal = balances ex_locked_orders"
    using ex_locked_orders_inv by (simp_all add: ex_withdrawal_def)
  moreover have "?r = (fst ?r, snd ?r)" by simp
  ultimately show ?thesis
    using provider_failure_keeps_lock [OF _ _ _ row(2-4) v(2,3), of ex_withdrawal "ex_sdk []" "fst ?r" "snd ?r"] v row(1) by simp
qed

text \<open>Switching the funding mode credits twice. The direct credit of a collection and its pending
  credit have different keys: when a collection that was credited directly is settled again after
  wallet funding was switched on, its USDC amount is created a second time, whatever the wallet
  funding then does.\<close>

theorem mode_switch_credits_twice:
  assumes "ledger_inv s" and "getInfraStellarFundingMode sd \<noteq> ''off''"
    and "loadTx (se_transactionId input) (Some (se_orgId input)) s = (Inr (Some row), s)" and "t_direction row = ''payment''"
    and "metaUsdc row = Some x" and "parseAmount (RNum (Fin x)) = Inr a"
    and "''collection:'' @ t_id row @ '':credit'' \<in> m_key ` set (movements s)"
    and "can_post OpCreditPending row x (''collection:'' @ t_id row @ '':pending'') ''collection_pending'' ''collection'' b s"
    and "settleCollectionCredit sd input s = (r, s')"
  shows "money s' = money s + a
    \<and> {''collection:'' @ t_id row @ '':credit'', ''collection:'' @ t_id row @ '':pending''} \<subseteq> m_key ` set (movements s')"
proof -
  let ?K = "{''collection:'' @ t_id row @ '':credit'', ''collection:'' @ t_id row @ '':pending''}"
  have run: "settleCredited sd input row x None s = (r, s')"
    using assms(3-5,9) by (simp add: settleCollectionCredit_def usdcOf_def)
  obtain m s1 where op: "run_op OpCreditPending (lifecycle_params row x ''collection:'' '':pending'' ''collection_pending''
      ''collection'' (credit_meta input row None True)) s = (Inr (m, False), s1)"
    and s1: "ledger_inv s1" "movements s1 = m # movements s" "m_key m = ''collection:'' @ t_id row @ '':pending''"
      "parseAmount (RNum (Fin x)) = Inr (m_amount m)" "money s1 = money s + op_delta OpCreditPending (m_amount m)"
    by (rule op_commits [OF assms(1,8), where meta = "credit_meta input row None True"]) (auto simp: is_ws_def)
  have fixed: "supply_fixed ?K (money s + a) s1"
    using s1 assms(6,7) by (auto simp: supply_fixed_def)
  let ?rest = "abnd (patchCredited sd input row x None True m) (\<lambda>_. abnd (fundOrReport sd row x) (\<lambda>walletFunding.
     abnd (getOrgBalance (t_org row) (env_name (t_env row)) None) (\<lambda>balance.
     aret \<lparr>sr_transactionId = t_id row, sr_credit = (m, False), sr_balance = balance, sr_usdcAmount = x,
       sr_walletFunding = walletFunding,
       sr_ledgerPhase = (if map_option cf_status walletFunding = Some ''confirmed'' then ''available''
         else if True then ''pending'' else ''available'')\<rparr>)))"
  have "?rest s1 = (r, s')"
    using run op assms(2) by (simp add: settleCredited_def collectionCredit_def Let_def)
  moreover have "inv_act (supply_fixed ?K (money s + a)) ?rest"
    unfolding patchCredited_def by (intro inv_intros)
  ultimately have "supply_fixed ?K (money s + a) s'" using fixed inv_actD by blast
  then show ?thesis by (simp add: supply_fixed_def)
qed

lemma mode_switch_credits_twice_witness:
  "money (snd (settleCollectionCredit ex_mock ex_settle_input ex_credited)) = 150 \<and> money ex_credited = 125"
proof -
  let ?r = "settleCollectionCredit ex_mock ex_settle_input ex_credited"
  note f = ex_credited_run and row = ex_credited_row
  have v: "getInfraStellarFundingMode ex_mock \<noteq> ''off''" "parseAmount (RNum (Fin 25)) = Inr 25" by code_simp+
  have acc: "payout_account (ex_collection ex_credited) = ex_account" by (simp add: payout_account_def ex_account_def row)
  have load: "loadTx (se_transactionId ex_settle_input) (Some (se_orgId ex_settle_input)) ex_credited
      = (Inr (Some (ex_collection ex_credited)), ex_credited)"
    using row(1) by (simp add: loadTx_def or_else_def ex_settle_input_def)
  have can: "can_post OpCreditPending (ex_collection ex_credited) 25 (''collection:'' @ t_id (ex_collection ex_credited) @ '':pending'')
      ''collection_pending'' ''collection'' (125, 25, 0) ex_credited"
    using f row acc v(2) by (intro can_postI [where a = 25]) (simp_all add: balance_fits_def fits28_def)
  have "?r = (fst ?r, snd ?r)" by simp
  from mode_switch_credits_twice [OF _ v(1) load row(5,6) v(2) _ can this] f row show ?thesis by simp
qed

text \<open>C38: Flutterwave credits only what it expects. A Flutterwave webhook that posts a movement names, as
  its reference, a collection on the Flutterwave rail that is not settled, and reports a positive
  amount within one unit of the expected one.\<close>

theorem flutterwave_credits_expected:
  assumes "ledger_inv s" and "applyInfraFlutterwaveWebhook sd payload s = (r, s')" and "movements s' \<noteq> movements s"
  shows "\<exists>row x. find_row t_external_id (Some (flw_ref payload)) (txns s) = Some row \<and> t_direction row = ''payment''
    \<and> rail_of row = ''flutterwave'' \<and> \<not> is_settled (t_status row) \<and> fw_amount payload = Fin x \<and> 0 < x \<and> \<bar>x - t_amount row\<bar> \<le> 1"
proof (rule ccontr)
  assume no: "\<not> ?thesis"
  have "ledger_fixed s s'"
  proof (cases "flw_ref payload = [] \<or> find_row t_external_id (Some (flw_ref payload)) (txns s) = None")
    case True
    then show ?thesis
      using assms(1,2) by (cases "flw_ref payload = []")
        (auto simp: applyInfraFlutterwaveWebhook_def Let_def loadTxByExternalId_def intro: ledger_fixed_refl)
  next
    case False
    then obtain row where row: "find_row t_external_id (Some (flw_ref payload)) (txns s) = Some row" by auto
    have amount: "inv_act (ledger_fixed s) (flutterwaveAmount sd row payload (flw_ref payload) x)"
      if "t_direction row = ''payment''" "rail_of row = ''flutterwave''" "fw_amount payload = Fin x" "0 < x" for x
      using no row that unfolding flutterwaveAmount_def
      by (cases "1 < \<bar>x - t_amount row\<bar>") (auto intro!: inv_intros)
    let ?m = "(if t_direction row \<noteq> ''payment'' then aret not_handled
         else if rail_of row \<noteq> ''flutterwave'' then aret not_handled
         else if to_upper (or_str (or_else (Some (fw_currency payload)) (or_else (Some (t_currency row)) None)) ''NGN'') \<noteq> ''NGN''
         then aret not_handled
         else (case fw_amount payload of
             Fin received \<Rightarrow>
               if received \<le> 0 then aret (handled row ''invalid_amount'')
               else flutterwaveAmount sd row payload (flw_ref payload) received
           | _ \<Rightarrow> aret (handled row ''invalid_amount'')))"
    have "?m s = (r, s')"
      using False assms(2) row by (simp add: applyInfraFlutterwaveWebhook_def Let_def loadTxByExternalId_def)
    moreover have "inv_act (ledger_fixed s) ?m"
      by (cases "fw_amount payload") (auto intro: amount)
    ultimately show ?thesis using inv_actD ledger_fixed_refl [OF assms(1)] by blast
  qed
  with assms(3) show False by (simp add: ledger_fixed_def)
qed

lemma flutterwave_credits_expected_witness:
  "\<exists>row x. find_row t_external_id (Some ''seq-c1'') (txns ex_flutterwave) = Some row \<and> fw_amount ex_flw = Fin x \<and> \<bar>x - t_amount row\<bar> \<le> 1"
proof -
  let ?r = "applyInfraFlutterwaveWebhook ex_off ex_flw ex_flutterwave"
  have v: "ledger_inv ex_flutterwave" "flw_ref ex_flw = ''seq-c1''" "length (movements ex_flutterwave) = 1" by code_simp+
  have "length (movements (snd ?r)) = 2" by code_simp
  with v(3) have "movements (snd ?r) \<noteq> movements ex_flutterwave" by auto
  moreover have "?r = (fst ?r, snd ?r)" by simp
  ultimately show ?thesis using flutterwave_credits_expected [OF v(1)] v(2) by metis
qed

end
