(* ===== verification/Stellar_Properties.thy ===== *)
theory Stellar_Properties
  imports Fx Fee_Payer Service_Examples
begin

text \<open>
  The properties of the Stellar configuration, of the amounts and secrets of a payment, of the
  provisioning of accounts, and of the exchange rates.
\<close>

section \<open>The network\<close>


definition ex_mainnet :: sdk where
  "ex_mainnet = ex_sdk [(''STELLAR_NETWORK'', ''Mainnet ''), (''STELLAR_USDC_ISSUER'', TESTNET_USDC_ISSUER),
     (''STELLAR_HORIZON_URL'', ''https://horizon-testnet.stellar.org'')]"


text \<open>A padded \<open>STELLAR_NETWORK\<close>. The trustlines of a receiving account are built from a test that
  does not trim the variable: when it names the public network with spaces around it, the
  configuration is the public network's while the receiving account trusts the test issuer's USDC.\<close>

theorem padded_network_splits:
  assumes "sdk_env sd ''STELLAR_NETWORK'' = Some raw" and "to_lower (trim raw) = ''mainnet''" and "to_lower raw \<noteq> ''mainnet''"
    and "getStellarConfig sd = Inr cfg" and "resolveUsdcIssuer sd True \<noteq> resolveUsdcIssuer sd False"
  shows "\<not> cfg_isTestnet cfg \<and> (''USDC'', resolveUsdcIssuer sd True) \<in> set (buildReceiveTrustlineAssets sd)
    \<and> (''USDC'', resolveUsdcIssuer sd (cfg_isTestnet cfg)) \<notin> set (buildReceiveTrustlineAssets sd)"
proof -
  have "raw \<noteq> []" using assms(2) by (auto simp: trim_def to_lower_def)
  then have "\<not> cfg_isTestnet cfg" "isStellarTestnet sd"
    using getStellarConfig_Inr(3) [OF assms(4)] assms(1-3) by (simp_all add: env_word_def isStellarTestnet_def or_str_def or_else_def)
  with assms(5) show ?thesis by (auto simp: buildReceiveTrustlineAssets_def)
qed

lemma padded_network_splits_witness:
  "(''USDC'', TESTNET_USDC_ISSUER) \<in> set (buildReceiveTrustlineAssets ex_mainnet)"
proof -
  have v: "sdk_env ex_mainnet ''STELLAR_NETWORK'' = Some ''Mainnet ''" "to_lower (trim ''Mainnet '') = ''mainnet''"
    "to_lower ''Mainnet '' \<noteq> ''mainnet''" "resolveUsdcIssuer ex_mainnet True = TESTNET_USDC_ISSUER"
    "resolveUsdcIssuer ex_mainnet True \<noteq> resolveUsdcIssuer ex_mainnet False" by code_simp+
  have "case getStellarConfig ex_mainnet of Inl e \<Rightarrow> False | Inr cfg \<Rightarrow> True" by code_simp
  then obtain cfg where cfg: "getStellarConfig ex_mainnet = Inr cfg" by (auto split: sum.splits)
  from padded_network_splits [OF v(1-3) cfg v(5)] v(4) show ?thesis by auto
qed

section \<open>Payments\<close>

text \<open>One text for an amount. The amount of an on-chain payment is written exactly as the ledger's
  formatter writes it: for every positive amount of minor units in range, the text that goes to the
  chain is the text of the ledger, and it parses back to the same minor units.\<close>

theorem chain_amount_is_ledger_amount:
  assumes "0 < k" and "k < 10000000000000000000000000000"
  shows "formatUsdcAmount (RNum (Fin (of_int k / 10000000))) = Inr (formatUsdc k)
    \<and> parseUsdcToMinor (RStr (formatUsdc k)) = Inr k"
  using formatUsdcAmount_formatUsdc [OF assms] parse_formatUsdc [of k] assms by simp

lemma chain_amount_is_ledger_amount_witness:
  "formatUsdcAmount (RNum (Fin (5 / 4))) = Inr ''1.25''"
proof -
  have "(of_int 12500000 / 10000000 :: rat) = 5 / 4" "formatUsdc 12500000 = ''1.25''" by code_simp+
  with chain_amount_is_ledger_amount [of 12500000] show ?thesis by simp
qed

text \<open>Custody. With an authenticated cipher whose parts are colon-free texts, the signing secret that
  the vault returns for a stored reference is the generated one: its key pair has the public key
  that was answered, and reading it changes nothing.\<close>

theorem stored_secret_signs:
  assumes "good_cipher sd" and "\<forall>n. sdk_random sd n \<noteq> []"
    and "createKeypairAndStore sd s = (Inr (custodyRef, publicKey), s')"
  shows "\<exists>secret. getSigningSecret sd custodyRef s' = (Inr secret, s') \<and> keypair sd secret = Inr publicKey"
  using custody_roundtrip [OF assms] .

text \<open>A cipher for the witness: it writes the colon and the letter x as two letters.\<close>

fun ex_escape :: "string \<Rightarrow> string" where
  "ex_escape [] = []"
| "ex_escape (c # s) = (if c = CHR '':'' then ''xc'' else if c = CHR ''x'' then ''xx'' else [c]) @ ex_escape s"

fun ex_unescape :: "string \<Rightarrow> string" where
  "ex_unescape (c # d # s) = (if c = CHR ''x'' then (if d = CHR ''c'' then CHR '':'' else CHR ''x'') # ex_unescape s
     else c # ex_unescape (d # s))"
| "ex_unescape s = s"

definition ex_vault :: sdk where
  "ex_vault = (ex_sdk [])\<lparr>sdk_cipher := (\<lambda>key seed plain. (''iv'', ''tag'', ex_escape plain)),
     sdk_decipher := (\<lambda>key iv tag enc. Some (ex_unescape enc))\<rparr>"

lemma ex_unescape_Cons [simp]: "c \<noteq> CHR ''x'' \<Longrightarrow> ex_unescape (c # s) = c # ex_unescape s"
  by (cases s) simp_all

lemma ex_escape_facts [simp]: "ex_unescape (ex_escape s) = s" "CHR '':'' \<notin> set (ex_escape s)" "ex_escape s = [] \<longleftrightarrow> s = []"
  by (induction s) auto

lemma ex_vault_good: "good_cipher ex_vault" "\<forall>n. sdk_random ex_vault n \<noteq> []"
  by (simp_all add: good_cipher_def ex_vault_def ex_sdk_def)

lemma stored_secret_signs_witness:
  "\<exists>secret. fst (getSigningSecret ex_vault (fst (value_of (createKeypairAndStore ex_vault ex_orders)))
     (snd (createKeypairAndStore ex_vault ex_orders))) = Inr secret"
proof -
  let ?r = "createKeypairAndStore ex_vault ex_orders"
  have "succeeded ?r" by code_simp
  from succeeded_run [OF this] have "?r = (Inr (fst (value_of ?r), snd (value_of ?r)), snd ?r)" by simp
  from stored_secret_signs [OF ex_vault_good this] show ?thesis by auto
qed

text \<open>Provisioning. A provisioning of an organisation's account that answers, in either mode and
  whichever state the row was in, answers with an active account; and no provisioning, whether it
  answers or fails half way, posts a ledger movement or changes a balance.\<close>

theorem provisioning_ends_active:
  assumes "ledger_inv s" and "provisionOrgStellarAccount sd orgId environment mode s = (r, s')"
  shows "(\<forall>v. r = Inr v \<longrightarrow> av_status v = ''active'') \<and> movements s' = movements s \<and> balances s' = balances s"
  using keepsD [OF keeps_provision assms] provision_active assms(2)
  by (auto simp: unchanged_def ledger_same_def)

lemma provisioning_ends_active_witness:
  "av_status (value_of (provisionOrgStellarAccount ex_vault ''acme'' ''test'' None ex_orders)) = ''active''"
proof -
  let ?r = "provisionOrgStellarAccount ex_vault ''acme'' ''test'' None ex_orders"
  have "succeeded ?r" by code_simp
  from provisioning_ends_active [OF ex_orders_inv succeeded_run [OF this]] show ?thesis by simp
qed

section \<open>Exchange rates\<close>

text \<open>Cross rates. The resolution of a rate is the specification's: one for equal currencies, else the
  positive direct rate, else the product of the rates over the dollar rounded to eight decimals, else
  an error; it changes nothing. After the platform rates have been ensured, which overwrites no rate
  that is present, a positive rate between any two of the platform's currencies over the dollar
  resolves unless a stored rate is not positive.\<close>

theorem exchange_rates_resolve:
  assumes "ensurePlatformExchangeRates s = (r, s')"
  shows "resolveExchangeRate f t s' =
      (case spec_rate s' (currency_code f) (currency_code t) of Some x \<Rightarrow> Inr x | None \<Rightarrow> Inl (JsError ''No exchange rate''), s')
    \<and> r = Inr ()
    \<and> (\<forall>p x. find_row fx_pair p (fx_rates s) = Some x \<longrightarrow> find_row fx_pair p (fx_rates s') = Some x)
    \<and> (\<forall>(b, d, x) \<in> set platform_rates. \<exists>row. find_row fx_pair (b, d) (fx_rates s') = Some row
         \<and> (0 < r_rate row \<longrightarrow> spec_rate s' b d = Some (r_rate row)))"
proof -
  have run: "insert_rates platform_rates s = (Inr (), s')" and r: "r = Inr ()"
    using assms insert_rates_Inr [of platform_rates s] by (auto simp: ensurePlatformExchangeRates_def)
  have "\<exists>row. find_row fx_pair (b, d) (fx_rates s') = Some row \<and> (0 < r_rate row \<longrightarrow> spec_rate s' b d = Some (r_rate row))"
    if "(b, d, x) \<in> set platform_rates" for b d x
  proof -
    from insert_rates_present [OF run that] obtain row where row: "find_row fx_pair (b, d) (fx_rates s') = Some row"
      by auto
    moreover have "b \<noteq> d" using that by (auto simp: platform_rates_def)
    ultimately show ?thesis by (auto simp: spec_rate_def direct_rate_def)
  qed
  then show ?thesis using resolve_spec [of f t s'] insert_rates_keep [OF run] r by blast
qed

lemma exchange_rates_resolve_witness:
  "fst (resolveExchangeRate ''gbp'' ''NGN'' (snd (ensurePlatformExchangeRates ex_orders))) = Inr (19558 / 10)"
proof -
  let ?r = "ensurePlatformExchangeRates ex_orders"
  have v: "spec_rate (snd ?r) (currency_code ''gbp'') (currency_code ''NGN'') = Some (19558 / 10)" by code_simp
  have "?r = (fst ?r, snd ?r)" by simp
  from exchange_rates_resolve [OF this, of "''gbp''" "''NGN''"] v show ?thesis by simp
qed

end
