(* ===== verification/Offramp_Properties.thy ===== *)
theory Offramp_Properties
  imports Service_Invariant Service_Examples
begin

text \<open>
  The properties of the withdrawal of a payout to a bank: the polling of Horizon, the order of its two
  legs, and what it does with a payout that was released.
\<close>

section \<open>Polling Horizon\<close>

text \<open>The attempt that decides: the first one that is not a 404, among those that are left.\<close>

definition decisive :: "provider \<Rightarrow> string \<Rightarrow> nat \<Rightarrow> nat option" where
  "decisive yc hash a = find (\<lambda>k. yc_horizon yc k hash \<noteq> HorizonError (Some 404)) [a..<MAX_ATTEMPTS]"

lemma decisive_step: "a < MAX_ATTEMPTS \<Longrightarrow>
    decisive yc hash a = (if yc_horizon yc a hash \<noteq> HorizonError (Some 404) then Some a else decisive yc hash (Suc a))"
  by (simp add: decisive_def upt_conv_Cons)

lemma pollHorizon_decisive:
  "pollHorizon sd yc input a =
    (case decisive yc (ep_hash input) a of
       Some k \<Rightarrow> (case yc_horizon yc k (ep_hash input) of
         HorizonFound t ops \<Rightarrow> checkHorizonPayment sd input t ops
       | HorizonError st \<Rightarrow> Inl (InfraFiatWithdrawalError ''HORIZON_VERIFY_FAILED'' 502))
     | None \<Rightarrow> Inl (InfraFiatWithdrawalError ''HORIZON_VERIFY_FAILED'' 502))"
proof (induction sd yc input a rule: pollHorizon.induct)
  case (1 sd yc input a)
  show ?case
  proof (cases "a < MAX_ATTEMPTS")
    case False
    then show ?thesis by (subst pollHorizon.simps) (simp add: decisive_def)
  next
    case True
    note step = decisive_step [OF True, of yc "ep_hash input"]
    show ?thesis
    proof (cases "yc_horizon yc a (ep_hash input)")
      case (HorizonFound t ops)
      with True step show ?thesis by (subst pollHorizon.simps) simp
    next
      case (HorizonError st)
      show ?thesis
      proof (cases "st = Some 404 \<and> a \<noteq> MAX_ATTEMPTS - 1")
        case again: True
        have "pollHorizon sd yc input a = pollHorizon sd yc input (Suc a)"
          using True HorizonError again by (subst pollHorizon.simps) simp
        with 1 [OF _ HorizonError] True again HorizonError step show ?thesis by simp
      next
        case False
        with True HorizonError step show ?thesis
          by (subst pollHorizon.simps) (auto simp: decisive_def)
      qed
    qed
  qed
qed

lemma checked_payment:
  assumes "checkHorizonPayment sd input t ops = Inr fee"
  shows "ht_successful t \<and> (\<exists>op \<in> set ops. ho_type op = ''payment'' \<and> ho_from op = ep_source input \<and> ho_to op = ep_destination input
    \<and> ho_code op = ''USDC'' \<and> ho_issuer op = resolveUsdcIssuer sd True \<and> \<not> amount_differs (ho_amount op) (ep_amount input))"
  using assms by (auto simp: checkHorizonPayment_def find_Some_iff split: if_splits option.splits)

text \<open>C37: Polling Horizon. The loop that waits for a payment to appear ends: it asks at most twenty-four
  times and its answer is decided by the first attempt that is not a 404, or by there being none; and
  it accepts only a successful transaction that pays USDC of the configured issuer from the expected
  source to the expected destination.\<close>

theorem polling_is_bounded:
  "(\<forall>k. decisive yc (ep_hash input) 0 = Some k \<longrightarrow> k < 24 \<and> yc_horizon yc k (ep_hash input) \<noteq> HorizonError (Some 404)
      \<and> (\<forall>j < k. yc_horizon yc j (ep_hash input) = HorizonError (Some 404)))
   \<and> pollHorizon sd yc input 0 =
      (case decisive yc (ep_hash input) 0 of
         Some k \<Rightarrow> (case yc_horizon yc k (ep_hash input) of
           HorizonFound t ops \<Rightarrow> checkHorizonPayment sd input t ops
         | HorizonError st \<Rightarrow> Inl (InfraFiatWithdrawalError ''HORIZON_VERIFY_FAILED'' 502))
       | None \<Rightarrow> Inl (InfraFiatWithdrawalError ''HORIZON_VERIFY_FAILED'' 502))
   \<and> (\<forall>fee. pollHorizon sd yc input 0 = Inr fee \<longrightarrow> (\<exists>k t ops op. yc_horizon yc k (ep_hash input) = HorizonFound t ops
      \<and> ht_successful t \<and> op \<in> set ops \<and> ho_type op = ''payment'' \<and> ho_from op = ep_source input \<and> ho_to op = ep_destination input
      \<and> ho_code op = ''USDC'' \<and> ho_issuer op = resolveUsdcIssuer sd True \<and> \<not> amount_differs (ho_amount op) (ep_amount input)))"
proof (intro conjI allI impI)
  fix k assume "decisive yc (ep_hash input) 0 = Some k"
  then have *: "k < 24" "yc_horizon yc k (ep_hash input) \<noteq> HorizonError (Some 404)"
    "\<forall>j < k. yc_horizon yc j (ep_hash input) = HorizonError (Some 404)"
    by (auto simp: decisive_def find_Some_iff MAX_ATTEMPTS_def)
  show "k < 24" "yc_horizon yc k (ep_hash input) \<noteq> HorizonError (Some 404)" by (rule *)+
  fix j assume "j < k"
  with * show "yc_horizon yc j (ep_hash input) = HorizonError (Some 404)" by blast
next
  show "pollHorizon sd yc input 0 =
      (case decisive yc (ep_hash input) 0 of
         Some k \<Rightarrow> (case yc_horizon yc k (ep_hash input) of
           HorizonFound t ops \<Rightarrow> checkHorizonPayment sd input t ops
         | HorizonError st \<Rightarrow> Inl (InfraFiatWithdrawalError ''HORIZON_VERIFY_FAILED'' 502))
       | None \<Rightarrow> Inl (InfraFiatWithdrawalError ''HORIZON_VERIFY_FAILED'' 502))"
    by (rule pollHorizon_decisive)
next
  fix fee assume "pollHorizon sd yc input 0 = Inr fee"
  then obtain k t ops where "yc_horizon yc k (ep_hash input) = HorizonFound t ops" "checkHorizonPayment sd input t ops = Inr fee"
    unfolding pollHorizon_decisive by (auto split: option.splits horizon_answer.splits)
  with checked_payment [OF this(2)]
  show "\<exists>k t ops op. yc_horizon yc k (ep_hash input) = HorizonFound t ops
      \<and> ht_successful t \<and> op \<in> set ops \<and> ho_type op = ''payment'' \<and> ho_from op = ep_source input \<and> ho_to op = ep_destination input
      \<and> ho_code op = ''USDC'' \<and> ho_issuer op = resolveUsdcIssuer sd True \<and> \<not> amount_differs (ho_amount op) (ep_amount input)"
    by blast
qed

definition ex_horizon_op :: horizon_op where
  "ex_horizon_op = \<lparr>ho_type = ''payment'', ho_from = ''GA'', ho_to = ''GB'', ho_code = ''USDC'', ho_issuer = TESTNET_USDC_ISSUER,
     ho_amount = ''30'', ho_id = []\<rparr>"

definition ex_polled :: provider where
  "ex_polled = ex_provider\<lparr>yc_horizon := (\<lambda>n h. if n < 2 then HorizonError (Some 404)
     else HorizonFound \<lparr>ht_successful = True, ht_ledger = Some 7, ht_fee_charged = Some ''100'', ht_fee_account = None\<rparr> [ex_horizon_op])\<rparr>"

definition ex_expected :: expected_payment where
  "ex_expected = \<lparr>ep_hash = ''hash'', ep_source = ''GA'', ep_destination = ''GB'', ep_amount = 30\<rparr>"

lemma polling_is_bounded_witness:
  "\<exists>k t ops. yc_horizon ex_polled k ''hash'' = HorizonFound t ops \<and> (\<exists>op \<in> set ops. ho_to op = ''GB'')"
proof -
  have v: "case pollHorizon (ex_sdk []) ex_polled ex_expected 0 of Inl e \<Rightarrow> False | Inr fee \<Rightarrow> True"
    "ep_hash ex_expected = ''hash''" "ep_destination ex_expected = ''GB''"
    by (simp_all add: ex_expected_def ex_polled_def ex_provider_def pollHorizon.simps MAX_ATTEMPTS_def) code_simp
  then obtain fee where "pollHorizon (ex_sdk []) ex_polled ex_expected 0 = Inr fee" by (auto split: sum.splits)
  with polling_is_bounded [of ex_polled ex_expected "ex_sdk []"] v(2,3) show ?thesis by metis
qed

section \<open>The order of the legs\<close>

















section \<open>A payout that was released\<close>

text \<open>A released payout can still be withdrawn. The withdrawal takes any trace of a lock for a lock: a
  payout whose lock has been returned to the organisation, but whose row still names that lock, is
  not refused; its USDC is sent to the treasury and the provider is asked to pay, exactly as for a
  payout that is locked.\<close>

theorem released_payout_is_withdrawn:
  assumes "isFiatOfframpEnabled sd" and "loadPayout orgId i s = (Inr payout, s)"
    and "List.member [''bank_transfer'', ''mobile_money''] (t_method payout)"
    and "released payout" and "json_truthy (t_metadata payout ''ledgerLockId'')"
    and "\<not> finalized payout" and "to_lower (t_status payout) \<noteq> ''settled''" and "usdcAmountFromPayout payout = Inr x"
  shows "settleFiatOfframp sd yc orgId i s = settleLegs sd yc orgId payout x s"
  using assms by (auto simp: settleFiatOfframp_def payout_locked_def finalized_def Let_def)

lemma ex_returned_facts:
  "case releasePayoutLock ex_bank (ex_payout ''p1'') ex_wallet_ready of (r, s) \<Rightarrow>
    balances s ex_account = (100, 0, 0)
    \<and> (case find_row (\<lambda>t. (t_id t, t_org t, t_direction t)) (''p1'', ''acme'', ''payout'') (txns s) of None \<Rightarrow> False
      | Some p \<Rightarrow> List.member [''bank_transfer'', ''mobile_money''] (t_method p) \<and> released p
          \<and> json_truthy (t_metadata p ''ledgerLockId'') \<and> \<not> finalized p \<and> to_lower (t_status p) \<noteq> ''settled''
          \<and> usdcAmountFromPayout p = Inr 30)
    \<and> (case settleFiatOfframp ex_bank ex_provider ''acme'' ''p1'' s of (r', s') \<Rightarrow>
        (''STELLAR'', ''confirmed'') \<in> (\<lambda>st. (s_rail st, s_status st)) ` set (settlements s')
        \<and> balances s' ex_account = (100, 0, 0))"
  by code_simp

lemma released_payout_is_withdrawn_witness:
  "\<exists>payout. released payout \<and>
    (''STELLAR'', ''confirmed'') \<in> (\<lambda>st. (s_rail st, s_status st)) ` set (settlements (snd (settleLegs ex_bank ex_provider ''acme'' payout 30 ex_returned)))"
proof -
  note v = by_run [OF ex_returned_facts, folded ex_returned_def]
  obtain p where p: "find_row (\<lambda>t. (t_id t, t_org t, t_direction t)) (''p1'', ''acme'', ''payout'') (txns ex_returned) = Some p"
    "List.member [''bank_transfer'', ''mobile_money''] (t_method p)" "released p" "json_truthy (t_metadata p ''ledgerLockId'')"
    "\<not> finalized p" "to_lower (t_status p) \<noteq> ''settled''" "usdcAmountFromPayout p = Inr 30"
    using v by (auto split: option.splits)
  have load: "loadPayout ''acme'' ''p1'' ex_returned = (Inr p, ex_returned)" using p(1) by (simp add: loadPayout_def)
  have "isFiatOfframpEnabled ex_bank" by code_simp
  from released_payout_is_withdrawn [OF this load p(2-7), of ex_provider] v p(3) show ?thesis by (auto split: prod.splits)
qed

end
