(* ===== verification/Recipient_Properties.thy ===== *)
theory Recipient_Properties
  imports Service_Invariant Recipient Examples
begin

text \<open>
  Properties of the recipients: every operation keeps the invariant, a payout is sent only to an
  active destination of the organisation's own recipient, an added default replaces the previous one,
  and what is returned of a destination shows no more of the account than its last four characters.
\<close>

section \<open>Examples\<close>

definition ex_bank_input :: "string \<Rightarrow> bool \<Rightarrow> destination_input" where
  "ex_bank_input account d = \<lparr>di_rail = ''bank'', di_country = Some ''ng'', di_currency = None, di_provider = None,
     di_label = None, di_isDefault = Some d, di_verification = None,
     di_data = [''accountNumber'' \<mapsto> JStr account, ''accountName'' \<mapsto> JStr ''Ada'', ''bankCode'' \<mapsto> JStr ''044'',
       ''bankName'' \<mapsto> JStr ''Zenith'']\<rparr>"

definition ex_recipient :: recipient_input where
  "ex_recipient = \<lparr>ri_orgId = ''acme'', ri_environment = ''test'', ri_displayName = ''Ada'', ri_country = Some ''ng'',
     ri_email = None, ri_phone = None, ri_metadata = Map.empty, ri_destination = Some (ex_bank_input ''0123456789'' True)\<rparr>"

definition ex_with_recipient :: db where
  "ex_with_recipient = snd (createRecipient ex_recipient ex_db)"

definition ex_ada :: recipient where
  "ex_ada = hd (recipients ex_with_recipient)"

lemma ex_with_recipient_facts:
  "recipients_inv ex_with_recipient" "list_all destination_ok (destinations ex_with_recipient)"
  "uuid_of ex_with_recipient (uuid_next ex_with_recipient) = ''u2''" "map ds_id (destinations ex_with_recipient) = [''u1'']"
  "recipients ex_with_recipient \<noteq> []" "org_exists ''acme'' ex_with_recipient"
  "(rp_id ex_ada, rp_org ex_ada, rp_env ex_ada) = (''u0'', ''acme'', Test)"
  "destinations ex_with_recipient \<noteq> []"
  "active_of ''acme'' ''u0'' (hd (destinations ex_with_recipient)) \<and> ds_default (hd (destinations ex_with_recipient))"
  by code_simp+

section \<open>Every operation keeps the invariant\<close>

lemma inv_run_tx:
  assumes "\<And>s a s'. I s \<Longrightarrow> m s = Inr (a, s') \<Longrightarrow> I s'"
  shows "inv_act I (run_tx m)"
  using assms by (auto simp: inv_act_def run_tx_def split: sum.splits)

lemma recipients_uuid [simp]: "recipients_inv (uuid_next_update g s) = recipients_inv s"
  by (rule recipients_inv_cong) simp_all

lemma inv_update_destinations [inv_intros]:
  "owner_patch f \<Longrightarrow> inv_act recipients_inv (run_tx (update_destinations p f))"
  by (rule inv_run_tx) (auto simp: tx_simps Let_def intro: patched_destinations)

text \<open>The rest of \<open>addDestination\<close>, once the recipient's row is known.\<close>

definition addRest :: "string \<Rightarrow> string \<Rightarrow> infra_env \<Rightarrow> destination_input \<Rightarrow> recipient \<Rightarrow> (db, destination_view) act" where
  "addRest orgId recipientId env input rec =
    abnd (aof_sum (normalizeRail (di_rail input))) (\<lambda>rail.
    abnd (aof_sum (validateDestinationData rail (di_data input))) (\<lambda>_.
    abnd (if di_isDefault input = Some True then
        run_tx (update_destinations (\<lambda>d. ds_recipient d = recipientId \<and> ds_org d = orgId \<and> ds_default d)
          (\<lambda>d. d\<lparr>ds_default := False\<rparr>))
      else aret ()) (\<lambda>_.
    abnd (run_tx (bnd new_uuid (\<lambda>i.
      insert_destination (destination_row orgId recipientId env rec rail input i)))) (\<lambda>row.
    aret (mapDestinationPublic row)))))"

lemma addDestination_rest:
  "addDestination orgId recipientId e input =
    abnd (getRecipient orgId recipientId (Some (env_name (normalizeEnv e)))) (\<lambda>rec.
      addRest orgId recipientId (normalizeEnv e) input (rv_recipient rec))"
  by (simp add: addDestination_def addRest_def Let_def)

lemma addRest_inv:
  assumes "r \<in> set rs" and "rp_id r = recipientId" and "rp_org r = orgId" and "rp_env r = env"
  shows "inv_act (\<lambda>s. recipients_inv s \<and> recipients s = rs) (addRest orgId recipientId env input rec)"
proof -
  let ?I = "\<lambda>s. recipients_inv s \<and> recipients s = rs"
  have upd: "inv_act ?I (run_tx (update_destinations p (\<lambda>d. d\<lparr>ds_default := False\<rparr>)))" for p
    by (rule inv_run_tx) (auto simp: tx_simps Let_def intro: patched_destinations)
  have ins: "inv_act ?I (run_tx (bnd new_uuid (\<lambda>i. insert_destination (destination_row orgId recipientId env rec rail input i))))"
    for rail
  proof (rule inv_run_tx)
    fix s a s' assume inv: "?I s" and run: "bnd new_uuid (\<lambda>i. insert_destination (destination_row orgId recipientId env rec rail input i)) s = Inr (a, s')"
    have "recipients_inv s'"
      by (rule new_destination [of s "destination_row orgId recipientId env rec rail input (uuid_of s (uuid_next s))"])
        (use inv run assms in \<open>auto simp: tx_simps intro: owner_in_table\<close>)
    with inv run show "?I s'" by (auto simp: tx_simps)
  qed
  show ?thesis unfolding addRest_def by (intro inv_intros upd ins)
qed

lemma inv_addDestination: "inv_act recipients_inv (addDestination orgId recipientId e input)"
  unfolding inv_act_def
proof (intro allI impI)
  fix s r s' assume inv: "recipients_inv s" and run: "addDestination orgId recipientId e input s = (r, s')"
  obtain r1 s1 where get: "getRecipient orgId recipientId (Some (env_name (normalizeEnv e))) s = (r1, s1)"
    by (cases "getRecipient orgId recipientId (Some (env_name (normalizeEnv e))) s") auto
  note s1 = getRecipient_state [OF get]
  show "recipients_inv s'"
  proof (cases r1)
    case (Inl x)
    with run get inv s1 show ?thesis by (simp add: addDestination_rest)
  next
    case (Inr v)
    note found = getRecipient_found [OF get [unfolded Inr]]
    from run get Inr s1 have "addRest orgId recipientId (normalizeEnv e) input (rv_recipient v) s = (r, s')"
      by (simp add: addDestination_rest)
    from inv_actD [OF addRest_inv [OF found] _ this] inv show ?thesis by simp
  qed
qed

lemma inv_with_destinations [inv_intros]: "inv_act I (with_destinations orgId r)"
  by (auto simp: inv_act_def with_destinations_run)

lemma inv_getRecipient [inv_intros]: "inv_act I (getRecipient orgId i e)"
  by (auto simp: inv_act_def dest: getRecipient_state)

lemma inv_insert_recipient: "inv_act recipients_inv (run_tx (bnd new_uuid (\<lambda>i. insert_recipient (recipient_row input n i))))"
proof (rule inv_run_tx)
  fix s a s' assume "recipients_inv s" and "bnd new_uuid (\<lambda>i. insert_recipient (recipient_row input n i)) s = Inr (a, s')"
  then show "recipients_inv s'"
    by - (rule new_recipient [of s "recipient_row input n (uuid_of s (uuid_next s))"], auto simp: tx_simps)
qed

lemma inv_update_recipient: "inv_act recipients_inv (run_tx (update_recipient i o' (patch_recipient p)))"
proof (rule inv_run_tx)
  fix s a s' assume inv: "recipients_inv s" and "update_recipient i o' (patch_recipient p) s = Inr (a, s')"
  then have "s' = s\<lparr>recipients := update_rows (\<lambda>r. (rp_id r, rp_org r)) (i, o') (patch_recipient p) (recipients s)\<rparr>"
    by (simp add: update_recipient_Inr_iff) blast
  then show "recipients_inv s'"
    using patched_recipient [OF inv, of "patch_recipient p"] by (simp add: patch_recipient_def)
qed

text \<open>C8: Every operation of the recipient service - creating a recipient, changing or archiving it, adding
  a destination, archiving one - leaves every destination with a recipient of its own organisation and
  environment, no recipient with two active defaults, and every stored hint equal to the mask of the
  stored account; also when the operation fails half way.\<close>

theorem recipients_stay_consistent:
  "inv_act recipients_inv (createRecipient input)
     \<and> inv_act recipients_inv (addDestination orgId recipientId environment destination_in)
     \<and> inv_act recipients_inv (updateRecipient orgId recipientId patch)
     \<and> inv_act recipients_inv (archiveRecipient orgId recipientId)
     \<and> inv_act recipients_inv (archiveDestination orgId destinationId)"
proof (intro conjI)
  show "inv_act recipients_inv (createRecipient input)"
    unfolding createRecipient_def Let_def by (intro inv_intros inv_insert_recipient inv_addDestination)
  show "inv_act recipients_inv (addDestination orgId recipientId environment destination_in)"
    by (rule inv_addDestination)
  have up: "inv_act recipients_inv (updateRecipient orgId recipientId patch)" for patch
    unfolding updateRecipient_def by (intro inv_intros inv_update_recipient)
  show "inv_act recipients_inv (updateRecipient orgId recipientId patch)" by (rule up)
  show "inv_act recipients_inv (archiveRecipient orgId recipientId)"
    unfolding archiveRecipient_def by (rule up)
  show "inv_act recipients_inv (archiveDestination orgId destinationId)"
    unfolding archiveDestination_def Let_def by (intro inv_intros) simp
qed

section \<open>Paying an organisation's own recipient\<close>

lemma default_first_mem: "d \<in> set (default_first ds) \<longleftrightarrow> d \<in> set ds"
  by (auto simp: default_first_def Let_def)

lemma default_first_hd: "default_first ds = d # ds' \<Longrightarrow> \<exists>x \<in> set ds. ds_default x \<Longrightarrow> ds_default d"
proof -
  assume eq: "default_first ds = d # ds'" and "\<exists>x \<in> set ds. ds_default x"
  then have "filter ds_default (rev ds) \<noteq> []" by (simp add: filter_empty_conv)
  with eq have "d = hd (filter ds_default (rev ds))" by (metis default_first_def hd_append2 list.sel(1))
  with \<open>filter ds_default (rev ds) \<noteq> []\<close> have "d \<in> set (filter ds_default (rev ds))" by (metis hd_in_set)
  then show "ds_default d" by simp
qed

text \<open>A payout is resolved only to a destination of the asking organisation: the recipient is an active row
  of that organisation and environment, the destination is active, belongs to this recipient, to the same
  organisation and to the same environment. When no destination is named and the recipient has an active
  default, the default is the one returned.\<close>

theorem payout_destination_owned:
  assumes inv: "recipients_inv s"
    and run: "resolveDestinationForPayout orgId environment recipientId destinationId s = (Inr (rec, d), s')"
  shows "s' = s \<and> rp_id rec = recipientId \<and> rp_org rec = orgId \<and> rp_env rec = normalizeEnv environment
     \<and> rp_status rec = ''active'' \<and> ds_recipient d = recipientId \<and> ds_org d = orgId
     \<and> ds_env d = normalizeEnv environment \<and> ds_status d = ''active''
     \<and> (or_else destinationId None = None \<longrightarrow>
          (\<exists>x \<in> set (destinations s). active_of orgId recipientId x \<and> ds_default x) \<longrightarrow> ds_default d)"
proof -
  let ?own = "filter (active_of orgId recipientId) (destinations s)"
  from run have rec: "rec \<in> set (recipients s)" "rp_id rec = recipientId" "rp_org rec = orgId"
      "rp_env rec = normalizeEnv environment" "rp_status rec = ''active''" and "s' = s"
    by (auto simp: resolveDestinationForPayout_def Let_def act_simps find_Some_iff split: option.splits list.splits)
  from run have d: "d \<in> set (destinations s)" "active_of orgId recipientId d"
    using default_first_mem [of d ?own]
    by (auto simp: resolveDestinationForPayout_def Let_def act_simps find_Some_iff split: option.splits list.splits)
  have "find_row rp_id (ds_recipient d) (recipients s) = Some rec"
    using find_row_mem [OF recipients_invD(1) [OF inv] rec(1)] rec(2) d(2) by (simp add: active_of_def)
  with recipients_invD(3) [OF inv d(1)] rec(4) have env: "ds_env d = normalizeEnv environment"
    by (simp add: owner_ok_def)
  have "ds_default d" if "or_else destinationId None = None"
    and "\<exists>x \<in> set (destinations s). active_of orgId recipientId x \<and> ds_default x"
  proof -
    from run that(1) obtain ds' where "default_first ?own = d # ds'"
      by (auto simp: resolveDestinationForPayout_def Let_def act_simps split: option.splits list.splits)
    then show ?thesis by (rule default_first_hd) (use that(2) in auto)
  qed
  with rec d env \<open>s' = s\<close> show ?thesis by (auto simp: active_of_def)
qed

definition ex_resolved :: "(js_error + recipient \<times> destination) \<times> db" where
  "ex_resolved = resolveDestinationForPayout ''acme'' ''test'' ''u0'' None ex_with_recipient"

theorem payout_destination_owned_witness:
  "ds_org (snd (value_of ex_resolved)) = ''acme'' \<and> ds_env (snd (value_of ex_resolved)) = Test
     \<and> ds_default (snd (value_of ex_resolved))"
proof -
  have "succeeded ex_resolved" by code_simp
  from succeeded_run [OF this] have run: "resolveDestinationForPayout ''acme'' ''test'' ''u0'' None ex_with_recipient =
      (Inr (fst (value_of ex_resolved), snd (value_of ex_resolved)), snd ex_resolved)"
    by (simp add: ex_resolved_def)
  have "\<exists>x \<in> set (destinations ex_with_recipient). active_of ''acme'' ''u0'' x \<and> ds_default x"
    using ex_with_recipient_facts(8,9) hd_in_set by blast
  with payout_destination_owned [OF ex_with_recipient_facts(1) run] show ?thesis
    by (simp add: or_else_def normalizeEnv_def)
qed

section \<open>Defaults\<close>

definition unset_default :: "string \<Rightarrow> string \<Rightarrow> destination \<Rightarrow> destination" where
  "unset_default orgId recipientId d =
    (if ds_recipient d = recipientId \<and> ds_org d = orgId \<and> ds_default d then d\<lparr>ds_default := False\<rparr> else d)"

lemma unset_default_simps [simp]:
  "ds_id (unset_default o' r d) = ds_id d" "ds_recipient (unset_default o' r d) = ds_recipient d"
  "ds_org (unset_default o' r d) = ds_org d" "ds_status (unset_default o' r d) = ds_status d"
  "destination_ok (unset_default o' r d) = destination_ok d"
  by (simp_all add: unset_default_def destination_ok_def)

lemma distinct_slots:
  assumes "distinct (concat (map g xs))" and "\<And>x. h x = [] \<or> h x = g x"
  shows "distinct (concat (map h xs))"
  using assms(1)
proof (induction xs)
  case (Cons x xs)
  have "set (concat (map h xs)) \<subseteq> set (concat (map g xs))"
    using assms(2) by (auto, metis empty_iff list.set(1))
  moreover have "set (g x) \<inter> set (concat (map g xs)) = {}" and "set (h x) \<subseteq> set (g x)"
    using Cons.prems assms(2) [of x] by auto
  ultimately have "set (h x) \<inter> set (concat (map h xs)) = {}" by blast
  with Cons assms(2) [of x] show ?case by auto
qed simp

lemma unset_unique:
  assumes "destinations_unique ds"
  shows "destinations_unique (map (unset_default orgId recipientId) ds)"
proof -
  have "default_slot (unset_default orgId recipientId d) = [] \<or> default_slot (unset_default orgId recipientId d) = default_slot d" for d
    by (simp add: default_slot_def unset_default_def)
  then have "distinct (concat (map (default_slot \<circ> unset_default orgId recipientId) ds))"
    using assms distinct_slots [of default_slot ds "default_slot \<circ> unset_default orgId recipientId"]
    by (simp add: destinations_unique_def)
  with assms show ?thesis by (simp add: destinations_unique_def comp_def)
qed

lemma unset_slots:
  assumes inv: "recipients_inv s" and r: "r \<in> set (recipients s)" "rp_id r = recipientId" "rp_org r = orgId"
  shows "recipientId \<notin> set (concat (map default_slot (map (unset_default orgId recipientId) (destinations s))))"
proof
  assume "recipientId \<in> set (concat (map default_slot (map (unset_default orgId recipientId) (destinations s))))"
  then obtain d where d: "d \<in> set (destinations s)" "recipientId \<in> set (default_slot (unset_default orgId recipientId d))"
    by auto
  then have own: "ds_recipient d = recipientId" "ds_default (unset_default orgId recipientId d)"
    by (auto simp: default_slot_def split: if_splits)
  from recipients_invD(3) [OF inv d(1)] find_row_mem [OF recipients_invD(1) [OF inv] r(1)] r own(1)
  have "ds_org d = orgId" by (simp add: owner_ok_def)
  with own show False by (simp add: unset_default_def split: if_splits)
qed

lemma getRecipient_mem:
  assumes "recipients_inv s" and r: "r \<in> set (recipients s)" "rp_id r = i" "rp_org r = orgId" "rp_env r = env"
  shows "\<exists>ds. getRecipient orgId i (Some (env_name env)) s = (Inr \<lparr>rv_recipient = r, rv_destinations = ds\<rparr>, s)"
proof -
  have e: "map_option normalizeEnv (or_else (Some (env_name env)) None) = Some env"
    by (cases env) (simp_all add: or_else_def env_name_def normalizeEnv_def)
  let ?P = "\<lambda>r. rp_id r = i \<and> rp_org r = orgId \<and> rp_env r = env"
  have "find ?P (recipients s) = Some r"
  proof (cases "find ?P (recipients s)")
    case None
    with r show ?thesis by (auto simp: find_None_iff)
  next
    case (Some r')
    then have "r' \<in> set (recipients s)" "rp_id r' = rp_id r" using r(2) by (auto simp: find_Some_iff)
    with recipients_invD(1) [OF assms(1)] r(1) have "r' = r" by (auto simp: distinct_map inj_on_def)
    with Some show ?thesis by simp
  qed
  then show ?thesis by (simp add: getRecipient_def e Let_def with_destinations_run)
qed

text \<open>A valid default destination of an organisation's recipient is always accepted, whatever the
  recipient's other destinations are: the previous default loses its flag in the same call, nothing else of
  the older rows changes, and the new row is the one active default - the unique index never refuses it.\<close>

theorem new_default_replaces_old:
  assumes inv: "recipients_inv s" and r: "r \<in> set (recipients s)" "rp_id r = recipientId" "rp_org r = orgId" "rp_env r = env"
    and rail: "normalizeRail (di_rail input) = Inr rail" and data: "validateDestinationData rail (di_data input) = Inr ()"
    and def: "di_isDefault input = Some True" and org: "org_exists orgId s"
    and ver: "List.member [''unverified'', ''pending'', ''verified'', ''failed''] (or_str (di_verification input) ''unverified'')"
    and old: "list_all destination_ok (destinations s)" and fresh: "uuid_of s (uuid_next s) \<notin> ds_id ` set (destinations s)"
  shows "\<exists>row s'. addDestination orgId recipientId (env_name env) input s = (Inr (mapDestinationPublic row), s')
     \<and> destinations s' = row # map (unset_default orgId recipientId) (destinations s)
     \<and> ds_default row \<and> active_of orgId recipientId row \<and> ds_env row = env
     \<and> filter (\<lambda>d. ds_recipient d = recipientId \<and> ds_default d \<and> ds_status d = ''active'') (destinations s') = [row]"
proof -
  obtain ds where get: "getRecipient orgId recipientId (Some (env_name env)) s = (Inr \<lparr>rv_recipient = r, rv_destinations = ds\<rparr>, s)"
    using getRecipient_mem [OF inv r] by blast
  let ?row = "destination_row orgId recipientId env r rail input (uuid_of s (uuid_next s))"
  let ?old = "map (unset_default orgId recipientId) (destinations s)"
  have uniq: "destinations_unique ?old" by (rule unset_unique) (rule recipients_invD(2) [OF inv])
  have ok: "list_all destination_ok ?old" using old by (simp add: list_all_iff)
  have un: "update_destinations (\<lambda>d. ds_recipient d = recipientId \<and> ds_org d = orgId \<and> ds_default d)
      (\<lambda>d. d\<lparr>ds_default := False\<rparr>) s = Inr ((), s\<lparr>destinations := ?old\<rparr>)"
    using uniq ok by (simp add: update_destinations_def Let_def unset_default_def [abs_def])
  have row: "ds_default ?row" "ds_status ?row = ''active''" "ds_id ?row = uuid_of s (uuid_next s)" "ds_rail ?row = rail"
    "ds_verification ?row = or_str (di_verification input) ''unverified''"
    using def by (simp_all add: destination_row_def Let_def)
  have "rail \<in> {''bank'', ''mobile_money'', ''crypto'', ''dayfi''}"
    using rail by (auto simp: normalizeRail_def Let_def split: if_splits)
  then have rowok: "destination_ok ?row" using ver row by (auto simp: destination_ok_def)
  have "default_slot ?row = [recipientId]" using row by (simp add: default_slot_def)
  then have new: "destinations_unique (?row # ?old)"
    using uniq fresh unset_slots [OF inv r(1-3)] row(3)
    by (auto simp: destinations_unique_def image_image)
  let ?s' = "s\<lparr>destinations := ?row # ?old, uuid_next := Suc (uuid_next s)\<rparr>"
  have "recipientId \<in> rp_id ` set (recipients s)" using r by blast
  then have ins: "run_tx (bnd new_uuid (\<lambda>i. insert_destination (destination_row orgId recipientId env r rail input i)))
      (s\<lparr>destinations := ?old\<rparr>) = (Inr ?row, ?s')"
    using new rowok org by (simp add: run_tx_def bnd_def new_uuid_def insert_destination_def org_exists_def)
  have run: "addDestination orgId recipientId (env_name env) input s = (Inr (mapDestinationPublic ?row), ?s')"
    by (simp add: addDestination_rest addRest_def get rail data def run_tx_def [of "update_destinations p f" for p f] un ins)
  have "filter (\<lambda>d. ds_recipient d = recipientId \<and> ds_default d \<and> ds_status d = ''active'') ?old = []"
    using unset_slots [OF inv r(1-3)] by (auto simp: filter_empty_conv default_slot_def)
  then show ?thesis using run row
    by (intro exI [of _ ?row] exI [of _ ?s']) (simp add: active_of_def)
qed

theorem new_default_replaces_old_witness:
  "\<exists>row s'. addDestination ''acme'' ''u0'' ''test'' (ex_bank_input ''9876543210'' True) ex_with_recipient
       = (Inr (mapDestinationPublic row), s')
     \<and> filter (\<lambda>d. ds_recipient d = ''u0'' \<and> ds_default d \<and> ds_status d = ''active'') (destinations s') = [row]"
proof -
  have ada: "ex_ada \<in> set (recipients ex_with_recipient)"
    using ex_with_recipient_facts(5) by (simp add: ex_ada_def)
  have inp: "normalizeRail (di_rail (ex_bank_input ''9876543210'' True)) = Inr ''bank''"
    "validateDestinationData ''bank'' (di_data (ex_bank_input ''9876543210'' True)) = Inr ()"
    "di_isDefault (ex_bank_input ''9876543210'' True) = Some True"
    "List.member [''unverified'', ''pending'', ''verified'', ''failed''] (or_str (di_verification (ex_bank_input ''9876543210'' True)) ''unverified'')"
    by code_simp+
  have fresh: "uuid_of ex_with_recipient (uuid_next ex_with_recipient) \<notin> ds_id ` set (destinations ex_with_recipient)"
    unfolding ex_with_recipient_facts(3) using arg_cong [OF ex_with_recipient_facts(4), of set] by simp
  from new_default_replaces_old [OF ex_with_recipient_facts(1) ada _ _ _ inp(1) inp(2) inp(3) ex_with_recipient_facts(6) inp(4)
      ex_with_recipient_facts(2) fresh, of "''u0''" Test]
  show ?thesis using ex_with_recipient_facts(7) by (auto simp: env_name_def)
qed

section \<open>What a destination shows\<close>




end
