(* ===== verification/Settlement_Properties.thy ===== *)
theory Settlement_Properties
  imports Settlement_Facts Service_Examples
begin

text \<open>
  Properties of the Stellar settlement of payouts: what an answer means for the ledger, and what
  repeated requests do after a failure.
\<close>

section \<open>Examples\<close>

definition ex_wallet_address :: string where
  "ex_wallet_address = CHR ''G'' # replicate 55 CHR ''W''"

definition ex_crypto :: db where
  "ex_crypto = ex_locked_orders\<lparr>txns := map (\<lambda>t. if t_id t = ''p1'' then t\<lparr>t_method := ''crypto'',
     t_metadata := (t_metadata t)(''recipient'' \<mapsto> JObj [(''walletAddress'', JStr ex_wallet_address)])\<rparr> else t) (txns ex_locked_orders)\<rparr>"

definition ex_crypto_row :: txn where
  "ex_crypto_row = the (find_row (\<lambda>t. (t_id t, t_org t, t_direction t)) (''p1'', ''acme'', ''payout'') (txns ex_crypto))"


definition ex_st :: "string \<Rightarrow> string option \<Rightarrow> string option \<Rightarrow> string \<Rightarrow> settlement" where
  "ex_st status payout collection key = \<lparr>s_id = ''s1'', s_org = ''acme'', s_env = Test, s_payout_tx = payout,
     s_collection_tx = collection, s_rail = ''STELLAR'', s_asset = ''USDC'', s_amount = 25, s_source = None,
     s_destination = None, s_status = status, s_external = Some ''hash'', s_provider = None, s_metadata = Map.empty,
     s_failure = None, s_key = key\<rparr>"

definition ex_half_confirmed :: db where
  "ex_half_confirmed = ex_crypto\<lparr>settlements := [ex_st ''confirmed'' (Some ''p1'') None (stellarPayoutKey ''p1'')]\<rparr>"

definition ex_funding_sent :: db where
  "ex_funding_sent = ex_orders\<lparr>settlements := [ex_st ''submitted'' None (Some ''c1'') (fundingKey ''c1'')]\<rparr>"

text \<open>A process that cannot reach the network, so that the submission fails.\<close>

definition ex_offline :: sdk where
  "ex_offline = ex_sdk [(''DAYFI_STELLAR_SETTLEMENT_MODE'', ''live'')]"

definition ex_crypto_failed :: db where
  "ex_crypto_failed = snd (settlePayoutOnStellar ex_offline ''acme'' ''p1'' None ex_crypto)"


section \<open>A settlement that is answered\<close>


lemma reads_checked [inv_intros, simp]: "inv_act I (checkedDestination sd o' row)"
  unfolding checkedDestination_def getOrgStellarAccount_def loadAccount_def by (intro inv_intros)

lemma read_only: "inv_act (\<lambda>x. x = s) m \<Longrightarrow> m s = (r, s') \<Longrightarrow> s' = s"
  using inv_actD [of "\<lambda>x. x = s" m s r s'] by simp


lemma checked_state: "checkedDestination sd o' row s = (r, s') \<Longrightarrow> s' = s"
  by (rule read_only [where m = "checkedDestination sd o' row"], rule reads_checked)










section \<open>Requests after a failure\<close>

text \<open>A debit that failed is not retried. \<open>confirmAndFinalize\<close> marks the settlement confirmed before it posts
  the debit, so an error in between leaves a confirmed settlement and a locked payout. Every later request
  for that payout is answered as settled at once - the reply is confirmed and not pending - while no ledger
  movement is posted, no balance changes and the payout's row stays as it was: the lock is never consumed.\<close>

theorem confirmed_settlement_skips_debit:
  assumes load: "loadCryptoPayout orgId i s = (Inr row, s)" and row: "t_method row = ''crypto''" "lockProof (t_metadata row)"
    "\<not> json_truthy (t_metadata row ''fundsFinalized'')"
    and found: "settlement_by_key orgId (stellarPayoutKey (t_id row)) s = (Inr (Some st), s)" "s_status st = ''confirmed''"
    and run: "settlePayoutOnStellar sd orgId i secret s = (Inr r, s')"
  shows "s' = s \<and> \<not> sl_pending r \<and> sw_status (sl_settlement r) = ''confirmed'' \<and> sl_payoutId r = Some (t_id row)"
proof -
  from run load row have "abnd (checkedDestination sd orgId row) (\<lambda>(destination, network).
      if settlementAmount row \<le> 0 then athrow (InfraSettlementError ''INVALID_AMOUNT'' 400)
      else abnd (settlement_by_key orgId (stellarPayoutKey (t_id row))) (\<lambda>found.
        settleRow sd orgId row (settlementAmount row) destination network secret found)) s = (Inr r, s')"
    by (simp add: settlePayoutOnStellar_def Let_def)
  then obtain dn s1 where chk: "checkedDestination sd orgId row s = (Inr dn, s1)"
    and rest: "(case dn of (destination, network) \<Rightarrow>
      if settlementAmount row \<le> 0 then athrow (InfraSettlementError ''INVALID_AMOUNT'' 400)
      else abnd (settlement_by_key orgId (stellarPayoutKey (t_id row))) (\<lambda>found.
        settleRow sd orgId row (settlementAmount row) destination network secret found)) s1 = (Inr r, s')"
    by (elim abndE)
  have s1: "s1 = s" by (rule checked_state [OF chk])
  obtain d n where dn: "dn = (d, n)" by (cases dn)
  from rest s1 dn found(1) have "settleRow sd orgId row (settlementAmount row) d n secret (Some st) s = (Inr r, s')"
    by (simp split: if_splits)
  with found(2) show ?thesis by (auto simp: settleRow_def Let_def mapSettlement_def)
qed

definition ex_skipped :: "(js_error + settle_reply) \<times> db" where
  "ex_skipped = settlePayoutOnStellar (ex_sdk []) ''acme'' ''p1'' None ex_half_confirmed"

theorem confirmed_settlement_skips_debit_witness:
  "snd ex_skipped = ex_half_confirmed \<and> finalize_key ''p1'' \<notin> m_key ` set (movements (snd ex_skipped))"
proof -
  have "succeeded ex_skipped" by code_simp
  from succeeded_run [OF this] have run: "settlePayoutOnStellar (ex_sdk []) ''acme'' ''p1'' None ex_half_confirmed =
      (Inr (value_of ex_skipped), snd ex_skipped)" by (simp add: ex_skipped_def)
  have none: "list_all (\<lambda>m. m_key m \<noteq> finalize_key ''p1'') (movements ex_half_confirmed)" by code_simp
  let ?find = "find_row (\<lambda>t. (t_id t, t_org t, t_direction t)) (''p1'', ''acme'', ''payout'') (txns ex_crypto)"
  have row: "(case ?find of None \<Rightarrow> False | Some t \<Rightarrow> t_id t = ''p1'' \<and> t_method t = ''crypto'' \<and> lockProof (t_metadata t)
      \<and> \<not> json_truthy (t_metadata t ''fundsFinalized''))" by code_simp
  then have "?find = Some ex_crypto_row" by (simp add: ex_crypto_row_def split: option.splits)
  with row have load: "loadCryptoPayout ''acme'' ''p1'' ex_half_confirmed = (Inr ex_crypto_row, ex_half_confirmed)"
    and facts: "t_id ex_crypto_row = ''p1''" "t_method ex_crypto_row = ''crypto''" "lockProof (t_metadata ex_crypto_row)"
      "\<not> json_truthy (t_metadata ex_crypto_row ''fundsFinalized'')"
    by (simp_all add: loadCryptoPayout_def ex_half_confirmed_def)
  have key: "settlement_by_key ''acme'' (stellarPayoutKey (t_id ex_crypto_row)) ex_half_confirmed =
      (Inr (Some (ex_st ''confirmed'' (Some ''p1'') None (stellarPayoutKey ''p1''))), ex_half_confirmed)"
    by (simp add: settlement_by_key_def ex_half_confirmed_def ex_st_def facts(1))
  from confirmed_settlement_skips_debit [OF load facts(2-4) key _ run] have "snd ex_skipped = ex_half_confirmed"
    by (simp add: ex_st_def)
  with none show ?thesis by (auto simp: list_all_iff)
qed

lemma confirm_slots: "s_status st = ''submitted'' \<Longrightarrow> settlement_slots (confirm_row sd h l st) = settlement_slots st"
  by (simp add: settlement_slots_def settlement_live_def confirm_row_def split: option.split)

lemma confirm_row_keeps [simp]:
  "s_id (confirm_row sd h l st) = s_id st" "s_org (confirm_row sd h l st) = s_org st" "s_key (confirm_row sd h l st) = s_key st"
  "s_status (confirm_row sd h l st) = ''confirmed''"
  by (simp_all add: confirm_row_def)

lemma confirm_commits:
  assumes uniq: "settlements_unique (settlements s)" and ok: "list_all settlement_ok (settlements s)"
    and st: "st \<in> set (settlements s)" "s_status st = ''submitted''"
  shows "sql_settlement (s_id st) (confirm_row sd h l) s =
    (Inr (), s\<lparr>settlements := map (\<lambda>x. if s_id x = s_id st then confirm_row sd h l x else x) (settlements s)\<rparr>)"
proof -
  let ?g = "\<lambda>x. if s_id x = s_id st then confirm_row sd h l x else x"
  have only: "x = st" if "x \<in> set (settlements s)" "s_id x = s_id st" for x
    using uniq st(1) that by (auto simp: settlements_unique_def distinct_map inj_on_def)
  have slots: "settlement_slots (?g x) = settlement_slots x" if "x \<in> set (settlements s)" for x
    using only [OF that] st(2) by (auto simp: confirm_slots)
  have "map s_id (map ?g (settlements s)) = map s_id (settlements s)"
    "map (\<lambda>x. (s_org x, s_key x)) (map ?g (settlements s)) = map (\<lambda>x. (s_org x, s_key x)) (settlements s)"
    "map settlement_slots (map ?g (settlements s)) = map settlement_slots (settlements s)"
    using slots by simp_all
  then have "settlements_unique (map ?g (settlements s))" using uniq unfolding settlements_unique_def by metis
  moreover have "list_all settlement_ok (map ?g (settlements s))"
    using ok by (auto simp: list_all_iff settlement_ok_def confirm_row_def settlement_statuses_def)
  ultimately show ?thesis
    by (simp add: sql_settlement_def run_tx_def update_settlements_def)
qed

text \<open>The confirmation of settlements takes any Stellar settlement for a payout's. Asked to confirm the
  settlement that funds a collection's wallet, it marks the row confirmed and then fails because there is no
  payout; nothing moves on the ledger. The funding of that collection then answers "confirmed" to every
  later request without touching the state, so the collection's USDC stays pending for good.\<close>

theorem confirming_a_collection_strands_it:
  assumes rows: "settlements_unique (settlements s)" "list_all settlement_ok (settlements s)"
    and st: "st \<in> set (settlements s)" "s_status st = ''submitted''" "s_rail st = ''STELLAR''" "s_payout_tx st = None"
      "s_external st = Some hash" "hash \<noteq> []" "s_key st = fundingKey (fu_collection input)" "s_org st = fu_orgId input"
    and chain: "verifyUsdcPayment sd hash = Inr v" "ve_confirmed v"
    and mode: "getInfraStellarFundingMode sd \<noteq> ''off''" "0 < round7 (fu_usdcAmount input)"
  shows "\<exists>s'. confirmStellarSettlement sd (s_org st) (s_id st) s = (Inl (JsError ''Payout not found''), s')
     \<and> settled_as (s_id st) ''confirmed'' s' \<and> movements s' = movements s \<and> wallets s' = wallets s \<and> txns s' = txns s
     \<and> (\<exists>reply. fundCollectionStellarWallet sd input s' = (Inr reply, s') \<and> cf_status reply = ''confirmed'')"
proof -
  let ?g = "\<lambda>x. if s_id x = s_id st then confirm_row sd (Some hash) (ve_ledger v) x else x"
  let ?s' = "s\<lparr>settlements := map ?g (settlements s)\<rparr>"
  have ids: "distinct (map s_id (settlements s))" and keys: "distinct (map (\<lambda>x. (s_org x, s_key x)) (settlements s))"
    using rows(1) by (simp_all add: settlements_unique_def)
  have "distinct (map (\<lambda>x. (s_id x, s_org x)) (settlements s))"
    using ids by (auto simp: distinct_map inj_on_def)
  then have "find_row (\<lambda>x. (s_id x, s_org x)) (s_id st, s_org st) (settlements s) = Some st"
    using find_row_mem [of "\<lambda>x. (s_id x, s_org x)" "settlements s" st] st(1) by simp
  then have load: "loadSettlement (s_org st) (s_id st) s = (Inr st, s)" by (simp add: loadSettlement_def)
  have run: "confirmStellarSettlement sd (s_org st) (s_id st) s = (Inl (JsError ''Payout not found''), ?s')"
    using load st confirm_commits [OF rows st(1,2), of sd "Some hash" "ve_ledger v"] chain
    by (simp add: confirmStellarSettlement_def or_else_def confirmAndFinalize_def
      finalizeSettled_def)
  have "find_row (\<lambda>x. (s_org x, s_key x)) (s_org st, s_key st) (settlements s) = Some st"
    using find_row_mem [OF keys st(1)] by simp
  moreover have "find_row (\<lambda>x. (s_org x, s_key x)) (s_org st, s_key st) (map ?g (settlements s)) =
      map_option ?g (find_row (\<lambda>x. (s_org x, s_key x)) (s_org st, s_key st) (settlements s))"
    by (rule find_row_map) simp
  ultimately have key: "settlement_by_key (fu_orgId input) (fundingKey (fu_collection input)) ?s' =
      (Inr (Some (confirm_row sd (Some hash) (ve_ledger v) st)), ?s')"
    using st(7,8) by (simp add: settlement_by_key_def)
  have "s_external (confirm_row sd (Some hash) (ve_ledger v) st) = Some hash" by (simp add: confirm_row_def)
  then have "\<exists>reply. fundCollectionStellarWallet sd input ?s' = (Inr reply, ?s') \<and> cf_status reply = ''confirmed''"
    using key mode st(6) by (simp add: fundCollectionStellarWallet_def Let_def or_else_def)
  moreover have "settled_as (s_id st) ''confirmed'' ?s'" by (auto simp: settled_as_def)
  ultimately show ?thesis using run by (intro exI [of _ ?s']) simp
qed

theorem confirming_a_collection_strands_it_witness:
  "\<exists>s'. confirmStellarSettlement (ex_sdk [(''DAYFI_INFRA_STELLAR_FUNDING_MODE'', ''mock'')]) ''acme'' ''s1'' ex_funding_sent
       = (Inl (JsError ''Payout not found''), s') \<and> settled_as ''s1'' ''confirmed'' s'"
proof -
  let ?sd = "ex_sdk [(''DAYFI_INFRA_STELLAR_FUNDING_MODE'', ''mock'')]"
  let ?st = "ex_st ''submitted'' None (Some ''c1'') (fundingKey ''c1'')"
  let ?in = "\<lparr>fu_orgId = ''acme'', fu_environment = ''test'', fu_collection = ''c1'', fu_usdcAmount = 25\<rparr>"
  have rows: "settlements_unique (settlements ex_funding_sent)" "list_all settlement_ok (settlements ex_funding_sent)"
    by code_simp+
  have st: "?st \<in> set (settlements ex_funding_sent)" "s_status ?st = ''submitted''" "s_rail ?st = ''STELLAR''" "s_payout_tx ?st = None"
    "s_external ?st = Some ''hash''" "''hash'' \<noteq> []" "s_key ?st = fundingKey (fu_collection ?in)" "s_org ?st = fu_orgId ?in"
    by (simp_all add: ex_funding_sent_def ex_st_def)
  have chain: "verifyUsdcPayment ?sd ''hash'' = Inr \<lparr>ve_confirmed = True, ve_status = ''SUCCESS'', ve_ledger = Some 1\<rparr>"
    and mode: "getInfraStellarFundingMode ?sd \<noteq> ''off''" and pos: "0 < round7 (fu_usdcAmount ?in)"
    by code_simp+
  have "s_org ?st = ''acme''" "s_id ?st = ''s1''" by (simp_all add: ex_st_def)
  with confirming_a_collection_strands_it [OF rows st chain _ mode pos] show ?thesis by auto
qed

text \<open>
  A submission fails, the lock is returned, the settlement is marked failed; the next request finds the
  identifier of the old lock in the row and pays on Stellar again, before the debit is refused.
\<close>

lemma released_payout_is_paid_on_stellar:
  "case settlePayoutOnStellar (ex_sdk []) ''acme'' ''p1'' None ex_crypto_failed of (r, s) \<Rightarrow>
     (case r of Inl e \<Rightarrow> e = InfraLifecycleError ''PAYOUT_ALREADY_RELEASED'' 409 | Inr v \<Rightarrow> False)
     \<and> map s_status (settlements s) = [''confirmed''] \<and> map s_external (settlements s) \<noteq> [None]
     \<and> balances s ex_account = (100, 0, 0)"
  by code_simp

end
