(* ===== verification/Onchain_Transfer.thy ===== *)
theory Onchain_Transfer
  imports Internal_Transfer Offramp
begin

text \<open>
  \<open>src/src/modules/infra/infraOnchainTransferService.ts\<close>: the internal transfer that is settled on Stellar.
  The sender's USDC and the fee are locked, the fee-bump payment is prepared, stored and submitted, and a
  confirmed payment finalizes the locks and credits the recipient and the revenue organisation. A failure
  returns the locks. \<open>executeOnchainInternalTransfer\<close> is what the internal transfer service calls for the
  mode \<open>STELLAR_ONCHAIN\<close>.
\<close>

section \<open>Checks\<close>

definition walletActive :: "string \<Rightarrow> infra_env \<Rightarrow> string \<Rightarrow> (db, unit) act" where
  "walletActive orgId env code =
    abnd (aquery (\<lambda>s. find_row wallet_key (orgId, env, ''USDC'') (wallets s))) (\<lambda>row. case row of
      None \<Rightarrow> athrow (InfraTransferError code 400)
    | Some w \<Rightarrow> arequire (w_status w = Active) (InfraTransferError code 400))"

definition assertUsdcTrustline :: "sdk \<Rightarrow> string \<Rightarrow> js_error + unit" where
  "assertUsdcTrustline sd publicKey =
    (if getStellarSettlementMode sd = ''mock'' then Inr ()
     else bind_sum (getStellarConfig sd) (\<lambda>cfg.
       case sdk_loadAccount sd (cfg_horizonUrl cfg) publicKey of
         None \<Rightarrow> Inl (InfraTransferError ''MISSING_TRUSTLINE'' 400)
       | Some hbs \<Rightarrow>
           if list_ex (\<lambda>b. hb_code b = Some ''USDC'' \<and> hb_issuer b = Some (resolveUsdcIssuer sd True)) hbs then Inr ()
           else Inl (InfraTransferError ''MISSING_TRUSTLINE'' 400)))"

section \<open>Ledger calls\<close>

definition leg ::
  "string \<Rightarrow> infra_env \<Rightarrow> string \<Rightarrow> string \<Rightarrow> string \<Rightarrow> string \<Rightarrow> string option \<Rightarrow> string option \<Rightarrow> jmap option \<Rightarrow> ledger_params" where
  "leg orgId env amount key movementType referenceType referenceId reference meta =
    \<lparr>p_orgId = orgId, p_environment = env_name env, p_amount = RStr amount, p_asset = None,
     p_idempotencyKey = Some key, p_movementType = Some movementType, p_reference = reference,
     p_referenceType = Some referenceType, p_referenceId = referenceId, p_metadata = meta\<rparr>"

text \<open>A nullable identifier inside a template string\<close>

definition id_text :: "string option \<Rightarrow> string" where
  "id_text i = (case i of Some t \<Rightarrow> t | None \<Rightarrow> ''null'')"

definition leg_key :: "string \<Rightarrow> string \<Rightarrow> string" where
  "leg_key txId part = ''internal_transfer:'' @ txId @ part"

definition releaseLocks :: "string \<Rightarrow> infra_env \<Rightarrow> string \<Rightarrow> string \<Rightarrow> string \<Rightarrow> (db, unit) act" where
  "releaseLocks senderOrgId env transferAmount feeAmount senderTxId =
    abnd (acatch
      (abnd (releaseOrgFunds (leg senderOrgId env transferAmount (leg_key senderTxId '':release'') ''funds_release''
         ''internal_transfer'' (Some senderTxId) None None)) (\<lambda>_. aret ()))
      (\<lambda>_. aret ())) (\<lambda>_.
    abnd (aof_sum (parseUsdcToMinor (RStr feeAmount))) (\<lambda>feeMinor.
    if 0 < feeMinor then
      acatch
        (abnd (releaseOrgFunds (leg senderOrgId env feeAmount (leg_key senderTxId '':fee_release'') ''funds_release''
           ''transaction_fee'' (Some senderTxId) None None)) (\<lambda>_. aret ()))
        (\<lambda>_. aret ())
    else aret ()))"

text \<open>\<open>UPDATE infra_transactions ... WHERE id = ANY(...)\<close>, \<open>UPDATE infra_internal_transfers ... WHERE id = $1\<close>\<close>

definition sql_txns :: "string list \<Rightarrow> (txn \<Rightarrow> txn) \<Rightarrow> (db, unit) act" where
  "sql_txns ids f s = (Inr (), s\<lparr>txns := map (\<lambda>t. if List.member ids (t_id t) then f t else t) (txns s)\<rparr>)"

definition sql_transfer :: "string \<Rightarrow> (transfer \<Rightarrow> transfer) \<Rightarrow> (db, unit) act" where
  "sql_transfer i f s =
    (if list_all (\<lambda>x. x_id x = i \<longrightarrow> transfer_ok (f x)) (transfers s)
     then (Inr (), s\<lparr>transfers := update_rows x_id i f (transfers s)\<rparr>)
     else (Inl CheckViolation, s))"

definition present_ids :: "string option list \<Rightarrow> string list" where
  "present_ids is = concat (map (\<lambda>i. case or_else i None of Some t \<Rightarrow> [t] | None \<Rightarrow> []) is)"

definition failTransfer :: "transfer \<Rightarrow> string \<Rightarrow> string \<Rightarrow> fee_quote \<Rightarrow> string \<Rightarrow> (db, 'a) act" where
  "failTransfer row reason settlementId feeQuote code =
    abnd (sql_settlement settlementId (\<lambda>st. st\<lparr>s_status := ''failed'', s_failure := Some (take 500 reason)\<rparr>)) (\<lambda>_.
    abnd (case or_else (x_sender_tx row) None of
        None \<Rightarrow> aret ()
      | Some senderTxId \<Rightarrow>
          abnd (stored_usdc (x_amount row)) (\<lambda>transferAmount.
          abnd (releaseLocks (x_sender row) (x_env row) transferAmount (q_feeAmountUsdc feeQuote) senderTxId) (\<lambda>_.
          sql_txns (present_ids [x_sender_tx row, x_recipient_tx row]) (\<lambda>t. t\<lparr>t_status := ''failed'',
            t_metadata := t_metadata t ++ [''fundsReleased'' \<mapsto> JBool True, ''failureReason'' \<mapsto> JStr reason]\<rparr>)))) (\<lambda>_.
    abnd (sql_transfer (x_id row) (\<lambda>x. x\<lparr>x_status := ''failed'',
      x_metadata := (x_metadata x)(''failureReason'' \<mapsto> JStr reason)\<rparr>)) (\<lambda>_.
    athrow (InfraTransferError code 502))))"

section \<open>A confirmed payment\<close>

record onchain_payment =
  oc_hash :: string
  oc_source :: string
  oc_destination :: string
  oc_amount :: string
  oc_feePayer :: string
  oc_feeXlm :: "string option"
  oc_feeStroops :: "string option"
  oc_ledger :: "int option"

definition leg_meta :: "transfer \<Rightarrow> string \<Rightarrow> jmap" where
  "leg_meta row hash = [''transferGroupId'' \<mapsto> JStr (x_id row), ''settlementMode'' \<mapsto> JStr ''STELLAR_ONCHAIN'',
     ''stellarTransactionHash'' \<mapsto> JStr hash]"

definition finalizeTransferLeg :: "transfer \<Rightarrow> string \<Rightarrow> string \<Rightarrow> (db, movement \<times> bool) act" where
  "finalizeTransferLeg row transferAmount hash =
    finalizeLockedDebit (leg (x_sender row) (x_env row) transferAmount (leg_key (id_text (x_sender_tx row)) '':finalize'')
      ''internal_transfer_debit'' ''internal_transfer'' (x_sender_tx row) (Some (x_id row)) (Some (leg_meta row hash)))"

definition creditTransferLeg :: "transfer \<Rightarrow> string \<Rightarrow> string \<Rightarrow> (db, movement \<times> bool) act" where
  "creditTransferLeg row transferAmount hash =
    creditOrgWallet (leg (x_recipient row) (x_env row) transferAmount (leg_key (id_text (x_recipient_tx row)) '':credit'')
      ''internal_transfer_credit'' ''internal_transfer'' (x_recipient_tx row) (Some (x_id row)) (Some (leg_meta row hash)))"

text \<open>The fee: its lock is finalized, the revenue organisation is credited, the fee row is written or updated.\<close>

definition fee_meta :: "transfer \<Rightarrow> jmap" where
  "fee_meta row = [''transferGroupId'' \<mapsto> JStr (x_id row), ''feeType'' \<mapsto> JStr ''DAYFI_TRANSACTION_FEE'']"

definition feeKey :: "transfer \<Rightarrow> string" where
  "feeKey row = ''transfer:'' @ or_str (x_key row) (x_id row) @ '':fee''"

definition network_meta :: "onchain_payment \<Rightarrow> jmap" where
  "network_meta p = [''actualNetworkFeeStroops'' \<mapsto> opt_json (oc_feeStroops p), ''feePayerPublicKey'' \<mapsto> JStr (oc_feePayer p),
     ''customerFeeIsNotNetworkFee'' \<mapsto> JBool True]"

definition onchain_fee_row :: "transfer \<Rightarrow> onchain_payment \<Rightarrow> fee_quote \<Rightarrow> string \<Rightarrow> string \<Rightarrow> string \<Rightarrow> fee" where
  "onchain_fee_row row p feeQuote transferAmount revenueOrgId i =
    \<lparr>f_id = i, f_org = x_sender row, f_env = x_env row, f_transfer_group = x_id row,
     f_transaction = id_text (x_sender_tx row), f_amount = numeric_param (q_feeAmountUsdc feeQuote),
     f_transfer_amount = numeric_param transferAmount,
     f_customer_debit = numeric_param (q_customerDebitAmount feeQuote),
     f_actual_network_fee = map_option numeric_param (oc_feeXlm p),
     f_revenue_amount = numeric_param (q_feeAmountUsdc feeQuote), f_revenue_org = revenueOrgId,
     f_customer_movement = None, f_revenue_movement = None, f_mode = ''STELLAR_ONCHAIN'', f_key = feeKey row,
     f_status = ''recorded'',
     f_metadata = network_meta p ++ [''estimatedNetworkFeeAmount'' \<mapsto> JStr (q_estimatedNetworkFeeAmount feeQuote)]\<rparr>"

definition settleFee :: "transfer \<Rightarrow> onchain_payment \<Rightarrow> fee_quote \<Rightarrow> string \<Rightarrow> string \<Rightarrow> (db, string option) act" where
  "settleFee row p feeQuote transferAmount revenueOrgId =
    (let senderTxId = id_text (x_sender_tx row); feeAmount = q_feeAmountUsdc feeQuote in
     if \<not> q_feeCharged feeQuote then aret (x_fee_id row)
     else
       abnd (finalizeLockedDebit (leg (x_sender row) (x_env row) feeAmount (leg_key senderTxId '':fee_finalize'') ''fee_debit''
         ''transaction_fee'' (x_sender_tx row) (Some (''fee:'' @ x_id row))
         (Some (fee_meta row ++ [''stellarTransactionHash'' \<mapsto> JStr (oc_hash p)])))) (\<lambda>_.
       abnd (creditOrgWallet (leg revenueOrgId (x_env row) feeAmount (leg_key senderTxId '':fee_revenue'') ''fee_revenue''
         ''transaction_fee'' (or_else (x_fee_id row) (x_sender_tx row)) (Some (''fee:'' @ x_id row)) (Some (fee_meta row)))) (\<lambda>_.
       abnd (aquery (\<lambda>s. find_row f_key (feeKey row) (fees s))) (\<lambda>existingFee. case existingFee of
         Some f \<Rightarrow>
           abnd (run_tx (update_fee (f_id f) (\<lambda>x. x\<lparr>f_actual_network_fee := map_option numeric_param (oc_feeXlm p),
             f_status := ''recorded'', f_metadata := f_metadata x ++ network_meta p\<rparr>))) (\<lambda>_.
           aret (Some (f_id f)))
       | None \<Rightarrow>
           abnd (run_tx (bnd new_uuid (\<lambda>i. insert_fee (onchain_fee_row row p feeQuote transferAmount revenueOrgId i)))) (\<lambda>f.
           aret (Some (f_id f)))))))"

definition onchain_confirmed :: "sdk \<Rightarrow> onchain_payment \<Rightarrow> settlement \<Rightarrow> settlement" where
  "onchain_confirmed sd p st =
    st\<lparr>s_status := ''confirmed'', s_external := Some (oc_hash p), s_provider := Some (oc_hash p),
       s_source := Some (oc_source p), s_destination := Some (oc_destination p),
       s_metadata := s_metadata st ++ [''stellar'' \<mapsto> JObj [(''transactionHash'', JStr (oc_hash p)),
           (''ledgerSequence'', case oc_ledger p of Some k \<Rightarrow> JNum (of_int k) | None \<Rightarrow> JNull),
           (''usdcIssuer'', JStr (resolveUsdcIssuer sd True)), (''amount'', JStr (oc_amount p)),
           (''envelopeType'', JStr ''FEE_BUMP'')],
         ''signingSource'' \<mapsto> JStr ''org_wallet'', ''usdcSource'' \<mapsto> JStr (oc_source p),
         ''feePayerPublicKey'' \<mapsto> JStr (oc_feePayer p), ''actualNetworkFeeXlm'' \<mapsto> opt_json (oc_feeXlm p),
         ''actualNetworkFeeStroops'' \<mapsto> opt_json (oc_feeStroops p)]\<rparr>"

definition completed_transfer :: "movement \<Rightarrow> movement \<Rightarrow> string option \<Rightarrow> onchain_payment \<Rightarrow> transfer \<Rightarrow> transfer" where
  "completed_transfer debit credit feeId p x =
    x\<lparr>x_status := ''completed'', x_sender_movement := Some (m_id debit), x_recipient_movement := Some (m_id credit),
      x_fee_id := (case feeId of Some i \<Rightarrow> Some i | None \<Rightarrow> x_fee_id x),
      x_metadata := x_metadata x ++ [''stellarTouched'' \<mapsto> JBool True, ''stellarTransactionHash'' \<mapsto> JStr (oc_hash p),
        ''usdcSource'' \<mapsto> JStr (oc_source p), ''feePayerPublicKey'' \<mapsto> JStr (oc_feePayer p),
        ''actualNetworkFeeXlm'' \<mapsto> opt_json (oc_feeXlm p)]\<rparr>"

definition finalizeConfirmed :: "sdk \<Rightarrow> transfer \<Rightarrow> onchain_payment \<Rightarrow> fee_quote \<Rightarrow> string \<Rightarrow> (db, transfer) act" where
  "finalizeConfirmed sd row p feeQuote settlementId =
    abnd (stored_usdc (x_amount row)) (\<lambda>transferAmount.
    abnd (ensureFeeRevenueOrg (sdk_env sd)) (\<lambda>revenueOrgId.
    abnd (finalizeTransferLeg row transferAmount (oc_hash p)) (\<lambda>debit.
    abnd (creditTransferLeg row transferAmount (oc_hash p)) (\<lambda>credit.
    abnd (settleFee row p feeQuote transferAmount revenueOrgId) (\<lambda>feeId.
    abnd (sql_settlement settlementId (onchain_confirmed sd p)) (\<lambda>_.
    abnd (sql_txns (present_ids [x_sender_tx row, x_recipient_tx row]) (\<lambda>t. t\<lparr>t_status := ''completed'',
      t_metadata := t_metadata t ++ [''stellarTransactionHash'' \<mapsto> JStr (oc_hash p), ''fundsFinalized'' \<mapsto> JBool True,
        ''fundsLocked'' \<mapsto> JBool True]\<rparr>)) (\<lambda>_.
    run_tx (update_transfer (x_id row) (completed_transfer (fst debit) (fst credit) feeId p)))))))))"

section \<open>Confirming a transfer that was sent\<close>

text \<open>The quote as it was stored in the metadata\<close>

definition quote_of_json :: "json \<Rightarrow> fee_quote" where
  "quote_of_json j =
    (let field = (\<lambda>k. case object_field (Some j) k of Some (JStr t) \<Rightarrow> t | _ \<Rightarrow> []) in
     \<lparr>q_feeAmountUsdc = field ''feeAmountUsdc'', q_transferAmount = field ''transferAmount'',
      q_customerDebitAmount = field ''customerDebitAmount'',
      q_feeCharged = json_truthy (object_field (Some j) ''feeCharged''),
      q_feePolicyAmountUsdc = field ''feePolicyAmountUsdc'', q_feeRevenueAmount = field ''feeRevenueAmount'',
      q_estimatedNetworkFeeAmount = field ''estimatedNetworkFeeAmount'',
      q_actualNetworkFeeAmount = (case object_field (Some j) ''actualNetworkFeeAmount'' of Some (JStr t) \<Rightarrow> Some t | _ \<Rightarrow> None)\<rparr>)"

definition onchainKey :: "string \<Rightarrow> string" where
  "onchainKey transferId = ''stellar:internal_transfer:'' @ transferId"

definition text_of :: "json option \<Rightarrow> string option" where
  "text_of j = (case j of Some (JStr t) \<Rightarrow> Some t | _ \<Rightarrow> None)"

definition recorded_payment :: "settlement \<Rightarrow> string \<Rightarrow> string \<Rightarrow> onchain_payment" where
  "recorded_payment st hash amount =
    (let meta = s_metadata st; stellar = object_field (json_or (meta ''stellar'') None) in
     \<lparr>oc_hash = hash,
      oc_source = first_text [meta ''usdcSource'', map_option JStr (s_source st)] [],
      oc_destination = first_text [stellar ''destination'', map_option JStr (s_destination st)] [],
      oc_amount = amount, oc_feePayer = first_text [meta ''feePayerPublicKey''] [],
      oc_feeXlm = text_of (meta ''actualNetworkFeeXlm''), oc_feeStroops = text_of (meta ''actualNetworkFeeStroops''),
      oc_ledger = (case stellar ''ledgerSequence'' of Some (JNum x) \<Rightarrow> Some \<lfloor>x\<rfloor> | _ \<Rightarrow> None)\<rparr>)"

definition confirmOnchainInternalTransfer :: "sdk \<Rightarrow> transfer \<Rightarrow> (db, transfer) act" where
  "confirmOnchainInternalTransfer sd row =
    (if x_status row = ''completed'' then aret row
     else
       abnd (settlement_by_key (x_sender row) (onchainKey (x_id row))) (\<lambda>settlement.
       case Option.bind settlement (\<lambda>st. map_option (\<lambda>h. (st, h)) (or_else (s_external st) None)) of
         None \<Rightarrow> athrow (InfraTransferError ''NO_EXTERNAL_REF'' 409)
       | Some (st, hash) \<Rightarrow>
           abnd (aof_sum (verifyUsdcPayment sd hash)) (\<lambda>verified.
           abnd (if json_truthy (x_metadata row ''fee'') then aret (quote_of_json (the (x_metadata row ''fee'')))
             else aof_sum (quoteDayfiTransactionFee (sdk_env sd) (RStr (to_fixed7 (x_amount row))) True)) (\<lambda>feeQuote.
           if \<not> ve_confirmed verified then
             (if str_includes (to_upper (ve_status verified)) ''FAIL''
              then failTransfer row (''On-chain failure: '' @ ve_status verified) (s_id st) feeQuote ''STELLAR_SUBMIT_FAILED''
              else athrow (InfraTransferError ''NOT_CONFIRMED'' 409))
           else
             abnd (stored_usdc (x_amount row)) (\<lambda>amount.
             finalizeConfirmed sd row (recorded_payment st hash amount) feeQuote (s_id st))))))"

section \<open>The transfer\<close>

record onchain_keys =
  ok_alicePk :: string
  ok_bobPk :: string
  ok_aliceSecret :: string
  ok_payerSecret :: string
  ok_payerPk :: string

text \<open>The guards before anything is written.\<close>

definition onchainWallets :: "sdk \<Rightarrow> onchain_input \<Rightarrow> (db, account_view \<times> account_view) act" where
  "onchainWallets sd input =
    (let env = oi_environment input in
     abnd (walletActive (oi_senderOrgId input) env ''SENDER_INACTIVE'') (\<lambda>_.
     abnd (walletActive (oi_recipientOrgId input) env ''RECIPIENT_INACTIVE'') (\<lambda>_.
     abnd (getOrgStellarAccount sd (oi_senderOrgId input) (env_name env)) (\<lambda>alice.
     abnd (getOrgStellarAccount sd (oi_recipientOrgId input) (env_name env)) (\<lambda>bob.
     case (alice, bob) of
       (Some a, Some b) \<Rightarrow>
         if av_status a \<noteq> ''active'' then athrow (InfraTransferError ''SENDER_INACTIVE'' 400)
         else if av_status b \<noteq> ''active'' then athrow (InfraTransferError ''RECIPIENT_INACTIVE'' 400)
         else if av_network a \<noteq> av_network b then athrow (InfraTransferError ''CROSS_ENVIRONMENT'' 400)
         else if av_publicKey a = av_publicKey b then athrow (InfraTransferError ''SELF_TRANSFER'' 400)
         else aret (a, b)
     | (Some a, None) \<Rightarrow>
         if av_status a \<noteq> ''active'' then athrow (InfraTransferError ''SENDER_INACTIVE'' 400)
         else athrow (InfraTransferError ''RECIPIENT_INACTIVE'' 400)
     | _ \<Rightarrow> athrow (InfraTransferError ''SENDER_INACTIVE'' 400))))))"

definition onchainGuards :: "sdk \<Rightarrow> onchain_input \<Rightarrow> fee_quote \<Rightarrow> (db, onchain_keys) act" where
  "onchainGuards sd input feeQuote =
    abnd (onchainWallets sd input) (\<lambda>(alice, bob).
    abnd (getOrgBalance (oi_senderOrgId input) (env_name (oi_environment input)) None) (\<lambda>senderBal.
    abnd (arequire (case js_Number (RStr (q_customerDebitAmount feeQuote)) of
        Fin x \<Rightarrow> \<not> b_available senderBal + 1 / 1000000000000 < x | NaN \<Rightarrow> True | Infinite neg \<Rightarrow> neg)
      (InfraLedgerError ''INSUFFICIENT_BALANCE'' 400)) (\<lambda>_.
    abnd (aof_sum (assertUsdcTrustline sd (av_publicKey bob))) (\<lambda>_.
    abnd (aof_sum (assertNetworkFeeReserve sd)) (\<lambda>_.
    abnd (ensureFeeRevenueOrg (sdk_env sd)) (\<lambda>_.
    abnd (getOrgStellarSigningSecret sd (oi_senderOrgId input) (env_name (oi_environment input))) (\<lambda>signing.
    abnd (aof_sum (getStellarFeePayerStatus sd)) (\<lambda>status.
    abnd (aof_sum (getStellarFeePayerSigningSecret sd)) (\<lambda>payerSecret.
    abnd (aof_sum (keypair sd payerSecret)) (\<lambda>payerPk.
    if or_else (fpv_publicKey status) None \<noteq> None \<and> fpv_publicKey status \<noteq> Some payerPk
    then athrow (InfraTransferError ''FEE_PAYER_MISMATCH'' 500)
    else if payerPk = av_publicKey alice \<or> payerPk = av_publicKey bob
    then athrow (InfraTransferError ''FEE_PAYER_IS_SOURCE'' 400)
    else aret \<lparr>ok_alicePk = av_publicKey alice, ok_bobPk = av_publicKey bob, ok_aliceSecret = sg_secret signing,
      ok_payerSecret = payerSecret, ok_payerPk = payerPk\<rparr>))))))))))"

text \<open>The rows: the transfer, one transaction for each side, and the settlement.\<close>

definition onchain_transfer_row :: "onchain_input \<Rightarrow> fee_quote \<Rightarrow> string \<Rightarrow> transfer" where
  "onchain_transfer_row input feeQuote i =
    \<lparr>x_id = i, x_sender = oi_senderOrgId input, x_recipient = oi_recipientOrgId input, x_env = oi_environment input,
     x_amount = numeric_param (oi_amount input), x_asset = ''USDC'', x_status = ''processing'', x_sender_tx = None,
     x_recipient_tx = None, x_sender_movement = None, x_recipient_movement = None, x_key = oi_idempotencyKey input,
     x_fingerprint = Some (oi_fingerprint input),
     x_metadata = [''type'' \<mapsto> JStr ''internal_transfer'', ''reason'' \<mapsto> str_or_null (oi_reason input),
       ''stellarTouched'' \<mapsto> JBool True, ''settlementMode'' \<mapsto> JStr ''STELLAR_ONCHAIN'', ''fee'' \<mapsto> quote_json feeQuote],
     x_mode = ''STELLAR_ONCHAIN'', x_fee_id = None\<rparr>"

definition amount_json :: "string \<Rightarrow> json" where
  "amount_json t = (case js_Number (RStr t) of Fin x \<Rightarrow> JNum x | _ \<Rightarrow> JNull)"

definition onchain_txn ::
  "onchain_input \<Rightarrow> fee_quote \<Rightarrow> string \<Rightarrow> string \<Rightarrow> string \<Rightarrow> string \<Rightarrow> string \<Rightarrow> rat \<Rightarrow> string \<Rightarrow> txn" where
  "onchain_txn input feeQuote transferId orgId role suffix counterparty feeAmount i =
    \<lparr>t_id = i, t_org = orgId, t_env = oi_environment input, t_amount = numeric_param (oi_amount input),
     t_currency = ''USDC'', t_country = None, t_status = ''processing'', t_method = ''internal_transfer'',
     t_direction = ''internal_transfer'', t_fee = feeAmount,
     t_external_id = Some (''internal-transfer:'' @ transferId @ suffix),
     t_metadata = [''type'' \<mapsto> JStr ''internal_transfer'', ''transferGroupId'' \<mapsto> JStr transferId,
       ''usdcAmount'' \<mapsto> amount_json (oi_amount input), ''rail'' \<mapsto> JStr ''stellar'', ''stellarTouched'' \<mapsto> JBool True,
       ''settlementRail'' \<mapsto> JStr ''STELLAR'', ''settlementMode'' \<mapsto> JStr ''STELLAR_ONCHAIN'',
       ''fee'' \<mapsto> quote_json feeQuote, ''role'' \<mapsto> JStr role, ''counterpartyOrgId'' \<mapsto> JStr counterparty],
     t_client_key = map_option (\<lambda>k. k @ suffix) (or_else (oi_idempotencyKey input) None),
     t_fingerprint = Some (oi_fingerprint input)\<rparr>"

definition onchain_settlement :: "onchain_input \<Rightarrow> onchain_keys \<Rightarrow> string \<Rightarrow> string \<Rightarrow> string \<Rightarrow> string \<Rightarrow> settlement" where
  "onchain_settlement input keys transferId senderTx recipientTx i =
    \<lparr>s_id = i, s_org = oi_senderOrgId input, s_env = oi_environment input, s_payout_tx = Some senderTx,
     s_collection_tx = Some recipientTx, s_rail = ''STELLAR'', s_asset = ''USDC'',
     s_amount = numeric_param (oi_amount input), s_source = Some (ok_alicePk keys),
     s_destination = Some (ok_bobPk keys), s_status = ''pending'', s_external = None, s_provider = None,
     s_metadata = [''envelopeType'' \<mapsto> JStr ''FEE_BUMP'', ''usdcSource'' \<mapsto> JStr (ok_alicePk keys),
       ''feePayerPublicKey'' \<mapsto> JStr (ok_payerPk keys), ''signingSource'' \<mapsto> JStr ''org_wallet''],
     s_failure = None, s_key = onchainKey transferId\<rparr>"

definition onchainTx :: "onchain_input \<Rightarrow> fee_quote \<Rightarrow> onchain_keys \<Rightarrow> (db, transfer) tx" where
  "onchainTx input feeQuote keys =
    bnd new_uuid (\<lambda>transferId.
    bnd (insert_transfer (onchain_transfer_row input feeQuote transferId)) (\<lambda>_.
    bnd new_uuid (\<lambda>senderTx.
    bnd (insert_txn (onchain_txn input feeQuote transferId (oi_senderOrgId input) ''sender'' '':out''
      (oi_recipientOrgId input) (numeric_param (q_feeAmountUsdc feeQuote)) senderTx)) (\<lambda>_.
    bnd new_uuid (\<lambda>recipientTx.
    bnd (insert_txn (onchain_txn input feeQuote transferId (oi_recipientOrgId input) ''recipient'' '':in''
      (oi_senderOrgId input) 0 recipientTx)) (\<lambda>_.
    bnd new_uuid (\<lambda>settlementId.
    bnd (insert_settlement (onchain_settlement input keys transferId senderTx recipientTx settlementId)) (\<lambda>_.
    update_transfer transferId (\<lambda>x. x\<lparr>x_sender_tx := Some senderTx, x_recipient_tx := Some recipientTx\<rparr>)))))))))"

text \<open>The row to work on, and whether it is the answer already (a lost race reads the winner's row).\<close>

definition onchainRow :: "onchain_input \<Rightarrow> fee_quote \<Rightarrow> onchain_keys \<Rightarrow> (db, transfer \<times> bool) act" where
  "onchainRow input feeQuote keys =
    acatch (abnd (run_tx (onchainTx input feeQuote keys)) (\<lambda>row. aret (row, False)))
      (\<lambda>err. case or_else (oi_idempotencyKey input) None of
         Some k \<Rightarrow> if isUniqueViolation err then
             abnd (loadTransferByIdempotency (oi_senderOrgId input) (oi_environment input) k) (\<lambda>existing. case existing of
               Some x \<Rightarrow> aret (x, x_status x = ''completed'' \<or> x_status x = ''failed'')
             | None \<Rightarrow> athrow err)
           else athrow err
       | None \<Rightarrow> athrow err)"

definition onchainLocks :: "onchain_input \<Rightarrow> fee_quote \<Rightarrow> transfer \<Rightarrow> string \<Rightarrow> (db, unit) act" where
  "onchainLocks input feeQuote row senderTxId =
    abnd (lockOrgFunds (leg (oi_senderOrgId input) (oi_environment input) (oi_amount input) (leg_key senderTxId '':lock'')
      ''funds_lock'' ''internal_transfer'' (Some senderTxId) (Some (x_id row))
      (Some [''transferGroupId'' \<mapsto> JStr (x_id row), ''role'' \<mapsto> JStr ''transfer_lock'']))) (\<lambda>_.
    if q_feeCharged feeQuote then
      abnd (lockOrgFunds (leg (oi_senderOrgId input) (oi_environment input) (q_feeAmountUsdc feeQuote)
        (leg_key senderTxId '':fee_lock'') ''funds_lock'' ''transaction_fee'' (Some senderTxId)
        (Some (''fee:'' @ x_id row)) (Some [''transferGroupId'' \<mapsto> JStr (x_id row), ''role'' \<mapsto> JStr ''fee_lock'']))) (\<lambda>_. aret ())
    else aret ())"

definition transferMemo :: "string \<Rightarrow> string" where
  "transferMemo transferId = ''dayfi:'' @ take 24 (filter (\<lambda>c. c \<noteq> CHR ''-'') transferId)"

text \<open>The envelope that was stored with the settlement, or a new one that is stored before it is sent.\<close>

definition onchainEnvelope :: "sdk \<Rightarrow> onchain_input \<Rightarrow> onchain_keys \<Rightarrow> transfer \<Rightarrow> settlement \<Rightarrow> (db, prepared) act" where
  "onchainEnvelope sd input keys row settlement =
    (let meta = s_metadata settlement;
         xdr = (case text_of (meta ''pendingEnvelopeXdr'') of Some t \<Rightarrow> t | None \<Rightarrow> []);
         hash = (case or_else (s_external settlement) None of Some h \<Rightarrow> h
           | None \<Rightarrow> (case text_of (meta ''pendingTransactionHash'') of Some t \<Rightarrow> t | None \<Rightarrow> []))
     in if xdr \<noteq> [] \<and> hash \<noteq> [] then
       aret \<lparr>pp_xdr = xdr, pp_hash = hash, pp_source = ok_alicePk keys, pp_feePayer = ok_payerPk keys,
         pp_destination = ok_bobPk keys, pp_amount = oi_amount input\<rparr>
     else
       abnd (aof_sum (prepareSponsoredUsdcPayment sd \<lparr>si_destination = ok_bobPk keys, si_amount = RStr (oi_amount input),
         si_memo = Some (transferMemo (x_id row)), si_sourceSecret = ok_aliceSecret keys,
         si_feePayerSecret = ok_payerSecret keys\<rparr>)) (\<lambda>p.
       abnd (sql_settlement (s_id settlement) (\<lambda>st. st\<lparr>s_external := Some (pp_hash p),
         s_metadata := s_metadata st ++ [''pendingEnvelopeXdr'' \<mapsto> JStr (pp_xdr p),
           ''pendingTransactionHash'' \<mapsto> JStr (pp_hash p), ''usdcSource'' \<mapsto> JStr (pp_source p),
           ''feePayerPublicKey'' \<mapsto> JStr (pp_feePayer p), ''envelopeType'' \<mapsto> JStr ''FEE_BUMP'']\<rparr>)) (\<lambda>_.
       aret p)))"

definition onchain_submitted :: "sponsored \<Rightarrow> settlement \<Rightarrow> settlement" where
  "onchain_submitted p st =
    st\<lparr>s_status := ''submitted'', s_external := Some (sp_hash p), s_provider := Some (sp_hash p),
       s_source := Some (sp_source p), s_destination := Some (sp_destination p),
       s_metadata := s_metadata st ++ [''stellar'' \<mapsto> JObj [(''transactionHash'', JStr (sp_hash p)),
           (''ledgerSequence'', case sp_ledger p of Some k \<Rightarrow> JNum (of_int k) | None \<Rightarrow> JNull),
           (''amount'', JStr (sp_amount p)), (''envelopeType'', JStr ''FEE_BUMP'')],
         ''usdcSource'' \<mapsto> JStr (sp_source p), ''feePayerPublicKey'' \<mapsto> JStr (sp_feePayer p),
         ''actualNetworkFeeXlm'' \<mapsto> opt_json (sp_feeXlm p), ''actualNetworkFeeStroops'' \<mapsto> opt_json (sp_feeStroops p)]\<rparr>"

definition payment_of :: "sponsored \<Rightarrow> onchain_payment" where
  "payment_of p = \<lparr>oc_hash = sp_hash p, oc_source = sp_source p, oc_destination = sp_destination p, oc_amount = sp_amount p,
     oc_feePayer = sp_feePayer p, oc_feeXlm = sp_feeXlm p, oc_feeStroops = sp_feeStroops p, oc_ledger = sp_ledger p\<rparr>"

definition afterOnchainSubmit :: "sdk \<Rightarrow> fee_quote \<Rightarrow> transfer \<Rightarrow> string \<Rightarrow> sponsored \<Rightarrow> (db, transfer) act" where
  "afterOnchainSubmit sd feeQuote row settlementId p =
    abnd (sql_settlement settlementId (onchain_submitted p)) (\<lambda>_.
    abnd (sql_transfer (x_id row) (\<lambda>x. x\<lparr>x_status := ''submitted'',
      x_metadata := (x_metadata x)(''stellarTransactionHash'' \<mapsto> JStr (sp_hash p))\<rparr>)) (\<lambda>_.
    abnd (run_tx (bnd (query (\<lambda>s. find_row x_id (x_id row) (transfers s))) the_row)) (\<lambda>refreshed.
    if env_str (sdk_env sd) ''DAYFI_INFRA_ONCHAIN_FORCE_CONFIRM_FAIL'' = ''1''
    then failTransfer refreshed ''Forced Stellar confirmation failure'' settlementId feeQuote ''STELLAR_CONFIRM_FAILED''
    else
      abnd (aof_sum (verifyUsdcPayment sd (sp_hash p))) (\<lambda>verified.
      if getStellarSettlementMode sd = ''mock'' \<or> sp_ledger p \<noteq> None \<or> ve_confirmed verified
      then finalizeConfirmed sd refreshed (payment_of p) feeQuote settlementId
      else if str_includes (to_upper (ve_status verified)) ''FAIL''
      then failTransfer refreshed (''On-chain failure: '' @ ve_status verified) settlementId feeQuote ''STELLAR_CONFIRM_FAILED''
      else aret refreshed))))"

text \<open>After the locks: a stored payment that the chain confirms is finalized, otherwise the payment is sent.\<close>

definition sendOnchain ::
  "sdk \<Rightarrow> onchain_input \<Rightarrow> fee_quote \<Rightarrow> onchain_keys \<Rightarrow> transfer \<Rightarrow> settlement \<Rightarrow> (db, transfer) act" where
  "sendOnchain sd input feeQuote keys row settlement =
    abnd (onchainEnvelope sd input keys row settlement) (\<lambda>envelope.
    if pp_source envelope \<noteq> ok_alicePk keys
    then failTransfer row ''USDC source was not Alice'' (s_id settlement) feeQuote ''STELLAR_SUBMIT_FAILED''
    else case submitPreparedSponsoredPayment sd envelope of
        Inl err \<Rightarrow> failTransfer row (message_of err) (s_id settlement) feeQuote ''STELLAR_SUBMIT_FAILED''
      | Inr p \<Rightarrow> afterOnchainSubmit sd feeQuote row (s_id settlement) p)"

definition resumeOnchain ::
  "sdk \<Rightarrow> onchain_input \<Rightarrow> fee_quote \<Rightarrow> onchain_keys \<Rightarrow> transfer \<Rightarrow> settlement \<Rightarrow> (db, transfer) act" where
  "resumeOnchain sd input feeQuote keys row settlement =
    (case (s_status settlement \<noteq> ''failed'', or_else (s_external settlement) None) of
       (True, Some hash) \<Rightarrow>
         abnd (aof_sum (verifyUsdcPayment sd hash)) (\<lambda>verified.
         if ve_confirmed verified then confirmOnchainInternalTransfer sd row
         else sendOnchain sd input feeQuote keys row settlement)
     | _ \<Rightarrow> sendOnchain sd input feeQuote keys row settlement)"

definition runOnchain :: "sdk \<Rightarrow> onchain_input \<Rightarrow> fee_quote \<Rightarrow> onchain_keys \<Rightarrow> transfer \<Rightarrow> (db, transfer) act" where
  "runOnchain sd input feeQuote keys row =
    abnd (run_tx (bnd (query (\<lambda>s. find_row s_key (onchainKey (x_id row)) (settlements s))) the_row)) (\<lambda>settlement.
    if env_str (sdk_env sd) ''DAYFI_INFRA_ONCHAIN_FAIL_BEFORE_LOCK'' = ''1''
    then athrow (InfraTransferError ''SIMULATED_DB_FAILURE'' 500)
    else case or_else (x_sender_tx row) None of
        None \<Rightarrow> athrow (InfraTransferError ''TRANSFER_INCOMPLETE'' 500)
      | Some senderTxId \<Rightarrow>
          abnd (onchainLocks input feeQuote row senderTxId) (\<lambda>_.
          if env_str (sdk_env sd) ''DAYFI_INFRA_ONCHAIN_FAIL_AFTER_LOCK'' = ''1''
          then failTransfer row ''Simulated DB failure after lock'' (s_id settlement) feeQuote ''SIMULATED_DB_FAILURE''
          else resumeOnchain sd input feeQuote keys row settlement))"

definition executeOnchainInternalTransfer :: "sdk \<Rightarrow> onchain_input \<Rightarrow> (db, transfer) act" where
  "executeOnchainInternalTransfer sd input =
    abnd (aof_sum (quoteDayfiTransactionFee (sdk_env sd) (RStr (oi_amount input)) True)) (\<lambda>feeQuote.
    abnd (onchainGuards sd input feeQuote) (\<lambda>keys.
    abnd (onchainRow input feeQuote keys) (\<lambda>(row, answered).
    if answered \<or> x_status row = ''completed'' then aret row
    else runOnchain sd input feeQuote keys row)))"

text \<open>The internal transfer service with this executor.\<close>

definition onchain_services :: "sdk \<Rightarrow> string \<Rightarrow> services" where
  "onchain_services sd usdcIssuer = \<lparr>sv_env = sdk_env sd, sv_sha256 = sdk_sha256 sd, sv_usdcIssuer = usdcIssuer,
     sv_executeOnchain = executeOnchainInternalTransfer sd\<rparr>"

section \<open>Evaluation\<close>

text \<open>The evaluator unfolds a step only when its row is a value.\<close>

lemmas failTransfer_code [code] = failTransfer_def
  [where row = "\<lparr>x_id = c # i, x_sender = se, x_recipient = re, x_env = en, x_amount = am, x_asset = as, x_status = st, x_sender_tx = stx, x_recipient_tx = rtx, x_sender_movement = sm, x_recipient_movement = rm, x_key = k, x_fingerprint = fp, x_metadata = md, x_mode = mo, x_fee_id = fi\<rparr>"]
  for c i se re en am as st stx rtx sm rm k fp md mo fi

lemmas finalizeTransferLeg_code [code] = finalizeTransferLeg_def
  [where row = "\<lparr>x_id = c # i, x_sender = se, x_recipient = re, x_env = en, x_amount = am, x_asset = as, x_status = st, x_sender_tx = stx, x_recipient_tx = rtx, x_sender_movement = sm, x_recipient_movement = rm, x_key = k, x_fingerprint = fp, x_metadata = md, x_mode = mo, x_fee_id = fi\<rparr>"]
  for c i se re en am as st stx rtx sm rm k fp md mo fi

lemmas creditTransferLeg_code [code] = creditTransferLeg_def
  [where row = "\<lparr>x_id = c # i, x_sender = se, x_recipient = re, x_env = en, x_amount = am, x_asset = as, x_status = st, x_sender_tx = stx, x_recipient_tx = rtx, x_sender_movement = sm, x_recipient_movement = rm, x_key = k, x_fingerprint = fp, x_metadata = md, x_mode = mo, x_fee_id = fi\<rparr>"]
  for c i se re en am as st stx rtx sm rm k fp md mo fi

lemmas settleFee_code [code] = settleFee_def
  [where row = "\<lparr>x_id = c # i, x_sender = se, x_recipient = re, x_env = en, x_amount = am, x_asset = as, x_status = st, x_sender_tx = stx, x_recipient_tx = rtx, x_sender_movement = sm, x_recipient_movement = rm, x_key = k, x_fingerprint = fp, x_metadata = md, x_mode = mo, x_fee_id = fi\<rparr>"]
  for c i se re en am as st stx rtx sm rm k fp md mo fi

lemmas finalizeConfirmed_code [code] = finalizeConfirmed_def
  [where row = "\<lparr>x_id = c # i, x_sender = se, x_recipient = re, x_env = en, x_amount = am, x_asset = as, x_status = st, x_sender_tx = stx, x_recipient_tx = rtx, x_sender_movement = sm, x_recipient_movement = rm, x_key = k, x_fingerprint = fp, x_metadata = md, x_mode = mo, x_fee_id = fi\<rparr>"]
  for c i se re en am as st stx rtx sm rm k fp md mo fi

lemmas confirmOnchainInternalTransfer_code [code] = confirmOnchainInternalTransfer_def
  [where row = "\<lparr>x_id = c # i, x_sender = se, x_recipient = re, x_env = en, x_amount = am, x_asset = as, x_status = st, x_sender_tx = stx, x_recipient_tx = rtx, x_sender_movement = sm, x_recipient_movement = rm, x_key = k, x_fingerprint = fp, x_metadata = md, x_mode = mo, x_fee_id = fi\<rparr>"]
  for c i se re en am as st stx rtx sm rm k fp md mo fi

lemmas afterOnchainSubmit_code [code] = afterOnchainSubmit_def
  [where row = "\<lparr>x_id = c # i, x_sender = se, x_recipient = re, x_env = en, x_amount = am, x_asset = as, x_status = st, x_sender_tx = stx, x_recipient_tx = rtx, x_sender_movement = sm, x_recipient_movement = rm, x_key = k, x_fingerprint = fp, x_metadata = md, x_mode = mo, x_fee_id = fi\<rparr>"]
  for c i se re en am as st stx rtx sm rm k fp md mo fi

lemmas sendOnchain_code [code] = sendOnchain_def
  [where row = "\<lparr>x_id = c # i, x_sender = se, x_recipient = re, x_env = en, x_amount = am, x_asset = as, x_status = st, x_sender_tx = stx, x_recipient_tx = rtx, x_sender_movement = sm, x_recipient_movement = rm, x_key = k, x_fingerprint = fp, x_metadata = md, x_mode = mo, x_fee_id = fi\<rparr>"]
  for c i se re en am as st stx rtx sm rm k fp md mo fi

lemmas resumeOnchain_code [code] = resumeOnchain_def
  [where row = "\<lparr>x_id = c # i, x_sender = se, x_recipient = re, x_env = en, x_amount = am, x_asset = as, x_status = st, x_sender_tx = stx, x_recipient_tx = rtx, x_sender_movement = sm, x_recipient_movement = rm, x_key = k, x_fingerprint = fp, x_metadata = md, x_mode = mo, x_fee_id = fi\<rparr>"]
  for c i se re en am as st stx rtx sm rm k fp md mo fi

lemmas runOnchain_code [code] = runOnchain_def
  [where row = "\<lparr>x_id = c # i, x_sender = se, x_recipient = re, x_env = en, x_amount = am, x_asset = as, x_status = st, x_sender_tx = stx, x_recipient_tx = rtx, x_sender_movement = sm, x_recipient_movement = rm, x_key = k, x_fingerprint = fp, x_metadata = md, x_mode = mo, x_fee_id = fi\<rparr>"]
  for c i se re en am as st stx rtx sm rm k fp md mo fi

end
