(* ===== verification/Onchain_Facts.thy ===== *)
theory Onchain_Facts
  imports Onchain_Transfer Settlement_Facts Transfer_Facts
begin

text \<open>
  Invariants of the on-chain transfer. The locale \<open>transfer_view\<close> is the interface of an invariant that
  reads the ledger and the transfer rows and knows the parties of one transfer; the code of the transfer is
  traversed once, inside it. Two instances follow: what the sender holds, and the ledger entries of
  completed transfers.
\<close>

section \<open>The interface\<close>

definition parties :: "transfer \<Rightarrow> string \<times> string \<times> string \<times> infra_env \<times> string option \<times> string option" where
  "parties x = (x_id x, x_sender x, x_recipient x, x_env x, x_sender_tx x, x_recipient_tx x)"

definition knows :: "transfer \<Rightarrow> db \<Rightarrow> bool" where
  "knows row s \<longleftrightarrow> (\<forall>x \<in> set (transfers s). x_id x = x_id row \<longrightarrow> parties x = parties row)"

definition sender_of :: "transfer \<Rightarrow> account" where
  "sender_of row = (x_sender row, x_env row, ''USDC'')"

text \<open>Updates that leave the parties, the mode and the entries alone and do not complete the transfer\<close>

definition calm :: "(transfer \<Rightarrow> transfer) \<Rightarrow> bool" where
  "calm f \<longleftrightarrow> (\<forall>x. parties (f x) = parties x \<and> x_mode (f x) = x_mode x \<and> x_status (f x) \<noteq> ''completed''
     \<and> x_sender_movement (f x) = x_sender_movement x \<and> x_recipient_movement (f x) = x_recipient_movement x)"

definition patched :: "(transfer \<Rightarrow> transfer) \<Rightarrow> transfer list \<Rightarrow> transfer list \<Rightarrow> bool" where
  "patched f xs ys \<longleftrightarrow> (\<forall>y \<in> set ys. y \<in> set xs \<or> (\<exists>x \<in> set xs. y = f x)) \<and> map x_id ys = map x_id xs"

lemma patched_update_rows: "(\<And>x. x_id (f x) = x_id x) \<Longrightarrow> patched f xs (update_rows x_id i f xs)"
  by (auto simp: patched_def update_rows_def)

lemma parties_account [simp]:
  "account_of (leg (x_sender row) (x_env row) a k mt rt i r meta) = sender_of row"
  by (simp add: account_of_def leg_def sender_of_def)

lemma sender_of_parties: "parties x = parties row \<Longrightarrow> sender_of x = sender_of row"
  by (simp add: parties_def sender_of_def)

text \<open>What can make the chain's answer a confirmation\<close>

definition may_confirm :: "sdk \<Rightarrow> bool" where
  "may_confirm sd \<longleftrightarrow> getStellarSettlementMode sd = ''mock''
     \<or> (\<exists>e p. submitPreparedSponsoredPayment sd e = Inr p \<and> sp_ledger p \<noteq> None)
     \<or> (\<exists>h v. verifyUsdcPayment sd h = Inr v \<and> ve_confirmed v)"

lemma may_confirmI:
  "submitPreparedSponsoredPayment sd e = Inr p \<Longrightarrow> verifyUsdcPayment sd h = Inr v \<Longrightarrow>
     getStellarSettlementMode sd = ''mock'' \<or> sp_ledger p \<noteq> None \<or> ve_confirmed v \<Longrightarrow> may_confirm sd"
  "verifyUsdcPayment sd h = Inr v \<Longrightarrow> ve_confirmed v \<Longrightarrow> may_confirm sd"
  unfolding may_confirm_def by blast+

locale transfer_view =
  fixes I :: "db \<Rightarrow> bool" and row :: transfer
  assumes ledger: "I s \<Longrightarrow> ledger_inv s"
    and same: "I s \<Longrightarrow> ledger_inv s' \<Longrightarrow> movements s' = movements s \<Longrightarrow> balances s' = balances s \<Longrightarrow>
      transfers s' = transfers s \<Longrightarrow> I s'"
    and patch: "I s \<Longrightarrow> ledger_inv s' \<Longrightarrow> movements s' = movements s \<Longrightarrow> balances s' = balances s \<Longrightarrow>
      patched f (transfers s) (transfers s') \<Longrightarrow> calm f \<Longrightarrow> I s'"
    and lock: "account_of params = sender_of row \<Longrightarrow> inv_act I (run_op OpLock params)"
    and release: "account_of params = sender_of row \<Longrightarrow> inv_act I (run_op OpRelease params)"
    and known: "I s \<Longrightarrow> knows row s"
begin

lemma keeps_inv: "keeps m \<Longrightarrow> inv_act I m"
  by (auto simp: inv_act_def keeps_def unchanged_def ledger_same_def intro: same dest: ledger)

lemma frame: "I s \<Longrightarrow> I (settlements_update f s)" "I s \<Longrightarrow> I (txns_update g s)"
  by (frule ledger, erule same; simp)+

lemma settlement_inv [inv_intros]: "inv_act I (sql_settlement i f)"
  unfolding inv_act_def sql_settlement_def
  by (auto simp: run_tx_def tx_simps Let_def split: sum.splits intro!: frame)

lemma txns_inv [inv_intros]: "inv_act I (sql_txns ids f)"
  unfolding inv_act_def sql_txns_def by (auto intro!: frame)

lemma transfer_inv:
  assumes "calm f"
  shows "inv_act I (sql_transfer i f)"
  unfolding inv_act_def
proof (intro allI impI)
  fix s r s' assume I: "I s" and run: "sql_transfer i f s = (r, s')"
  have ids: "x_id (f x) = x_id x" for x using assms by (simp add: calm_def parties_def)
  show "I s'"
  proof (cases "list_all (\<lambda>x. x_id x = i \<longrightarrow> transfer_ok (f x)) (transfers s)")
    case True
    with run have s': "s' = s\<lparr>transfers := update_rows x_id i f (transfers s)\<rparr>" by (simp add: sql_transfer_def)
    show ?thesis
      by (rule patch [OF I _ _ _ _ assms]) (simp_all add: s' ledger [OF I] patched_update_rows ids)
  qed (use run I in \<open>simp add: sql_transfer_def\<close>)
qed

lemma releaseLocks_inv [inv_intros]:
  assumes "parties x = parties row"
  shows "inv_act I (releaseLocks (x_sender x) (x_env x) a f t)"
proof -
  have "inv_act I (releaseOrgFunds (leg (x_sender x) (x_env x) b k mt rt i r meta))" for b k mt rt i r meta
    using release [of "leg (x_sender x) (x_env x) b k mt rt i r meta"] sender_of_parties [OF assms] by simp
  then show ?thesis unfolding releaseLocks_def by (intro inv_intros)
qed

lemma calm_updates [simp]:
  "calm (\<lambda>x. x\<lparr>x_status := ''failed'', x_metadata := (x_metadata x)(k \<mapsto> v)\<rparr>)"
  "calm (\<lambda>x. x\<lparr>x_status := ''submitted'', x_metadata := (x_metadata x)(k \<mapsto> v)\<rparr>)"
  by (simp_all add: calm_def parties_def)

lemma failTransfer_inv [inv_intros]:
  assumes "parties x = parties row"
  shows "inv_act I (failTransfer x reason i q code)"
  unfolding failTransfer_def
  by (intro inv_intros transfer_inv calm_updates keeps_inv keeps_loads releaseLocks_inv assms)

text \<open>The row that is read again is the row of the transfer.\<close>

lemma refreshed_inv:
  assumes "\<And>x. parties x = parties row \<Longrightarrow> inv_act I (f x)"
  shows "inv_act I (abnd (run_tx (bnd (query (\<lambda>s. find_row x_id (x_id row) (transfers s))) the_row)) f)"
proof (rule inv_act_post [where P = "\<lambda>x. parties x = parties row", OF reads_one _ assms])
  fix s x s' assume "I s" and "run_tx (bnd (query (\<lambda>s. find_row x_id (x_id row) (transfers s))) the_row) s = (Inr x, s')"
  then have "find_row x_id (x_id row) (transfers s) = Some x" and k: "knows row s"
    by (auto simp: run_tx_Inr_iff tx_simps known)
  then show "parties x = parties row" by (auto simp: knows_def dest: find_row_Some)
qed

lemma envelope_inv [inv_intros]: "inv_act I (onchainEnvelope sd input keys x st)"
  unfolding onchainEnvelope_def Let_def by (intro inv_intros)

lemma locks_inv [inv_intros]:
  assumes "sender_of row = (oi_senderOrgId input, oi_environment input, ''USDC'')"
  shows "inv_act I (onchainLocks input q row t)"
proof -
  have "inv_act I (lockOrgFunds (leg (oi_senderOrgId input) (oi_environment input) b k mt rt i r meta))" for b k mt rt i r meta
    using lock [of "leg (oi_senderOrgId input) (oi_environment input) b k mt rt i r meta"] assms
    by (simp add: account_of_def leg_def)
  then show ?thesis unfolding onchainLocks_def by (intro inv_intros)
qed

definition finalizes :: "sdk \<Rightarrow> bool" where
  "finalizes sd \<longleftrightarrow> (\<forall>x p q i. may_confirm sd \<longrightarrow> parties x = parties row \<longrightarrow> inv_act I (finalizeConfirmed sd x p q i))"

lemma finalizesD: "finalizes sd \<Longrightarrow> may_confirm sd \<Longrightarrow> parties x = parties row \<Longrightarrow> inv_act I (finalizeConfirmed sd x p q i)"
  by (simp add: finalizes_def)

lemma after_inv:
  assumes sub: "submitPreparedSponsoredPayment sd e = Inr p" and fin: "finalizes sd"
  shows "inv_act I (afterOnchainSubmit sd q row i p)"
proof -
  have "inv_act I (abnd (aof_sum (verifyUsdcPayment sd (sp_hash p))) (\<lambda>verified.
      if getStellarSettlementMode sd = ''mock'' \<or> sp_ledger p \<noteq> None \<or> ve_confirmed verified
      then finalizeConfirmed sd x (payment_of p) q i
      else if str_includes (to_upper (ve_status verified)) ''FAIL''
      then failTransfer x (''On-chain failure: '' @ ve_status verified) i q ''STELLAR_CONFIRM_FAILED''
      else aret x))" if x: "parties x = parties row" for x
    by (rule inv_act_sum_ok, rule inv_act_if_known, rule finalizesD [OF fin _ x], erule (1) may_confirmI(1) [OF sub])
      (intro inv_intros failTransfer_inv x)
  then have "inv_act I (if c then failTransfer x r i q code else abnd (aof_sum (verifyUsdcPayment sd (sp_hash p))) (\<lambda>verified.
      if getStellarSettlementMode sd = ''mock'' \<or> sp_ledger p \<noteq> None \<or> ve_confirmed verified
      then finalizeConfirmed sd x (payment_of p) q i
      else if str_includes (to_upper (ve_status verified)) ''FAIL''
      then failTransfer x (''On-chain failure: '' @ ve_status verified) i q ''STELLAR_CONFIRM_FAILED''
      else aret x))" if "parties x = parties row" for x c r code
    using that by (intro inv_act_if failTransfer_inv)
  then show ?thesis
    unfolding afterOnchainSubmit_def
    by (rule inv_act_abnd [OF settlement_inv, OF inv_act_abnd [OF transfer_inv [OF calm_updates(2)], OF refreshed_inv]])
qed

lemma send_inv:
  assumes "finalizes sd"
  shows "inv_act I (sendOnchain sd input q keys row st)"
  unfolding sendOnchain_def
proof (intro inv_act_abnd envelope_inv inv_act_if failTransfer_inv refl)
  fix e show "inv_act I (case submitPreparedSponsoredPayment sd e of
        Inl err \<Rightarrow> failTransfer row (message_of err) (s_id st) q ''STELLAR_SUBMIT_FAILED''
      | Inr p \<Rightarrow> afterOnchainSubmit sd q row (s_id st) p)"
  proof (cases "submitPreparedSponsoredPayment sd e")
    case (Inr p)
    then show ?thesis by (simp add: after_inv [OF Inr assms])
  qed (auto intro: failTransfer_inv)
qed

lemma confirm_inv:
  assumes "finalizes sd" and x: "parties x = parties row"
  shows "inv_act I (confirmOnchainInternalTransfer sd x)"
proof -
  have fin: "inv_act I (finalizeConfirmed sd x p q i)" if "verifyUsdcPayment sd h = Inr v" "ve_confirmed v" for p q i h v
    by (rule finalizesD [OF assms(1) may_confirmI(2) [OF that] x])
  have "inv_act I (abnd (aof_sum (verifyUsdcPayment sd hash)) (\<lambda>verified.
           abnd (if json_truthy (x_metadata x ''fee'') then aret (quote_of_json (the (x_metadata x ''fee'')))
             else aof_sum (quoteDayfiTransactionFee (sdk_env sd) (RStr (to_fixed7 (x_amount x))) True)) (\<lambda>feeQuote.
           if \<not> ve_confirmed verified then
             (if str_includes (to_upper (ve_status verified)) ''FAIL''
              then failTransfer x (''On-chain failure: '' @ ve_status verified) (s_id st) feeQuote ''STELLAR_SUBMIT_FAILED''
              else athrow (InfraTransferError ''NOT_CONFIRMED'' 409))
           else
             abnd (stored_usdc (x_amount x)) (\<lambda>amount.
             finalizeConfirmed sd x (recorded_payment st hash amount) feeQuote (s_id st)))))" for hash st
    by (rule inv_act_sum_ok, rule inv_act_abnd, intro inv_intros, rule inv_act_if_known)
      (auto intro!: inv_intros failTransfer_inv x intro: fin keeps_inv keeps_loads)
  note body = this
  show ?thesis
    unfolding confirmOnchainInternalTransfer_def Let_def
    by (rule inv_act_if, rule inv_act_pure, rule inv_act_abnd, rule reads_rows, rule inv_act_option, rule inv_act_pure,
        rule inv_act_prod, rule body)
qed

lemma run_inv:
  assumes "finalizes sd" and "sender_of row = (oi_senderOrgId input, oi_environment input, ''USDC'')"
  shows "inv_act I (runOnchain sd input q keys row)"
proof -
  have resume: "inv_act I (resumeOnchain sd input q keys row st)" for st
  proof (cases "(s_status st \<noteq> ''failed'', or_else (s_external st) None)")
    case (Pair b h)
    then show ?thesis
      unfolding resumeOnchain_def Pair
      by (cases b; cases h) (simp_all add: send_inv [OF assms(1)] confirm_inv [OF assms(1)] inv_act_abnd)
  qed
  show ?thesis
    unfolding runOnchain_def by (intro inv_intros resume assms(2) refl)
qed

end

section \<open>The rows of a new transfer\<close>

definition transfer_keys :: "db \<Rightarrow> bool" where
  "transfer_keys s \<longleftrightarrow> distinct (map x_id (transfers s))"

lemma keys_known: "transfer_keys s \<Longrightarrow> row \<in> set (transfers s) \<Longrightarrow> knows row s"
  by (auto simp: transfer_keys_def knows_def distinct_map inj_on_eq_iff)

lemma onchainTx_Inr:
  assumes inv: "ledger_inv s" and run: "onchainTx input q keys s = Inr (row, s')"
  obtains i a b where "row = (onchain_transfer_row input q i)\<lparr>x_sender_tx := Some a, x_recipient_tx := Some b\<rparr>"
    "i \<notin> x_id ` set (transfers s)" "transfers s' = row # transfers s" "ledger_same s s'"
proof -
  from run obtain i sa x sb a sc t1 sd b se t2 sf k sg st sh where
    1: "new_uuid s = Inr (i, sa)" "insert_transfer (onchain_transfer_row input q i) sa = Inr (x, sb)"
      "new_uuid sb = Inr (a, sc)"
      "insert_txn (onchain_txn input q i (oi_senderOrgId input) ''sender'' '':out'' (oi_recipientOrgId input)
         (numeric_param (q_feeAmountUsdc q)) a) sc = Inr (t1, sd)"
      "new_uuid sd = Inr (b, se)"
      "insert_txn (onchain_txn input q i (oi_recipientOrgId input) ''recipient'' '':in'' (oi_senderOrgId input) 0 b) se = Inr (t2, sf)"
      "new_uuid sf = Inr (k, sg)" "insert_settlement (onchain_settlement input keys i a b k) sg = Inr (st, sh)"
    and upd: "update_transfer i (\<lambda>x. x\<lparr>x_sender_tx := Some a, x_recipient_tx := Some b\<rparr>) sh = Inr (row, s')"
    unfolding onchainTx_def by (elim bndE)
  have sh: "transfers sh = onchain_transfer_row input q i # transfers s" "ledger_same s sh" "i \<notin> x_id ` set (transfers s)"
    using 1 inv by (simp_all add: tx_simps ledger_same_def onchain_transfer_row_def)
  let ?f = "\<lambda>x. x\<lparr>x_sender_tx := Some a, x_recipient_tx := Some b\<rparr>" and ?row = "onchain_transfer_row input q i"
  have x: "x_id ?row = i" by (simp add: onchain_transfer_row_def)
  have old: "map (\<lambda>x. if x_id x = i then ?f x else x) (transfers s) = transfers s"
    by (rule map_idI) (use sh(3) in auto)
  have "row = ?f ?row" and s': "s' = sh\<lparr>transfers := update_rows x_id i ?f (transfers sh)\<rparr>"
    using upd sh(1) x by (simp_all add: update_transfer_Inr_iff)
  moreover have "transfers s' = ?f ?row # transfers s"
    by (simp add: s' update_rows_def sh(1) x old)
  ultimately show thesis using that [of b a i] sh(2,3) by (simp add: ledger_same_def)
qed

definition fresh_row :: "onchain_input \<Rightarrow> transfer \<Rightarrow> bool" where
  "fresh_row input row \<longleftrightarrow> x_status row = ''processing'' \<and> x_mode row = ''STELLAR_ONCHAIN''
     \<and> x_sender_movement row = None \<and> x_recipient_movement row = None"

lemma onchainRow_state:
  assumes inv: "ledger_inv s" and run: "onchainRow input q keys s = (r, s')"
  shows "ledger_same s s' \<and> (transfers s' = transfers s
     \<or> (\<exists>row. r = Inr (row, False) \<and> fresh_row input row \<and> transfers s' = row # transfers s \<and> x_id row \<notin> x_id ` set (transfers s)))
     \<and> (\<forall>row b. r = Inr (row, b) \<longrightarrow> row \<in> set (transfers s') \<and> sender_of row = (oi_senderOrgId input, oi_environment input, ''USDC''))"
proof (cases "onchainTx input q keys s")
  case (Inl e)
  with run inv show ?thesis
    by (auto simp: onchainRow_def run_tx_def act_simps loadTransferByIdempotency_def transfer_key_def sender_of_def
      split: if_splits option.splits dest!: find_row_Some)
next
  case (Inr rs)
  then obtain row s1 where tx: "onchainTx input q keys s = Inr (row, s1)" by (cases rs) auto
  from onchainTx_Inr [OF inv tx] obtain i a b where
    row: "row = (onchain_transfer_row input q i)\<lparr>x_sender_tx := Some a, x_recipient_tx := Some b\<rparr>"
    and new: "i \<notin> x_id ` set (transfers s)" "transfers s1 = row # transfers s" "ledger_same s s1" .
  from run tx have "r = Inr (row, False)" "s' = s1"
    by (simp_all add: onchainRow_def run_tx_def act_simps)
  with row new show ?thesis by (simp add: fresh_row_def sender_of_def onchain_transfer_row_def)
qed

lemma onchainRow_keys:
  "ledger_inv s \<Longrightarrow> transfer_keys s \<Longrightarrow> onchainRow input q keys s = (r, s') \<Longrightarrow> transfer_keys s'"
  using onchainRow_state [of s input q keys r s'] by (auto simp: transfer_keys_def)

lemma keeps_sum [keeps_intros]:
  "(\<And>e. keeps (a e)) \<Longrightarrow> (\<And>x. keeps (b x)) \<Longrightarrow> keeps (case y of Inl e \<Rightarrow> a e | Inr x \<Rightarrow> b x)"
  by (cases y) simp_all

lemma keeps_guards [keeps_intros, simp]: "keeps (onchainGuards sd input q)"
  unfolding onchainGuards_def onchainWallets_def walletActive_def Let_def by (intro keeps_intros)

text \<open>A run of the transfer: refused, answered from a row that is there, or carried out for its row.\<close>

lemma executeOnchain_cases:
  assumes inv: "ledger_inv s" and keys: "transfer_keys s" and run: "executeOnchainInternalTransfer sd input s = (r, s')"
  obtains (refused) "ledger_same s s'" "transfers s' = transfers s"
  | (answered) row where "ledger_same s s'" "r = Inr row" "transfers s' = transfers s
       \<or> fresh_row input row \<and> transfers s' = row # transfers s \<and> x_id row \<notin> x_id ` set (transfers s)"
  | (carried) row s1 q keys where "ledger_same s s1" "transfer_keys s1" "knows row s1" "transfers s1 = transfers s
       \<or> fresh_row input row \<and> transfers s1 = row # transfers s \<and> x_id row \<notin> x_id ` set (transfers s)"
      "sender_of row = (oi_senderOrgId input, oi_environment input, ''USDC'')"
      "runOnchain sd input q keys row s1 = (r, s')"
proof (cases "quoteDayfiTransactionFee (sdk_env sd) (RStr (oi_amount input)) True")
  case (Inl e)
  with run inv show thesis by (intro refused) (auto simp: executeOnchainInternalTransfer_def act_simps)
next
  case (Inr q)
  with run have "abnd (onchainGuards sd input q) (\<lambda>keys.
    abnd (onchainRow input q keys) (\<lambda>(row, answered).
    if answered \<or> x_status row = ''completed'' then aret row else runOnchain sd input q keys row)) s = (r, s')"
    by (simp add: executeOnchainInternalTransfer_def act_simps)
  then show thesis
  proof (cases rule: abnd_keeps_cases [OF keeps_guards inv, consumes 1, case_names err go])
    case (err e)
    then show thesis by (intro refused) (simp_all add: unchanged_def)
  next
    case (go ks s0)
    obtain r1 s1 where or: "onchainRow input q ks s0 = (r1, s1)" by (cases "onchainRow input q ks s0") auto
    have inv0: "ledger_inv s0" by (rule unchanged_inv [OF go(2)])
    have same0: "ledger_same s s0" "transfers s0 = transfers s" using go(2) by (simp_all add: unchanged_def)
    have keys0: "transfer_keys s0" using keys same0(2) by (simp add: transfer_keys_def)
    note st = onchainRow_state [OF inv0 or]
    have same1: "ledger_same s s1" using ledger_same_trans [OF same0(1)] st by blast
    note keys1 = onchainRow_keys [OF inv0 keys0 or]
    show thesis
    proof (cases r1)
      case (Inl e)
      with go(3) or have "r = Inl e" "s' = s1" by (auto simp: abnd_def)
      with st Inl same1 same0 show thesis by (intro refused) auto
    next
      case (Inr rb)
      obtain row b where rb: "rb = (row, b)" by (cases rb)
      with go(3) or Inr have rest: "(if b \<or> x_status row = ''completed'' then aret row else runOnchain sd input q ks row) s1 = (r, s')"
        by (simp add: abnd_def)
      have rows: "transfers s1 = transfers s \<or> fresh_row input row \<and> transfers s1 = row # transfers s \<and> x_id row \<notin> x_id ` set (transfers s)"
        using st Inr rb same0(2) by auto
      show thesis
      proof (cases "b \<or> x_status row = ''completed''")
        case True
        with rest have "s' = s1" "r = Inr row" by (simp_all add: act_simps)
        with rows same1 show thesis by (intro answered) auto
      next
        case False
        with rest have go: "runOnchain sd input q ks row s1 = (r, s')" by simp
        have mem: "row \<in> set (transfers s1)" "sender_of row = (oi_senderOrgId input, oi_environment input, ''USDC'')"
          using st Inr rb by auto
        show thesis by (rule carried [OF same1 keys1 keys_known [OF keys1 mem(1)] rows mem(2) go])
      qed
    qed
  qed
qed

end
