(* ===== verification/Onchain_Examples.thy ===== *)
theory Onchain_Examples
  imports Onchain_Facts Service_Examples
begin

text \<open>
  Concrete data for transfers on Stellar: two organisations with active accounts, a chain that takes a
  payment without an answer, and one that times out.
\<close>

definition ex_onchain_env :: "(string \<times> string) list" where
  "ex_onchain_env = [(''DAYFI_STELLAR_FEE_PAYER_SECRET'', CHR ''S'' # replicate 55 CHR ''F''),
     (''DAYFI_INFRA_FEE_ORG_ID'', ''beta''), (''DAYFI_TRANSACTION_FEE_USDC'', ''0.5'')]"

definition ex_chain :: sdk where
  "ex_chain = ex_sdk ex_onchain_env"

definition ex_live :: "(string \<times> string) + submit_reply \<Rightarrow> horizon_tx option \<Rightarrow> sdk" where
  "ex_live reply seen = (ex_sdk ((''DAYFI_STELLAR_SETTLEMENT_MODE'', ''live'') # ex_onchain_env))\<lparr>
     sdk_loadAccount := (\<lambda>url pk. Some [\<lparr>hb_code = Some ''USDC'', hb_issuer = Some TESTNET_USDC_ISSUER, hb_type = None,
       hb_balance = ''0''\<rparr>]),
     sdk_submitXdr := (\<lambda>url passphrase xdr. reply), sdk_horizonTx := (\<lambda>url h. seen)\<rparr>"

definition ex_silent :: sdk where
  "ex_silent = ex_live (Inr \<lparr>su_hash = Some ''hash'', su_ledger = None, su_fee_charged = Some ''100''\<rparr>) None"

definition ex_pair :: db where
  "ex_pair = snd (provisionOrgStellarAccount ex_chain ''gamma'' ''test'' None (snd (provisionOrgStellarAccount ex_chain ''acme'' ''test''
     None (snd (bootstrapOrgWallets ''gamma'' (ex_funded\<lparr>orgs := \<lparr>o_id = ''gamma'', o_slug = ''gamma'', o_name = ''gamma''\<rparr> # orgs ex_funded\<rparr>))))))"

definition ex_send :: onchain_input where
  "ex_send = \<lparr>oi_senderOrgId = ''acme'', oi_recipientOrgId = ''gamma'', oi_environment = Test, oi_amount = ''20'',
     oi_idempotencyKey = Some ''order-1'', oi_fingerprint = ''fp'', oi_reason = None\<rparr>"

definition ex_sent :: "(js_error + transfer) \<times> db" where
  "ex_sent = executeOnchainInternalTransfer ex_silent ex_send ex_pair"

definition ex_done :: "(js_error + transfer) \<times> db" where
  "ex_done = executeOnchainInternalTransfer ex_chain ex_send ex_pair"

lemma ex_pair_facts: "ledger_inv ex_pair" "transfer_keys ex_pair" "length (transfers ex_pair) = 0"
  by code_simp+

end
