(* ===== verification/Onchain_Properties.thy ===== *)
theory Onchain_Properties
  imports Onchain_Facts Onchain_Examples
begin

text \<open>
  Properties of the on-chain internal transfer: what the sender keeps while the chain has not confirmed,
  what a confirmed payment moves, and that a completed transfer is booked on the ledger.
\<close>

lemma ex_silent_never: "\<not> may_confirm ex_silent"
proof -
  have live: "getStellarSettlementMode ex_silent \<noteq> ''mock''" by code_simp
  have horizon: "sdk_getTransaction ex_silent url h = None" "sdk_horizonTx ex_silent url h = None" for url h
    by (simp_all add: ex_silent_def ex_live_def ex_sdk_def)
  have "sp_ledger p = None" if "submitPreparedSponsoredPayment ex_silent e = Inr p" for e p
    using that live
    by (auto simp: submitPreparedSponsoredPayment_def Let_def ex_silent_def ex_live_def bind_sum_Inr sponsored_result_def
      split: if_splits)
  moreover have "\<not> ve_confirmed v" if "verifyUsdcPayment ex_silent h = Inr v" for h v
    using that live horizon by (auto simp: verifyUsdcPayment_def verifyOnHorizon_def bind_sum_Inr)
  ultimately show ?thesis using live by (auto simp: may_confirm_def)
qed

definition ex_sent_row :: transfer where
  "ex_sent_row = hd (transfers (snd ex_sent))"

definition ex_quote :: fee_quote where
  "ex_quote = \<lparr>q_feeAmountUsdc = ''0.5'', q_transferAmount = ''20'', q_customerDebitAmount = ''20.5'',
     q_feeCharged = True, q_feePolicyAmountUsdc = ''0.5'', q_feeRevenueAmount = ''0.5'',
     q_estimatedNetworkFeeAmount = ''0.00001'', q_actualNetworkFeeAmount = None\<rparr>"

definition ex_payment :: onchain_payment where
  "ex_payment = \<lparr>oc_hash = ''hash'', oc_source = [], oc_destination = [], oc_amount = ''20'', oc_feePayer = [], oc_feeXlm = None,
     oc_feeStroops = None, oc_ledger = Some 7\<rparr>"

definition ex_settled :: "(js_error + transfer) \<times> db" where
  "ex_settled = finalizeConfirmed ex_silent ex_sent_row ex_payment ex_quote (s_id (hd (settlements (snd ex_sent)))) (snd ex_sent)"

definition ready_to_finalize :: "transfer \<Rightarrow> db \<Rightarrow> bool" where
  "ready_to_finalize row s \<longleftrightarrow> ledger_inv s \<and> parseUsdcToMinor (RStr (to_fixed7 (x_amount row))) = Inr 200000000
     \<and> leg_key (id_text (x_sender_tx row)) '':finalize'' \<notin> m_key ` set (movements s)
     \<and> leg_key (id_text (x_recipient_tx row)) '':credit'' \<notin> m_key ` set (movements s)
     \<and> leg_key (id_text (x_sender_tx row)) '':fee_finalize'' \<notin> m_key ` set (movements s)
     \<and> leg_key (id_text (x_sender_tx row)) '':fee_revenue'' \<notin> m_key ` set (movements s)"

lemma ex_sent_ready: "case ex_sent of (r, s) \<Rightarrow> ready_to_finalize (hd (transfers s)) s \<and> balances s (''acme'', Test, ''USDC'') = (159 / 2, 0, 41 / 2)
    \<and> succeeded (finalizeConfirmed ex_silent (hd (transfers s)) ex_payment ex_quote (s_id (hd (settlements s))) s)"
  by code_simp

section \<open>The sender holds the money until the chain confirms\<close>

fun in_hand :: "balance \<Rightarrow> rat" where
  "in_hand (a, p, l) = a + p + l"

definition still_held :: "account \<Rightarrow> db \<Rightarrow> db \<Rightarrow> bool" where
  "still_held k s0 s \<longleftrightarrow> in_hand (balances s k) = in_hand (balances s0 k) \<and> (\<forall>k'. k' \<noteq> k \<longrightarrow> balances s k' = balances s0 k')"

definition held :: "db \<Rightarrow> transfer \<Rightarrow> db \<Rightarrow> bool" where
  "held s0 row s \<longleftrightarrow> ledger_inv s \<and> knows row s \<and> still_held (sender_of row) s0 s"

lemma in_hand_move:
  "spec_step OpLock b x = Some b' \<Longrightarrow> in_hand b' = in_hand b" "spec_step OpRelease b x = Some b' \<Longrightarrow> in_hand b' = in_hand b"
  by (cases b; auto split: if_splits)+

lemma held_op:
  assumes "account_of params = sender_of row" and "\<And>b x b'. spec_step op b x = Some b' \<Longrightarrow> in_hand b' = in_hand b"
  shows "inv_act (held s0 row) (run_op op params)"
  unfolding inv_act_def
proof (intro allI impI)
  fix s r s' assume held: "held s0 row s" and run: "run_op op params s = (r, s')"
  then have inv: "ledger_inv s" by (simp add: held_def)
  from inv run show "held s0 row s'"
  proof (cases rule: run_op_cases)
    case (posted m)
    with run have ok: "run_op op params s = (Inr (m, False), s')" by simp
    show ?thesis
      using held posted assms(2) [OF run_op_refines(1) [OF inv ok]] run_op_refines(2) [OF inv ok]
      by (simp add: held_def still_held_def knows_def assms(1))
  qed (use held in simp_all)
qed

lemma knows_patched:
  assumes "knows row s" and "patched f (transfers s) (transfers s')" and "\<And>x. parties (f x) = parties x"
  shows "knows row s'"
proof -
  have ids: "x_id (f x) = x_id x" for x using assms(3) [of x] by (simp add: parties_def)
  have "parties y = parties row" if "y \<in> set (transfers s')" "x_id y = x_id row" for y
    using assms that ids unfolding knows_def patched_def by metis
  then show ?thesis by (simp add: knows_def)
qed

interpretation held: transfer_view "held s0 row" row for s0 row
proof unfold_locales
  fix s s' f assume "held s0 row s" "ledger_inv s'" "movements s' = movements s" "balances s' = balances s"
    "patched f (transfers s) (transfers s')" "calm f"
  then show "held s0 row s'" by (auto simp: held_def still_held_def calm_def intro: knows_patched)
next
  fix params assume "account_of params = sender_of row"
  then show "inv_act (held s0 row) (run_op OpLock params)" "inv_act (held s0 row) (run_op OpRelease params)"
    by (blast intro: held_op in_hand_move)+
qed (auto simp: held_def still_held_def knows_def)

text \<open>C6: Nothing is paid before the chain confirms. As long as no submission returns a ledger number and no
  verification confirms, every run of the on-chain transfer - accepted, refused or failed half way, first
  request or replay - leaves each other account of the ledger as it is, and what the sender holds in all
  (available, pending and locked) is unchanged: money only moves between available and locked.\<close>

theorem unconfirmed_transfer_keeps_money:
  assumes inv: "ledger_inv s" "transfer_keys s" and silent: "\<not> may_confirm sd"
    and run: "executeOnchainInternalTransfer sd input s = (r, s')"
  shows "still_held (oi_senderOrgId input, oi_environment input, ''USDC'') s s'"
  using inv run
proof (cases rule: executeOnchain_cases)
  case (carried row s1 q keys)
  have "held s row s1" using carried(1,3) by (simp add: held_def still_held_def ledger_same_def)
  moreover have "held.finalizes s row sd" using silent by (simp add: held.finalizes_def)
  ultimately have "held s row s'" using held.run_inv [OF _ carried(5)] carried(6) inv_actD by blast
  with carried(5) show ?thesis by (simp add: held_def)
qed (simp_all add: still_held_def ledger_same_def)

theorem unconfirmed_transfer_keeps_money_witness:
  "still_held (''acme'', Test, ''USDC'') ex_pair (snd ex_sent) \<and> balances (snd ex_sent) (''acme'', Test, ''USDC'') = (159 / 2, 0, 41 / 2)"
proof -
  have run: "executeOnchainInternalTransfer ex_silent ex_send ex_pair = (fst ex_sent, snd ex_sent)" by (simp add: ex_sent_def)
  have "oi_senderOrgId ex_send = ''acme''" "oi_environment ex_send = Test" by (simp_all add: ex_send_def)
  moreover have "balances (snd ex_sent) (''acme'', Test, ''USDC'') = (159 / 2, 0, 41 / 2)" using by_run [OF ex_sent_ready] by simp
  ultimately show ?thesis
    using unconfirmed_transfer_keeps_money [OF ex_pair_facts(1,2) ex_silent_never run] by simp
qed

section \<open>A completed transfer is on the ledger\<close>

definition booked :: "movement list \<Rightarrow> transfer \<Rightarrow> bool" where
  "booked ms x \<longleftrightarrow> entry ms (leg_key (id_text (x_sender_tx x)) '':finalize'') (x_sender_movement x)
     \<and> entry ms (leg_key (id_text (x_recipient_tx x)) '':credit'') (x_recipient_movement x)"

definition onchain_inv :: "db \<Rightarrow> bool" where
  "onchain_inv s \<longleftrightarrow> ledger_inv s \<and> transfer_keys s \<and> (\<forall>x \<in> set (transfers s).
     x_mode x = ''STELLAR_ONCHAIN'' \<longrightarrow> x_status x = ''completed'' \<longrightarrow> booked (movements s) x)"

text \<open>The same while the transfer of one row is carried out; \<open>M\<close> are movements that are on the ledger.\<close>

definition booking :: "transfer \<Rightarrow> movement set \<Rightarrow> db \<Rightarrow> bool" where
  "booking row M s \<longleftrightarrow> onchain_inv s \<and> knows row s \<and> M \<subseteq> set (movements s)"

lemma booked_mono: "booked ms x \<Longrightarrow> set ms \<subseteq> set ms' \<Longrightarrow> booked ms' x"
  by (auto simp: booked_def intro: entry_mono)

lemma booked_calm: "calm f \<Longrightarrow> booked ms (f x) = booked ms x"
  by (simp add: calm_def booked_def parties_def)

lemma onchain_grows:
  assumes "onchain_inv s" and "ledger_inv s'" and "set (movements s) \<subseteq> set (movements s')" and "transfers s' = transfers s"
  shows "onchain_inv s'"
  using assms by (auto simp: onchain_inv_def transfer_keys_def intro: booked_mono)

lemma onchain_op: "onchain_inv s \<Longrightarrow> run_op op params s = (r, s') \<Longrightarrow> onchain_inv s' \<and> set (movements s) \<subseteq> set (movements s')
    \<and> transfers s' = transfers s"
proof -
  assume inv: "onchain_inv s" and run: "run_op op params s = (r, s')"
  then have "ledger_inv s" by (simp add: onchain_inv_def)
  from this run show ?thesis
    by (cases rule: run_op_cases) (use inv in \<open>auto intro: onchain_grows\<close>)
qed

lemma booking_op [inv_intros]: "inv_act (booking row M) (run_op op params)"
  unfolding inv_act_def
proof (intro allI impI)
  fix s r s' assume b: "booking row M s" and run: "run_op op params s = (r, s')"
  have "onchain_inv s' \<and> set (movements s) \<subseteq> set (movements s') \<and> transfers s' = transfers s"
    by (rule onchain_op [OF _ run]) (use b in \<open>simp add: booking_def\<close>)
  with b show "booking row M s'" by (auto simp: booking_def knows_def)
qed

interpretation booking: transfer_view "booking row M" row for row M
proof unfold_locales
  fix s s' f assume b: "booking row M s" and s': "ledger_inv s'" "movements s' = movements s" "balances s' = balances s"
    and p: "patched f (transfers s) (transfers s')" and calm: "calm f"
  have "booked (movements s') y" if "y \<in> set (transfers s')" "x_mode y = ''STELLAR_ONCHAIN''" "x_status y = ''completed''" for y
    using that b p calm unfolding patched_def calm_def booking_def onchain_inv_def s'(2) by metis
  moreover have "knows row s'"
    by (rule knows_patched [OF _ p]) (use b calm in \<open>simp_all add: booking_def calm_def\<close>)
  ultimately show "booking row M s'"
    using b s' p by (simp add: booking_def onchain_inv_def transfer_keys_def patched_def)
next
  fix params show "inv_act (booking row M) (run_op OpLock params)" "inv_act (booking row M) (run_op OpRelease params)"
    by (rule booking_op)+
next
  fix s s' assume "booking row M s" "ledger_inv s'" "movements s' = movements s" "transfers s' = transfers s"
  then show "booking row M s'" using onchain_grows [of s s'] by (simp add: booking_def knows_def)
qed (simp_all add: booking_def onchain_inv_def)

lemma leg_key_normal: "q \<noteq> [] \<Longrightarrow> \<not> is_ws (last q) \<Longrightarrow> normalizeKey (Some (leg_key i q)) = leg_key i q"
  unfolding leg_key_def using normalizeKey_wrapped [of "''internal_transfer:''" q i] by (simp add: is_ws_def)

lemma onchain_leg_keys [simp]:
  "normalizeKey (Some (leg_key i '':finalize'')) = leg_key i '':finalize''"
  "normalizeKey (Some (leg_key i '':credit'')) = leg_key i '':credit''"
  "normalizeKey (Some (leg_key i '':fee_finalize'')) = leg_key i '':fee_finalize''"
  "normalizeKey (Some (leg_key i '':fee_revenue'')) = leg_key i '':fee_revenue''"
  by (rule leg_key_normal; simp add: is_ws_def)+

lemma leg_account: "account_of (leg o' e a k mt rt i r meta) = (o', e, ''USDC'')"
  by (simp add: account_of_def leg_def)

lemma leg_sel [simp]: "p_idempotencyKey (leg o' e a k mt rt i r meta) = Some k" "p_amount (leg o' e a k mt rt i r meta) = RStr a"
  by (simp_all add: leg_def)

text \<open>A ledger call that answered: the movement it names is on the ledger.\<close>

lemma booking_posted:
  assumes b: "booking row M s" and run: "run_op op params s = (Inr (m, dup), s')"
  shows "booking row (insert m M) s' \<and> m_key m = normalizeKey (p_idempotencyKey params)"
proof -
  have inv: "ledger_inv s" using b by (simp add: booking_def onchain_inv_def)
  have "m \<in> set (movements s') \<and> m_key m = normalizeKey (p_idempotencyKey params)"
    using inv run by (cases rule: run_op_cases) (use run in auto)
  moreover have "booking row M s'" using inv_actD [OF booking_op b run] .
  ultimately show ?thesis by (simp add: booking_def)
qed

lemma booking_fees [inv_intros]: "inv_act (booking row M) (settleFee x p q a rv)"
proof -
  have frame: "booking row M (uuid_next_update g s)" "booking row M (fees_update h s)" if "booking row M s" for g h s
    using that by (simp_all add: booking_def onchain_inv_def transfer_keys_def knows_def)
  have "inv_act (booking row M) (run_tx (update_fee i f))" "inv_act (booking row M) (run_tx (bnd new_uuid (\<lambda>i. insert_fee (g i))))" for i f g
    unfolding inv_act_def by (auto simp: run_tx_def update_fee_def insert_fee_def new_uuid_def bnd_def split: sum.splits option.splits if_splits
      intro: frame)
  moreover have "inv_act (booking row M) (finalizeLockedDebit params)" "inv_act (booking row M) (creditOrgWallet params)" for params
    using booking_op [of row M OpFinalize params] booking_op [of row M OpCredit params] by simp_all
  ultimately show ?thesis unfolding settleFee_def Let_def by (intro inv_intros)
qed

lemma booking_complete:
  assumes "parties x = parties row" and "d \<in> M" "m_key d = leg_key (id_text (x_sender_tx row)) '':finalize''"
    and "c \<in> M" "m_key c = leg_key (id_text (x_recipient_tx row)) '':credit''"
  shows "inv_act (booking row M) (run_tx (update_transfer (x_id x) (completed_transfer d c fee p)))"
  unfolding inv_act_def
proof (intro allI impI)
  fix s r s' assume b: "booking row M s" and run: "run_tx (update_transfer (x_id x) (completed_transfer d c fee p)) s = (r, s')"
  let ?f = "completed_transfer d c fee p"
  have par: "parties (?f y) = parties y" for y by (simp add: completed_transfer_def parties_def)
  then have ids: "x_id (?f y) = x_id y" for y by (simp add: parties_def)
  show "booking row M s'"
  proof (cases "s' = s")
    case False
    with run have s': "s' = s\<lparr>transfers := update_rows x_id (x_id x) ?f (transfers s)\<rparr>"
      by (auto simp: run_tx_def update_transfer_def split: option.splits if_splits)
    have upd: "patched ?f (transfers s) (transfers s')" by (simp add: s' patched_update_rows ids)
    have "booked (movements s) (?f y)" if "y \<in> set (transfers s)" "x_id y = x_id x" for y
    proof -
      have "parties y = parties row" using b that assms(1) by (simp add: booking_def knows_def parties_def)
      then have "x_sender_tx (?f y) = x_sender_tx row" "x_recipient_tx (?f y) = x_recipient_tx row"
        by (simp_all add: parties_def completed_transfer_def)
      moreover have "d \<in> set (movements s)" "c \<in> set (movements s)" using b assms(2,4) by (auto simp: booking_def)
      ultimately show ?thesis using assms(3,5) by (auto simp: booked_def entry_def completed_transfer_def)
    qed
    then have "\<forall>y \<in> set (transfers s'). x_mode y = ''STELLAR_ONCHAIN'' \<longrightarrow> x_status y = ''completed'' \<longrightarrow> booked (movements s) y"
      using b by (auto simp: s' update_rows_def booking_def onchain_inv_def)
    moreover have "knows row s'" by (rule knows_patched [OF _ upd par]) (use b in \<open>simp add: booking_def\<close>)
    ultimately show ?thesis
      using b upd by (simp add: booking_def onchain_inv_def transfer_keys_def patched_def s')
  qed (use b in simp)
qed

lemma booking_finalize:
  assumes "parties x = parties row"
  shows "inv_act (booking row M) (finalizeConfirmed sd x p q i)"
proof -
  have par: "x_sender_tx x = x_sender_tx row" "x_recipient_tx x = x_recipient_tx row" using assms by (simp_all add: parties_def)
  have rest: "inv_act (booking row (insert (fst c) (insert (fst d) M))) (abnd (settleFee x p q a rv) (\<lambda>feeId.
    abnd (sql_settlement i (onchain_confirmed sd p)) (\<lambda>_.
    abnd (sql_txns (present_ids [x_sender_tx x, x_recipient_tx x]) g) (\<lambda>_.
    run_tx (update_transfer (x_id x) (completed_transfer (fst d) (fst c) feeId p))))))"
    if "m_key (fst d) = leg_key (id_text (x_sender_tx row)) '':finalize''" "m_key (fst c) = leg_key (id_text (x_recipient_tx row)) '':credit''"
    for a rv c d g
    by (intro inv_act_abnd booking_fees booking.settlement_inv booking.txns_inv, rule booking_complete [OF assms])
      (use that in simp_all)
  have sub: "booking row (insert m M) s \<Longrightarrow> booking row M s" for m M s by (simp add: booking_def)
  have debit: "inv_act (booking row M) (finalizeTransferLeg x a h)" "inv_act (booking row M) (creditTransferLeg x a h)" for a h M
    using booking_op [of row M OpFinalize] booking_op [of row M OpCredit]
    by (simp_all add: finalizeTransferLeg_def creditTransferLeg_def)
  have posted: "booking row (insert (fst md) N) s' \<and> m_key (fst md) = normalizeKey (p_idempotencyKey params)"
    if "booking row N s" "run_op op params s = (Inr md, s')" for s s' md op params N
    using booking_posted [of row N s op params "fst md" "snd md"] that by simp
  show ?thesis
    unfolding finalizeConfirmed_def
    by (rule inv_act_abnd, rule booking.keeps_inv, rule keeps_loads, rule inv_act_abnd, rule booking.keeps_inv,
        rule keeps_ensureFeeRevenueOrg,
        rule inv_act_strengthen [where P = "\<lambda>d. m_key (fst d) = leg_key (id_text (x_sender_tx row)) '':finalize''"
          and J = "\<lambda>d. booking row (insert (fst d) M)", OF debit(1) _ _ sub],
        use posted [of M _ OpFinalize] par in \<open>simp add: finalizeTransferLeg_def\<close>,
        rule inv_act_strengthen [where P = "\<lambda>c. m_key (fst c) = leg_key (id_text (x_recipient_tx row)) '':credit''"
          and J = "\<lambda>c. booking row (insert (fst c) (insert (fst d) M))" for d, OF debit(2) _ rest sub],
        use posted [of _ _ OpCredit] par in \<open>simp add: creditTransferLeg_def\<close>)
qed

text \<open>The states the transfers of an organisation go through, with any other operation of the ledger in between\<close>

inductive onchain_reachable :: "db \<Rightarrow> bool" where
  start: "ledger_inv s \<Longrightarrow> transfers s = [] \<Longrightarrow> onchain_reachable s"
| execute: "onchain_reachable s \<Longrightarrow> executeOnchainInternalTransfer sd input s = (r, s') \<Longrightarrow> onchain_reachable s'"
| confirm: "onchain_reachable s \<Longrightarrow> row \<in> set (transfers s) \<Longrightarrow> confirmOnchainInternalTransfer sd row s = (r, s') \<Longrightarrow>
    onchain_reachable s'"
| operation: "onchain_reachable s \<Longrightarrow> run_op op params s = (r, s') \<Longrightarrow> onchain_reachable s'"

lemma booking_finalizes: "booking.finalizes row M sd"
  by (simp add: booking.finalizes_def booking_finalize)

lemma onchain_same:
  assumes "onchain_inv s" and "ledger_same s s'" and "transfers s' = transfers s \<or> fresh_row input row \<and> transfers s' = row # transfers s
    \<and> x_id row \<notin> x_id ` set (transfers s)"
  shows "onchain_inv s'"
  using assms by (auto simp: onchain_inv_def ledger_same_def transfer_keys_def fresh_row_def)

lemma reachable_inv: "onchain_reachable s \<Longrightarrow> onchain_inv s"
proof (induction rule: onchain_reachable.induct)
  case (execute s sd input r s')
  then have inv: "ledger_inv s" "transfer_keys s" by (simp_all add: onchain_inv_def)
  from inv execute.hyps(2) show ?case
  proof (cases rule: executeOnchain_cases)
    case refused
    with execute.IH show ?thesis by (auto intro: onchain_same)
  next
    case (answered row)
    with execute.IH show ?thesis by (auto intro: onchain_same)
  next
    case (carried row s1 q keys)
    have "booking row {} s1" using carried onchain_same [OF execute.IH] by (auto simp: booking_def)
    then have "booking row {} s'"
      using booking.run_inv [OF booking_finalizes carried(5)] carried(6) inv_actD by blast
    then show ?thesis by (simp add: booking_def)
  qed
next
  case (confirm s row sd r s')
  then have "booking row {} s" by (simp add: booking_def keys_known onchain_inv_def)
  then have "booking row {} s'"
    using booking.confirm_inv [OF booking_finalizes refl] confirm.hyps(3) inv_actD by blast
  then show ?case by (simp add: booking_def)
next
  case (operation s op params r s')
  then show ?case using onchain_op by blast
qed (simp add: onchain_inv_def transfer_keys_def)

text \<open>C5: A completed transfer is booked. Whatever transfers are executed, replayed and confirmed, on whatever
  chain, and whatever other operations run on the ledger in between: an on-chain transfer whose row says
  "completed" names two movements that are on the ledger, the debit of the sender's lock under the key of
  its own transaction and the credit of the recipient under the key of his.\<close>

theorem completed_transfer_is_booked:
  assumes "onchain_reachable s" and "x \<in> set (transfers s)" and "x_mode x = ''STELLAR_ONCHAIN''" and "x_status x = ''completed''"
  shows "booked (movements s) x"
  using reachable_inv [OF assms(1)] assms(2-4) by (simp add: onchain_inv_def)

theorem completed_transfer_is_booked_witness:
  "\<exists>x \<in> set (transfers (snd ex_done)). x_status x = ''completed'' \<and> booked (movements (snd ex_done)) x"
proof -
  have "list_ex (\<lambda>x. x_mode x = ''STELLAR_ONCHAIN'' \<and> x_status x = ''completed'') (transfers (snd ex_done))" by code_simp
  then obtain x where x: "x \<in> set (transfers (snd ex_done))" "x_mode x = ''STELLAR_ONCHAIN''" "x_status x = ''completed''"
    by (auto simp: list_ex_iff)
  have "onchain_reachable ex_pair" using ex_pair_facts by (intro onchain_reachable.start) simp_all
  then have "onchain_reachable (snd ex_done)"
    by (rule onchain_reachable.execute [of _ ex_chain ex_send "fst ex_done"]) (simp add: ex_done_def)
  from completed_transfer_is_booked [OF this x] x show ?thesis by blast
qed

section \<open>What a confirmed payment moves\<close>

lemma fresh_leg:
  assumes "ledger_inv s" and "run_op op (leg o' e a k mt rt i r meta) s = (Inr md, s')" and "normalizeKey (Some k) = k"
    and "k \<notin> m_key ` set (movements s)" and "parseAmount (RStr a) = Inr x"
  shows "ledger_inv s'" "spec_post op (o', e, ''USDC'') x (balances s) = Some (balances s')"
    "m_key ` set (movements s') = insert k (m_key ` set (movements s))" "money s' = money s + op_delta op x"
  using fresh_op [OF assms(1,2), of x] assms(3-5) by (simp_all add: leg_account)

lemmas finalize_leg = fresh_leg [where op = OpFinalize, unfolded run_op.simps op_delta.simps]
lemmas credit_leg = fresh_leg [where op = OpCredit, unfolded run_op.simps op_delta.simps]

lemma leg_keys_differ [simp]: 
  "leg_key i '':finalize'' \<noteq> leg_key j '':credit''" "leg_key i '':fee_finalize'' \<noteq> leg_key i '':finalize''"
  "leg_key i '':fee_finalize'' \<noteq> leg_key j '':credit''" "leg_key i '':fee_revenue'' \<noteq> leg_key i '':finalize''"
  "leg_key i '':fee_revenue'' \<noteq> leg_key j '':credit''" "leg_key i '':fee_revenue'' \<noteq> leg_key i '':fee_finalize''"
proof -
  have last: "last (leg_key i (q @ [c])) = c" for i q c by (simp add: leg_key_def)
  show "leg_key i '':finalize'' \<noteq> leg_key j '':credit''" "leg_key i '':fee_finalize'' \<noteq> leg_key j '':credit''"
    "leg_key i '':fee_revenue'' \<noteq> leg_key j '':credit''"
    using last [of i "'':finaliz''" "CHR ''e''"] last [of i "'':fee_finaliz''" "CHR ''e''"]
      last [of i "'':fee_revenu''" "CHR ''e''"] last [of j "'':credi''" "CHR ''t''"] by auto
qed (simp_all add: leg_key_def)

text \<open>C13: A confirmed transfer moves exactly its amount and its fee. When the chain has confirmed the payment and
  none of its entries is on the ledger yet, the ledger makes four abstract steps: the amount leaves the
  sender's locked balance and becomes available to the recipient, the fee leaves the sender's locked
  balance and becomes available to the revenue organisation. The supply is unchanged, and the row says
  "completed".\<close>

theorem confirmed_transfer_moves:
  assumes inv: "ledger_inv s" and amount: "parseUsdcToMinor (RStr (to_fixed7 (x_amount row))) = Inr m" "0 < m"
    and fee: "q_feeCharged q" "q_feeAmountUsdc q = formatUsdc f" "0 < f"
    and fresh: "leg_key (id_text (x_sender_tx row)) '':finalize'' \<notin> m_key ` set (movements s)"
      "leg_key (id_text (x_recipient_tx row)) '':credit'' \<notin> m_key ` set (movements s)"
      "leg_key (id_text (x_sender_tx row)) '':fee_finalize'' \<notin> m_key ` set (movements s)"
      "leg_key (id_text (x_sender_tx row)) '':fee_revenue'' \<notin> m_key ` set (movements s)"
    and revenue: "fst (ensureFeeRevenueOrg (sdk_env sd) s) = Inr rg"
    and run: "finalizeConfirmed sd row p q i s = (Inr x, s')"
  shows "\<exists>b1 b2 b3. spec_post OpFinalize (sender_of row) (of_int m / 10000000) (balances s) = Some b1
    \<and> spec_post OpCredit (x_recipient row, x_env row, ''USDC'') (of_int m / 10000000) b1 = Some b2
    \<and> spec_post OpFinalize (sender_of row) (of_int f / 10000000) b2 = Some b3
    \<and> spec_post OpCredit (rg, x_env row, ''USDC'') (of_int f / 10000000) b3 = Some (balances s')
    \<and> money s' = money s \<and> x_status x = ''completed''"
proof -
  let ?S = "id_text (x_sender_tx row)" and ?R = "id_text (x_recipient_tx row)" and ?a = "formatUsdc m"
  from run [unfolded finalizeConfirmed_def] amount(1) revenue obtain s0 d s1 c s2 feeId s3 u4 s4 u5 s5 where
    org: "ensureFeeRevenueOrg (sdk_env sd) s = (Inr rg, s0)" and debit: "finalizeTransferLeg row ?a (oc_hash p) s0 = (Inr d, s1)"
    and credit: "creditTransferLeg row ?a (oc_hash p) s1 = (Inr c, s2)" and sf: "settleFee row p q ?a rg s2 = (Inr feeId, s3)"
    and st: "sql_settlement i (onchain_confirmed sd p) s3 = (Inr u4, s4)"
    and tx: "sql_txns (present_ids [x_sender_tx row, x_recipient_tx row]) (\<lambda>t. t\<lparr>t_status := ''completed'',
      t_metadata := t_metadata t ++ [''stellarTransactionHash'' \<mapsto> JStr (oc_hash p), ''fundsFinalized'' \<mapsto> JBool True,
        ''fundsLocked'' \<mapsto> JBool True]\<rparr>) s4 = (Inr u5, s5)"
    and fin: "run_tx (update_transfer (x_id row) (completed_transfer (fst d) (fst c) feeId p)) s5 = (Inr x, s')"
    by (elim abndE) (auto simp: stored_usdc_def act_simps)
  note same0 = ensureFeeRevenueOrg_same [OF inv org]
  have inv0: "ledger_inv s0" using same0 by (simp add: ledger_same_def)
  have amt: "parseAmount (RStr ?a) = Inr (of_int m / 10000000)" "parseAmount (RStr (formatUsdc f)) = Inr (of_int f / 10000000)"
    by (rule parseAmount_formatUsdc, fact)+
  have keys0: "m_key ` set (movements s0) = m_key ` set (movements s)" using same0 by (simp add: ledger_same_def)
  have new: "leg_key ?S '':finalize'' \<notin> m_key ` set (movements s0)" "leg_key ?R '':credit'' \<notin> m_key ` set (movements s0)"
    "leg_key ?S '':fee_finalize'' \<notin> m_key ` set (movements s0)" "leg_key ?S '':fee_revenue'' \<notin> m_key ` set (movements s0)"
    using fresh by (simp_all only: keys0 not_False_eq_True)
  note 1 = finalize_leg [OF inv0 debit [unfolded finalizeTransferLeg_def] onchain_leg_keys(1) new(1) amt(1)]
  have "leg_key ?R '':credit'' \<notin> m_key ` set (movements s1)" unfolding 1(3) using new(2) leg_keys_differ(1) [of ?S ?R, symmetric] by simp
  note 2 = credit_leg [OF 1(1) credit [unfolded creditTransferLeg_def] onchain_leg_keys(2) this amt(1)]
  from sf fee(1) obtain fd s2a fc s2b rest where
    fd: "finalizeLockedDebit (leg (x_sender row) (x_env row) (q_feeAmountUsdc q) (leg_key ?S '':fee_finalize'') ''fee_debit''
         ''transaction_fee'' (x_sender_tx row) (Some (''fee:'' @ x_id row))
         (Some (fee_meta row ++ [''stellarTransactionHash'' \<mapsto> JStr (oc_hash p)]))) s2 = (Inr fd, s2a)"
    and fc: "creditOrgWallet (leg rg (x_env row) (q_feeAmountUsdc q) (leg_key ?S '':fee_revenue'') ''fee_revenue''
         ''transaction_fee'' (or_else (x_fee_id row) (x_sender_tx row)) (Some (''fee:'' @ x_id row)) (Some (fee_meta row))) s2a = (Inr fc, s2b)"
    and rest: "balances s3 = balances s2b" "money s3 = money s2b"
    unfolding settleFee_def Let_def
    by (auto simp: act_simps tx_simps update_fee_def split: option.splits if_splits elim!: abndE)
  note f = amt(2) [folded fee(2)]
  have "leg_key ?S '':fee_finalize'' \<notin> m_key ` set (movements s2)" unfolding 2(3) 1(3) using new(3) by simp
  note 3 = finalize_leg [OF 2(1) fd onchain_leg_keys(3) this f]
  have "leg_key ?S '':fee_revenue'' \<notin> m_key ` set (movements s2a)" unfolding 3(3) 2(3) 1(3) using new(4) by simp
  note 4 = credit_leg [OF 3(1) fc onchain_leg_keys(4) this f]
  have last: "balances s' = balances s3" "money s' = money s3" "x_status x = ''completed''"
    using sql_settlement_Inr [OF st] tx fin
    by (auto simp: sql_txns_def run_tx_Inr_iff update_transfer_Inr_iff completed_transfer_def)
  from 1(2,4) 2(2,4) 3(2,4) 4(2,4) last rest same0 show ?thesis by (simp add: ledger_same_def sender_of_def)
qed

theorem confirmed_transfer_moves_witness:
  "money (snd ex_settled) = money (snd ex_sent) \<and> x_status (value_of ex_settled) = ''completed''"
proof -
  have ready: "ready_to_finalize ex_sent_row (snd ex_sent)" "succeeded ex_settled"
    using by_run [OF ex_sent_ready] by (simp_all add: ex_sent_row_def ex_settled_def)
  have fee: "q_feeCharged ex_quote" "q_feeAmountUsdc ex_quote = formatUsdc 5000000" by code_simp+
  have "trim (env_str (sdk_env ex_silent) ''DAYFI_INFRA_FEE_ORG_ID'') = ''beta''" by code_simp
  then have rg: "fst (ensureFeeRevenueOrg (sdk_env ex_silent) (snd ex_sent)) = Inr ''beta''"
    by (simp add: ensureFeeRevenueOrg_def Let_def)
  from succeeded_run [OF ready(2)] have run: "finalizeConfirmed ex_silent ex_sent_row ex_payment ex_quote
      (s_id (hd (settlements (snd ex_sent)))) (snd ex_sent) = (Inr (value_of ex_settled), snd ex_settled)"
    by (simp add: ex_settled_def)
  from confirmed_transfer_moves [OF _ _ _ fee _ _ _ _ _ rg run] ready(1) show ?thesis
    by (auto simp: ready_to_finalize_def)
qed

section \<open>A payment whose submission times out\<close>

text \<open>
  The submission times out although the network takes the payment: the transfer fails and its locks are
  returned, so the sender has his whole balance again while the USDC has left his wallet. Once the
  network reports the payment as successful, the confirmation of the transfer is refused because nothing
  is locked, and the recipient is never credited.
\<close>

definition ex_timeout :: "horizon_tx option \<Rightarrow> sdk" where
  "ex_timeout seen = ex_live (Inl ([], ''timeout'')) seen"

definition ex_lost :: "(js_error + transfer) \<times> db" where
  "ex_lost = executeOnchainInternalTransfer (ex_timeout None) ex_send ex_pair"

definition ex_seen :: horizon_tx where
  "ex_seen = \<lparr>ht_successful = True, ht_ledger = Some 7, ht_fee_charged = Some ''100'', ht_fee_account = None\<rparr>"

definition refused :: "(js_error + 'a) \<Rightarrow> js_error \<Rightarrow> bool" where
  "refused r e = (case r of Inl e' \<Rightarrow> e' = e | Inr _ \<Rightarrow> False)"

lemma timed_out_payment_is_lost:
  "case ex_lost of (r, s) \<Rightarrow> refused r (InfraTransferError ''STELLAR_SUBMIT_FAILED'' 502)
     \<and> balances s (''acme'', Test, ''USDC'') = (100, 0, 0) \<and> map s_external (settlements s) \<noteq> [None]
     \<and> (case confirmOnchainInternalTransfer (ex_timeout (Some ex_seen)) (hd (transfers s)) s of (r', s') \<Rightarrow>
         refused r' (InfraLedgerError ''INSUFFICIENT_LOCKED'' 400)
         \<and> balances s' (''acme'', Test, ''USDC'') = (100, 0, 0) \<and> balances s' (''gamma'', Test, ''USDC'') = (0, 0, 0))"
  by code_simp

text \<open>The quote that is stored with a transfer is read back as it was.\<close>

lemma stored_quote_round_trip: "quote_of_json (quote_json q) = q"
  by (cases "q_actualNetworkFeeAmount q") (simp_all add: quote_of_json_def quote_json_def object_field_def json_truthy_def Let_def)

end
