(* ===== verification/Deposit.thy ===== *)
theory Deposit
  imports Lifecycle
begin

text \<open>
  \<open>src/src/modules/infra/infraStellarDepositService.ts\<close>: USDC that arrives on an organisation's Stellar
  account from outside. A payment is verified on Horizon, its row is written, and the amount is credited
  pending and then released to available under keys made of the transaction's hash. Two loops poll the
  payments of one account and of all active accounts. A view of a deposit is its row.
\<close>

section \<open>The table\<close>

definition deposit_ok :: "deposit \<Rightarrow> bool" where
  "deposit_ok d \<longleftrightarrow> 0 < dp_amount d \<and> List.member [''testnet'', ''mainnet''] (dp_network d)
     \<and> List.member [''detected'', ''verified'', ''pending_ledger'', ''confirmed'', ''rejected'', ''failed''] (dp_status d)"

definition insert_deposit :: "deposit \<Rightarrow> (db, deposit) tx" where
  "insert_deposit d s =
    (if \<not> fits28 (dp_amount d) then Inl NumericOverflow
     else if \<not> deposit_ok d then Inl CheckViolation
     else if dp_id d \<in> dp_id ` set (deposits s) \<or> dp_hash d \<in> dp_hash ` set (deposits s) \<or> dp_key d \<in> dp_key ` set (deposits s)
     then Inl UniqueViolation
     else if \<not> org_exists (dp_org d) s \<or> (case dp_account d of Some a \<Rightarrow> a \<notin> a_id ` set (st_accounts s) | None \<Rightarrow> False)
     then Inl ForeignKeyViolation
     else Inr (d, s\<lparr>deposits := d # deposits s\<rparr>))"

definition sql_deposit :: "string \<Rightarrow> (deposit \<Rightarrow> deposit) \<Rightarrow> (db, unit) act" where
  "sql_deposit i f s = (Inr (), s\<lparr>deposits := update_rows dp_id i f (deposits s)\<rparr>)"

section \<open>Verification on Horizon\<close>

definition getInfraStellarDepositMode :: "sdk \<Rightarrow> string" where
  "getInfraStellarDepositMode sd =
    (let raw = env_word sd ''DAYFI_INFRA_STELLAR_DEPOSIT_MODE'' ''off'' in
     if raw = ''mock'' \<or> raw = ''live'' \<or> raw = ''off'' then raw else ''off'')"

definition depositIdempotencyKey :: "string \<Rightarrow> string" where
  "depositIdempotencyKey hash = ''deposit:'' @ to_lower (trim hash)"

record verified_deposit =
  vd_hash :: string
  vd_source :: "string option"
  vd_destination :: string
  vd_amount :: rat
  vd_issuer :: string
  vd_network :: string
  vd_ledger :: "int option"
  vd_operation :: "string option"

record deposit_check =
  dc_hash :: string
  dc_destination :: "string option"
  dc_amount :: "rat option"
  dc_network :: "string option"

text \<open>\<open>/^[a-f0-9]{64}$/\<close>\<close>

definition is_tx_hash :: "string \<Rightarrow> bool" where
  "is_tx_hash h \<longleftrightarrow> length h = 64 \<and> list_all (\<lambda>c. is_digit c \<or> List.member ''abcdef'' c) h"

definition usdc_payment :: "string \<Rightarrow> horizon_op \<Rightarrow> bool" where
  "usdc_payment issuer op \<longleftrightarrow> ho_type op = ''payment'' \<and> to_upper (ho_code op) = ''USDC'' \<and> ho_issuer op = issuer"

text \<open>The operation is the first USDC payment of the transaction.\<close>

definition checkedDeposit ::
  "stellar_config \<Rightarrow> string \<Rightarrow> string \<Rightarrow> deposit_check \<Rightarrow> horizon_tx \<Rightarrow> horizon_op \<Rightarrow> js_error + verified_deposit" where
  "checkedDeposit cfg issuer hash input t payment =
    (let destination = trim (ho_to payment) in
     case js_Number (RStr (ho_amount payment)) of
       Fin n \<Rightarrow>
         let amount = round7 n in
         if amount \<le> 0 then Inl (InfraStellarDepositError ''INVALID_AMOUNT'' 400)
         else if or_else (dc_destination input) None \<noteq> None \<and> Some destination \<noteq> dc_destination input
         then Inl (InfraStellarDepositError ''WRONG_DESTINATION'' 400)
         else if (case dc_amount input of Some x \<Rightarrow> 1 / 10000000 < \<bar>amount - x\<bar> | None \<Rightarrow> False)
         then Inl (InfraStellarDepositError ''AMOUNT_MISMATCH'' 400)
         else Inr \<lparr>vd_hash = hash, vd_source = or_else (Some (trim (ho_from payment))) None, vd_destination = destination,
           vd_amount = amount, vd_issuer = issuer, vd_network = network_name cfg, vd_ledger = ht_ledger t,
           vd_operation = or_else (Some (ho_id payment)) None\<rparr>
     | _ \<Rightarrow> Inl (InfraStellarDepositError ''INVALID_AMOUNT'' 400))"

definition verifyExternalUsdcDeposit :: "sdk \<Rightarrow> deposit_check \<Rightarrow> js_error + verified_deposit" where
  "verifyExternalUsdcDeposit sd input =
    (let hash = to_lower (trim (dc_hash input)) in
     if \<not> is_tx_hash hash then Inl (InfraStellarDepositError ''INVALID_HASH'' 400)
     else bind_sum (getStellarConfig sd) (\<lambda>cfg.
       let expectedNetwork = or_str (dc_network input) (network_name cfg) in
       if cfg_isTestnet cfg \<noteq> (expectedNetwork = ''testnet'') then Inl (InfraStellarDepositError ''UNSUPPORTED_NETWORK'' 400)
       else if \<not> cfg_isTestnet cfg \<and> getInfraStellarDepositMode sd = ''live''
       then Inl (InfraStellarDepositError ''MAINNET_BLOCKED'' 400)
       else case sdk_horizonTx sd (cfg_horizonUrl cfg) hash of
           None \<Rightarrow> Inl (InfraStellarDepositError ''TX_NOT_FOUND'' 404)
         | Some t \<Rightarrow>
             if \<not> ht_successful t then Inl (InfraStellarDepositError ''TX_FAILED'' 400)
             else case sdk_horizonOps sd (cfg_horizonUrl cfg) hash of
                 None \<Rightarrow> Inl (JsError ''Horizon request failed'')
               | Some ops \<Rightarrow>
                   let issuer = resolveUsdcIssuer sd (cfg_isTestnet cfg) in
                   case find (usdc_payment issuer) ops of
                     None \<Rightarrow> Inl (InfraStellarDepositError ''WRONG_ASSET'' 400)
                   | Some payment \<Rightarrow> checkedDeposit cfg issuer hash input t payment))"

section \<open>Reads and the transaction row\<close>

definition getDepositByHash :: "string \<Rightarrow> (db, deposit option) act" where
  "getDepositByHash hash = aquery (\<lambda>s. find_row dp_hash (to_lower (trim hash)) (deposits s))"

definition getDepositByTransactionId :: "string \<Rightarrow> (db, deposit option) act" where
  "getDepositByTransactionId transactionId = aquery (\<lambda>s. find_row dp_tx (Some transactionId) (deposits s))"

definition deposit_txn :: "account_view \<Rightarrow> verified_deposit \<Rightarrow> string \<Rightarrow> string \<Rightarrow> txn" where
  "deposit_txn account v depositId i =
    \<lparr>t_id = i, t_org = av_orgId account, t_env = av_environment account, t_amount = numeric7 (vd_amount v),
     t_currency = ''USDC'', t_country = None, t_status = ''processing'', t_method = ''crypto'', t_direction = ''deposit'',
     t_fee = 0, t_external_id = Some (''stellar-deposit:'' @ vd_hash v),
     t_metadata = [''type'' \<mapsto> JStr ''stellar_deposit'', ''usdcAmount'' \<mapsto> JNum (vd_amount v),
       ''stellarTxHash'' \<mapsto> JStr (vd_hash v), ''sourcePublicKey'' \<mapsto> opt_json (vd_source v),
       ''destinationPublicKey'' \<mapsto> JStr (vd_destination v), ''settlementRail'' \<mapsto> JStr ''STELLAR'',
       ''depositId'' \<mapsto> JStr depositId, ''ledgerPhase'' \<mapsto> JStr ''pending''],
     t_client_key = None, t_fingerprint = None\<rparr>"

definition ensureDepositTransaction :: "account_view \<Rightarrow> verified_deposit \<Rightarrow> string \<Rightarrow> (db, string) act" where
  "ensureDepositTransaction account v depositId =
    abnd (aquery (\<lambda>s. find (\<lambda>t. t_org t = av_orgId account \<and> t_env t = av_environment account
      \<and> t_metadata t ''stellarTxHash'' = Some (JStr (vd_hash v)) \<and> t_metadata t ''type'' = Some (JStr ''stellar_deposit''))
      (txns s))) (\<lambda>existing. case existing of
        Some t \<Rightarrow> aret (t_id t)
      | None \<Rightarrow> abnd (run_tx (bnd new_uuid (\<lambda>i. insert_txn (deposit_txn account v depositId i)))) (\<lambda>t. aret (t_id t)))"

section \<open>Crediting a verified deposit\<close>

definition deposit_row :: "account_view \<Rightarrow> verified_deposit \<Rightarrow> string \<Rightarrow> deposit" where
  "deposit_row account v i =
    \<lparr>dp_id = i, dp_org = av_orgId account, dp_env = av_environment account, dp_account = Some (av_id account), dp_tx = None,
     dp_hash = vd_hash v, dp_source = vd_source v, dp_destination = vd_destination v, dp_asset = ''USDC'',
     dp_issuer = vd_issuer v, dp_amount = numeric7 (vd_amount v), dp_network = vd_network v, dp_status = ''verified'',
     dp_pending = None, dp_available = None, dp_failure = None, dp_key = depositIdempotencyKey (vd_hash v),
     dp_metadata = [''ledgerSequence'' \<mapsto> (case vd_ledger v of Some k \<Rightarrow> JNum (of_int k) | None \<Rightarrow> JNull),
       ''operationId'' \<mapsto> opt_json (vd_operation v), ''verifiedIndependently'' \<mapsto> JBool True]\<rparr>"

text \<open>The account that received the payment\<close>

definition depositAccount :: "verified_deposit \<Rightarrow> account_view option \<Rightarrow> (db, account_view) act" where
  "depositAccount v given =
    abnd (case given of Some a \<Rightarrow> aret (Some a) | None \<Rightarrow> findOrgStellarAccountByPublicKey (vd_destination v)) (\<lambda>found.
    case found of
      None \<Rightarrow> athrow (InfraStellarDepositError ''UNKNOWN_DESTINATION'' 404)
    | Some a \<Rightarrow>
        if av_status a \<noteq> ''active'' then athrow (InfraStellarDepositError ''WALLET_NOT_ACTIVE'' 409)
        else if av_publicKey a \<noteq> vd_destination v then athrow (InfraStellarDepositError ''WRONG_DESTINATION'' 400)
        else aret a)"

text \<open>The row of the deposit; a lost race reads the winner's row.\<close>

definition depositRow :: "account_view \<Rightarrow> verified_deposit \<Rightarrow> deposit option \<Rightarrow> (db, deposit) act" where
  "depositRow account v existing =
    abnd (case existing of
        Some d \<Rightarrow> aret (Some d)
      | None \<Rightarrow>
          acatch (abnd (run_tx (bnd new_uuid (\<lambda>i. insert_deposit (deposit_row account v i)))) (\<lambda>d. aret (Some d)))
            (\<lambda>err. if isUniqueViolation err then getDepositByHash (vd_hash v) else athrow err)) (\<lambda>found.
    case found of
      None \<Rightarrow> athrow (InfraStellarDepositError ''DEPOSIT_CREATE_FAILED'' 500)
    | Some d \<Rightarrow>
        if dp_status d = ''rejected'' \<or> dp_status d = ''failed''
        then athrow (InfraStellarDepositError ''DEPOSIT_REJECTED'' 409) else aret d)"

definition depositTransaction :: "account_view \<Rightarrow> verified_deposit \<Rightarrow> deposit \<Rightarrow> (db, string) act" where
  "depositTransaction account v d =
    (case or_else (dp_tx d) None of
       Some t \<Rightarrow> aret t
     | None \<Rightarrow>
         abnd (ensureDepositTransaction account v (dp_id d)) (\<lambda>txId.
         abnd (sql_deposit (dp_id d) (\<lambda>x. x\<lparr>dp_tx := Some txId, dp_status := ''pending_ledger''\<rparr>)) (\<lambda>_.
         aret txId)))"

definition deposit_leg :: "account_view \<Rightarrow> verified_deposit \<Rightarrow> string \<Rightarrow> string \<Rightarrow> string \<Rightarrow> string \<Rightarrow> ledger_params" where
  "deposit_leg account v depositId txId movementType phase =
    \<lparr>p_orgId = av_orgId account, p_environment = env_name (av_environment account), p_amount = RNum (Fin (vd_amount v)),
     p_asset = None, p_idempotencyKey = Some (''deposit:'' @ vd_hash v @ '':'' @ phase),
     p_movementType = Some movementType, p_reference = Some (vd_hash v), p_referenceType = Some ''deposit'',
     p_referenceId = Some txId, p_metadata = Some [''stellarTxHash'' \<mapsto> JStr (vd_hash v), ''depositId'' \<mapsto> JStr depositId,
       ''ledgerPhase'' \<mapsto> JStr phase, ''sourcePublicKey'' \<mapsto> opt_json (vd_source v)]\<rparr>"

record deposit_reply =
  dr_deposit :: "deposit option"
  dr_phase :: string
  dr_balance :: balance_view
  dr_duplicate :: bool

text \<open>Pending to available, and the rows that say so\<close>

definition releaseDeposit :: "account_view \<Rightarrow> verified_deposit \<Rightarrow> string \<Rightarrow> string \<Rightarrow> bool \<Rightarrow> (db, deposit_reply) act" where
  "releaseDeposit account v depositId txId pendingDuplicate =
    abnd (releasePendingToAvailable (deposit_leg account v depositId txId ''deposit_credit'' ''available'')) (\<lambda>available.
    abnd (sql_deposit depositId (\<lambda>x. x\<lparr>dp_status := ''confirmed'',
      dp_available := (case dp_available x of Some m \<Rightarrow> Some m | None \<Rightarrow> Some (m_id (fst available)))\<rparr>)) (\<lambda>_.
    abnd (sql_txn txId (\<lambda>t. t\<lparr>t_status := ''settled'', t_metadata := t_metadata t ++ [''ledgerPhase'' \<mapsto> JStr ''available'',
      ''stellarTxHash'' \<mapsto> JStr (vd_hash v), ''depositId'' \<mapsto> JStr depositId]\<rparr>)) (\<lambda>_.
    abnd (getDepositByHash (vd_hash v)) (\<lambda>deposit.
    abnd (getOrgBalance (av_orgId account) (env_name (av_environment account)) None) (\<lambda>balance.
    aret \<lparr>dr_deposit = deposit, dr_phase = ''available'', dr_balance = balance,
      dr_duplicate = (pendingDuplicate \<and> snd available)\<rparr>)))))"

definition bookDeposit :: "account_view \<Rightarrow> verified_deposit \<Rightarrow> deposit \<Rightarrow> string \<Rightarrow> bool \<Rightarrow> (db, deposit_reply) act" where
  "bookDeposit account v d txId stopAfterPending =
    abnd (creditOrgWalletPending (deposit_leg account v (dp_id d) txId ''deposit_pending'' ''pending'')) (\<lambda>pending.
    abnd (sql_deposit (dp_id d) (\<lambda>x. x\<lparr>
      dp_pending := (case dp_pending x of Some m \<Rightarrow> Some m | None \<Rightarrow> Some (m_id (fst pending))),
      dp_tx := (case dp_tx x of Some t \<Rightarrow> Some t | None \<Rightarrow> Some txId),
      dp_status := (if dp_status x = ''confirmed'' then dp_status x else ''pending_ledger'')\<rparr>)) (\<lambda>_.
    if stopAfterPending then
      abnd (getOrgBalance (av_orgId account) (env_name (av_environment account)) None) (\<lambda>balance.
      abnd (getDepositByHash (vd_hash v)) (\<lambda>deposit.
      aret \<lparr>dr_deposit = deposit, dr_phase = ''pending'', dr_balance = balance, dr_duplicate = snd pending\<rparr>))
    else releaseDeposit account v (dp_id d) txId (snd pending)))"

definition creditVerifiedDeposit :: "verified_deposit \<Rightarrow> account_view option \<Rightarrow> bool \<Rightarrow> (db, deposit_reply) act" where
  "creditVerifiedDeposit v given stopAfterPending =
    abnd (getDepositByHash (vd_hash v)) (\<lambda>existing.
    case Option.bind existing (\<lambda>d. if dp_status d = ''confirmed'' then Some d else None) of
      Some d \<Rightarrow>
        abnd (getOrgBalance (dp_org d) (env_name (dp_env d)) None) (\<lambda>balance.
        aret \<lparr>dr_deposit = Some d, dr_phase = ''available'', dr_balance = balance, dr_duplicate = True\<rparr>)
    | None \<Rightarrow>
        abnd (depositAccount v given) (\<lambda>account.
        abnd (depositRow account v existing) (\<lambda>d.
        abnd (depositTransaction account v d) (\<lambda>txId.
        bookDeposit account v d txId stopAfterPending))))"

section \<open>Processing and polling\<close>

record process_input =
  px_hash :: string
  px_destination :: "string option"
  px_amount :: "rat option"
  px_stop :: bool
  px_mock :: "verified_deposit option"

definition processExternalDepositByHash :: "sdk \<Rightarrow> process_input \<Rightarrow> (db, deposit_reply \<times> verified_deposit) act" where
  "processExternalDepositByHash sd input =
    (let mode = getInfraStellarDepositMode sd in
     if mode = ''off'' then athrow (InfraStellarDepositError ''DEPOSIT_MODE_OFF'' 400)
     else
       abnd (case (mode = ''mock'', px_mock input) of
           (True, Some v) \<Rightarrow> aret v
         | _ \<Rightarrow> aof_sum (verifyExternalUsdcDeposit sd \<lparr>dc_hash = px_hash input, dc_destination = px_destination input,
             dc_amount = px_amount input, dc_network = None\<rparr>)) (\<lambda>verified.
       abnd (creditVerifiedDeposit verified None (px_stop input)) (\<lambda>reply.
       aret (reply, verified))))"

record poll_reply =
  pl_scanned :: nat
  pl_processed :: nat
  pl_credited :: nat
  pl_duplicates :: nat
  pl_skipped :: nat
  pl_errors :: "string list"
  pl_deposits :: "deposit option list"

definition empty_poll :: poll_reply where
  "empty_poll = \<lparr>pl_scanned = 0, pl_processed = 0, pl_credited = 0, pl_duplicates = 0, pl_skipped = 0, pl_errors = [],
     pl_deposits = []\<rparr>"

definition poll_error :: "string \<Rightarrow> poll_reply \<Rightarrow> poll_reply" where
  "poll_error e r = r\<lparr>pl_errors := pl_errors r @ [e]\<rparr>"

text \<open>A record that the loop passes over\<close>

definition skipped_record :: "string \<Rightarrow> string \<Rightarrow> payment_record \<Rightarrow> bool" where
  "skipped_record publicKey issuer p \<longleftrightarrow> pg_type p \<noteq> ''payment'' \<or> pg_to p \<noteq> publicKey \<or> pg_from p = publicKey
     \<or> to_upper (pg_code p) \<noteq> ''USDC'' \<or> pg_issuer p \<noteq> issuer \<or> pg_hash p = []"

definition counted :: "deposit_reply \<Rightarrow> poll_reply \<Rightarrow> poll_reply" where
  "counted reply r =
    (let r' = r\<lparr>pl_processed := Suc (pl_processed r), pl_deposits := pl_deposits r @ [dr_deposit reply]\<rparr> in
     if dr_duplicate reply then r'\<lparr>pl_duplicates := Suc (pl_duplicates r')\<rparr>
     else if dr_phase reply = ''available'' then r'\<lparr>pl_credited := Suc (pl_credited r')\<rparr> else r')"

definition pollRecord :: "sdk \<Rightarrow> string \<Rightarrow> string \<Rightarrow> payment_record \<Rightarrow> poll_reply \<Rightarrow> (db, poll_reply) act" where
  "pollRecord sd publicKey issuer p r0 =
    (let r = r0\<lparr>pl_scanned := Suc (pl_scanned r0)\<rparr> in
     if skipped_record publicKey issuer p then aret (r\<lparr>pl_skipped := Suc (pl_skipped r)\<rparr>)
     else
       acatch
         (abnd (processExternalDepositByHash sd \<lparr>px_hash = to_lower (pg_hash p), px_destination = Some publicKey,
            px_amount = None, px_stop = False, px_mock = None\<rparr>) (\<lambda>processed.
          aret (counted (fst processed) r)))
         (\<lambda>err. aret (poll_error (message_of err) r)))"

fun pollRecords :: "sdk \<Rightarrow> string \<Rightarrow> string \<Rightarrow> payment_record list \<Rightarrow> poll_reply \<Rightarrow> (db, poll_reply) act" where
  "pollRecords sd publicKey issuer [] r = aret r"
| "pollRecords sd publicKey issuer (p # ps) r = abnd (pollRecord sd publicKey issuer p r) (pollRecords sd publicKey issuer ps)"

definition pollPage :: "sdk \<Rightarrow> string \<Rightarrow> nat option \<Rightarrow> (db, poll_reply) act" where
  "pollPage sd publicKey limit =
    abnd (aof_sum (getStellarConfig sd)) (\<lambda>cfg.
    if \<not> cfg_isTestnet cfg then athrow (InfraStellarDepositError ''MAINNET_BLOCKED'' 400)
    else
      (let n = (case limit of Some k \<Rightarrow> if k = 0 then 50 else k | None \<Rightarrow> 50) in
       case sdk_payments sd (cfg_horizonUrl cfg) publicKey (min n 200) of
         None \<Rightarrow> athrow (JsError ''Horizon request failed'')
       | Some page \<Rightarrow> pollRecords sd publicKey (resolveUsdcIssuer sd True) page empty_poll))"

definition pollOrgStellarDeposits :: "sdk \<Rightarrow> string \<Rightarrow> string \<Rightarrow> nat option \<Rightarrow> (db, poll_reply) act" where
  "pollOrgStellarDeposits sd orgId environment limit =
    (let mode = getInfraStellarDepositMode sd in
     if mode = ''off'' then aret (poll_error ''deposit_mode_off'' empty_poll)
     else
       abnd (getOrgStellarAccount sd orgId (env_name (normalizeEnv environment))) (\<lambda>account.
       case Option.bind account (\<lambda>a. if av_status a = ''active'' then Some a else None) of
         None \<Rightarrow> aret (poll_error ''org_wallet_not_active'' empty_poll)
       | Some a \<Rightarrow>
           if mode = ''mock'' then aret (poll_error ''mock_mode_requires_processExternalDepositByHash'' empty_poll)
           else pollPage sd (av_publicKey a) limit))"

definition add_poll :: "poll_reply \<Rightarrow> poll_reply \<Rightarrow> poll_reply" where
  "add_poll t r = \<lparr>pl_scanned = pl_scanned t + pl_scanned r, pl_processed = pl_processed t + pl_processed r,
     pl_credited = pl_credited t + pl_credited r, pl_duplicates = pl_duplicates t + pl_duplicates r,
     pl_skipped = pl_skipped t + pl_skipped r, pl_errors = pl_errors t @ pl_errors r, pl_deposits = pl_deposits t @ pl_deposits r\<rparr>"

fun pollAccounts :: "sdk \<Rightarrow> account_view list \<Rightarrow> poll_reply \<Rightarrow> (db, poll_reply) act" where
  "pollAccounts sd [] totals = aret totals"
| "pollAccounts sd (a # as) totals =
    abnd (pollOrgStellarDeposits sd (av_orgId a) (env_name (av_environment a)) None) (\<lambda>r.
    pollAccounts sd as (add_poll totals r))"

definition pollAllActiveOrgDeposits :: "sdk \<Rightarrow> string option \<Rightarrow> (db, nat \<times> poll_reply) act" where
  "pollAllActiveOrgDeposits sd environment =
    abnd (listActiveOrgStellarAccounts sd environment None) (\<lambda>accounts.
    abnd (pollAccounts sd accounts empty_poll) (\<lambda>totals.
    aret (length accounts, totals)))"

end
