(* ===== verification/Deposit_Properties.thy ===== *)
theory Deposit_Properties
  imports Deposit Payout_Facts Onchain_Examples
begin

text \<open>
  Properties of the Stellar deposits: what a verified payment is, what a credit moves, that a confirmed
  deposit is booked and never booked again, and what the poll does with every record.
\<close>

section \<open>Verification\<close>

lemma checked_Inr:
  assumes "checkedDeposit cfg issuer hash input t op = Inr v"
  obtains x where "js_Number (RStr (ho_amount op)) = Fin x" "vd_amount v = round7 x" "0 < vd_amount v"
    "vd_destination v = trim (ho_to op)" "vd_hash v = hash" "vd_network v = network_name cfg" "vd_issuer v = issuer"
    "or_else (dc_destination input) None = None \<or> dc_destination input = Some (vd_destination v)"
  using assms by (auto simp: checkedDeposit_def Let_def split: js_num.splits if_splits)

lemma verify_Inr:
  assumes "verifyExternalUsdcDeposit sd input = Inr v"
  obtains cfg t ops op where "getStellarConfig sd = Inr cfg" "is_tx_hash (to_lower (trim (dc_hash input)))"
    "sdk_horizonTx sd (cfg_horizonUrl cfg) (to_lower (trim (dc_hash input))) = Some t" "ht_successful t"
    "sdk_horizonOps sd (cfg_horizonUrl cfg) (to_lower (trim (dc_hash input))) = Some ops"
    "find (usdc_payment (resolveUsdcIssuer sd (cfg_isTestnet cfg))) ops = Some op"
    "checkedDeposit cfg (resolveUsdcIssuer sd (cfg_isTestnet cfg)) (to_lower (trim (dc_hash input))) input t op = Inr v"
  using assms
  by (auto simp: verifyExternalUsdcDeposit_def Let_def bind_sum_Inr split: if_splits option.splits)

text \<open>C26: A verified deposit is on the chain. Whatever Horizon answers, a deposit is verified only for a well-formed
  hash whose transaction Horizon reports as successful, and that has a payment of USDC from the issuer of
  the configured network to the verified destination, which is the expected one if there is one; the
  verified amount is the amount of that payment on the seven-decimal grid and is positive.\<close>

theorem verified_deposit_is_on_chain:
  assumes "verifyExternalUsdcDeposit sd input = Inr v"
  shows "\<exists>cfg t ops op x. getStellarConfig sd = Inr cfg \<and> is_tx_hash (vd_hash v) \<and> vd_network v = network_name cfg
     \<and> sdk_horizonTx sd (cfg_horizonUrl cfg) (vd_hash v) = Some t \<and> ht_successful t
     \<and> sdk_horizonOps sd (cfg_horizonUrl cfg) (vd_hash v) = Some ops \<and> op \<in> set ops
     \<and> usdc_payment (resolveUsdcIssuer sd (cfg_isTestnet cfg)) op \<and> trim (ho_to op) = vd_destination v
     \<and> (or_else (dc_destination input) None = None \<or> dc_destination input = Some (vd_destination v))
     \<and> js_Number (RStr (ho_amount op)) = Fin x \<and> vd_amount v = round7 x \<and> 0 < vd_amount v"
proof -
  from verify_Inr [OF assms] obtain cfg t ops op where 1: "getStellarConfig sd = Inr cfg"
    "is_tx_hash (to_lower (trim (dc_hash input)))"
    "sdk_horizonTx sd (cfg_horizonUrl cfg) (to_lower (trim (dc_hash input))) = Some t" "ht_successful t"
    "sdk_horizonOps sd (cfg_horizonUrl cfg) (to_lower (trim (dc_hash input))) = Some ops"
    "find (usdc_payment (resolveUsdcIssuer sd (cfg_isTestnet cfg))) ops = Some op"
    and chk: "checkedDeposit cfg (resolveUsdcIssuer sd (cfg_isTestnet cfg)) (to_lower (trim (dc_hash input))) input t op = Inr v" .
  from checked_Inr [OF chk] obtain x where 2: "js_Number (RStr (ho_amount op)) = Fin x" "vd_amount v = round7 x"
    "0 < vd_amount v" "vd_destination v = trim (ho_to op)" "vd_hash v = to_lower (trim (dc_hash input))"
    "vd_network v = network_name cfg"
    "or_else (dc_destination input) None = None \<or> dc_destination input = Some (vd_destination v)" .
  from 1(6) have "op \<in> set ops" "usdc_payment (resolveUsdcIssuer sd (cfg_isTestnet cfg)) op"
    by (auto simp: find_Some_iff)
  with 1 2 show ?thesis by (intro exI [of _ cfg] exI [of _ t] exI [of _ ops] exI [of _ op] exI [of _ x]) simp
qed

text \<open>A transaction pays one account: a second payment of the same transaction is never a deposit.\<close>

lemma one_destination_per_transaction:
  assumes "verifyExternalUsdcDeposit sd \<lparr>dc_hash = h, dc_destination = None, dc_amount = None, dc_network = n\<rparr> = Inr v"
    and "d \<noteq> []" "d \<noteq> vd_destination v"
  shows "verifyExternalUsdcDeposit sd \<lparr>dc_hash = h, dc_destination = Some d, dc_amount = None, dc_network = n\<rparr>
    = Inl (InfraStellarDepositError ''WRONG_DESTINATION'' 400)"
proof -
  let ?H = "to_lower (trim h)"
  from assms(1) obtain cfg where cfg: "getStellarConfig sd = Inr cfg" by (elim verify_Inr)
  let ?issuer = "resolveUsdcIssuer sd (cfg_isTestnet cfg)"
  from assms(1) cfg obtain t ops op where
    1: "is_tx_hash ?H" "sdk_horizonTx sd (cfg_horizonUrl cfg) ?H = Some t" "ht_successful t"
      "sdk_horizonOps sd (cfg_horizonUrl cfg) ?H = Some ops" "find (usdc_payment ?issuer) ops = Some op"
    and chk: "checkedDeposit cfg ?issuer ?H \<lparr>dc_hash = h, dc_destination = None, dc_amount = None, dc_network = n\<rparr> t op = Inr v"
    by (elim verify_Inr) simp
  from chk obtain x where x: "js_Number (RStr (ho_amount op)) = Fin x" "vd_amount v = round7 x" "0 < vd_amount v"
    "vd_destination v = trim (ho_to op)"
    by (elim checked_Inr)
  then have "checkedDeposit cfg ?issuer ?H \<lparr>dc_hash = h, dc_destination = Some d, dc_amount = None, dc_network = n\<rparr> t op
      = Inl (InfraStellarDepositError ''WRONG_DESTINATION'' 400)"
    using assms(2,3) by (simp add: checkedDeposit_def or_else_def Let_def)
  moreover have "(cfg_isTestnet cfg \<noteq> (or_str n (network_name cfg) = ''testnet'')) = False"
    "(\<not> cfg_isTestnet cfg \<and> getInfraStellarDepositMode sd = ''live'') = False"
    using assms(1) cfg 1(1) by (auto simp: verifyExternalUsdcDeposit_def Let_def bind_sum_def split: if_splits)
  ultimately show ?thesis
    using cfg 1 by (simp only: verifyExternalUsdcDeposit_def Let_def bind_sum_def deposit_check.simps sum.case option.case
      if_False simp_thms)
qed

section \<open>What a credit moves\<close>

lemma find_account_run: "findOrgStellarAccountByPublicKey pk s = (r, s') \<Longrightarrow> s' = s"
  by (auto simp: findOrgStellarAccountByPublicKey_def Let_def split: if_splits)

lemma depositAccount_run:
  assumes "depositAccount v g s = (Inr a, s')"
  shows "s' = s" "av_status a = ''active''" "av_publicKey a = vd_destination v"
  using assms find_account_run
  by (auto simp: depositAccount_def act_simps split: option.splits if_splits)

definition deposit_key :: "string \<Rightarrow> string \<Rightarrow> string" where
  "deposit_key hash phase = ''deposit:'' @ hash @ '':'' @ phase"

lemma deposit_leg_sel [simp]:
  "account_of (deposit_leg a v i t mt ph) = (av_orgId a, av_environment a, ''USDC'')"
  "p_amount (deposit_leg a v i t mt ph) = RNum (Fin (vd_amount v))"
  "p_idempotencyKey (deposit_leg a v i t mt ph) = Some (deposit_key (vd_hash v) ph)"
  by (simp_all add: deposit_leg_def account_of_def deposit_key_def)

lemma deposit_keys [simp]:
  "normalizeKey (Some (deposit_key h ''pending'')) = deposit_key h ''pending''"
  "normalizeKey (Some (deposit_key h ''available'')) = deposit_key h ''available''"
  using normalizeKey_wrapped [of "''deposit:''" "'':pending''" h] normalizeKey_wrapped [of "''deposit:''" "'':available''" h]
  by (simp_all add: is_ws_def deposit_key_def)

lemma deposit_keys_differ [simp]: "deposit_key h ''available'' \<noteq> deposit_key h ''pending''"
  by (simp add: deposit_key_def)

lemma sql_deposit_run: "sql_deposit i f s = (r, s') \<longleftrightarrow> r = Inr () \<and> s' = s\<lparr>deposits := update_rows dp_id i f (deposits s)\<rparr>"
  by (auto simp: sql_deposit_def)

lemma getDepositByHash_run: "getDepositByHash h s = (r, s') \<longleftrightarrow> r = Inr (find_row dp_hash (to_lower (trim h)) (deposits s)) \<and> s' = s"
  by (auto simp: getDepositByHash_def)

text \<open>The row of a deposit is the one found, or a new one; nothing else changes.\<close>

lemma depositRow_cases:
  assumes "depositRow a v e s = (r, s')"
  obtains (err) x where "r = Inl x" "s' = s"
  | (old) d where "r = Inr d" "s' = s" "e = Some d \<or> d \<in> set (deposits s) \<and> dp_hash d = to_lower (trim (vd_hash v))"
  | (new) d where "r = Inr d" "d = deposit_row a v (uuid_of s (uuid_next s))" "dp_id d \<notin> dp_id ` set (deposits s)"
      "s' = s\<lparr>uuid_next := Suc (uuid_next s), deposits := d # deposits s\<rparr>"
proof (cases e)
  case (Some d)
  with assms that(1,2) show thesis by (auto simp: depositRow_def split: if_splits)
next
  case None
  let ?d = "deposit_row a v (uuid_of s (uuid_next s))" and ?s = "s\<lparr>uuid_next := Suc (uuid_next s)\<rparr>"
  show thesis
  proof (cases "insert_deposit ?d ?s")
    case (Inl x)
    then have "run_tx (bnd new_uuid (\<lambda>i. insert_deposit (deposit_row a v i))) s = (Inl x, s)"
      by (simp add: run_tx_def bnd_def new_uuid_def)
    with assms None that(1,2) show thesis
      by (auto simp: depositRow_def getDepositByHash_def abnd_def acatch_def split: if_splits option.splits dest!: find_row_Some)
  next
    case (Inr ds)
    then have ins: "insert_deposit ?d ?s = Inr (?d, ?s\<lparr>deposits := ?d # deposits s\<rparr>)" "dp_id ?d \<notin> dp_id ` set (deposits s)"
      by (auto simp: insert_deposit_def split: if_splits)
    then have "run_tx (bnd new_uuid (\<lambda>i. insert_deposit (deposit_row a v i))) s = (Inr ?d, ?s\<lparr>deposits := ?d # deposits s\<rparr>)"
      by (simp add: run_tx_def bnd_def new_uuid_def)
    with assms None ins that(3) [of ?d] show thesis by (simp add: depositRow_def abnd_def acatch_def deposit_row_def)
  qed
qed

lemma depositRow_same:
  assumes "ledger_inv s" and "depositRow a v e s = (r, s')"
  shows "ledger_same s s'"
  using assms(2) by (cases rule: depositRow_cases) (use assms(1) in \<open>auto simp: ledger_same_def\<close>)

lemma ensureDepositTransaction_run:
  assumes "ensureDepositTransaction a v i s = (r, s')"
  obtains "s' = s" | t where "s' = s\<lparr>uuid_next := Suc (uuid_next s), txns := t # txns s\<rparr>"
  using assms
  by (auto simp: ensureDepositTransaction_def act_simps run_tx_def abnd_def insert_txn_def new_uuid_def bnd_def
    split: option.splits sum.splits if_splits)

lemma depositTransaction_same:
  assumes inv: "ledger_inv s" and run: "depositTransaction a v d s = (r, s')"
  shows "ledger_same s s'"
proof (cases "or_else (dp_tx d) None")
  case (Some t)
  with run inv show ?thesis by (simp add: depositTransaction_def)
next
  case None
  obtain r1 s1 where 1: "ensureDepositTransaction a v (dp_id d) s = (r1, s1)" by (cases "ensureDepositTransaction a v (dp_id d) s") auto
  then have same: "ledger_same s s1" by (cases rule: ensureDepositTransaction_run) (use inv in \<open>auto simp: ledger_same_def\<close>)
  with run None 1 show ?thesis
    by (cases r1) (auto simp: depositTransaction_def sql_deposit_def abnd_def ledger_same_def)
qed

text \<open>A credit that is carried out: its account, its row and its transaction, then the ledger.\<close>

lemma credit_cases:
  assumes "creditVerifiedDeposit v given stop s = (Inr reply, s')"
  obtains (answered) d where "find_row dp_hash (to_lower (trim (vd_hash v))) (deposits s) = Some d" "dp_status d = ''confirmed''"
  | (carried) a d t s1 s2 where "depositAccount v given s = (Inr a, s)"
      "depositRow a v (find_row dp_hash (to_lower (trim (vd_hash v))) (deposits s)) s = (Inr d, s1)"
      "depositTransaction a v d s1 = (Inr t, s2)" "bookDeposit a v d t stop s2 = (Inr reply, s')"
proof -
  let ?e = "find_row dp_hash (to_lower (trim (vd_hash v))) (deposits s)"
  show thesis
  proof (cases "Option.bind ?e (\<lambda>d. if dp_status d = ''confirmed'' then Some d else None)")
    case None
    with assms have "abnd (depositAccount v given) (\<lambda>account. abnd (depositRow account v ?e) (\<lambda>d.
        abnd (depositTransaction account v d) (\<lambda>txId. bookDeposit account v d txId stop))) s = (Inr reply, s')"
      by (simp add: creditVerifiedDeposit_def getDepositByHash_def)
    then show thesis
      by (elim abndE) (use carried depositAccount_run(1) in metis)
  next
    case (Some d)
    then have "?e = Some d" "dp_status d = ''confirmed''" by (auto simp: Option.bind_eq_Some_conv split: if_splits)
    with answered show thesis by simp
  qed
qed

lemma is_tx_hash_normal:
  assumes "is_tx_hash h"
  shows "to_lower (trim h) = h"
proof -
  have c: "\<not> is_ws c \<and> to_lower [c] = [c]" if "c \<in> set h" for c
    using assms that by (auto simp: is_tx_hash_def list_all_iff is_ws_def to_lower_def is_digit_def lower_char_def Let_def)
  moreover from assms have "h \<noteq> []" by (auto simp: is_tx_hash_def)
  ultimately have "trim h = h" by (intro trim_id) auto
  moreover have "to_lower h = h" using c by (auto simp: to_lower_def intro: map_idI)
  ultimately show ?thesis by simp
qed

lemmas pending_leg = fresh_op [where op = OpCreditPending, unfolded run_op.simps op_delta.simps]
lemmas available_leg = fresh_op [where op = OpReleasePending, unfolded run_op.simps op_delta.simps]

text \<open>The ledger part of a credit whose keys are fresh\<close>

lemma bookDeposit_moves:
  assumes inv: "ledger_inv s" and run: "bookDeposit a v d t False s = (Inr reply, s')"
    and amount: "parseAmount (RNum (Fin (vd_amount v))) = Inr x"
    and fresh: "deposit_key (vd_hash v) ''pending'' \<notin> m_key ` set (movements s)"
      "deposit_key (vd_hash v) ''available'' \<notin> m_key ` set (movements s)"
  shows "\<exists>b. spec_post OpCreditPending (av_orgId a, av_environment a, ''USDC'') x (balances s) = Some b
    \<and> spec_post OpReleasePending (av_orgId a, av_environment a, ''USDC'') x b = Some (balances s')"
    and "money s' = money s + x" and "ledger_inv s'" and "\<not> dr_duplicate reply" and "dr_phase reply = ''available''"
proof -
  from run obtain p s1 f s2 where
    1: "creditOrgWalletPending (deposit_leg a v (dp_id d) t ''deposit_pending'' ''pending'') s = (Inr p, s1)"
    and s2: "sql_deposit (dp_id d) f s1 = (Inr (), s2)" and rel: "releaseDeposit a v (dp_id d) t (snd p) s2 = (Inr reply, s')"
    unfolding bookDeposit_def if_False by (elim abndE) simp
  from rel obtain q s3 g s4 h s5 b e where
    3: "releasePendingToAvailable (deposit_leg a v (dp_id d) t ''deposit_credit'' ''available'') s2 = (Inr q, s3)"
    and s4: "sql_deposit (dp_id d) g s3 = (Inr (), s4)" and s5: "sql_txn t h s4 = (Inr (), s5)"
    and 5: "getOrgBalance (av_orgId a) (env_name (av_environment a)) None s5 = (Inr b, s')"
    and reply: "reply = \<lparr>dr_deposit = e, dr_phase = ''available'', dr_balance = b, dr_duplicate = (snd p \<and> snd q)\<rparr>"
    unfolding releaseDeposit_def by (elim abndE) (auto simp: getDepositByHash_run)
  have 2: "balances s2 = balances s1" "movements s2 = movements s1" "money s2 = money s1" "ledger_inv s2 = ledger_inv s1"
    using s2 by (auto simp: sql_deposit_run)
  have 4: "balances s5 = balances s3" "money s5 = money s3" "ledger_inv s5 = ledger_inv s3"
    using s4 s5 by (auto simp: sql_deposit_run sql_txn_def run_tx_def update_txn_def)
  have r: "dr_duplicate reply = (snd p \<and> snd q)" "dr_phase reply = ''available''" by (simp_all add: reply)
  note p = pending_leg [OF inv 1, simplified, OF fresh(1) amount]
  have "deposit_key (vd_hash v) ''available'' \<notin> m_key ` set (movements s2)" using p(3) fresh(2) 2(2) by simp
  note q = available_leg [OF _ 3, simplified, OF _ this amount]
  note u = getOrgBalance_unchanged [OF _ 5]
  have np: "\<not> snd p"
  proof
    assume "snd p"
    then obtain m where "run_op OpCreditPending (deposit_leg a v (dp_id d) t ''deposit_pending'' ''pending'') s = (Inr (m, True), s1)"
      using 1 by (cases p) simp
    with inv show False by (cases rule: run_op_cases) (use fresh(1) in force)+
  qed
  from p q 2 4 u r np
  show "\<exists>b. spec_post OpCreditPending (av_orgId a, av_environment a, ''USDC'') x (balances s) = Some b
    \<and> spec_post OpReleasePending (av_orgId a, av_environment a, ''USDC'') x b = Some (balances s')"
    "money s' = money s + x" "ledger_inv s'" "\<not> dr_duplicate reply" "dr_phase reply = ''available''"
    by (auto simp: unchanged_def ledger_same_def)
qed

text \<open>C15: A payment on the chain is credited exactly. When a transaction is processed outside the mock mode,
  without the option to stop after the pending credit, and nothing of it is on the books yet, Horizon
  reports it as successful and lists its operations; the organisation whose active account has the address
  that the first USDC payment among them went to gets the amount of that operation, on the seven-decimal
  grid: first pending, then available, with no other balance changed. The supply grows by that amount,
  once.\<close>

theorem deposit_credited_exactly:
  assumes inv: "ledger_inv s" and live: "getInfraStellarDepositMode sd \<noteq> ''mock'' \<or> px_mock input = None" "\<not> px_stop input"
    and run: "processExternalDepositByHash sd input s = (Inr (reply, v), s')"
    and fresh: "find_row dp_hash (vd_hash v) (deposits s) = None" "deposit_key (vd_hash v) ''pending'' \<notin> m_key ` set (movements s)"
      "deposit_key (vd_hash v) ''available'' \<notin> m_key ` set (movements s)"
  shows "\<exists>cfg t ops op a x b. getStellarConfig sd = Inr cfg \<and> vd_hash v = to_lower (trim (px_hash input))
    \<and> sdk_horizonTx sd (cfg_horizonUrl cfg) (vd_hash v) = Some t \<and> ht_successful t
    \<and> sdk_horizonOps sd (cfg_horizonUrl cfg) (vd_hash v) = Some ops
    \<and> find (usdc_payment (resolveUsdcIssuer sd (cfg_isTestnet cfg))) ops = Some op
    \<and> a \<in> set (st_accounts s) \<and> a_public a = trim (ho_to op) \<and> a_status a = ''active''
    \<and> js_Number (RStr (ho_amount op)) = Fin x
    \<and> spec_post OpCreditPending (a_org a, a_env a, ''USDC'') (round7 x) (balances s) = Some b
    \<and> spec_post OpReleasePending (a_org a, a_env a, ''USDC'') (round7 x) b = Some (balances s')
    \<and> money s' = money s + round7 x \<and> \<not> dr_duplicate reply \<and> dr_phase reply = ''available''"
proof -
  from run live obtain s0 where ver: "verifyExternalUsdcDeposit sd \<lparr>dc_hash = px_hash input, dc_destination = px_destination input,
      dc_amount = px_amount input, dc_network = None\<rparr> = Inr v" and credit: "creditVerifiedDeposit v None False s = (Inr reply, s')"
    by (auto simp: processExternalDepositByHash_def Let_def act_simps split: if_splits bool.splits option.splits)
  let ?h = "to_lower (trim (px_hash input))"
  from verify_Inr [OF ver] obtain cfg t ops op where ops: "is_tx_hash ?h"
    "find (usdc_payment (resolveUsdcIssuer sd (cfg_isTestnet cfg))) ops = Some op" "getStellarConfig sd = Inr cfg"
    "sdk_horizonTx sd (cfg_horizonUrl cfg) ?h = Some t" "ht_successful t" "sdk_horizonOps sd (cfg_horizonUrl cfg) ?h = Some ops"
    and chk: "checkedDeposit cfg (resolveUsdcIssuer sd (cfg_isTestnet cfg)) (to_lower (trim (px_hash input)))
      \<lparr>dc_hash = px_hash input, dc_destination = px_destination input, dc_amount = px_amount input, dc_network = None\<rparr> t op = Inr v"
    by (metis deposit_check.select_convs(1))
  from checked_Inr [OF chk] obtain x where x: "js_Number (RStr (ho_amount op)) = Fin x" "vd_amount v = round7 x"
    "0 < vd_amount v" "vd_destination v = trim (ho_to op)" "vd_hash v = to_lower (trim (px_hash input))"
    "vd_issuer v = resolveUsdcIssuer sd (cfg_isTestnet cfg)" .
  have hash: "to_lower (trim (vd_hash v)) = vd_hash v" using ops(1) x(5) by (simp add: is_tx_hash_normal)
  from credit show ?thesis
  proof (cases rule: credit_cases)
    case (carried av d tx s1 s2)
    then obtain a where a: "a \<in> set (st_accounts s)" "a_public a = trim (ho_to op)" "a_status a = ''active''" "av = mapPublic a"
      using x(4) by (auto simp: depositAccount_def findOrgStellarAccountByPublicKey_def Let_def act_simps mapPublic_def
        split: if_splits option.splits dest!: find_row_Some)
    have s1: "ledger_same s s1" by (rule depositRow_same [OF inv carried(2)])
    then have s2: "ledger_same s s2" using depositTransaction_same [OF _ carried(3)] by (auto simp: ledger_same_def)
    have am: "parseAmount (RNum (Fin (vd_amount v))) = Inr (round7 x)"
      using x(2,3) by (simp add: parseAmount_def)
    have keys: "deposit_key (vd_hash v) ''pending'' \<notin> m_key ` set (movements s2)"
      "deposit_key (vd_hash v) ''available'' \<notin> m_key ` set (movements s2)"
      using fresh s2 by (simp_all add: ledger_same_def)
    note b = bookDeposit_moves [OF _ carried(4) am keys]
    from a b s2 x(1,5) ops(2-6) show ?thesis
      by (intro exI [of _ cfg] exI [of _ t] exI [of _ ops] exI [of _ op] exI [of _ a] exI [of _ x])
        (auto simp: ledger_same_def mapPublic_def)
  qed (use fresh(1) hash in simp)
qed

section \<open>A confirmed deposit is on the ledger\<close>

definition filed :: "movement list \<Rightarrow> deposit \<Rightarrow> bool" where
  "filed ms d \<longleftrightarrow> (dp_pending d \<noteq> None \<longrightarrow> entry ms (deposit_key (dp_hash d) ''pending'') (dp_pending d))
     \<and> (dp_available d \<noteq> None \<longrightarrow> entry ms (deposit_key (dp_hash d) ''available'') (dp_available d))
     \<and> (dp_status d = ''confirmed'' \<longrightarrow> dp_pending d \<noteq> None \<and> dp_available d \<noteq> None)"

definition deposit_inv :: "db \<Rightarrow> bool" where
  "deposit_inv s \<longleftrightarrow> ledger_inv s \<and> distinct (map dp_id (deposits s)) \<and> (\<forall>d \<in> set (deposits s). filed (movements s) d)"

text \<open>The same while one row is credited; \<open>M\<close> are movements of its transaction, \<open>p\<close> says that it is pending.\<close>

definition crediting :: "string \<Rightarrow> string \<Rightarrow> bool \<Rightarrow> movement set \<Rightarrow> db \<Rightarrow> bool" where
  "crediting i h p M s \<longleftrightarrow> deposit_inv s \<and> M \<subseteq> set (movements s)
     \<and> (\<forall>x \<in> set (deposits s). dp_id x = i \<longrightarrow> dp_hash x = h \<and> (p \<longrightarrow> dp_pending x \<noteq> None))"

lemma filed_mono: "filed ms d \<Longrightarrow> set ms \<subseteq> set ms' \<Longrightarrow> filed ms' d"
  by (auto simp: filed_def intro: entry_mono)

lemma deposit_grows:
  "deposit_inv s \<Longrightarrow> ledger_inv s' \<Longrightarrow> set (movements s) \<subseteq> set (movements s') \<Longrightarrow> deposits s' = deposits s \<Longrightarrow> deposit_inv s'"
  by (auto simp: deposit_inv_def intro: filed_mono)

lemma crediting_grows:
  "crediting i h p M s \<Longrightarrow> ledger_inv s' \<Longrightarrow> set (movements s) \<subseteq> set (movements s') \<Longrightarrow> deposits s' = deposits s \<Longrightarrow>
     crediting i h p M s'"
  by (auto simp: crediting_def intro: deposit_grows)

text \<open>Calls that leave the deposits alone\<close>

lemma inv_act_tx: "preserves f m \<Longrightarrow> inv_act (\<lambda>s. f s = x) (run_tx m)"
  by (auto simp: inv_act_def preserves_def run_tx_def split: sum.splits)

lemma deposits_tables [preserves_intros]:
  "preserves deposits new_uuid" "preserves deposits (insert_wallet w)" "preserves deposits (update_wallet i u)"
  "preserves deposits (insert_movement m)"
  by (auto simp: preserves_def tx_simps)

lemma deposits_ledger [preserves_intros]:
  "preserves deposits (ensureWalletAccount i e a)" "preserves deposits (ledgerWriteTx dir ty step params x k)"
  unfolding ledgerWriteTx_def ledgerPost_def ledgerPostRow_def ledger_statements Let_def by (intro preserves_intros)+

lemma deposits_kept:
  "inv_act (\<lambda>s. deposits s = D) (getOrgBalance i e a)" "inv_act (\<lambda>s. deposits s = D) (run_op op params)"
proof -
  show "inv_act (\<lambda>s. deposits s = D) (getOrgBalance i e a)"
    unfolding getOrgBalance_def by (intro inv_intros inv_act_tx deposits_ledger)
  have "inv_act (\<lambda>s. deposits s = D) (ledgerCatch k x)" for k x
    by (auto simp: inv_act_def ledgerCatch_def act_simps tx_simps run_tx_def findMovementByIdempotency_def bnd_def query_def
      ret_def fail_def split: option.splits sum.splits if_splits)
  then show "inv_act (\<lambda>s. deposits s = D) (run_op op params)"
    unfolding run_op_write ledgerWrite_def Let_def by (intro inv_intros inv_act_tx deposits_ledger)
qed

lemma crediting_calls [inv_intros]:
  "inv_act (crediting i h p M) (getOrgBalance o' e a)" "inv_act (crediting i h p M) (run_op op params)"
  "inv_act (crediting i h p M) (sql_txn t f)" "inv_act (crediting i h p M) (getDepositByHash k)"
proof -
  have balance: "crediting i h p M s'" if c: "crediting i h p M s" and run: "getOrgBalance o' e a s = (r, s')" for s r s'
  proof -
    have "ledger_inv s" using c by (simp add: crediting_def deposit_inv_def)
    from getOrgBalance_unchanged [OF this run] have "ledger_inv s'" "movements s' = movements s"
      by (simp_all add: unchanged_def ledger_same_def)
    with inv_actD [OF deposits_kept(1) refl run] show ?thesis by (auto intro: crediting_grows [OF c])
  qed
  have op: "crediting i h p M s'" if c: "crediting i h p M s" and run: "run_op op params s = (r, s')" for s r s'
  proof -
    have "ledger_inv s" using c by (simp add: crediting_def deposit_inv_def)
    from this run have "ledger_inv s' \<and> set (movements s) \<subseteq> set (movements s')"
      by (cases rule: run_op_cases) (use \<open>ledger_inv s\<close> in auto)
    with inv_actD [OF deposits_kept(2) refl run] show ?thesis by (auto intro: crediting_grows [OF c])
  qed
  show "inv_act (crediting i h p M) (getOrgBalance o' e a)" "inv_act (crediting i h p M) (run_op op params)"
    using balance op unfolding inv_act_def by blast+
  show "inv_act (crediting i h p M) (sql_txn t f)" "inv_act (crediting i h p M) (getDepositByHash k)"
    by (auto simp: inv_act_def sql_txn_def run_tx_def update_txn_def getDepositByHash_run crediting_def deposit_inv_def)
qed

lemma crediting_posted:
  assumes c: "crediting i h p M s" and run: "run_op op params s = (Inr md, s')"
  shows "crediting i h p (insert (fst md) M) s' \<and> m_key (fst md) = normalizeKey (p_idempotencyKey params)"
proof -
  obtain m dup where md: "md = (m, dup)" by (cases md)
  have "ledger_inv s" using c by (simp add: crediting_def deposit_inv_def)
  from this run have "m \<in> set (movements s') \<and> m_key m = normalizeKey (p_idempotencyKey params)"
    unfolding md by (cases rule: run_op_cases) auto
  moreover have "crediting i h p M s'" using inv_actD [OF crediting_calls(2) c run] .
  ultimately show ?thesis by (simp add: crediting_def md)
qed

lemma crediting_patch:
  assumes c: "crediting i h p M s" and run: "sql_deposit i f s = (r, s')"
    and f: "\<And>x. dp_id (f x) = dp_id x \<and> dp_hash (f x) = dp_hash x"
    and ok: "\<And>x. filed (movements s) x \<Longrightarrow> dp_hash x = h \<Longrightarrow> (p \<Longrightarrow> dp_pending x \<noteq> None) \<Longrightarrow>
      filed (movements s) (f x) \<and> (p' \<longrightarrow> dp_pending (f x) \<noteq> None)"
  shows "crediting i h p' M s'"
proof -
  have s': "s' = s\<lparr>deposits := update_rows dp_id i f (deposits s)\<rparr>" using run by (simp add: sql_deposit_run)
  have ok': "filed (movements s) (f x) \<and> dp_hash (f x) = h \<and> (p' \<longrightarrow> dp_pending (f x) \<noteq> None)"
    if "x \<in> set (deposits s)" "dp_id x = i" for x
    using ok [of x] c that f [of x] by (auto simp: crediting_def deposit_inv_def)
  have "map dp_id (update_rows dp_id i f (deposits s)) = map dp_id (deposits s)"
    using f by (simp add: update_rows_def)
  moreover have "filed (movements s) y \<and> (dp_id y = i \<longrightarrow> dp_hash y = h \<and> (p' \<longrightarrow> dp_pending y \<noteq> None))"
    if "y \<in> set (deposits s')" for y
  proof -
    from that obtain x where x: "x \<in> set (deposits s)" "y = (if dp_id x = i then f x else x)"
      by (auto simp: s' set_update_rows)
    show ?thesis
    proof (cases "dp_id x = i")
      case True
      with x ok' [OF x(1) True] f [of x] show ?thesis by simp
    next
      case False
      with x c show ?thesis by (simp add: crediting_def deposit_inv_def)
    qed
  qed
  ultimately show ?thesis
    using c by (simp add: crediting_def deposit_inv_def s')
qed

lemma crediting_weaken: "crediting i h True M s \<Longrightarrow> crediting i h False N s" if "N \<subseteq> M" for i h M N s
  using that by (auto simp: crediting_def)

lemma crediting_patched:
  assumes "\<And>x. dp_id (f x) = dp_id x \<and> dp_hash (f x) = dp_hash x"
    and "\<And>ms x. M \<subseteq> set ms \<Longrightarrow> filed ms x \<Longrightarrow> dp_hash x = h \<Longrightarrow> (p \<Longrightarrow> dp_pending x \<noteq> None) \<Longrightarrow>
      filed ms (f x) \<and> (p' \<longrightarrow> dp_pending (f x) \<noteq> None)"
    and "crediting i h p M s" and "sql_deposit i f s = (r, s')"
  shows "crediting i h p' M s'"
  by (rule crediting_patch [OF assms(3,4,1)]) (use assms(2,3) in \<open>auto simp: crediting_def\<close>)

lemma crediting_release:
  assumes h: "vd_hash v = h"
  shows "inv_act (crediting i h True M) (releaseDeposit a v i t dup)"
proof -
  let ?f = "\<lambda>q x. x\<lparr>dp_status := ''confirmed'',
      dp_available := (case dp_available x of Some m \<Rightarrow> Some m | None \<Rightarrow> Some (m_id (fst q)))\<rparr>"
  have patch: "inv_act (crediting i h True (insert (fst q) M)) (sql_deposit i (?f q))"
    if "m_key (fst q) = deposit_key h ''available''" for q :: "movement \<times> bool"
    unfolding inv_act_def
    by (intro allI impI, erule crediting_patched [rotated 2], assumption)
      (use that in \<open>auto simp: filed_def entry_def split: option.splits\<close>)
  have sub: "crediting i h True (insert m M) s \<Longrightarrow> crediting i h True M s" for m s by (simp add: crediting_def)
  have rel: "inv_act (crediting i h True M) (releasePendingToAvailable params)" for params
    using crediting_calls(2) [of i h True M OpReleasePending params] by simp
  show ?thesis
    unfolding releaseDeposit_def
    by (rule inv_act_strengthen [where P = "\<lambda>q. m_key (fst q) = deposit_key h ''available''"
          and J = "\<lambda>q. crediting i h True (insert (fst q) M)", OF rel _ _ sub])
      (use crediting_posted [of i h True M _ OpReleasePending] h in \<open>simp, intro inv_intros patch\<close>)
qed

lemma crediting_book:
  assumes h: "vd_hash v = h" and i: "dp_id d = i"
  shows "inv_act (crediting i h False {}) (bookDeposit a v d t stop)"
proof -
  let ?f = "\<lambda>q x. x\<lparr>
      dp_pending := (case dp_pending x of Some m \<Rightarrow> Some m | None \<Rightarrow> Some (m_id (fst q))),
      dp_tx := (case dp_tx x of Some t' \<Rightarrow> Some t' | None \<Rightarrow> Some t),
      dp_status := (if dp_status x = ''confirmed'' then dp_status x else ''pending_ledger'')\<rparr>"
  have patched: "crediting i h p {fst q} s'"
    if "m_key (fst q) = deposit_key h ''pending''" "crediting i h False {fst q} s" "sql_deposit i (?f q) s = (r, s')"
    for q :: "movement \<times> bool" and s r s' p
    by (rule crediting_patched [OF _ _ that(2,3)])
      (use that(1) in \<open>auto simp: filed_def entry_def split: option.splits\<close>)
  then have patch: "inv_act (crediting i h False {fst q}) (sql_deposit i (?f q))"
    if "m_key (fst q) = deposit_key h ''pending''" for q :: "movement \<times> bool"
    using that unfolding inv_act_def by blast
  have rest: "inv_act (crediting i h True {fst q}) (if stop then
        abnd (getOrgBalance o' e x) (\<lambda>balance. abnd (getDepositByHash k) (\<lambda>deposit. aret (g balance deposit)))
      else releaseDeposit a v i t (snd q))" for q :: "movement \<times> bool" and o' e x k g
    by (intro inv_intros crediting_release h)
  have credit: "inv_act (crediting i h False {}) (creditOrgWalletPending params)" for params
    using crediting_calls(2) [of i h False "{}" OpCreditPending params] by simp
  show ?thesis
    unfolding bookDeposit_def i
    by (rule inv_act_strengthen [where P = "\<lambda>q. m_key (fst q) = deposit_key h ''pending''"
          and J = "\<lambda>q. crediting i h False {fst q}", OF credit], use crediting_posted [of i h False "{}" _ OpCreditPending] h in simp,
        rule inv_act_strengthen [where P = "\<lambda>_. True" and J = "\<lambda>_. crediting i h True {fst q}" for q, OF patch _ rest],
        assumption, simp add: patched, erule crediting_weaken [rotated], simp, simp add: crediting_def)
qed

lemma crediting_transaction:
  assumes i: "dp_id d = i"
  shows "inv_act (crediting i h False {}) (depositTransaction a v d)"
proof -
  have ensure: "inv_act (crediting i h False {}) (ensureDepositTransaction a v k)" for k
    unfolding inv_act_def
    by (intro allI impI, erule ensureDepositTransaction_run) (auto simp: crediting_def deposit_inv_def)
  have "inv_act (crediting i h False {}) (sql_deposit i (\<lambda>x. x\<lparr>dp_tx := Some t, dp_status := ''pending_ledger''\<rparr>))" for t
    unfolding inv_act_def by (intro allI impI, erule crediting_patched [rotated 2], assumption) (auto simp: filed_def)
  with ensure show ?thesis unfolding depositTransaction_def i by (intro inv_intros)
qed

lemma depositAccount_state: "depositAccount v given s = (r, s') \<Longrightarrow> s' = s"
  by (auto simp: depositAccount_def findOrgStellarAccountByPublicKey_def Let_def abnd_def split: option.splits if_splits)

lemma deposit_reads: "inv_act deposit_inv (getOrgBalance o' e a)" "inv_act deposit_inv (run_op op params)"
proof -
  have balance: "deposit_inv s'" if c: "deposit_inv s" and run: "getOrgBalance o' e a s = (r, s')" for s r s'
  proof -
    have "ledger_inv s" using c by (simp add: deposit_inv_def)
    from getOrgBalance_unchanged [OF this run] have "ledger_inv s'" "movements s' = movements s"
      by (simp_all add: unchanged_def ledger_same_def)
    with inv_actD [OF deposits_kept(1) refl run] show ?thesis by (auto intro: deposit_grows [OF c])
  qed
  have op: "deposit_inv s'" if c: "deposit_inv s" and run: "run_op op params s = (r, s')" for s r s'
  proof -
    have "ledger_inv s" using c by (simp add: deposit_inv_def)
    from this run have "ledger_inv s' \<and> set (movements s) \<subseteq> set (movements s')"
      by (cases rule: run_op_cases) (use \<open>ledger_inv s\<close> in auto)
    with inv_actD [OF deposits_kept(2) refl run] show ?thesis by (auto intro: deposit_grows [OF c])
  qed
  from balance op show "inv_act deposit_inv (getOrgBalance o' e a)" "inv_act deposit_inv (run_op op params)"
    unfolding inv_act_def by blast+
qed

lemma deposit_credit:
  assumes hash: "is_tx_hash (vd_hash v)"
  shows "inv_act deposit_inv (creditVerifiedDeposit v given stop)"
  unfolding inv_act_def
proof (intro allI impI)
  fix s r s' assume inv: "deposit_inv s" and run: "creditVerifiedDeposit v given stop s = (r, s')"
  let ?e = "find_row dp_hash (vd_hash v) (deposits s)"
  have norm: "to_lower (trim (vd_hash v)) = vd_hash v" by (rule is_tx_hash_normal [OF hash])
  show "deposit_inv s'"
  proof (cases "Option.bind ?e (\<lambda>d. if dp_status d = ''confirmed'' then Some d else None)")
    case (Some d)
    with run norm have "abnd (getOrgBalance (dp_org d) (env_name (dp_env d)) None) (\<lambda>balance.
        aret \<lparr>dr_deposit = Some d, dr_phase = ''available'', dr_balance = balance, dr_duplicate = True\<rparr>) s = (r, s')"
      by (simp add: creditVerifiedDeposit_def getDepositByHash_def)
    then show ?thesis by (rule inv_actD [rotated 2]) (intro inv_intros deposit_reads, fact)
  next
    case None
    with run norm have go: "abnd (depositAccount v given) (\<lambda>a. abnd (depositRow a v ?e) (\<lambda>d.
        abnd (depositTransaction a v d) (\<lambda>t. bookDeposit a v d t stop))) s = (r, s')"
      by (simp add: creditVerifiedDeposit_def getDepositByHash_def)
    obtain ra where da: "depositAccount v given s = (ra, s)"
      using depositAccount_state by (cases "depositAccount v given s") auto
    show ?thesis
    proof (cases ra)
      case (Inl x)
      with go da inv show ?thesis by simp
    next
      case (Inr a)
      obtain rd s1 where dr: "depositRow a v ?e s = (rd, s1)" by (cases "depositRow a v ?e s") auto
      have row: "crediting (dp_id d) (vd_hash v) False {} s1" if "rd = Inr d" for d
        using dr
      proof (cases rule: depositRow_cases)
        case (old d')
        with that have "d \<in> set (deposits s)" "dp_hash d = vd_hash v" using norm by (auto dest: find_row_Some)
        with inv old show ?thesis
          by (auto simp: crediting_def deposit_inv_def distinct_map dest: inj_onD)
      next
        case (new d')
        then have d: "dp_hash d = vd_hash v" "filed (movements s) d" "deposits s1 = d # deposits s"
          "dp_id d \<notin> dp_id ` set (deposits s)" "movements s1 = movements s" "ledger_inv s1 = ledger_inv s"
          using that by (simp_all add: deposit_row_def filed_def)
        with inv show ?thesis by (auto simp: crediting_def deposit_inv_def) (metis image_eqI)+
      qed (use that in simp)
      have rest: "inv_act (crediting (dp_id d) (vd_hash v) False {}) (abnd (depositTransaction a v d) (\<lambda>t. bookDeposit a v d t stop))" for d
        by (intro inv_intros crediting_transaction crediting_book refl)
      show ?thesis
      proof (cases rd)
        case (Inl x)
        have "s1 = s" using dr by (cases rule: depositRow_cases) (use Inl in auto)
        with go da \<open>ra = Inr a\<close> dr Inl inv show ?thesis by simp
      next
        case (Inr d)
        with go da \<open>ra = Inr a\<close> dr have "abnd (depositTransaction a v d) (\<lambda>t. bookDeposit a v d t stop) s1 = (r, s')" by simp
        from inv_actD [OF rest row [OF Inr] this] show ?thesis by (simp add: crediting_def)
      qed
    qed
  qed
qed

lemma verified_hash: "verifyExternalUsdcDeposit sd input = Inr v \<Longrightarrow> is_tx_hash (vd_hash v)"
  by (elim verify_Inr checked_Inr) simp

definition mock_ok :: "process_input \<Rightarrow> bool" where
  "mock_ok input \<longleftrightarrow> (\<forall>v. px_mock input = Some v \<longrightarrow> is_tx_hash (vd_hash v))"

lemma deposit_process:
  assumes "mock_ok input"
  shows "inv_act deposit_inv (processExternalDepositByHash sd input)"
proof -
  let ?check = "\<lparr>dc_hash = px_hash input, dc_destination = px_destination input, dc_amount = px_amount input, dc_network = None\<rparr>"
  let ?get = "case (getInfraStellarDepositMode sd = ''mock'', px_mock input) of (True, Some v) \<Rightarrow> aret v
    | _ \<Rightarrow> aof_sum (verifyExternalUsdcDeposit sd ?check)"
  have "inv_act deposit_inv ?get" by (auto simp: inv_act_def split: bool.splits option.splits)
  moreover have "is_tx_hash (vd_hash v)" if "?get s = (Inr v, s')" for s v s'
    using that assms by (auto simp: mock_ok_def dest: verified_hash split: bool.splits option.splits)
  ultimately show ?thesis
    unfolding processExternalDepositByHash_def Let_def
    by (intro inv_act_if inv_act_pure inv_act_post [where P = "\<lambda>v. is_tx_hash (vd_hash v)"]) (auto intro!: inv_intros deposit_credit)
qed

lemma deposit_poll_record: "inv_act deposit_inv (pollRecord sd pk issuer p r)"
  unfolding pollRecord_def Let_def by (intro inv_intros deposit_process) (simp add: mock_ok_def)

lemma deposit_poll_records: "inv_act deposit_inv (pollRecords sd pk issuer ps r)"
  by (induction ps arbitrary: r) (simp_all add: inv_act_abnd deposit_poll_record)

lemma deposit_poll_org: "inv_act deposit_inv (pollOrgStellarDeposits sd o' e n)"
  unfolding pollOrgStellarDeposits_def pollPage_def getOrgStellarAccount_def loadAccount_def Let_def
  by (intro inv_intros deposit_poll_records)

lemma deposit_poll_accounts: "inv_act deposit_inv (pollAccounts sd as t)"
  by (induction as arbitrary: t) (simp_all add: inv_act_abnd deposit_poll_org)

lemma deposit_poll_all: "inv_act deposit_inv (pollAllActiveOrgDeposits sd e)"
  unfolding pollAllActiveOrgDeposits_def listActiveOrgStellarAccounts_def Let_def
  by (intro inv_intros deposit_poll_accounts)

text \<open>The states that deposits go through, with any other operation of the ledger in between\<close>

inductive deposit_reachable :: "db \<Rightarrow> bool" where
  start: "ledger_inv s \<Longrightarrow> deposits s = [] \<Longrightarrow> deposit_reachable s"
| credit: "deposit_reachable s \<Longrightarrow> is_tx_hash (vd_hash v) \<Longrightarrow> creditVerifiedDeposit v given stop s = (r, s') \<Longrightarrow>
    deposit_reachable s'"
| process: "deposit_reachable s \<Longrightarrow> mock_ok input \<Longrightarrow> processExternalDepositByHash sd input s = (r, s') \<Longrightarrow> deposit_reachable s'"
| poll: "deposit_reachable s \<Longrightarrow> pollAllActiveOrgDeposits sd e s = (r, s') \<Longrightarrow> deposit_reachable s'"
| operation: "deposit_reachable s \<Longrightarrow> run_op op params s = (r, s') \<Longrightarrow> deposit_reachable s'"

lemma deposit_reachable_inv: "deposit_reachable s \<Longrightarrow> deposit_inv s"
  by (induction rule: deposit_reachable.induct)
    (auto intro: inv_actD [OF deposit_credit] inv_actD [OF deposit_process] inv_actD [OF deposit_poll_all]
      inv_actD [OF deposit_reads(2)], simp add: deposit_inv_def)

text \<open>C14: A confirmed deposit is booked. Whatever deposits are credited, processed by hash and polled, in whatever
  order and however often, and whatever other operations run on the ledger in between: the row of a
  deposit that says "confirmed" names two movements that are on the ledger, the pending credit and the
  release to available, both under keys made of the hash of its transaction.\<close>

theorem confirmed_deposit_is_booked:
  assumes "deposit_reachable s" and "d \<in> set (deposits s)" and "dp_status d = ''confirmed''"
  shows "entry (movements s) (deposit_key (dp_hash d) ''pending'') (dp_pending d)
    \<and> entry (movements s) (deposit_key (dp_hash d) ''available'') (dp_available d)"
  using deposit_reachable_inv [OF assms(1)] assms(2,3) by (auto simp: deposit_inv_def filed_def)

section \<open>A deposit is credited once\<close>

lemma fixed_deposit_sql: "inv_act (ledger_fixed s0) (sql_deposit i f)"
  by (auto simp: inv_act_def sql_deposit_run ledger_fixed_def)

lemma fixed_same:
  assumes "\<And>s r s'. ledger_inv s \<Longrightarrow> m s = (r, s') \<Longrightarrow> ledger_same s s'"
  shows "inv_act (ledger_fixed s0) m"
  unfolding inv_act_def
proof (intro allI impI)
  fix s r s' assume f: "ledger_fixed s0 s" and "m s = (r, s')"
  then have "ledger_same s s'" using assms by (simp add: ledger_fixed_def)
  with f show "ledger_fixed s0 s'" by (simp add: ledger_fixed_def ledger_same_def)
qed

lemma fixed_row:
  "inv_act (ledger_fixed s0) (depositRow a v e)" "inv_act (ledger_fixed s0) (depositTransaction a v d)"
  "inv_act (ledger_fixed s0) (depositAccount v given)" "inv_act (ledger_fixed s0) (getDepositByHash h)"
proof -
  show "inv_act (ledger_fixed s0) (depositRow a v e)" by (rule fixed_same) (rule depositRow_same)
  show "inv_act (ledger_fixed s0) (depositTransaction a v d)" by (rule fixed_same) (rule depositTransaction_same)
  show "inv_act (ledger_fixed s0) (depositAccount v given)" by (rule fixed_same) (auto dest: depositAccount_state)
  show "inv_act (ledger_fixed s0) (getDepositByHash h)" by (simp add: inv_act_def getDepositByHash_run)
qed

lemma deposit_known:
  assumes "deposit_key (vd_hash v) ''pending'' \<in> m_key ` set (movements s0)"
    and "deposit_key (vd_hash v) ''available'' \<in> m_key ` set (movements s0)"
  shows "inv_act (ledger_fixed s0) (creditVerifiedDeposit v given stop)"
proof -
  have "inv_act (ledger_fixed s0) (creditOrgWalletPending (deposit_leg a v i t mt ''pending''))"
    "inv_act (ledger_fixed s0) (releasePendingToAvailable (deposit_leg a v i t mt ''available''))" for a i t mt
    using fixed_op [of "deposit_leg a v i t mt ''pending''" s0 OpCreditPending]
      fixed_op [of "deposit_leg a v i t mt ''available''" s0 OpReleasePending] assms by simp_all
  then show ?thesis
    unfolding creditVerifiedDeposit_def bookDeposit_def releaseDeposit_def
    by (intro inv_intros fixed_row fixed_deposit_sql fixed_sql_txn) assumption+
qed

text \<open>C25: A deposit is credited once. Once the row of a transaction says "confirmed", a further credit of its hash -
  by whatever caller, for whatever account, with whatever amount it claims to have verified - posts no
  movement and changes no balance.\<close>

theorem confirmed_deposit_credited_once:
  assumes "deposit_reachable s" and "d \<in> set (deposits s)" and "dp_status d = ''confirmed''" and "dp_hash d = vd_hash v"
    and "creditVerifiedDeposit v given stop s = (r, s')"
  shows "movements s' = movements s \<and> balances s' = balances s"
proof -
  have keys: "deposit_key (vd_hash v) ''pending'' \<in> m_key ` set (movements s)"
    "deposit_key (vd_hash v) ''available'' \<in> m_key ` set (movements s)"
    using deposit_reachable_inv [OF assms(1)] assms(2-4) by (force simp: deposit_inv_def filed_def entry_def)+
  have "ledger_inv s" using deposit_reachable_inv [OF assms(1)] by (simp add: deposit_inv_def)
  from inv_actD [OF deposit_known [OF keys] ledger_fixed_refl [OF this] assms(5)] show ?thesis
    by (simp add: ledger_fixed_def)
qed

section \<open>Examples\<close>

definition ex_external :: "string \<Rightarrow> string \<Rightarrow> horizon_op" where
  "ex_external destination amount = \<lparr>ho_type = ''payment'', ho_from = ''GEXTERNAL'', ho_to = destination, ho_code = ''USDC'',
     ho_issuer = TESTNET_USDC_ISSUER, ho_amount = amount, ho_id = ''op-1''\<rparr>"

definition ex_horizon :: "horizon_op list \<Rightarrow> sdk" where
  "ex_horizon ops = (ex_sdk ((''DAYFI_INFRA_STELLAR_DEPOSIT_MODE'', ''live'') # ex_onchain_env))\<lparr>
     sdk_horizonTx := (\<lambda>url h. Some \<lparr>ht_successful = True, ht_ledger = Some 7, ht_fee_charged = Some ''100'', ht_fee_account = None\<rparr>),
     sdk_horizonOps := (\<lambda>url h. Some ops)\<rparr>"

text \<open>The addresses of the two organisations of \<open>ex_pair\<close>\<close>

definition ex_acme :: string where
  "ex_acme = CHR ''G'' # replicate 54 (CHR ''A'') @ ''3''"

definition ex_gamma :: string where
  "ex_gamma = CHR ''G'' # replicate 54 (CHR ''A'') @ ''7''"

definition ex_hash :: string where
  "ex_hash = replicate 64 (CHR ''a'')"

definition ex_process :: process_input where
  "ex_process = \<lparr>px_hash = ex_hash, px_destination = None, px_amount = None, px_stop = False, px_mock = None\<rparr>"

definition ex_deposited :: "(js_error + deposit_reply \<times> verified_deposit) \<times> db" where
  "ex_deposited = processExternalDepositByHash (ex_horizon [ex_external ex_acme ''12.5'']) ex_process ex_pair"

lemma ex_deposited_run: "case ex_deposited of (r, s) \<Rightarrow> succeeded (r, s) \<and> vd_hash (snd (value_of (r, s))) = ex_hash
    \<and> balances s (''acme'', Test, ''USDC'') = (225 / 2, 0, 0) \<and> map dp_status (deposits s) = [''confirmed''] \<and> map dp_hash (deposits s) = [ex_hash]"
  by code_simp

theorem deposit_credited_exactly_witness:
  "\<exists>x. money (snd ex_deposited) = money ex_pair + round7 x \<and> balances (snd ex_deposited) (''acme'', Test, ''USDC'') = (225 / 2, 0, 0)"
proof -
  let ?sd = "ex_horizon [ex_external ex_acme ''12.5'']"
  obtain reply v s' where ex: "ex_deposited = (Inr (reply, v), s')" and v: "vd_hash v = ex_hash"
    and b: "balances s' (''acme'', Test, ''USDC'') = (225 / 2, 0, 0)"
    using by_run [OF ex_deposited_run] succeeded_run [of ex_deposited] by (cases ex_deposited) (auto simp: succeeded_def value_of_def split: sum.splits)
  from ex have run: "processExternalDepositByHash ?sd ex_process ex_pair = (Inr (reply, v), s')" by (simp add: ex_deposited_def)
  have "find_row dp_hash ex_hash (deposits ex_pair) = None \<and> deposit_key ex_hash ''pending'' \<notin> m_key ` set (movements ex_pair)
    \<and> deposit_key ex_hash ''available'' \<notin> m_key ` set (movements ex_pair)" by code_simp
  then have new: "find_row dp_hash (vd_hash v) (deposits ex_pair) = None" "deposit_key (vd_hash v) ''pending'' \<notin> m_key ` set (movements ex_pair)"
    "deposit_key (vd_hash v) ''available'' \<notin> m_key ` set (movements ex_pair)"
    by (simp_all only: v simp_thms)
  have px: "px_mock ex_process = None" "\<not> px_stop ex_process" by (simp_all add: ex_process_def)
  from deposit_credited_exactly [OF ex_pair_facts(1) disjI2 [OF px(1)] px(2) run new]
  have "\<exists>x. money s' = money ex_pair + round7 x" by blast
  with b show ?thesis unfolding ex snd_conv by blast
qed

theorem verified_deposit_is_on_chain_witness:
  "\<exists>v (op :: horizon_op). verifyExternalUsdcDeposit (ex_horizon [ex_external ex_acme ''12.5'']) \<lparr>dc_hash = ex_hash, dc_destination = None,
     dc_amount = None, dc_network = None\<rparr> = Inr v \<and> vd_amount v = 25 / 2 \<and> trim (ho_to op) = vd_destination v"
proof -
  let ?run = "verifyExternalUsdcDeposit (ex_horizon [ex_external ex_acme ''12.5'']) \<lparr>dc_hash = ex_hash, dc_destination = None,
     dc_amount = None, dc_network = None\<rparr>"
  have "case ?run of Inl e \<Rightarrow> False | Inr v \<Rightarrow> vd_amount v = 25 / 2" by code_simp
  then obtain v where v: "?run = Inr v" "vd_amount v = 25 / 2" by (cases ?run) auto
  from verified_deposit_is_on_chain [OF v(1)] obtain op :: horizon_op where "trim (ho_to op) = vd_destination v"
    by (elim exE conjE) (rule that)
  with v show ?thesis by (intro exI [of _ v] exI [of _ op] conjI)
qed

lemma ex_deposited_reachable:
  "deposit_reachable (snd ex_deposited) \<and> (\<exists>d \<in> set (deposits (snd ex_deposited)). dp_status d = ''confirmed'' \<and> dp_hash d = ex_hash)"
proof -
  have "deposits ex_pair = []" by code_simp
  then have "deposit_reachable ex_pair" using ex_pair_facts by (intro deposit_reachable.start) simp_all
  then have "deposit_reachable (snd ex_deposited)"
    by (rule deposit_reachable.process [where input = ex_process and r = "fst ex_deposited"])
      (simp_all add: mock_ok_def ex_process_def ex_deposited_def)
  with by_run [OF ex_deposited_run] show ?thesis by (auto simp: map_eq_Cons_conv)
qed

theorem confirmed_deposit_is_booked_witness:
  "\<exists>d \<in> set (deposits (snd ex_deposited)). entry (movements (snd ex_deposited)) (deposit_key ex_hash ''available'') (dp_available d)"
proof -
  from ex_deposited_reachable obtain d where "deposit_reachable (snd ex_deposited)" "d \<in> set (deposits (snd ex_deposited))"
    "dp_status d = ''confirmed''" "dp_hash d = ex_hash" by blast
  with confirmed_deposit_is_booked [of "snd ex_deposited" d] show ?thesis by auto
qed

definition ex_again :: "(js_error + deposit_reply) \<times> db" where
  "ex_again = creditVerifiedDeposit ((snd (value_of ex_deposited))\<lparr>vd_amount := 1000\<rparr>) None False (snd ex_deposited)"

theorem confirmed_deposit_credited_once_witness:
  "movements (snd ex_again) = movements (snd ex_deposited) \<and> balances (snd ex_again) (''acme'', Test, ''USDC'') = (225 / 2, 0, 0)"
proof -
  let ?v = "(snd (value_of ex_deposited))\<lparr>vd_amount := 1000\<rparr>"
  from ex_deposited_reachable obtain d where d: "deposit_reachable (snd ex_deposited)" "d \<in> set (deposits (snd ex_deposited))"
    "dp_status d = ''confirmed''" "dp_hash d = ex_hash" by blast
  have e: "vd_hash ?v = ex_hash" "balances (snd ex_deposited) (''acme'', Test, ''USDC'') = (225 / 2, 0, 0)"
    using by_run [OF ex_deposited_run] by simp_all
  have "creditVerifiedDeposit ?v None False (snd ex_deposited) = (fst ex_again, snd ex_again)" by (simp add: ex_again_def)
  from confirmed_deposit_credited_once [OF d(1-3) _ this] d(4) e show ?thesis by (simp del: verified_deposit.simps)
qed

text \<open>One row that cannot be credited does not stop the loop, and every record is counted once.\<close>

lemma pollRecord_counts:
  "\<exists>r' s'. pollRecord sd pk issuer p r s = (Inr r', s') \<and> pl_scanned r' = Suc (pl_scanned r)
    \<and> pl_processed r' + pl_skipped r' + length (pl_errors r') = Suc (pl_processed r + pl_skipped r + length (pl_errors r))
    \<and> pl_credited r' + pl_duplicates r' \<le> pl_credited r + pl_duplicates r + (pl_processed r' - pl_processed r)
    \<and> pl_processed r \<le> pl_processed r'"
proof (cases "skipped_record pk issuer p")
  case False
  let ?in = "\<lparr>px_hash = to_lower (pg_hash p), px_destination = Some pk, px_amount = None, px_stop = False, px_mock = None\<rparr>"
  obtain x s1 where run: "processExternalDepositByHash sd ?in s = (x, s1)"
    by (cases "processExternalDepositByHash sd ?in s") auto
  with False show ?thesis
    by (cases x) (auto simp: pollRecord_def Let_def abnd_def acatch_def poll_error_def counted_def)
qed (simp add: pollRecord_def Let_def)

text \<open>The poll of an account always answers. Whatever the records of a page are and however the processing of
  each of them fails, the loop goes on to the next one and answers; every record is counted exactly once,
  as processed, skipped or an error, and no more are counted as credited or duplicate than processed.\<close>

theorem poll_answers_for_every_record:
  "\<exists>r' s'. pollRecords sd pk issuer ps r s = (Inr r', s') \<and> pl_scanned r' = pl_scanned r + length ps
    \<and> pl_processed r' + pl_skipped r' + length (pl_errors r') = pl_processed r + pl_skipped r + length (pl_errors r) + length ps
    \<and> pl_credited r' + pl_duplicates r' \<le> pl_credited r + pl_duplicates r + (pl_processed r' - pl_processed r)
    \<and> pl_processed r \<le> pl_processed r'"
proof (induction ps arbitrary: r s)
  case (Cons p ps)
  obtain r1 s1 where 1: "pollRecord sd pk issuer p r s = (Inr r1, s1)" "pl_scanned r1 = Suc (pl_scanned r)"
    "pl_processed r1 + pl_skipped r1 + length (pl_errors r1) = Suc (pl_processed r + pl_skipped r + length (pl_errors r))"
    "pl_credited r1 + pl_duplicates r1 \<le> pl_credited r + pl_duplicates r + (pl_processed r1 - pl_processed r)"
    "pl_processed r \<le> pl_processed r1"
    using pollRecord_counts by blast
  from Cons.IH [of r1 s1] obtain r2 s2 where 2: "pollRecords sd pk issuer ps r1 s1 = (Inr r2, s2)"
    "pl_scanned r2 = pl_scanned r1 + length ps"
    "pl_processed r2 + pl_skipped r2 + length (pl_errors r2) = pl_processed r1 + pl_skipped r1 + length (pl_errors r1) + length ps"
    "pl_credited r2 + pl_duplicates r2 \<le> pl_credited r1 + pl_duplicates r1 + (pl_processed r2 - pl_processed r1)"
    "pl_processed r1 \<le> pl_processed r2"
    by blast
  from 1 2 show ?case by (intro exI [of _ r2] exI [of _ s2]) simp
qed simp

section \<open>A payment between two organisations is a deposit\<close>

text \<open>
  The poll passes over payments of the account itself, not over those of another organisation. Here the
  network reports a payment from \<open>acme\<close>'s own account to \<open>gamma\<close>'s - the payment of an on-chain transfer,
  which the ledger books for both when the chain confirms it. The poll credits \<open>gamma\<close> for it as well.
\<close>

definition ex_record :: payment_record where
  "ex_record = \<lparr>pg_type = ''payment'', pg_from = ex_acme, pg_to = ex_gamma, pg_code = ''USDC'',
     pg_issuer = TESTNET_USDC_ISSUER, pg_hash = ex_hash\<rparr>"

definition ex_internal :: sdk where
  "ex_internal = (ex_horizon [(ex_external ex_gamma ''20'')\<lparr>ho_from := ex_acme\<rparr>])\<lparr>sdk_payments := (\<lambda>url pk n. Some [ex_record])\<rparr>"

lemma internal_payment_is_credited:
  "case pollOrgStellarDeposits ex_internal ''gamma'' ''test'' None ex_pair of (r, s) \<Rightarrow>
     succeeded (r, s) \<and> pl_credited (value_of (r, s)) = 1 \<and> balances s (''gamma'', Test, ''USDC'') = (20, 0, 0)
     \<and> balances s (''acme'', Test, ''USDC'') = (100, 0, 0) \<and> list_ex (\<lambda>a. a_org a = ''acme'' \<and> a_public a = ex_acme) (st_accounts s)"
  by code_simp

text \<open>The first account whose poll fails ends the poll of all the others.\<close>

lemma failed_account_ends_the_poll:
  assumes "pollOrgStellarDeposits sd (av_orgId a) (env_name (av_environment a)) None s = (Inl e, s1)"
  shows "pollAccounts sd (a # as) t s = (Inl e, s1)"
  using assms by simp

end
