(* ===== verification/Treasury.thy ===== *)
theory Treasury
  imports Funding Fee Settlement
begin

text \<open>
  \<open>src/src/modules/infra/infraTreasuryService.ts\<close>: what the organisations are owed according to the
  ledger, what the treasury holds on Stellar, and the rebalancing of treasury funds, which is requested,
  approved and submitted by hand. Joins go over the foreign keys of the tables.
\<close>

section \<open>The table\<close>

definition rebalance_fits :: "rebalance \<Rightarrow> bool" where
  "rebalance_fits r \<longleftrightarrow> fits28 (rb_amount r)
     \<and> list_all (\<lambda>x. case x of None \<Rightarrow> True | Some n \<Rightarrow> fits28 n) [rb_liabilities r, rb_liquidity r, rb_shortfall r]"

definition insert_rebalance :: "rebalance \<Rightarrow> (db, rebalance) tx" where
  "insert_rebalance r s =
    (if \<not> rebalance_fits r then Inl NumericOverflow
     else if \<not> 0 < rb_amount r then Inl CheckViolation
     else if rb_id r \<in> rb_id ` set (rebalances s) \<or> (rb_env r, rb_key r) \<in> (\<lambda>x. (rb_env x, rb_key x)) ` set (rebalances s)
     then Inl UniqueViolation
     else Inr (r, s\<lparr>rebalances := r # rebalances s\<rparr>))"

definition sql_rebalance :: "string \<Rightarrow> (rebalance \<Rightarrow> rebalance) \<Rightarrow> (db, unit) act" where
  "sql_rebalance i f s = (Inr (), s\<lparr>rebalances := update_rows rb_id i f (rebalances s)\<rparr>)"

text \<open>\<open>UPDATE ... WHERE id = $1 RETURNING\<close> read with \<open>db.one\<close>\<close>

definition update_rebalance :: "string \<Rightarrow> (rebalance \<Rightarrow> rebalance) \<Rightarrow> (db, rebalance) act" where
  "update_rebalance i f s = (case find_row rb_id i (rebalances s) of
     None \<Rightarrow> (Inl NoData, s)
   | Some r \<Rightarrow> (Inr (f r), s\<lparr>rebalances := update_rows rb_id i f (rebalances s)\<rparr>))"

definition loadRebalance :: "string \<Rightarrow> (db, rebalance option) act" where
  "loadRebalance i = aquery (\<lambda>s. find_row rb_id i (rebalances s))"

definition rebalance_by_key :: "string \<Rightarrow> string \<Rightarrow> db \<Rightarrow> rebalance option" where
  "rebalance_by_key environment key s =
    find (\<lambda>r. env_name (rb_env r) = environment \<and> rb_key r = key) (rebalances s)"

section \<open>Configuration\<close>

definition formatMoney :: "rat \<Rightarrow> string" where
  "formatMoney n = or_str (Some (strip_fraction_zeros (to_fixed7 (round7 n)))) ''0''"

definition isTreasuryFrozen :: "sdk \<Rightarrow> bool" where
  "isTreasuryFrozen sd \<longleftrightarrow> (let raw = env_word sd ''DAYFI_TREASURY_FROZEN'' [] in raw = ''1'' \<or> raw = ''true'' \<or> raw = ''on'')"

text \<open>\<open>treasurySecret\<close> of this file: the settlement secret, or the master wallet's\<close>

definition rebalanceSecret :: "sdk \<Rightarrow> string option" where
  "rebalanceSecret sd = or_else (Some (or_str (Some (env_trim sd ''DAYFI_STELLAR_SETTLEMENT_SECRET''))
     (env_trim sd ''MASTER_WALLET_SECRET_KEY''))) None"

definition positive_or :: "rat \<Rightarrow> js_num \<Rightarrow> rat" where
  "positive_or d n = (case n of Fin x \<Rightarrow> if 0 < x then x else d | _ \<Rightarrow> d)"

definition healthyCoverageThreshold :: "sdk \<Rightarrow> rat" where
  "healthyCoverageThreshold sd =
    positive_or (105 / 100) (js_Number (RStr (or_str (sdk_env sd ''DAYFI_TREASURY_HEALTHY_COVERAGE'') ''1.05'')))"

definition lowCoverageThreshold :: "sdk \<Rightarrow> rat" where
  "lowCoverageThreshold sd = positive_or 1 (js_Number (RStr (or_str (sdk_env sd ''DAYFI_TREASURY_LOW_COVERAGE'') ''1.0'')))"

text \<open>\<open>/^G[A-Z2-7]{55}$/\<close>, the base-32 alphabet\<close>

definition is_base32_address :: "string \<Rightarrow> bool" where
  "is_base32_address v \<longleftrightarrow> length v = 56 \<and> hd v = CHR ''G'' \<and> list_all (\<lambda>c. is_upper c \<or> List.member ''234567'' c) (tl v)"

definition assertTreasuryAddress :: "string \<Rightarrow> js_error + string" where
  "assertTreasuryAddress value =
    (let v = trim value in if is_base32_address v then Inr v else Inl (InfraTreasuryError ''INVALID_STELLAR_ADDRESS'' 400))"

record rebalance_view =
  rv_id :: string
  rv_environment :: string
  rv_asset :: string
  rv_sourceKind :: string
  rv_destinationKind :: string
  rv_sourceRef :: string
  rv_destinationRef :: string
  rv_amount :: rat
  rv_status :: string
  rv_purpose :: string
  rv_external :: "string option"
  rv_metadata :: jmap
  rv_failureReason :: "string option"
  rv_idempotencyKey :: string
  rv_requestedBy :: "string option"
  rv_liabilities :: "rat option"
  rv_liquidity :: "rat option"
  rv_shortfall :: "rat option"

definition mapRebalance :: "rebalance \<Rightarrow> rebalance_view" where
  "mapRebalance row = \<lparr>rv_id = rb_id row, rv_environment = env_name (rb_env row), rv_asset = rb_asset row,
     rv_sourceKind = rb_source_kind row, rv_destinationKind = rb_destination_kind row, rv_sourceRef = rb_source row,
     rv_destinationRef = rb_destination row, rv_amount = rb_amount row, rv_status = rb_status row,
     rv_purpose = rb_purpose row, rv_external = rb_external row, rv_metadata = rb_metadata row,
     rv_failureReason = rb_failure row, rv_idempotencyKey = rb_key row, rv_requestedBy = rb_by row,
     rv_liabilities = rb_liabilities row, rv_liquidity = rb_liquidity row, rv_shortfall = rb_shortfall row\<rparr>"

section \<open>What is owed\<close>

record liabilities =
  li_total :: rat
  li_available :: rat
  li_pending :: rat
  li_locked :: rat
  li_orgs :: nat
  li_feeRevenue :: rat

definition org_slug :: "db \<Rightarrow> string \<Rightarrow> string option" where
  "org_slug s i = map_option o_slug (find_row o_id i (orgs s))"

definition customer_wallets :: "string \<Rightarrow> string \<Rightarrow> db \<Rightarrow> wallet list" where
  "customer_wallets environment asset s = filter (\<lambda>w. env_name (w_env w) = environment \<and> w_asset w = asset
     \<and> w_status w = Active \<and> org_slug s (w_org w) \<noteq> None \<and> org_slug s (w_org w) \<noteq> Some FEE_ORG_SLUG) (wallets s)"

definition fee_wallets :: "string \<Rightarrow> string \<Rightarrow> db \<Rightarrow> wallet list" where
  "fee_wallets environment asset s = filter (\<lambda>w. env_name (w_env w) = environment \<and> w_asset w = asset
     \<and> org_slug s (w_org w) = Some FEE_ORG_SLUG) (wallets s)"

definition getCustomerLiabilityTotals :: "string \<Rightarrow> string option \<Rightarrow> (db, liabilities) act" where
  "getCustomerLiabilityTotals environmentInput assetInput =
    (let environment = or_str (Some environmentInput) ''test''; asset = or_str assetInput ''USDC'' in
     abnd (aquery (customer_wallets environment asset)) (\<lambda>rows.
     abnd (aquery (\<lambda>s. sum_list (map (\<lambda>w. w_available w + w_pending w + w_locked w) (fee_wallets environment asset s)))) (\<lambda>fee.
     let available = sum_list (map w_available rows); pending = sum_list (map w_pending rows);
         locked = sum_list (map w_locked rows)
     in aret \<lparr>li_total = round7 (available + pending + locked), li_available = round7 available, li_pending = round7 pending,
          li_locked = round7 locked, li_orgs = length rows, li_feeRevenue = round7 fee\<rparr>)))"

record obligations =
  og_funding :: rat
  og_payouts :: rat
  og_retry :: rat
  og_confirmed :: rat
  og_failed :: rat

text \<open>\<open>COALESCE(metadata->>'key', 'false') = 'true'\<close>\<close>

definition json_is_true :: "jmap \<Rightarrow> string \<Rightarrow> bool" where
  "json_is_true meta key \<longleftrightarrow> meta key = Some (JBool True) \<or> meta key = Some (JStr ''true'')"

definition settled_offramp :: "db \<Rightarrow> settlement \<Rightarrow> bool" where
  "settled_offramp s x \<longleftrightarrow> (let rail = to_upper (s_rail x) in rail = ''YELLOW_CARD'' \<or> rail = ''PROVIDER'')
     \<and> (case s_payout_tx x of None \<Rightarrow> False
        | Some i \<Rightarrow> (case find_row t_id i (txns s) of None \<Rightarrow> False
          | Some t \<Rightarrow> json_is_true (t_metadata t) ''offRamp'' \<and> json_is_true (t_metadata t) ''stellarConfirmed''))"

definition settled_sum :: "string \<Rightarrow> (settlement \<Rightarrow> bool) \<Rightarrow> db \<Rightarrow> rat" where
  "settled_sum environment P s =
    round7 (sum_list (map s_amount (filter (\<lambda>x. env_name (s_env x) = environment \<and> P x) (settlements s))))"

definition getPendingObligations :: "string \<Rightarrow> (db, obligations) act" where
  "getPendingObligations environment = aquery (\<lambda>s.
     \<lparr>og_funding = settled_sum environment (\<lambda>x. s_status x = ''pending_treasury'' \<and> s_asset x = ''USDC'') s,
      og_payouts = settled_sum environment (\<lambda>x. List.member [''pending'', ''submitted''] (to_lower (s_status x)) \<and> settled_offramp s x) s,
      og_retry = settled_sum environment (\<lambda>x. to_lower (s_status x) = ''failed'' \<and> settled_offramp s x) s,
      og_confirmed = settled_sum environment (\<lambda>x. to_lower (s_status x) = ''confirmed'' \<and> s_asset x = ''USDC''
        \<and> to_upper (s_rail x) = ''STELLAR'') s,
      og_failed = settled_sum environment (\<lambda>x. to_lower (s_status x) = ''failed'' \<and> s_asset x = ''USDC'') s\<rparr>)"

record custody_totals =
  ct_usdc :: rat
  ct_accounts :: nat

text \<open>One account of the loop: its USDC, unless it is the treasury or cannot be read\<close>

definition custody_balance :: "sdk \<Rightarrow> stellar_config \<Rightarrow> string \<Rightarrow> rat option" where
  "custody_balance sd cfg publicKey =
    (let pk = trim publicKey; issuer = resolveUsdcIssuer sd (cfg_isTestnet cfg) in
     if pk = [] \<or> Some pk = getDayfiTreasuryPublicKey sd then None
     else case sdk_loadAccount sd (cfg_horizonUrl cfg) pk of
         None \<Rightarrow> None
       | Some hbs \<Rightarrow>
           let usdc = find (\<lambda>b. hb_code b = Some ''USDC'' \<and> hb_issuer b = Some issuer) hbs in
           (case parse_float (or_str (map_option hb_balance usdc) ''0'') of Fin n \<Rightarrow> Some n | _ \<Rightarrow> None))"

definition observeCustomerCustodyUsdc :: "sdk \<Rightarrow> string \<Rightarrow> (db, custody_totals) act" where
  "observeCustomerCustodyUsdc sd environmentInput =
    (let environment = or_str (Some environmentInput) ''test'' in
     abnd (aquery (\<lambda>s. map a_public (filter (\<lambda>a. env_name (a_env a) = environment \<and> a_status a = ''active'') (st_accounts s)))) (\<lambda>accounts.
     abnd (aof_sum (getStellarConfig sd)) (\<lambda>cfg.
     if getStellarSettlementMode sd = ''mock'' then aret \<lparr>ct_usdc = 0, ct_accounts = length accounts\<rparr>
     else
       let read = List.map_filter (custody_balance sd cfg) accounts
       in aret \<lparr>ct_usdc = round7 (sum_list read), ct_accounts = length read\<rparr>)))"

section \<open>The position of the treasury\<close>

datatype treasury_status =
    HEALTHY
  | LOW_LIQUIDITY
  | INSUFFICIENT_LIQUIDITY
  | RECONCILIATION_REQUIRED
  | FROZEN
  | UNCONFIGURED

definition classifyTreasuryStatus :: "sdk \<Rightarrow> bool \<Rightarrow> bool \<Rightarrow> bool \<Rightarrow> rat option \<Rightarrow> string list \<Rightarrow> treasury_status" where
  "classifyTreasuryStatus sd frozen configured observationOk coverageRatio differences =
    (if \<not> configured then UNCONFIGURED
     else if frozen then FROZEN
     else if \<not> observationOk \<or> differences \<noteq> [] then RECONCILIATION_REQUIRED
     else case coverageRatio of
         None \<Rightarrow> RECONCILIATION_REQUIRED
       | Some coverage \<Rightarrow>
           if coverage < lowCoverageThreshold sd then INSUFFICIENT_LIQUIDITY
           else if coverage < healthyCoverageThreshold sd then LOW_LIQUIDITY
           else HEALTHY)"

text \<open>\<open>toFixed(4)\<close>\<close>

definition to_fixed4 :: "rat \<Rightarrow> string" where
  "to_fixed4 x = (let k = nat (math_round (\<bar>x\<bar> * 10000)); part = show_nat (k mod 10000) in
     (if x < 0 then ''-'' else []) @ show_nat (k div 10000) @ ''.'' @ replicate (4 - length part) CHR ''0'' @ part)"

record treasury_position =
  tp_network :: string
  tp_environment :: string
  tp_publicKey :: "string option"
  tp_status :: treasury_status
  tp_onChainBalance :: string
  tp_customerLiability :: string
  tp_customerAvailable :: string
  tp_customerPending :: string
  tp_customerLocked :: string
  tp_liquidityGap :: string
  tp_coverageRatio :: string
  tp_availableLiquidity :: string
  tp_xlm :: string
  tp_pendingFunding :: string
  tp_pendingPayouts :: string
  tp_pendingRetry :: string
  tp_custodyUsdc :: string
  tp_custodyAccounts :: nat
  tp_feeRevenue :: string
  tp_lastObservedAt :: "string option"
  tp_lastReconciledAt :: string
  tp_differences :: "string list"

definition coverage_of :: "rat \<Rightarrow> rat \<Rightarrow> rat option" where
  "coverage_of liability available =
    (if 0 < liability then Some (round7 (available / liability)) else if 0 < available then None else Some 1)"

text \<open>The reply, from what was read\<close>

definition position_of :: "sdk \<Rightarrow> string \<Rightarrow> stellar_config \<Rightarrow> observation option \<Rightarrow> liabilities \<Rightarrow> obligations \<Rightarrow> custody_totals \<Rightarrow> treasury_position" where
  "position_of sd environment cfg onChain l o' c =
    (let differences = (if onChain = None then [''Unable to observe Dayfi treasury on Horizon''] else []);
         onChainUsdc = (case onChain of Some ob \<Rightarrow> ob_usdc ob | None \<Rightarrow> 0);
         availableLiquidity = round7 onChainUsdc;
         liability = li_total l;
         gap = round7 (liability - availableLiquidity);
         coverage = coverage_of liability availableLiquidity;
         publicKey = (case or_else (map_option ob_publicKey onChain) None of Some pk \<Rightarrow> Some pk | None \<Rightarrow> getDayfiTreasuryPublicKey sd);
         status = classifyTreasuryStatus sd (isTreasuryFrozen sd) (or_else publicKey None \<noteq> None) (onChain \<noteq> None)
           (if liability = 0 then Some (if 0 \<le> availableLiquidity then max (healthyCoverageThreshold sd) 1 else 0) else coverage)
           differences
     in \<lparr>tp_network = or_str (map_option ob_network onChain) (if cfg_isTestnet cfg then ''testnet'' else ''public''),
         tp_environment = environment, tp_publicKey = publicKey, tp_status = status,
         tp_onChainBalance = formatMoney onChainUsdc, tp_customerLiability = formatMoney liability,
         tp_customerAvailable = formatMoney (li_available l), tp_customerPending = formatMoney (li_pending l),
         tp_customerLocked = formatMoney (li_locked l), tp_liquidityGap = formatMoney (gap * -1),
         tp_coverageRatio = (if liability = 0 then (if 0 \<le> availableLiquidity then ''n/a'' else ''0'')
           else to_fixed4 (case coverage of Some x \<Rightarrow> x | None \<Rightarrow> 0)),
         tp_availableLiquidity = formatMoney availableLiquidity,
         tp_xlm = formatMoney (case onChain of Some ob \<Rightarrow> ob_xlm ob | None \<Rightarrow> 0),
         tp_pendingFunding = formatMoney (og_funding o'), tp_pendingPayouts = formatMoney (og_payouts o'),
         tp_pendingRetry = formatMoney (og_retry o'), tp_custodyUsdc = formatMoney (ct_usdc c),
         tp_custodyAccounts = ct_accounts c, tp_feeRevenue = formatMoney (li_feeRevenue l),
         tp_lastObservedAt = or_else (map_option ob_observedAt onChain) None, tp_lastReconciledAt = sdk_now sd,
         tp_differences = differences\<rparr>)"

text \<open>Evaluation waits for the liabilities.\<close>

lemmas position_of_code [code] = position_of_def [where l = "\<lparr>li_total = x, li_available = a, li_pending = p, li_locked = k, li_orgs = n,
  li_feeRevenue = f\<rparr>"] for x a p k n f

definition getTreasuryPosition :: "sdk \<Rightarrow> string option \<Rightarrow> (db, treasury_position) act" where
  "getTreasuryPosition sd environmentInput =
    (let environment = or_str environmentInput ''test'' in
     abnd (aof_sum (observeDayfiTreasuryOnChain sd)) (\<lambda>onChain.
     abnd (getCustomerLiabilityTotals environment None) (\<lambda>l.
     abnd (getPendingObligations environment) (\<lambda>o'.
     abnd (observeCustomerCustodyUsdc sd environment) (\<lambda>c.
     abnd (aof_sum (getStellarConfig sd)) (\<lambda>cfg.
     aret (position_of sd environment cfg onChain l o' c)))))))"

record treasury_report =
  tr_status :: treasury_status
  tr_position :: treasury_position
  tr_legs :: "(string \<times> string \<times> string) list"
  tr_resultCode :: string
  tr_notes :: "string list"

definition money_number :: "string \<Rightarrow> rat" where
  "money_number text = (case js_Number (RStr text) of Fin x \<Rightarrow> x | _ \<Rightarrow> 0)"

definition treasury_result :: "treasury_position \<Rightarrow> string" where
  "treasury_result p =
    (let gap = money_number (tp_customerLiability p) - money_number (tp_availableLiquidity p) in
     if tp_status p = RECONCILIATION_REQUIRED then ''TREASURY_OBSERVATION_INCOMPLETE''
     else if 1 / 10000000 < gap then ''LIQUIDITY_SHORTFALL''
     else if tp_status p = LOW_LIQUIDITY then ''LIQUIDITY_THIN'' else ''TREASURY_RECONCILED'')"

definition reconcileTreasuryPosition :: "sdk \<Rightarrow> string option \<Rightarrow> (db, treasury_report) act" where
  "reconcileTreasuryPosition sd environmentInput =
    abnd (getTreasuryPosition sd environmentInput) (\<lambda>p.
    aret \<lparr>tr_status = tp_status p, tr_position = p,
      tr_legs = [(''customer_liability'', tp_customerLiability p, ''obligation''), (''treasury_usdc'', tp_onChainBalance p, ''liquidity''),
        (''pending_customer_funding'', tp_pendingFunding p, ''treasury_out_queue''),
        (''pending_provider_payouts'', tp_pendingPayouts p, ''provider_obligation''),
        (''provider_retry_required'', tp_pendingRetry p, ''provider_obligation''),
        (''customer_custody_usdc'', tp_custodyUsdc p, ''not_treasury'')],
      tr_resultCode = treasury_result p,
      tr_notes = tp_differences p @
        [''Customer liability comes from infra ledger (available+pending+locked)'',
         ''Treasury USDC comes from live Horizon observation'', ''Customer Stellar wallets are excluded from treasury liquidity'',
         ''E/E-ONCHAIN and F do not move Dayfi treasury USDC'',
         ''C drains treasury -> customer; H credits treasury from customer'']\<rparr>)"

section \<open>Requesting a rebalance\<close>

fun split_at :: "char \<Rightarrow> string \<Rightarrow> string list" where
  "split_at c [] = [[]]"
| "split_at c (x # xs) = (let rest = split_at c xs in if x = c then [] # rest else (x # hd rest) # tl rest)"

definition allowlistedSecondaryTreasuryKeys :: "sdk \<Rightarrow> string list" where
  "allowlistedSecondaryTreasuryKeys sd =
    (let a = env_trim sd ''DAYFI_STELLAR_TREASURY_B_PUBLIC_KEY''; b = env_trim sd ''DAYFI_STELLAR_SECONDARY_TREASURY_PUBLIC_KEY'' in
     remdups (filter (\<lambda>k. k \<noteq> []) ([a, b] @ map trim (split_at (CHR '','') (env_str (sdk_env sd) ''DAYFI_STELLAR_TREASURY_ALLOWLIST'')))))"

definition assertDestinationIsDayfiOwned :: "sdk \<Rightarrow> string \<Rightarrow> (db, unit) act" where
  "assertDestinationIsDayfiOwned sd destination =
    abnd (aof_sum (assertTreasuryAddress destination)) (\<lambda>dest.
    if (case or_else (getDayfiTreasuryPublicKey sd) None of Some t \<Rightarrow> dest = t | None \<Rightarrow> False)
    then athrow (InfraTreasuryError ''SELF_TRANSFER'' 400)
    else
      abnd (aquery (\<lambda>s. find (\<lambda>a. a_public a = dest \<and> a_status a = ''active'') (st_accounts s))) (\<lambda>customer.
      if customer \<noteq> None then athrow (InfraTreasuryError ''CUSTOMER_WALLET_FORBIDDEN'' 403)
      else
        let allow = allowlistedSecondaryTreasuryKeys sd; open = env_word sd ''DAYFI_TREASURY_REBALANCE_OPEN'' [] in
        if allow \<noteq> [] then
          (if List.member allow dest then aret () else athrow (InfraTreasuryError ''DESTINATION_NOT_ALLOWLISTED'' 403))
        else if open \<noteq> ''1'' \<and> open \<noteq> ''true'' \<and> getStellarSettlementMode sd = ''live''
        then athrow (InfraTreasuryError ''REBALANCE_NOT_CONFIGURED'' 403)
        else aret ()))"

definition assertEnvironmentNetwork :: "sdk \<Rightarrow> string \<Rightarrow> js_error + unit" where
  "assertEnvironmentNetwork sd environment =
    bind_sum (getStellarConfig sd) (\<lambda>cfg.
    if environment = ''test'' \<and> \<not> cfg_isTestnet cfg \<or> environment = ''live'' \<and> cfg_isTestnet cfg
    then Inl (InfraTreasuryError ''WRONG_NETWORK'' 403) else Inr ())"

record rebalance_input =
  ri_environment :: "string option"
  ri_amount :: js_num
  ri_destination :: string
  ri_idempotencyKey :: string
  ri_requestedBy :: "string option"
  ri_purpose :: "string option"
  ri_autoApprove :: bool

record rebalance_reply =
  rr_view :: rebalance_view
  rr_duplicate :: bool
  rr_feeXlm :: "json option"

definition plain_reply :: "rebalance \<Rightarrow> rebalance_reply" where
  "plain_reply row = \<lparr>rr_view = mapRebalance row, rr_duplicate = False, rr_feeXlm = None\<rparr>"

definition duplicate_reply :: "rebalance \<Rightarrow> rebalance_reply" where
  "duplicate_reply row = \<lparr>rr_view = mapRebalance row, rr_duplicate = True, rr_feeXlm = None\<rparr>"

text \<open>The insert; an environment that the column does not take violates its check.\<close>

definition rebalance_row :: "rebalance_input \<Rightarrow> infra_env \<Rightarrow> string \<Rightarrow> string \<Rightarrow> rat \<Rightarrow> rat \<Rightarrow> rat \<Rightarrow> string \<Rightarrow> rebalance" where
  "rebalance_row input env source destination amount liability onChain i =
    \<lparr>rb_id = i, rb_env = env, rb_asset = ''USDC'', rb_source_kind = ''dayfi_treasury'', rb_destination_kind = ''dayfi_treasury'',
     rb_source = source, rb_destination = destination, rb_amount = numeric7 amount,
     rb_status = (if ri_autoApprove input then ''approved'' else ''requested''), rb_purpose = or_str (ri_purpose input) ''manual'',
     rb_external = None, rb_metadata = Map.empty, rb_failure = None, rb_key = ri_idempotencyKey input,
     rb_by = or_else (ri_requestedBy input) None, rb_liabilities = Some (numeric7 liability),
     rb_liquidity = Some (numeric7 onChain), rb_shortfall = Some (numeric7 (liability - onChain))\<rparr>"

definition environment_column :: "string \<Rightarrow> infra_env option" where
  "environment_column e = (if e = ''test'' then Some Test else if e = ''live'' then Some Live else None)"

definition insertRebalance :: "rebalance_input \<Rightarrow> string \<Rightarrow> string \<Rightarrow> string \<Rightarrow> rat \<Rightarrow> rat \<Rightarrow> rat \<Rightarrow> (db, rebalance_reply) act" where
  "insertRebalance input environment source destination amount liability onChain =
    acatch
      (abnd (run_tx (case environment_column environment of
          None \<Rightarrow> fail CheckViolation
        | Some env \<Rightarrow> bnd new_uuid (\<lambda>i. insert_rebalance (rebalance_row input env source destination amount liability onChain i)))) (\<lambda>row.
       aret (plain_reply row)))
      (\<lambda>err. if isUniqueViolation err
        then abnd (run_tx (bnd (query (rebalance_by_key environment (ri_idempotencyKey input))) the_row)) (\<lambda>again. aret (duplicate_reply again))
        else athrow err)"

definition requestRebalance :: "sdk \<Rightarrow> rebalance_input \<Rightarrow> string \<Rightarrow> string \<Rightarrow> string \<Rightarrow> js_num \<Rightarrow> (db, rebalance_reply) act" where
  "requestRebalance sd input environment source destination amount =
    abnd (getTreasuryPosition sd (Some environment)) (\<lambda>position.
    let onChain = money_number (tp_onChainBalance position); liability = money_number (tp_customerLiability position) in
    case amount of
      Fin x \<Rightarrow> if onChain + 1 / 1000000000 < x then athrow (InfraTreasuryError ''INSUFFICIENT_TREASURY_USDC'' 400)
        else insertRebalance input environment source destination x liability onChain
    | _ \<Rightarrow> athrow (InfraTreasuryError ''INSUFFICIENT_TREASURY_USDC'' 400))"

definition round7_num :: "js_num \<Rightarrow> js_num" where
  "round7_num n = (case n of Fin x \<Rightarrow> Fin (round7 x) | _ \<Rightarrow> n)"

definition positive_num :: "js_num \<Rightarrow> bool" where
  "positive_num n = (case n of Fin x \<Rightarrow> 0 < x | NaN \<Rightarrow> False | Infinite neg \<Rightarrow> \<not> neg)"

definition requestTreasuryRebalance :: "sdk \<Rightarrow> rebalance_input \<Rightarrow> (db, rebalance_reply) act" where
  "requestTreasuryRebalance sd input =
    (if isTreasuryFrozen sd then athrow (InfraTreasuryError ''TREASURY_FROZEN'' 403)
     else
       let environment = or_str (ri_environment input) ''test''; amount = round7_num (ri_amount input) in
       abnd (aof_sum (assertEnvironmentNetwork sd environment)) (\<lambda>_.
       if \<not> positive_num amount then athrow (InfraTreasuryError ''INVALID_AMOUNT'' 400)
       else case or_else (getDayfiTreasuryPublicKey sd) None of
           None \<Rightarrow> athrow (InfraTreasuryError ''TREASURY_UNCONFIGURED'' 503)
         | Some source \<Rightarrow>
             abnd (aof_sum (assertTreasuryAddress (ri_destination input))) (\<lambda>destination.
             abnd (assertDestinationIsDayfiOwned sd destination) (\<lambda>_.
             abnd (aquery (rebalance_by_key environment (ri_idempotencyKey input))) (\<lambda>existing.
             case existing of
               Some row \<Rightarrow> aret (duplicate_reply row)
             | None \<Rightarrow> requestRebalance sd input environment source destination amount)))))"

section \<open>Approval and submission\<close>

definition wrong_environment :: "string option \<Rightarrow> rebalance \<Rightarrow> bool" where
  "wrong_environment environment row \<longleftrightarrow> (case or_else environment None of Some e \<Rightarrow> env_name (rb_env row) \<noteq> e | None \<Rightarrow> False)"

definition approveTreasuryRebalance :: "sdk \<Rightarrow> string \<Rightarrow> string option \<Rightarrow> (db, rebalance_reply) act" where
  "approveTreasuryRebalance sd rebalanceId environment =
    (if isTreasuryFrozen sd then athrow (InfraTreasuryError ''TREASURY_FROZEN'' 403)
     else
       abnd (loadRebalance rebalanceId) (\<lambda>found. case found of
         None \<Rightarrow> athrow (InfraTreasuryError ''NOT_FOUND'' 404)
       | Some row \<Rightarrow>
           if wrong_environment environment row then athrow (InfraTreasuryError ''CROSS_ENVIRONMENT'' 403)
           else if List.member [''approved'', ''submitted'', ''confirmed''] (rb_status row) then aret (plain_reply row)
           else if rb_status row \<noteq> ''requested'' then athrow (InfraTreasuryError ''INVALID_STATUS'' 400)
           else
             abnd (update_rebalance rebalanceId (\<lambda>r. r\<lparr>rb_status := ''approved''\<rparr>)) (\<lambda>updated.
             aret (plain_reply updated))))"

text \<open>What must hold before the payment: destination, signing secret, source, liquidity, asset\<close>

definition treasurySigning :: "sdk \<Rightarrow> rebalance \<Rightarrow> js_error + unit" where
  "treasurySigning sd row =
    (let secret = rebalanceSecret sd; treasuryPk = or_else (getDayfiTreasuryPublicKey sd) None in
     if secret = None \<and> getStellarSettlementMode sd = ''live'' then Inl (InfraTreasuryError ''TREASURY_SECRET_MISSING'' 503)
     else if treasuryPk \<noteq> Some (rb_source row) then Inl (InfraTreasuryError ''INVALID_SOURCE'' 403)
     else case secret of
         None \<Rightarrow> Inr ()
       | Some k \<Rightarrow> (case sdk_publicKey sd k of
           None \<Rightarrow> Inl (InfraTreasuryError ''TREASURY_SECRET_INVALID'' 500)
         | Some pk \<Rightarrow> if Some pk \<noteq> treasuryPk then Inl (InfraTreasuryError ''TREASURY_KEY_MISMATCH'' 500) else Inr ()))"

definition treasuryLiquidity :: "sdk \<Rightarrow> rebalance \<Rightarrow> js_error + unit" where
  "treasuryLiquidity sd row =
    bind_sum (observeDayfiTreasuryOnChain sd) (\<lambda>onChain.
    if getStellarSettlementMode sd \<noteq> ''live'' then Inr ()
    else case onChain of
        None \<Rightarrow> Inl (InfraTreasuryError ''HORIZON_UNAVAILABLE'' 503)
      | Some ob \<Rightarrow>
          if ob_usdc ob + 1 / 1000000000 < rb_amount row then Inl (InfraTreasuryError ''INSUFFICIENT_TREASURY_USDC'' 400)
          else if ob_xlm ob < 1 / 10 then Inl (InfraTreasuryError ''INSUFFICIENT_TREASURY_XLM'' 400)
          else Inr ())"

definition submitGuards :: "sdk \<Rightarrow> rebalance \<Rightarrow> (db, stellar_config) act" where
  "submitGuards sd row =
    abnd (assertDestinationIsDayfiOwned sd (rb_destination row)) (\<lambda>_.
    abnd (aof_sum (treasurySigning sd row)) (\<lambda>_.
    abnd (aof_sum (treasuryLiquidity sd row)) (\<lambda>_.
    abnd (aof_sum (getStellarConfig sd)) (\<lambda>cfg.
    if rb_asset row \<noteq> ''USDC'' then athrow (InfraTreasuryError ''WRONG_ASSET'' 400) else aret cfg))))"

definition charged_fee :: "sdk \<Rightarrow> stellar_config \<Rightarrow> string \<Rightarrow> string option" where
  "charged_fee sd cfg hash =
    (if getStellarSettlementMode sd = ''mock'' then Some ''0.00001''
     else case Option.bind (sdk_horizonTx sd (cfg_horizonUrl cfg) hash) ht_fee_charged of
         None \<Rightarrow> None
       | Some fee \<Rightarrow> if fee = [] then Some ''0'' else (case stroopsToXlm (Some fee) of Inr x \<Rightarrow> x | Inl e \<Rightarrow> None))"

definition rebalance_payment :: "sdk \<Rightarrow> rebalance \<Rightarrow> payment_input" where
  "rebalance_payment sd row = \<lparr>pi_destination = rb_destination row, pi_amount = RNum (Fin (rb_amount row)),
     pi_memo = Some (''g:'' @ take 24 (rb_id row)), pi_sourceSecret = rebalanceSecret sd\<rparr>"

definition verifiedRebalance :: "sdk \<Rightarrow> payment \<Rightarrow> js_error + verification" where
  "verifiedRebalance sd p =
    (if getStellarSettlementMode sd = ''mock'' then Inr \<lparr>ve_confirmed = True, ve_status = ''SUCCESS'', ve_ledger = Some 1\<rparr>
     else verifyUsdcPayment sd (pr_hash p))"

definition opt_int :: "int option \<Rightarrow> json" where
  "opt_int x = (case x of Some k \<Rightarrow> JNum (of_int k) | None \<Rightarrow> JNull)"

definition confirmed_rebalance :: "sdk \<Rightarrow> stellar_config \<Rightarrow> payment \<Rightarrow> verification \<Rightarrow> string option \<Rightarrow> rebalance \<Rightarrow> rebalance" where
  "confirmed_rebalance sd cfg p verified feeXlm r =
    (let issuer = resolveUsdcIssuer sd (cfg_isTestnet cfg);
         ledger = (case ve_ledger verified of Some k \<Rightarrow> Some k | None \<Rightarrow> pr_ledger p)
     in r\<lparr>rb_status := ''confirmed'', rb_external := Some (pr_hash p), rb_failure := None,
       rb_metadata := rb_metadata r ++ [''purpose'' \<mapsto> JStr ''treasury_rebalance'',
         ''stellar'' \<mapsto> JObj [(''transactionHash'', JStr (pr_hash p)), (''ledgerSequence'', opt_int ledger), (''source'', JStr (pr_source p)),
           (''destination'', JStr (pr_destination p)), (''amount'', JStr (pr_amount p)), (''asset'', JStr ''USDC''), (''issuer'', JStr issuer)],
         ''actualNetworkFeeXlm'' \<mapsto> opt_json feeXlm, ''usdcIssuer'' \<mapsto> JStr issuer]\<rparr>)"

fun is_InfraTreasuryError :: "js_error \<Rightarrow> bool" where
  "is_InfraTreasuryError (InfraTreasuryError c n) = True"
| "is_InfraTreasuryError _ = False"

definition failRebalance :: "rebalance \<Rightarrow> js_error \<Rightarrow> (db, rebalance_reply) act" where
  "failRebalance row err =
    (if is_InfraTreasuryError err then athrow err
     else
       abnd (sql_rebalance (rb_id row) (\<lambda>r. if rb_status r = ''confirmed'' then r
         else r\<lparr>rb_status := ''failed'', rb_failure := Some (message_of err)\<rparr>)) (\<lambda>_.
       athrow (InfraTreasuryError ''STELLAR_SUBMIT_FAILED'' 502)))"

definition payRebalance :: "sdk \<Rightarrow> stellar_config \<Rightarrow> rebalance \<Rightarrow> (db, rebalance_reply) act" where
  "payRebalance sd cfg row =
    acatch
      (abnd (aof_sum (submitUsdcPayment sd (rebalance_payment sd row))) (\<lambda>p.
       abnd (aof_sum (verifiedRebalance sd p)) (\<lambda>verified.
       if \<not> ve_confirmed verified then
         abnd (sql_rebalance (rb_id row) (\<lambda>r. r\<lparr>rb_status := ''failed'',
           rb_failure := Some (''Stellar transaction not confirmed ('' @ ve_status verified @ '')''), rb_external := Some (pr_hash p)\<rparr>)) (\<lambda>_.
         athrow (InfraTreasuryError ''STELLAR_UNCONFIRMED'' 502))
       else
         (let feeXlm = charged_fee sd cfg (pr_hash p) in
          abnd (update_rebalance (rb_id row) (confirmed_rebalance sd cfg p verified feeXlm)) (\<lambda>confirmed.
          aret \<lparr>rr_view = mapRebalance confirmed, rr_duplicate = False, rr_feeXlm = map_option JStr feeXlm\<rparr>)))))
      (failRebalance row)"

definition recorded_fee :: "rebalance \<Rightarrow> json option" where
  "recorded_fee row = (if json_truthy (rb_metadata row ''actualNetworkFeeXlm'') then rb_metadata row ''actualNetworkFeeXlm'' else None)"

definition submitRow :: "sdk \<Rightarrow> rebalance \<Rightarrow> (db, rebalance_reply) act" where
  "submitRow sd row =
    (if \<not> List.member [''approved'', ''requested'', ''failed''] (rb_status row) then athrow (InfraTreasuryError ''INVALID_STATUS'' 400)
     else abnd (submitGuards sd row) (\<lambda>cfg. payRebalance sd cfg row))"

definition submitLoaded :: "sdk \<Rightarrow> rebalance \<Rightarrow> (db, rebalance_reply) act" where
  "submitLoaded sd row =
    (case or_else (rb_external row) None of
       None \<Rightarrow> submitRow sd row
     | Some hash \<Rightarrow>
         if rb_status row = ''confirmed'' then
           aret \<lparr>rr_view = mapRebalance row, rr_duplicate = True, rr_feeXlm = recorded_fee row\<rparr>
         else if rb_status row = ''submitted'' then
           abnd (aof_sum (verifyUsdcPayment sd hash)) (\<lambda>verified.
           if ve_confirmed verified then
             abnd (update_rebalance (rb_id row) (\<lambda>r. r\<lparr>rb_status := ''confirmed'', rb_metadata := rb_metadata r ++
               [''horizonConfirmed'' \<mapsto> JBool True, ''confirmedLedgerSequence'' \<mapsto> opt_int (ve_ledger verified)]\<rparr>)) (\<lambda>confirmed.
             aret (plain_reply confirmed))
           else submitRow sd row)
         else submitRow sd row)"

definition submitTreasuryRebalance :: "sdk \<Rightarrow> string \<Rightarrow> string option \<Rightarrow> (db, rebalance_reply) act" where
  "submitTreasuryRebalance sd rebalanceId environment =
    (if isTreasuryFrozen sd then athrow (InfraTreasuryError ''TREASURY_FROZEN'' 403)
     else
       abnd (loadRebalance rebalanceId) (\<lambda>found. case found of
         None \<Rightarrow> athrow (InfraTreasuryError ''NOT_FOUND'' 404)
       | Some row \<Rightarrow>
           if wrong_environment environment row then athrow (InfraTreasuryError ''CROSS_ENVIRONMENT'' 403)
           else
             abnd (aof_sum (assertEnvironmentNetwork sd (env_name (rb_env row)))) (\<lambda>_.
             submitLoaded sd row)))"

definition executeTreasuryRebalance :: "sdk \<Rightarrow> rebalance_input \<Rightarrow> (db, rebalance_reply) act" where
  "executeTreasuryRebalance sd input =
    (let environment = Some (or_str (ri_environment input) ''test'') in
     abnd (requestTreasuryRebalance sd (input\<lparr>ri_autoApprove := True\<rparr>)) (\<lambda>requested.
     let v = rr_view requested in
     if rv_status v = ''confirmed'' then
       aret (requested\<lparr>rr_duplicate := True,
         rr_feeXlm := (if json_truthy (rv_metadata v ''actualNetworkFeeXlm'') then rv_metadata v ''actualNetworkFeeXlm'' else None)\<rparr>)
     else
       abnd (if rv_status v = ''requested'' then abnd (approveTreasuryRebalance sd (rv_id v) environment) (\<lambda>_. aret ()) else aret ()) (\<lambda>_.
       submitTreasuryRebalance sd (rv_id v) environment)))"

section \<open>Reads\<close>

definition getTreasuryRebalance :: "string \<Rightarrow> (db, rebalance_view) act" where
  "getTreasuryRebalance i =
    abnd (loadRebalance i) (\<lambda>found. case found of
      None \<Rightarrow> athrow (InfraTreasuryError ''NOT_FOUND'' 404) | Some row \<Rightarrow> aret (mapRebalance row))"

definition listTreasuryRebalances :: "string option \<Rightarrow> js_num option \<Rightarrow> (db, rebalance_view list) act" where
  "listTreasuryRebalances environmentInput limit =
    (let environment = or_str environmentInput ''test'' in
     aquery (\<lambda>s. map mapRebalance (take (clamp_limit limit 50 200) (filter (\<lambda>r. env_name (rb_env r) = environment) (rebalances s)))))"

end
