(* ===== verification/Treasury_Properties.thy ===== *)
theory Treasury_Properties
  imports Treasury Service_Examples Service_Invariant
begin

text \<open>
  Properties of the treasury: the liabilities are the ledger's money, what a healthy position promises,
  which rebalances are accepted, and that a confirmed rebalance is final.
\<close>

section \<open>Money texts\<close>

lemma formatMoney_grid:
  assumes "0 \<le> k" and "k < 10000000000000000000000000000"
  shows "money_number (formatMoney (of_int k / 10000000)) = of_int k / 10000000"
proof (cases "k = 0")
  case True
  have "money_number (formatMoney 0) = 0" by code_simp
  with True show ?thesis by simp
next
  case False
  with assms have pos: "0 < k" by simp
  let ?x = "of_int k / 10000000 :: rat"
  have "\<not> ?x \<le> 0" using pos by simp
  then have "or_str (Some (strip_fraction_zeros (to_fixed7 (round7 ?x)))) (to_fixed7 ?x) = formatUsdc k"
    using formatUsdcAmount_formatUsdc [OF pos assms(2)] by (simp add: formatUsdcAmount_def)
  then have "strip_fraction_zeros (to_fixed7 (round7 ?x)) = formatUsdc k \<or> strip_fraction_zeros (to_fixed7 (round7 ?x)) = []"
    by (auto simp: or_str_def or_else_def split: if_splits)
  moreover have "strip_fraction_zeros (to_fixed7 (round7 ?x)) = formatUsdc k"
  proof -
    have bound: "?x < 1000000000000000000000"
    proof -
      have "(of_int k :: rat) < of_int 10000000000000000000000000000" using assms(2) by (simp only: of_int_less_iff)
      then show ?thesis by (simp add: field_simps)
    qed
    have "math_round (\<bar>?x\<bar> * 10000000) = k" using pos by simp
    then have "to_fixed7 (round7 ?x) = show_nat (nat k div 10000000) @ ''.'' @ pad7 (nat k mod 10000000)"
      using pos bound by (simp add: to_fixed7_def Let_def)
    then have "strip_fraction_zeros (to_fixed7 (round7 ?x)) \<noteq> []"
      using strip_fraction [OF pad7_digits [of "nat k mod 10000000"], of "show_nat (nat k div 10000000)"] by simp
    with calculation show ?thesis by blast
  qed
  ultimately have "formatMoney ?x = formatUsdc k"
    by (simp add: formatMoney_def formatUsdc_parts)
  then show ?thesis using pos by (simp add: money_number_def js_Number_formatUsdc del: js_Number.simps)
qed

lemma money_number_format:
  assumes "0 \<le> round7 x" and "round7 x < 1000000000000000000000"
  shows "money_number (formatMoney x) = round7 x"
proof -
  have "on_grid (round7 x)" by simp
  then obtain k :: int where k: "round7 x = of_int k / 10000000" by (auto simp: on_grid_iff)
  have "(of_int k :: rat) < of_int 10000000000000000000000000000" using assms(2) by (simp add: k field_simps)
  then have "k < 10000000000000000000000000000" by (simp only: of_int_less_iff)
  moreover have "0 \<le> k" using assms(1) by (simp add: k zero_le_divide_iff)
  moreover have "formatMoney x = formatMoney (round7 x)" by (simp add: formatMoney_def)
  ultimately show ?thesis using formatMoney_grid by (simp add: k)
qed

section \<open>What is owed is the ledger's money\<close>

lemma on_grid_sum: "(\<And>x. x \<in> set xs \<Longrightarrow> on_grid (f x)) \<Longrightarrow> on_grid (sum_list (map f xs))"
  by (induction xs) simp_all

lemma sum_list_totals: "sum_list (map w_available ws) + sum_list (map w_pending ws) + sum_list (map w_locked ws)
    = sum_list (map wallet_total ws)"
  by (induction ws) (simp_all add: wallet_total_def)

lemma sum_disjoint_filters:
  assumes "\<And>x. x \<in> set xs \<Longrightarrow> (0::rat) \<le> f x" and "\<And>x. P x \<Longrightarrow> \<not> Q x"
  shows "sum_list (map f (filter P xs)) + sum_list (map f (filter Q xs)) \<le> sum_list (map f xs)"
  using assms(1) by (induction xs) (auto dest: assms(2) simp: add.assoc add.left_commute intro: add_mono add_increasing)

lemma liability_totals:
  assumes inv: "ledger_inv s" and run: "getCustomerLiabilityTotals environment asset s = (Inr l, s')"
  shows "li_total l = sum_list (map wallet_total (customer_wallets (or_str (Some environment) ''test'') (or_str asset ''USDC'') s))
    \<and> li_total l = li_available l + li_pending l + li_locked l \<and> 0 \<le> li_total l \<and> li_total l + li_feeRevenue l \<le> money s \<and> s' = s"
proof -
  let ?c = "customer_wallets (or_str (Some environment) ''test'') (or_str asset ''USDC'') s"
  let ?f = "fee_wallets (or_str (Some environment) ''test'') (or_str asset ''USDC'') s"
  have w: "on_grid (w_available w) \<and> on_grid (w_pending w) \<and> on_grid (w_locked w) \<and> 0 \<le> wallet_total w" if "w \<in> set (wallets s)" for w
    using ledger_invD(5,6) [OF inv that] by (auto simp: wallet_grid_def wallet_ok_def wallet_total_def)
  have c: "w \<in> set (wallets s)" if "w \<in> set ?c \<or> w \<in> set ?f" for w
    using that by (auto simp: customer_wallets_def fee_wallets_def)
  have grid: "on_grid (sum_list (map w_available ?c))" "on_grid (sum_list (map w_pending ?c))" "on_grid (sum_list (map w_locked ?c))"
    "on_grid (sum_list (map wallet_total ?f))" "on_grid (sum_list (map wallet_total ?c))"
    by (intro on_grid_sum; use w c in \<open>force simp: wallet_total_def\<close>)+
  from run have l: "li_available l = sum_list (map w_available ?c)" "li_pending l = sum_list (map w_pending ?c)"
    "li_locked l = sum_list (map w_locked ?c)" "li_total l = sum_list (map wallet_total ?c)"
    "li_feeRevenue l = sum_list (map wallet_total ?f)" and "s' = s"
    using grid by (auto simp: getCustomerLiabilityTotals_def Let_def act_simps sum_list_totals wallet_total_def [abs_def, symmetric])
  have "sum_list (map wallet_total ?c) + sum_list (map wallet_total ?f) \<le> money s"
    unfolding customer_wallets_def fee_wallets_def money_def by (rule sum_disjoint_filters) (use w in auto)
  moreover have "0 \<le> sum_list (map wallet_total ?c)" by (rule sum_list_nonneg) (use w c in auto)
  ultimately show ?thesis using l \<open>s' = s\<close> by (simp add: sum_list_totals)
qed

text \<open>The liabilities are the ledger's money. On a ledger in its invariant, the total owed to customers is exactly
  the sum of the available, pending and locked balances of the active wallets of one environment and asset
  outside the fee organisation, nothing is lost in the rounding of the report, and together with the fee
  revenue it never exceeds the money on the ledger.\<close>

theorem liabilities_are_ledger_money:
  assumes inv: "ledger_inv s" and run: "getCustomerLiabilityTotals environment asset s = (Inr l, s')"
  shows "li_total l = sum_list (map wallet_total (customer_wallets (or_str (Some environment) ''test'') (or_str asset ''USDC'') s))
    \<and> li_total l = li_available l + li_pending l + li_locked l \<and> 0 \<le> li_total l \<and> li_total l + li_feeRevenue l \<le> money s \<and> s' = s"
  using liability_totals [OF inv run] .

section \<open>A healthy treasury can pay\<close>

lemma position_run:
  assumes "getTreasuryPosition sd e s = (Inr p, s')"
  obtains cfg ob l o' c where "observeDayfiTreasuryOnChain sd = Inr ob" "getStellarConfig sd = Inr cfg"
    "getCustomerLiabilityTotals (or_str e ''test'') None s = (Inr l, s)" "p = position_of sd (or_str e ''test'') cfg ob l o' c" "s' = s"
proof -
  from assms obtain ob l s1 o' s2 c s3 cfg where
    1: "observeDayfiTreasuryOnChain sd = Inr ob" "getCustomerLiabilityTotals (or_str e ''test'') None s = (Inr l, s1)"
      "getPendingObligations (or_str e ''test'') s1 = (Inr o', s2)" "observeCustomerCustodyUsdc sd (or_str e ''test'') s2 = (Inr c, s3)"
      "getStellarConfig sd = Inr cfg" "p = position_of sd (or_str e ''test'') cfg ob l o' c" "s' = s3"
    unfolding getTreasuryPosition_def Let_def by (elim abndE) auto
  moreover have "s1 = s" using 1(2) by (auto simp: getCustomerLiabilityTotals_def Let_def act_simps)
  moreover have "s2 = s1" using 1(3) by (simp add: getPendingObligations_def)
  moreover have "s3 = s2" using 1(4) by (auto simp: observeCustomerCustodyUsdc_def Let_def act_simps split: if_splits)
  ultimately show thesis using that by blast
qed

lemma ratio_covers:
  assumes "0 < (l::rat)" and "1 + 1 / 10000000 \<le> round7 (a / l)"
  shows "l \<le> a"
proof -
  have "round7 (a / l) - a / l \<le> 1 / 20000000" using round7_error [of "a / l"] by linarith
  with assms(2) have "1 \<le> a / l" by linarith
  with assms(1) show ?thesis by (simp add: le_divide_eq)
qed

lemma position_healthy:
  assumes "tp_status (position_of sd e cfg ob l o' c) = HEALTHY"
  obtains t where "ob = Some t" "\<not> isTreasuryFrozen sd"
    "li_total l = 0 \<or> (\<exists>x. coverage_of (li_total l) (round7 (ob_usdc t)) = Some x \<and> healthyCoverageThreshold sd \<le> x)"
proof (cases ob)
  case None
  with assms show thesis by (simp add: position_of_def Let_def classifyTreasuryStatus_def split: if_splits)
next
  case (Some t)
  with assms that show thesis
    by (auto simp: position_of_def Let_def classifyTreasuryStatus_def split: if_splits option.splits)
qed

text \<open>C21: A healthy treasury can pay every customer. With a healthy threshold above one, a position that is reported
  as healthy means that the treasury is not frozen, that Horizon (or the mock) was read, and that the USDC
  it holds covers the active customers' available, pending and locked balances of the environment's ledger;
  the wallets of the customers on the chain are not counted. Computing the position changes nothing.\<close>

theorem healthy_treasury_covers:
  assumes inv: "ledger_inv s" and run: "getTreasuryPosition sd e s = (Inr p, s')" and healthy: "tp_status p = HEALTHY"
    and threshold: "1 + 1 / 10000000 \<le> healthyCoverageThreshold sd"
  shows "\<exists>ob. observeDayfiTreasuryOnChain sd = Inr (Some ob) \<and> \<not> isTreasuryFrozen sd \<and> s' = s
    \<and> (let owed = sum_list (map wallet_total (customer_wallets (or_str e ''test'') ''USDC'' s)) in owed = 0 \<or> owed \<le> round7 (ob_usdc ob))"
proof -
  from position_run [OF run] obtain cfg ob l o' c where 1: "observeDayfiTreasuryOnChain sd = Inr ob" "getStellarConfig sd = Inr cfg"
    "getCustomerLiabilityTotals (or_str e ''test'') None s = (Inr l, s)" "p = position_of sd (or_str e ''test'') cfg ob l o' c" "s' = s" .
  have env: "or_str (Some (or_str e ''test'')) ''test'' = or_str e ''test''" by (auto simp: or_str_def or_else_def split: option.splits)
  have l: "li_total l = sum_list (map wallet_total (customer_wallets (or_str e ''test'') ''USDC'' s))" "0 \<le> li_total l"
    using liability_totals [OF inv 1(3)] by (simp_all add: env)
  from position_healthy [OF healthy [unfolded 1(4)]] obtain t where t: "ob = Some t" "\<not> isTreasuryFrozen sd"
    "li_total l = 0 \<or> (\<exists>x. coverage_of (li_total l) (round7 (ob_usdc t)) = Some x \<and> healthyCoverageThreshold sd \<le> x)" .
  have "li_total l = 0 \<or> li_total l \<le> round7 (ob_usdc t)"
  proof (cases "li_total l = 0")
    case False
    with l(2) have pos: "0 < li_total l" by simp
    with t(3) False threshold have "1 + 1 / 10000000 \<le> round7 (round7 (ob_usdc t) / li_total l)" by (auto simp: coverage_of_def)
    with ratio_covers [OF pos] show ?thesis by simp
  qed simp
  with 1 t l(1) show ?thesis by (simp add: Let_def)
qed

section \<open>What a rebalance may do\<close>

lemma owned_destination:
  assumes "assertDestinationIsDayfiOwned sd d s = (Inr u, s')"
  shows "s' = s" "is_base32_address (trim d)" "getDayfiTreasuryPublicKey sd \<noteq> Some (trim d)"
    "\<forall>a \<in> set (st_accounts s). a_public a = trim d \<longrightarrow> a_status a \<noteq> ''active''"
    "allowlistedSecondaryTreasuryKeys sd \<noteq> [] \<longrightarrow> trim d \<in> set (allowlistedSecondaryTreasuryKeys sd)"
  using assms
  by (auto simp: assertDestinationIsDayfiOwned_def assertTreasuryAddress_def is_base32_address_def Let_def act_simps find_None_iff or_else_def
    split: if_splits option.splits)

lemma insertRebalance_Inr:
  assumes "insertRebalance input e source d x l oc s = (Inr reply, s')" and "\<not> rr_duplicate reply"
  obtains env i where "rr_view reply = mapRebalance (rebalance_row input env source d x l oc i)"
    "rebalances s' = rebalance_row input env source d x l oc i # rebalances s" "wallets s' = wallets s"
proof (cases "environment_column e")
  case None
  with assms show thesis
    by (auto simp: insertRebalance_def abnd_def acatch_def run_tx_def duplicate_reply_def fail_def isUniqueViolation_def act_simps
      split: if_splits sum.splits)
next
  case (Some env)
  let ?r = "rebalance_row input env source d x l oc (uuid_of s (uuid_next s))" and ?s = "s\<lparr>uuid_next := Suc (uuid_next s)\<rparr>"
  let ?tx = "bnd new_uuid (\<lambda>i. insert_rebalance (rebalance_row input env source d x l oc i))"
  show thesis
  proof (cases "insert_rebalance ?r ?s")
    case (Inl err)
    then have "run_tx ?tx s = (Inl err, s)" by (simp add: run_tx_def bnd_def new_uuid_def)
    with assms Some show thesis
      by (auto simp: insertRebalance_def abnd_def acatch_def duplicate_reply_def split: if_splits sum.splits prod.splits)
  next
    case (Inr rs)
    then have ins: "insert_rebalance ?r ?s = Inr (?r, ?s\<lparr>rebalances := ?r # rebalances s\<rparr>)" "0 < rb_amount ?r"
      by (auto simp: insert_rebalance_def split: if_splits)
    then have "run_tx ?tx s = (Inr ?r, ?s\<lparr>rebalances := ?r # rebalances s\<rparr>)"
      by (simp add: run_tx_def bnd_def new_uuid_def)
    with assms(1) Some have "reply = plain_reply ?r" "s' = ?s\<lparr>rebalances := ?r # rebalances s\<rparr>"
      by (simp_all add: insertRebalance_def abnd_def acatch_def)
    with ins(2) Some that show thesis by (simp add: plain_reply_def rebalance_row_def)
  qed
qed

lemma base32_trim: "is_base32_address v \<Longrightarrow> trim v = v"
proof -
  assume v: "is_base32_address v"
  have ws: "\<not> is_ws c" if "is_upper c \<or> c \<in> set ''234567''" for c
    using that by (auto simp: is_upper_def is_ws_def)
  obtain t where t: "v = CHR ''G'' # t" "t \<noteq> []" using v
    by (cases v) (auto simp: is_base32_address_def, metis list.size(3) zero_neq_numeral)
  with v have "\<forall>c \<in> set t. is_upper c \<or> c \<in> set ''234567''" by (auto simp: is_base32_address_def list_all_iff)
  with t(2) have "\<not> is_ws (last t)" using ws by (meson last_in_set)
  with t show "trim v = v" by (intro trim_id) (auto simp: is_ws_def)
qed

lemma grid_le: "on_grid x \<Longrightarrow> on_grid y \<Longrightarrow> x \<le> y + 1 / 1000000000 \<Longrightarrow> x \<le> y"
proof -
  assume "on_grid x" "on_grid y" and le: "x \<le> y + 1 / 1000000000"
  then obtain j k :: int where x: "x = of_int j / 10000000" and y: "y = of_int k / 10000000" by (auto simp: on_grid_iff)
  from le have "(of_int j :: rat) < of_int (k + 1)" by (simp add: x y field_simps)
  then have "j \<le> k" by (simp only: of_int_less_iff)
  then show "x \<le> y" by (simp add: x y divide_right_mono)
qed

text \<open>C34: A rebalance leaves the customers alone. A request that is accepted as new writes one row, whose source is the
  configured treasury and whose destination is a well-formed address that is not the treasury, is not the
  active Stellar account of any organisation and is on the allowlist if there is one; its amount is
  positive and at most what the treasury was seen to hold, and no wallet of the ledger changes.\<close>

theorem accepted_rebalance_is_treasury_money:
  assumes inv: "ledger_inv s" and run: "requestTreasuryRebalance sd input s = (Inr reply, s')" and new: "\<not> rr_duplicate reply"
    and observed: "observeDayfiTreasuryOnChain sd = Inr (Some ob)" "0 \<le> ob_usdc ob" "ob_usdc ob < 100000000000000000000"
  shows "\<exists>r. rebalances s' = r # rebalances s \<and> rr_view reply = mapRebalance r \<and> getDayfiTreasuryPublicKey sd = Some (rb_source r)
    \<and> is_base32_address (rb_destination r) \<and> rb_destination r \<noteq> rb_source r
    \<and> (\<forall>a \<in> set (st_accounts s). a_public a = rb_destination r \<longrightarrow> a_status a \<noteq> ''active'')
    \<and> (allowlistedSecondaryTreasuryKeys sd \<noteq> [] \<longrightarrow> rb_destination r \<in> set (allowlistedSecondaryTreasuryKeys sd))
    \<and> 0 < rb_amount r \<and> rb_amount r \<le> round7 (ob_usdc ob) \<and> wallets s' = wallets s"
proof -
  let ?e = "or_str (ri_environment input) ''test''"
  from run new obtain source d u where src: "or_else (getDayfiTreasuryPublicKey sd) None = Some source"
    and pos: "positive_num (round7_num (ri_amount input))" and dest: "assertTreasuryAddress (ri_destination input) = Inr d"
    and owned: "assertDestinationIsDayfiOwned sd d s = (Inr u, s)"
    and req: "requestRebalance sd input ?e source d (round7_num (ri_amount input)) s = (Inr reply, s')"
    unfolding requestTreasuryRebalance_def Let_def
    by (auto simp: act_simps duplicate_reply_def dest: owned_destination(1) split: if_splits option.splits)
  have d: "trim d = d" "is_base32_address d"
    using dest by (auto simp: assertTreasuryAddress_def Let_def base32_trim split: if_splits)
  have source: "getDayfiTreasuryPublicKey sd = Some source" using src by (auto simp: or_else_def split: option.splits if_splits)
  from req [unfolded requestRebalance_def] obtain p where position: "getTreasuryPosition sd (Some ?e) s = (Inr p, s)"
    and rest: "(let onChain = money_number (tp_onChainBalance p); liability = money_number (tp_customerLiability p) in
      case round7_num (ri_amount input) of
        Fin x \<Rightarrow> if onChain + 1 / 1000000000 < x then athrow (InfraTreasuryError ''INSUFFICIENT_TREASURY_USDC'' 400)
          else insertRebalance input ?e source d x liability onChain
      | _ \<Rightarrow> athrow (InfraTreasuryError ''INSUFFICIENT_TREASURY_USDC'' 400)) s = (Inr reply, s')"
    by (elim abndE) (auto elim: position_run)
  have usdc: "money_number (tp_onChainBalance p) = round7 (ob_usdc ob)"
  proof -
    have "round7 (ob_usdc ob) < 1000000000000000000000" using round7_error [of "ob_usdc ob"] observed(3) by linarith
    moreover have "tp_onChainBalance p = formatMoney (ob_usdc ob)"
      using position observed(1) by (elim position_run) (simp add: position_of_def Let_def)
    ultimately show ?thesis using money_number_format [OF round7_nonneg [OF observed(2)]] by simp
  qed
  from rest pos obtain a where a: "round7_num (ri_amount input) = Fin (round7 a)" "0 < round7 a"
    "round7 a \<le> round7 (ob_usdc ob) + 1 / 1000000000"
    and ins: "insertRebalance input ?e source d (round7 a) (money_number (tp_customerLiability p)) (round7 (ob_usdc ob)) s = (Inr reply, s')"
    by (auto simp: Let_def usdc round7_num_def positive_num_def split: js_num.splits if_splits)
  have le: "round7 a \<le> round7 (ob_usdc ob)" by (rule grid_le [OF _ _ a(3)]) simp_all
  from insertRebalance_Inr [OF ins new] obtain env i where
    row: "rr_view reply = mapRebalance (rebalance_row input env source d (round7 a) (money_number (tp_customerLiability p)) (round7 (ob_usdc ob)) i)"
      "rebalances s' = rebalance_row input env source d (round7 a) (money_number (tp_customerLiability p)) (round7 (ob_usdc ob)) i # rebalances s"
      "wallets s' = wallets s" .
  note od = owned_destination [OF owned, unfolded d(1)]
  show ?thesis
    by (rule exI, intro conjI, rule row(2), rule row(1)) (use row(3) source d od a(2) le in \<open>auto simp: rebalance_row_def\<close>)
qed

section \<open>A confirmed rebalance is final\<close>

text \<open>The rebalances have distinct ids, the rows \<open>R\<close> are there and confirmed, and the ledger is that of \<open>s0\<close>.\<close>

definition final_rows :: "rebalance set \<Rightarrow> db \<Rightarrow> db \<Rightarrow> bool" where
  "final_rows R s0 s \<longleftrightarrow> distinct (map rb_id (rebalances s)) \<and> R \<subseteq> set (rebalances s) \<and> (\<forall>r \<in> R. rb_status r = ''confirmed'')
     \<and> wallets s = wallets s0 \<and> movements s = movements s0"

definition unsettled :: "string \<Rightarrow> db \<Rightarrow> bool" where
  "unsettled i s \<longleftrightarrow> (\<forall>r \<in> set (rebalances s). rb_id r = i \<longrightarrow> rb_status r \<noteq> ''confirmed'')"

lemma final_update:
  assumes "final_rows R s0 s" and "\<And>r. rb_id (f r) = rb_id r" and "unsettled i s \<or> (\<forall>r. rb_status r = ''confirmed'' \<longrightarrow> f r = r)"
  shows "final_rows R s0 (s\<lparr>rebalances := update_rows rb_id i f (rebalances s)\<rparr>)"
proof -
  have "map rb_id (update_rows rb_id i f (rebalances s)) = map rb_id (rebalances s)"
    using assms(2) by (simp add: update_rows_def)
  moreover have "r \<in> set (update_rows rb_id i f (rebalances s))" if "r \<in> R" for r
  proof -
    have r: "r \<in> set (rebalances s)" "rb_status r = ''confirmed''" using assms(1) that by (auto simp: final_rows_def)
    then have "r = (if rb_id r = i then f r else r)" using assms(3) by (auto simp: unsettled_def)
    with r(1) show ?thesis unfolding update_rows_def set_map by (rule rev_image_eqI)
  qed
  ultimately show ?thesis using assms(1) by (auto simp: final_rows_def)
qed

lemma loaded_unsettled:
  assumes "final_rows R s0 s" and "row \<in> set (rebalances s)" and "rb_status row \<noteq> ''confirmed''"
  shows "unsettled (rb_id row) s"
  using assms by (auto simp: unsettled_def final_rows_def distinct_map inj_on_eq_iff)

lemma final_fail: "final_rows R s0 s \<Longrightarrow> failRebalance row e s = (r, s') \<Longrightarrow> final_rows R s0 s'"
  by (auto simp: failRebalance_def sql_rebalance_def abnd_def split: if_splits intro!: final_update)

lemma final_confirm:
  assumes "final_rows R s0 s" and "unsettled i s" and "\<And>r. rb_id (f r) = rb_id r" and "update_rebalance i f s = (r, s')"
  shows "final_rows R s0 s'"
  using assms by (auto simp: update_rebalance_def split: option.splits intro!: final_update)

lemma confirmed_id [simp]: "rb_id (confirmed_rebalance sd cfg p v fee r) = rb_id r"
  by (simp add: confirmed_rebalance_def Let_def)

lemma final_pay:
  assumes fin: "final_rows R s0 s" and un: "unsettled (rb_id row) s" and run: "payRebalance sd cfg row s = (r, s')"
  shows "final_rows R s0 s'"
proof (cases "submitUsdcPayment sd (rebalance_payment sd row)")
  case (Inl e)
  with run have "failRebalance row e s = (r, s')" by (simp add: payRebalance_def abnd_def acatch_def)
  then show ?thesis by (rule final_fail [OF fin])
next
  case (Inr p)
  note pay = Inr
  show ?thesis
  proof (cases "verifiedRebalance sd p")
    case (Inl e)
    with run pay have "failRebalance row e s = (r, s')" by (simp add: payRebalance_def abnd_def acatch_def)
    then show ?thesis by (rule final_fail [OF fin])
  next
    case (Inr v)
    show ?thesis
    proof (cases "ve_confirmed v")
      case False
      with run pay Inr have "s' = s\<lparr>rebalances := update_rows rb_id (rb_id row) (\<lambda>r. r\<lparr>rb_status := ''failed'',
          rb_failure := Some (''Stellar transaction not confirmed ('' @ ve_status v @ '')''), rb_external := Some (pr_hash p)\<rparr>) (rebalances s)\<rparr>"
        by (simp add: payRebalance_def abnd_def acatch_def sql_rebalance_def failRebalance_def)
      then show ?thesis using un by (auto intro: final_update [OF fin])
    next
      case True
      obtain x s1 where upd: "update_rebalance (rb_id row) (confirmed_rebalance sd cfg p v (charged_fee sd cfg (pr_hash p))) s = (x, s1)"
        by (cases "update_rebalance (rb_id row) (confirmed_rebalance sd cfg p v (charged_fee sd cfg (pr_hash p))) s") auto
      have fin1: "final_rows R s0 s1" by (rule final_confirm [OF fin un _ upd]) simp
      show ?thesis
      proof (cases x)
        case (Inl e)
        with run pay Inr True upd have "failRebalance row e s1 = (r, s')"
          by (simp add: payRebalance_def Let_def abnd_def acatch_def)
        then show ?thesis by (rule final_fail [OF fin1])
      next
        case (Inr c)
        with run pay \<open>verifiedRebalance sd p = Inr v\<close> True upd have "s' = s1"
          by (simp add: payRebalance_def Let_def abnd_def acatch_def)
        with fin1 show ?thesis by simp
      qed
    qed
  qed
qed

lemma guards_state: "submitGuards sd row s = (r, s') \<Longrightarrow> s' = s"
  by (auto simp: submitGuards_def assertDestinationIsDayfiOwned_def Let_def abnd_def split: if_splits sum.splits prod.splits option.splits)

lemma final_submitRow:
  assumes fin: "final_rows R s0 s" and row: "row \<in> set (rebalances s)" and run: "submitRow sd row s = (r, s')"
  shows "final_rows R s0 s'"
proof (cases "List.member [''approved'', ''requested'', ''failed''] (rb_status row)")
  case True
  then have "rb_status row \<noteq> ''confirmed''" by auto
  then have un: "unsettled (rb_id row) s" by (rule loaded_unsettled [OF fin row])
  obtain g s1 where g: "submitGuards sd row s = (g, s1)" by (cases "submitGuards sd row s") auto
  then have s1: "s1 = s" by (rule guards_state)
  show ?thesis
  proof (cases g)
    case (Inr cfg)
    with run g s1 True have "payRebalance sd cfg row s = (r, s')"
      by (auto simp: submitRow_def split: if_splits)
    then show ?thesis by (rule final_pay [OF fin un])
  qed (use run g s1 True fin in \<open>auto simp: submitRow_def split: if_splits\<close>)
qed (use run fin in \<open>simp add: submitRow_def\<close>)

lemma final_submitLoaded:
  assumes fin: "final_rows R s0 s" and row: "row \<in> set (rebalances s)" and run: "submitLoaded sd row s = (r, s')"
  shows "final_rows R s0 s'"
proof (cases "or_else (rb_external row) None")
  case None
  with run have "submitRow sd row s = (r, s')" by (simp add: submitLoaded_def)
  then show ?thesis by (rule final_submitRow [OF fin row])
next
  case (Some h)
  show ?thesis
  proof (cases "rb_status row = ''submitted''")
    case True
    then have un: "unsettled (rb_id row) s" using loaded_unsettled [OF fin row] by simp
    show ?thesis
    proof (cases "verifyUsdcPayment sd h")
      case (Inr v)
      show ?thesis
      proof (cases "ve_confirmed v")
        case False
        with run Some True Inr have "submitRow sd row s = (r, s')" by (simp add: submitLoaded_def)
        then show ?thesis by (rule final_submitRow [OF fin row])
      next
        case True
        with run Some Inr \<open>rb_status row = ''submitted''\<close> show ?thesis
          by (auto simp: submitLoaded_def abnd_def split: sum.splits prod.splits elim!: final_confirm [OF fin un, rotated])
      qed
    qed (use run Some True fin in \<open>simp add: submitLoaded_def\<close>)
  next
    case False
    with run Some have "s' = s \<or> submitRow sd row s = (r, s')" by (auto simp: submitLoaded_def split: if_splits)
    then show ?thesis using fin final_submitRow [OF fin row] by blast
  qed
qed

lemma final_frame: "final_rows R s0 s \<Longrightarrow> final_rows R s0 (uuid_next_update f s)"
  by (simp add: final_rows_def)

lemma final_insert:
  "final_rows R s0 s \<Longrightarrow> rb_id r \<notin> rb_id ` set (rebalances s) \<Longrightarrow>
     final_rows R s0 (s\<lparr>uuid_next := n, rebalances := r # rebalances s\<rparr>)"
  by (auto simp: final_rows_def)

lemma final_insertRebalance:
  assumes fin: "final_rows R s0 s" and run: "insertRebalance input e source d x l oc s = (r, s')"
  shows "final_rows R s0 s'"
proof -
  have "s' = s \<or> (\<exists>row n. rb_id row \<notin> rb_id ` set (rebalances s) \<and> s' = s\<lparr>uuid_next := n, rebalances := row # rebalances s\<rparr>)"
  proof (cases "environment_column e")
    case None
    with run show ?thesis
      by (auto simp: insertRebalance_def abnd_def acatch_def run_tx_def fail_def isUniqueViolation_def split: if_splits sum.splits prod.splits)
  next
    case (Some env)
    let ?r = "rebalance_row input env source d x l oc (uuid_of s (uuid_next s))" and ?s = "s\<lparr>uuid_next := Suc (uuid_next s)\<rparr>"
    let ?tx = "bnd new_uuid (\<lambda>i. insert_rebalance (rebalance_row input env source d x l oc i))"
    show ?thesis
    proof (cases "insert_rebalance ?r ?s")
      case (Inl err)
      then have "run_tx ?tx s = (Inl err, s)" by (simp add: run_tx_def bnd_def new_uuid_def)
      with run Some show ?thesis
        by (auto simp: insertRebalance_def abnd_def acatch_def run_tx_def bnd_def query_def the_row_def split: if_splits sum.splits prod.splits option.splits)
    next
      case (Inr rs)
      then have ins: "insert_rebalance ?r ?s = Inr (?r, ?s\<lparr>rebalances := ?r # rebalances s\<rparr>)" "rb_id ?r \<notin> rb_id ` set (rebalances s)"
        by (auto simp: insert_rebalance_def split: if_splits)
      then have "run_tx ?tx s = (Inr ?r, ?s\<lparr>rebalances := ?r # rebalances s\<rparr>)"
        by (simp add: run_tx_def bnd_def new_uuid_def)
      with run Some have "s' = ?s\<lparr>rebalances := ?r # rebalances s\<rparr>"
        by (auto simp: insertRebalance_def abnd_def acatch_def)
      with ins(2) show ?thesis by blast
    qed
  qed
  with fin show ?thesis by (auto intro: final_insert)
qed

lemma position_reads: "getTreasuryPosition sd e s = (r, s') \<Longrightarrow> s' = s"
  by (auto simp: getTreasuryPosition_def getCustomerLiabilityTotals_def getPendingObligations_def observeCustomerCustodyUsdc_def
    Let_def abnd_def split: sum.splits prod.splits if_splits)

lemma owned_reads: "assertDestinationIsDayfiOwned sd d s = (r, s') \<Longrightarrow> s' = s"
  by (auto simp: assertDestinationIsDayfiOwned_def Let_def abnd_def split: if_splits sum.splits prod.splits option.splits)

lemma final_request:
  assumes fin: "final_rows R s0 s" and run: "requestTreasuryRebalance sd input s = (r, s')"
  shows "final_rows R s0 s'"
proof -
  let ?I = "final_rows R s0"
  have reads: "inv_act ?I (getTreasuryPosition sd e)" "inv_act ?I (assertDestinationIsDayfiOwned sd d)"
    "inv_act ?I (insertRebalance input e' source d x l oc)" for e e' d source x l oc
    by (auto simp: inv_act_def dest: position_reads owned_reads final_insertRebalance)
  have "inv_act ?I (requestTreasuryRebalance sd input)"
    unfolding requestTreasuryRebalance_def requestRebalance_def Let_def by (intro inv_intros reads)
  from inv_actD [OF this fin run] show ?thesis .
qed

lemma final_approve:
  assumes fin: "final_rows R s0 s" and run: "approveTreasuryRebalance sd i e s = (r, s')"
  shows "final_rows R s0 s'"
proof (cases "find_row rb_id i (rebalances s)")
  case (Some row)
  then have row: "row \<in> set (rebalances s)" "rb_id row = i" by (auto dest: find_row_Some)
  show ?thesis
  proof (cases "rb_status row = ''requested''")
    case True
    then have un: "unsettled i s" using loaded_unsettled [OF fin row(1)] row(2) by simp
    from run Some True fin show ?thesis
      by (auto simp: approveTreasuryRebalance_def loadRebalance_def abnd_def split: if_splits sum.splits prod.splits
        elim!: final_confirm [OF fin un, rotated])
  qed (use run Some fin in \<open>auto simp: approveTreasuryRebalance_def loadRebalance_def split: if_splits\<close>)
qed (use run fin in \<open>auto simp: approveTreasuryRebalance_def loadRebalance_def split: if_splits\<close>)

lemma final_submit:
  assumes fin: "final_rows R s0 s" and run: "submitTreasuryRebalance sd i e s = (r, s')"
  shows "final_rows R s0 s'"
proof (cases "find_row rb_id i (rebalances s)")
  case (Some row)
  then have row: "row \<in> set (rebalances s)" by (auto dest: find_row_Some)
  from run Some have "s' = s \<or> submitLoaded sd row s = (r, s')"
    by (cases "assertEnvironmentNetwork sd (env_name (rb_env row))")
      (auto simp: submitTreasuryRebalance_def loadRebalance_def split: if_splits)
  with fin final_submitLoaded [OF fin row] show ?thesis by blast
qed (use run fin in \<open>auto simp: submitTreasuryRebalance_def loadRebalance_def split: if_splits\<close>)

lemma final_calls [inv_intros]:
  "inv_act (final_rows R s0) (requestTreasuryRebalance sd input)" "inv_act (final_rows R s0) (approveTreasuryRebalance sd i e)"
  "inv_act (final_rows R s0) (submitTreasuryRebalance sd i e)"
  by (auto simp: inv_act_def dest: final_request final_approve final_submit)

lemma final_execute: "inv_act (final_rows R s0) (executeTreasuryRebalance sd input)"
  unfolding executeTreasuryRebalance_def Let_def by (intro inv_intros)

text \<open>The calls of an operator, each with its own view of the network\<close>

inductive treasury_run :: "db \<Rightarrow> db \<Rightarrow> bool" where
  idle: "treasury_run s s"
| request: "treasury_run s s1 \<Longrightarrow> requestTreasuryRebalance sd input s1 = (r, s2) \<Longrightarrow> treasury_run s s2"
| approve: "treasury_run s s1 \<Longrightarrow> approveTreasuryRebalance sd i e s1 = (r, s2) \<Longrightarrow> treasury_run s s2"
| submit: "treasury_run s s1 \<Longrightarrow> submitTreasuryRebalance sd i e s1 = (r, s2) \<Longrightarrow> treasury_run s s2"
| execute: "treasury_run s s1 \<Longrightarrow> executeTreasuryRebalance sd input s1 = (r, s2) \<Longrightarrow> treasury_run s s2"

lemma treasury_run_final: "treasury_run s s' \<Longrightarrow> final_rows R s s \<Longrightarrow> final_rows R s s'"
  by (induction rule: treasury_run.induct)
    (auto intro: inv_actD [OF final_calls(1)] inv_actD [OF final_calls(2)] inv_actD [OF final_calls(3)] inv_actD [OF final_execute])

text \<open>C22: A confirmed rebalance is final, and the treasury's operations never touch the ledger. Whatever an operator
  requests, approves, submits and executes afterwards, on whatever network and with whatever failures: the
  row of a confirmed rebalance stays as it is, and the wallets and movements of the ledger are unchanged.\<close>

theorem confirmed_rebalance_is_final:
  assumes "treasury_run s s'" and "distinct (map rb_id (rebalances s))"
  shows "wallets s' = wallets s \<and> movements s' = movements s
    \<and> (\<forall>r \<in> set (rebalances s). rb_status r = ''confirmed'' \<longrightarrow> r \<in> set (rebalances s'))"
proof -
  have "final_rows {r \<in> set (rebalances s). rb_status r = ''confirmed''} s s" using assms(2) by (auto simp: final_rows_def)
  from treasury_run_final [OF assms(1) this] show ?thesis by (auto simp: final_rows_def)
qed

section \<open>Examples\<close>

definition ex_treasury_env :: "(string \<times> string) list" where
  "ex_treasury_env = [(''DAYFI_STELLAR_SETTLEMENT_MODE'', ''live''), (''DAYFI_STELLAR_SETTLEMENT_SECRET'', ''SECRET-T''),
     (''DAYFI_STELLAR_TREASURY_B_PUBLIC_KEY'', CHR ''G'' # replicate 55 CHR ''B'')]"

text \<open>
  A network on which the treasury holds 500 USDC; it takes a payment, names it \<open>h\<close>, and reports the payments
  \<open>seen\<close> as successful.
\<close>

definition ex_treasury :: "string \<Rightarrow> string list \<Rightarrow> sdk" where
  "ex_treasury h seen = (ex_sdk ex_treasury_env)\<lparr>
     sdk_loadAccount := (\<lambda>url pk. Some [\<lparr>hb_code = Some ''USDC'', hb_issuer = Some TESTNET_USDC_ISSUER, hb_type = None,
       hb_balance = ''500''\<rparr>, \<lparr>hb_code = None, hb_issuer = None, hb_type = Some ''native'', hb_balance = ''5''\<rparr>]),
     sdk_rpcAccount := (\<lambda>url pk. True), sdk_send := (\<lambda>url t. Inr \<lparr>sr_status = Some ''PENDING'', sr_hash = Some h\<rparr>),
     sdk_horizonTx := (\<lambda>url k. if List.member seen k then Some \<lparr>ht_successful = True, ht_ledger = Some 7,
       ht_fee_charged = Some ''100'', ht_fee_account = None\<rparr> else None)\<rparr>"

definition ex_rebalance :: rebalance_input where
  "ex_rebalance = \<lparr>ri_environment = None, ri_amount = Fin 50, ri_destination = CHR ''G'' # replicate 55 CHR ''B'',
     ri_idempotencyKey = ''op-1'', ri_requestedBy = None, ri_purpose = None, ri_autoApprove = False\<rparr>"

definition ex_requested :: "(js_error + rebalance_reply) \<times> db" where
  "ex_requested = requestTreasuryRebalance (ex_treasury ''tx-1'' []) ex_rebalance ex_funded"

lemma ex_requested_run: "case ex_requested of (r, s) \<Rightarrow> succeeded (r, s) \<and> \<not> rr_duplicate (value_of (r, s))
    \<and> map rb_status (rebalances s) = [''requested''] \<and> map rb_amount (rebalances s) = [50]"
  by code_simp

theorem accepted_rebalance_is_treasury_money_witness:
  "\<exists>r. rebalances (snd ex_requested) = [r] \<and> rb_amount r \<le> 500 \<and> is_base32_address (rb_destination r)"
proof -
  let ?sd = "ex_treasury ''tx-1'' []"
  have "case observeDayfiTreasuryOnChain ?sd of Inr (Some ob) \<Rightarrow> ob_usdc ob = 500 | _ \<Rightarrow> False" by code_simp
  then obtain ob where ob: "observeDayfiTreasuryOnChain ?sd = Inr (Some ob)" "ob_usdc ob = 500"
    by (auto split: sum.splits option.splits)
  have new: "rebalances ex_funded = []" by code_simp
  have ok: "succeeded ex_requested" "\<not> rr_duplicate (value_of ex_requested)" using by_run [OF ex_requested_run] by simp_all
  have run: "requestTreasuryRebalance ?sd ex_rebalance ex_funded = (Inr (value_of ex_requested), snd ex_requested)"
    using succeeded_run [OF ok(1)] by (simp add: ex_requested_def)
  have "round7 500 = 500" by code_simp
  with accepted_rebalance_is_treasury_money [OF ex_funded_inv run ok(2) ob(1)] ob(2) new show ?thesis by auto
qed

theorem liabilities_are_ledger_money_witness:
  "case getCustomerLiabilityTotals ''test'' None ex_funded of (r, s) \<Rightarrow> li_total (value_of (r, s)) = 100 \<and> li_total (value_of (r, s)) \<le> money ex_funded"
proof -
  obtain r s where run: "getCustomerLiabilityTotals ''test'' None ex_funded = (r, s)" by (cases "getCustomerLiabilityTotals ''test'' None ex_funded") auto
  have "case getCustomerLiabilityTotals ''test'' None ex_funded of (r, s) \<Rightarrow> succeeded (r, s) \<and> li_total (value_of (r, s)) = 100
    \<and> 0 \<le> li_feeRevenue (value_of (r, s))" by code_simp
  with run have r: "succeeded (r, s)" "li_total (value_of (r, s)) = 100" "0 \<le> li_feeRevenue (value_of (r, s))" by simp_all
  from succeeded_run [OF r(1)] run have "getCustomerLiabilityTotals ''test'' None ex_funded = (Inr (value_of (r, s)), s)" by simp
  from liabilities_are_ledger_money [OF ex_funded_inv this] r have "li_total (value_of (r, s)) \<le> money ex_funded" by linarith
  with run r(2) show ?thesis by simp
qed

definition ex_position :: treasury_position where
  "ex_position = value_of (getTreasuryPosition (ex_treasury ''tx-1'' []) (Some ''test'') ex_funded)"

lemma ex_position_run: "getTreasuryPosition (ex_treasury ''tx-1'' []) (Some ''test'') ex_funded = (Inr ex_position, ex_funded)
    \<and> tp_status ex_position = HEALTHY"
proof -
  let ?sd = "ex_treasury ''tx-1'' []"
  have "case observeDayfiTreasuryOnChain ?sd of Inr (Some ob) \<Rightarrow> ob_usdc ob = 500 \<and> ob_publicKey ob \<noteq> [] | _ \<Rightarrow> False" by code_simp
  then obtain ob where ob: "observeDayfiTreasuryOnChain ?sd = Inr (Some ob)" "ob_usdc ob = 500" "ob_publicKey ob \<noteq> []"
    by (auto split: sum.splits option.splits)
  have "case getCustomerLiabilityTotals ''test'' None ex_funded of (Inr l, s) \<Rightarrow> li_total l = 100 | _ \<Rightarrow> False" by code_simp
  then obtain l s1 where l: "getCustomerLiabilityTotals ''test'' None ex_funded = (Inr l, s1)" "li_total l = 100"
    by (auto split: sum.splits prod.splits)
  then have s1: "s1 = ex_funded" by (auto simp: getCustomerLiabilityTotals_def Let_def act_simps)
  have "case observeCustomerCustodyUsdc ?sd ''test'' ex_funded of (Inr c, s) \<Rightarrow> True | _ \<Rightarrow> False" by code_simp
  then obtain c s2 where c: "observeCustomerCustodyUsdc ?sd ''test'' ex_funded = (Inr c, s2)" by (auto split: sum.splits prod.splits)
  then have s2: "s2 = ex_funded" by (auto simp: observeCustomerCustodyUsdc_def Let_def act_simps split: if_splits)
  have "case getStellarConfig ?sd of Inr cfg \<Rightarrow> True | _ \<Rightarrow> False" by code_simp
  then obtain cfg where cfg: "getStellarConfig ?sd = Inr cfg" by (auto split: sum.splits)
  obtain o' where o': "getPendingObligations ''test'' ex_funded = (Inr o', ex_funded)" by (simp add: getPendingObligations_def)
  have pos: "getTreasuryPosition ?sd (Some ''test'') ex_funded = (Inr (position_of ?sd ''test'' cfg (Some ob) l o' c), ex_funded)"
    using ob l c cfg o' s1 s2 by (simp add: getTreasuryPosition_def Let_def)
  have "\<not> isTreasuryFrozen ?sd" "classifyTreasuryStatus ?sd False True True (Some 5) [] = HEALTHY" "round7 500 = 500"
    "coverage_of 100 500 = Some 5" by code_simp+
  then have "tp_status (position_of ?sd ''test'' cfg (Some ob) l o' c) = HEALTHY"
    using ob(2,3) l(2) by (simp add: position_of_def Let_def or_else_def)
  with pos show ?thesis by (simp add: ex_position_def value_of_def)
qed

theorem healthy_treasury_covers_witness:
  "tp_status ex_position = HEALTHY \<and> (\<exists>ob. observeDayfiTreasuryOnChain (ex_treasury ''tx-1'' []) = Inr (Some ob))"
proof -
  have "1 + 1 / 10000000 \<le> healthyCoverageThreshold (ex_treasury ''tx-1'' [])" by code_simp
  from healthy_treasury_covers [OF ex_funded_inv ex_position_run [THEN conjunct1] ex_position_run [THEN conjunct2] this]
  show ?thesis using ex_position_run by blast
qed

definition ex_rebalances :: db where
  "ex_rebalances = ex_funded\<lparr>rebalances := [rebalance_row ex_rebalance Test (CHR ''G'' # replicate 54 CHR ''A'' @ ''T'')
     (CHR ''G'' # replicate 55 CHR ''B'') 50 100 500 ''r1'']\<rparr>"

definition ex_paid :: "(js_error + rebalance_reply) \<times> db" where
  "ex_paid = submitTreasuryRebalance (ex_treasury ''tx-1'' [''tx-1'']) ''r1'' None ex_rebalances"

text \<open>The status "requested" is enough: no approval is needed for a payment.\<close>

lemma unapproved_rebalance_is_paid:
  "map rb_status (rebalances ex_rebalances) = [''requested'']
     \<and> (case ex_paid of (r, s) \<Rightarrow> succeeded (r, s) \<and> map rb_status (rebalances s) = [''confirmed''])"
  by code_simp

theorem confirmed_rebalance_is_final_witness:
  "treasury_run (snd ex_paid) (snd (submitTreasuryRebalance (ex_treasury ''tx-2'' []) ''r1'' None (snd ex_paid)))
     \<and> set (rebalances (snd ex_paid)) \<subseteq> set (rebalances (snd (submitTreasuryRebalance (ex_treasury ''tx-2'' []) ''r1'' None (snd ex_paid))))"
proof -
  let ?run = "submitTreasuryRebalance (ex_treasury ''tx-2'' []) ''r1'' None (snd ex_paid)"
  have "map rb_status (rebalances (snd ex_paid)) = [''confirmed'']"
    using by_run [OF unapproved_rebalance_is_paid [THEN conjunct2]] by simp
  then obtain row where row: "rebalances (snd ex_paid) = [row]" "rb_status row = ''confirmed''" by (auto simp: map_eq_Cons_conv)
  have run: "treasury_run (snd ex_paid) (snd ?run)"
    by (rule treasury_run.submit [OF treasury_run.idle, of _ _ _ _ "fst ?run"]) simp
  from confirmed_rebalance_is_final [OF run] row run show ?thesis by simp
qed

text \<open>
  A payment that is not confirmed in time leaves the rebalance failed with the hash of the payment. The
  next submission does not look at that hash: although the network now reports the first payment as
  successful, the treasury pays a second time.
\<close>

lemma unconfirmed_rebalance_is_paid_again:
  "case submitTreasuryRebalance (ex_treasury ''tx-1'' []) ''r1'' None ex_rebalances of (r, s) \<Rightarrow>
     map rb_status (rebalances s) = [''failed''] \<and> map rb_external (rebalances s) = [Some ''tx-1'']
     \<and> (case submitTreasuryRebalance (ex_treasury ''tx-2'' [''tx-1'', ''tx-2'']) ''r1'' None s of (r', s') \<Rightarrow>
         succeeded (r', s') \<and> map rb_status (rebalances s') = [''confirmed''] \<and> map rb_external (rebalances s') = [Some ''tx-2''])"
  by code_simp

text \<open>The money of a frozen wallet is owed to its customer, but it is no liability of the report.\<close>

lemma frozen_wallet_is_not_owed:
  "case getCustomerLiabilityTotals ''test'' None (ex_funded\<lparr>wallets := map (\<lambda>w. w\<lparr>w_status := Frozen\<rparr>) (wallets ex_funded)\<rparr>) of
     (r, s) \<Rightarrow> succeeded (r, s) \<and> li_total (value_of (r, s)) = 0 \<and> money s = 100"
  by code_simp

end
