(* ===== verification/Money_Service.thy ===== *)
theory Money_Service
  imports Offramp Recipient Internal_Transfer
begin

text \<open>
  \<open>src/src/modules/infra/infraMoneyService.ts\<close>: the requests that create collections and payouts, and
  the settlement simulator of the TEST environment. A request is looked up under its idempotency key,
  its row is inserted, a payout's USDC is locked, and in LIVE the rail is called. The clients of
  the rails (Yellow Card, Flutterwave, the bank name enquiry) are the record \<open>rails\<close>.
\<close>

section \<open>Parameters\<close>

record rails =
  rl_yc :: provider
  rl_resolveBank :: "string \<Rightarrow> string \<Rightarrow> js_error + string"
  rl_collect :: "json \<Rightarrow> js_error + json"
  rl_flutterwave :: bool
  rl_account :: "json \<Rightarrow> js_error + json"
  rl_expires :: string
  rl_iso :: "string \<Rightarrow> js_error + string"

section \<open>Rows of \<open>infra_transactions\<close>\<close>

definition persistMoney :: "js_num \<Rightarrow> rat" where
  "persistMoney n = (case n of Fin v \<Rightarrow> round7 v | _ \<Rightarrow> 0)"

definition requestFingerprint :: "sdk \<Rightarrow> (string \<times> json) list \<Rightarrow> string" where
  "requestFingerprint sd parts = sdk_sha256 sd (stableJson (JObj parts))"

text \<open>\<open>String(key || '').trim() || null\<close>\<close>

definition client_key :: "string option \<Rightarrow> string option" where
  "client_key key = some_text (trim (or_str key []))"

definition other_request :: "string \<Rightarrow> txn \<Rightarrow> bool" where
  "other_request fingerprint t = (case or_else (t_fingerprint t) None of Some f \<Rightarrow> f \<noteq> fingerprint | None \<Rightarrow> False)"

definition findIdempotentTx :: "string \<Rightarrow> infra_env \<Rightarrow> string option \<Rightarrow> string \<Rightarrow> (db, txn option) act" where
  "findIdempotentTx orgId env key fingerprint = (case client_key key of
     None \<Rightarrow> aret None
   | Some idem \<Rightarrow>
       abnd (aquery (\<lambda>s. find_row txn_client_key (Some (orgId, env, idem)) (txns s))) (\<lambda>found. case found of
         None \<Rightarrow> aret None
       | Some existing \<Rightarrow>
           if other_request fingerprint existing then athrow (InfraIdempotencyError (Some (t_id existing)))
           else aret (Some existing)))"

record tx_input =
  ix_orgId :: string
  ix_env :: infra_env
  ix_amount :: rat
  ix_currency :: string
  ix_country :: "string option"
  ix_status :: string
  ix_method :: string
  ix_direction :: string
  ix_fee :: "rat option"
  ix_externalId :: "string option"
  ix_metadata :: jmap
  ix_idempotencyKey :: "string option"
  ix_fingerprint :: "string option"

definition new_txn :: "tx_input \<Rightarrow> string \<Rightarrow> txn" where
  "new_txn row i = \<lparr>t_id = i, t_org = ix_orgId row, t_env = ix_env row, t_amount = persistMoney (Fin (ix_amount row)),
     t_currency = ix_currency row, t_country = ix_country row, t_status = ix_status row, t_method = ix_method row,
     t_direction = ix_direction row,
     t_fee = persistMoney (Fin (case ix_fee row of Some x \<Rightarrow> x | None \<Rightarrow> 0)),
     t_external_id = or_else (ix_externalId row) None, t_metadata = ix_metadata row,
     t_client_key = client_key (ix_idempotencyKey row), t_fingerprint = or_else (ix_fingerprint row) None\<rparr>"

text \<open>A unique violation under a client key answers the row that got there first.\<close>

definition insertTx :: "tx_input \<Rightarrow> (db, txn) act" where
  "insertTx row =
    acatch (run_tx (bnd new_uuid (\<lambda>i. insert_txn (new_txn row i)))) (\<lambda>err.
      if isUniqueViolation err \<and> client_key (ix_idempotencyKey row) \<noteq> None then
        abnd (findIdempotentTx (ix_orgId row) (ix_env row) (ix_idempotencyKey row) (or_str (ix_fingerprint row) [])) (\<lambda>found.
        case found of Some existing \<Rightarrow> aret existing | None \<Rightarrow> athrow err)
      else athrow err)"

definition fetchTxRow :: "string \<Rightarrow> (db, txn) act" where
  "fetchTxRow i = run_tx (bnd (query (\<lambda>s. find_row t_id i (txns s))) the_row)"

record tx_view =
  tv_id :: string
  tv_amount :: rat
  tv_currency :: string
  tv_country :: "string option"
  tv_status :: string
  tv_method :: string
  tv_direction :: string
  tv_fee :: rat
  tv_externalId :: "string option"
  tv_metadata :: jmap

definition mapTx :: "txn \<Rightarrow> tx_view" where
  "mapTx row = \<lparr>tv_id = t_id row, tv_amount = t_amount row, tv_currency = t_currency row, tv_country = t_country row,
     tv_status = t_status row, tv_method = t_method row, tv_direction = t_direction row, tv_fee = t_fee row,
     tv_externalId = or_else (t_external_id row) None, tv_metadata = t_metadata row\<rparr>"

section \<open>The identity that Yellow Card requires\<close>

definition formatDob :: "string option \<Rightarrow> string" where
  "formatDob raw =
    (let s = trim (or_str raw []); d = (\<lambda>i. is_digit (s ! i)) in
     if 10 \<le> length s \<and> list_all d [0, 1, 2, 3, 5, 6, 8, 9] \<and> s ! 4 = CHR ''-'' \<and> s ! 7 = CHR ''-''
     then take 10 s else [])"

record yc_party =
  yp_name :: string
  yp_country :: string
  yp_phone :: string
  yp_address :: string
  yp_dob :: string
  yp_email :: string
  yp_idNumber :: string

definition PLACEHOLDER_PHONES :: "string list" where
  "PLACEHOLDER_PHONES = [''+2348000000000'', ''2348000000000'', ''08000000000'']"

definition PLACEHOLDER_EMAILS :: "string list" where
  "PLACEHOLDER_EMAILS = [''collections@dayfi.co'', ''payouts@dayfi.co'']"

definition party_of :: "member option \<Rightarrow> org option \<Rightarrow> string \<Rightarrow> string option \<Rightarrow> string option \<Rightarrow> string option \<Rightarrow> yc_party" where
  "party_of member org country name phone email =
    (let col = (\<lambda>f. case member of Some m \<Rightarrow> f m | None \<Rightarrow> None) in
     \<lparr>yp_name = trim (or_str (or_else name (or_else (col mb_name) (map_option o_name org))) []),
      yp_country = to_upper (or_str (or_else (Some country) (col mb_country)) ''NG''),
      yp_phone = no_space (trim (or_str (or_else phone (col mb_phone)) [])),
      yp_address = trim (or_str (col mb_address) []),
      yp_dob = formatDob (col mb_dob),
      yp_email = to_lower (trim (or_str (or_else email (col mb_email)) [])),
      yp_idNumber = filter is_digit (or_str (col mb_bvn) [])\<rparr>)"

definition party_complete :: "yc_party \<Rightarrow> bool" where
  "party_complete p \<longleftrightarrow> yp_name p \<noteq> [] \<and> yp_phone p \<noteq> [] \<and> \<not> List.member PLACEHOLDER_PHONES (yp_phone p)
     \<and> yp_email p \<noteq> [] \<and> \<not> List.member PLACEHOLDER_EMAILS (yp_email p)
     \<and> yp_address p \<noteq> [] \<and> to_lower (yp_address p) \<noteq> ''not provided'' \<and> yp_dob p \<noteq> [] \<and> length (yp_idNumber p) = 11"

text \<open>The organisation's first member: the tables list the newest row first.\<close>

definition resolveLiveYellowCardParty ::
  "string \<Rightarrow> string \<Rightarrow> string option \<Rightarrow> string option \<Rightarrow> string option \<Rightarrow> (db, yc_party) act" where
  "resolveLiveYellowCardParty orgId country name phone email =
    abnd (aquery (\<lambda>s. (find_row mb_org (Some orgId) (rev (members s)), find_row o_id orgId (orgs s)))) (\<lambda>(member, org).
    let p = party_of member org country name phone email in
    if party_complete p then aret p else athrow (InfraRailError 400 None))"

definition party_json :: "yc_party \<Rightarrow> json" where
  "party_json p = JObj [(''name'', JStr (yp_name p)), (''country'', JStr (yp_country p)), (''phone'', JStr (yp_phone p)),
     (''address'', JStr (yp_address p)), (''dob'', JStr (yp_dob p)), (''email'', JStr (yp_email p)),
     (''idNumber'', JStr (yp_idNumber p)), (''idType'', JStr ''bvn'')]"

section \<open>Payouts\<close>

record payout_order =
  po_orgId :: string
  po_env :: infra_env
  po_amount :: js_num
  po_currency :: "string option"
  po_country :: "string option"
  po_accountNumber :: "string option"
  po_accountName :: "string option"
  po_bankCode :: "string option"
  po_bankName :: "string option"
  po_networkId :: "string option"
  po_channelId :: "string option"
  po_reason :: "string option"
  po_recipientEmail :: "string option"
  po_recipientPhone :: "string option"
  po_accountType :: "string option"
  po_asset :: "string option"
  po_network :: "string option"
  po_walletAddress :: "string option"
  po_dayfiTag :: "string option"
  po_recipientId :: "string option"
  po_destinationId :: "string option"
  po_bulkBatchId :: "string option"
  po_bulkItemId :: "string option"
  po_idempotencyKey :: "string option"

record payout_reply =
  pr_tx :: tx_view
  pr_sequenceId :: "json option"
  pr_usdcAmount :: "json option"
  pr_balance :: balance_view
  pr_fundsLocked :: bool
  pr_offRamp :: bool
  pr_replay :: bool
  pr_recipient :: json

text \<open>The saved recipient replaces the account of the request.\<close>

definition with_fields :: "payout_order \<Rightarrow> payout_fields \<Rightarrow> payout_order" where
  "with_fields input f = input\<lparr>
     po_accountType := Some (pf_accountType f),
     po_currency := or_else (po_currency input) (pf_currency f),
     po_country := or_else (po_country input) (pf_country f),
     po_accountNumber := or_else (pf_accountNumber f) (po_accountNumber input),
     po_accountName := or_else (Some (pf_accountName f)) (po_accountName input),
     po_bankCode := or_else (pf_bankCode f) (po_bankCode input),
     po_bankName := or_else (pf_bankName f) (po_bankName input),
     po_networkId := or_else (pf_networkId f) (po_networkId input),
     po_asset := or_else (pf_asset f) (po_asset input),
     po_network := or_else (pf_network f) (po_network input),
     po_walletAddress := or_else (pf_walletAddress f) (po_walletAddress input),
     po_dayfiTag := or_else (pf_dayfiTag f) (po_dayfiTag input),
     po_recipientPhone := or_else (pf_recipientPhone f) (po_recipientPhone input)\<rparr>"

record saved_recipient =
  sv_recipientId :: string
  sv_destinationId :: string
  sv_recipientName :: string
  sv_rail :: string
  sv_displayHint :: string

definition savedRecipient :: "payout_order \<Rightarrow> (db, payout_order \<times> saved_recipient option) act" where
  "savedRecipient input = (case or_else (po_recipientId input) None of
     None \<Rightarrow> aret (input, None)
   | Some i \<Rightarrow>
       abnd (resolveDestinationForPayout (po_orgId input) (env_name (po_env input)) i (po_destinationId input)) (\<lambda>(rec, dest).
       abnd (aof_sum (destinationToPayoutFields dest)) (\<lambda>f.
       aret (with_fields input f, Some \<lparr>sv_recipientId = rp_id rec, sv_destinationId = ds_id dest,
         sv_recipientName = rp_name rec, sv_rail = ds_rail dest, sv_displayHint = ds_hint dest\<rparr>))))"

definition saved_json :: "saved_recipient \<Rightarrow> json" where
  "saved_json v = JObj [(''recipientId'', JStr (sv_recipientId v)), (''destinationId'', JStr (sv_destinationId v)),
     (''recipientName'', JStr (sv_recipientName v)), (''rail'', JStr (sv_rail v)), (''displayHint'', JStr (sv_displayHint v))]"

definition account_type :: "payout_order \<Rightarrow> string" where
  "account_type p = to_lower (or_str (po_accountType p) ''bank'')"

definition payoutFingerprint :: "sdk \<Rightarrow> payout_order \<Rightarrow> rat \<Rightarrow> string" where
  "payoutFingerprint sd p amount = requestFingerprint sd
     [(''kind'', JStr ''payout''), (''amount'', JNum (persistMoney (Fin amount))),
      (''currency'', JStr (to_upper (or_str (or_else (po_currency p) (po_asset p)) ''NGN''))),
      (''country'', JStr (to_upper (or_str (po_country p) ''NG''))), (''accountType'', JStr (account_type p)),
      (''accountNumber'', str_or_null (po_accountNumber p)), (''walletAddress'', str_or_null (po_walletAddress p)),
      (''dayfiTag'', str_or_null (po_dayfiTag p)), (''recipientId'', str_or_null (po_recipientId p)),
      (''destinationId'', str_or_null (po_destinationId p)), (''bulkItemId'', str_or_null (po_bulkItemId p))]"

definition replayPayout :: "payout_order \<Rightarrow> txn \<Rightarrow> (db, payout_reply) act" where
  "replayPayout p replay =
    (let meta = t_metadata replay in
     abnd (getOrgBalance (po_orgId p) (env_name (po_env p)) None) (\<lambda>balance.
     aret \<lparr>pr_tx = mapTx replay, pr_sequenceId = json_or (meta ''sequenceId'') (map_option JStr (t_external_id replay)),
       pr_usdcAmount = meta ''usdcAmount'', pr_balance = balance, pr_fundsLocked = flag meta ''fundsLocked'',
       pr_offRamp = False, pr_replay = True,
       pr_recipient = json_or_null (json_or (meta ''recipient'') (meta ''savedRecipient''))\<rparr>))"

text \<open>Phase 2: a payout whose USDC cannot be locked fails.\<close>

definition lockFundsForPayout :: "string \<Rightarrow> string \<Rightarrow> (db, lock_result) act" where
  "lockFundsForPayout orgId payoutId =
    acatch (lockPayoutFunds orgId payoutId None) (\<lambda>err.
      abnd (sql_txn payoutId (\<lambda>t. t\<lparr>t_status := ''failed'', t_metadata := t_metadata t ++
        [''fundsLockFailed'' \<mapsto> JBool True, ''fundsLockError'' \<mapsto> JStr (message_of err)]\<rparr>)) (\<lambda>_.
      athrow err))"

text \<open>The parts of the metadata that every rail shares.\<close>

definition opt_part :: "string \<Rightarrow> json option \<Rightarrow> jmap" where
  "opt_part k v = (case v of Some j \<Rightarrow> [k \<mapsto> j] | None \<Rightarrow> Map.empty)"

definition shared_meta :: "payout_order \<Rightarrow> saved_recipient option \<Rightarrow> jmap" where
  "shared_meta p saved = opt_part ''savedRecipient'' (map_option saved_json saved) ++
     (if or_else (po_bulkBatchId p) (or_else (po_bulkItemId p) None) = None then Map.empty
      else [''bulk'' \<mapsto> JObj [(''batchId'', str_or_null (po_bulkBatchId p)), (''itemId'', str_or_null (po_bulkItemId p))]])"

definition payout_tx :: "payout_order \<Rightarrow> rat \<Rightarrow> string \<Rightarrow> string option \<Rightarrow> string \<Rightarrow> string \<Rightarrow> string \<Rightarrow> jmap \<Rightarrow> string \<Rightarrow> tx_input" where
  "payout_tx p amount currency country status method sequenceId meta fingerprint =
    \<lparr>ix_orgId = po_orgId p, ix_env = po_env p, ix_amount = amount, ix_currency = currency, ix_country = country,
     ix_status = status, ix_method = method, ix_direction = ''payout'', ix_fee = None, ix_externalId = Some sequenceId,
     ix_metadata = meta, ix_idempotencyKey = po_idempotencyKey p, ix_fingerprint = Some fingerprint\<rparr>"

definition locked_reply :: "txn \<Rightarrow> string \<Rightarrow> lock_result \<Rightarrow> bool \<Rightarrow> json \<Rightarrow> payout_reply" where
  "locked_reply row sequenceId locked offRamp recipient =
    \<lparr>pr_tx = mapTx row, pr_sequenceId = Some (JStr sequenceId), pr_usdcAmount = Some (JNum (lr_usdcAmount locked)),
     pr_balance = lr_balance locked, pr_fundsLocked = True, pr_offRamp = offRamp, pr_replay = False,
     pr_recipient = recipient\<rparr>"

definition first_status :: "infra_env \<Rightarrow> string" where
  "first_status env = (if env = Test then ''processing'' else ''pending'')"

definition tagPayout :: "payout_order \<Rightarrow> saved_recipient option \<Rightarrow> rat \<Rightarrow> string \<Rightarrow> string \<Rightarrow> (db, payout_reply) act" where
  "tagPayout p saved amount fingerprint sequenceId =
    (let rawTag = to_lower (dropWhile (\<lambda>c. c = CHR ''@'') (trim (or_str (or_else (po_dayfiTag p) (po_accountNumber p)) []))) in
     abnd (arequire (rawTag \<noteq> []) (JsError ''Dayfi tag is required'')) (\<lambda>_.
     abnd (aquery (\<lambda>s. find_row (\<lambda>m. to_lower (mb_tag m)) (to_lower rawTag) (members s))) (\<lambda>found. case found of
       None \<Rightarrow> athrow (JsError ''No Dayfi user found with that tag'')
     | Some recipient \<Rightarrow>
         let accountName = or_str (mb_name recipient) (''@'' @ mb_tag recipient) in
         abnd (insertTx (payout_tx p amount (to_upper (or_str (po_currency p) ''NGN''))
             (Some (to_upper (or_str (po_country p) ''NG''))) (first_status (po_env p)) ''dayfi_tag'' sequenceId
             ([''type'' \<mapsto> JStr ''payout'', ''rail'' \<mapsto> JStr ''dayfi_tag'',
               ''recipient'' \<mapsto> JObj [(''dayfiTag'', JStr (mb_tag recipient)), (''accountName'', JStr accountName),
                 (''memberId'', JStr (mb_id recipient)),
                 (''orgId'', case mb_org recipient of Some i \<Rightarrow> JStr i | None \<Rightarrow> JNull)],
               ''sequenceId'' \<mapsto> JStr sequenceId] ++ shared_meta p saved) fingerprint)) (\<lambda>row.
         abnd (lockFundsForPayout (po_orgId p) (t_id row)) (\<lambda>locked.
         aret (locked_reply row sequenceId locked False (JObj [(''dayfiTag'', JStr (mb_tag recipient)),
           (''accountName'', JStr accountName), (''accountType'', JStr ''dayfi_tag'')])))))))"

definition cryptoPayout :: "payout_order \<Rightarrow> saved_recipient option \<Rightarrow> rat \<Rightarrow> string \<Rightarrow> string \<Rightarrow> (db, payout_reply) act" where
  "cryptoPayout p saved amount fingerprint sequenceId =
    (let asset = to_upper (or_str (or_else (po_asset p) (po_currency p)) ''USDC'');
         network = to_lower (or_str (po_network p) ''stellar'');
         walletAddress = trim (or_str (or_else (po_walletAddress p) (po_accountNumber p)) []);
         hint = (case saved of Some v \<Rightarrow> [(''displayHint'', JStr (sv_displayHint v))] | None \<Rightarrow> []);
         named = (case saved of Some v \<Rightarrow> None | None \<Rightarrow> Some walletAddress)
     in
     abnd (arequire (walletAddress \<noteq> []) (JsError ''Wallet address is required'')) (\<lambda>_.
     abnd (insertTx (payout_tx p amount asset None (first_status (po_env p)) ''crypto'' sequenceId
         ([''type'' \<mapsto> JStr ''payout'', ''rail'' \<mapsto> JStr ''crypto'',
           ''recipient'' \<mapsto> JObj ([(''asset'', JStr asset), (''network'', JStr network), (''walletAddress'', JStr walletAddress),
             (''accountName'', str_or_null (or_else (po_accountName p) named))] @ hint),
           ''sequenceId'' \<mapsto> JStr sequenceId] ++ shared_meta p saved) fingerprint)) (\<lambda>row.
     abnd (lockFundsForPayout (po_orgId p) (t_id row)) (\<lambda>locked.
     aret (locked_reply row sequenceId locked False (JObj ([(''asset'', JStr asset), (''network'', JStr network)] @
       (case saved of Some v \<Rightarrow> [(''displayHint'', JStr (sv_displayHint v)), (''recipientId'', JStr (sv_recipientId v)),
            (''destinationId'', JStr (sv_destinationId v))]
        | None \<Rightarrow> [(''walletAddress'', JStr walletAddress)]))))))))"

text \<open>The bank and mobile money rails.\<close>

record bank_details =
  bd_currency :: string
  bd_country :: string
  bd_number :: string
  bd_name :: string
  bd_type :: string
  bd_method :: string

definition bankChecks :: "rails \<Rightarrow> payout_order \<Rightarrow> js_error + bank_details" where
  "bankChecks rl p =
    (let number = or_str (po_accountNumber p) []; name = or_str (po_accountName p) []; code = or_str (po_bankCode p) [];
         momo = (account_type p = ''momo'');
         details = (\<lambda>resolvedName. \<lparr>bd_currency = to_upper (or_str (po_currency p) ''NGN''),
           bd_country = to_upper (or_str (po_country p) ''NG''), bd_number = trim number, bd_name = resolvedName,
           bd_type = (if momo then ''momo'' else ''bank''),
           bd_method = (if momo then ''mobile_money'' else ''bank_transfer'')\<rparr>)
     in if trim number = [] \<or> trim name = [] then Inl (JsError ''Account number and account name are required'')
        else if account_type p = ''bank'' \<and> trim code = [] then Inl (JsError ''Bank / network is required'')
        else if po_env p = Live \<and> account_type p = ''bank'' \<and> code \<noteq> [] then
          (case rl_resolveBank rl (trim number) (trim code) of
             Inl e \<Rightarrow> Inl e
           | Inr accountName \<Rightarrow> Inr (details (if accountName = [] then trim name else accountName)))
        else Inr (details (trim name)))"

definition bank_meta :: "payout_order \<Rightarrow> saved_recipient option \<Rightarrow> bank_details \<Rightarrow> string \<Rightarrow> jmap" where
  "bank_meta p saved bd sequenceId =
    [''type'' \<mapsto> JStr ''payout'', ''accountType'' \<mapsto> JStr (bd_type bd),
     ''recipient'' \<mapsto> JObj ((case saved of None \<Rightarrow> [(''accountNumber'', JStr (bd_number bd))] | Some v \<Rightarrow> []) @
       [(''accountName'', JStr (bd_name bd)), (''bankCode'', str_or_null (po_bankCode p)), (''bankName'', str_or_null (po_bankName p))] @
       (case saved of Some v \<Rightarrow> [(''displayHint'', JStr (sv_displayHint v))] | None \<Rightarrow> [])),
     ''reason'' \<mapsto> JStr (or_str (po_reason p) ''other''), ''provider'' \<mapsto> JNull, ''sequenceId'' \<mapsto> JStr sequenceId,
     ''channelId'' \<mapsto> str_or_null (po_channelId p)] ++ shared_meta p saved"

definition bank_recipient :: "payout_order \<Rightarrow> saved_recipient option \<Rightarrow> bank_details \<Rightarrow> json" where
  "bank_recipient p saved bd =
    JObj ((case saved of None \<Rightarrow> [(''accountNumber'', JStr (bd_number bd))] | Some v \<Rightarrow> []) @
      [(''accountName'', JStr (bd_name bd)), (''bankCode'', str_or_null (po_bankCode p)),
       (''bankName'', str_or_null (po_bankName p)), (''accountType'', JStr (bd_type bd))] @
      (case saved of Some v \<Rightarrow> [(''displayHint'', JStr (sv_displayHint v)), (''recipientId'', JStr (sv_recipientId v)),
         (''destinationId'', JStr (sv_destinationId v))] | None \<Rightarrow> []))"

text \<open>The LIVE rail: the channel, then the payment request.\<close>

definition bank_request :: "payout_order \<Rightarrow> rat \<Rightarrow> bank_details \<Rightarrow> yc_party \<Rightarrow> string \<Rightarrow> string \<Rightarrow> json" where
  "bank_request p amount bd party sequenceId channelId =
    JObj [(''sequenceId'', JStr sequenceId), (''channelId'', JStr channelId), (''currency'', JStr (bd_currency bd)),
      (''country'', JStr (bd_country bd)), (''reason'', JStr (to_lower (or_str (po_reason p) ''other''))),
      (''amount'', JNum amount), (''forceAccept'', JBool True),
      (''destination'', JObj ([(''accountNumber'', JStr (bd_number bd)), (''accountType'', JStr (bd_type bd))] @
        opt_field ''networkId'' (map_option JStr (or_else (po_networkId p) (po_bankCode p))) @
        [(''accountName'', JStr (bd_name bd))])),
      (''recipient'', party_json party)]"

definition callYellowCard :: "rails \<Rightarrow> payout_order \<Rightarrow> rat \<Rightarrow> bank_details \<Rightarrow> yc_party \<Rightarrow> string \<Rightarrow> js_error + json" where
  "callYellowCard rl p amount bd party sequenceId =
    bind_sum (yc_channels (rl_yc rl)) (\<lambda>raw.
    let channelId = or_str (po_channelId p) (channel_for (bd_country bd) (bd_currency bd) (parseYellowCardChannelList raw))
    in if channelId = [] then Inl (JsError ''No payout channel available'')
       else yc_create (rl_yc rl) 0 (bank_request p amount bd party sequenceId channelId))"

definition submitFailed :: "sdk \<Rightarrow> payout_order \<Rightarrow> string \<Rightarrow> js_error \<Rightarrow> (db, 'a) act" where
  "submitFailed sd p i err =
    abnd (acatch (abnd (releasePayoutLock sd \<lparr>py_orgId = Some (po_orgId p), py_transactionId = i, py_providerEventId = None,
        py_source = Some ''yellowcard_submit_failed'', py_status = Some ''failed''\<rparr>) (\<lambda>_. aret ()))
      (\<lambda>releaseErr. aret ())) (\<lambda>_.
    athrow (InfraRailError 502 (Some i)))"

definition submitLivePayout :: "sdk \<Rightarrow> rails \<Rightarrow> payout_order \<Rightarrow> rat \<Rightarrow> bank_details \<Rightarrow> yc_party \<Rightarrow> string \<Rightarrow> string \<Rightarrow> (db, unit) act" where
  "submitLivePayout sd rl p amount bd party sequenceId i =
    acatch (abnd (aof_sum (callYellowCard rl p amount bd party sequenceId)) (\<lambda>provider.
        sql_txn i (\<lambda>t. t\<lparr>t_status := ''processing'', t_metadata := t_metadata t ++
          [''provider'' \<mapsto> provider, ''railSubmittedAt'' \<mapsto> JStr (sdk_now sd)]\<rparr>)))
      (submitFailed sd p i)"

text \<open>After the row exists: the lock, then the deferred off-ramp or the rail.\<close>

definition bankLocked ::
  "sdk \<Rightarrow> rails \<Rightarrow> payout_order \<Rightarrow> saved_recipient option \<Rightarrow> rat \<Rightarrow> bank_details \<Rightarrow> yc_party option \<Rightarrow> string \<Rightarrow> string
    \<Rightarrow> (db, payout_reply) act" where
  "bankLocked sd rl p saved amount bd party sequenceId i =
    abnd (lockFundsForPayout (po_orgId p) i) (\<lambda>locked.
    if isFiatOfframpEnabled sd then
      abnd (sql_txn i (\<lambda>t. t\<lparr>t_metadata := t_metadata t ++ [''offRamp'' \<mapsto> JBool True, ''offRampPhase'' \<mapsto> JStr ''locked'',
        ''settlementMode'' \<mapsto> JStr ''STELLAR_TREASURY'', ''providerDeferred'' \<mapsto> JBool True]\<rparr>)) (\<lambda>_.
      abnd (fetchTxRow i) (\<lambda>latest.
      aret (locked_reply latest sequenceId locked True (bank_recipient p saved bd))))
    else
      abnd (case party of Some y \<Rightarrow> submitLivePayout sd rl p amount bd y sequenceId i | None \<Rightarrow> aret ()) (\<lambda>_.
      abnd (fetchTxRow i) (\<lambda>latest.
      aret (locked_reply latest sequenceId locked False (bank_recipient p saved bd)))))"

definition bankPayout ::
  "sdk \<Rightarrow> rails \<Rightarrow> payout_order \<Rightarrow> saved_recipient option \<Rightarrow> rat \<Rightarrow> string \<Rightarrow> string \<Rightarrow> (db, payout_reply) act" where
  "bankPayout sd rl p saved amount fingerprint sequenceId =
    abnd (aof_sum (bankChecks rl p)) (\<lambda>bd.
    let tx = (\<lambda>status meta. payout_tx p amount (bd_currency bd) (Some (bd_country bd)) status (bd_method bd) sequenceId meta fingerprint);
        meta = bank_meta p saved bd sequenceId
    in if po_env p = Live \<and> \<not> yc_configured (rl_yc rl) then
         abnd (insertTx (tx ''failed'' (meta ++
           [''providerError'' \<mapsto> JStr ''Yellow Card is not configured for LIVE payouts'']))) (\<lambda>failed.
         athrow (InfraRailError 502 (Some (t_id failed))))
       else
         abnd (if po_env p = Live then
             abnd (resolveLiveYellowCardParty (po_orgId p) (bd_country bd) (Some (bd_name bd)) (po_recipientPhone p)
               (po_recipientEmail p)) (\<lambda>y. aret (Some y))
           else aret None) (\<lambda>party.
         abnd (insertTx (tx (if po_env p = Live then ''pending'' else ''processing'') meta)) (\<lambda>row.
         bankLocked sd rl p saved amount bd party sequenceId (t_id row))))"

text \<open>The request proper, once no earlier request was found under its key.\<close>

definition newPayout :: "sdk \<Rightarrow> rails \<Rightarrow> payout_order \<Rightarrow> saved_recipient option \<Rightarrow> rat \<Rightarrow> string \<Rightarrow> (db, payout_reply) act" where
  "newPayout sd rl p saved amount fingerprint =
    abnd randomUUID (\<lambda>sequenceId.
    if account_type p = ''dayfi_tag'' \<or> or_else (po_dayfiTag p) None \<noteq> None then tagPayout p saved amount fingerprint sequenceId
    else if account_type p = ''crypto'' \<or> or_else (po_asset p) None \<noteq> None then cryptoPayout p saved amount fingerprint sequenceId
    else bankPayout sd rl p saved amount fingerprint sequenceId)"

definition createPayout :: "sdk \<Rightarrow> rails \<Rightarrow> payout_order \<Rightarrow> (db, payout_reply) act" where
  "createPayout sd rl input = (case po_amount input of
     Fin amount \<Rightarrow>
       abnd (arequire (0 < amount) (JsError ''Amount must be greater than zero'')) (\<lambda>_.
       abnd (savedRecipient input) (\<lambda>(p, saved).
       let fingerprint = payoutFingerprint sd p amount in
       abnd (findIdempotentTx (po_orgId p) (po_env p) (po_idempotencyKey p) fingerprint) (\<lambda>replay. case replay of
         Some t \<Rightarrow> replayPayout p t
       | None \<Rightarrow> newPayout sd rl p saved amount fingerprint)))
   | _ \<Rightarrow> athrow (JsError ''Amount must be greater than zero''))"

section \<open>Settling in TEST\<close>

datatype simulated =
    SimulatedCollection tx_view settle_result
  | SimulatedPayout tx_view "movement \<times> bool" balance_view

definition simulateSettlement :: "sdk \<Rightarrow> string \<Rightarrow> infra_env \<Rightarrow> string \<Rightarrow> (db, simulated) act" where
  "simulateSettlement sd orgId env transactionId =
    (if env \<noteq> Test then athrow (JsError ''Simulate settlement is only available in TEST'')
     else abnd (aquery (\<lambda>s. find_row (\<lambda>t. (t_id t, t_org t, t_env t)) (transactionId, orgId, Test) (txns s))) (\<lambda>found. case found of
       None \<Rightarrow> athrow (JsError ''Transaction not found'')
     | Some row \<Rightarrow>
         if t_direction row \<noteq> ''payment'' \<and> t_direction row \<noteq> ''payout''
         then athrow (JsError ''Only payments and payouts can be simulated'')
         else if List.member [''failed'', ''cancelled'', ''expired''] (to_lower (t_status row))
         then athrow (JsError (''Cannot settle a '' @ t_status row @ '' transaction''))
         else if t_direction row = ''payment'' then
           abnd (settleCollectionCredit sd \<lparr>se_orgId = orgId, se_transactionId = t_id row,
             se_providerEventId = Some (''simulate:collection:'' @ t_id row), se_source = Some ''simulate''\<rparr>) (\<lambda>settled.
           abnd (fetchTxRow (t_id row)) (\<lambda>updated. aret (SimulatedCollection (mapTx updated) settled)))
         else
           abnd (finalizePayoutDebit sd \<lparr>py_orgId = Some orgId, py_transactionId = t_id row,
             py_providerEventId = Some (''simulate:payout:'' @ t_id row), py_source = Some ''simulate'', py_status = None\<rparr>) (\<lambda>settled.
           abnd (fetchTxRow (t_id row)) (\<lambda>updated. aret (SimulatedPayout (mapTx updated) (fst settled) (snd settled))))))"

section \<open>Collections\<close>

text \<open>
  \<open>src/src/config/cryptoNetworks.ts\<close> and \<open>listCryptoNetworks\<close>: the networks on which an asset is
  received, with the address of this deployment.
\<close>

record network =
  nw_key :: string
  nw_name :: string
  nw_rail :: string
  nw_assets :: "string list"

definition CRYPTO_NETWORKS :: "network list" where
  "CRYPTO_NETWORKS =
    [\<lparr>nw_key = ''stellar'', nw_name = ''Stellar'', nw_rail = ''stellar'', nw_assets = [''USDC'', ''EURC'']\<rparr>,
     \<lparr>nw_key = ''ethereum'', nw_name = ''Ethereum'', nw_rail = ''evm'', nw_assets = [''USDC'', ''EURC'']\<rparr>,
     \<lparr>nw_key = ''bsc'', nw_name = ''BNB Smart Chain'', nw_rail = ''evm'', nw_assets = [''USDC'']\<rparr>,
     \<lparr>nw_key = ''arbitrum'', nw_name = ''Arbitrum One'', nw_rail = ''evm'', nw_assets = [''USDC'']\<rparr>,
     \<lparr>nw_key = ''mantle'', nw_name = ''Mantle Network'', nw_rail = ''evm'', nw_assets = [''USDC'']\<rparr>,
     \<lparr>nw_key = ''sonic'', nw_name = ''Sonic'', nw_rail = ''evm'', nw_assets = [''USDC'']\<rparr>,
     \<lparr>nw_key = ''xdc'', nw_name = ''XDC Network'', nw_rail = ''evm'', nw_assets = [''USDC'']\<rparr>]"

definition deposit_address :: "sdk \<Rightarrow> network \<Rightarrow> string" where
  "deposit_address sd n = trim (or_str (if nw_rail n = ''stellar''
     then or_else (sdk_env sd ''DAYFI_INFRA_STELLAR_ADDRESS'') (sdk_env sd ''MASTER_WALLET_PUBLIC_KEY'')
     else or_else (sdk_env sd ''DAYFI_INFRA_EVM_ADDRESS'') (sdk_env sd ''MASTER_WALLET_EVM_ADDRESS'')) [])"

definition listCryptoNetworks :: "string \<Rightarrow> network list" where
  "listCryptoNetworks asset = filter (\<lambda>n. List.member (nw_assets n) (to_upper asset)) CRYPTO_NETWORKS"

record collection_order =
  co_orgId :: string
  co_env :: infra_env
  co_amount :: js_num
  co_currency :: "string option"
  co_country :: "string option"
  co_description :: "string option"
  co_customerName :: "string option"
  co_customerEmail :: "string option"
  co_channelId :: "string option"
  co_method :: "string option"
  co_asset :: "string option"
  co_network :: "string option"
  co_depositAddress :: "string option"
  co_idempotencyKey :: "string option"

record collection_reply =
  cr_tx :: tx_view
  cr_instructions :: json
  cr_sequenceId :: "json option"
  cr_expiresAt :: "json option"
  cr_replay :: bool

definition method_hint :: "collection_order \<Rightarrow> string" where
  "method_hint c = to_lower (or_str (co_method c) ''bank'')"

definition co_fiat :: "collection_order \<Rightarrow> string \<times> string \<times> string" where
  "co_fiat c = (to_upper (or_str (co_currency c) ''NGN''), to_upper (or_str (co_country c) ''NG''),
     if method_hint c = ''momo'' then ''mobile_money'' else ''bank_transfer'')"

definition collectionFingerprint :: "sdk \<Rightarrow> collection_order \<Rightarrow> rat \<Rightarrow> string" where
  "collectionFingerprint sd c amount = requestFingerprint sd
     [(''kind'', JStr ''collection''), (''amount'', JNum (persistMoney (Fin amount))),
      (''currency'', JStr (to_upper (or_str (or_else (co_currency c) (co_asset c)) ''NGN''))),
      (''country'', JStr (to_upper (or_str (co_country c) ''NG''))), (''method'', JStr (method_hint c)),
      (''asset'', str_or_null (co_asset c)), (''network'', str_or_null (co_network c)),
      (''channelId'', str_or_null (co_channelId c)), (''customerEmail'', str_or_null (co_customerEmail c))]"

text \<open>The narration of an events collection; the separator after \<open>Ticket\<close> is the middle dot.\<close>

definition build3v3ntsNarration :: "string option \<Rightarrow> string" where
  "build3v3ntsNarration description =
    (let raw = trim (or_str description ''Gathering''); rest = dropWhile is_ws (drop 6 raw);
         bare = (if to_lower (take 6 raw) = ''ticket'' \<and> take 1 rest = [char_of (183 :: nat)] then dropWhile is_ws (drop 1 rest) else raw);
         title = trim bare
     in take 64 (''3v3nts / '' @ (if title = [] then ''Gathering'' else title)))"

definition words_of :: "string \<Rightarrow> string list" where
  "words_of s = filter (\<lambda>w. w \<noteq> []) (foldr (\<lambda>c ws. if is_ws c then [] # ws else (c # hd ws) # tl ws) s [[]])"

definition splitCustomerName :: "string option \<Rightarrow> string \<times> string" where
  "splitCustomerName name =
    (let parts = words_of (trim (or_str name ''Guest''));
         rest = (case tl parts of [] \<Rightarrow> [] | w # ws \<Rightarrow> w @ concat (map (\<lambda>v. CHR '' '' # v) ws))
     in (if parts = [] then ''Guest'' else hd parts, if rest = [] then ''Customer'' else rest))"

definition testAccountNumberFromSequence :: "sdk \<Rightarrow> string \<Rightarrow> string" where
  "testAccountNumberFromSequence sd sequenceId =
    (let digits = take 10 (map (\<lambda>c. digit_char (radix_val c mod 10)) (sdk_sha256 sd sequenceId))
     in digits @ replicate (10 - length digits) CHR ''0'')"

definition momo_corridor :: "string \<Rightarrow> string" where
  "momo_corridor cc = (if cc = ''GH'' then ''MTN Mobile Money'' else if cc = ''KE'' \<or> cc = ''TZ'' then ''M-PESA''
     else if cc = ''UG'' \<or> cc = ''RW'' then ''MTN MoMo'' else ''Mobile Money'')"

definition bank_corridor :: "string \<Rightarrow> string \<Rightarrow> string \<times> string" where
  "bank_corridor cc narration =
    (let named = (if narration = [] then ''3v3nts / Gathering'' else narration) in
     if cc = ''NG'' then (''Flutterwave MFB'', named)
     else if cc = ''ZA'' then (''Standard Bank'', ''YELLOW CARD / DAYFI'')
     else if cc = ''BW'' then (''First National Bank'', ''YELLOW CARD / DAYFI'')
     else (''Wema Bank'', named))"

definition testCollectionInstructions :: "sdk \<Rightarrow> string \<Rightarrow> string \<Rightarrow> string \<Rightarrow> string \<Rightarrow> (string \<times> json) list" where
  "testCollectionInstructions sd sequenceId cc hint narration =
    (let (bankName, accountName) = (if hint = ''momo'' then (momo_corridor cc, ''YELLOW CARD / DAYFI'') else bank_corridor cc narration)
     in [(''accountName'', JStr accountName), (''accountNumber'', JStr (testAccountNumberFromSequence sd sequenceId)),
         (''bankName'', JStr bankName), (''reference'', JStr (''DAYFI-'' @ to_upper (take 8 sequenceId)))])"

definition replayCollection :: "txn \<Rightarrow> collection_reply" where
  "replayCollection replay =
    (let meta = t_metadata replay; instructions = (if json_truthy (meta ''instructions'') then the (meta ''instructions'') else JObj [])
     in \<lparr>cr_tx = mapTx replay, cr_instructions = instructions,
         cr_sequenceId = json_or (meta ''sequenceId'') (map_option JStr (t_external_id replay)),
         cr_expiresAt = object_field (Some instructions) ''expiresAt'', cr_replay = True\<rparr>)"

definition collection_tx ::
  "collection_order \<Rightarrow> rat \<Rightarrow> string \<Rightarrow> string option \<Rightarrow> string \<Rightarrow> string \<Rightarrow> string \<Rightarrow> jmap \<Rightarrow> string \<Rightarrow> tx_input" where
  "collection_tx c amount currency country status method sequenceId meta fingerprint =
    \<lparr>ix_orgId = co_orgId c, ix_env = co_env c, ix_amount = amount, ix_currency = currency, ix_country = country,
     ix_status = status, ix_method = method, ix_direction = ''payment'', ix_fee = None, ix_externalId = Some sequenceId,
     ix_metadata = meta, ix_idempotencyKey = co_idempotencyKey c, ix_fingerprint = Some fingerprint\<rparr>"

definition collected :: "txn \<Rightarrow> json \<Rightarrow> string \<Rightarrow> string \<Rightarrow> collection_reply" where
  "collected row instructions sequenceId expiresAt = \<lparr>cr_tx = mapTx row, cr_instructions = instructions,
     cr_sequenceId = Some (JStr sequenceId), cr_expiresAt = Some (JStr expiresAt), cr_replay = False\<rparr>"

definition cryptoCollection :: "sdk \<Rightarrow> rails \<Rightarrow> collection_order \<Rightarrow> rat \<Rightarrow> string \<Rightarrow> string \<Rightarrow> (db, collection_reply) act" where
  "cryptoCollection sd rl c amount fingerprint sequenceId =
    (let asset = to_upper (or_str (or_else (co_asset c) (co_currency c)) ''USDC'');
         wanted = to_lower (or_str (co_network c) ''stellar''); nets = listCryptoNetworks asset;
         net = (case find_row nw_key wanted nets of Some n \<Rightarrow> Some n | None \<Rightarrow> (case nets of [] \<Rightarrow> None | n # _ \<Rightarrow> Some n));
         bare = filter (\<lambda>x. x \<noteq> CHR ''-'') sequenceId
     in case net of
          None \<Rightarrow> athrow (JsError (''No network available for '' @ asset))
        | Some n \<Rightarrow>
            let given = trim (or_str (or_else (co_depositAddress c) (Some (deposit_address sd n))) []);
                placeholder = (given = []);
                address = (if \<not> placeholder then given
                  else if nw_rail n = ''stellar'' then ''GTEST'' @ to_upper (take 24 bare) else ''0x'' @ take 40 bare);
                instructions = JObj [(''asset'', JStr asset), (''network'', JStr (nw_key n)), (''networkName'', JStr (nw_name n)),
                  (''address'', JStr address), (''memo'', JStr (to_upper (take 8 sequenceId))), (''expiresAt'', JStr (rl_expires rl)),
                  (''note'', JStr (if placeholder
                     then ''Dayfi deposit address for this collection - Mark as paid to simulate settlement in TEST.''
                     else ''Send only this asset on this network. Details expire in about 30 minutes.''))]
            in abnd (insertTx (collection_tx c amount asset None ''pending'' ''crypto'' sequenceId
                 [''type'' \<mapsto> JStr ''collection'', ''rail'' \<mapsto> JStr ''crypto'', ''description'' \<mapsto> str_or_null (co_description c),
                  ''customerName'' \<mapsto> str_or_null (co_customerName c), ''instructions'' \<mapsto> instructions,
                  ''sequenceId'' \<mapsto> JStr sequenceId] fingerprint)) (\<lambda>row.
               aret (collected row instructions sequenceId (rl_expires rl))))"

text \<open>The local rails: one row per attempt, with the instructions or the provider's error.\<close>

definition collection_meta :: "collection_order \<Rightarrow> string \<Rightarrow> jmap \<Rightarrow> jmap" where
  "collection_meta c sequenceId extra =
    [''type'' \<mapsto> JStr ''collection'', ''rail'' \<mapsto> JStr ''local'', ''description'' \<mapsto> str_or_null (co_description c),
     ''customerName'' \<mapsto> str_or_null (co_customerName c), ''customerEmail'' \<mapsto> str_or_null (co_customerEmail c),
     ''sequenceId'' \<mapsto> JStr sequenceId, ''channelId'' \<mapsto> str_or_null (co_channelId c)] ++ extra"

definition local_tx :: "collection_order \<Rightarrow> rat \<Rightarrow> string \<Rightarrow> string \<Rightarrow> string \<Rightarrow> jmap \<Rightarrow> tx_input" where
  "local_tx c amount fingerprint sequenceId status extra =
    (let (currency, country, method) = co_fiat c in
     collection_tx c amount currency (Some country) status method sequenceId (collection_meta c sequenceId extra) fingerprint)"

definition testCollection :: "sdk \<Rightarrow> rails \<Rightarrow> collection_order \<Rightarrow> rat \<Rightarrow> string \<Rightarrow> string \<Rightarrow> (db, collection_reply) act" where
  "testCollection sd rl c amount fingerprint sequenceId =
    (let (currency, country, method) = co_fiat c; local_ngn = (country = ''NG'' \<and> currency = ''NGN'');
         instructions = JObj (testCollectionInstructions sd sequenceId country (method_hint c) (build3v3ntsNarration (co_description c)) @
           [(''note'', JStr (if local_ngn \<and> method_hint c \<noteq> ''momo''
              then ''Transfer the exact amount from any bank account. Payer name does not need to match your ticket name. TEST mode - mark as paid to simulate settlement.''
              else ''Transfer the exact amount with the reference within about 30 minutes. TEST mode - mark as paid to simulate settlement.'')),
            (''expiresAt'', JStr (rl_expires rl))])
     in abnd (insertTx (local_tx c amount fingerprint sequenceId ''pending'' [''instructions'' \<mapsto> instructions,
          ''provider'' \<mapsto> JNull, ''rail'' \<mapsto> JStr (if local_ngn then ''flutterwave'' else ''local'')])) (\<lambda>row.
        aret (collected row instructions sequenceId (rl_expires rl))))"

definition failLiveCollection :: "collection_order \<Rightarrow> rat \<Rightarrow> string \<Rightarrow> string \<Rightarrow> string \<Rightarrow> (db, 'a) act" where
  "failLiveCollection c amount fingerprint sequenceId message =
    abnd (insertTx (local_tx c amount fingerprint sequenceId ''failed'' [''instructions'' \<mapsto> JNull, ''provider'' \<mapsto> JNull,
      ''providerError'' \<mapsto> JStr message])) (\<lambda>row.
    athrow (InfraRailError 502 (Some (t_id row))))"

definition text_or_empty :: "json option \<Rightarrow> string" where
  "text_or_empty v = (case nullish v None of Some j \<Rightarrow> js_String j | None \<Rightarrow> [])"

definition virtualAccount :: "rails \<Rightarrow> collection_order \<Rightarrow> rat \<Rightarrow> string \<Rightarrow> string \<Rightarrow> js_error + json \<times> json \<times> string" where
  "virtualAccount rl c amount email sequenceId =
    (let narration = build3v3ntsNarration (co_description c); (firstname, lastname) = splitCustomerName (co_customerName c) in
     bind_sum (rl_account rl (JObj [(''email'', JStr email), (''amount'', JNum amount), (''txRef'', JStr sequenceId),
       (''narration'', JStr narration), (''firstname'', JStr firstname), (''lastname'', JStr lastname)])) (\<lambda>provider.
     let field = object_field (Some provider); accountNumber = trim (text_or_empty (field ''account_number''))
     in if accountNumber = [] then Inl (JsError ''Flutterwave did not return a virtual account number'')
        else bind_sum (if json_truthy (field ''expiry_date'') then rl_iso rl (js_String (the (field ''expiry_date''))) else Inr (rl_expires rl)) (\<lambda>expiresAt.
          Inr (provider, JObj [(''accountName'', JStr narration), (''accountNumber'', JStr accountNumber),
            (''bankName'', JStr (first_text [field ''bank_name''] ''Flutterwave MFB'')), (''reference'', JStr sequenceId),
            (''note'', JStr ''Transfer the exact amount from any Nigerian bank account. The payer name does not need to match your ticket name.''),
            (''expiresAt'', JStr expiresAt)], expiresAt))))"

definition flutterwaveCollection :: "rails \<Rightarrow> collection_order \<Rightarrow> rat \<Rightarrow> string \<Rightarrow> string \<Rightarrow> (db, collection_reply) act" where
  "flutterwaveCollection rl c amount fingerprint sequenceId =
    (let email = to_lower (trim (or_str (co_customerEmail c) [])); failLive = failLiveCollection c amount fingerprint sequenceId in
     if \<not> rl_flutterwave rl then failLive ''Flutterwave is not configured for LIVE NGN collections''
     else if email = [] then failLive ''customerEmail is required for NGN bank transfer collections''
     else acatch (abnd (aof_sum (virtualAccount rl c amount email sequenceId)) (\<lambda>(provider, instructions, expiresAt).
         abnd (insertTx (local_tx c amount fingerprint sequenceId ''pending'' [''rail'' \<mapsto> JStr ''flutterwave'',
           ''instructions'' \<mapsto> instructions, ''provider'' \<mapsto> provider])) (\<lambda>row.
         aret (collected row instructions sequenceId expiresAt))))
       (\<lambda>err. failLive (message_of err)))"

definition same_corridor :: "string \<Rightarrow> string \<Rightarrow> json \<Rightarrow> bool" where
  "same_corridor country currency ch \<longleftrightarrow> to_upper (first_text [object_field (Some ch) ''country''] []) = country
     \<and> to_upper (first_text [object_field (Some ch) ''currency'', object_field (Some ch) ''localCurrency''] []) = currency"

definition collect_channel :: "collection_order \<Rightarrow> json list \<Rightarrow> json option" where
  "collect_channel c cs =
    (let (currency, country, method) = co_fiat c;
         own = (case or_else (co_channelId c) None of None \<Rightarrow> None
           | Some i \<Rightarrow> find (\<lambda>ch. text_or_empty (nullish (object_field (Some ch) ''id'') (object_field (Some ch) ''channelId'')) = i) cs);
         deposit = find (\<lambda>ch. same_corridor country currency ch
           \<and> str_includes (to_lower (first_text [object_field (Some ch) ''rampType'', object_field (Some ch) ''ramp''] [])) ''deposit'') cs
     in option_or own (option_or deposit (option_or (find (same_corridor country currency) cs)
          (case cs of [] \<Rightarrow> None | ch # _ \<Rightarrow> Some ch))))"

definition collectYellowCard :: "rails \<Rightarrow> collection_order \<Rightarrow> rat \<Rightarrow> yc_party \<Rightarrow> string \<Rightarrow> js_error + json \<times> json \<times> string" where
  "collectYellowCard rl c amount party sequenceId =
    (let (currency, country, method) = co_fiat c in
     bind_sum (yc_channels (rl_yc rl)) (\<lambda>raw.
     let channel = collect_channel c (parseYellowCardChannelList raw);
         channelId = or_str (co_channelId c) (first_text [object_field channel ''id'', object_field channel ''channelId''] [])
     in if channelId = [] then Inl (JsError ''No collection channel available'')
        else bind_sum (rl_collect rl (JObj [(''sequenceId'', JStr sequenceId), (''channelId'', JStr channelId), (''currency'', JStr currency),
          (''country'', JStr country), (''reason'', JStr ''other''), (''localAmount'', JNum amount), (''forceAccept'', JBool True),
          (''recipient'', party_json party),
          (''source'', JObj [(''accountType'', JStr (if method_hint c = ''momo'' then ''momo'' else ''bank'')),
            (''accountNumber'', JStr ''0000000000''),
            (''networkId'', JStr (text_or_empty (nullish (object_field channel ''networkId'') (Some (JStr channelId)))))])])) (\<lambda>provider.
        let field = object_field (Some provider); inner = object_field (field ''data'');
            bankInfo = json_or (field ''bankInfo'') (json_or (inner ''bankInfo'') (json_or (field ''destination'') None));
            bank = object_field bankInfo;
            accountNumber = trim (first_text [bank ''accountNumber'', bank ''account_number''] []);
            status = to_lower (first_text [field ''status'', inner ''status''] ''pending'')
        in if accountNumber = [] then Inl (JsError ''Yellow Card did not return pay-in account details'')
           else Inr (provider, JObj [(''accountName'', json_or_null (json_or (bank ''accountName'') (bank ''account_name''))),
             (''accountNumber'', JStr accountNumber),
             (''bankName'', json_or_null (json_or (bank ''name'') (json_or (bank ''bankName'') (bank ''bank_name'')))),
             (''reference'', if json_truthy (bank ''reference'') then the (bank ''reference'') else JStr sequenceId),
             (''note'', JStr ''Dayfi collection - complete payment within about 30 minutes.''), (''expiresAt'', JStr (rl_expires rl))],
             if status = ''completed'' \<or> status = ''success'' then ''pending'' else status))))"

definition yellowCardCollection :: "rails \<Rightarrow> collection_order \<Rightarrow> rat \<Rightarrow> string \<Rightarrow> string \<Rightarrow> (db, collection_reply) act" where
  "yellowCardCollection rl c amount fingerprint sequenceId =
    (let (currency, country, method) = co_fiat c; failLive = failLiveCollection c amount fingerprint sequenceId in
     if \<not> yc_configured (rl_yc rl) then failLive ''Yellow Card is not configured for LIVE collections''
     else abnd (resolveLiveYellowCardParty (co_orgId c) country (co_customerName c) None None) (\<lambda>party.
       acatch (abnd (aof_sum (collectYellowCard rl c amount party sequenceId)) (\<lambda>(provider, instructions, status).
           abnd (insertTx (local_tx c amount fingerprint sequenceId status [''instructions'' \<mapsto> instructions, ''provider'' \<mapsto> provider])) (\<lambda>row.
           aret (collected row instructions sequenceId (rl_expires rl)))))
         (\<lambda>err. case err of InfraRailError n i \<Rightarrow> athrow err | _ \<Rightarrow> failLive (message_of err))))"

definition newCollection :: "sdk \<Rightarrow> rails \<Rightarrow> collection_order \<Rightarrow> rat \<Rightarrow> string \<Rightarrow> string \<Rightarrow> (db, collection_reply) act" where
  "newCollection sd rl c amount fingerprint sequenceId =
    (let (currency, country, method) = co_fiat c in
     if method_hint c = ''crypto'' \<or> or_else (co_asset c) None \<noteq> None then cryptoCollection sd rl c amount fingerprint sequenceId
     else if co_env c = Test then testCollection sd rl c amount fingerprint sequenceId
     else if country = ''NG'' \<and> currency = ''NGN'' \<and> method_hint c \<noteq> ''momo'' then flutterwaveCollection rl c amount fingerprint sequenceId
     else yellowCardCollection rl c amount fingerprint sequenceId)"

definition createCollection :: "sdk \<Rightarrow> rails \<Rightarrow> collection_order \<Rightarrow> (db, collection_reply) act" where
  "createCollection sd rl c = (case co_amount c of
     Fin amount \<Rightarrow>
       abnd (arequire (0 < amount) (JsError ''Amount must be greater than zero'')) (\<lambda>_.
       let fingerprint = collectionFingerprint sd c amount in
       abnd (findIdempotentTx (co_orgId c) (co_env c) (co_idempotencyKey c) fingerprint) (\<lambda>replay. case replay of
         Some t \<Rightarrow> aret (replayCollection t)
       | None \<Rightarrow> abnd randomUUID (newCollection sd rl c amount fingerprint)))
   | _ \<Rightarrow> athrow (JsError ''Amount must be greater than zero''))"

end
