(* ===== verification/Bulk.thy ===== *)
theory Bulk
  imports Money_Service
begin

text \<open>
  \<open>src/src/modules/infra/infraBulkService.ts\<close>: batches of payouts. A batch is drafted from items or a
  CSV text, checked by the preflight, and confirmed: every ready item becomes a payout of its own. The
  batch row itself only aggregates what became of the payouts. The check messages and the time stamps
  of the preflight are not kept; an item amount that is not a number is read back as zero (\<open>num\<close>), and
  is stored so.
\<close>

section \<open>Statements on the two tables\<close>

definition batch_statuses :: "string list" where
  "batch_statuses = [''draft'', ''validating'', ''ready'', ''processing'', ''partially_completed'', ''completed'', ''failed'', ''cancelled'']"

definition item_statuses :: "string list" where
  "item_statuses = [''pending'', ''invalid'', ''ready'', ''processing'', ''completed'', ''failed'', ''cancelled'', ''skipped'']"

definition batch_ok :: "batch \<Rightarrow> bool" where
  "batch_ok b \<longleftrightarrow> List.member batch_statuses (bb_status b) \<and> List.member [''api'', ''csv'', ''recipients''] (bb_source b)"

definition item_ok :: "bulk_item \<Rightarrow> bool" where
  "item_ok i \<longleftrightarrow> List.member item_statuses (bi_status i)"

definition batch_fits :: "batch \<Rightarrow> bool" where
  "batch_fits b \<longleftrightarrow> list_all fits20 [bb_total b, bb_fee b, bb_completed b, bb_released b, bb_locked b]"

definition item_fits :: "bulk_item \<Rightarrow> bool" where
  "item_fits i \<longleftrightarrow> fits20 (bi_amount i) \<and> fits20 (bi_fee i)
     \<and> (case bi_usdc i of None \<Rightarrow> True | Some x \<Rightarrow> fits20 x)
     \<and> (case bi_rate i of None \<Rightarrow> True | Some x \<Rightarrow> \<bar>x\<bar> < 10000000000)"

definition known :: "string option \<Rightarrow> string list \<Rightarrow> bool" where
  "known i ids \<longleftrightarrow> (case i of None \<Rightarrow> True | Some k \<Rightarrow> List.member ids k)"

definition item_refs :: "bulk_item \<Rightarrow> db \<Rightarrow> bool" where
  "item_refs i s \<longleftrightarrow> List.member (map bb_id (batches s)) (bi_batch i) \<and> org_exists (bi_org i) s
     \<and> known (bi_recipient i) (map rp_id (recipients s)) \<and> known (bi_destination i) (map ds_id (destinations s))
     \<and> known (bi_payout i) (map t_id (txns s))"

definition insert_batch :: "batch \<Rightarrow> (db, batch) tx" where
  "insert_batch b s =
    (if \<not> batch_fits b then Inl NumericOverflow
     else if \<not> batch_ok b then Inl CheckViolation
     else if List.member (map bb_id (batches s)) (bb_id b) \<or> List.member (map (\<lambda>x. (bb_org x, bb_code x)) (batches s)) (bb_org b, bb_code b)
     then Inl UniqueViolation
     else if \<not> org_exists (bb_org b) s then Inl ForeignKeyViolation
     else Inr (b, s\<lparr>batches := b # batches s\<rparr>))"

definition insert_item :: "bulk_item \<Rightarrow> (db, unit) tx" where
  "insert_item i s =
    (if \<not> item_fits i then Inl NumericOverflow
     else if \<not> item_ok i then Inl CheckViolation
     else if List.member (map bi_id (bulk_items s)) (bi_id i) \<or> List.member (map (\<lambda>x. (bi_batch x, bi_line x)) (bulk_items s)) (bi_batch i, bi_line i)
     then Inl UniqueViolation
     else if \<not> item_refs i s then Inl ForeignKeyViolation
     else Inr ((), s\<lparr>bulk_items := i # bulk_items s\<rparr>))"

definition sql_batch :: "string \<Rightarrow> (batch \<Rightarrow> batch) \<Rightarrow> (db, unit) act" where
  "sql_batch i f s = (if \<not> list_all (\<lambda>b. bb_id b = i \<longrightarrow> batch_fits (f b)) (batches s) then (Inl NumericOverflow, s)
     else if list_all (\<lambda>b. bb_id b = i \<longrightarrow> batch_ok (f b)) (batches s)
     then (Inr (), s\<lparr>batches := update_rows bb_id i f (batches s)\<rparr>) else (Inl CheckViolation, s))"

definition sql_items :: "(bulk_item \<Rightarrow> bool) \<Rightarrow> (bulk_item \<Rightarrow> bulk_item) \<Rightarrow> (db, unit) act" where
  "sql_items p f s =
    (if \<not> list_all (\<lambda>i. p i \<longrightarrow> item_fits (f i)) (bulk_items s) then (Inl NumericOverflow, s)
     else if \<not> list_all (\<lambda>i. p i \<longrightarrow> item_ok (f i)) (bulk_items s) then (Inl CheckViolation, s)
     else if \<not> list_all (\<lambda>i. p i \<longrightarrow> item_refs (f i) s) (bulk_items s) then (Inl ForeignKeyViolation, s)
     else (Inr (), s\<lparr>bulk_items := map (\<lambda>i. if p i then f i else i) (bulk_items s)\<rparr>))"

section \<open>Reading\<close>

definition loadBatch :: "string \<Rightarrow> string \<Rightarrow> (db, batch) act" where
  "loadBatch orgId batchId =
    abnd (aquery (\<lambda>s. find_row (\<lambda>b. (bb_id b, bb_org b)) (batchId, orgId) (batches s))) (\<lambda>row. case row of
      None \<Rightarrow> athrow (InfraBulkError ''NOT_FOUND'' 404) | Some b \<Rightarrow> aret b)"

definition batch_items :: "string \<Rightarrow> bulk_item list \<Rightarrow> bulk_item list" where
  "batch_items batchId rows = sort_by (\<lambda>a b. bi_line a \<le> bi_line b) (filter (\<lambda>i. bi_batch i = batchId) rows)"

definition listItems :: "string \<Rightarrow> (db, bulk_item list) act" where
  "listItems batchId = aquery (\<lambda>s. batch_items batchId (bulk_items s))"

definition getBatchWithItems :: "string \<Rightarrow> string \<Rightarrow> (db, batch \<times> bulk_item list) act" where
  "getBatchWithItems orgId batchId =
    abnd (loadBatch orgId batchId) (\<lambda>b. abnd (listItems batchId) (\<lambda>items. aret (b, items)))"

definition js_limit :: "js_num option \<Rightarrow> nat" where
  "js_limit limit = (case limit of Some (Fin x) \<Rightarrow> if x = 0 then 50 else nat \<lfloor>min (max x 1) 100 + 1 / 2\<rfloor>
     | Some (Infinite neg) \<Rightarrow> if neg then 1 else 100 | _ \<Rightarrow> 50)"

definition listBulkBatches :: "string \<Rightarrow> string \<Rightarrow> js_num option \<Rightarrow> (db, batch list) act" where
  "listBulkBatches orgId environment limit =
    aquery (\<lambda>s. take (js_limit limit) (filter (\<lambda>b. bb_org b = orgId \<and> bb_env b = normalizeEnv environment) (batches s)))"

section \<open>CSV\<close>

text \<open>
  The first pass cuts the text into lines outside quotes; it drops the quotes it reads. The second
  pass cuts a line into cells.
\<close>

definition DQ :: char where
  "DQ = CHR 0x22"

definition LF :: char where
  "LF = CHR 0x0A"

definition CR :: char where
  "CR = CHR 0x0D"

definition push_line :: "string \<Rightarrow> string list \<Rightarrow> string list" where
  "push_line cur lines = (if trim cur \<noteq> [] \<or> lines \<noteq> [] then lines @ [cur] else lines)"

fun csv_lines :: "string \<Rightarrow> string \<Rightarrow> bool \<Rightarrow> string list \<Rightarrow> string list" where
  "csv_lines [] cur q lines = (if cur \<noteq> [] then lines @ [cur] else lines)"
| "csv_lines [c] cur q lines =
    (if c = DQ then csv_lines [] cur (\<not> q) lines
     else if (c = LF \<or> c = CR) \<and> \<not> q then csv_lines [] [] q (push_line cur lines)
     else csv_lines [] (cur @ [c]) q lines)"
| "csv_lines (c # d # cs) cur q lines =
    (if c = DQ then (if q \<and> d = DQ then csv_lines cs (cur @ [DQ]) q lines else csv_lines (d # cs) cur (\<not> q) lines)
     else if (c = LF \<or> c = CR) \<and> \<not> q then
       (if c = CR \<and> d = LF then csv_lines cs [] q (push_line cur lines) else csv_lines (d # cs) [] q (push_line cur lines))
     else csv_lines (d # cs) (cur @ [c]) q lines)"

fun csv_cells :: "string \<Rightarrow> string \<Rightarrow> bool \<Rightarrow> string list" where
  "csv_cells [] cell q = [trim cell]"
| "csv_cells [c] cell q =
    (if c = DQ then csv_cells [] cell (\<not> q)
     else if c = CHR '','' \<and> \<not> q then trim cell # csv_cells [] [] q
     else csv_cells [] (cell @ [c]) q)"
| "csv_cells (c # d # cs) cell q =
    (if c = DQ then (if q \<and> d = DQ then csv_cells cs (cell @ [DQ]) q else csv_cells (d # cs) cell (\<not> q))
     else if c = CHR '','' \<and> \<not> q then trim cell # csv_cells (d # cs) [] q
     else csv_cells (d # cs) (cell @ [c]) q)"

definition splitRow :: "string \<Rightarrow> string list" where
  "splitRow line = csv_cells line [] False"

fun underscore_ws :: "string \<Rightarrow> string" where
  "underscore_ws [] = []"
| "underscore_ws [c] = (if is_ws c then ''_'' else [c])"
| "underscore_ws (c # d # cs) = (if is_ws c then (if is_ws d then underscore_ws (d # cs) else CHR ''_'' # underscore_ws (d # cs))
     else c # underscore_ws (d # cs))"

type_synonym csv_row = "string \<rightharpoonup> string"

definition csv_row :: "string list \<Rightarrow> string list \<Rightarrow> csv_row" where
  "csv_row header cells = map_of (rev (zip header (cells @ replicate (length header - length cells) [])))"

definition parseBulkCsv :: "string \<Rightarrow> js_error + csv_row list" where
  "parseBulkCsv csvText =
    (let text = trim csvText in
     if text = [] then Inl (InfraBulkError ''EMPTY_CSV'' 400)
     else (case csv_lines text [] False [] of
         [] \<Rightarrow> Inl (JsError ''Cannot read properties of undefined'')
       | l # ls \<Rightarrow>
           let header = map (\<lambda>h. underscore_ws (to_lower h)) (splitRow l) in
           if header = [] then Inl (InfraBulkError ''INVALID_CSV'' 400)
           else Inr (map (\<lambda>line. csv_row header (splitRow line)) (filter (\<lambda>line. trim line \<noteq> []) ls))))"

record bulk_input =
  bu_recipientId :: string
  bu_destinationId :: "string option"
  bu_amount :: js_num
  bu_currency :: "string option"
  bu_instruction :: jmap

definition csv_pick :: "csv_row \<Rightarrow> string list \<Rightarrow> string" where
  "csv_pick r keys = or_str (fold (\<lambda>k found. or_else found (r k)) keys None) []"

definition csvRowsToItems :: "csv_row list \<Rightarrow> bulk_input list" where
  "csvRowsToItems rows = map (\<lambda>r.
     \<lparr>bu_recipientId = trim (csv_pick r [''recipient_id'', ''recipientid'', ''recipient'']),
      bu_destinationId = some_text (trim (csv_pick r [''destination_id'', ''destinationid'', ''destination''])),
      bu_amount = (let t = csv_pick r [''amount'', ''value''] in if t = [] then Fin 0 else js_Number_string t),
      bu_currency = Some (let t = csv_pick r [''currency'', ''asset''] in to_upper (if t = [] then ''USDC'' else t)),
      bu_instruction = (\<lambda>k. map_option JStr (r k))\<rparr>) rows"

section \<open>Drafting\<close>

record batch_input =
  ba_orgId :: string
  ba_environment :: string
  ba_label :: "string option"
  ba_source :: "string option"
  ba_items :: "bulk_input list"
  ba_runPreflight :: bool

definition makeBatchCode :: "string \<Rightarrow> string" where
  "makeBatchCode hex = ''BATCH_'' @ to_upper hex"

definition new_batch :: "batch_input \<Rightarrow> string \<Rightarrow> string \<Rightarrow> batch" where
  "new_batch input hex i = \<lparr>bb_id = i, bb_org = ba_orgId input, bb_env = normalizeEnv (ba_environment input),
     bb_code = makeBatchCode hex, bb_label = or_else (ba_label input) None, bb_status = ''draft'',
     bb_source = or_str (ba_source input) ''api'', bb_currency = ''USDC'', bb_items = length (ba_items input), bb_total = 0,
     bb_fee = 0, bb_completed = 0, bb_released = 0, bb_locked = 0, bb_completed_count = 0, bb_failed_count = 0,
     bb_processing_count = 0, bb_preflight = Map.empty, bb_metadata = Map.empty, bb_confirmed = False\<rparr>"

text \<open>\<open>NUMERIC(20, 7)\<close>: not-a-number is stored, an infinity overflows.\<close>

definition stored_amount :: "js_num \<Rightarrow> js_error + rat" where
  "stored_amount n = (case n of Fin x \<Rightarrow> Inr (numeric7 x) | NaN \<Rightarrow> Inr 0 | Infinite neg \<Rightarrow> Inl NumericOverflow)"

definition new_item :: "string \<Rightarrow> string \<Rightarrow> nat \<Rightarrow> bulk_input \<Rightarrow> rat \<Rightarrow> string \<Rightarrow> bulk_item" where
  "new_item orgId batchId line it amount i = \<lparr>bi_id = i, bi_batch = batchId, bi_org = orgId, bi_line = line,
     bi_recipient = some_text (bu_recipientId it), bi_destination = or_else (bu_destinationId it) None, bi_amount = amount,
     bi_currency = to_upper (or_str (bu_currency it) ''USDC''), bi_usdc = None, bi_fee = 0, bi_rate = None,
     bi_status = ''pending'', bi_errors = [], bi_payout = None, bi_instruction = bu_instruction it, bi_metadata = Map.empty\<rparr>"

fun insertItems :: "string \<Rightarrow> string \<Rightarrow> nat \<Rightarrow> bulk_input list \<Rightarrow> (db, unit) act" where
  "insertItems orgId batchId line [] = aret ()"
| "insertItems orgId batchId line (it # its) =
    abnd (aof_sum (stored_amount (bu_amount it))) (\<lambda>amount.
    abnd (run_tx (bnd new_uuid (\<lambda>i. insert_item (new_item orgId batchId line it amount i)))) (\<lambda>_.
    insertItems orgId batchId (Suc line) its))"

section \<open>Preflight\<close>

record preflight_acc =
  pa_seen :: "(string \<times> string \<times> rat \<times> string) list"
  pa_total :: rat
  pa_valid :: nat
  pa_invalid :: nat

record item_quote =
  iq_dest :: "string option"
  iq_rail :: "string option"
  iq_usdc :: "rat option"
  iq_rate :: "rat option"
  iq_errors :: "string list"

definition SUPPORTED_RAILS :: "string list" where
  "SUPPORTED_RAILS = [''bank'', ''mobile_money'', ''crypto'', ''dayfi'']"

text \<open>The \<open>try\<close> of an item: what was found before an error is kept.\<close>

definition quoteItem :: "string \<Rightarrow> infra_env \<Rightarrow> bulk_item \<Rightarrow> (db, item_quote) act" where
  "quoteItem orgId env item =
    (let q0 = \<lparr>iq_dest = bi_destination item, iq_rail = None, iq_usdc = None, iq_rate = None, iq_errors = []\<rparr> in
     case or_else (bi_recipient item) None of
       None \<Rightarrow> aret q0
     | Some rec \<Rightarrow>
         if \<not> 0 < bi_amount item then aret q0
         else acatch
           (abnd (resolveDestinationForPayout orgId (env_name env) rec (bi_destination item)) (\<lambda>(r, d).
            let q1 = q0\<lparr>iq_dest := Some (ds_id d), iq_rail := Some (ds_rail d)\<rparr> in
            case normalizeRail (ds_rail d) of
              Inl err \<Rightarrow> aret (q1\<lparr>iq_errors := [message_of err]\<rparr>)
            | Inr rail \<Rightarrow>
                let q2 = (if List.member SUPPORTED_RAILS rail then q1 else q1\<lparr>iq_errors := [''unsupported rail: '' @ ds_rail d]\<rparr>) in
                acatch (abnd (resolveUsdcAmount (bi_amount item) (bi_currency item)) (\<lambda>fx.
                    let q3 = q2\<lparr>iq_usdc := Some (ua_usdcAmount fx), iq_rate := ua_rate fx\<rparr> in
                    aret (if ua_usdcAmount fx \<le> 0 then q3\<lparr>iq_errors := iq_errors q3 @ [''FX quote unavailable or invalid'']\<rparr> else q3)))
                  (\<lambda>err. aret (q2\<lparr>iq_errors := iq_errors q2 @ [message_of err]\<rparr>))))
           (\<lambda>err. aret (q0\<lparr>iq_errors := [message_of err]\<rparr>)))"

definition duplicate_key :: "bulk_item \<Rightarrow> item_quote \<Rightarrow> string \<times> string \<times> rat \<times> string" where
  "duplicate_key item q = (or_str (bi_recipient item) [], or_str (iq_dest q) [], bi_amount item, to_upper (bi_currency item))"

definition item_errors :: "bulk_item \<Rightarrow> item_quote \<Rightarrow> preflight_acc \<Rightarrow> string list" where
  "item_errors item q acc =
    (if or_else (bi_recipient item) None = None then [''recipient_id is required''] else []) @
    (if \<not> 0 < bi_amount item then [''amount must be greater than zero''] else []) @ iq_errors q @
    (if List.member (pa_seen acc) (duplicate_key item q) then [''duplicate recipient/destination/amount instruction''] else [])"

definition numeric10 :: "rat \<Rightarrow> rat" where
  "numeric10 x = (let r = (\<lambda>y. of_int (math_round (y * 10000000000)) / 10000000000) in if 0 \<le> x then r x else - r (- x))"

definition checked_item :: "item_quote \<Rightarrow> string list \<Rightarrow> bulk_item \<Rightarrow> bulk_item" where
  "checked_item q errors i = i\<lparr>bi_destination := (case iq_dest q of Some d \<Rightarrow> Some d | None \<Rightarrow> bi_destination i),
     bi_usdc := map_option numeric7 (iq_usdc q), bi_fee := 0, bi_rate := map_option numeric10 (iq_rate q),
     bi_status := (if errors = [] then ''ready'' else ''invalid''), bi_errors := map JStr errors,
     bi_metadata := bi_metadata i ++ [''rail'' \<mapsto> (case iq_rail q of Some r \<Rightarrow> JStr r | None \<Rightarrow> JNull)]\<rparr>"

definition count_item :: "bulk_item \<Rightarrow> item_quote \<Rightarrow> string list \<Rightarrow> preflight_acc \<Rightarrow> preflight_acc" where
  "count_item item q errors acc =
    (let acc1 = (if List.member (pa_seen acc) (duplicate_key item q) then acc
                 else acc\<lparr>pa_seen := duplicate_key item q # pa_seen acc\<rparr>) in
     case iq_usdc q of
       Some x \<Rightarrow> if errors = [] then acc1\<lparr>pa_total := pa_total acc1 + x, pa_valid := Suc (pa_valid acc1)\<rparr>
         else acc1\<lparr>pa_invalid := Suc (pa_invalid acc1)\<rparr>
     | None \<Rightarrow> acc1\<lparr>pa_invalid := Suc (pa_invalid acc1)\<rparr>)"

fun checkItems :: "string \<Rightarrow> infra_env \<Rightarrow> string \<Rightarrow> bulk_item list \<Rightarrow> preflight_acc \<Rightarrow> (db, preflight_acc) act" where
  "checkItems orgId env batchId [] acc = aret acc"
| "checkItems orgId env batchId (item # items) acc =
    abnd (quoteItem orgId env item) (\<lambda>q.
    let errors = item_errors item q acc in
    abnd (sql_items (\<lambda>i. bi_id i = bi_id item \<and> bi_batch i = batchId) (checked_item q errors)) (\<lambda>_.
    checkItems orgId env batchId items (count_item item q errors acc)))"

definition preflight_ok :: "preflight_acc \<Rightarrow> rat \<Rightarrow> bool" where
  "preflight_ok acc available \<longleftrightarrow> pa_invalid acc = 0 \<and> 0 < pa_valid acc \<and> round7 (pa_total acc) \<le> available + 1 / 1000000000"

definition preflight_json :: "preflight_acc \<Rightarrow> rat \<Rightarrow> nat \<Rightarrow> jmap" where
  "preflight_json acc available n =
    (let required = round7 (pa_total acc); check = (\<lambda>ok code. JObj [(''ok'', JBool ok), (''code'', JStr code)]) in
     [''ok'' \<mapsto> JBool (preflight_ok acc available),
      ''checks'' \<mapsto> JArr [check (pa_invalid acc = 0) ''ITEMS_VALID'', check (0 < pa_valid acc) ''HAS_VALID_ITEMS'',
        check (required \<le> available + 1 / 1000000000) ''SUFFICIENT_BALANCE''],
      ''summary'' \<mapsto> JObj [(''itemCount'', JNum (of_nat n)), (''validCount'', JNum (of_nat (pa_valid acc))),
        (''invalidCount'', JNum (of_nat (pa_invalid acc))), (''totalUsdc'', JNum required), (''feeUsdc'', JNum 0),
        (''availableUsdc'', JNum available)]])"

definition runPreflight :: "string \<Rightarrow> string \<Rightarrow> (db, batch \<times> bulk_item list) act" where
  "runPreflight orgId batchId =
    abnd (loadBatch orgId batchId) (\<lambda>batch.
    abnd (arequire (List.member [''draft'', ''validating'', ''ready''] (bb_status batch)) (InfraBulkError ''INVALID_STATE'' 400)) (\<lambda>_.
    abnd (sql_batch batchId (\<lambda>b. b\<lparr>bb_status := ''validating''\<rparr>)) (\<lambda>_.
    abnd (listItems batchId) (\<lambda>items.
    abnd (checkItems orgId (bb_env batch) batchId items \<lparr>pa_seen = [], pa_total = 0, pa_valid = 0, pa_invalid = 0\<rparr>) (\<lambda>acc.
    abnd (getOrgBalance orgId (env_name (bb_env batch)) None) (\<lambda>balance.
    abnd (sql_batch batchId (\<lambda>b. b\<lparr>bb_status := (if preflight_ok acc (b_available balance) then ''ready'' else ''draft''),
      bb_total := round7 (pa_total acc), bb_fee := 0,
      bb_preflight := preflight_json acc (b_available balance) (length items)\<rparr>)) (\<lambda>_.
    getBatchWithItems orgId batchId)))))))"

definition createBulkBatch :: "batch_input \<Rightarrow> string \<Rightarrow> (db, batch \<times> bulk_item list) act" where
  "createBulkBatch input hex =
    (if ba_items input = [] then athrow (InfraBulkError ''EMPTY_BATCH'' 400)
     else if 2000 < length (ba_items input) then athrow (InfraBulkError ''BATCH_TOO_LARGE'' 400)
     else abnd (run_tx (bnd new_uuid (\<lambda>i. insert_batch (new_batch input hex i)))) (\<lambda>batch.
       abnd (insertItems (ba_orgId input) (bb_id batch) 1 (ba_items input)) (\<lambda>_.
       if ba_runPreflight input then runPreflight (ba_orgId input) (bb_id batch)
       else getBatchWithItems (ba_orgId input) (bb_id batch))))"

definition importBulkCsv :: "string \<Rightarrow> string \<Rightarrow> string \<Rightarrow> string option \<Rightarrow> string \<Rightarrow> (db, batch \<times> bulk_item list) act" where
  "importBulkCsv orgId environment csvText label hex =
    abnd (aof_sum (parseBulkCsv csvText)) (\<lambda>rows.
    createBulkBatch \<lparr>ba_orgId = orgId, ba_environment = environment, ba_label = Some (or_str label ''CSV import''),
      ba_source = Some ''csv'', ba_items = csvRowsToItems rows, ba_runPreflight = True\<rparr> hex)"

section \<open>Aggregates\<close>

datatype outcome = Paid | Returned | Open

definition payout_outcome :: "string \<Rightarrow> outcome" where
  "payout_outcome status =
    (let st = to_lower status in
     if List.member [''settled'', ''completed'', ''success'', ''successful''] st then Paid
     else if List.member [''failed'', ''cancelled'', ''expired'', ''rejected''] st then Returned
     else Open)"

definition json_num :: "json option \<Rightarrow> rat option \<Rightarrow> rat" where
  "json_num j stored = (case nullish j None of
     Some v \<Rightarrow> (case js_Number_json v of Fin x \<Rightarrow> x | _ \<Rightarrow> 0) | None \<Rightarrow> (case stored of Some x \<Rightarrow> x | None \<Rightarrow> 0))"

record totals =
  to_completed :: rat
  to_released :: rat
  to_locked :: rat
  to_completedCount :: nat
  to_failedCount :: nat
  to_processingCount :: nat

definition no_totals :: totals where
  "no_totals = \<lparr>to_completed = 0, to_released = 0, to_locked = 0, to_completedCount = 0, to_failedCount = 0, to_processingCount = 0\<rparr>"

definition add_outcome :: "outcome \<Rightarrow> rat \<Rightarrow> totals \<Rightarrow> totals" where
  "add_outcome oc x t = (case oc of
     Paid \<Rightarrow> t\<lparr>to_completed := to_completed t + x, to_completedCount := Suc (to_completedCount t)\<rparr>
   | Returned \<Rightarrow> t\<lparr>to_released := to_released t + x, to_failedCount := Suc (to_failedCount t)\<rparr>
   | Open \<Rightarrow> t\<lparr>to_locked := to_locked t + x, to_processingCount := Suc (to_processingCount t)\<rparr>)"

definition outcome_status :: "outcome \<Rightarrow> string" where
  "outcome_status oc = (case oc of Paid \<Rightarrow> ''completed'' | Returned \<Rightarrow> ''failed'' | Open \<Rightarrow> ''processing'')"

fun syncItems :: "string \<Rightarrow> bulk_item list \<Rightarrow> totals \<Rightarrow> (db, totals) act" where
  "syncItems orgId [] t = aret t"
| "syncItems orgId (item # items) t = (case or_else (bi_payout item) None of
     None \<Rightarrow> syncItems orgId items
       (if bi_status item = ''failed'' \<or> bi_status item = ''invalid'' then t\<lparr>to_failedCount := Suc (to_failedCount t)\<rparr> else t)
   | Some i \<Rightarrow>
       abnd (aquery (\<lambda>s. find_row (\<lambda>x. (t_id x, t_org x)) (i, orgId) (txns s))) (\<lambda>found. case found of
         None \<Rightarrow> syncItems orgId items t
       | Some tx \<Rightarrow>
           let oc = payout_outcome (t_status tx); usdc = json_num (t_metadata tx ''usdcAmount'') (bi_usdc item) in
           abnd (if outcome_status oc \<noteq> bi_status item
               then sql_items (\<lambda>x. bi_id x = bi_id item) (\<lambda>x. x\<lparr>bi_status := outcome_status oc\<rparr>) else aret ()) (\<lambda>_.
           syncItems orgId items (add_outcome oc usdc t))))"

definition parent_status :: "totals \<Rightarrow> string" where
  "parent_status t = (if 0 < to_processingCount t then ''processing''
     else if 0 < to_completedCount t \<and> to_failedCount t = 0 then ''completed''
     else if 0 < to_completedCount t \<and> 0 < to_failedCount t then ''partially_completed''
     else if to_completedCount t = 0 \<and> 0 < to_failedCount t then ''failed'' else ''processing'')"

definition refreshBatchAggregates :: "string \<Rightarrow> string \<Rightarrow> (db, batch \<times> bulk_item list) act" where
  "refreshBatchAggregates orgId batchId =
    abnd (loadBatch orgId batchId) (\<lambda>current.
    if bb_status current = ''cancelled'' then getBatchWithItems orgId batchId
    else abnd (listItems batchId) (\<lambda>items.
      abnd (syncItems orgId items no_totals) (\<lambda>t.
      abnd (sql_batch batchId (\<lambda>b. b\<lparr>bb_status := parent_status t, bb_completed := numeric7 (to_completed t),
        bb_released := numeric7 (to_released t), bb_locked := numeric7 (to_locked t),
        bb_completed_count := to_completedCount t, bb_failed_count := to_failedCount t,
        bb_processing_count := to_processingCount t\<rparr>)) (\<lambda>_.
      getBatchWithItems orgId batchId))))"

definition getBulkBatch :: "string \<Rightarrow> string \<Rightarrow> (db, batch \<times> bulk_item list) act" where
  "getBulkBatch orgId batchId =
    abnd (loadBatch orgId batchId) (\<lambda>batch.
    abnd (if bb_status batch = ''processing'' \<or> bb_status batch = ''partially_completed''
        then abnd (refreshBatchAggregates orgId batchId) (\<lambda>_. aret ()) else aret ()) (\<lambda>_.
    getBatchWithItems orgId batchId))"

section \<open>Confirming and cancelling\<close>

definition bulk_order :: "string \<Rightarrow> infra_env \<Rightarrow> string \<Rightarrow> bulk_item \<Rightarrow> payout_order" where
  "bulk_order orgId env batchId item = \<lparr>po_orgId = orgId, po_env = env, po_amount = Fin (bi_amount item),
     po_currency = Some (bi_currency item), po_country = None, po_accountNumber = None, po_accountName = None,
     po_bankCode = None, po_bankName = None, po_networkId = None, po_channelId = None, po_reason = None,
     po_recipientEmail = None, po_recipientPhone = None, po_accountType = None, po_asset = None, po_network = None,
     po_walletAddress = None, po_dayfiTag = None, po_recipientId = bi_recipient item,
     po_destinationId = or_else (bi_destination item) None, po_bulkBatchId = Some batchId, po_bulkItemId = Some (bi_id item),
     po_idempotencyKey = Some (''bulk:'' @ batchId @ '':item:'' @ bi_id item)\<rparr>"

definition json_rat :: "json option \<Rightarrow> rat option" where
  "json_rat j = (case j of Some (JNum x) \<Rightarrow> Some x | _ \<Rightarrow> None)"

definition paid_item :: "payout_reply \<Rightarrow> bulk_item \<Rightarrow> bulk_item" where
  "paid_item payout i = i\<lparr>bi_payout := Some (tv_id (pr_tx payout)), bi_status := ''processing'',
     bi_usdc := (case json_rat (pr_usdcAmount payout) of Some x \<Rightarrow> Some (numeric7 x) | None \<Rightarrow> bi_usdc i)\<rparr>"

definition simulateItem :: "sdk \<Rightarrow> string \<Rightarrow> bulk_item \<Rightarrow> payout_reply \<Rightarrow> (db, unit) act" where
  "simulateItem sd orgId item payout =
    acatch
      (abnd (simulateSettlement sd orgId Test (tv_id (pr_tx payout))) (\<lambda>_.
       sql_items (\<lambda>i. bi_id i = bi_id item) (\<lambda>i. i\<lparr>bi_status := ''completed''\<rparr>)))
      (\<lambda>simErr. sql_items (\<lambda>i. bi_id i = bi_id item) (\<lambda>i. i\<lparr>bi_status := ''failed'',
        bi_metadata := bi_metadata i ++ [''simulateError'' \<mapsto> JStr (message_of simErr)]\<rparr>))"

definition confirmItem :: "sdk \<Rightarrow> rails \<Rightarrow> string \<Rightarrow> infra_env \<Rightarrow> string \<Rightarrow> bool \<Rightarrow> bulk_item \<Rightarrow> (db, unit) act" where
  "confirmItem sd rl orgId env batchId autoSimulate item =
    acatch
      (abnd (createPayout sd rl (bulk_order orgId env batchId item)) (\<lambda>payout.
       abnd (sql_items (\<lambda>i. bi_id i = bi_id item \<and> bi_batch i = batchId) (paid_item payout)) (\<lambda>_.
       if autoSimulate then simulateItem sd orgId item payout else aret ())))
      (\<lambda>err. sql_items (\<lambda>i. bi_id i = bi_id item \<and> bi_batch i = batchId)
        (\<lambda>i. i\<lparr>bi_status := ''failed'', bi_errors := [JStr (message_of err)]\<rparr>))"

fun confirmItems :: "sdk \<Rightarrow> rails \<Rightarrow> string \<Rightarrow> infra_env \<Rightarrow> string \<Rightarrow> bool \<Rightarrow> bulk_item list \<Rightarrow> (db, unit) act" where
  "confirmItems sd rl orgId env batchId autoSimulate [] = aret ()"
| "confirmItems sd rl orgId env batchId autoSimulate (item # items) =
    abnd (confirmItem sd rl orgId env batchId autoSimulate item) (\<lambda>_.
    confirmItems sd rl orgId env batchId autoSimulate items)"

definition usdc_of_item :: "bulk_item \<Rightarrow> rat" where
  "usdc_of_item i = (case bi_usdc i of Some x \<Rightarrow> x | None \<Rightarrow> 0)"

definition confirmBulkBatch :: "sdk \<Rightarrow> rails \<Rightarrow> string \<Rightarrow> string \<Rightarrow> bool \<Rightarrow> (db, batch \<times> bulk_item list) act" where
  "confirmBulkBatch sd rl orgId batchId autoSimulateTest =
    abnd (loadBatch orgId batchId) (\<lambda>batch.
    abnd (arequire (bb_status batch = ''ready'') (InfraBulkError ''NOT_READY'' 400)) (\<lambda>_.
    abnd (listItems batchId) (\<lambda>listed.
    let items = filter (\<lambda>i. bi_status i = ''ready'') listed; required = sum_list (map usdc_of_item items) in
    abnd (arequire (items \<noteq> []) (InfraBulkError ''EMPTY_READY'' 400)) (\<lambda>_.
    abnd (getOrgBalance orgId (env_name (bb_env batch)) None) (\<lambda>balance.
    abnd (arequire (\<not> b_available balance + 1 / 1000000000 < required) (InfraBulkError ''INSUFFICIENT_BALANCE'' 400)) (\<lambda>_.
    abnd (sql_batch batchId (\<lambda>b. b\<lparr>bb_status := ''processing'', bb_confirmed := True\<rparr>)) (\<lambda>_.
    abnd (confirmItems sd rl orgId (bb_env batch) batchId (autoSimulateTest \<and> bb_env batch = Test) items) (\<lambda>_.
    abnd (refreshBatchAggregates orgId batchId) (\<lambda>_.
    getBatchWithItems orgId batchId)))))))))"

definition cancelBulkBatch :: "string \<Rightarrow> string \<Rightarrow> (db, batch \<times> bulk_item list) act" where
  "cancelBulkBatch orgId batchId =
    abnd (loadBatch orgId batchId) (\<lambda>batch.
    abnd (arequire (List.member [''draft'', ''ready'', ''validating''] (bb_status batch)) (InfraBulkError ''INVALID_STATE'' 400)) (\<lambda>_.
    abnd (sql_batch batchId (\<lambda>b. b\<lparr>bb_status := ''cancelled''\<rparr>)) (\<lambda>_.
    abnd (sql_items (\<lambda>i. bi_batch i = batchId \<and> List.member [''pending'', ''ready'', ''invalid''] (bi_status i))
      (\<lambda>i. i\<lparr>bi_status := ''cancelled''\<rparr>)) (\<lambda>_.
    getBatchWithItems orgId batchId))))"

section \<open>Evaluation\<close>

lemmas confirmItem_code [code] = confirmItem_def [where item = "\<lparr>bi_id = i, bi_batch = b, bi_org = o', bi_line = l, bi_recipient = r,
  bi_destination = d, bi_amount = a, bi_currency = c, bi_usdc = u, bi_fee = f, bi_rate = x, bi_status = st, bi_errors = es,
  bi_payout = p, bi_instruction = ins, bi_metadata = m\<rparr>"] for i b o' l r d a c u f x st es p ins m

end
