(* ===== verification/Money_Facts.thy ===== *)
theory Money_Facts
  imports Money_Service Payout_Facts
begin

text \<open>
  How the requests of \<open>infraMoneyService.ts\<close> run. A \<open>triple\<close> bounds the states a call can leave
  behind, for the answers and for the errors separately; the calls are composed by its rules. The
  states of a payout request are named: nothing has moved yet, the row is inserted, the lock is on.
\<close>

section \<open>Answers and errors\<close>

definition triple :: "(db \<Rightarrow> bool) \<Rightarrow> (db, 'a) act \<Rightarrow> ('a \<Rightarrow> db \<Rightarrow> bool) \<Rightarrow> (db \<Rightarrow> bool) \<Rightarrow> bool" where
  "triple P m Q E \<longleftrightarrow> (\<forall>s r s'. P s \<longrightarrow> m s = (r, s') \<longrightarrow> (case r of Inl e \<Rightarrow> E s' | Inr a \<Rightarrow> Q a s'))"

named_theorems triple_intros \<open>calls with a postcondition\<close>

lemma tripleD: "triple P m Q E \<Longrightarrow> P s \<Longrightarrow> m s = (r, s') \<Longrightarrow> (case r of Inl e \<Rightarrow> E s' | Inr a \<Rightarrow> Q a s')"
  by (auto simp: triple_def)

lemma triple_weaken: "triple P m Q E \<Longrightarrow> (\<And>s. P' s \<Longrightarrow> P s) \<Longrightarrow> (\<And>a s. Q a s \<Longrightarrow> Q' a s) \<Longrightarrow> (\<And>s. E s \<Longrightarrow> E' s) \<Longrightarrow> triple P' m Q' E'"
  by (fastforce simp: triple_def split: sum.splits)

lemma triple_abnd:
  assumes "triple P m Q E" and "\<And>a. triple (Q a) (f a) R E"
  shows "triple P (abnd m f) R E"
  unfolding triple_def
proof (intro allI impI)
  fix s r s' assume P: "P s" and run: "abnd m f s = (r, s')"
  obtain r1 s1 where m: "m s = (r1, s1)" by (cases "m s") auto
  from tripleD [OF assms(1) P m] run m show "case r of Inl e \<Rightarrow> E s' | Inr a \<Rightarrow> R a s'"
    by (cases r1) (auto simp: abnd_def dest: tripleD [OF assms(2)])
qed

lemma triple_acatch:
  assumes "triple P m Q E1" and "\<And>e. triple E1 (h e) Q E"
  shows "triple P (acatch m h) Q E"
  unfolding triple_def
proof (intro allI impI)
  fix s r s' assume P: "P s" and run: "acatch m h s = (r, s')"
  obtain r1 s1 where m: "m s = (r1, s1)" by (cases "m s") auto
  from tripleD [OF assms(1) P m] run m show "case r of Inl e \<Rightarrow> E s' | Inr a \<Rightarrow> Q a s'"
    by (cases r1) (auto simp: acatch_def dest: tripleD [OF assms(2)])
qed

lemma triple_pure [triple_intros]:
  "(\<And>s. P s \<Longrightarrow> Q a s) \<Longrightarrow> triple P (aret a) Q E" "(\<And>s. P s \<Longrightarrow> E s) \<Longrightarrow> triple P (athrow e) Q E"
  by (auto simp: triple_def act_simps)

lemma triple_inv: "inv_act P m \<Longrightarrow> (\<And>s. P s \<Longrightarrow> E s) \<Longrightarrow> triple P m (\<lambda>_. P) E"
  by (auto simp: triple_def inv_act_def split: sum.splits)

lemma triple_step:
  assumes "inv_act P m" and "\<And>a. triple P (f a) R E" and "\<And>s. P s \<Longrightarrow> E s"
  shows "triple P (abnd m f) R E"
  by (rule triple_abnd [OF triple_inv [OF assms(1,3)] assms(2)])

lemma triple_if [triple_intros]: "(c \<Longrightarrow> triple P a Q E) \<Longrightarrow> (\<not> c \<Longrightarrow> triple P b Q E) \<Longrightarrow> triple P (if c then a else b) Q E"
  by simp

lemma triple_option [triple_intros]:
  "(y = None \<Longrightarrow> triple P a Q E) \<Longrightarrow> (\<And>x. y = Some x \<Longrightarrow> triple P (b x) Q E) \<Longrightarrow> triple P (case y of None \<Rightarrow> a | Some x \<Rightarrow> b x) Q E"
  by (cases y) simp_all

lemma triple_prod [triple_intros]: "(\<And>x y. triple P (b x y) Q E) \<Longrightarrow> triple P (case p of (x, y) \<Rightarrow> b x y) Q E"
  by (cases p) simp

section \<open>Identifiers not drawn yet\<close>

definition lock_key :: "string \<Rightarrow> string" where
  "lock_key i = ''payout:'' @ i @ '':lock''"

definition undrawn :: "db \<Rightarrow> string \<Rightarrow> bool" where
  "undrawn s i \<longleftrightarrow> i \<notin> m_id ` set (movements s) \<and> i \<notin> t_id ` set (txns s)
     \<and> lock_key i \<notin> m_key ` set (movements s) \<and> release_key i \<notin> m_key ` set (movements s)
     \<and> Some i \<notin> m_reference_id ` set (movements s)"

definition fresh_ids :: "db \<Rightarrow> bool" where
  "fresh_ids s \<longleftrightarrow> inj (uuid_of s) \<and> (\<forall>n. uuid_next s \<le> n \<longrightarrow> undrawn s (uuid_of s n))"

text \<open>A request may draw identifiers; it never changes the supply.\<close>

definition draws :: "db \<Rightarrow> db \<Rightarrow> bool" where
  "draws s0 s \<longleftrightarrow> uuid_of s = uuid_of s0 \<and> uuid_next s0 \<le> uuid_next s"

lemma draws_refl [simp]: "draws s s" by (simp add: draws_def)

lemma draws_trans: "draws s s1 \<Longrightarrow> draws s1 s2 \<Longrightarrow> draws s s2" by (auto simp: draws_def)

lemma ensure_draws: "ensureWalletAccount i e a s = Inr (w, s1) \<Longrightarrow> draws s s1"
  by (auto simp: ensureWalletAccount_def Let_def tx_simps draws_def split: option.splits)

lemma balance_draws: "getOrgBalance i e a s = (r, s') \<Longrightarrow> draws s s'"
  by (cases "ensureWalletAccount i e a s")
    (auto simp: getOrgBalance_def abnd_def run_tx_def arequire_run split: if_splits dest: ensure_draws)

lemma op_supply: "run_op op params s = (r, s') \<Longrightarrow> draws s s'"
proof -
  assume run: "run_op op params s = (r, s')"
  from run [unfolded run_op_write] show ?thesis
  proof (cases rule: op.op_cases)
    case (ok m dup amount)
    then show ?thesis
      by (auto simp: ledgerWriteTx_def findMovementByIdempotency_def ledgerPost_def ledgerPostRow_def lockWalletRow_def
          insertMovement_def tx_simps draws_def split: option.splits dest!: ensure_draws)
  qed simp
qed

text \<open>The movement a ledger operation posts, its identifier and its wallet.\<close>

lemma op_posted:
  assumes inv: "ledger_inv s" and run: "run_op op params s = (Inr (m, False), s')" and ty: "p_movementType params = Some mt" "mt \<noteq> []"
  obtains w n where "uuid_next s \<le> n" "uuid_of s' = uuid_of s" "uuid_next s' = Suc n" "m_id m = uuid_of s n" "m_type m = mt"
    "find_row wallet_key (account_of params) (wallets s') = Some w" "w_status w = Active"
proof -
  let ?key = "normalizeKey (p_idempotencyKey params)"
  from run [unfolded run_op_write] obtain amount where am: "parseAmount (p_amount params) = Inr amount"
    and tx: "ledgerWriteTx (op_direction op) (op_type op) (op_step op) params amount ?key s = Inr ((m, False), s')"
    by (cases rule: op.op_cases) auto
  note g = op.parseAmount_grid [OF am]
  have none: "find_row m_key ?key (movements s) = None"
    using tx op.tx_replay [of ?key s _ "op_direction op" "op_type op" op params amount]
    by (cases "find_row m_key ?key (movements s)") auto
  from op.tx_commit [OF inv g [THEN conjunct1] g [THEN conjunct2] none tx] obtain w s1 upd a p l n0 where
    ens: "ensureWalletAccount (p_orgId params) (p_environment params) (p_asset params) s = Inr (w, s1)"
    and act: "w_status w = Active" and s': "s' = post_write s1 (row_after w (a, p, l)) m n0"
    and mt: "m_type m = or_str (p_movementType params) (op_type op)"
    by (metis (no_types, lifting) prod.inject)
  note e = ensureWalletAccount_Inr [OF inv ens]
  have id: "m_id m = uuid_of s1 (uuid_next s1) \<and> uuid_of s' = uuid_of s1 \<and> uuid_next s' = Suc (uuid_next s1)"
    using tx none ens by (auto simp: ledgerWriteTx_def findMovementByIdempotency_def ledgerPost_def ledgerPostRow_def
        lockWalletRow_def insertMovement_def tx_simps)
  have key: "wallet_key w = account_of params" using e(4) by (simp add: account_of_def)
  have inv': "ledger_inv s'" using inv run by (cases rule: run_op_cases; use inv in auto)
  have "row_after w (a, p, l) \<in> set (wallets s')"
    using e(3) by (auto simp: s' post_write_def set_update_rows)
  then have "find_row wallet_key (account_of params) (wallets s') = Some (row_after w (a, p, l))"
    using find_row_mem [OF ledger_invD(2) [OF inv']] key by fastforce
  then show thesis
    by (rule that [rotated -2]) (use id ensure_draws [OF ens] act mt ty in \<open>auto simp: draws_def\<close>)
qed


section \<open>Inserting the row\<close>

lemma findIdempotentTx_state: "findIdempotentTx o' e k f s = (r, s') \<Longrightarrow> s' = s"
  by (auto simp: findIdempotentTx_def aquery_def abnd_def aret_def athrow_def split: option.splits if_splits)

lemma insertTx_ok:
  assumes "insert_txn (new_txn row (uuid_of s (uuid_next s))) (s\<lparr>uuid_next := Suc (uuid_next s)\<rparr>) = Inr (t, s')"
  shows "insertTx row s = (Inr t, s')"
  using assms by (simp add: insertTx_def acatch_def run_tx_def bnd_def new_uuid_def)

lemma insertTx_cases:
  assumes "insertTx row s = (r, s')"
  obtains (err) e where "r = Inl e" "s' = s"
  | (existing) t where "r = Inr t" "s' = s" "t \<in> set (txns s)" "client_key (ix_idempotencyKey row) \<noteq> None"
      "txn_client_key t = Some (ix_orgId row, ix_env row, the (client_key (ix_idempotencyKey row)))"
  | (new) "r = Inr (new_txn row (uuid_of s (uuid_next s)))" "List.member txn_directions (ix_direction row)"
      "uuid_of s (uuid_next s) \<notin> t_id ` set (txns s)"
      "s' = s\<lparr>uuid_next := Suc (uuid_next s), txns := new_txn row (uuid_of s (uuid_next s)) # txns s\<rparr>"
proof -
  let ?t = "new_txn row (uuid_of s (uuid_next s))" and ?s = "s\<lparr>uuid_next := Suc (uuid_next s)\<rparr>"
  show thesis
  proof (cases "insert_txn ?t ?s")
    case (Inr p)
    then obtain t1 s1 where i: "insert_txn ?t ?s = Inr (t1, s1)" by (cases p) auto
    with insertTx_ok [OF i] assms show thesis
      by (intro new) (auto simp: tx_simps new_txn_def)
  next
    case (Inl e)
    then have run: "run_tx (bnd new_uuid (\<lambda>i. insert_txn (new_txn row i))) s = (Inl e, s)"
      by (simp add: run_tx_def bnd_def new_uuid_def)
    show thesis
    proof (cases "isUniqueViolation e \<and> client_key (ix_idempotencyKey row) \<noteq> None")
      case True
      then obtain k where k: "client_key (ix_idempotencyKey row) = Some k" by blast
      show thesis
        using assms run True k err [of _] existing
        by (auto simp: insertTx_def acatch_def findIdempotentTx_def abnd_def aquery_def athrow_def aret_def
            split: option.splits if_splits dest!: find_row_Some)
    next
      case False
      with assms run err show thesis by (auto simp: insertTx_def acatch_def athrow_def)
    qed
  qed
qed

lemma insertTx_fixed [inv_intros]: "inv_act (ledger_fixed s0) (insertTx row)"
  unfolding inv_act_def
proof (intro allI impI)
  fix s r s' assume "ledger_fixed s0 s" and "insertTx row s = (r, s')"
  then show "ledger_fixed s0 s'"
    by (auto simp: ledger_fixed_def elim!: insertTx_cases)
qed

text \<open>Without an earlier request under the key, the row is a new one.\<close>

lemma insertTx_new:
  assumes run: "insertTx row s = (Inr t, s')" and none: "findIdempotentTx (ix_orgId row) (ix_env row) (ix_idempotencyKey row) f s = (Inr None, s)"
  shows "t = new_txn row (uuid_of s (uuid_next s))" and "s' = s\<lparr>uuid_next := Suc (uuid_next s), txns := t # txns s\<rparr>"
    and "t_id t \<notin> t_id ` set (txns s)"
proof -
  have "\<not> (\<exists>k. client_key (ix_idempotencyKey row) = Some k \<and> Some (ix_orgId row, ix_env row, k) \<in> txn_client_key ` set (txns s))"
    using none by (auto simp: findIdempotentTx_def aquery_def abnd_def aret_def athrow_def find_row_None
        split: option.splits if_splits)
  note none' = this
  have "t = new_txn row (uuid_of s (uuid_next s)) \<and> s' = s\<lparr>uuid_next := Suc (uuid_next s), txns := t # txns s\<rparr>
      \<and> t_id t \<notin> t_id ` set (txns s)"
    using run
  proof (cases rule: insertTx_cases)
    case (existing t')
    then have "Some (ix_orgId row, ix_env row, the (client_key (ix_idempotencyKey row))) \<in> txn_client_key ` set (txns s)"
      by (metis image_eqI)
    with none' existing(4) show ?thesis by auto
  qed (auto simp: new_txn_def)
  then show "t = new_txn row (uuid_of s (uuid_next s))" "s' = s\<lparr>uuid_next := Suc (uuid_next s), txns := t # txns s\<rparr>"
    "t_id t \<notin> t_id ` set (txns s)"
    by blast+
qed

section \<open>The lock\<close>

lemma find_row_pair: "find_row t_id i ts = Some t \<Longrightarrow> find_row (\<lambda>t. (t_id t, t_org t)) (i, t_org t) ts = Some t"
  by (induction ts) (auto split: if_splits)

lemma balance_found:
  assumes "find_row wallet_key (o', env, ''USDC'') (wallets s) = Some w" and "w_status w = Active"
  shows "getOrgBalance o' (env_name env) None s = (Inr (mapBalance w), s)"
  using assms by (simp add: getOrgBalance_def ensureWalletAccount_def Let_def bnd_def run_tx_def abnd_def arequire_run aret_def)

text \<open>The lock of a payout under a key that is not on the ledger: refused without a change, or posted.\<close>

definition lock_patch :: "rat \<Rightarrow> rat option \<Rightarrow> movement \<Rightarrow> jmap" where
  "lock_patch x rate m = [''usdcAmount'' \<mapsto> JNum x, ''rate'' \<mapsto> opt_num rate, ''fundsLocked'' \<mapsto> JBool True,
     ''ledgerLockId'' \<mapsto> JStr (m_id m)]"

definition patch_locked :: "txn \<Rightarrow> rat \<Rightarrow> rat option \<Rightarrow> movement \<Rightarrow> txn \<Rightarrow> txn" where
  "patch_locked row x rate m t = t\<lparr>t_status := t_status row, t_metadata := t_metadata t ++ lock_patch x rate m\<rparr>"

lemma lockPayoutRow_cases:
  assumes inv: "ledger_inv s" and run: "lockPayoutRow row x rate s = (r, s')" and key: "lock_key (t_id row) \<notin> m_key ` set (movements s)"
  obtains (refused) e where "r = Inl e" "s' = s"
  | (posted) m w s1 n where "run_op OpLock (lifecycle_params row x ''payout:'' '':lock'' ''funds_lock'' ''payout''
        [''fiatAmount'' \<mapsto> JNum (t_amount row), ''fiatCurrency'' \<mapsto> JStr (t_currency row), ''rate'' \<mapsto> opt_num rate]) s
        = (Inr (m, False), s1)"
      "r = Inr \<lparr>lr_lock = (m, False), lr_usdcAmount = x, lr_balance = mapBalance w\<rparr>"
      "s' = s1\<lparr>txns := update_rows t_id (t_id row) (patch_locked row x rate m) (txns s)\<rparr>"
      "ledger_inv s1" "movements s1 = m # movements s" "m_key m = lock_key (t_id row)" "txns s1 = txns s"
      "uuid_next s \<le> n" "uuid_of s1 = uuid_of s" "uuid_next s1 = Suc n" "m_id m = uuid_of s n" "m_type m = ''funds_lock''"
      "find_row wallet_key (payout_account row) (wallets s1) = Some w" "w_status w = Active"
proof -
  let ?params = "lifecycle_params row x ''payout:'' '':lock'' ''funds_lock'' ''payout''
        [''fiatAmount'' \<mapsto> JNum (t_amount row), ''fiatCurrency'' \<mapsto> JStr (t_currency row), ''rate'' \<mapsto> opt_num rate]"
  have k: "normalizeKey (p_idempotencyKey ?params) = lock_key (t_id row)" by (simp add: is_ws_def lock_key_def)
  obtain r1 s1 where op: "run_op OpLock ?params s = (r1, s1)" by (cases "run_op OpLock ?params s") auto
  have lock: "lockOrgFunds ?params s = (r1, s1)" using op by simp
  from inv op show thesis
  proof (cases rule: run_op_cases)
    case (err e)
    with run lock have "r = Inl e \<and> s' = s" by (auto simp: lockPayoutRow_def abnd_def)
    with refused show thesis by blast
  next
    case (dup m)
    with key show thesis by (metis image_eqI k)
  next
    case (posted m)
    have op': "run_op OpLock ?params s = (Inr (m, False), s1)" using op posted(1) by simp
    obtain w n where w: "uuid_next s \<le> n" "uuid_of s1 = uuid_of s" "uuid_next s1 = Suc n" "m_id m = uuid_of s n"
      "m_type m = ''funds_lock''" "find_row wallet_key (account_of ?params) (wallets s1) = Some w" "w_status w = Active"
      by (rule op_posted [OF inv op', of "''funds_lock''"]) (simp_all add: lifecycle_params_def)
    have acc: "account_of ?params = payout_account row" by simp
    let ?s2 = "s1\<lparr>txns := update_rows t_id (t_id row) (patch_locked row x rate m) (txns s)\<rparr>"
    have "getOrgBalance (t_org row) (env_name (t_env row)) None ?s2 = (Inr (mapBalance w), ?s2)"
      by (rule balance_found) (use w(6,7) acc in \<open>simp_all add: payout_account_def\<close>)
    with run lock posted(1,6) have "r = Inr \<lparr>lr_lock = (m, False), lr_usdcAmount = x, lr_balance = mapBalance w\<rparr> \<and> s' = ?s2"
      by (auto simp: lockPayoutRow_def abnd_def aret_def patchTx_def sql_txn_def run_tx_def update_txn_def patch_locked_def [abs_def] lock_patch_def)
    with that(2) op' posted w acc k show thesis by simp
  qed
qed

text \<open>The states of a payout request.\<close>

definition restored :: "db \<Rightarrow> db \<Rightarrow> bool" where
  "restored s0 s \<longleftrightarrow> ledger_inv s \<and> balances s = balances s0"

definition inserted :: "db \<Rightarrow> string \<Rightarrow> string \<Rightarrow> db \<Rightarrow> bool" where
  "inserted s0 o' i s \<longleftrightarrow> ledger_fixed s0 s \<and> draws s0 s \<and> (\<exists>n. uuid_next s0 \<le> n \<and> n < uuid_next s \<and> i = uuid_of s0 n)
     \<and> (\<exists>t. find_row t_id i (txns s) = Some t \<and> t_org t = o' \<and> t_direction t = ''payout'' \<and> \<not> finalized t)"

definition locked_for :: "db \<Rightarrow> string \<Rightarrow> string \<Rightarrow> rat \<Rightarrow> db \<Rightarrow> bool" where
  "locked_for s0 o' i x s \<longleftrightarrow> ledger_inv s \<and> lock_key i \<in> m_key ` set (movements s)
     \<and> (\<exists>t a. find_row t_id i (txns s) = Some t \<and> t_org t = o' \<and> t_direction t = ''payout''
     \<and> \<not> finalized t \<and> metaUsdc t = Some x \<and> parseAmount (RNum (Fin x)) = Inr a
     \<and> spec_step OpLock (balances s0 (payout_account t)) a = Some (balances s (payout_account t))
     \<and> can_post OpRelease t x (release_key i) ''funds_release'' ''payout'' (balances s0 (payout_account t)) s
     \<and> (\<forall>k. k \<noteq> payout_account t \<longrightarrow> balances s k = balances s0 k))"

lemma balance_locked_nonneg: "ledger_inv s \<Longrightarrow> balances s k = (a, p, l) \<Longrightarrow> 0 \<le> l"
  by (auto simp: balances_def row_balance_def wallet_ok_def split: option.splits dest!: find_row_Some ledger_invD(5))

lemma release_after_lock:
  assumes inv: "ledger_inv s" and op: "run_op OpLock (lifecycle_params row x p q mt rt meta) s = (Inr (m, False), s1)"
  obtains a where "parseAmount (RNum (Fin x)) = Inr a" "0 < a" "0 < x"
    "spec_step OpRelease (balances s1 (payout_account row)) a = Some (balances s (payout_account row))"
    "spec_step OpLock (balances s (payout_account row)) a = Some (balances s1 (payout_account row))"
    "\<And>k. k \<noteq> payout_account row \<Longrightarrow> balances s1 k = balances s k"
proof -
  from op_effect [OF inv op] have am: "parseAmount (RNum (Fin x)) = Inr (m_amount m)"
    and st: "spec_step OpLock (balances s (payout_account row)) (m_amount m) = Some (balances s1 (payout_account row))"
    and other: "\<And>k. k \<noteq> payout_account row \<Longrightarrow> balances s1 k = balances s k"
    by (simp_all add: payout_effect_def del: split_paired_All)
  obtain a p' l where b: "balances s (payout_account row) = (a, p', l)" by (cases "balances s (payout_account row)") auto
  have "m \<in> set (movements s1)" "ledger_inv s1"
    using inv op by (cases rule: run_op_cases; use inv in auto)+
  then have pos: "0 < m_amount m" using ledger_invD(9) by (auto simp: movement_ok_def)
  have "0 < x" using am by (auto simp: parseAmount_def split: if_splits)
  moreover from st b have "balances s1 (payout_account row) = (a - m_amount m, p', l + m_amount m)"
    by (auto split: if_splits)
  then have "spec_step OpRelease (balances s1 (payout_account row)) (m_amount m) = Some (balances s (payout_account row))"
    using b balance_locked_nonneg [OF inv b] pos by simp
  ultimately show thesis using that [OF am pos] other st by blast
qed

text \<open>The lock of a new row succeeds, or leaves every balance as it was.\<close>

lemma restored_patch: "inv_act (restored s0) (sql_txn i f)"
  by (auto simp: inv_act_def restored_def sql_txn_def run_tx_def update_txn_def)

lemma fresh_idsD:
  assumes "fresh_ids s0" and "uuid_next s0 \<le> n"
  shows "inj (uuid_of s0)" "uuid_of s0 n \<notin> m_id ` set (movements s0)" "lock_key (uuid_of s0 n) \<notin> m_key ` set (movements s0)"
    "release_key (uuid_of s0 n) \<notin> m_key ` set (movements s0)" "Some (uuid_of s0 n) \<notin> m_reference_id ` set (movements s0)"
  using assms by (auto simp: fresh_ids_def undrawn_def)

lemma lock_not_release [simp]: "lock_key i \<noteq> release_key j" "release_key j \<noteq> lock_key i"
proof -
  show "lock_key i \<noteq> release_key j"
  proof
    assume "lock_key i = release_key j"
    then have "ends_with (lock_key i) '':release''" by (simp add: release_key_def ends_with_def starts_with_def)
    then show False by (simp add: lock_key_def ends_with_def starts_with_def)
  qed
  then show "release_key j \<noteq> lock_key i" by (rule not_sym)
qed

lemma lockPayoutRow_triple:
  assumes fresh: "fresh_ids s0" and ins: "inserted s0 o' i s" and t: "find_row t_id i (txns s) = Some t"
    and run: "lockPayoutRow t x rate s = (r, s')"
  shows "case r of Inl e \<Rightarrow> restored s0 s' | Inr lr \<Rightarrow> locked_for s0 o' i (lr_usdcAmount lr) s'"
proof -
  from ins obtain n where n: "uuid_next s0 \<le> n" "n < uuid_next s" "i = uuid_of s0 n" and fixed: "ledger_fixed s0 s"
    and draws: "draws s0 s" and row: "t_org t = o'" "t_direction t = ''payout''" "\<not> finalized t"
    using t by (auto simp: inserted_def)
  have id: "t_id t = i" using find_row_Some [OF t] by simp
  have inv: "ledger_inv s" and same: "movements s = movements s0" "balances s = balances s0"
    using fixed by (simp_all add: ledger_fixed_def)
  note f = fresh_idsD [OF fresh n(1), folded n(3)]
  have key: "lock_key (t_id t) \<notin> m_key ` set (movements s)" using f(3) same id by simp
  from inv run key show ?thesis
  proof (cases rule: lockPayoutRow_cases)
    case (refused e)
    with inv same show ?thesis by (simp add: restored_def)
  next
    case (posted m w s1 k)
    obtain a where a: "parseAmount (RNum (Fin x)) = Inr a" "0 < a" "0 < x"
      "spec_step OpRelease (balances s1 (payout_account t)) a = Some (balances s (payout_account t))"
      "spec_step OpLock (balances s (payout_account t)) a = Some (balances s1 (payout_account t))"
      "\<And>k. k \<noteq> payout_account t \<Longrightarrow> balances s1 k = balances s k"
      using release_after_lock [OF inv posted(1)] by blast
    let ?t = "patch_locked t x rate m t"
    have row': "find_row t_id i (txns s') = Some ?t"
      using t id by (simp add: posted(3) find_row_update_rows patch_locked_def)
    have eq: "payout_account ?t = payout_account t" "t_id ?t = i" "t_org ?t = o'" "t_env ?t = t_env t" "t_direction ?t = ''payout''"
      using row id by (simp_all add: patch_locked_def payout_account_def)
    have meta: "\<not> finalized ?t" "metaUsdc ?t = Some x"
      using row(3) a(3) by (simp_all add: finalized_def flag_def patch_locked_def lock_patch_def metaUsdc_def nullish_def Let_def)
    have new_id: "uuid_of s' (uuid_next s') \<notin> m_id ` set (movements s')"
    proof -
      have "uuid_next s0 \<le> Suc k" "uuid_of s = uuid_of s0" using draws posted(8) by (simp_all add: draws_def)
      then have "uuid_of s0 (Suc k) \<notin> m_id ` set (movements s0)" using fresh_idsD(2) [OF fresh] by simp
      moreover have "uuid_of s0 (Suc k) \<noteq> uuid_of s0 k" using f(1) by (simp add: inj_eq)
      ultimately show ?thesis using posted \<open>uuid_of s = uuid_of s0\<close> same by simp
    qed
    have "can_post OpRelease ?t x (release_key i) ''funds_release'' ''payout'' (balances s0 (payout_account ?t)) s'"
      unfolding can_post_def
    proof (intro exI conjI)
      show "parseAmount (RNum (Fin x)) = Inr a" "0 < a" by (fact a)+
      show "release_key i \<notin> m_key ` set (movements s')" using f(4) posted same by simp
      show "Some (t_org ?t, t_env ?t, ''payout'', t_id ?t, ''funds_release'') \<notin> movement_ref ` set (movements s')"
        using f(5) posted same by (auto simp: movement_ref_def eq image_iff split: option.splits)
      show "find_row wallet_key (payout_account ?t) (wallets s') = Some w" "w_status w = Active"
        using posted by (simp_all add: eq)
      show "spec_step OpRelease (balances s' (payout_account ?t)) a = Some (balances s0 (payout_account ?t))"
        using a(4) same by (simp add: eq posted(3))
      show "balance_fits (balances s0 (payout_account ?t))"
        using balances_fit [OF inv] same by simp
      show "uuid_of s' (uuid_next s') \<notin> m_id ` set (movements s')" by (fact new_id)
    qed
    moreover have "\<forall>k. k \<noteq> payout_account ?t \<longrightarrow> balances s' k = balances s0 k"
      using a(6) same by (simp add: posted(3) eq)
    moreover have "spec_step OpLock (balances s0 (payout_account ?t)) a = Some (balances s' (payout_account ?t))"
      using a(5) same by (simp add: posted(3) eq)
    moreover have "lock_key i \<in> m_key ` set (movements s')" using posted id by simp
    ultimately have "locked_for s0 o' i x s'"
      unfolding locked_for_def using posted(3,4) row' eq(3,5) meta a(1) by auto
    with posted(2) show ?thesis by simp
  qed
qed

lemma lock_triple:
  assumes fresh: "fresh_ids s0"
  shows "triple (inserted s0 o' i) (lockFundsForPayout o' i) (\<lambda>lr. locked_for s0 o' i (lr_usdcAmount lr)) (restored s0)"
  unfolding lockFundsForPayout_def
proof (rule triple_acatch)
  show "triple (inserted s0 o' i) (lockPayoutFunds o' i None) (\<lambda>lr. locked_for s0 o' i (lr_usdcAmount lr)) (restored s0)"
    unfolding triple_def
  proof (intro allI impI)
    fix s r s' assume ins: "inserted s0 o' i s" and run: "lockPayoutFunds o' i None s = (r, s')"
    then obtain t where t: "find_row t_id i (txns s) = Some t" "t_org t = o'" "t_direction t = ''payout''"
      by (auto simp: inserted_def)
    have load: "loadTx i (Some o') s = (Inr (Some t), s) \<or> o' = [] \<and> loadTx i (Some o') s = (Inr (Some t), s)"
      using find_row_pair [OF t(1)] t by (cases "o' = []") (simp_all add: loadTx_def or_else_def aquery_def)
    have restored: "restored s0 s" using ins by (simp add: inserted_def ledger_fixed_def restored_def)
    obtain r1 s1 where u: "usdcOf t (metaUsdc t) s = (r1, s1)" by (cases "usdcOf t (metaUsdc t) s") auto
    then have "s1 = s" by (rule usdcOf_state)
    show "case r of Inl e \<Rightarrow> restored s0 s' | Inr lr \<Rightarrow> locked_for s0 o' i (lr_usdcAmount lr) s'"
    proof (cases r1)
      case (Inl e)
      with load run u \<open>s1 = s\<close> t restored show ?thesis by (auto simp: lockPayoutFunds_def abnd_def)
    next
      case (Inr p)
      then obtain x rate where "r1 = Inr (x, rate)" by (cases p) auto
      with load run u \<open>s1 = s\<close> t have "lockPayoutRow t x rate s = (r, s')" by (auto simp: lockPayoutFunds_def abnd_def)
      from lockPayoutRow_triple [OF fresh ins t(1) this] show ?thesis .
    qed
  qed
next
  fix e
  show "triple (restored s0) (abnd (sql_txn i (\<lambda>t. t\<lparr>t_status := ''failed'', t_metadata := t_metadata t ++
        [''fundsLockFailed'' \<mapsto> JBool True, ''fundsLockError'' \<mapsto> JStr (message_of e)]\<rparr>)) (\<lambda>_. athrow e))
      (\<lambda>lr. locked_for s0 o' i (lr_usdcAmount lr)) (restored s0)"
    by (rule triple_step [OF restored_patch]) (auto intro: triple_intros)
qed

text \<open>Patches of the row that keep the lock, and the release that undoes it.\<close>

definition keeps_lock :: "(txn \<Rightarrow> txn) \<Rightarrow> bool" where
  "keeps_lock f \<longleftrightarrow> (\<forall>t. t_id (f t) = t_id t \<and> t_org (f t) = t_org t \<and> t_env (f t) = t_env t \<and> t_direction (f t) = t_direction t
     \<and> finalized (f t) = finalized t \<and> metaUsdc (f t) = metaUsdc t)"

lemma keeps_lock_patch:
  assumes "p ''fundsFinalized'' = None" "p ''usdcAmount'' = None" "p ''ledgerAmount'' = None" "p ''settlementUsdc'' = None"
  shows "keeps_lock (\<lambda>t. t\<lparr>t_status := st, t_metadata := t_metadata t ++ p\<rparr>)" "keeps_lock (\<lambda>t. t\<lparr>t_metadata := t_metadata t ++ p\<rparr>)"
  using assms by (simp_all add: keeps_lock_def finalized_def flag_def metaUsdc_def Let_def map_add_def)

lemma locked_patch:
  assumes "keeps_lock f"
  shows "inv_act (locked_for s0 o' i x) (sql_txn i f)"
  unfolding inv_act_def
proof (intro allI impI)
  fix s r s' assume l: "locked_for s0 o' i x s" and "sql_txn i f s = (r, s')"
  then have s': "s' = s\<lparr>txns := update_rows t_id i f (txns s)\<rparr>"
    by (simp add: sql_txn_def run_tx_def update_txn_def)
  have k: "t_id (f t) = t_id t" "t_org (f t) = t_org t" "t_env (f t) = t_env t" "t_direction (f t) = t_direction t"
    "finalized (f t) = finalized t" "metaUsdc (f t) = metaUsdc t" "payout_account (f t) = payout_account t" for t
    using assms by (simp_all add: keeps_lock_def payout_account_def)
  have can: "can_post op (f t) y key mt rt b s' = can_post op t y key mt rt b s" for op t y key mt rt b
    by (simp add: can_post_def k s')
  from l obtain t a where t: "ledger_inv s" "lock_key i \<in> m_key ` set (movements s)" "find_row t_id i (txns s) = Some t"
    "t_org t = o'" "t_direction t = ''payout''" "\<not> finalized t" "metaUsdc t = Some x" "parseAmount (RNum (Fin x)) = Inr a"
    "spec_step OpLock (balances s0 (payout_account t)) a = Some (balances s (payout_account t))"
    "can_post OpRelease t x (release_key i) ''funds_release'' ''payout'' (balances s0 (payout_account t)) s"
    "\<forall>k. k \<noteq> payout_account t \<longrightarrow> balances s k = balances s0 k"
    unfolding locked_for_def by blast
  have "find_row t_id i (txns s') = Some (f t)" "ledger_inv s'" "balances s' = balances s" "movements s' = movements s"
    using t by (simp_all add: s' find_row_update_rows k)
  with t show "locked_for s0 o' i x s'"
    unfolding locked_for_def by (intro conjI exI [of _ "f t"] exI [of _ a]) (simp_all add: k can del: split_paired_All)
qed

lemma release_restores:
  assumes l: "locked_for s0 o' i x s" and input: "py_transactionId input = i" "py_orgId input = Some o'"
    and run: "releasePayoutLock sd input s = (r, s')"
  shows "restored s0 s'"
proof -
  from l obtain t where t: "find_row t_id i (txns s) = Some t" "t_org t = o'" "t_direction t = ''payout''" "\<not> finalized t" "metaUsdc t = Some x"
    and can: "can_post OpRelease t x (release_key i) ''funds_release'' ''payout'' (balances s0 (payout_account t)) s"
    and other: "\<And>k. k \<noteq> payout_account t \<Longrightarrow> balances s k = balances s0 k" and inv: "ledger_inv s"
    by (auto simp: locked_for_def simp del: split_paired_All)
  have id: "t_id t = i" using find_row_Some [OF t(1)] by simp
  have "loadTx i (Some o') s = (Inr (Some t), s)"
    using find_row_pair [OF t(1)] t by (cases "o' = []") (simp_all add: loadTx_def or_else_def aquery_def)
  with run t input have row: "releasePayoutRow sd input t x s = (r, s')"
    by (simp add: releasePayoutLock_def abnd_def finalized_def)
  have can': "can_post OpRelease t x (''payout:'' @ t_id t @ '':release'') ''funds_release'' ''payout'' (balances s0 (payout_account t)) s"
    using can by (simp add: release_key_def id)
  obtain m s1 where op: "run_op OpRelease (lifecycle_params t x ''payout:'' '':release'' ''funds_release'' ''payout'' (payout_meta input ''failure'')) s
      = (Inr (m, False), s1)" and s1: "ledger_inv s1" "balances s1 (payout_account t) = balances s0 (payout_account t)"
    by (rule op_commits [OF inv can', of "payout_meta input ''failure''"]) (simp_all add: is_ws_def)
  have "balances s1 k = balances s0 k" for k
    using op_effect [OF inv op] other [of k] s1(2)
    by (cases "k = payout_account t") (auto simp: payout_effect_def simp del: split_paired_All)
  then have same: "balances s1 = balances s0" by (rule ext)
  have "inv_act (restored s0) (abnd (patchTx (t_id t) st p) (\<lambda>_. abnd (getOrgBalance (t_org t) (env_name (t_env t)) None) (\<lambda>b. aret ((m, False), b))))" for st p
  proof -
    have "inv_act (restored s0) (getOrgBalance (t_org t) (env_name (t_env t)) None)"
      unfolding inv_act_def restored_def using getOrgBalance_unchanged by (auto simp: unchanged_def ledger_same_def)
    then show ?thesis unfolding patchTx_def by (intro inv_intros restored_patch)
  qed
  moreover have "releaseOrgFunds (lifecycle_params t x ''payout:'' '':release'' ''funds_release'' ''payout'' (payout_meta input ''failure'')) s
      = (Inr (m, False), s1)" using op by simp
  moreover have "restored s0 s1" using s1(1) same by (simp add: restored_def)
  ultimately show ?thesis
    using row by (auto simp: releasePayoutRow_def act_simps dest: inv_actD)
qed

section \<open>The request\<close>

definition unseen :: "payout_order \<Rightarrow> db \<Rightarrow> bool" where
  "unseen p s \<longleftrightarrow> (case client_key (po_idempotencyKey p) of None \<Rightarrow> True
     | Some k \<Rightarrow> Some (po_orgId p, po_env p, k) \<notin> txn_client_key ` set (txns s))"

definition idle :: "db \<Rightarrow> payout_order \<Rightarrow> db \<Rightarrow> bool" where
  "idle s0 p s \<longleftrightarrow> ledger_fixed s0 s \<and> draws s0 s \<and> unseen p s"

definition reply_ok :: "db \<Rightarrow> payout_order \<Rightarrow> payout_reply \<Rightarrow> db \<Rightarrow> bool" where
  "reply_ok s0 p r s \<longleftrightarrow> (\<exists>x. locked_for s0 (po_orgId p) (tv_id (pr_tx r)) x s \<and> pr_usdcAmount r = Some (JNum x) \<and> pr_fundsLocked r
     \<and> \<not> pr_replay r)"

lemma idle_restored: "idle s0 p s \<Longrightarrow> restored s0 s"
  by (simp add: idle_def ledger_fixed_def restored_def)

lemma inserted_restored: "inserted s0 o' i s \<Longrightarrow> restored s0 s"
  by (simp add: inserted_def ledger_fixed_def restored_def)

lemma idle_reads [inv_intros]:
  "inv_act (idle s0 p) randomUUID" "inv_act (idle s0 p) (resolveLiveYellowCardParty o' c n ph em)"
  unfolding resolveLiveYellowCardParty_def Let_def
  by (auto simp: inv_act_def randomUUID_def idle_def ledger_fixed_def draws_def unseen_def split: option.splits)
lemma findIdempotentTx_unseen:
  "unseen p s \<Longrightarrow> findIdempotentTx (po_orgId p) (po_env p) (po_idempotencyKey p) f s = (Inr None, s)"
  by (auto simp: unseen_def findIdempotentTx_def aquery_def aret_def abnd_def split: option.splits dest!: find_row_Some)
    (metis image_eqI)

lemma insert_triple:
  assumes row: "ix_orgId row = po_orgId p" "ix_env row = po_env p" "ix_idempotencyKey row = po_idempotencyKey p"
    "ix_direction row = ''payout''" "ix_metadata row ''fundsFinalized'' = None"
  shows "triple (idle s0 p) (insertTx row) (\<lambda>t. inserted s0 (po_orgId p) (t_id t)) (restored s0)"
  unfolding triple_def
proof (intro allI impI)
  fix s r s' assume idle: "idle s0 p s" and run: "insertTx row s = (r, s')"
  note none = findIdempotentTx_unseen [of p s]
  show "case r of Inl e \<Rightarrow> restored s0 s' | Inr t \<Rightarrow> inserted s0 (po_orgId p) (t_id t) s'"
  proof (cases r)
    case (Inl e)
    with run have "s' = s" by (cases rule: insertTx_cases) auto
    with Inl idle_restored [OF idle] show ?thesis by simp
  next
    case (Inr t)
    have n: "findIdempotentTx (ix_orgId row) (ix_env row) (ix_idempotencyKey row) f s = (Inr None, s)" for f
      using none idle row by (simp add: idle_def)
    from insertTx_new [OF run [unfolded Inr] n]
    have t: "t = new_txn row (uuid_of s (uuid_next s))" "s' = s\<lparr>uuid_next := Suc (uuid_next s), txns := t # txns s\<rparr>" by blast+
    have "inserted s0 (po_orgId p) (t_id t) s'"
      unfolding inserted_def
      using idle row by (auto simp: t idle_def ledger_fixed_def draws_def new_txn_def finalized_def flag_def intro!: exI [of _ "uuid_next s"])
    with Inr show ?thesis by simp
  qed
qed

lemma sql_txn_triple: "inv_act P (sql_txn i f) \<Longrightarrow> triple P (sql_txn i f) (\<lambda>_. P) E"
  by (auto simp: triple_def inv_act_def sql_txn_def run_tx_def update_txn_def)

lemma fetch_triple: "triple (locked_for s0 o' i x) (fetchTxRow i) (\<lambda>t s. locked_for s0 o' i x s \<and> t_id t = i) E"
proof -
  have "t_id t = i" if "find_row t_id i (txns s) = Some t" for t and s :: db using find_row_Some [OF that] by simp
  then show ?thesis by (auto simp: triple_def fetchTxRow_def locked_for_def run_tx_def bnd_def simp del: split_paired_All)
qed

lemma release_triple: "triple (locked_for s0 o' i x) (submitFailed sd p i err) Q (restored s0)" if "po_orgId p = o'"
proof -
  have "triple (locked_for s0 o' i x) (releasePayoutLock sd \<lparr>py_orgId = Some (po_orgId p), py_transactionId = i,
      py_providerEventId = None, py_source = Some ''yellowcard_submit_failed'', py_status = Some ''failed''\<rparr>)
      (\<lambda>_. restored s0) (restored s0)"
    unfolding triple_def
  proof (intro allI impI)
    fix s r s' assume l: "locked_for s0 o' i x s" and run: "releasePayoutLock sd \<lparr>py_orgId = Some (po_orgId p), py_transactionId = i,
      py_providerEventId = None, py_source = Some ''yellowcard_submit_failed'', py_status = Some ''failed''\<rparr> s = (r, s')"
    from release_restores [OF l _ _ run] that show "case r of Inl e \<Rightarrow> restored s0 s' | Inr a \<Rightarrow> restored s0 s'"
      by (cases r) simp_all
  qed
  then show ?thesis unfolding submitFailed_def
    by (intro triple_abnd [where Q = "\<lambda>_. restored s0"] triple_acatch [where ?E1.0 = "restored s0"] triple_intros) auto
qed

lemma submit_triple:
  assumes "po_orgId p = o'"
  shows "triple (locked_for s0 o' i x) (submitLivePayout sd rl p amount bd y sq i) (\<lambda>_. locked_for s0 o' i x) (restored s0)"
  unfolding submitLivePayout_def
proof (rule triple_acatch)
  show "triple (locked_for s0 o' i x) (abnd (aof_sum (callYellowCard rl p amount bd y sq)) (\<lambda>provider.
      sql_txn i (\<lambda>t. t\<lparr>t_status := ''processing'', t_metadata := t_metadata t ++
        [''provider'' \<mapsto> provider, ''railSubmittedAt'' \<mapsto> JStr (sdk_now sd)]\<rparr>))) (\<lambda>_. locked_for s0 o' i x) (locked_for s0 o' i x)"
    by (intro triple_inv inv_intros locked_patch keeps_lock_patch) simp_all
qed (rule release_triple [OF assms])

lemma locked_reply_ok:
  "locked_for s0 (po_orgId p) (t_id row) (lr_usdcAmount lr) s \<Longrightarrow> reply_ok s0 p (locked_reply row sq lr off rec) s"
  by (auto simp: reply_ok_def locked_reply_def mapTx_def)

lemma bankLocked_triple:
  assumes fresh: "fresh_ids s0"
  shows "triple (inserted s0 (po_orgId p) i) (bankLocked sd rl p saved amount bd party sq i) (reply_ok s0 p) (restored s0)"
  unfolding bankLocked_def
proof (rule triple_abnd [OF lock_triple [OF fresh]])
  fix lr :: lock_result
  let ?L = "locked_for s0 (po_orgId p) i (lr_usdcAmount lr)"
  have fetch: "triple ?L (abnd (fetchTxRow i) (\<lambda>latest. aret (locked_reply latest sq lr off rec))) (reply_ok s0 p) (restored s0)" for off rec
    by (rule triple_abnd [OF fetch_triple]) (auto intro!: triple_pure locked_reply_ok)
  have party: "triple ?L (case party of Some y \<Rightarrow> submitLivePayout sd rl p amount bd y sq i | None \<Rightarrow> aret ()) (\<lambda>_. ?L) (restored s0)"
    by (intro triple_intros submit_triple) auto
  have mark: "triple ?L (sql_txn i (\<lambda>t. t\<lparr>t_metadata := t_metadata t ++ [''offRamp'' \<mapsto> JBool True, ''offRampPhase'' \<mapsto> JStr ''locked'',
        ''settlementMode'' \<mapsto> JStr ''STELLAR_TREASURY'', ''providerDeferred'' \<mapsto> JBool True]\<rparr>)) (\<lambda>_. ?L) (restored s0)"
    by (intro sql_txn_triple locked_patch keeps_lock_patch) simp_all
  show "triple ?L (if isFiatOfframpEnabled sd then
      abnd (sql_txn i (\<lambda>t. t\<lparr>t_metadata := t_metadata t ++ [''offRamp'' \<mapsto> JBool True, ''offRampPhase'' \<mapsto> JStr ''locked'',
        ''settlementMode'' \<mapsto> JStr ''STELLAR_TREASURY'', ''providerDeferred'' \<mapsto> JBool True]\<rparr>)) (\<lambda>_.
      abnd (fetchTxRow i) (\<lambda>latest. aret (locked_reply latest sq lr True (bank_recipient p saved bd))))
    else
      abnd (case party of Some y \<Rightarrow> submitLivePayout sd rl p amount bd y sq i | None \<Rightarrow> aret ()) (\<lambda>_.
      abnd (fetchTxRow i) (\<lambda>latest. aret (locked_reply latest sq lr False (bank_recipient p saved bd))))) (reply_ok s0 p) (restored s0)"
    by (intro triple_if triple_abnd [OF mark] triple_abnd [OF party] fetch)
qed

lemma payout_tx_sel [simp]:
  "ix_orgId (payout_tx p x c k st mt sq m f) = po_orgId p" "ix_env (payout_tx p x c k st mt sq m f) = po_env p"
  "ix_idempotencyKey (payout_tx p x c k st mt sq m f) = po_idempotencyKey p" "ix_direction (payout_tx p x c k st mt sq m f) = ''payout''"
  "ix_metadata (payout_tx p x c k st mt sq m f) = m"
  by (simp_all add: payout_tx_def)

lemma shared_meta_flags [simp]: "shared_meta p saved ''fundsFinalized'' = None"
  by (simp add: shared_meta_def opt_part_def map_add_def split: option.split)

lemma bankPayout_triple:
  assumes "fresh_ids s0"
  shows "triple (idle s0 p) (bankPayout sd rl p saved amount f sq) (reply_ok s0 p) (restored s0)"
  unfolding bankPayout_def Let_def
  by (intro triple_step triple_if triple_abnd [OF insert_triple] bankLocked_triple assms)
    (auto simp: bank_meta_def map_add_def intro: inv_intros triple_intros idle_restored inserted_restored)

lemma lockedPayout_triple:
  assumes fresh: "fresh_ids s0" and meta: "m ''fundsFinalized'' = None"
  shows "triple (idle s0 p) (abnd (insertTx (payout_tx p x c k st mt sq m f)) (\<lambda>row.
    abnd (lockFundsForPayout (po_orgId p) (t_id row)) (\<lambda>locked. aret (locked_reply row sq locked off rec)))) (reply_ok s0 p) (restored s0)"
  by (rule triple_abnd [OF insert_triple], simp_all add: meta, rule triple_abnd [OF lock_triple [OF fresh]])
    (auto intro!: triple_pure locked_reply_ok)

lemma newPayout_triple:
  assumes fresh: "fresh_ids s0"
  shows "triple (idle s0 p) (newPayout sd rl p saved amount f) (reply_ok s0 p) (restored s0)"
proof -
  have tag: "triple (idle s0 p) (tagPayout p saved amount f sq) (reply_ok s0 p) (restored s0)" for sq
    unfolding tagPayout_def Let_def
    by (intro triple_step triple_option triple_pure lockedPayout_triple fresh)
      (auto intro: inv_intros idle_restored simp: map_add_def)
  have crypto: "triple (idle s0 p) (cryptoPayout p saved amount f sq) (reply_ok s0 p) (restored s0)" for sq
    unfolding cryptoPayout_def Let_def
    by (intro triple_step triple_option triple_pure lockedPayout_triple fresh)
      (auto intro: inv_intros idle_restored simp: map_add_def)
  show ?thesis
    unfolding newPayout_def
    by (intro triple_step triple_if tag crypto bankPayout_triple fresh) (auto intro: inv_intros idle_restored)
qed

lemma savedRecipient_run:
  assumes "savedRecipient input s = (r, s')"
  shows "s' = s" and "r = Inr (p, saved) \<Longrightarrow> po_orgId p = po_orgId input \<and> po_env p = po_env input \<and> po_idempotencyKey p = po_idempotencyKey input"
proof -
  have "inv_act (\<lambda>x. x = s) (savedRecipient input)"
    unfolding savedRecipient_def resolveDestinationForPayout_def Let_def by (intro inv_intros)
  then show "s' = s" using assms by (auto simp: inv_act_def)
  have "triple (\<lambda>_. True) (savedRecipient input) (\<lambda>(p, saved) _. po_orgId p = po_orgId input \<and> po_env p = po_env input
      \<and> po_idempotencyKey p = po_idempotencyKey input) (\<lambda>_. True)"
    unfolding savedRecipient_def
    by (intro triple_intros triple_abnd [where Q = "\<lambda>_ _. True"]) (auto simp: with_fields_def triple_def split: sum.splits)
  from tripleD [OF this _ assms] show "r = Inr (p, saved) \<Longrightarrow> po_orgId p = po_orgId input \<and> po_env p = po_env input
      \<and> po_idempotencyKey p = po_idempotencyKey input" by simp
qed

lemma findIdempotentTx_none:
  assumes "findIdempotentTx (po_orgId p) (po_env p) (po_idempotencyKey p) f s = (Inr None, s')"
  shows "unseen p s"
  using assms by (auto simp: unseen_def findIdempotentTx_def aquery_def aret_def athrow_def abnd_def find_row_None
      split: option.splits if_splits)

lemma createPayout_triple:
  assumes inv: "ledger_inv s0" and fresh: "fresh_ids s0"
  shows "triple (\<lambda>s. s = s0) (createPayout sd rl input) (\<lambda>r s. pr_replay r \<and> restored s0 s \<or>
     \<not> pr_replay r \<and> reply_ok s0 input r s) (restored s0)"
  unfolding triple_def
proof (intro allI impI)
  fix s r s' assume s: "s = s0" and run: "createPayout sd rl input s = (r, s')"
  have same: "restored s0 s0" using inv by (simp add: restored_def)
  show "case r of Inl e \<Rightarrow> restored s0 s' | Inr r \<Rightarrow> pr_replay r \<and> restored s0 s' \<or> \<not> pr_replay r \<and> reply_ok s0 input r s'"
  proof (cases "\<exists>amount. po_amount input = Fin amount \<and> 0 < amount")
    case False
    with run s have "r = Inl (JsError ''Amount must be greater than zero'') \<and> s' = s0"
      by (auto simp: createPayout_def athrow_def arequire_run abnd_def split: js_num.splits if_splits)
    with same show ?thesis by simp
  next
    case True
    then obtain amount where amount: "po_amount input = Fin amount" "0 < amount" by blast
    obtain r1 s1 where saved: "savedRecipient input s0 = (r1, s1)" by (cases "savedRecipient input s0") auto
    have s1: "s1 = s0" using savedRecipient_run(1) [OF saved] .
    show ?thesis
    proof (cases r1)
      case (Inl e)
      with run s amount saved s1 have "r = Inl e \<and> s' = s0" by (auto simp: createPayout_def arequire_run abnd_def)
      with same show ?thesis by simp
    next
      case (Inr ps)
      obtain p sv where ps: "ps = (p, sv)" by (cases ps)
      have p: "po_orgId p = po_orgId input" "po_env p = po_env input" "po_idempotencyKey p = po_idempotencyKey input"
        using savedRecipient_run(2) [OF saved] Inr ps by auto
      let ?f = "payoutFingerprint sd p amount"
      obtain r2 s2 where found: "findIdempotentTx (po_orgId p) (po_env p) (po_idempotencyKey p) ?f s0 = (r2, s2)"
        by (cases "findIdempotentTx (po_orgId p) (po_env p) (po_idempotencyKey p) ?f s0") auto
      have s2: "s2 = s0" using findIdempotentTx_state [OF found] .
      have rest: "(case r2 of Inl e \<Rightarrow> (Inl e, s0) | Inr None \<Rightarrow> newPayout sd rl p sv amount ?f s0
          | Inr (Some t) \<Rightarrow> replayPayout p t s0) = (r, s')"
        using run s amount saved s1 Inr ps found s2
        by (auto simp: createPayout_def arequire_run abnd_def Let_def split: sum.splits option.splits)
      consider e where "r2 = Inl e" | "r2 = Inr None" | t where "r2 = Inr (Some t)" by (metis sum.exhaust option.exhaust)
      then show ?thesis
      proof cases
        case 1
        with rest same show ?thesis by auto
      next
        case 2
        with found have "unseen p s0" using findIdempotentTx_none by simp
        then have idle: "idle s0 p s0" using inv by (simp add: idle_def ledger_fixed_def)
        from 2 rest have "newPayout sd rl p sv amount ?f s0 = (r, s')" by simp
        from tripleD [OF newPayout_triple [OF fresh] idle this] show ?thesis
          by (cases r) (auto simp: reply_ok_def p)
      next
        case 3
        with rest have replay: "replayPayout p t s0 = (r, s')" by simp
        obtain r3 s3 where b: "getOrgBalance (po_orgId p) (env_name (po_env p)) None s0 = (r3, s3)"
          by (cases "getOrgBalance (po_orgId p) (env_name (po_env p)) None s0") auto
        with getOrgBalance_unchanged [OF inv b] have "restored s0 s3" by (simp add: restored_def unchanged_def ledger_same_def)
        with replay b show ?thesis by (cases r3) (auto simp: replayPayout_def Let_def abnd_def aret_def)
      qed
    qed
  qed
qed

section \<open>Payouts stay resolved once\<close>

lemma payout_insert:
  assumes "ix_metadata row ''fundsFinalized'' = None"
  shows "inv_act payout_inv (insertTx row)"
  unfolding inv_act_def
proof (intro allI impI)
  fix s r s' assume inv: "payout_inv s" and run: "insertTx row s = (r, s')"
  from run show "payout_inv s'"
  proof (cases rule: insertTx_cases)
    case new
    have more: "resolved_ok (t # ts) k" if "resolved_ok ts k" for t ts k using that by (auto simp: resolved_ok_def)
    from inv new assms show ?thesis
      by (auto simp: payout_inv_def list_all_iff new_txn_def finalized_def flag_def more)
  qed (use inv in auto)
qed

lemma payout_randomUUID [inv_intros]: "inv_act payout_inv randomUUID"
  unfolding inv_act_def randomUUID_def by (auto intro: payout.frame)

lemma payout_lockFunds [inv_intros]: "inv_act payout_inv (lockFundsForPayout o' i)"
  unfolding lockFundsForPayout_def by (intro inv_intros payout_sql_txn neutral_patch) simp_all

lemma reads_money [inv_intros, simp]:
  "inv_act I (fetchTxRow i)" "inv_act I (findIdempotentTx o' e k f)" "inv_act I (savedRecipient input)"
  "inv_act I (resolveLiveYellowCardParty o' c n ph em)"
  unfolding fetchTxRow_def findIdempotentTx_def savedRecipient_def resolveDestinationForPayout_def
    resolveLiveYellowCardParty_def Let_def
  by (intro inv_intros)+

lemma payout_bankLocked: "inv_act payout_inv (bankLocked sd rl p saved x bd y sq i)"
  unfolding bankLocked_def submitLivePayout_def submitFailed_def
  by (intro inv_intros payout_sql_txn neutral_patch) simp_all

lemma payout_createPayout [inv_intros]: "inv_act payout_inv (createPayout sd rl input)"
proof -
  have replay: "inv_act payout_inv (replayPayout p t)" for p t
    unfolding replayPayout_def Let_def by (intro inv_intros)
  have tag: "inv_act payout_inv (tagPayout p saved x f sq)" for p saved x f sq
    unfolding tagPayout_def Let_def by (intro inv_intros payout_insert) (simp_all add: map_add_def)
  have crypto: "inv_act payout_inv (cryptoPayout p saved x f sq)" for p saved x f sq
    unfolding cryptoPayout_def Let_def by (intro inv_intros payout_insert) (simp_all add: map_add_def)
  have bank: "inv_act payout_inv (bankPayout sd rl p saved x f sq)" for p saved x f sq
    unfolding bankPayout_def Let_def
    by (intro inv_intros payout_insert payout_bankLocked) (simp_all add: bank_meta_def map_add_def)
  show ?thesis
    unfolding createPayout_def newPayout_def Let_def by (intro inv_intros replay tag crypto bank)
qed

lemma payout_simulate [inv_intros]: "inv_act payout_inv (simulateSettlement sd o' env i)"
  unfolding simulateSettlement_def by (intro inv_intros)

section \<open>Collections\<close>

lemma fixed_randomUUID [inv_intros]: "inv_act (ledger_fixed s0) randomUUID"
  by (auto simp: inv_act_def randomUUID_def ledger_fixed_def)

lemma inv_act_js_error [inv_intros]:
  "(\<And>n i. inv_act I (a n i)) \<Longrightarrow> inv_act I b \<Longrightarrow> inv_act I (case e of InfraRailError n i \<Rightarrow> a n i | _ \<Rightarrow> b)"
  by (cases e) simp_all

lemma collection_flags [simp]: "extra ''fundsFinalized'' = None \<Longrightarrow> ix_metadata (local_tx c x f sq st extra) ''fundsFinalized'' = None"
  "ix_metadata (collection_tx c x cur cc st mt sq m f) = m"
  by (simp_all add: local_tx_def collection_tx_def collection_meta_def map_add_def split: prod.split)

lemma newCollection_inv:
  assumes "\<And>row. ix_metadata row ''fundsFinalized'' = None \<Longrightarrow> inv_act I (insertTx row)"
  shows "inv_act I (newCollection sd rl c x f sq)"
  unfolding newCollection_def cryptoCollection_def testCollection_def flutterwaveCollection_def yellowCardCollection_def
    failLiveCollection_def Let_def
  by (intro inv_intros assms) simp_all

lemma createCollection_inv:
  assumes "\<And>row. ix_metadata row ''fundsFinalized'' = None \<Longrightarrow> inv_act I (insertTx row)" and "inv_act I randomUUID"
  shows "inv_act I (createCollection sd rl c)"
  unfolding createCollection_def Let_def by (intro inv_intros newCollection_inv assms)

lemma fixed_createCollection [inv_intros]: "inv_act (ledger_fixed s0) (createCollection sd rl c)"
  by (intro createCollection_inv inv_intros)

lemma payout_createCollection [inv_intros]: "inv_act payout_inv (createCollection sd rl c)"
  by (intro createCollection_inv inv_intros payout_insert)

end
