(* ===== verification/Money_Properties.thy ===== *)
theory Money_Properties
  imports Money_Facts Service_Examples
begin

text \<open>
  The properties of the requests of \<open>infraMoneyService.ts\<close>: a payout that is answered has its USDC
  locked, a payout that fails has moved nothing, a repeated request is answered from its row, and no
  request breaks the invariant of the payouts; and what the requests let through.
\<close>

section \<open>Requests\<close>

definition ex_rails :: "(nat \<Rightarrow> json \<Rightarrow> js_error + json) \<Rightarrow> rails" where
  "ex_rails create = \<lparr>rl_yc = ex_provider\<lparr>yc_channels := Inr (JArr [JObj [(''id'', JStr ''ch1''), (''country'', JStr ''NG''),
       (''currency'', JStr ''USDC'')]]), yc_create := create\<rparr>,
     rl_resolveBank = (\<lambda>n c. Inr ''ADA''), rl_collect = (\<lambda>j. Inr JNull), rl_flutterwave = False, rl_account = (\<lambda>j. Inr JNull),
     rl_expires = ''later'', rl_iso = Inr\<rparr>"

definition ex_order :: "infra_env \<Rightarrow> rat \<Rightarrow> string \<Rightarrow> payout_order" where
  "ex_order env amount key = \<lparr>po_orgId = ''acme'', po_env = env, po_amount = Fin amount, po_currency = Some ''usdc'', po_country = Some ''NG'',
     po_accountNumber = Some ''0123456789'', po_accountName = Some ''Ada'', po_bankCode = Some ''058'', po_bankName = None,
     po_networkId = None, po_channelId = None, po_reason = None, po_recipientEmail = None, po_recipientPhone = None,
     po_accountType = None, po_asset = None, po_network = None, po_walletAddress = None, po_dayfiTag = None, po_recipientId = None,
     po_destinationId = None, po_bulkBatchId = None, po_bulkItemId = None, po_idempotencyKey = Some key\<rparr>"

text \<open>An organisation with a verified member and 100 USDC in LIVE.\<close>

definition ex_live :: db where
  "ex_live = (snd (creditOrgWallet ((ex_params ''acme'' ''k1'' 100)\<lparr>p_environment := ''live''\<rparr>) ex_db))\<lparr>members := [ex_member ''ada'' ''acme'']\<rparr>"

definition refuse :: "nat \<Rightarrow> json \<Rightarrow> js_error + json" where
  "refuse n j = Inl (JsError ''timeout'')"

definition accept :: "nat \<Rightarrow> json \<Rightarrow> js_error + json" where
  "accept n j = Inr (JObj [(''request'', case object_field (Some j) ''sequenceId'' of Some v \<Rightarrow> v | None \<Rightarrow> JNull)])"

lemma ex_live_ids: "list_all (\<lambda>m. m_id m = ex_uuid 1 \<and> m_key m = ''k1'' \<and> m_reference_id m = None) (movements ex_live)
    \<and> txns ex_live = [] \<and> uuid_next ex_live = 2"
  by code_simp

lemma ex_live_supply: "uuid_of ex_live = ex_uuid"
proof -
  obtain r s where run: "creditOrgWallet ((ex_params ''acme'' ''k1'' 100)\<lparr>p_environment := ''live''\<rparr>) ex_db = (r, s)" by fastforce
  then have op: "run_op OpCredit ((ex_params ''acme'' ''k1'' 100)\<lparr>p_environment := ''live''\<rparr>) ex_db = (r, s)" by simp
  have "uuid_of s = uuid_of ex_db"
    using op_supply [OF op] by (simp add: draws_def)
  with run show ?thesis by (simp add: ex_live_def ex_db_def)
qed

lemma ex_uuid_inj: "inj ex_uuid"
  by (simp add: inj_def ex_uuid_def)

lemma ex_live_fresh: "fresh_ids ex_live"
proof -
  have "ex_uuid n \<noteq> ex_uuid 1" if "2 \<le> n" for n
    using ex_uuid_inj that by (auto simp: inj_eq)
  moreover have "lock_key i \<noteq> ''k1''" "release_key i \<noteq> ''k1''" for i
    by (simp_all add: lock_key_def release_key_def)
  ultimately show ?thesis
    using ex_live_ids ex_uuid_inj unfolding fresh_ids_def undrawn_def ex_live_supply list_all_iff by fastforce
qed

lemma ex_live_inv: "ledger_inv ex_live" by code_simp

definition ex_paid :: "(js_error + payout_reply) \<times> db" where
  "ex_paid = createPayout (ex_sdk []) (ex_rails accept) (ex_order Live 30 ''key-1'') ex_live"

definition ex_lost :: "(js_error + payout_reply) \<times> db" where
  "ex_lost = createPayout (ex_sdk []) (ex_rails refuse) (ex_order Live 30 ''key-1'') ex_live"

section \<open>A payout is locked, or nothing has moved\<close>

text \<open>C9: A payout request that answers has created a row of the requesting organisation and locked
  exactly the USDC it reports: the available balance falls by that amount, the locked balance grows by
  it, and no other wallet changes.\<close>

theorem created_payout_is_locked:
  assumes "ledger_inv s" and "fresh_ids s" and "createPayout sd rl input s = (Inr r, s')" and "\<not> pr_replay r"
  shows "\<exists>t x a. find_row t_id (tv_id (pr_tx r)) (txns s') = Some t \<and> t_org t = po_orgId input \<and> t_direction t = ''payout''
    \<and> pr_usdcAmount r = Some (JNum x) \<and> parseAmount (RNum (Fin x)) = Inr a
    \<and> spec_step OpLock (balances s (payout_account t)) a = Some (balances s' (payout_account t))
    \<and> (\<forall>k. k \<noteq> payout_account t \<longrightarrow> balances s' k = balances s k)
    \<and> lock_key (tv_id (pr_tx r)) \<in> m_key ` set (movements s')"
proof -
  from tripleD [OF createPayout_triple [OF assms(1,2)] refl assms(3)] assms(4) have "reply_ok s input r s'" by simp
  then show ?thesis unfolding reply_ok_def locked_for_def by blast
qed

text \<open>C4: A payout request that fails leaves every balance as it was: refused before the lock, refused by
  the lock, or - when the rail rejects it afterwards - by the release of the lock.\<close>

theorem failed_payout_restores_balances:
  assumes "ledger_inv s" and "fresh_ids s" and "createPayout sd rl input s = (Inl e, s')"
  shows "balances s' = balances s"
  using tripleD [OF createPayout_triple [OF assms(1,2)] refl assms(3)] by (simp add: restored_def)

lemma ex_paid_run: "case ex_paid of (r, s) \<Rightarrow> (case r of Inl e \<Rightarrow> False | Inr v \<Rightarrow> \<not> pr_replay v)
    \<and> balances s (''acme'', Live, ''USDC'') = (70, 0, 30) \<and> ledger_inv s
    \<and> map t_org (txns s) = [''acme''] \<and> map t_env (txns s) = [Live] \<and> map t_client_key (txns s) = [Some ''key-1'']"
  by code_simp

lemma ex_lost_run: "case ex_lost of (r, s) \<Rightarrow> (case r of Inl e \<Rightarrow> e = InfraRailError 502 (Some ''u3'') | Inr v \<Rightarrow> False)
    \<and> map t_status (txns s) = [''failed''] \<and> map m_type (movements s) = [''funds_release'', ''funds_lock'', ''adjustment'']
    \<and> balances s (''acme'', Live, ''USDC'') = (100, 0, 0) \<and> map t_external_id (txns s) = [Some ''u2'']"
  by code_simp

theorem created_payout_is_locked_witness:
  "\<exists>r s'. ex_paid = (Inr r, s') \<and> (\<exists>t x a. find_row t_id (tv_id (pr_tx r)) (txns s') = Some t \<and> t_org t = ''acme''
    \<and> pr_usdcAmount r = Some (JNum x) \<and> parseAmount (RNum (Fin x)) = Inr a
    \<and> spec_step OpLock (balances ex_live (payout_account t)) a = Some (balances s' (payout_account t)))"
proof -
  obtain r s' where run: "ex_paid = (Inr r, s')" and new: "\<not> pr_replay r"
    using ex_paid_run by (cases ex_paid) (auto split: sum.splits)
  from created_payout_is_locked [OF ex_live_inv ex_live_fresh run [unfolded ex_paid_def] new]
  show ?thesis unfolding run by (simp add: ex_order_def del: split_paired_All) blast
qed

theorem failed_payout_restores_balances_witness: "balances (snd ex_lost) = balances ex_live"
proof -
  have "createPayout (ex_sdk []) (ex_rails refuse) (ex_order Live 30 ''key-1'') ex_live
      = (Inl (InfraRailError 502 (Some ''u3'')), snd ex_lost)"
    using ex_lost_run by (cases ex_lost) (auto simp: ex_lost_def split: sum.splits)
  from failed_payout_restores_balances [OF ex_live_inv ex_live_fresh this] show ?thesis .
qed

section \<open>Repeated requests\<close>

text \<open>C18: A request under a key that already names a transaction of the organisation moves nothing and
  creates nothing: the same parameters are answered with that transaction, others are a conflict.\<close>

theorem repeated_payout_is_answered:
  assumes "ledger_inv s" and "po_amount input = Fin amount" and "0 < amount" and "savedRecipient input s = (Inr (p, saved), s)"
    and "client_key (po_idempotencyKey p) = Some k" and "find_row txn_client_key (Some (po_orgId p, po_env p, k)) (txns s) = Some t"
    and "createPayout sd rl input s = (r, s')"
  shows "movements s' = movements s \<and> balances s' = balances s \<and> txns s' = txns s
    \<and> (if other_request (payoutFingerprint sd p amount) t then r = Inl (InfraIdempotencyError (Some (t_id t)))
       else (\<forall>v. r = Inr v \<longrightarrow> pr_replay v \<and> pr_tx v = mapTx t))"
proof -
  have find: "findIdempotentTx (po_orgId p) (po_env p) (po_idempotencyKey p) f s =
      (if other_request f t then Inl (InfraIdempotencyError (Some (t_id t))) else Inr (Some t), s)" for f
    using assms(5,6) by (simp add: findIdempotentTx_def abnd_def aquery_def athrow_def aret_def)
  have run: "createPayout sd rl input s = (if other_request (payoutFingerprint sd p amount) t
      then (Inl (InfraIdempotencyError (Some (t_id t))), s) else replayPayout p t s)"
    using assms(2-4) find by (simp add: createPayout_def arequire_run Let_def)
  obtain r3 s3 where b: "getOrgBalance (po_orgId p) (env_name (po_env p)) None s = (r3, s3)" by fastforce
  have u: "unchanged s s3" using getOrgBalance_unchanged [OF assms(1) b] .
  show ?thesis
    using run assms(7) b u
    by (cases r3) (auto simp: replayPayout_def Let_def abnd_def aret_def unchanged_def ledger_same_def)
qed

definition ex_again :: "(js_error + payout_reply) \<times> db" where
  "ex_again = createPayout (ex_sdk []) (ex_rails accept) (ex_order Live 30 '' key-1 '') (snd ex_paid)"

lemma ex_order_key: "client_key (po_idempotencyKey (ex_order Live 30 '' key-1 '')) = Some ''key-1''"
  by code_simp

lemma one_row:
  "map t_org ts = [o'] \<and> map t_env ts = [e] \<and> map t_client_key ts = [Some k] \<Longrightarrow> \<exists>t. find_row txn_client_key (Some (o', e, k)) ts = Some t"
  by (cases ts) (auto simp: txn_client_key_def)

theorem repeated_payout_is_answered_witness: "balances (snd ex_again) = balances (snd ex_paid)"
proof -
  obtain t where t: "find_row txn_client_key (Some (''acme'', Live, ''key-1'')) (txns (snd ex_paid)) = Some t"
    using one_row [of "txns (snd ex_paid)" "''acme''" Live "''key-1''"] by_run [OF ex_paid_run] by blast
  let ?o = "ex_order Live 30 '' key-1 ''"
  have sel: "po_orgId ?o = ''acme''" "po_env ?o = Live" "po_amount ?o = Fin 30" "po_recipientId ?o = None"
    by (simp_all add: ex_order_def)
  have t': "find_row txn_client_key (Some (po_orgId ?o, po_env ?o, ''key-1'')) (txns (snd ex_paid)) = Some t"
    using t by (simp only: sel)
  have saved: "savedRecipient ?o (snd ex_paid) = (Inr (?o, None), snd ex_paid)"
    by (simp add: savedRecipient_def sel or_else_def aret_def)
  have run: "createPayout (ex_sdk []) (ex_rails accept) ?o (snd ex_paid) = (fst ex_again, snd ex_again)"
    by (simp add: ex_again_def)
  have inv: "ledger_inv (snd ex_paid)" using by_run [OF ex_paid_run] by blast
  have "(0 :: rat) < 30" by simp
  from repeated_payout_is_answered [OF inv sel(3) this saved ex_order_key t' run] show ?thesis by simp
qed

section \<open>The invariant, and collections\<close>

text \<open>C17: The requests of the money service keep the invariant of the payouts, whatever they answer:
  the ledger stays the projection of its movements, and no payout is both finalized and released.\<close>

theorem money_requests_keep_payouts:
  assumes "payout_inv s"
  shows "payout_inv (snd (createPayout sd rl input s)) \<and> payout_inv (snd (createCollection sd rl c s))
    \<and> payout_inv (snd (simulateSettlement sd orgId env i s))"
  using inv_actD [OF payout_createPayout assms prod.collapse [symmetric]]
    inv_actD [OF payout_createCollection assms prod.collapse [symmetric]]
    inv_actD [OF payout_simulate assms prod.collapse [symmetric]]
  by blast

lemma ex_live_payouts: "payout_inv ex_live"
  using ex_live_inv ex_live_ids by (simp add: payout_inv_def resolved_ok_def list_all_iff is_finalize_def is_release_def starts_with_def)

theorem money_requests_keep_payouts_witness: "payout_inv (snd ex_paid) \<and> payout_inv (snd ex_lost)"
  using money_requests_keep_payouts [OF ex_live_payouts, of "ex_sdk []" "ex_rails accept" "ex_order Live 30 ''key-1''"]
    money_requests_keep_payouts [OF ex_live_payouts, of "ex_sdk []" "ex_rails refuse" "ex_order Live 30 ''key-1''"]
  by (simp add: ex_paid_def ex_lost_def)

lemma insertTx_row: "triple P (insertTx row) (\<lambda>t s. t \<in> set (txns s)) (\<lambda>_. True)"
  unfolding triple_def by (intro allI impI, erule insertTx_cases) auto

lemma collection_row:
  "triple P (newCollection sd rl c x f sq) (\<lambda>v s. \<exists>t \<in> set (txns s). cr_tx v = mapTx t) (\<lambda>_. True)"
proof -
  let ?Q = "\<lambda>v s. \<exists>t \<in> set (txns s). cr_tx v = mapTx t"
  have ret: "triple P (abnd (insertTx row) (\<lambda>t. aret (collected t i sq' ex))) ?Q (\<lambda>_. True)" for P row i sq' ex
    by (rule triple_abnd [OF insertTx_row]) (auto simp: triple_def act_simps collected_def)
  have fail: "triple P (failLiveCollection c x f sq m) ?Q (\<lambda>_. True)" for P m
    unfolding failLiveCollection_def by (rule triple_abnd [OF insertTx_row]) (auto simp: triple_def act_simps)
  have any: "triple P m (\<lambda>_ _. True) (\<lambda>_. True)" for P and m :: "(db, 'x) act"
    by (auto simp: triple_def split: sum.splits)
  have catch: "triple P (case e of InfraRailError n i \<Rightarrow> athrow e | _ \<Rightarrow> failLiveCollection c x f sq (message_of e)) ?Q (\<lambda>_. True)" for P e
    using fail by (cases e) (simp_all add: triple_def act_simps)
  show ?thesis
    unfolding newCollection_def cryptoCollection_def testCollection_def flutterwaveCollection_def yellowCardCollection_def Let_def
    by (intro triple_intros ret fail triple_acatch [where ?E1.0 = "\<lambda>_. True"] triple_abnd [OF any] catch) auto
qed

text \<open>C27: A collection request moves no money, whatever the rail answers; an answer names a row of the
  database, also when it repeats an earlier request.\<close>

theorem collection_request_moves_no_money:
  assumes "ledger_inv s" and "createCollection sd rl c s = (r, s')"
  shows "movements s' = movements s \<and> balances s' = balances s
    \<and> (\<forall>v. r = Inr v \<longrightarrow> (\<exists>t \<in> set (txns s'). cr_tx v = mapTx t))"
proof -
  have "ledger_fixed s s'"
    by (rule inv_actD [OF fixed_createCollection ledger_fixed_refl [OF assms(1)] assms(2)])
  moreover have "triple (\<lambda>_. True) (createCollection sd rl c) (\<lambda>v s. \<exists>t \<in> set (txns s). cr_tx v = mapTx t) (\<lambda>_. True)"
  proof (cases "co_amount c")
    case (Fin amount)
    have found: "triple (\<lambda>_. True) (findIdempotentTx o' e k f) (\<lambda>x s. \<forall>t. x = Some t \<longrightarrow> t \<in> set (txns s)) (\<lambda>_. True)" for o' e k f
      by (auto simp: triple_def findIdempotentTx_def abnd_def aquery_def aret_def athrow_def
          split: option.splits if_splits dest: find_row_Some)
    have any: "triple P m (\<lambda>_ _. True) (\<lambda>_. True)" for P and m :: "(db, 'x) act"
      by (auto simp: triple_def split: sum.splits)
    show ?thesis
      unfolding createCollection_def Fin Let_def
      by (simp, intro triple_abnd [OF any] triple_abnd [OF found] triple_option collection_row)
        (auto simp: triple_def act_simps replayCollection_def Let_def)
  qed (auto simp: createCollection_def triple_def act_simps)
  from tripleD [OF this TrueI assms(2)] have "\<forall>v. r = Inr v \<longrightarrow> (\<exists>t \<in> set (txns s'). cr_tx v = mapTx t)" by auto
  ultimately show ?thesis by (simp add: ledger_fixed_def)
qed

definition ex_collect :: collection_order where
  "ex_collect = \<lparr>co_orgId = ''acme'', co_env = Test, co_amount = Fin 20, co_currency = None, co_country = None,
     co_description = Some ''Ticket Gala'', co_customerName = None, co_customerEmail = None, co_channelId = None, co_method = None,
     co_asset = None, co_network = None, co_depositAddress = None, co_idempotencyKey = Some ''c-1''\<rparr>"

definition ex_collected :: "(js_error + collection_reply) \<times> db" where
  "ex_collected = createCollection (ex_sdk []) (ex_rails accept) ex_collect ex_live"

lemma ex_collected_run: "case ex_collected of (r, s) \<Rightarrow> (case r of Inl e \<Rightarrow> False | Inr v \<Rightarrow> tv_status (cr_tx v) = ''pending'')"
  by code_simp

theorem collection_request_moves_no_money_witness:
  "\<exists>v s'. ex_collected = (Inr v, s') \<and> balances s' = balances ex_live \<and> (\<exists>t \<in> set (txns s'). cr_tx v = mapTx t)"
proof -
  obtain v s' where run: "ex_collected = (Inr v, s')"
    using ex_collected_run by (cases ex_collected) (auto split: sum.splits)
  from collection_request_moves_no_money [OF ex_live_inv run [unfolded ex_collected_def]] run show ?thesis by auto
qed

section \<open>What the requests let through\<close>

text \<open>
  Two requests under one key that both passed the lookup: the second insertion is answered with the
  first request's row, the lock is the first one's, and the rail is called a second time under a new
  sequence. The bank is paid twice for one lock.
\<close>

definition ex_race :: "(js_error + payout_reply) \<times> (js_error + payout_reply) \<times> db" where
  "ex_race = (let p = ex_order Live 30 ''key-1''; f = payoutFingerprint (ex_sdk []) p 30 in
     case newPayout (ex_sdk []) (ex_rails accept) p None 30 f ex_live of (r1, s1) \<Rightarrow>
       (r1, newPayout (ex_sdk []) (ex_rails accept) p None 30 f s1))"

definition submitted_as :: "js_error + payout_reply \<Rightarrow> string option" where
  "submitted_as r = (case r of Inl e \<Rightarrow> None | Inr v \<Rightarrow>
     (case object_field (tv_metadata (pr_tx v) ''provider'') ''request'' of Some (JStr i) \<Rightarrow> Some i | _ \<Rightarrow> None))"

lemma racing_request_is_submitted_twice:
  "case ex_race of (r1, r2, s) \<Rightarrow> submitted_as r1 = Some ''u2'' \<and> submitted_as r2 = Some ''u5''
    \<and> map t_id (txns s) = [''u3''] \<and> map m_type (movements s) = [''funds_lock'', ''adjustment'']"
  by code_simp

text \<open>The fingerprint of a payout ignores the bank, the network and the name it is sent to.\<close>

lemma other_bank_is_replayed:
  "payoutFingerprint sd (p\<lparr>po_bankCode := b, po_network := n, po_networkId := i, po_channelId := ch, po_accountName := a\<rparr>) x
    = payoutFingerprint sd p x"
  by (simp add: payoutFingerprint_def account_type_def)

text \<open>
  A payout to a Dayfi tag debits the sender when it settles and credits nobody: the only wallet
  that the settlement of a payout changes is the payer's.
\<close>

lemma settled_payout_credits_nobody:
  assumes "ledger_inv s" and "simulateSettlement sd o' env i s = (Inr (SimulatedPayout v md b), s')"
  shows "\<exists>row \<in> set (txns s). t_id row = i \<and> (\<forall>k. k \<noteq> payout_account row \<longrightarrow> balances s' k = balances s k)"
proof -
  let ?in = "\<lparr>py_orgId = Some o', py_transactionId = i, py_providerEventId = Some (''simulate:payout:'' @ i),
    py_source = Some ''simulate'', py_status = None\<rparr>"
  have go: "abnd (finalizePayoutDebit sd ?in) (\<lambda>settled.
      abnd (fetchTxRow i) (\<lambda>updated. aret (SimulatedPayout (mapTx updated) (fst settled) (snd settled)))) s
      = (Inr (SimulatedPayout v md b), s')"
  proof (cases "find_row (\<lambda>t. (t_id t, t_org t, t_env t)) (i, o', Test) (txns s)")
    case None
    with assms(2) show ?thesis by (auto simp: simulateSettlement_def abnd_def [of "aquery _"] aquery_def athrow_def split: if_splits)
  next
    case (Some row)
    then have "t_id row = i" using find_row_Some [OF Some] by simp
    with assms(2) Some show ?thesis
      by (auto simp: simulateSettlement_def abnd_def [of "aquery _"] aquery_def athrow_def act_simps split: if_splits)
  qed
  then obtain settled s1 where run: "finalizePayoutDebit sd ?in s = (Inr settled, s1)"
    and rest: "abnd (fetchTxRow i) (\<lambda>updated. aret (SimulatedPayout (mapTx updated) (fst settled) (snd settled))) s1
      = (Inr (SimulatedPayout v md b), s')"
    by (rule abndE)
  from rest have "s' = s1"
    by (cases "find_row t_id i (txns s1)") (simp_all add: fetchTxRow_def run_tx_def bnd_def abnd_def aret_def)
  then have s': "balances s' = balances s1" by simp
  from run [unfolded finalizePayoutDebit_def] obtain t where t: "t \<in> set (txns s)" "t_id t = i"
    and fin: "\<exists>x. finalizePayoutRow sd ?in t x s = (Inr settled, s1)"
    by (rule loadTx_found) (auto split: if_splits option.splits simp: act_simps)
  then obtain x where "finalizePayoutRow sd ?in t x s = (Inr settled, s1)" by blast
  then have "payout_effect OpFinalize t x (fst settled) s s1"
    by (cases settled, simp only: finalizePayoutRow_def run_op.simps [symmetric]) (rule payout_run(1) [OF assms(1)], simp)
  then have "\<forall>k. k \<noteq> payout_account t \<longrightarrow> balances s1 k = balances s k"
    by (auto simp: payout_effect_def simp del: split_paired_All split: if_splits)
  with t s' show ?thesis by auto
qed

text \<open>
  An error of the rail's client counts as a refusal: when only the answer of an accepted request was
  lost, the lock is returned, and the provider's confirmation finds the payout released.
\<close>

lemma lost_answer_releases_the_lock:
  "case ex_lost of (r, s) \<Rightarrow> balances s (''acme'', Live, ''USDC'') = (100, 0, 0)
    \<and> map t_external_id (txns s) = [Some ''u2'']"
  using ex_lost_run unfolding prod.case_eq_if by blast

end
