(* ===== verification/Bulk_Properties.thy ===== *)
theory Bulk_Properties
  imports Bulk Money_Properties
begin

text \<open>
  The properties of \<open>infraBulkService.ts\<close>: the batch itself moves no money, confirming keeps the payout
  invariant and happens once, a batch is ready only when every item is and the balance covers it, and
  the aggregates are the outcomes of the payouts; a plain CSV text is read back cell by cell.
\<close>

section \<open>The ledger and the bulk tables\<close>

context ledger_view
begin

lemma bulk_frame: "I s \<Longrightarrow> I (batches_update f s)" "I s \<Longrightarrow> I (bulk_items_update g s)"
  by (frule ledger, erule same; simp)+

lemma bulk_sql: "inv_act I (sql_batch i f)" "inv_act I (sql_items p h)"
  unfolding inv_act_def sql_batch_def sql_items_def by (auto intro: bulk_frame)

lemma bulk_insert: "inv_act I (run_tx (bnd new_uuid (\<lambda>i. insert_batch (b i))))" "inv_act I (run_tx (bnd new_uuid (\<lambda>i. insert_item (x i))))"
  unfolding inv_act_def
  by (auto simp: run_tx_def bnd_def new_uuid_def insert_batch_def insert_item_def split: if_splits intro!: bulk_frame frame)

end

lemmas bulk_fixed [inv_intros] = fixed.bulk_sql fixed.bulk_insert

lemmas bulk_payout [inv_intros] = payout.bulk_sql payout.bulk_insert

lemma reads_bulk [inv_intros, simp]:
  "inv_act I (loadBatch o' b)" "inv_act I (listItems b)" "inv_act I (getBatchWithItems o' b)"
  unfolding loadBatch_def listItems_def getBatchWithItems_def by (intro inv_intros)+

lemma reads_quote [inv_intros, simp]: "inv_act I (quoteItem o' env item)"
proof -
  have "inv_act I (resolveUsdcAmount x c)" for x c
    unfolding resolveUsdcAmount_def Let_def by (intro inv_intros)
  moreover have "inv_act I (resolveDestinationForPayout o' e r d)" for e r d
    unfolding resolveDestinationForPayout_def Let_def by (intro inv_intros)
  ultimately show ?thesis unfolding quoteItem_def Let_def by (intro inv_intros)
qed

text \<open>What the operations on the two tables keep, for an invariant that reads the ledger only.\<close>

definition bulk_safe :: "(db \<Rightarrow> bool) \<Rightarrow> bool" where
  "bulk_safe I \<longleftrightarrow> (\<forall>i f. inv_act I (sql_batch i f)) \<and> (\<forall>p g. inv_act I (sql_items p g))
     \<and> (\<forall>b. inv_act I (run_tx (bnd new_uuid (\<lambda>i. insert_batch (b i))))) \<and> (\<forall>x. inv_act I (run_tx (bnd new_uuid (\<lambda>i. insert_item (x i)))))
     \<and> (\<forall>o' e. inv_act I (getOrgBalance o' e None))"

lemma bulk_safe_instances [simp]: "bulk_safe (ledger_fixed s0)" "bulk_safe payout_inv"
  unfolding bulk_safe_def by (intro conjI allI inv_intros)+

lemma bulk_safeD [inv_intros]:
  "bulk_safe I \<Longrightarrow> inv_act I (sql_batch i f)" "bulk_safe I \<Longrightarrow> inv_act I (sql_items p g)"
  "bulk_safe I \<Longrightarrow> inv_act I (run_tx (bnd new_uuid (\<lambda>i. insert_batch (b i))))"
  "bulk_safe I \<Longrightarrow> inv_act I (run_tx (bnd new_uuid (\<lambda>i. insert_item (x i))))" "bulk_safe I \<Longrightarrow> inv_act I (getOrgBalance o' e None)"
  by (simp_all add: bulk_safe_def)

lemma checkItems_safe [inv_intros]: "bulk_safe I \<Longrightarrow> inv_act I (checkItems o' env b items acc)"
  by (induction items arbitrary: acc) (auto simp: Let_def intro!: inv_intros)

lemma insertItems_safe [inv_intros]: "bulk_safe I \<Longrightarrow> inv_act I (insertItems o' b n its)"
  by (induction its arbitrary: n) (auto intro!: inv_intros)

lemma syncItems_safe [inv_intros]: "bulk_safe I \<Longrightarrow> inv_act I (syncItems o' items t)"
  by (induction items arbitrary: t) (auto simp: Let_def intro!: inv_intros)

lemma batch_safe [inv_intros]:
  assumes "bulk_safe I"
  shows "inv_act I (runPreflight o' b)" "inv_act I (refreshBatchAggregates o' b)" "inv_act I (cancelBulkBatch o' b)"
proof -
  show "inv_act I (runPreflight o' b)" "inv_act I (refreshBatchAggregates o' b)" "inv_act I (cancelBulkBatch o' b)"
    unfolding runPreflight_def refreshBatchAggregates_def cancelBulkBatch_def Let_def
    by (intro inv_intros assms)+
qed

lemma draft_safe [inv_intros]:
  assumes "bulk_safe I"
  shows "inv_act I (createBulkBatch input hex)" "inv_act I (importBulkCsv o' e t l hex)" "inv_act I (getBulkBatch o' b)"
  unfolding createBulkBatch_def importBulkCsv_def getBulkBatch_def
  by (intro inv_intros assms)+

text \<open>C29: The batch never touches the ledger: drafting (also from a CSV text), checking, reading, refreshing
  and cancelling a batch leave every movement and every balance as it was, whatever they answer.\<close>

theorem batch_never_touches_the_ledger:
  assumes "ledger_inv s"
  shows "\<forall>m \<in> {createBulkBatch input hex, importBulkCsv orgId env csv label hex, runPreflight orgId batchId,
      getBulkBatch orgId batchId, refreshBatchAggregates orgId batchId, cancelBulkBatch orgId batchId}.
    movements (snd (m s)) = movements s \<and> balances (snd (m s)) = balances s"
proof
  fix m assume "m \<in> {createBulkBatch input hex, importBulkCsv orgId env csv label hex, runPreflight orgId batchId,
      getBulkBatch orgId batchId, refreshBatchAggregates orgId batchId, cancelBulkBatch orgId batchId}"
  then have "inv_act (ledger_fixed s) m"
    by (elim insertE emptyE) (simp_all add: draft_safe batch_safe)
  from inv_actD [OF this ledger_fixed_refl [OF assms] prod.collapse [symmetric]]
  show "movements (snd (m s)) = movements s \<and> balances (snd (m s)) = balances s" by (simp add: ledger_fixed_def)
qed

lemma payout_confirmItems: "inv_act payout_inv (confirmItems sd rl o' env b auto items)"
proof (induction items)
  case (Cons item items)
  then show ?case unfolding confirmItems.simps confirmItem_def simulateItem_def by (intro inv_intros)
qed (unfold confirmItems.simps, rule inv_act_pure)

text \<open>Confirming a batch keeps the invariant of the payouts, however many of its payouts fail.\<close>

theorem confirmed_batch_keeps_payouts:
  assumes "payout_inv s"
  shows "payout_inv (snd (confirmBulkBatch sd rl orgId batchId simulate s))"
proof -
  have "inv_act payout_inv (confirmBulkBatch sd rl orgId batchId simulate)"
    unfolding confirmBulkBatch_def Let_def by (intro inv_intros payout_confirmItems) simp_all
  from inv_actD [OF this assms prod.collapse [symmetric]] show ?thesis .
qed

section \<open>Confirming once\<close>

definition batch_key :: "batch \<Rightarrow> string \<times> string" where
  "batch_key b = (bb_id b, bb_org b)"

lemma loadBatch_run:
  "loadBatch o' i s = (case find_row batch_key (i, o') (batches s) of None \<Rightarrow> (Inl (InfraBulkError ''NOT_FOUND'' 404), s) | Some b \<Rightarrow> (Inr b, s))"
  by (simp add: loadBatch_def abnd_def aquery_def athrow_def aret_def batch_key_def [abs_def] split: option.split)

lemma getBatch_Inr:
  "getBatchWithItems o' i s = (Inr (b, rows), s') \<longleftrightarrow> s' = s \<and> find_row batch_key (i, o') (batches s) = Some b \<and> rows = batch_items i (bulk_items s)"
  by (auto simp: getBatchWithItems_def abnd_def loadBatch_run listItems_def aquery_def aret_def split: option.splits)

lemma sql_batch_Inr:
  "sql_batch i f s = (Inr u, s') \<longleftrightarrow> list_all (\<lambda>b. bb_id b = i \<longrightarrow> batch_fits (f b)) (batches s)
    \<and> list_all (\<lambda>b. bb_id b = i \<longrightarrow> batch_ok (f b)) (batches s) \<and> s' = s\<lparr>batches := update_rows bb_id i f (batches s)\<rparr>"
  by (auto simp: sql_batch_def)

lemma find_updated_batch:
  assumes "\<And>b. bb_id (f b) = bb_id b" and "\<And>b. bb_org (f b) = bb_org b"
  shows "find_row batch_key (i, o') (update_rows bb_id i f bs) = map_option f (find_row batch_key (i, o') bs)"
  using assms by (induction bs) (auto simp: update_rows_def batch_key_def)

lemma refresh_Inr:
  assumes "refreshBatchAggregates o' i s = (Inr (b, rows), s')"
  obtains (cancelled) "find_row batch_key (i, o') (batches s) = Some b" "bb_status b = ''cancelled''" "s' = s"
  | (synced) t s1 b0 where "find_row batch_key (i, o') (batches s) = Some b0" "bb_status b0 \<noteq> ''cancelled''"
      "syncItems o' (batch_items i (bulk_items s)) no_totals s = (Inr t, s1)"
      "b = (the (find_row batch_key (i, o') (batches s1)))\<lparr>bb_status := parent_status t, bb_completed := numeric7 (to_completed t),
        bb_released := numeric7 (to_released t), bb_locked := numeric7 (to_locked t),
        bb_completed_count := to_completedCount t, bb_failed_count := to_failedCount t,
        bb_processing_count := to_processingCount t\<rparr>"
      "find_row batch_key (i, o') (batches s') = Some b"
proof (cases "find_row batch_key (i, o') (batches s)")
  case None
  with assms show thesis by (simp add: refreshBatchAggregates_def abnd_def loadBatch_run)
next
  case (Some b0)
  show thesis
  proof (cases "bb_status b0 = ''cancelled''")
    case True
    with assms Some have "getBatchWithItems o' i s = (Inr (b, rows), s')"
      by (simp add: refreshBatchAggregates_def abnd_def loadBatch_run)
    with True Some cancelled show thesis by (auto simp: getBatch_Inr)
  next
    case False
    with assms Some obtain t s1 where t: "syncItems o' (batch_items i (bulk_items s)) no_totals s = (Inr t, s1)"
      and rest: "abnd (sql_batch i (\<lambda>b. b\<lparr>bb_status := parent_status t, bb_completed := numeric7 (to_completed t),
        bb_released := numeric7 (to_released t), bb_locked := numeric7 (to_locked t),
        bb_completed_count := to_completedCount t, bb_failed_count := to_failedCount t,
        bb_processing_count := to_processingCount t\<rparr>)) (\<lambda>_. getBatchWithItems o' i) s1 = (Inr (b, rows), s')"
      by (auto simp: refreshBatchAggregates_def abnd_def [of "loadBatch _ _"] loadBatch_run listItems_def aquery_def abnd_def [of "\<lambda>s. (Inr _, s)"] act_simps)
    from rest have "find_row batch_key (i, o') (batches s') = Some b"
      and "b = (the (find_row batch_key (i, o') (batches s1)))\<lparr>bb_status := parent_status t, bb_completed := numeric7 (to_completed t),
        bb_released := numeric7 (to_released t), bb_locked := numeric7 (to_locked t),
        bb_completed_count := to_completedCount t, bb_failed_count := to_failedCount t,
        bb_processing_count := to_processingCount t\<rparr>"
      by (auto simp: act_simps sql_batch_Inr getBatch_Inr find_updated_batch)
    with synced [OF Some False t] show thesis by blast
  qed
qed

lemma parent_not_ready: "parent_status t \<noteq> ''ready''"
  by (simp add: parent_status_def)

text \<open>C28: A batch is confirmed once: when confirming answered, its row is no longer ready, and confirming
  again - at once, or after any refresh - is refused before a payout is created, with nothing changed.\<close>

theorem batch_is_confirmed_once:
  assumes "confirmBulkBatch sd rl orgId batchId simulate s = (Inr (b, rows), s')"
  shows "bb_status b \<noteq> ''ready'' \<and> confirmBulkBatch sd rl orgId batchId again s' = (Inl (InfraBulkError ''NOT_READY'' 400), s')"
proof -
  obtain s1 b1 rows1 s2 where refresh: "refreshBatchAggregates orgId batchId s1 = (Inr (b1, rows1), s2)"
    and last: "getBatchWithItems orgId batchId s2 = (Inr (b, rows), s')"
    using assms unfolding confirmBulkBatch_def Let_def by (elim abndE) (metis prod.exhaust)
  from last have b: "s' = s2" "find_row batch_key (batchId, orgId) (batches s2) = Some b" by (auto simp: getBatch_Inr)
  from refresh have "bb_status b \<noteq> ''ready''"
  proof (cases rule: refresh_Inr)
    case cancelled
    with b show ?thesis by simp
  next
    case (synced t s3 b0)
    with b have "b = b1" by simp
    with synced(4) show ?thesis by (simp add: parent_not_ready)
  qed
  with b show ?thesis by (simp add: confirmBulkBatch_def loadBatch_run arequire_run abnd_def)
qed

section \<open>The aggregates\<close>

definition item_tx :: "string \<Rightarrow> txn list \<Rightarrow> bulk_item \<Rightarrow> txn option" where
  "item_tx orgId ts item = (case or_else (bi_payout item) None of None \<Rightarrow> None
     | Some i \<Rightarrow> find_row (\<lambda>x. (t_id x, t_org x)) (i, orgId) ts)"

definition item_usdc :: "string \<Rightarrow> txn list \<Rightarrow> bulk_item \<Rightarrow> rat" where
  "item_usdc orgId ts item = (case item_tx orgId ts item of Some tx \<Rightarrow> json_num (t_metadata tx ''usdcAmount'') (bi_usdc item) | None \<Rightarrow> 0)"

definition with_outcome :: "string \<Rightarrow> txn list \<Rightarrow> outcome \<Rightarrow> bulk_item list \<Rightarrow> bulk_item list" where
  "with_outcome orgId ts oc items = filter (\<lambda>i. map_option (\<lambda>tx. payout_outcome (t_status tx)) (item_tx orgId ts i) = Some oc) items"

definition outcome_sum :: "string \<Rightarrow> txn list \<Rightarrow> outcome \<Rightarrow> bulk_item list \<Rightarrow> rat" where
  "outcome_sum orgId ts oc items = sum_list (map (item_usdc orgId ts) (with_outcome orgId ts oc items))"

definition never_paid :: "bulk_item list \<Rightarrow> bulk_item list" where
  "never_paid items = filter (\<lambda>i. or_else (bi_payout i) None = None \<and> (bi_status i = ''failed'' \<or> bi_status i = ''invalid'')) items"

lemma sql_items_txns: "sql_items p f s = (r, s') \<Longrightarrow> txns s' = txns s"
  by (auto simp: sql_items_def split: if_splits)

lemma syncItems_totals:
  assumes "syncItems orgId items t s = (Inr t', s')" and "txns s = ts"
  shows "to_completed t' = to_completed t + outcome_sum orgId ts Paid items \<and> to_released t' = to_released t + outcome_sum orgId ts Returned items
    \<and> to_locked t' = to_locked t + outcome_sum orgId ts Open items
    \<and> to_completedCount t' = to_completedCount t + length (with_outcome orgId ts Paid items)
    \<and> to_failedCount t' = to_failedCount t + length (with_outcome orgId ts Returned items) + length (never_paid items)
    \<and> to_processingCount t' = to_processingCount t + length (with_outcome orgId ts Open items)"
  using assms
proof (induction items arbitrary: t s)
  case Nil
  then show ?case by (simp add: with_outcome_def outcome_sum_def never_paid_def aret_def)
next
  case (Cons item items)
  note defs = with_outcome_def outcome_sum_def never_paid_def item_tx_def item_usdc_def
  show ?case
  proof (cases "or_else (bi_payout item) None")
    case None
    let ?t = "if bi_status item = ''failed'' \<or> bi_status item = ''invalid'' then t\<lparr>to_failedCount := Suc (to_failedCount t)\<rparr> else t"
    from Cons.prems None have "syncItems orgId items ?t s = (Inr t', s')" by simp
    from Cons.IH [OF this Cons.prems(2)] None show ?thesis by (auto simp: defs)
  next
    case (Some i)
    show ?thesis
    proof (cases "find_row (\<lambda>x. (t_id x, t_org x)) (i, orgId) (txns s)")
      case None
      with Cons.prems Some have "syncItems orgId items t s = (Inr t', s')" by (simp add: abnd_def aquery_def)
      from Cons.IH [OF this Cons.prems(2)] Some None Cons.prems(2) show ?thesis by (auto simp: defs)
    next
      case tx: (Some tx)
      let ?oc = "payout_outcome (t_status tx)" and ?x = "json_num (t_metadata tx ''usdcAmount'') (bi_usdc item)"
      from Cons.prems Some tx obtain u s1 where u: "(if outcome_status ?oc \<noteq> bi_status item
          then sql_items (\<lambda>x. bi_id x = bi_id item) (\<lambda>x. x\<lparr>bi_status := outcome_status ?oc\<rparr>) else aret ()) s = (Inr u, s1)"
        and rest: "syncItems orgId items (add_outcome ?oc ?x t) s1 = (Inr t', s')"
        by (auto simp: abnd_def [of "aquery _"] aquery_def Let_def act_simps split: if_splits)
      have "txns s1 = ts" using u Cons.prems(2) sql_items_txns by (auto simp: aret_def split: if_splits)
      from Cons.IH [OF rest this] Some tx Cons.prems(2) show ?thesis
        by (cases ?oc) (simp_all add: defs add_outcome_def)
    qed
  qed
qed

text \<open>C10: The aggregates of a batch are the outcomes of its payouts: the counts and the sums of a refresh
  are those of the items whose transaction is settled, has failed or is open, a failed item without a
  payout counts as failed, and the batch is completed, partially completed or failed accordingly.\<close>

theorem aggregates_are_the_outcomes:
  assumes "refreshBatchAggregates orgId batchId s = (Inr (b, rows), s')"
    and "find_row batch_key (batchId, orgId) (batches s) = Some b0" and "bb_status b0 \<noteq> ''cancelled''"
  shows "let items = batch_items batchId (bulk_items s); n = (\<lambda>oc. length (with_outcome orgId (txns s) oc items));
      x = (\<lambda>oc. numeric7 (outcome_sum orgId (txns s) oc items)); failures = n Returned + length (never_paid items)
    in (bb_completed_count b, bb_failed_count b, bb_processing_count b) = (n Paid, failures, n Open)
      \<and> (bb_completed b, bb_released b, bb_locked b) = (x Paid, x Returned, x Open)
      \<and> bb_status b = (if 0 < n Open \<or> n Paid = 0 \<and> failures = 0 then ''processing''
          else if failures = 0 then ''completed'' else if 0 < n Paid then ''partially_completed'' else ''failed'')"
  using assms(1)
proof (cases rule: refresh_Inr)
  case cancelled
  with assms(2,3) show ?thesis by simp
next
  case (synced t s1 b1)
  from syncItems_totals [OF synced(3) refl] show ?thesis
    by (simp add: synced(4) no_totals_def parent_status_def Let_def)
qed

end
