(* ===== verification/Bulk_Preflight.thy ===== *)
theory Bulk_Preflight
  imports Bulk_Properties
begin

text \<open>
  What the preflight of \<open>infraBulkService.ts\<close> promises: the rows it leaves ready, their quotes and the
  total that the available balance covers.
\<close>

section \<open>The preflight\<close>

text \<open>When no item was counted as invalid, every update of the pass wrote the status ready.\<close>

lemma count_invalid:
  "pa_invalid acc \<le> pa_invalid (count_item item q errors acc)"
  "pa_invalid (count_item item q errors acc) = pa_invalid acc \<Longrightarrow> errors = []"
  by (auto simp: count_item_def Let_def split: option.splits if_splits)

lemma checkItems_Cons:
  assumes "checkItems o' env b (item # items) acc s = (Inr acc', s')"
  obtains q s0 u s1 where "quoteItem o' env item s = (Inr q, s0)"
    "sql_items (\<lambda>i. bi_id i = bi_id item \<and> bi_batch i = b) (checked_item q (item_errors item q acc)) s0 = (Inr u, s1)"
    "checkItems o' env b items (count_item item q (item_errors item q acc) acc) s1 = (Inr acc', s')"
  using assms unfolding checkItems.simps Let_def by (elim abndE)

lemma checkItems_mono: "checkItems o' env b items acc s = (Inr acc', s') \<Longrightarrow> pa_invalid acc \<le> pa_invalid acc'"
proof (induction items arbitrary: acc s)
  case Nil
  then show ?case by (simp add: aret_def)
next
  case (Cons item items)
  from Cons.prems obtain q s1 where "checkItems o' env b items (count_item item q (item_errors item q acc) acc) s1 = (Inr acc', s')"
    by (rule checkItems_Cons)
  from Cons.IH [OF this] count_invalid(1) [of acc item q "item_errors item q acc"] show ?case by linarith
qed

lemma quoteItem_state:
  assumes "quoteItem o' env item s = (r, s')"
  shows "s' = s"
  using inv_actD [OF reads_quote, of "\<lambda>x. x = s"] assms by blast

section \<open>What a quote reads\<close>

text \<open>
  A quote reads recipients, destinations and rates, so the quotes of a preflight do not depend on the
  rows the same preflight has already written.
\<close>

definition keeps_quotes :: "(db \<Rightarrow> db) \<Rightarrow> bool" where
  "keeps_quotes f \<longleftrightarrow> (\<forall>s. recipients (f s) = recipients s \<and> destinations (f s) = destinations s \<and> fx_rates (f s) = fx_rates s)"

lemma destination_commutes [commute_intros]: "keeps_quotes f \<Longrightarrow> commutes f (resolveDestinationForPayout o' e r d)"
  unfolding resolveDestinationForPayout_def Let_def
  by (intro commute_intros) (auto simp: keeps_quotes_def split: option.split list.split intro!: commute_intros)

lemma quote_commutes: "keeps_quotes f \<Longrightarrow> commutes f (quoteItem o' e item)"
  unfolding quoteItem_def Let_def by (intro commute_intros usdc_commutes) (simp_all add: keeps_quotes_def)

lemma quote_same:
  assumes "keeps_quotes f" and "quoteItem o' e item (f s) = (Inr q, t)"
  shows "quoteItem o' e item s = (Inr q, s)"
  using quote_commutes [OF assms(1), of o' e item, unfolded commutes_def, rule_format, of s] assms(2)
    quoteItem_state [of o' e item s, OF prod.collapse [symmetric]] by (metis prod.collapse fst_conv)

text \<open>A quote without errors has a positive amount, the one the conversion of the item's amount gives.\<close>

lemma accepted_quote:
  assumes run: "quoteItem o' env item s = (Inr q, s')" and ok: "item_errors item q acc = []" and usdc: "iq_usdc q = Some x"
  obtains fx d where "fst (resolveUsdcAmount (bi_amount item) (bi_currency item) s) = Inr fx" "x = ua_usdcAmount fx" "0 < x"
    "iq_dest q = Some d"
proof -
  have "inv_act I (resolveDestinationForPayout o' e r d)" for I e r d
    unfolding resolveDestinationForPayout_def Let_def by (intro inv_intros)
  from inv_actD [OF this, of "\<lambda>t. t = s"] have same: "resolveDestinationForPayout o' e r d s = (res, t) \<Longrightarrow> t = s" for e r d res t
    by blast
  have "iq_errors q = []" using ok by (simp add: item_errors_def)
  with run usdc have "\<exists>fx d. fst (resolveUsdcAmount (bi_amount item) (bi_currency item) s) = Inr fx \<and> x = ua_usdcAmount fx \<and> 0 < x
      \<and> iq_dest q = Some d"
    unfolding quoteItem_def Let_def
    by (auto simp: abnd_def acatch_def aret_def split: option.splits sum.splits prod.splits if_splits
      dest!: same)
  with that show thesis by blast
qed

lemma checkItems_batches: "checkItems o' env b items acc s = (Inr acc', s') \<Longrightarrow> batches s' = batches s"
proof (induction items arbitrary: acc s)
  case Nil
  then show ?case by (simp add: aret_def)
next
  case (Cons item items)
  from Cons.prems obtain q s0 u s1 where q: "quoteItem o' env item s = (Inr q, s0)"
    and upd: "sql_items (\<lambda>i. bi_id i = bi_id item \<and> bi_batch i = b) (checked_item q (item_errors item q acc)) s0 = (Inr u, s1)"
    and rest: "checkItems o' env b items (count_item item q (item_errors item q acc) acc) s1 = (Inr acc', s')"
    by (rule checkItems_Cons)
  have "batches s1 = batches s0" using upd by (auto simp: sql_items_def split: if_splits)
  with Cons.IH [OF rest] quoteItem_state [OF q] show ?case by simp
qed

text \<open>
  The pass over the items, when none of them was counted as invalid: every row was rewritten from the
  quote of its item, the quotes add up to the total, and no instruction was seen twice.
\<close>

definition checked_rows :: "string \<Rightarrow> string set \<Rightarrow> (string \<Rightarrow> item_quote) \<Rightarrow> bulk_item list \<Rightarrow> bulk_item list" where
  "checked_rows b ids Q rows = map (\<lambda>i. if bi_id i \<in> ids \<and> bi_batch i = b then checked_item (Q (bi_id i)) [] i else i) rows"

definition passed :: "string \<Rightarrow> infra_env \<Rightarrow> db \<Rightarrow> (string \<Rightarrow> item_quote) \<Rightarrow> bulk_item \<Rightarrow> bool" where
  "passed o' env s Q i \<longleftrightarrow> quoteItem o' env i s = (Inr (Q (bi_id i)), s)
     \<and> (\<exists>acc. item_errors i (Q (bi_id i)) acc = []) \<and> iq_usdc (Q (bi_id i)) \<noteq> None"

definition instructions :: "(string \<Rightarrow> item_quote) \<Rightarrow> bulk_item list \<Rightarrow> (string \<times> string \<times> rat \<times> string) list" where
  "instructions Q items = map (\<lambda>i. duplicate_key i (Q (bi_id i))) items"

lemma checked_rows_step:
  assumes "k \<notin> ids"
  shows "checked_rows b ids Q (checked_rows b {k} (\<lambda>_. q) rows) = checked_rows b (insert k ids) (Q(k := q)) rows"
  using assms by (auto simp: checked_rows_def checked_item_def)

lemma counted_item:
  assumes "item_errors item q acc = []" and "pa_invalid (count_item item q [] acc) = pa_invalid acc"
  shows "\<exists>x. iq_usdc q = Some x \<and> pa_total (count_item item q [] acc) = pa_total acc + x"
    and "pa_seen (count_item item q [] acc) = duplicate_key item q # pa_seen acc" and "duplicate_key item q \<notin> set (pa_seen acc)"
proof -
  show new: "duplicate_key item q \<notin> set (pa_seen acc)" using assms(1) by (auto simp: item_errors_def split: if_splits)
  show "\<exists>x. iq_usdc q = Some x \<and> pa_total (count_item item q [] acc) = pa_total acc + x"
    "pa_seen (count_item item q [] acc) = duplicate_key item q # pa_seen acc"
    using assms(2) new by (auto simp: count_item_def Let_def split: option.splits)
qed

lemma checkItems_quotes:
  assumes "checkItems o' env b items acc (s\<lparr>bulk_items := rows\<rparr>) = (Inr acc', s')" and "pa_invalid acc' = pa_invalid acc"
    and "distinct (map bi_id items)"
  shows "\<exists>Q. s' = s\<lparr>bulk_items := checked_rows b (bi_id ` set items) Q rows\<rparr> \<and> (\<forall>i \<in> set items. passed o' env s Q i)
    \<and> pa_total acc' = pa_total acc + (\<Sum>i\<leftarrow>items. the (iq_usdc (Q (bi_id i))))
    \<and> distinct (instructions Q items) \<and> set (instructions Q items) \<inter> set (pa_seen acc) = {}"
  using assms
proof (induction items arbitrary: acc rows)
  case Nil
  then show ?case by (simp add: aret_def checked_rows_def instructions_def)
next
  case (Cons item items)
  let ?t = "s\<lparr>bulk_items := rows\<rparr>" and ?k = "bi_id item" and ?p = "\<lambda>i. bi_id i = bi_id item \<and> bi_batch i = b"
  from Cons.prems(1) obtain q s0 u s1 where q: "quoteItem o' env item ?t = (Inr q, s0)"
    and upd: "sql_items ?p (checked_item q (item_errors item q acc)) s0 = (Inr u, s1)"
    and rest: "checkItems o' env b items (count_item item q (item_errors item q acc) acc) s1 = (Inr acc', s')"
    by (rule checkItems_Cons)
  let ?e = "item_errors item q acc" and ?acc = "count_item item q [] acc"
  have inv: "pa_invalid (count_item item q ?e acc) = pa_invalid acc"
    using count_invalid(1) [of acc item q ?e] checkItems_mono [OF rest] Cons.prems(2) by linarith
  then have e: "?e = []" by (rule count_invalid(2))
  note counted = counted_item [OF e inv [unfolded e]]
  have "keeps_quotes (\<lambda>s. s\<lparr>bulk_items := rows\<rparr>)" by (simp add: keeps_quotes_def)
  from quote_same [OF this q] have quote: "quoteItem o' env item s = (Inr q, s)" .
  have "map (\<lambda>i. if ?p i then checked_item q [] i else i) rows = checked_rows b {?k} (\<lambda>_. q) rows"
    by (simp add: checked_rows_def)
  then have s1: "s1 = s\<lparr>bulk_items := checked_rows b {?k} (\<lambda>_. q) rows\<rparr>"
    using upd quoteItem_state [OF q] unfolding e sql_items_def by (simp split: if_splits)
  have ids: "?k \<notin> bi_id ` set items" "distinct (map bi_id items)" using Cons.prems(3) by simp_all
  from Cons.IH [OF rest [unfolded s1 e]] inv Cons.prems(2) ids(2) e obtain Q
    where Q: "s' = s\<lparr>bulk_items := checked_rows b (bi_id ` set items) Q (checked_rows b {?k} (\<lambda>_. q) rows)\<rparr>"
      "\<forall>i \<in> set items. passed o' env s Q i" "pa_total acc' = pa_total ?acc + (\<Sum>i\<leftarrow>items. the (iq_usdc (Q (bi_id i))))"
      "distinct (instructions Q items)" "set (instructions Q items) \<inter> set (pa_seen ?acc) = {}" by auto
  have other: "bi_id i \<noteq> ?k" if "i \<in> set items" for i using that ids(1) by (auto simp: image_iff)
  let ?Q = "Q(?k := q)"
  have same: "map (\<lambda>i. the (iq_usdc (?Q (bi_id i)))) items = map (\<lambda>i. the (iq_usdc (Q (bi_id i)))) items"
    "instructions ?Q items = instructions Q items" using other by (simp_all add: instructions_def)
  have every: "\<forall>i \<in> set (item # items). passed o' env s ?Q i"
    using Q(2) other quote e counted(1) by (auto simp: passed_def)
  have instr: "instructions ?Q (item # items) = duplicate_key item q # instructions Q items"
    using same(2) by (simp add: instructions_def)
  obtain x where x: "iq_usdc q = Some x" "pa_total ?acc = pa_total acc + x" using counted(1) by blast
  have total: "pa_total acc' = pa_total acc + (\<Sum>i\<leftarrow>item # items. the (iq_usdc (?Q (bi_id i))))"
    unfolding Q(3) x(2) list.map sum_list.Cons same(1) by (simp add: x(1))
  have rows: "s' = s\<lparr>bulk_items := checked_rows b (bi_id ` set (item # items)) ?Q rows\<rparr>"
    unfolding Q(1) checked_rows_step [OF ids(1)] by simp
  have "distinct (instructions ?Q (item # items))" "set (instructions ?Q (item # items)) \<inter> set (pa_seen acc) = {}"
    unfolding instr using Q(4,5) counted(2,3) by auto
  with rows every total show ?case by blast
qed

lemma set_sort_by [simp]: "set (sort_by le rows) = set rows"
proof -
  have "set (insert_by le r rs) = insert r (set rs)" for r and rs :: "'a list"
    by (induction rs) auto
  then show ?thesis by (induction rows) (simp_all add: sort_by_def)
qed

lemma batch_items_set [simp]: "set (batch_items b rows) = {i \<in> set rows. bi_batch i = b}"
  by (auto simp: batch_items_def)

definition instruction :: "bulk_item \<Rightarrow> string \<times> string \<times> rat \<times> string" where
  "instruction i = (or_str (bi_recipient i) [], or_str (bi_destination i) [], bi_amount i, to_upper (bi_currency i))"

lemma batch_items_checked: "batch_items b (checked_rows b ids Q rows) = checked_rows b ids Q (batch_items b rows)"
proof -
  define h where "h i = (if bi_id i \<in> ids \<and> bi_batch i = b then checked_item (Q (bi_id i)) [] i else i)" for i
  have keys: "bi_line (h i) = bi_line i" "bi_batch (h i) = bi_batch i" for i by (simp_all add: h_def checked_item_def)
  let ?le = "\<lambda>a b. bi_line a \<le> bi_line b"
  have ins: "insert_by ?le (h r) (map h rs) = map h (insert_by ?le r rs)" for r rs
    by (induction rs) (simp_all add: keys)
  have "sort_by ?le (map h rs) = map h (sort_by ?le rs)" for rs
    by (induction rs) (simp_all add: sort_by_def ins)
  moreover have "filter (\<lambda>i. bi_batch i = b) (map h rows) = map h (filter (\<lambda>i. bi_batch i = b) rows)"
    by (simp add: filter_map comp_def keys)
  ultimately show ?thesis by (simp add: batch_items_def checked_rows_def h_def [abs_def, symmetric])
qed

lemma distinct_batch_items: "distinct (map bi_id rows) \<Longrightarrow> distinct (map bi_id (batch_items b rows))"
proof -
  let ?le = "\<lambda>a b. bi_line a \<le> bi_line b"
  have "set (insert_by ?le r rs) = insert r (set rs)" for r rs by (induction rs) auto
  note ins = this
  have "distinct (map bi_id (insert_by ?le r rs)) \<longleftrightarrow> distinct (map bi_id (r # rs))" for r rs
    by (induction rs) (auto simp: ins)
  note one = this
  have sort: "sort_by ?le (r # rs) = insert_by ?le r (sort_by ?le rs)" for r rs by (simp add: sort_by_def)
  have "distinct (map bi_id (sort_by ?le rs)) \<longleftrightarrow> distinct (map bi_id rs)" for rs :: "bulk_item list"
  proof (induction rs)
    case (Cons r rs)
    then show ?case unfolding sort one by simp
  qed (simp add: sort_by_def)
  then show "distinct (map bi_id rows) \<Longrightarrow> ?thesis" by (simp add: batch_items_def distinct_map_filter)
qed

text \<open>The rows that are answered, and what the quotes of their items make of them.\<close>

lemma checked_row:
  assumes "passed o' env s Q i"
  obtains fx where "fst (resolveUsdcAmount (bi_amount i) (bi_currency i) s) = Inr fx"
    "bi_usdc (checked_item (Q (bi_id i)) [] i) = Some (ua_usdcAmount fx)" "0 < ua_usdcAmount fx"
    "the (iq_usdc (Q (bi_id i))) = ua_usdcAmount fx"
    "instruction (checked_item (Q (bi_id i)) [] i) = duplicate_key i (Q (bi_id i))"
proof -
  from assms obtain acc x where run: "quoteItem o' env i s = (Inr (Q (bi_id i)), s)" and ok: "item_errors i (Q (bi_id i)) acc = []"
    and x: "iq_usdc (Q (bi_id i)) = Some x" by (auto simp: passed_def)
  from accepted_quote [OF run ok x] obtain fx d where fx: "fst (resolveUsdcAmount (bi_amount i) (bi_currency i) s) = Inr fx"
    "x = ua_usdcAmount fx" "0 < x" "iq_dest (Q (bi_id i)) = Some d" .
  show thesis
    by (rule that [OF fx(1)])
      (use x fx usdc_on_grid [OF fx(1)] in \<open>simp_all add: checked_item_def instruction_def duplicate_key_def\<close>)
qed

lemma bulk_tables:
  "preserves batches new_uuid" "preserves batches (insert_wallet w)" "preserves bulk_items new_uuid" "preserves bulk_items (insert_wallet w)"
  by (auto simp: preserves_def tx_simps)

lemma bulk_ledger: "preserves batches (ensureWalletAccount i e a)" "preserves bulk_items (ensureWalletAccount i e a)"
  unfolding ensureWalletAccount_def Let_def by (intro preserves_intros bulk_tables)+

lemma balance_bulk:
  assumes "getOrgBalance i e a s = (r, s')"
  shows "batches s' = batches s \<and> bulk_items s' = bulk_items s"
proof (cases "ensureWalletAccount i e a s")
  case (Inl x)
  with assms show ?thesis by (simp add: getOrgBalance_def abnd_def run_tx_def)
next
  case (Inr y)
  obtain w s1 where y: "y = (w, s1)" by (cases y)
  with Inr assms have "s' = s1" by (auto simp: getOrgBalance_def abnd_def run_tx_def arequire_run aret_def split: if_splits)
  with Inr y bulk_ledger show ?thesis by (auto simp: preserves_def)
qed

lemma ledger_bulk [simp]:
  "balances (batches_update f s) = balances s" "balances (bulk_items_update g s) = balances s"
  "ledger_inv (batches_update f s) = ledger_inv s" "ledger_inv (bulk_items_update g s) = ledger_inv s"
  by (simp_all add: balances_def ledger_inv_def org_exists_def)

lemma on_grid_sum_list: "(\<And>i. i \<in> set xs \<Longrightarrow> on_grid (f i)) \<Longrightarrow> on_grid (\<Sum>i\<leftarrow>xs. f i)"
  by (induction xs) simp_all

lemma grid_slack:
  assumes "on_grid x" and "on_grid y" and "x \<le> y + 1 / 1000000000"
  shows "x \<le> y"
proof -
  from assms(1,2) obtain m n :: int where mn: "x = of_int m / 10000000" "y = of_int n / 10000000" unfolding on_grid_iff by blast
  have "m \<le> n"
  proof (rule ccontr)
    assume "\<not> m \<le> n"
    then have "of_int (n + 1) \<le> (of_int m :: rat)" by (simp only: of_int_le_iff)
    with assms(3) mn show False by (simp add: field_simps)
  qed
  then show ?thesis unfolding mn by (simp add: divide_right_mono)
qed

lemma balances_grid: "ledger_inv s \<Longrightarrow> on_grid (fst (balances s k))"
  by (auto simp: balances_def row_balance_def wallet_grid_def split: option.splits dest!: find_row_Some ledger_invD(6))

text \<open>C16: Where item ids are unique, as the primary key of the table keeps them, a batch that the preflight
  leaves ready has at least one item, the rows it answers are the batch's items, and every one of them is
  ready and carries the positive USDC amount that its own amount converts to; no two of them give the
  same instruction (recipient, destination, amount, currency); and the total stored with the batch is the
  sum of these USDC amounts and is at most the balance that is available to the organisation.\<close>

theorem ready_batch_is_covered:
  assumes "ledger_inv s" and ids: "distinct (map bi_id (bulk_items s))"
    and "runPreflight orgId batchId s = (Inr (b, rows), s')" and "bb_status b = ''ready''"
  shows "rows \<noteq> [] \<and> map bi_id rows = map bi_id (batch_items batchId (bulk_items s))
    \<and> (\<forall>i \<in> set rows. bi_status i = ''ready'' \<and> (\<exists>fx. fst (resolveUsdcAmount (bi_amount i) (bi_currency i) s) = Inr fx
        \<and> bi_usdc i = Some (ua_usdcAmount fx) \<and> 0 < ua_usdcAmount fx))
    \<and> distinct (map instruction rows)
    \<and> bb_total b = (\<Sum>i\<leftarrow>rows. the (bi_usdc i))
    \<and> bb_total b \<le> fst (balances s (orgId, bb_env b, ''USDC''))"
proof -
  let ?acc = "\<lparr>pa_seen = [], pa_total = 0, pa_valid = 0, pa_invalid = 0\<rparr>" and ?f = "\<lambda>b. b\<lparr>bb_status := ''validating''\<rparr>"
    and ?items = "batch_items batchId (bulk_items s)"
  let ?bs = "update_rows bb_id batchId ?f (batches s)"
  let ?g = "\<lambda>acc available. \<lambda>b. b\<lparr>bb_status := (if preflight_ok acc available then ''ready'' else ''draft''),
      bb_total := round7 (pa_total acc), bb_fee := 0, bb_preflight := preflight_json acc available (length ?items)\<rparr>"
  from assms(3) obtain b0 t0 u1 t1 u2 s1 items t2 acc s2 v s3 u3 s4 where load: "loadBatch orgId batchId s = (Inr b0, t0)"
    and req: "arequire (List.member [''draft'', ''validating'', ''ready''] (bb_status b0)) (InfraBulkError ''INVALID_STATE'' 400) t0 = (Inr u1, t1)"
    and val: "sql_batch batchId ?f t1 = (Inr u2, s1)" and list: "listItems batchId s1 = (Inr items, t2)"
    and check: "checkItems orgId (bb_env b0) batchId items ?acc t2 = (Inr acc, s2)"
    and bal: "getOrgBalance orgId (env_name (bb_env b0)) None s2 = (Inr v, s3)"
    and set_row: "sql_batch batchId (\<lambda>b. b\<lparr>bb_status := (if preflight_ok acc (b_available v) then ''ready'' else ''draft''),
      bb_total := round7 (pa_total acc), bb_fee := 0, bb_preflight := preflight_json acc (b_available v) (length items)\<rparr>) s3 = (Inr u3, s4)"
    and last: "getBatchWithItems orgId batchId s4 = (Inr (b, rows), s')"
    unfolding runPreflight_def by (elim abndE)
  have t0: "find_row batch_key (batchId, orgId) (batches s) = Some b0" "t0 = s"
    using load by (auto simp: loadBatch_run split: option.splits)
  have t1: "t1 = s" using req t0 by (simp add: arequire_run split: if_splits)
  have s1: "s1 = s\<lparr>batches := ?bs\<rparr>" using val t1 by (simp add: sql_batch_Inr)
  have t2: "t2 = s1" "items = ?items" using list s1 by (simp_all add: listItems_def aquery_def)
  note row = last [unfolded getBatch_Inr]
  have s4: "s4 = s3\<lparr>batches := update_rows bb_id batchId (?g acc (b_available v)) (batches s3)\<rparr>"
    using set_row t2 by (simp add: sql_batch_Inr)
  have s3: "batches s3 = batches s2" "bulk_items s3 = bulk_items s2" using balance_bulk [OF bal] by simp_all
  have s2: "batches s2 = batches s1" using checkItems_batches [OF check] t2 by simp
  have b: "b = ?g acc (b_available v) (?f b0)"
    using row unfolding s4 by (simp add: s3 s2 s1 find_updated_batch t0(1))
  with assms(4) have ok: "preflight_ok acc (b_available v)" by (simp split: if_splits)
  then have inv: "pa_invalid acc = pa_invalid ?acc" by (simp add: preflight_ok_def)
  have check': "checkItems orgId (bb_env b0) batchId ?items ?acc (s1\<lparr>bulk_items := bulk_items s\<rparr>) = (Inr acc, s2)"
    using check unfolding t2 by (simp add: s1)
  from checkItems_quotes [OF check' inv distinct_batch_items [OF ids]] obtain Q
    where rs: "s2 = s1\<lparr>bulk_items := checked_rows batchId (bi_id ` set ?items) Q (bulk_items s)\<rparr>"
      and passed: "\<forall>i \<in> set ?items. passed orgId (bb_env b0) s1 Q i"
      and total: "pa_total acc = (\<Sum>i\<leftarrow>?items. the (iq_usdc (Q (bi_id i))))" and dup: "distinct (instructions Q ?items)" by auto
  let ?h = "\<lambda>i. checked_item (Q (bi_id i)) [] i"
  have rows: "rows = map ?h ?items"
    using row unfolding s4 by (simp add: s3 rs batch_items_checked) (simp add: checked_rows_def)
  have resolve: "fst (resolveUsdcAmount x c s1) = fst (resolveUsdcAmount x c s)" for x c
    by (rule usdc_by_rates) (simp add: s1)
  have item: "\<exists>fx. fst (resolveUsdcAmount (bi_amount i) (bi_currency i) s) = Inr fx \<and> bi_usdc (?h i) = Some (ua_usdcAmount fx)
      \<and> 0 < ua_usdcAmount fx \<and> the (iq_usdc (Q (bi_id i))) = ua_usdcAmount fx \<and> instruction (?h i) = duplicate_key i (Q (bi_id i))"
    if "i \<in> set ?items" for i
    using checked_row [OF bspec [OF passed that]] unfolding resolve by metis
  have kept: "bi_amount (?h i) = bi_amount i" "bi_currency (?h i) = bi_currency i" "bi_status (?h i) = ''ready''" "bi_id (?h i) = bi_id i" for i
    by (simp_all add: checked_item_def)
  have each: "\<forall>i \<in> set rows. bi_status i = ''ready'' \<and> (\<exists>fx. fst (resolveUsdcAmount (bi_amount i) (bi_currency i) s) = Inr fx
      \<and> bi_usdc i = Some (ua_usdcAmount fx) \<and> 0 < ua_usdcAmount fx)"
    unfolding rows list.set_map ball_simps kept using item by blast
  have sum: "(\<Sum>i\<leftarrow>rows. the (bi_usdc i)) = pa_total acc"
    unfolding rows total map_map comp_def by (rule arg_cong [where f = sum_list], rule map_cong [OF refl]) (use item in force)
  have "map instruction rows = instructions Q ?items"
    unfolding rows instructions_def map_map comp_def by (rule map_cong [OF refl]) (use item in blast)
  with dup have instr: "distinct (map instruction rows)" by simp
  have grid: "on_grid (pa_total acc)"
    unfolding sum [symmetric] by (rule on_grid_sum_list) (use each usdc_on_grid in force)
  have "ledger_inv s2" and bals: "balances s2 = balances s" using assms(1) by (simp_all add: rs s1)
  from getOrgBalance_view [OF this(1) bal] have avail: "fst (balances s (orgId, bb_env b, ''USDC'')) = b_available v"
    by (simp add: bals b)
  have "on_grid (b_available v)" unfolding avail [symmetric] by (rule balances_grid [OF assms(1)])
  from grid_slack [OF grid this] ok have cover: "pa_total acc \<le> b_available v" by (simp add: preflight_ok_def grid)
  have "?items \<noteq> []"
  proof
    assume "?items = []"
    with check' have "acc = ?acc" by (simp add: aret_def)
    with ok show False by (simp add: preflight_ok_def)
  qed
  moreover have "bb_total b = pa_total acc" by (simp add: b grid)
  ultimately show ?thesis using each sum instr cover avail by (simp add: rows kept comp_def)
qed

end
