(* ===== verification/Bulk_Csv.thy ===== *)
theory Bulk_Csv
  imports Bulk
begin

text \<open>
  Reading a CSV text (\<open>parseBulkCsv\<close>): a table of plain cells is read back cell by cell; a quoted
  comma is not.
\<close>

fun join_with :: "char \<Rightarrow> string list \<Rightarrow> string" where
  "join_with c [] = []"
| "join_with c [x] = x"
| "join_with c (x # y # zs) = x @ c # join_with c (y # zs)"

definition csv_text :: "string list list \<Rightarrow> string" where
  "csv_text table = join_with LF (map (join_with (CHR '','')) table)"

text \<open>A plain cell has text, no blank at its ends, and none of the characters CSV reserves.\<close>

definition plain_cell :: "string \<Rightarrow> bool" where
  "plain_cell c \<longleftrightarrow> c \<noteq> [] \<and> \<not> is_ws (hd c) \<and> \<not> is_ws (last c) \<and> list_all (\<lambda>x. x \<noteq> DQ \<and> x \<noteq> LF \<and> x \<noteq> CR \<and> x \<noteq> CHR '','') c"

definition plain_table :: "string list list \<Rightarrow> bool" where
  "plain_table table \<longleftrightarrow> table \<noteq> [] \<and> list_all (\<lambda>r. r \<noteq> [] \<and> list_all plain_cell r) table"

lemma special_chars: "LF \<noteq> DQ" "LF \<noteq> CR" "DQ \<noteq> CHR '',''" "LF \<noteq> CHR '',''" "CR \<noteq> CHR '',''" "CR \<noteq> DQ" "\<not> is_ws (CHR '','')"
  by code_simp+

section \<open>Joining\<close>

lemma join_ends:
  assumes "xs \<noteq> []" and "\<forall>x \<in> set xs. x \<noteq> [] \<and> \<not> is_ws (hd x) \<and> \<not> is_ws (last x)"
  shows "join_with c xs \<noteq> [] \<and> \<not> is_ws (hd (join_with c xs)) \<and> \<not> is_ws (last (join_with c xs))"
  using assms by (induction c xs rule: join_with.induct) auto

lemma join_chars: "set (join_with c xs) \<subseteq> insert c (\<Union> (set ` set xs))"
  by (induction c xs rule: join_with.induct) auto

lemma plain_line:
  assumes "r \<noteq> []" and "list_all plain_cell r"
  defines "l \<equiv> join_with (CHR '','') r"
  shows "l \<noteq> []" "\<not> is_ws (hd l)" "\<not> is_ws (last l)" "trim l = l" "list_all (\<lambda>x. x \<noteq> DQ \<and> x \<noteq> LF \<and> x \<noteq> CR) l"
proof -
  have "\<forall>x \<in> set r. x \<noteq> [] \<and> \<not> is_ws (hd x) \<and> \<not> is_ws (last x)"
    using assms(2) by (auto simp: list_all_iff plain_cell_def)
  from join_ends [OF assms(1) this, of "CHR '',''"]
  show ends: "l \<noteq> []" "\<not> is_ws (hd l)" "\<not> is_ws (last l)" by (simp_all add: l_def)
  from trim_id [OF ends] show "trim l = l" .
  show "list_all (\<lambda>x. x \<noteq> DQ \<and> x \<noteq> LF \<and> x \<noteq> CR) l"
    unfolding list_all_iff
  proof
    fix x assume "x \<in> set l"
    with join_chars [of "CHR '',''" r] consider "x = CHR '',''" | c where "c \<in> set r" "x \<in> set c" by (auto simp: l_def)
    then show "x \<noteq> DQ \<and> x \<noteq> LF \<and> x \<noteq> CR"
    proof cases
      case 1
      with special_chars show ?thesis by metis
    next
      case 2
      with assms(2) show ?thesis by (simp add: list_all_iff plain_cell_def)
    qed
  qed
qed

section \<open>The first pass\<close>

lemma lines_step:
  "c \<noteq> DQ \<Longrightarrow> c \<noteq> LF \<Longrightarrow> c \<noteq> CR \<Longrightarrow> csv_lines (c # cs) cur q lines = csv_lines cs (cur @ [c]) q lines"
  "csv_lines (LF # cs) cur False lines = csv_lines cs [] False (push_line cur lines)"
  using special_chars by (cases cs; simp)+

lemma lines_plain:
  "list_all (\<lambda>x. x \<noteq> DQ \<and> x \<noteq> LF \<and> x \<noteq> CR) l \<Longrightarrow> csv_lines (l @ cs) cur q lines = csv_lines cs (cur @ l) q lines"
  by (induction l arbitrary: cur) (simp_all add: lines_step)

lemma csv_lines_join:
  assumes "list_all (\<lambda>l. l \<noteq> [] \<and> trim l = l \<and> list_all (\<lambda>x. x \<noteq> DQ \<and> x \<noteq> LF \<and> x \<noteq> CR) l) ls"
  shows "csv_lines (join_with LF ls) [] False lines = lines @ ls"
  using assms
proof (induction LF ls arbitrary: lines rule: join_with.induct)
  case (2 l)
  then show ?case using lines_plain [of l "[]" "[]" False lines] by simp
next
  case (3 l l' ls)
  then have "csv_lines (join_with LF (l # l' # ls)) [] False lines = csv_lines (join_with LF (l' # ls)) [] False (push_line l lines)"
    by (simp add: lines_plain lines_step)
  with 3 show ?case by (simp add: push_line_def)
qed simp

section \<open>The second pass\<close>

lemma cells_step:
  "c \<noteq> DQ \<Longrightarrow> c \<noteq> CHR '','' \<Longrightarrow> csv_cells (c # cs) cell q = csv_cells cs (cell @ [c]) q"
  "csv_cells (CHR '','' # cs) cell False = trim cell # csv_cells cs [] False"
  using special_chars by (cases cs; simp)+

lemma cells_plain: "plain_cell c \<Longrightarrow> csv_cells (c @ cs) cell q = csv_cells cs (cell @ c) q"
proof -
  have "list_all (\<lambda>x. x \<noteq> DQ \<and> x \<noteq> CHR '','') c \<Longrightarrow> csv_cells (c @ cs) cell q = csv_cells cs (cell @ c) q"
    by (induction c arbitrary: cell) (simp_all add: cells_step)
  then show "plain_cell c \<Longrightarrow> ?thesis" by (simp add: plain_cell_def list_all_iff)
qed

lemma splitRow_join: "r \<noteq> [] \<Longrightarrow> list_all plain_cell r \<Longrightarrow> splitRow (join_with (CHR '','') r) = r"
  unfolding splitRow_def
proof (induction "CHR '',''" r rule: join_with.induct)
  case (2 c)
  then show ?case using cells_plain [of c "[]" "[]" False] by (simp add: plain_cell_def trim_id)
next
  case (3 c c' cs)
  then show ?case by (simp add: cells_plain cells_step) (simp add: plain_cell_def trim_id)
qed simp

section \<open>The table\<close>

definition header_name :: "string \<Rightarrow> string" where
  "header_name h = underscore_ws (to_lower h)"

lemma csv_row_cell:
  assumes "distinct (map header_name header)" and "length cells = length header" and "j < length header"
  shows "csv_row (map header_name header) cells (header_name (header ! j)) = Some (cells ! j)"
proof -
  have "distinct (map fst (rev (zip (map header_name header) cells)))"
    using assms(1,2) by (simp add: rev_map [symmetric])
  moreover have "(header_name (header ! j), cells ! j) \<in> set (rev (zip (map header_name header) cells))"
    using assms(2,3) by (auto simp: in_set_zip intro!: exI [of _ j])
  ultimately show ?thesis using assms(2) by (simp add: csv_row_def map_of_eq_Some_iff del: set_rev)
qed

text \<open>C30: A table of plain cells survives the CSV text: of a header of distinct names and rows of its length,
  written line by line with commas, the parser returns one record per row, and each record holds the
  row's cell under the column's name.\<close>

theorem plain_csv_is_read_back:
  assumes "plain_table (header # rows)" and "distinct (map header_name header)" and "list_all (\<lambda>r. length r = length header) rows"
  shows "\<exists>parsed. parseBulkCsv (csv_text (header # rows)) = Inr parsed \<and> length parsed = length rows
    \<and> (\<forall>k < length rows. \<forall>j < length header. (parsed ! k) (header_name (header ! j)) = Some (rows ! k ! j))"
proof -
  let ?line = "join_with (CHR '','')" and ?rows = "map (csv_row (map header_name header)) rows"
  have plain: "r \<noteq> []" "list_all plain_cell r" if "r \<in> set (header # rows)" for r
    using assms(1) that by (auto simp: plain_table_def list_all_iff)
  note line = plain_line [OF plain]
  have table: "join_with LF (map ?line (header # rows)) \<noteq> [] \<and> \<not> is_ws (hd (join_with LF (map ?line (header # rows))))
      \<and> \<not> is_ws (last (join_with LF (map ?line (header # rows))))"
    by (rule join_ends) (use line in auto)
  then have trimmed: "trim (csv_text (header # rows)) = csv_text (header # rows)" "csv_text (header # rows) \<noteq> []"
    unfolding csv_text_def by (blast intro: trim_id)+
  have lines: "csv_lines (csv_text (header # rows)) [] False [] = map ?line (header # rows)"
  proof -
    have "list_all (\<lambda>l. l \<noteq> [] \<and> trim l = l \<and> list_all (\<lambda>x. x \<noteq> DQ \<and> x \<noteq> LF \<and> x \<noteq> CR) l) (map ?line (header # rows))"
      unfolding list.pred_map
    proof (rule list_all_iff [THEN iffD2], rule ballI)
      fix r assume r: "r \<in> set (header # rows)"
      show "((\<lambda>l. l \<noteq> [] \<and> trim l = l \<and> list_all (\<lambda>x. x \<noteq> DQ \<and> x \<noteq> LF \<and> x \<noteq> CR) l) \<circ> ?line) r"
        unfolding comp_def by (intro conjI line [OF r r])
    qed
    from csv_lines_join [OF this, of "[]"] show ?thesis by (simp only: csv_text_def append_Nil)
  qed
  have split: "splitRow (?line r) = r" if "r \<in> set (header # rows)" for r
    using splitRow_join plain [OF that] by blast
  have all: "filter (\<lambda>l. trim l \<noteq> []) (map ?line rows) = map ?line rows"
    using line(1,4) by (simp add: filter_id_conv)
  have names: "map (\<lambda>h. underscore_ws (to_lower h)) header = map header_name header"
    by (simp add: header_name_def)
  have "parseBulkCsv (csv_text (header # rows)) = Inr ?rows"
    using trimmed lines split plain(1) all by (simp add: parseBulkCsv_def names Let_def comp_def cong: map_cong)
  moreover have "(?rows ! k) (header_name (header ! j)) = Some (rows ! k ! j)" if "k < length rows" "j < length header" for k j
    using csv_row_cell [OF assms(2), of "rows ! k" j] assms(3) that by (simp add: list_all_iff)
  ultimately show ?thesis by auto
qed

definition ex_table :: "string list list" where
  "ex_table = [[''Recipient ID'', ''Amount''], [''u0'', ''25''], [''u7'', ''12.5'']]"

theorem plain_csv_is_read_back_witness:
  "\<exists>parsed. parseBulkCsv (csv_text ex_table) = Inr parsed \<and> length parsed = 2
    \<and> (parsed ! 1) ''recipient_id'' = Some ''u7'' \<and> (parsed ! 1) ''amount'' = Some ''12.5''"
proof -
  have facts: "plain_table ex_table" "distinct (map header_name (hd ex_table))"
    "list_all (\<lambda>r. length r = length (hd ex_table)) (tl ex_table)"
    "header_name ''Recipient ID'' = ''recipient_id''" "header_name ''Amount'' = ''amount''"
    by code_simp+
  have table: "ex_table = hd ex_table # tl ex_table" by (simp add: ex_table_def)
  from plain_csv_is_read_back [of "hd ex_table" "tl ex_table", folded table] facts(1-3)
  obtain parsed where parsed: "parseBulkCsv (csv_text ex_table) = Inr parsed" "length parsed = length (tl ex_table)"
    and cell: "\<And>k j. k < length (tl ex_table) \<Longrightarrow> j < length (hd ex_table) \<Longrightarrow>
      (parsed ! k) (header_name (hd ex_table ! j)) = Some (tl ex_table ! k ! j)" by blast
  from cell [of 1 0] cell [of 1 1] facts(4,5) parsed show ?thesis by (auto simp: ex_table_def)
qed

text \<open>
  The comment of the parser promises quoted fields. The first pass drops the quotes while it looks for
  the ends of the lines, so the second pass cuts a quoted cell at its comma, and the cells behind it
  move one column to the right.
\<close>

lemma quoted_comma_splits_the_cell:
  "case parseBulkCsv (''name,amount'' @ [LF, DQ] @ ''Ada, Ltd'' @ [DQ] @ '',25'') of Inl e \<Rightarrow> False
    | Inr rows \<Rightarrow> map (\<lambda>r. (r ''name'', r ''amount'')) rows = [(Some ''Ada'', Some ''Ltd'')]"
  by code_simp

end
