(* ===== verification/Bulk_Examples.thy ===== *)
theory Bulk_Examples
  imports Bulk_Preflight Bulk_Csv Recipient_Properties
begin

text \<open>
  A batch of two payouts from its draft to its outcome: checked, confirmed on TEST with simulated
  settlements, and refused the second time. The properties of the batches are applied to it.
\<close>

definition ex_payees :: db where
  "ex_payees = snd (createRecipient ex_recipient ex_funded)"

definition ex_item :: "string \<Rightarrow> rat \<Rightarrow> bulk_input" where
  "ex_item rec amount = \<lparr>bu_recipientId = rec, bu_destinationId = None, bu_amount = Fin amount, bu_currency = None, bu_instruction = Map.empty\<rparr>"

definition ex_batch :: "bulk_input list \<Rightarrow> batch_input" where
  "ex_batch items = \<lparr>ba_orgId = ''acme'', ba_environment = ''test'', ba_label = Some ''May'', ba_source = None, ba_items = items,
     ba_runPreflight = False\<rparr>"

definition ex_drafted :: "(js_error + batch \<times> bulk_item list) \<times> db" where
  "ex_drafted = createBulkBatch (ex_batch [ex_item ''u2'' 25, ex_item ''u2'' (25 / 2)]) ''ab12'' ex_payees"

definition ex_checked :: "(js_error + batch \<times> bulk_item list) \<times> db" where
  "ex_checked = runPreflight ''acme'' ''u4'' (snd ex_drafted)"

definition ex_confirmed :: "(js_error + batch \<times> bulk_item list) \<times> db" where
  "ex_confirmed = confirmBulkBatch (ex_sdk []) (ex_rails accept) ''acme'' ''u4'' True (snd ex_checked)"

lemma ex_drafted_run: "case ex_drafted of (r, s) \<Rightarrow> map bb_id (batches s) = [''u4''] \<and> map bb_status (batches s) = [''draft'']
    \<and> map bi_line (bulk_items s) = [2, 1] \<and> distinct (map bi_id (bulk_items s)) \<and> ledger_inv s"
  by code_simp

lemma ex_checked_run: "case ex_checked of (r, s) \<Rightarrow> (case r of Inl e \<Rightarrow> False | Inr (b, rows) \<Rightarrow> bb_status b = ''ready'' \<and> bb_total b = 75 / 2
    \<and> bb_env b = Test \<and> length rows = 2) \<and> ledger_inv s"
  by code_simp

lemma ex_confirmed_run: "case ex_confirmed of (r, s) \<Rightarrow> (case r of Inl e \<Rightarrow> False | Inr (b, rows) \<Rightarrow> bb_status b = ''completed''
    \<and> bb_completed_count b = 2 \<and> bb_completed b = 75 / 2) \<and> balances s (''acme'', Test, ''USDC'') = (125 / 2, 0, 0)
    \<and> (case find_row (\<lambda>b. (bb_id b, bb_org b)) (''u4'', ''acme'') (batches s) of None \<Rightarrow> False | Some b \<Rightarrow> bb_status b \<noteq> ''cancelled'')
    \<and> succeeded (refreshBatchAggregates ''acme'' ''u4'' s)"
  by code_simp

text \<open>The witnesses of the properties.\<close>

lemma ex_payees_facts:
  "ledger_inv ex_payees" "list_all (\<lambda>m. \<not> is_finalize (m_key m) \<and> \<not> is_release (m_key m)) (movements ex_payees)" "txns ex_payees = []"
  by code_simp+

lemma ex_checked_payouts: "payout_inv (snd ex_checked)"
proof -
  have start: "payout_inv ex_payees"
    using ex_payees_facts by (simp add: payout_inv_def resolved_ok_def list_all_iff)
  have draft: "inv_act payout_inv (createBulkBatch input hex)" for input hex by (rule draft_safe) simp
  have check: "inv_act payout_inv (runPreflight o' b)" for o' b by (rule batch_safe) simp
  from inv_actD [OF check inv_actD [OF draft start prod.collapse [symmetric]] prod.collapse [symmetric]]
  show ?thesis by (simp add: ex_checked_def ex_drafted_def)
qed

theorem batch_never_touches_the_ledger_witness: "movements (snd ex_drafted) = movements ex_payees \<and> balances (snd ex_drafted) = balances ex_payees"
  using batch_never_touches_the_ledger [OF ex_payees_facts(1), of "ex_batch [ex_item ''u2'' 25, ex_item ''u2'' (25 / 2)]" "''ab12''"]
  by (simp add: ex_drafted_def del: split_paired_All)

theorem confirmed_batch_keeps_payouts_witness: "payout_inv (snd ex_confirmed)"
  unfolding ex_confirmed_def by (rule confirmed_batch_keeps_payouts) (rule ex_checked_payouts)

theorem batch_is_confirmed_once_witness:
  "confirmBulkBatch (ex_sdk []) (ex_rails accept) ''acme'' ''u4'' True (snd ex_confirmed) = (Inl (InfraBulkError ''NOT_READY'' 400), snd ex_confirmed)"
proof -
  obtain b rows s where run: "ex_confirmed = (Inr (b, rows), s)"
    using ex_confirmed_run by (cases ex_confirmed) (auto split: sum.splits)
  from batch_is_confirmed_once [OF run [unfolded ex_confirmed_def]] show ?thesis by (simp add: run)
qed

definition ex_refreshed :: "(js_error + batch \<times> bulk_item list) \<times> db" where
  "ex_refreshed = refreshBatchAggregates ''acme'' ''u4'' (snd ex_confirmed)"

theorem aggregates_are_the_outcomes_witness:
  "\<exists>b rows s'. ex_refreshed = (Inr (b, rows), s') \<and> bb_completed_count b
    = length (with_outcome ''acme'' (txns (snd ex_confirmed)) Paid (batch_items ''u4'' (bulk_items (snd ex_confirmed))))"
proof -
  obtain b rows s' where run: "ex_refreshed = (Inr (b, rows), s')"
    using by_run [OF ex_confirmed_run] by (cases ex_refreshed) (auto simp: ex_refreshed_def succeeded_def split: sum.splits)
  obtain b0 where b0: "find_row batch_key (''u4'', ''acme'') (batches (snd ex_confirmed)) = Some b0" "bb_status b0 \<noteq> ''cancelled''"
    using by_run [OF ex_confirmed_run] by (auto simp: batch_key_def [abs_def] split: option.splits)
  from aggregates_are_the_outcomes [OF run [unfolded ex_refreshed_def] b0] show ?thesis by (auto simp: run Let_def)
qed

theorem ready_batch_is_covered_witness:
  "\<exists>b rows s'. ex_checked = (Inr (b, rows), s') \<and> length rows = 2 \<and> bb_total b = 75 / 2
    \<and> bb_total b = (\<Sum>i\<leftarrow>rows. the (bi_usdc i)) \<and> distinct (map instruction rows)
    \<and> 75 / 2 \<le> fst (balances (snd ex_drafted) (''acme'', bb_env b, ''USDC''))"
proof -
  obtain b rows s' where run: "ex_checked = (Inr (b, rows), s')" and ready: "bb_status b = ''ready''"
    and view: "length rows = 2" "bb_total b = 75 / 2"
    using ex_checked_run by (cases ex_checked) (auto split: sum.splits)
  have "ledger_inv (snd ex_drafted)" "distinct (map bi_id (bulk_items (snd ex_drafted)))" using by_run [OF ex_drafted_run] by simp_all
  from ready_batch_is_covered [OF this run [unfolded ex_checked_def] ready] show ?thesis using run view by metis
qed

section \<open>What a batch lets through\<close>

text \<open>
  An item for a recipient that does not exist never reaches the check that would call it invalid: the
  foreign key of its row fails the request, and the draft with the items before it stays behind.
\<close>

definition ex_stranger :: "(js_error + batch \<times> bulk_item list) \<times> db" where
  "ex_stranger = createBulkBatch (ex_batch [ex_item ''u2'' 25, ex_item ''nobody'' 5]) ''ab12'' ex_payees"

lemma unknown_recipient_leaves_a_draft:
  "case ex_stranger of (r, s) \<Rightarrow> (case r of Inl e \<Rightarrow> e = ForeignKeyViolation | Inr v \<Rightarrow> False)
    \<and> map bb_status (batches s) = [''draft''] \<and> map bb_items (batches s) = [2] \<and> map bi_line (bulk_items s) = [1]"
  by code_simp

end
