(* ===== verification/Bills.thy ===== *)
theory Bills
  imports Money_Service
begin

text \<open>
  \<open>src/src/modules/infra/infraBillsService.ts\<close>: bills paid from an organisation's USDC. The row is
  inserted, the USDC locked, the customer validated and the bill paid at Flutterwave; its answer
  decides whether the lock is consumed, returned or left. Flutterwave's client is the record
  \<open>bill_provider\<close>; its clean answers are objects.
\<close>

section \<open>Flutterwave\<close>

record bill_provider =
  bp_validate :: "string \<Rightarrow> string \<Rightarrow> string \<Rightarrow> js_error + (string \<times> json) list"
  bp_create :: "json \<Rightarrow> js_error + (string \<times> json) list"
  bp_status :: "string \<Rightarrow> js_error + (string \<times> json) list"

text \<open>\<open>payment/flutterwaveService.ts\<close>: the error texts, and \<open>payment/billsService.ts\<close>: the validation.\<close>

definition FLUTTERWAVE_BILL_PARTNER_UNAVAILABLE :: string where
  "FLUTTERWAVE_BILL_PARTNER_UNAVAILABLE = ''Bill payments are temporarily unavailable. Our payment partner cannot process this right now - please try again shortly.''"

definition isFlutterwaveMerchantInsufficientFunds :: "string \<Rightarrow> bool" where
  "isFlutterwaveMerchantInsufficientFunds message =
    (let lower = to_lower message in
     str_includes lower ''insufficient funds in your wallet'' \<or> str_includes lower ''insufficient funds in wallet''
     \<or> str_includes lower ''insufficient balance in your wallet'')"

definition mapFlutterwaveBillErrorMessage :: "string \<Rightarrow> string \<Rightarrow> string" where
  "mapFlutterwaveBillErrorMessage message fallback =
    (if isFlutterwaveMerchantInsufficientFunds message then FLUTTERWAVE_BILL_PARTNER_UNAVAILABLE
     else or_str (some_text (trim message)) fallback)"

definition SKIP_VALIDATE_CATEGORIES :: "string list" where
  "SKIP_VALIDATE_CATEGORIES = [''AIRTIME'', ''MOBILEDATA'']"

definition validateBill :: "bill_provider \<Rightarrow> string \<Rightarrow> string \<Rightarrow> string \<Rightarrow> string \<Rightarrow> js_error + (string \<times> json) list" where
  "validateBill bp categoryCode billerCode itemCode customerId =
    (if List.member SKIP_VALIDATE_CATEGORIES (to_upper categoryCode)
     then Inr [(''skipped'', JBool True), (''customer'', JStr customerId),
       (''response_message'', JStr ''Validation not required for airtime and data'')]
     else bp_validate bp billerCode itemCode customerId)"

definition friendlyBillError :: "js_error \<Rightarrow> string" where
  "friendlyBillError err = mapFlutterwaveBillErrorMessage (message_of err)
    ''Unable to complete this bill payment - please check the details and try again.''"

definition shouldSimulateBillOnProviderFailure :: "sdk \<Rightarrow> infra_env \<Rightarrow> bool" where
  "shouldSimulateBillOnProviderFailure sd env \<longleftrightarrow> env = Test \<and> sdk_env sd ''INFRA_BILLS_TEST_NO_SIMULATE'' \<noteq> Some ''1''"

datatype bill_outcome = BillSuccess | BillPending | BillFailed

definition outcome_tokens :: "json option \<Rightarrow> json option \<Rightarrow> string list" where
  "outcome_tokens fwResult statusData =
    filter (\<lambda>t. t \<noteq> []) (map (\<lambda>v. to_lower (first_text [v] []))
      [object_field statusData ''status'', object_field statusData ''processor_response'', object_field statusData ''response_message'',
       object_field fwResult ''status'', object_field fwResult ''message''])"

definition mentions :: "string list \<Rightarrow> string \<Rightarrow> bool" where
  "mentions ws s \<longleftrightarrow> list_ex (str_includes s) ws"

text \<open>\<open>/in.?progress/\<close>; the point is any character that does not end a line.\<close>

fun in_progress :: "string \<Rightarrow> bool" where
  "in_progress [] = False"
| "in_progress (c # cs) = (starts_with (c # cs) ''inprogress''
     \<or> starts_with (c # cs) ''in'' \<and> starts_with (drop 3 (c # cs)) ''progress''
       \<and> \<not> List.member [CHR 0x0A, CHR 0x0D] ((c # cs) ! 2) \<or> in_progress cs)"

definition resolveFlutterwaveBillOutcome :: "json option \<Rightarrow> json option \<Rightarrow> bill_outcome" where
  "resolveFlutterwaveBillOutcome fwResult statusData =
    (let tokens = outcome_tokens fwResult statusData in
     if list_ex (mentions [''failed'', ''error'', ''invalid'', ''declined'']) tokens then BillFailed
     else if list_ex (\<lambda>s. mentions [''pending'', ''processing'', ''queued''] s \<or> in_progress s) tokens then BillPending
     else if list_ex (mentions [''success'', ''successful'', ''completed'', ''delivered'']) tokens then BillSuccess
     else if fwResult \<noteq> None then BillSuccess else BillFailed)"

section \<open>The row\<close>

record bill_order =
  bl_orgId :: string
  bl_env :: string
  bl_idempotencyKey :: "string option"
  bl_category :: string
  bl_biller :: string
  bl_item :: string
  bl_customer :: string
  bl_amount :: js_num
  bl_billerName :: "string option"
  bl_itemName :: "string option"

definition loadBillTx :: "string \<Rightarrow> string \<Rightarrow> (db, txn option) act" where
  "loadBillTx i orgId = aquery (\<lambda>s. find_row (\<lambda>t. (t_id t, t_org t)) (i, orgId) (txns s))"

definition bill_row :: "bill_order \<Rightarrow> rat \<Rightarrow> string \<Rightarrow> jmap \<Rightarrow> string \<Rightarrow> txn" where
  "bill_row input amount reference meta i =
    (let env = normalizeEnv (bl_env input) in
     \<lparr>t_id = i, t_org = bl_orgId input, t_env = env, t_amount = numeric7 amount, t_currency = ''NGN'', t_country = Some ''NG'',
      t_status = (if env = Test then ''processing'' else ''pending''), t_method = ''bill_pay'', t_direction = ''payout'', t_fee = 0,
      t_external_id = Some reference, t_metadata = meta, t_client_key = client_key (bl_idempotencyKey input), t_fingerprint = None\<rparr>)"

definition insertBillTx :: "bill_order \<Rightarrow> rat \<Rightarrow> string \<Rightarrow> jmap \<Rightarrow> (db, txn \<times> bool) act" where
  "insertBillTx input amount reference meta =
    (let new = abnd (run_tx (bnd new_uuid (\<lambda>i. insert_txn (bill_row input amount reference meta i)))) (\<lambda>row. aret (row, False)) in
     case client_key (bl_idempotencyKey input) of
       None \<Rightarrow> new
     | Some idem \<Rightarrow>
         abnd (aquery (\<lambda>s. find_row txn_client_key (Some (bl_orgId input, normalizeEnv (bl_env input), idem)) (txns s))) (\<lambda>found. case found of
           None \<Rightarrow> new
         | Some existing \<Rightarrow> abnd (loadBillTx (t_id existing) (bl_orgId input)) (\<lambda>loaded. case loaded of
             None \<Rightarrow> athrow (InfraBillError ''NOT_FOUND'' 404 None) | Some row \<Rightarrow> aret (row, True))))"

definition mapBillResult :: "txn \<Rightarrow> jmap \<Rightarrow> jmap" where
  "mapBillResult row extra =
    (let meta = t_metadata row in
     [''id'' \<mapsto> JStr (t_id row), ''transactionId'' \<mapsto> JStr (t_id row), ''status'' \<mapsto> JStr (t_status row), ''amount'' \<mapsto> JNum (t_amount row),
      ''currency'' \<mapsto> JStr (t_currency row)] ++
     opt_part ''reference'' (json_or (meta ''reference'') (Some (case t_external_id row of Some r \<Rightarrow> JStr r | None \<Rightarrow> JNull))) ++
     opt_part ''categoryCode'' (meta ''categoryCode'') ++ opt_part ''billerCode'' (meta ''billerCode'') ++
     opt_part ''itemCode'' (meta ''itemCode'') ++ opt_part ''customerId'' (meta ''customerId'') ++
     opt_part ''customerName'' (json_or (meta ''validatedCustomerName'') (meta ''customerName'')) ++
     opt_part ''billerName'' (meta ''billerName'') ++ opt_part ''itemName'' (meta ''itemName'') ++
     opt_part ''usdcAmount'' (meta ''usdcAmount'') ++
     [''rechargeToken'' \<mapsto> (case nullish (meta ''rechargeToken'') None of Some t \<Rightarrow> t | None \<Rightarrow> JNull)] ++ extra)"

record bill_reply =
  br_fields :: jmap
  br_balance :: "balance_view option"

text \<open>\<open>mapBillResult(updated!)\<close>: without a row the access to its columns raises.\<close>

definition reloaded :: "string \<Rightarrow> string \<Rightarrow> jmap \<Rightarrow> balance_view option \<Rightarrow> (db, bill_reply) act" where
  "reloaded i orgId extra balance =
    abnd (loadBillTx i orgId) (\<lambda>updated. case updated of
      None \<Rightarrow> athrow (JsError ''Cannot read properties of null'')
    | Some row \<Rightarrow> aret \<lparr>br_fields = mapBillResult row extra, br_balance = balance\<rparr>)"

section \<open>Outcomes\<close>

definition bill_payout :: "string \<Rightarrow> string \<Rightarrow> string \<Rightarrow> string option \<Rightarrow> payout_input" where
  "bill_payout orgId i source status = \<lparr>py_orgId = Some orgId, py_transactionId = i, py_providerEventId = None,
     py_source = Some source, py_status = status\<rparr>"

definition failLockedBillPayment :: "sdk \<Rightarrow> string \<Rightarrow> string \<Rightarrow> string \<Rightarrow> string \<Rightarrow> nat \<Rightarrow> jmap \<Rightarrow> (db, 'a) act" where
  "failLockedBillPayment sd orgId i reason code status patch =
    abnd (acatch (abnd (releasePayoutLock sd (bill_payout orgId i ''bill_pay_failure'' (Some ''failed''))) (\<lambda>_. aret ()))
      (\<lambda>releaseErr.
        abnd (sql_txn i (\<lambda>t. t\<lparr>t_metadata := t_metadata t ++ [''releaseLockError'' \<mapsto> JStr (message_of releaseErr),
          ''needsManualRelease'' \<mapsto> JBool True, ''failureReason'' \<mapsto> JStr reason]\<rparr>)) (\<lambda>_.
        athrow (InfraBillError ''RELEASE_FAILED'' 502 (Some i))))) (\<lambda>_.
    abnd (sql_txn i (\<lambda>t. t\<lparr>t_status := ''failed'', t_metadata := t_metadata t ++ ([''failureReason'' \<mapsto> JStr reason] ++ patch)\<rparr>)) (\<lambda>_.
    athrow (InfraBillError code status (Some i))))"

definition json_nullable :: "json option \<Rightarrow> json" where
  "json_nullable j = (case j of Some v \<Rightarrow> v | None \<Rightarrow> JNull)"

definition provider_part :: "json option \<Rightarrow> json option \<Rightarrow> json \<Rightarrow> jmap" where
  "provider_part fwResult statusData rechargeToken = [''flutterwave'' \<mapsto> json_nullable fwResult, ''billStatus'' \<mapsto> json_nullable statusData,
     ''rechargeToken'' \<mapsto> rechargeToken, ''providerPaid'' \<mapsto> JBool True]"

definition completeBillSettlement ::
  "sdk \<Rightarrow> string \<Rightarrow> string \<Rightarrow> json option \<Rightarrow> json option \<Rightarrow> json \<Rightarrow> jmap \<Rightarrow> bool \<Rightarrow> (db, bill_reply) act" where
  "completeBillSettlement sd orgId i fwResult statusData rechargeToken extra withBalance =
    abnd (finalizePayoutDebit sd (bill_payout orgId i ''bill_pay'' None)) (\<lambda>(finalize, balance).
    abnd (sql_txn i (\<lambda>t. t\<lparr>t_status := ''settled'', t_metadata := t_metadata t ++
      (provider_part fwResult statusData rechargeToken ++ [''settledAt'' \<mapsto> JStr (sdk_now sd)])\<rparr>)) (\<lambda>_.
    reloaded i orgId extra (if withBalance then Some balance else None)))"

definition markBillProcessing :: "string \<Rightarrow> json option \<Rightarrow> json option \<Rightarrow> json \<Rightarrow> jmap \<Rightarrow> (db, unit) act" where
  "markBillProcessing i fwResult statusData rechargeToken extra =
    sql_txn i (\<lambda>t. t\<lparr>t_status := ''processing'', t_metadata := t_metadata t ++ (provider_part fwResult statusData rechargeToken ++ extra)\<rparr>)"

text \<open>The answer of \<open>validateInfraBill\<close>, and the name it carries.\<close>

definition validateInfraBill :: "bill_provider \<Rightarrow> string \<Rightarrow> string \<Rightarrow> string \<Rightarrow> string \<Rightarrow> js_error + (string \<times> json) list" where
  "validateInfraBill bp categoryCode billerCode itemCode customerId =
    bind_sum (validateBill bp categoryCode billerCode itemCode customerId) (\<lambda>data.
      let field = map_of data; others = (\<lambda>k. filter (\<lambda>e. fst e \<noteq> k) data) in
      if field ''skipped'' = Some (JBool True) then Inr (others ''skipped'' @ [(''skipped'', JBool True)])
      else Inr (others ''customerName'' @
        (case nullish (field ''customer_name'') (nullish (field ''CustomerName'') (nullish (field ''name'') None)) of
           Some n \<Rightarrow> [(''customerName'', JStr (js_String n))] | None \<Rightarrow> [])))"

definition validateLocked :: "sdk \<Rightarrow> bill_provider \<Rightarrow> bill_order \<Rightarrow> string \<Rightarrow> (db, unit) act" where
  "validateLocked sd bp input i =
    (if List.member SKIP_VALIDATE_CATEGORIES (to_upper (bl_category input)) then aret ()
     else acatch
       (abnd (aof_sum (validateInfraBill bp (to_upper (bl_category input)) (bl_biller input) (bl_item input) (bl_customer input))) (\<lambda>validation.
        sql_txn i (\<lambda>t. t\<lparr>t_metadata := t_metadata t ++
          (opt_part ''validatedCustomerName'' (map_of validation ''customerName'') ++ [''validation'' \<mapsto> JObj validation])\<rparr>)))
       (\<lambda>err. failLockedBillPayment sd (bl_orgId input) i (friendlyBillError err) ''VALIDATION_FAILED'' 400
         [''validationError'' \<mapsto> JStr (friendlyBillError err)]))"

section \<open>Paying\<close>

definition bill_request :: "bill_order \<Rightarrow> rat \<Rightarrow> string \<Rightarrow> json" where
  "bill_request input amount reference = JObj [(''billerCode'', JStr (bl_biller input)), (''itemCode'', JStr (bl_item input)),
     (''customerId'', JStr (bl_customer input)), (''amount'', JNum amount), (''reference'', JStr reference), (''country'', JStr ''NG'')]"

definition bill_meta :: "bill_order \<Rightarrow> string \<Rightarrow> usdc_amount \<Rightarrow> jmap" where
  "bill_meta input reference fx =
    [''type'' \<mapsto> JStr ''bill_pay'', ''categoryCode'' \<mapsto> JStr (to_upper (bl_category input)), ''billerCode'' \<mapsto> JStr (bl_biller input),
     ''itemCode'' \<mapsto> JStr (bl_item input), ''customerId'' \<mapsto> JStr (bl_customer input)] ++
    opt_part ''billerName'' (map_option JStr (bl_billerName input)) ++ opt_part ''itemName'' (map_option JStr (bl_itemName input)) ++
    [''reference'' \<mapsto> JStr reference, ''usdcAmount'' \<mapsto> JNum (ua_usdcAmount fx), ''rate'' \<mapsto> opt_num (ua_rate fx)]"

definition lockBill :: "string \<Rightarrow> string \<Rightarrow> rat \<Rightarrow> (db, unit) act" where
  "lockBill orgId i usdcAmount =
    acatch (abnd (lockPayoutFunds orgId i (Some usdcAmount)) (\<lambda>_. aret ())) (\<lambda>err.
      abnd (sql_txn i (\<lambda>t. t\<lparr>t_status := ''failed'', t_metadata := t_metadata t ++ [''error'' \<mapsto> JStr ''Unable to lock funds'']\<rparr>)) (\<lambda>_.
      athrow (case err of InfraLedgerError c n \<Rightarrow> InfraBillError (if c = [] then ''LEDGER_ERROR'' else c) n (Some i) | _ \<Rightarrow> err)))"

definition flag_part :: "string list \<Rightarrow> jmap" where
  "flag_part flags = [''idempotentReplay'' \<mapsto> JBool False] ++ map_of (map (\<lambda>k. (k, JBool True)) flags)"

text \<open>The status call: under the reference the payment answered with; an error of it counts as no answer.\<close>

definition tx_ref :: "json option \<Rightarrow> json option \<Rightarrow> string" where
  "tx_ref fwResult otherwise =
    trim (case nullish (object_field fwResult ''tx_ref'') (nullish (object_field fwResult ''flw_ref'') (nullish otherwise None)) of
      Some v \<Rightarrow> js_String v | None \<Rightarrow> [])"

definition poll_status :: "bill_provider \<Rightarrow> string \<Rightarrow> json option \<Rightarrow> json option" where
  "poll_status bp ref before = (if ref = [] then before else (case bp_status bp ref of Inr data \<Rightarrow> Some (JObj data) | Inl e \<Rightarrow> before))"

definition recharge_token :: "json option \<Rightarrow> json option \<Rightarrow> json option \<Rightarrow> json" where
  "recharge_token fwResult statusData stored =
    (case nullish (object_field statusData ''extra'') (nullish (object_field fwResult ''recharge_token'') (nullish stored None)) of
       Some v \<Rightarrow> v | None \<Rightarrow> JNull)"

text \<open>What follows the provider's acceptance.\<close>

definition settleBill :: "sdk \<Rightarrow> bill_provider \<Rightarrow> bill_order \<Rightarrow> string \<Rightarrow> string \<Rightarrow> json \<Rightarrow> (db, bill_reply) act" where
  "settleBill sd bp input reference i result =
    (let fwResult = Some result; statusData = poll_status bp (tx_ref fwResult (Some (JStr reference))) None;
         token = recharge_token fwResult statusData None; orgId = bl_orgId input in
     case resolveFlutterwaveBillOutcome fwResult statusData of
       BillFailed \<Rightarrow> failLockedBillPayment sd orgId i ''Bill provider rejected this payment'' ''PROVIDER_FAILED'' 502
         [''flutterwave'' \<mapsto> result, ''billStatus'' \<mapsto> json_nullable statusData]
     | BillPending \<Rightarrow> abnd (markBillProcessing i fwResult statusData token Map.empty) (\<lambda>_.
         reloaded i orgId (flag_part [''pendingProvider'']) None)
     | BillSuccess \<Rightarrow> acatch (completeBillSettlement sd orgId i fwResult statusData token
           [''flutterwave'' \<mapsto> result, ''status'' \<mapsto> json_nullable statusData, ''rechargeToken'' \<mapsto> token] True)
         (\<lambda>err. abnd (markBillProcessing i fwResult statusData token [''settleError'' \<mapsto> JStr (message_of err), ''needsSettleRetry'' \<mapsto> JBool True]) (\<lambda>_.
           reloaded i orgId (flag_part [''settlePending''] ++ [''message'' \<mapsto>
             JStr ''Bill payment submitted - settlement is still processing. Check status shortly.'']) None)))"

definition simulateBill :: "sdk \<Rightarrow> string \<Rightarrow> string \<Rightarrow> (db, bill_reply) act" where
  "simulateBill sd orgId i =
    abnd (simulateSettlement sd orgId Test i) (\<lambda>settled.
    reloaded i orgId (flag_part [''testSimulated''])
      (case settled of SimulatedPayout tx finalize balance \<Rightarrow> Some balance | SimulatedCollection tx res \<Rightarrow> None))"

definition payLocked :: "sdk \<Rightarrow> bill_provider \<Rightarrow> bill_order \<Rightarrow> rat \<Rightarrow> string \<Rightarrow> string \<Rightarrow> (db, bill_reply) act" where
  "payLocked sd bp input amount reference i =
    abnd (validateLocked sd bp input i) (\<lambda>_.
    case bp_create bp (bill_request input amount reference) of
      Inr result \<Rightarrow> settleBill sd bp input reference i (JObj result)
    | Inl err \<Rightarrow>
        if shouldSimulateBillOnProviderFailure sd (normalizeEnv (bl_env input)) then simulateBill sd (bl_orgId input) i
        else failLockedBillPayment sd (bl_orgId input) i (friendlyBillError err) ''PROVIDER_FAILED'' 502
          [''providerError'' \<mapsto> JStr (friendlyBillError err)])"

definition payInfraBill :: "sdk \<Rightarrow> bill_provider \<Rightarrow> bill_order \<Rightarrow> (db, bill_reply) act" where
  "payInfraBill sd bp input = (case bl_amount input of
     Fin amount \<Rightarrow>
       abnd (arequire (0 < amount) (InfraBillError ''INVALID_AMOUNT'' 400 None)) (\<lambda>_.
       abnd randomUUID (\<lambda>uuid.
       let reference = ''dayfi-infra-bill-'' @ uuid in
       abnd (resolveUsdcAmount amount ''NGN'') (\<lambda>fx.
       abnd (getOrgBalance (bl_orgId input) (env_name (normalizeEnv (bl_env input))) None) (\<lambda>balance.
       abnd (arequire (\<not> b_available balance + 1 / 1000000000 < ua_usdcAmount fx) (InfraBillError ''INSUFFICIENT_BALANCE'' 402 None)) (\<lambda>_.
       abnd (insertBillTx input amount reference (bill_meta input reference fx)) (\<lambda>(row, replay).
       if replay then aret \<lparr>br_fields = mapBillResult row [''idempotentReplay'' \<mapsto> JBool True], br_balance = None\<rparr>
       else abnd (lockBill (bl_orgId input) (t_id row) (ua_usdcAmount fx)) (\<lambda>_.
         payLocked sd bp input amount reference (t_id row))))))))
   | _ \<Rightarrow> athrow (InfraBillError ''INVALID_AMOUNT'' 400 None))"

section \<open>Asking again\<close>

definition bill_of :: "string \<Rightarrow> string \<Rightarrow> txn \<Rightarrow> bool" where
  "bill_of orgId reference t \<longleftrightarrow> t_org t = orgId \<and> t_direction t = ''payout'' \<and> t_method t = ''bill_pay''
     \<and> (t_external_id t = Some reference \<or> t_metadata t ''reference'' = Some (JStr reference))"

definition refreshOpenBill :: "sdk \<Rightarrow> bill_provider \<Rightarrow> string \<Rightarrow> txn \<Rightarrow> (db, bill_reply) act" where
  "refreshOpenBill sd bp orgId row =
    (let meta = t_metadata row; fwResult = nullish (meta ''flutterwave'') None;
         ref = tx_ref fwResult (nullish (meta ''reference'') (map_option JStr (t_external_id row)));
         statusData = poll_status bp ref (nullish (meta ''billStatus'') None);
         outcome = resolveFlutterwaveBillOutcome fwResult statusData; token = recharge_token fwResult statusData (meta ''rechargeToken'') in
     if outcome = BillFailed \<and> \<not> flag meta ''fundsFinalized'' \<and> \<not> flag meta ''fundsReleased''
     then failLockedBillPayment sd orgId (t_id row) ''Bill provider reported payment failed'' ''PROVIDER_FAILED'' 502
       [''billStatus'' \<mapsto> json_nullable statusData]
     else if outcome = BillPending then
       abnd (markBillProcessing (t_id row) fwResult statusData token Map.empty) (\<lambda>_. reloaded (t_id row) orgId Map.empty None)
     else if flag meta ''fundsFinalized'' then aret \<lparr>br_fields = mapBillResult row Map.empty, br_balance = None\<rparr>
     else acatch (completeBillSettlement sd orgId (t_id row) fwResult statusData token Map.empty False)
       (\<lambda>err. reloaded (t_id row) orgId Map.empty None))"

definition refreshInfraBillStatus :: "sdk \<Rightarrow> bill_provider \<Rightarrow> string \<Rightarrow> string \<Rightarrow> (db, bill_reply) act" where
  "refreshInfraBillStatus sd bp orgId reference =
    abnd (aquery (\<lambda>s. find (bill_of orgId reference) (txns s))) (\<lambda>found. case found of
      None \<Rightarrow> athrow (InfraBillError ''NOT_FOUND'' 404 None)
    | Some row \<Rightarrow>
        if to_lower (t_status row) = ''settled'' \<or> to_lower (t_status row) = ''failed''
        then aret \<lparr>br_fields = mapBillResult row Map.empty, br_balance = None\<rparr>
        else refreshOpenBill sd bp orgId row)"

end
