(* ===== verification/Bills_Properties.thy ===== *)
theory Bills_Properties
  imports Bills Money_Properties
begin

text \<open>
  The properties of \<open>infraBillsService.ts\<close>: bills keep the invariant of the payouts, a LIVE bill that
  fails has moved nothing, and one that is answered is debited or still locked; and what the service
  lets through.
\<close>

section \<open>The invariant of the payouts\<close>

lemma neutral_bill: "p ''fundsFinalized'' = None \<Longrightarrow> p ''fundsReleased'' = None \<Longrightarrow>
    inv_act payout_inv (sql_txn i (\<lambda>t. t\<lparr>t_status := st, t_metadata := t_metadata t ++ p\<rparr>))"
  "p ''fundsFinalized'' = None \<Longrightarrow> p ''fundsReleased'' = None \<Longrightarrow>
    inv_act payout_inv (sql_txn i (\<lambda>t. t\<lparr>t_metadata := t_metadata t ++ p\<rparr>))"
  by (intro payout_sql_txn neutral_patch; assumption)+

lemma opt_part_other [simp]: "k \<noteq> k' \<Longrightarrow> opt_part k v k' = None"
  by (simp add: opt_part_def split: option.split)

lemma reads_bill [inv_intros, simp]: "inv_act I (loadBillTx i o')" "inv_act I (reloaded i o' x b)"
  unfolding reloaded_def loadBillTx_def by (intro inv_intros)+

lemma payout_fail_bill [inv_intros]:
  "patch ''fundsFinalized'' = None \<Longrightarrow> patch ''fundsReleased'' = None \<Longrightarrow> inv_act payout_inv (failLockedBillPayment sd o' i reason code n patch)"
  unfolding failLockedBillPayment_def by (intro inv_intros neutral_bill) simp_all

lemma payout_mark [inv_intros]:
  "extra ''fundsFinalized'' = None \<Longrightarrow> extra ''fundsReleased'' = None \<Longrightarrow> inv_act payout_inv (markBillProcessing i fw st tok extra)"
  unfolding markBillProcessing_def provider_part_def by (intro neutral_bill) (simp_all add: map_add_def)

lemma payout_complete [inv_intros]: "inv_act payout_inv (completeBillSettlement sd o' i fw st tok extra b)"
  unfolding completeBillSettlement_def provider_part_def by (intro inv_intros neutral_bill) (simp_all add: map_add_def)

lemma payout_lockBill [inv_intros]: "inv_act payout_inv (lockBill o' i x)"
  unfolding lockBill_def by (intro inv_intros neutral_bill) simp_all

lemma payout_validate [inv_intros]: "inv_act payout_inv (validateLocked sd bp input i)"
  unfolding validateLocked_def by (intro inv_intros neutral_bill) simp_all

lemma inv_act_outcome [inv_intros]:
  "inv_act I a \<Longrightarrow> inv_act I b \<Longrightarrow> inv_act I c \<Longrightarrow> inv_act I (case x of BillSuccess \<Rightarrow> a | BillPending \<Rightarrow> b | BillFailed \<Rightarrow> c)"
  by (cases x) simp_all

lemma payout_payLocked [inv_intros]: "inv_act payout_inv (payLocked sd bp input x ref i)"
  unfolding payLocked_def settleBill_def simulateBill_def Let_def by (intro inv_intros) simp_all

lemma payout_bill_row:
  assumes "meta ''fundsFinalized'' = None"
  shows "inv_act payout_inv (run_tx (bnd new_uuid (\<lambda>i. insert_txn (bill_row input x ref meta i))))"
  unfolding inv_act_def
proof (intro allI impI)
  fix s r s' assume inv: "payout_inv s" and run: "run_tx (bnd new_uuid (\<lambda>i. insert_txn (bill_row input x ref meta i))) s = (r, s')"
  have more: "resolved_ok (t # ts) k" if "resolved_ok ts k" for t ts k using that by (auto simp: resolved_ok_def)
  from inv run assms show "payout_inv s'"
    by (auto simp: run_tx_def bnd_def new_uuid_def insert_txn_def payout_inv_def list_all_iff bill_row_def finalized_def flag_def
        more Let_def split: if_splits)
qed

lemma bill_meta_flags [simp]: "bill_meta input ref fx ''fundsFinalized'' = None"
  by (simp add: bill_meta_def map_add_def)

lemma payout_insertBill [inv_intros]: "meta ''fundsFinalized'' = None \<Longrightarrow> inv_act payout_inv (insertBillTx input x ref meta)"
  unfolding insertBillTx_def Let_def by (intro inv_intros payout_bill_row)

lemma reads_usdc [inv_intros, simp]: "inv_act I (resolveUsdcAmount x c)"
  unfolding resolveUsdcAmount_def Let_def by (intro inv_intros)

text \<open>C33: Paying a bill and asking for its status keep the invariant of the payouts, whatever Flutterwave
  answers: no bill is both paid from its lock and given its lock back.\<close>

theorem bills_keep_payouts:
  assumes "payout_inv s"
  shows "payout_inv (snd (payInfraBill sd bp input s)) \<and> payout_inv (snd (refreshInfraBillStatus sd bp orgId reference s))"
proof -
  have pay: "inv_act payout_inv (payInfraBill sd bp input)"
    unfolding payInfraBill_def Let_def by (intro inv_intros) simp_all
  have refresh: "inv_act payout_inv (refreshInfraBillStatus sd bp orgId reference)"
    unfolding refreshInfraBillStatus_def refreshOpenBill_def Let_def by (intro inv_intros) simp_all
  from inv_actD [OF pay assms prod.collapse [symmetric]] inv_actD [OF refresh assms prod.collapse [symmetric]] show ?thesis ..
qed

section \<open>A LIVE bill is debited, locked, or nothing has moved\<close>

text \<open>The states of a bill: nothing has moved yet, the row is inserted, the lock is on, the bill is paid.\<close>

definition unmoved :: "db \<Rightarrow> db \<Rightarrow> bool" where
  "unmoved s0 s \<longleftrightarrow> ledger_fixed s0 s \<and> draws s0 s"

definition unsettled :: "db \<Rightarrow> bool" where
  "unsettled s \<longleftrightarrow> (\<forall>n. uuid_next s \<le> n \<longrightarrow> finalize_key (uuid_of s n) \<notin> m_key ` set (movements s))"

text \<open>The account a bill is paid from, and the row that names it.\<close>

definition bill_account :: "bill_order \<Rightarrow> string \<times> infra_env \<times> string" where
  "bill_account input = (bl_orgId input, normalizeEnv (bl_env input), ''USDC'')"

definition has_row :: "string \<times> infra_env \<times> string \<Rightarrow> string \<Rightarrow> db \<Rightarrow> bool" where
  "has_row k i s \<longleftrightarrow> (\<exists>t. find_row t_id i (txns s) = Some t \<and> payout_account t = k)"

definition bill_inserted :: "db \<Rightarrow> string \<times> infra_env \<times> string \<Rightarrow> string \<Rightarrow> db \<Rightarrow> bool" where
  "bill_inserted s0 k i s \<longleftrightarrow> inserted s0 (fst k) i s \<and> has_row k i s"

definition bill_locked :: "db \<Rightarrow> string \<times> infra_env \<times> string \<Rightarrow> string \<Rightarrow> rat \<Rightarrow> db \<Rightarrow> bool" where
  "bill_locked s0 k i x s \<longleftrightarrow> locked_for s0 (fst k) i x s \<and> has_row k i s \<and> on_grid x \<and> finalize_key i \<notin> m_key ` set (movements s)"

definition bill_paid :: "db \<Rightarrow> string \<times> infra_env \<times> string \<Rightarrow> string \<Rightarrow> rat \<Rightarrow> db \<Rightarrow> bool" where
  "bill_paid s0 k i x s \<longleftrightarrow> has_row k i s \<and> 0 < x \<and> spec_step OpDebit (balances s0 k) x = Some (balances s k)
     \<and> (\<forall>k'. k' \<noteq> k \<longrightarrow> balances s k' = balances s0 k')"

definition bill_answered :: "db \<Rightarrow> string \<times> infra_env \<times> string \<Rightarrow> string \<Rightarrow> rat \<Rightarrow> bill_reply \<Rightarrow> db \<Rightarrow> bool" where
  "bill_answered s0 k i x r s \<longleftrightarrow> br_fields r ''id'' = Some (JStr i) \<and> (br_balance r \<noteq> None \<longrightarrow> bill_paid s0 k i x s)
     \<and> (br_fields r ''pendingProvider'' \<noteq> None \<longrightarrow> bill_locked s0 k i x s)
     \<and> (br_balance r \<noteq> None \<or> br_fields r ''pendingProvider'' \<noteq> None \<or> br_fields r ''settlePending'' \<noteq> None)"

lemma account_org: "payout_account t = k \<Longrightarrow> t_org t = fst k"
  by (auto simp: payout_account_def)

lemma account_fst [simp]: "fst (bill_account input) = bl_orgId input"
  by (simp add: bill_account_def)

lemma locked_row: "bill_locked s0 k i x s \<Longrightarrow> has_row k i s"
  by (simp add: bill_locked_def)

lemma row_patch: "(\<And>t. t_id (f t) = t_id t) \<Longrightarrow> (\<And>t. payout_account (f t) = payout_account t) \<Longrightarrow> inv_act (has_row k i) (sql_txn j f)"
  by (cases "i = j") (auto simp: inv_act_def has_row_def sql_txn_def run_tx_def update_txn_def find_row_update_rows find_row_update_rows_other)

lemma keeps_account: "keeps_lock f \<Longrightarrow> payout_account (f t) = payout_account t"
  by (simp add: keeps_lock_def payout_account_def)

lemma bill_locked_patch: "keeps_lock f \<Longrightarrow> inv_act (bill_locked s0 k i x) (sql_txn i f)"
  unfolding inv_act_def
proof (intro allI impI)
  fix s r s' assume keep: "keeps_lock f" and l: "bill_locked s0 k i x s" and run: "sql_txn i f s = (r, s')"
  have "inv_act (has_row k i) (sql_txn i f)" by (rule row_patch) (use keep keeps_account in \<open>auto simp: keeps_lock_def\<close>)
  from inv_actD [OF this locked_row [OF l] run] have "has_row k i s'" .
  moreover have "locked_for s0 (fst k) i x s" using l by (simp add: bill_locked_def)
  from inv_actD [OF locked_patch [OF keep] this run] have "locked_for s0 (fst k) i x s'" .
  ultimately show "bill_locked s0 k i x s'"
    using l run by (auto simp: bill_locked_def sql_txn_def run_tx_def update_txn_def)
qed

definition plain_extra :: "jmap \<Rightarrow> bool" where
  "plain_extra extra \<longleftrightarrow> extra ''id'' = None \<and> extra ''pendingProvider'' = None"

lemma reply_fields:
  "plain_extra extra \<Longrightarrow> mapBillResult t extra ''pendingProvider'' = None" "extra ''id'' = None \<Longrightarrow> mapBillResult t extra ''id'' = Some (JStr (t_id t))"
  by (simp_all add: mapBillResult_def Let_def map_add_def plain_extra_def)

lemma reply_extra: "extra f = Some v \<Longrightarrow> mapBillResult t extra f = Some v"
  by (simp add: mapBillResult_def Let_def map_add_def)

lemma reloaded_run:
  assumes "has_row k i s"
  obtains t where "t_id t = i" "reloaded i (fst k) extra b s = (Inr \<lparr>br_fields = mapBillResult t extra, br_balance = b\<rparr>, s)"
proof -
  from assms obtain t where t: "find_row t_id i (txns s) = Some t" "t_org t = fst k" using account_org by (fastforce simp: has_row_def)
  have "t_id t = i" using find_row_Some [OF t(1)] by simp
  moreover have "loadBillTx i (fst k) s = (Inr (Some t), s)" using find_row_pair [OF t(1)] t by (simp add: loadBillTx_def aquery_def)
  ultimately show thesis using that by (simp add: reloaded_def abnd_def aret_def)
qed

lemma reloaded_triple:
  assumes "\<And>s. P s \<Longrightarrow> has_row k i s" and "\<And>t s. P s \<Longrightarrow> t_id t = i \<Longrightarrow> Q \<lparr>br_fields = mapBillResult t extra, br_balance = b\<rparr> s"
  shows "triple P (reloaded i (fst k) extra b) Q E"
  unfolding triple_def
proof (intro allI impI)
  fix s r s' assume P: "P s" and run: "reloaded i (fst k) extra b s = (r, s')"
  from reloaded_run [OF assms(1) [OF P], of extra b] obtain t where t: "t_id t = i"
    "reloaded i (fst k) extra b s = (Inr \<lparr>br_fields = mapBillResult t extra, br_balance = b\<rparr>, s)" .
  with run assms(2) [OF P t(1)] show "case r of Inl e \<Rightarrow> E s' | Inr a \<Rightarrow> Q a s'" by auto
qed

text \<open>Inserting the row.\<close>

lemma bill_row_triple:
  assumes "meta ''fundsFinalized'' = None"
  shows "triple (unmoved s0) (run_tx (bnd new_uuid (\<lambda>i. insert_txn (bill_row input x ref meta i))))
    (\<lambda>t. bill_inserted s0 (bill_account input) (t_id t)) (restored s0)"
  unfolding triple_def
proof (intro allI impI)
  fix s r s' assume un: "unmoved s0 s" and run: "run_tx (bnd new_uuid (\<lambda>i. insert_txn (bill_row input x ref meta i))) s = (r, s')"
  let ?t = "bill_row input x ref meta (uuid_of s (uuid_next s))"
  show "case r of Inl e \<Rightarrow> restored s0 s' | Inr t \<Rightarrow> bill_inserted s0 (bill_account input) (t_id t) s'"
  proof (cases r)
    case (Inl e)
    with run have "s' = s" by (auto simp: run_tx_def split: sum.splits)
    with Inl un show ?thesis by (simp add: unmoved_def ledger_fixed_def restored_def)
  next
    case (Inr t)
    with run have t: "t = ?t" "s' = s\<lparr>uuid_next := Suc (uuid_next s), txns := t # txns s\<rparr>"
      by (auto simp: run_tx_def bnd_def new_uuid_def insert_txn_def split: if_splits)
    have sel: "t_id ?t = uuid_of s (uuid_next s)" "t_org ?t = bl_orgId input" "t_direction ?t = ''payout''" "\<not> finalized ?t"
      using assms by (simp_all add: bill_row_def Let_def finalized_def flag_def)
    have "inserted s0 (bl_orgId input) (t_id t) s'"
      unfolding inserted_def
      using un sel by (auto simp: t unmoved_def ledger_fixed_def draws_def intro!: exI [of _ "uuid_next s"])
    moreover have "has_row (bill_account input) (t_id t) s'"
      by (simp add: has_row_def t bill_row_def Let_def payout_account_def bill_account_def)
    ultimately have "bill_inserted s0 (bill_account input) (t_id t) s'" by (simp add: bill_inserted_def)
    with Inr show ?thesis by simp
  qed
qed

lemma unmoved_restored: "unmoved s0 s \<Longrightarrow> restored s0 s"
  by (simp add: unmoved_def ledger_fixed_def restored_def)

lemma insertBill_triple:
  assumes "meta ''fundsFinalized'' = None"
  shows "triple (unmoved s0) (insertBillTx input x ref meta)
    (\<lambda>(row, replay) s. if replay then restored s0 s else bill_inserted s0 (bill_account input) (t_id row) s) (restored s0)"
proof -
  have new: "triple (unmoved s0) (abnd (run_tx (bnd new_uuid (\<lambda>i. insert_txn (bill_row input x ref meta i)))) (\<lambda>row. aret (row, False)))
      (\<lambda>(row, replay) s. if replay then restored s0 s else bill_inserted s0 (bill_account input) (t_id row) s) (restored s0)"
    by (rule triple_abnd [OF bill_row_triple], rule assms) (auto intro: triple_intros)
  show ?thesis
    unfolding insertBillTx_def Let_def
    by (intro triple_option triple_step new triple_pure) (auto intro: unmoved_restored)
qed

text \<open>The lock.\<close>

lemma lock_not_finalize [simp]: "lock_key i \<noteq> finalize_key j"
proof
  assume "lock_key i = finalize_key j"
  then have "ends_with (lock_key i) '':finalize''" by (simp add: finalize_key_def ends_with_def starts_with_def)
  then show False by (simp add: lock_key_def ends_with_def starts_with_def)
qed

lemma lockFunds_triple:
  assumes fresh: "fresh_ids s0" "unsettled s0" and grid: "on_grid x"
  shows "triple (bill_inserted s0 k i) (lockPayoutFunds (fst k) i (Some x)) (\<lambda>_. bill_locked s0 k i x) (restored s0)"
  unfolding triple_def
proof (intro allI impI)
  fix s r s' assume bi: "bill_inserted s0 k i s" and run: "lockPayoutFunds (fst k) i (Some x) s = (r, s')"
  have ins: "inserted s0 (fst k) i s" using bi by (simp add: bill_inserted_def)
  then obtain t n where t: "find_row t_id i (txns s) = Some t" "t_org t = fst k" "t_direction t = ''payout''"
    and n: "uuid_next s0 \<le> n" "i = uuid_of s0 n" and fixed: "ledger_fixed s0 s"
    by (auto simp: inserted_def)
  have acc: "payout_account t = k" using bi t(1) by (simp add: bill_inserted_def has_row_def)
  have id: "t_id t = i" using find_row_Some [OF t(1)] by simp
  have "loadTx i (Some (fst k)) s = (Inr (Some t), s)"
    using find_row_pair [OF t(1)] t by (cases "fst k = []") (simp_all add: loadTx_def or_else_def aquery_def)
  with run t have row: "lockPayoutRow t x None s = (r, s')"
    by (simp add: lockPayoutFunds_def usdcOf_def abnd_def aret_def)
  have inv: "ledger_inv s" and same: "movements s = movements s0" using fixed by (simp_all add: ledger_fixed_def)
  have key: "lock_key (t_id t) \<notin> m_key ` set (movements s)"
    using fresh_idsD(3) [OF fresh(1) n(1)] same id n(2) by simp
  have fin: "finalize_key i \<notin> m_key ` set (movements s') \<and> has_row k i s' \<and> lr_usdcAmount lr = x" if "r = Inr lr" for lr
    using inv row key
  proof (cases rule: lockPayoutRow_cases)
    case (posted m w s1 k')
    have "has_row k i s'"
      using t(1) id acc by (simp add: has_row_def posted(3) find_row_update_rows patch_locked_def payout_account_def)
    moreover have "lr_usdcAmount lr = x" using posted(2) that by simp
    moreover
    have "finalize_key i \<notin> m_key ` set (movements s)" using fresh(2) n same by (simp add: unsettled_def)
    moreover have "m_key m \<noteq> finalize_key i" using posted(6) by simp
    ultimately show ?thesis using posted(3,5) by (simp add: eq_commute)
  qed (use that in simp)
  from lockPayoutRow_triple [OF fresh(1) ins t(1) row] fin
  show "case r of Inl e \<Rightarrow> restored s0 s' | Inr lr \<Rightarrow> bill_locked s0 k i x s'"
    by (cases r) (auto simp: bill_locked_def grid)
qed

lemma lockBill_triple:
  assumes "fresh_ids s0" and "unsettled s0" and "on_grid x"
  shows "triple (bill_inserted s0 k i) (lockBill (fst k) i x) (\<lambda>_. bill_locked s0 k i x) (restored s0)"
  unfolding lockBill_def
proof (rule triple_acatch)
  show "triple (bill_inserted s0 k i) (abnd (lockPayoutFunds (fst k) i (Some x)) (\<lambda>_. aret ())) (\<lambda>_. bill_locked s0 k i x) (restored s0)"
    by (rule triple_abnd [OF lockFunds_triple [OF assms]]) (auto intro: triple_intros)
qed (rule triple_step [OF restored_patch], auto intro: triple_intros)

text \<open>The refusals.\<close>

lemma failBill_triple: "triple (bill_locked s0 k i x) (failLockedBillPayment sd (fst k) i reason code n patch) Q (restored s0)"
proof -
  have "triple (bill_locked s0 k i x) (releasePayoutLock sd (bill_payout (fst k) i ''bill_pay_failure'' (Some ''failed''))) (\<lambda>_. restored s0) (restored s0)"
    unfolding triple_def
  proof (intro allI impI)
    fix s r s' assume l: "bill_locked s0 k i x s" and run: "releasePayoutLock sd (bill_payout (fst k) i ''bill_pay_failure'' (Some ''failed'')) s = (r, s')"
    then have "locked_for s0 (fst k) i x s" by (simp add: bill_locked_def)
    from release_restores [OF this _ _ run] show "case r of Inl e \<Rightarrow> restored s0 s' | Inr a \<Rightarrow> restored s0 s'"
      by (cases r) (simp_all add: bill_payout_def)
  qed
  then show ?thesis unfolding failLockedBillPayment_def
    by (intro triple_abnd [where Q = "\<lambda>_. restored s0"] triple_acatch [where ?E1.0 = "restored s0"] triple_intros
        triple_inv [OF restored_patch]) auto
qed

lemma validate_triple: "triple (bill_locked s0 (bill_account input) i x) (validateLocked sd bp input i) (\<lambda>_. bill_locked s0 (bill_account input) i x) (restored s0)"
proof -
  have "triple (bill_locked s0 k i x) (abnd (aof_sum v) (\<lambda>validation. sql_txn i (\<lambda>t. t\<lparr>t_metadata := t_metadata t ++
      (opt_part ''validatedCustomerName'' (map_of validation ''customerName'') ++ [''validation'' \<mapsto> JObj validation])\<rparr>)))
      (\<lambda>_. bill_locked s0 k i x) (bill_locked s0 k i x)" for v k
    by (intro triple_inv inv_intros bill_locked_patch keeps_lock_patch) simp_all
  then show ?thesis unfolding validateLocked_def
    by (intro triple_if triple_pure triple_acatch [OF _ failBill_triple [of _ "bill_account input", simplified]])
qed

text \<open>The finalisation consumes the lock, or fails and leaves the row.\<close>

definition row_inv :: "string \<times> infra_env \<times> string \<Rightarrow> string \<Rightarrow> db \<Rightarrow> bool" where
  "row_inv k i s \<longleftrightarrow> ledger_inv s \<and> has_row k i s"

lemma row_kept [inv_intros]:
  "inv_act (row_inv k i) (run_op op params)" "inv_act (row_inv k i) (getOrgBalance o'' e a)" "inv_act (row_inv k i) (patchTx j st p)"
proof -
  show "inv_act (row_inv k i) (run_op op params)"
    unfolding inv_act_def row_inv_def
  proof (intro allI impI)
    fix s r s' assume I: "ledger_inv s \<and> has_row k i s" and run: "run_op op params s = (r, s')"
    then have "ledger_inv s" by simp
    from this run show "ledger_inv s' \<and> has_row k i s'"
      by (cases rule: run_op_cases) (use I in \<open>auto simp: has_row_def\<close>)
  qed
  show "inv_act (row_inv k i) (getOrgBalance o'' e a)"
    unfolding inv_act_def row_inv_def using getOrgBalance_unchanged by (auto simp: unchanged_def ledger_same_def has_row_def)
  have "inv_act (has_row k i) (patchTx j st p)" unfolding patchTx_def by (rule row_patch) (simp_all add: payout_account_def)
  then show "inv_act (row_inv k i) (patchTx j st p)"
    by (auto simp: inv_act_def row_inv_def patchTx_def sql_txn_def run_tx_def update_txn_def)
qed

lemma row_finalize: "inv_act (row_inv k i) (finalizePayoutDebit sd input)"
proof -
  have op: "finalizeLockedDebit params = run_op OpFinalize params" for params by (rule ext) simp
  have "inv_act (row_inv k i) (loadTx j o')" for j o'
    unfolding loadTx_def by (intro inv_intros)
  then show ?thesis
    unfolding finalizePayoutDebit_def finalizePayoutRow_def op by (intro inv_intros)
qed

lemma finalize_after_lock:
  assumes "spec_step OpLock b x = Some b1" and "spec_step OpFinalize b1 x = Some b2"
  shows "spec_step OpDebit b x = Some b2"
  using assms by (cases b) (auto split: if_splits)

lemma finalize_triple:
  "triple (bill_locked s0 k i x) (finalizePayoutDebit sd (bill_payout (fst k) i src None)) (\<lambda>_ s. bill_paid s0 k i x s) (has_row k i)"
  unfolding triple_def
proof (intro allI impI)
  fix s r s' assume l: "bill_locked s0 k i x s" and run: "finalizePayoutDebit sd (bill_payout (fst k) i src None) s = (r, s')"
  from l obtain t a where t: "find_row t_id i (txns s) = Some t" "t_org t = fst k" "metaUsdc t = Some x" "t_direction t = ''payout''"
    and inv: "ledger_inv s" and am: "parseAmount (RNum (Fin x)) = Inr a"
    and lock: "spec_step OpLock (balances s0 (payout_account t)) a = Some (balances s (payout_account t))"
    and can: "can_post OpRelease t x (release_key i) ''funds_release'' ''payout'' (balances s0 (payout_account t)) s"
    and other: "\<And>k. k \<noteq> payout_account t \<Longrightarrow> balances s k = balances s0 k"
    and key: "finalize_key i \<notin> m_key ` set (movements s)" and grid: "on_grid x"
    unfolding bill_locked_def locked_for_def by blast
  have acc: "payout_account t = k" using locked_row [OF l] t(1) by (simp add: has_row_def)
  have a: "a = x" using am grid by (simp add: parseAmount_def split: if_splits)
  have pos: "0 < a" using can am by (auto simp: can_post_def)
  have id: "t_id t = i" using find_row_Some [OF t(1)] by simp
  have load: "loadTx i (Some (fst k)) s = (Inr (Some t), s)"
    using find_row_pair [OF t(1)] t by (cases "fst k = []") (simp_all add: loadTx_def or_else_def aquery_def)
  show "case r of Inl e \<Rightarrow> has_row k i s' | Inr v \<Rightarrow> bill_paid s0 k i x s'"
  proof (cases r)
    case (Inl e)
    have "row_inv k i s" using inv locked_row [OF l] by (simp add: row_inv_def)
    from inv_actD [OF row_finalize this run] Inl show ?thesis by (simp add: row_inv_def)
  next
    case (Inr v)
    obtain fin b where v: "v = (fin, b)" by (cases v)
    obtain m dup where fin: "fin = (m, dup)" by (cases fin)
    from run load t Inr v have row: "finalizePayoutRow sd (bill_payout (fst k) i src None) t x s = (Inr (fin, b), s')"
      by (simp add: finalizePayoutDebit_def bill_payout_def abnd_def split: if_splits)
    note row' = row [unfolded finalizePayoutRow_def run_op.simps [symmetric]]
    from op_patch_balance [OF inv row' [unfolded fin]] obtain s1 where
      op: "run_op OpFinalize (lifecycle_params t x ''payout:'' '':finalize'' ''payout_settle'' ''payout'' (payout_meta (bill_payout (fst k) i src None) ''settlement'')) s
        = (Inr (m, dup), s1)" by blast
    have "\<not> dup"
      using inv op
    proof (cases rule: run_op_cases)
      case (dup m')
      then have "m_key m' = finalize_key i" by (simp add: id finalize_key_def is_ws_def)
      with dup(3) key show ?thesis by (metis image_eqI)
    qed simp_all
    with payout_run(1) [OF inv row'] fin am have
      st: "spec_step OpFinalize (balances s (payout_account t)) a = Some (balances s' (payout_account t))"
      and rest: "\<And>k. k \<noteq> payout_account t \<Longrightarrow> balances s' k = balances s k"
      by (simp_all add: payout_effect_def del: split_paired_All)
    from finalize_after_lock [OF lock st] have debit: "spec_step OpDebit (balances s0 (payout_account t)) a = Some (balances s' (payout_account t))" .
    have "has_row k i s'"
      using payout_run(4) [OF inv row'] t id acc by (auto simp: has_row_def find_row_update_rows payout_account_def)
    then have "bill_paid s0 k i x s'"
      using pos debit rest other unfolding bill_paid_def a acc by (simp del: split_paired_All)
    with Inr show ?thesis by simp
  qed
qed

section \<open>What an answer means\<close>

lemma paid_row: "bill_paid s0 k i x s \<Longrightarrow> has_row k i s"
  by (simp add: bill_paid_def)

lemma paid_patch: "inv_act (bill_paid s0 k i x) (sql_txn i (\<lambda>t. t\<lparr>t_status := st, t_metadata := t_metadata t ++ p\<rparr>))"
  unfolding inv_act_def
proof (intro allI impI)
  let ?f = "\<lambda>t. t\<lparr>t_status := st, t_metadata := t_metadata t ++ p\<rparr>"
  fix s r s' assume paid: "bill_paid s0 k i x s" and run: "sql_txn i ?f s = (r, s')"
  have "inv_act (has_row k i) (sql_txn i ?f)" by (rule row_patch) (simp_all add: payout_account_def)
  from inv_actD [OF this paid_row [OF paid] run] have "has_row k i s'" .
  moreover have "balances s' = balances s" using run by (auto simp: sql_txn_def run_tx_def update_txn_def)
  ultimately show "bill_paid s0 k i x s'" using paid by (simp add: bill_paid_def del: split_paired_All)
qed

lemma complete_triple:
  assumes "plain_extra extra"
  shows "triple (bill_locked s0 k i x) (completeBillSettlement sd (fst k) i fw st tok extra True) (bill_answered s0 k i x) (has_row k i)"
proof -
  have "triple (bill_paid s0 k i x) (reloaded i (fst k) extra (Some v)) (bill_answered s0 k i x) (has_row k i)" for v
    by (rule reloaded_triple [OF paid_row]) (use assms reply_fields in \<open>auto simp: bill_answered_def plain_extra_def\<close>)
  then show ?thesis unfolding completeBillSettlement_def if_True
    by (intro triple_abnd [OF finalize_triple] triple_prod triple_step [OF paid_patch]) (auto intro: paid_row)
qed

lemma mark_triple:
  assumes "plain_extra extra" and "extra ''settlePending'' = Some v"
  shows "triple (has_row k i) (abnd (markBillProcessing i fw st tok y) (\<lambda>_. reloaded i (fst k) extra None)) (bill_answered s0 k i x) E"
proof -
  have "triple (has_row k i) (markBillProcessing i fw st tok y) (\<lambda>_. has_row k i) E"
    unfolding markBillProcessing_def by (intro sql_txn_triple row_patch) (simp_all add: payout_account_def)
  moreover have "triple (has_row k i) (reloaded i (fst k) extra None) (bill_answered s0 k i x) E"
    by (rule reloaded_triple) (use assms reply_fields reply_extra [where extra = extra and f = "''settlePending''", OF assms(2)] in \<open>auto simp: bill_answered_def plain_extra_def\<close>)
  ultimately show ?thesis by (rule triple_abnd)
qed

lemma pending_triple:
  "triple (bill_locked s0 k i x) (abnd (markBillProcessing i fw st tok Map.empty) (\<lambda>_. reloaded i (fst k) (flag_part fs) None)) (bill_answered s0 k i x) E"
  if "flag_part fs ''id'' = None" and "flag_part fs ''pendingProvider'' = Some v"
proof -
  have "triple (bill_locked s0 k i x) (markBillProcessing i fw st tok Map.empty) (\<lambda>_. bill_locked s0 k i x) E"
    unfolding markBillProcessing_def provider_part_def
    by (intro sql_txn_triple bill_locked_patch keeps_lock_patch) simp_all
  moreover have "triple (bill_locked s0 k i x) (reloaded i (fst k) (flag_part fs) None) (bill_answered s0 k i x) E"
    by (rule reloaded_triple [OF locked_row]) (simp_all add: bill_answered_def reply_fields(2) reply_extra [where extra = "flag_part fs" and f = "''pendingProvider''", OF that(2)] that(1))
  ultimately show ?thesis by (rule triple_abnd)
qed

lemma settle_triple:
  "triple (bill_locked s0 (bill_account input) i x) (settleBill sd bp input ref i result) (bill_answered s0 (bill_account input) i x) (restored s0)"
proof -
  let ?k = "bill_account input"
  have case_rule: "triple P a Q E \<Longrightarrow> triple P b Q E \<Longrightarrow> triple P c Q E \<Longrightarrow>
      triple P (case x of BillSuccess \<Rightarrow> a | BillPending \<Rightarrow> b | BillFailed \<Rightarrow> c) Q E" for P a b c x E
    and Q :: "bill_reply \<Rightarrow> db \<Rightarrow> bool"
    by (cases x) simp_all
  show ?thesis
    unfolding settleBill_def Let_def
    by (intro case_rule failBill_triple [where k = ?k, simplified] pending_triple [where k = ?k, simplified]
      triple_acatch [OF complete_triple [where k = ?k, simplified] mark_triple [where k = ?k, simplified]])
      (simp_all add: plain_extra_def flag_part_def)
qed

lemma payLocked_triple:
  assumes "\<not> shouldSimulateBillOnProviderFailure sd (normalizeEnv (bl_env input))"
  shows "triple (bill_locked s0 (bill_account input) i x) (payLocked sd bp input amount ref i) (bill_answered s0 (bill_account input) i x) (restored s0)"
  unfolding payLocked_def
  by (rule triple_abnd [OF validate_triple]) (use assms in \<open>auto intro: settle_triple failBill_triple [of _ "bill_account input", simplified] split: sum.split\<close>)

lemma unmoved_reads [inv_intros]: "inv_act (unmoved s0) randomUUID" "inv_act (unmoved s0) (getOrgBalance o' (env_name e) None)"
proof -
  show "inv_act (unmoved s0) randomUUID"
    by (auto simp: inv_act_def randomUUID_def unmoved_def ledger_fixed_def draws_def)
  have "inv_act (ledger_fixed s0) (getOrgBalance o' (env_name e) None)" by (intro inv_intros)
  then show "inv_act (unmoved s0) (getOrgBalance o' (env_name e) None)"
    by (auto simp: inv_act_def unmoved_def dest: balance_draws intro: draws_trans)
qed

text \<open>The quote of the bill, which the lock and the debit are for.\<close>

definition bill_quote :: "bill_order \<Rightarrow> db \<Rightarrow> usdc_amount \<Rightarrow> bool" where
  "bill_quote input s fx \<longleftrightarrow> (\<exists>amount. bl_amount input = Fin amount \<and> fst (resolveUsdcAmount amount ''NGN'' s) = Inr fx)"

definition bill_done :: "db \<Rightarrow> bill_order \<Rightarrow> bill_reply \<Rightarrow> db \<Rightarrow> bool" where
  "bill_done s0 input v s \<longleftrightarrow> br_fields v ''idempotentReplay'' = Some (JBool True) \<and> restored s0 s
     \<or> (\<exists>i fx. bill_quote input s0 fx \<and> bill_answered s0 (bill_account input) i (ua_usdcAmount fx) v s)"

lemma quote_triple:
  assumes "bl_amount input = Fin amount"
  shows "triple (\<lambda>s. unmoved s0 s \<and> fx_rates s = fx_rates s0) (resolveUsdcAmount amount ''NGN'')
    (\<lambda>fx s. unmoved s0 s \<and> bill_quote input s0 fx) (restored s0)"
  unfolding triple_def
proof (intro allI impI)
  fix s r s' assume s: "unmoved s0 s \<and> fx_rates s = fx_rates s0" and run: "resolveUsdcAmount amount ''NGN'' s = (r, s')"
  have "s' = s" using inv_actD [OF reads_usdc, of "\<lambda>t. t = s"] run by blast
  moreover have "fst (resolveUsdcAmount amount ''NGN'' s0) = fst (resolveUsdcAmount amount ''NGN'' s)"
    by (rule usdc_by_rates) (simp add: s)
  ultimately show "case r of Inl e \<Rightarrow> restored s0 s' | Inr fx \<Rightarrow> unmoved s0 s' \<and> bill_quote input s0 fx"
    using s run assms unmoved_restored by (auto simp: bill_quote_def split: sum.split)
qed

lemma payInfraBill_triple:
  assumes "fresh_ids s0" and "unsettled s0" and "\<not> shouldSimulateBillOnProviderFailure sd (normalizeEnv (bl_env input))"
  shows "triple (\<lambda>s. unmoved s0 s \<and> fx_rates s = fx_rates s0) (payInfraBill sd bp input) (bill_done s0 input) (restored s0)"
proof (cases "bl_amount input")
  case (Fin x)
  let ?Q = "bill_done s0 input" and ?k = "bill_account input" and ?I = "\<lambda>s. unmoved s0 s \<and> fx_rates s = fx_rates s0"
  have pay: "triple (bill_inserted s0 ?k i) (abnd (lockBill (bl_orgId input) i (ua_usdcAmount fx)) (\<lambda>_. payLocked sd bp input x ref i)) ?Q (restored s0)"
    if "bill_quote input s0 fx" for i fx ref
  proof -
    have "on_grid (ua_usdcAmount fx)" using that usdc_on_grid by (auto simp: bill_quote_def)
    from lockBill_triple [OF assms(1,2) this, of ?k] show ?thesis unfolding account_fst
      by (rule triple_abnd) (rule triple_weaken [OF payLocked_triple [OF assms(3)]], use that in \<open>auto simp: bill_done_def\<close>)
  qed
  have row: "triple (unmoved s0) (abnd (insertBillTx input x ref (bill_meta input ref fx)) (\<lambda>(row, replay).
      if replay then aret \<lparr>br_fields = mapBillResult row [''idempotentReplay'' \<mapsto> JBool True], br_balance = None\<rparr>
      else abnd (lockBill (bl_orgId input) (t_id row) (ua_usdcAmount fx)) (\<lambda>_. payLocked sd bp input x ref (t_id row)))) ?Q (restored s0)"
    if "bill_quote input s0 fx" for ref fx
  proof (rule triple_abnd [OF insertBill_triple])
    fix a :: "txn \<times> bool"
    show "triple ((\<lambda>(row, replay) s. if replay then restored s0 s else bill_inserted s0 ?k (t_id row) s) a) (case a of (row, replay) \<Rightarrow>
      if replay then aret \<lparr>br_fields = mapBillResult row [''idempotentReplay'' \<mapsto> JBool True], br_balance = None\<rparr>
      else abnd (lockBill (bl_orgId input) (t_id row) (ua_usdcAmount fx)) (\<lambda>_. payLocked sd bp input x ref (t_id row))) ?Q (restored s0)"
      by (cases a) (auto intro!: triple_pure pay [OF that] simp: mapBillResult_def Let_def bill_done_def)
  qed simp
  have quoted: "triple (\<lambda>s. unmoved s0 s \<and> bill_quote input s0 fx) m Q E" if "bill_quote input s0 fx \<Longrightarrow> triple (unmoved s0) m Q E" for fx m
    and Q :: "bill_reply \<Rightarrow> db \<Rightarrow> bool" and E
    using that unfolding triple_def by blast
  have uuid: "triple ?I randomUUID (\<lambda>_. ?I) (restored s0)"
    unfolding triple_def using inv_actD [OF unmoved_reads(1)] by (auto simp: randomUUID_def unmoved_restored split: sum.split)
  have start: "restored s0 s" if "?I s" for s using that unmoved_restored by blast
  show ?thesis
    unfolding payInfraBill_def Fin Let_def js_num.case
    by (rule triple_step [OF inv_act_arequire _ start], rule triple_abnd [OF uuid], rule triple_abnd [OF quote_triple [OF Fin]],
        rule quoted, intro triple_step row) (auto intro: inv_intros unmoved_restored)
qed (auto simp: payInfraBill_def intro: triple_intros unmoved_restored)

text \<open>C31: A bill payment that fails leaves every balance as it was - refused before the lock, by the lock, by
  the validation, by Flutterwave or by its status - unless TEST simulates a refused payment as settled.\<close>

theorem failed_bill_restores_balances:
  assumes "ledger_inv s" and "fresh_ids s" and "unsettled s" and "\<not> shouldSimulateBillOnProviderFailure sd (normalizeEnv (bl_env input))"
    and "payInfraBill sd bp input s = (Inl e, s')"
  shows "balances s' = balances s"
  using tripleD [OF payInfraBill_triple [OF assms(2-4)] _ assms(5)] assms(1)
  by (simp add: unmoved_def ledger_fixed_def restored_def)

text \<open>C32: Unless TEST simulates a refused payment as settled, a bill payment that is not a replay and is answered
  with a balance is paid for exactly: the USDC amount that its naira amount converts to at the stored
  rate has left the available balance of the organisation's USDC account of the bill's environment,
  no other account has changed and nothing stays locked. One that waits for the provider has exactly
  this amount locked. There is no third answer than a settlement that is left to be retried.\<close>

theorem answered_bill_is_debited:
  assumes "ledger_inv s" and "fresh_ids s" and "unsettled s" and "\<not> shouldSimulateBillOnProviderFailure sd (normalizeEnv (bl_env input))"
    and "payInfraBill sd bp input s = (Inr v, s')" and "br_fields v ''idempotentReplay'' \<noteq> Some (JBool True)"
  shows "\<exists>i amount fx. bl_amount input = Fin amount \<and> fst (resolveUsdcAmount amount ''NGN'' s) = Inr fx
    \<and> br_fields v ''id'' = Some (JStr i)
    \<and> (br_balance v \<noteq> None \<longrightarrow> bill_paid s (bl_orgId input, normalizeEnv (bl_env input), ''USDC'') i (ua_usdcAmount fx) s')
    \<and> (br_fields v ''pendingProvider'' \<noteq> None \<longrightarrow>
        bill_locked s (bl_orgId input, normalizeEnv (bl_env input), ''USDC'') i (ua_usdcAmount fx) s')
    \<and> (br_balance v \<noteq> None \<or> br_fields v ''pendingProvider'' \<noteq> None \<or> br_fields v ''settlePending'' \<noteq> None)"
proof -
  have "bill_done s input v s'"
    using tripleD [OF payInfraBill_triple [OF assms(2-4)] _ assms(5)] assms(1) by (simp add: unmoved_def ledger_fixed_def)
  with assms(6) show ?thesis unfolding bill_done_def bill_quote_def bill_answered_def bill_account_def by blast
qed

section \<open>Bills of an organisation\<close>

definition ex_naira :: db where
  "ex_naira = ex_live\<lparr>fx_rates := [\<lparr>r_base = ''NGN'', r_target = ''USD'', r_rate = 1 / 1000, r_source = ''test''\<rparr>]\<rparr>"

definition ex_biller :: "js_error + (string \<times> json) list \<Rightarrow> js_error + (string \<times> json) list \<Rightarrow> bill_provider" where
  "ex_biller create status = \<lparr>bp_validate = (\<lambda>b i c. Inr [(''name'', JStr ''Ada'')]), bp_create = (\<lambda>j. create), bp_status = (\<lambda>r. status)\<rparr>"

definition ex_accepts :: bill_provider where
  "ex_accepts = ex_biller (Inr [(''tx_ref'', JStr ''FW1'')]) (Inr [(''status'', JStr ''successful'')])"

definition ex_refuses :: bill_provider where
  "ex_refuses = ex_biller (Inl (JsError ''biller offline'')) (Inl (JsError ''not found''))"

definition ex_power :: "rat \<Rightarrow> string \<Rightarrow> bill_order" where
  "ex_power amount meter = \<lparr>bl_orgId = ''acme'', bl_env = ''live'', bl_idempotencyKey = Some ''bill-1'', bl_category = ''electricity'',
     bl_biller = ''BIL1'', bl_item = ''UB1'', bl_customer = meter, bl_amount = Fin amount, bl_billerName = None, bl_itemName = None\<rparr>"

lemma ex_naira_facts: "ledger_inv ex_naira" "fresh_ids ex_naira" "unsettled ex_naira" "payout_inv ex_naira"
proof -
  show "ledger_inv ex_naira" using ex_live_inv by (simp add: ex_naira_def)
  show "fresh_ids ex_naira" using ex_live_fresh by (simp add: ex_naira_def fresh_ids_def undrawn_def)
  have "finalize_key i \<noteq> ''k1''" for i by (simp add: finalize_key_def)
  then show "unsettled ex_naira" using ex_live_ids by (fastforce simp: ex_naira_def unsettled_def list_all_iff)
  show "payout_inv ex_naira" using ex_live_payouts by (simp add: ex_naira_def payout_inv_def ledger_inv_def org_exists_def)
qed

definition ex_billed :: "(js_error + bill_reply) \<times> db" where
  "ex_billed = payInfraBill (ex_sdk []) ex_accepts (ex_power 80000 ''0123'') ex_naira"

definition ex_refused :: "(js_error + bill_reply) \<times> db" where
  "ex_refused = payInfraBill (ex_sdk []) ex_refuses (ex_power 80000 ''0123'') ex_naira"

definition answered_field :: "(js_error + bill_reply) \<Rightarrow> string \<Rightarrow> json option" where
  "answered_field r k = (case r of Inl e \<Rightarrow> None | Inr v \<Rightarrow> br_fields v k)"

definition answered_balance :: "(js_error + bill_reply) \<Rightarrow> bool" where
  "answered_balance r = (case r of Inl e \<Rightarrow> False | Inr v \<Rightarrow> br_balance v \<noteq> None)"

definition bill_code :: "(js_error + bill_reply) \<Rightarrow> string option" where
  "bill_code r = (case r of Inl (InfraBillError c n i) \<Rightarrow> Some c | _ \<Rightarrow> None)"

lemma ex_billed_run: "case ex_billed of (r, s) \<Rightarrow> succeeded ex_billed \<and> answered_field r ''idempotentReplay'' = None \<and> answered_balance r
    \<and> balances s (''acme'', Live, ''USDC'') = (20, 0, 0) \<and> answered_field r ''status'' = Some (JObj [(''status'', JStr ''successful'')])
    \<and> (case payInfraBill (ex_sdk []) ex_accepts (ex_power 80000 ''0123'') s of (r1, s1) \<Rightarrow> bill_code r1 = Some ''INSUFFICIENT_BALANCE'')
    \<and> (case payInfraBill (ex_sdk []) ex_accepts (ex_power 500 ''9999'') s of (r2, s2) \<Rightarrow>
        map (answered_field r2) [''idempotentReplay'', ''customerId'', ''amount''] = [Some (JBool True), Some (JStr ''0123''), Some (JNum 80000)])"
  by code_simp

lemma ex_refused_run: "case ex_refused of (r, s) \<Rightarrow> bill_code r = Some ''PROVIDER_FAILED'' \<and> map t_status (txns s) = [''failed'']"
  by code_simp

lemma live_not_simulated: "\<not> shouldSimulateBillOnProviderFailure (ex_sdk []) (normalizeEnv (bl_env (ex_power x m)))"
  by (simp add: shouldSimulateBillOnProviderFailure_def ex_power_def normalizeEnv_def)

theorem bills_keep_payouts_witness: "payout_inv (snd ex_billed) \<and> payout_inv (snd ex_refused)"
  unfolding ex_billed_def ex_refused_def by (intro conjI conjunct1 [OF bills_keep_payouts [OF ex_naira_facts(4)]])

theorem failed_bill_restores_balances_witness: "balances (snd ex_refused) = balances ex_naira"
proof -
  have "bill_code (fst ex_refused) = Some ''PROVIDER_FAILED''" using by_run [OF ex_refused_run] by blast
  then obtain e where "fst ex_refused = Inl e" by (cases "fst ex_refused") (auto simp: bill_code_def)
  then have "ex_refused = (Inl e, snd ex_refused)" by (simp add: prod_eq_iff)
  then have run: "payInfraBill (ex_sdk []) ex_refuses (ex_power 80000 ''0123'') ex_naira = (Inl e, snd ex_refused)"
    by (simp add: ex_refused_def)
  show ?thesis by (rule failed_bill_restores_balances [OF ex_naira_facts(1-3) live_not_simulated run])
qed

theorem answered_bill_is_debited_witness:
  "\<exists>v i. fst ex_billed = Inr v \<and> br_fields v ''id'' = Some (JStr i) \<and> bill_paid ex_naira (''acme'', Live, ''USDC'') i 80 (snd ex_billed)"
proof -
  let ?v = "value_of ex_billed"
  have v: "ex_billed = (Inr ?v, snd ex_billed)" by (rule succeeded_run) (use by_run [OF ex_billed_run] in blast)
  then have first: "fst ex_billed = Inr ?v" by (metis fst_conv)
  have "answered_field (fst ex_billed) ''idempotentReplay'' = None" using by_run [OF ex_billed_run] by blast
  then have new: "br_fields ?v ''idempotentReplay'' \<noteq> Some (JBool True)" unfolding first by (simp add: answered_field_def)
  have run: "payInfraBill (ex_sdk []) ex_accepts (ex_power 80000 ''0123'') ex_naira = (Inr ?v, snd ex_billed)"
    using v by (simp only: ex_billed_def)
  have "answered_balance (fst ex_billed)" using by_run [OF ex_billed_run] by blast
  then have shown: "br_balance ?v \<noteq> None" unfolding first by (simp add: answered_balance_def)
  have quote: "fst (resolveUsdcAmount 80000 ''NGN'' ex_naira) = Inr \<lparr>ua_usdcAmount = 80, ua_rate = Some (1 / 1000), ua_sourceCurrency = ''NGN''\<rparr>"
    by code_simp
  have input: "bl_amount (ex_power 80000 ''0123'') = Fin 80000" "bl_orgId (ex_power 80000 ''0123'') = ''acme''"
    "normalizeEnv (bl_env (ex_power 80000 ''0123'')) = Live"
    by (simp_all add: ex_power_def normalizeEnv_def)
  from answered_bill_is_debited [OF ex_naira_facts(1-3) live_not_simulated run new] shown quote
  show ?thesis unfolding input js_num.inject first by force
qed

section \<open>What the service lets through\<close>

text \<open>The classification looks for words inside words.\<close>

lemma unsuccessful_counts_as_success:
  "resolveFlutterwaveBillOutcome (Some (JObj [])) (Some (JObj [(''status'', JStr ''Unsuccessful'')])) = BillSuccess"
  by code_simp

text \<open>A bill that was paid is not found by its key while the balance is short of paying it again.\<close>

lemma paid_bill_replay_is_refused:
  "case payInfraBill (ex_sdk []) ex_accepts (ex_power 80000 ''0123'') (snd ex_billed) of (r, s) \<Rightarrow> bill_code r = Some ''INSUFFICIENT_BALANCE''"
  using by_run [OF ex_billed_run] by (simp add: case_prod_beta)

text \<open>Another bill under the key - another meter, another amount - is answered as if it were the first.\<close>

lemma other_bill_is_replayed:
  "case payInfraBill (ex_sdk []) ex_accepts (ex_power 500 ''9999'') (snd ex_billed) of (r, s) \<Rightarrow>
    answered_field r ''idempotentReplay'' = Some (JBool True) \<and> answered_field r ''customerId'' = Some (JStr ''0123'')"
  using by_run [OF ex_billed_run] by (simp add: case_prod_beta)

text \<open>The answer of a settled bill carries the provider's object in the place of its status.\<close>

lemma settled_answer_hides_status: "answered_field (fst ex_billed) ''status'' = Some (JObj [(''status'', JStr ''successful'')])"
  using by_run [OF ex_billed_run] by blast

text \<open>
  The status of a bill is asked while the bill is on its way to Flutterwave, which does not know it yet:
  no answer and no stored result count as failed, and the lock is returned. Flutterwave then accepts the
  bill, the debit is refused, and the bill is paid while the organisation keeps its USDC.
\<close>

definition ex_underway :: db where
  "ex_underway = snd (abnd (insertBillTx (ex_power 80000 ''0123'') 80000 ''ref''
     (bill_meta (ex_power 80000 ''0123'') ''ref'' \<lparr>ua_usdcAmount = 80, ua_rate = None, ua_sourceCurrency = ''NGN''\<rparr>))
     (\<lambda>(row, replay). lockBill ''acme'' (t_id row) 80) ex_naira)"

lemma early_refresh_releases_the_lock:
  "balances ex_underway (''acme'', Live, ''USDC'') = (20, 0, 80)
    \<and> (case refreshInfraBillStatus (ex_sdk []) ex_refuses ''acme'' ''ref'' ex_underway of (r, s) \<Rightarrow>
        bill_code r = Some ''PROVIDER_FAILED'' \<and> balances s (''acme'', Live, ''USDC'') = (100, 0, 0)
        \<and> (case payLocked (ex_sdk []) ex_accepts (ex_power 80000 ''0123'') 80000 ''ref'' (t_id (hd (txns s))) s of (r', s') \<Rightarrow>
            answered_field r' ''settlePending'' = Some (JBool True) \<and> balances s' (''acme'', Live, ''USDC'') = (100, 0, 0)))"
  by code_simp

end
