(* ===== verification/Spec2Isabelle.thy ===== *)
theory Spec2Isabelle
  imports Ledger_Properties Transfer_Properties Payout_Properties Webhook_Properties Stellar_Properties
    Offramp_Properties Recipient_Properties Settlement_Properties Onchain_Properties
    Deposit_Properties Treasury_Properties Bulk_Examples Bills_Properties
begin

text \<open>
  The money core of the dayfi backend: the ledger behind the infrastructure API
  (\<open>src/src/modules/infra\<close>), the services that move money through it - fees, internal transfers,
  collections, payouts, wallet funding, bank withdrawals - and what they need of Stellar, of the
  provider's webhooks and of the exchange rates.

  \<^bold>\<open>The system.\<close> An organisation has one wallet per environment (test, live) and asset, with an
  available, a pending and a locked balance. The ledger service changes a balance only together with
  an append-only movement under an idempotency key. Above it, a collection (\<open>direction = payment\<close>) is
  credited when its provider reports success, directly or, in the funding mode, as a pending credit
  that becomes available once the treasury's Stellar payment to the organisation's account is
  confirmed. A payout locks its USDC; the provider's success consumes the lock and its failure
  returns it. A bank withdrawal first sends the locked USDC to the treasury on Stellar, confirms that
  payment on Horizon, and then asks the provider to pay. Internal transfers move USDC between two
  organisations and may charge a fee to the revenue organisation, on the ledger only or through a
  sponsored payment on Stellar. A crypto payout is paid on Stellar from its locked funds to a saved or
  given destination. USDC that arrives on an organisation's Stellar account from outside is verified on
  Horizon and credited, first pending and then available. The requests of the API enter through the money
  service, which finds repeated ones under their idempotency key, inserts the transaction, locks a
  payout's USDC and calls the rail; a batch is a list of payouts that is checked as a whole and confirmed
  item by item. A bill takes the path of a payout with Flutterwave's biller as its rail.

  \<^bold>\<open>Theories and sources.\<close>

  \<^item> \<open>Prelude\<close>: JavaScript numbers, strings and JSON values, the errors of the services, tables as lists
    of rows with keyed lookup and update.

  \<^item> \<open>Money_Amount\<close>: \<open>infraMoneyAmount.ts\<close>, decimal texts and minor units.

  \<^item> \<open>Database\<close>: the tables and constraints of the migrations under \<open>src/migrations/sqls\<close>; statements
    inside a transaction (\<open>tx\<close>: an error discards the state) and service code outside one (\<open>act\<close>: what
    was committed before an error stays).

  \<^item> \<open>Ledger\<close>: \<open>infraLedgerService.ts\<close>. \<open>Ledger_Invariant\<close> holds the invariant and the locale of a
    ledger write with its seven interpretations, \<open>Ledger_Transfer\<close> the transfer and fee legs,
    \<open>Ledger_Spec\<close> the abstract balances and the refinement, \<open>Ledger_Concurrency\<close> the interleaving of
    client transactions as a step relation, \<open>Ledger_Frame\<close> what other services rely on.

  \<^item> \<open>Fee\<close>: \<open>infraFeeService.ts\<close>; \<open>Internal_Transfer\<close>: \<open>infraInternalTransferService.ts\<close>, with
    \<open>Transfer_Facts\<close>.

  \<^item> \<open>Fx\<close>: \<open>payment/fxService.ts\<close>; \<open>Webhook\<close>: \<open>payment/yellowCardStatus.ts\<close> and
    \<open>yellowCardWebhook.ts\<close>.

  \<^item> \<open>Stellar_Network\<close>: \<open>config/stellarConfig.ts\<close>, \<open>stellarIssuers.ts\<close> and
    \<open>productionNetworkGuard.ts\<close>; \<open>Stellar_Adapter\<close>: \<open>stellarSettlementAdapter.ts\<close>;
    \<open>Stellar_Account\<close>: \<open>infraStellarCustody.ts\<close> and \<open>infraStellarAccountService.ts\<close>; \<open>Fee_Payer\<close>:
    \<open>infraStellarFeePayerService.ts\<close>.

  \<^item> \<open>Funding\<close>: \<open>infraStellarFundingService.ts\<close>; \<open>Lifecycle\<close>: \<open>infraLifecycleService.ts\<close>;
    \<open>Offramp\<close>: \<open>infraFiatWithdrawalService.ts\<close>.

  \<^item> \<open>Recipient\<close>: \<open>infraRecipientService.ts\<close>, the recipients and destinations of payouts;
    \<open>Settlement\<close>: \<open>infraSettlementService.ts\<close>, the settlement of crypto payouts on Stellar, with
    \<open>Settlement_Facts\<close>; \<open>Onchain_Transfer\<close>: \<open>infraOnchainTransferService.ts\<close>, the internal transfer that
    is settled on Stellar, with \<open>Onchain_Facts\<close> (the locale \<open>transfer_view\<close> of the invariants of one
    transfer, interpreted by what the sender holds and by the booking of completed transfers).

  \<^item> \<open>Deposit\<close>: \<open>infraStellarDepositService.ts\<close>, the external deposits and the loops that poll for them;
    \<open>Treasury\<close>: \<open>infraTreasuryService.ts\<close>, the liabilities, the position of the treasury and the
    rebalances of its funds.

  \<^item> \<open>Money_Service\<close>: \<open>infraMoneyService.ts\<close> with \<open>config/cryptoNetworks.ts\<close>, the requests for
    collections and payouts and the simulator of TEST; \<open>Money_Facts\<close> holds the rules of triples
    (\<open>triple\<close>: what an answer and what an error of a call imply) and the proof that a payout is locked
    or restored.

  \<^item> \<open>Bulk\<close>: \<open>infraBulkService.ts\<close>, with \<open>Bulk_Preflight\<close> (what the check of a batch promises),
    \<open>Bulk_Csv\<close> (the CSV reader) and \<open>Bulk_Examples\<close> (one batch from draft to outcome). \<open>Bills\<close>:
    \<open>infraBillsService.ts\<close>, with the error texts of \<open>payment/flutterwaveService.ts\<close> and the validation of
    \<open>payment/billsService.ts\<close>.

  \<^item> \<open>Service_Invariant\<close>: calls that keep an invariant, the locale \<open>ledger_view\<close> of the invariants that
    read the ledger through its movements, balances and transaction rows, and its interpretations:
    the payout invariant, the fixed ledger and the fixed money supply. \<open>Payout_Facts\<close>: the contract of
    a payout operation and when it commits.

  \<^item> \<open>Examples\<close>, \<open>Service_Examples\<close> and \<open>Onchain_Examples\<close> hold the concrete data of the witnesses; the theories named
    \<open>_Properties\<close> hold the properties.

  A function of a source file is the definition of the same name; a long one is split at its
  statements, and the parts are named for what they do (\<open>settleCollectionCredit\<close> into
  \<open>collectionCredit\<close>, \<open>patchCredited\<close>, \<open>fundOrReport\<close>). A row type is the record of its table, a
  \<open>metadata\<close> column a map from names to JSON values. Numbers that the code keeps as JavaScript numbers
  are rationals, rounded where the code rounds (\<open>round7\<close>, \<open>numeric7\<close>, \<open>fixed\<close>); minor units are
  integers, as \<open>BigInt\<close> is unbounded.

  \<^bold>\<open>What the lemmas show.\<close> The ledger: every operation keeps the invariant, refines its abstract step,
  is atomic and idempotent, conserves money as it should, and concurrent clients of it serialise.
  Money texts: the parsers agree and round-trip. Fees and transfers: exact amounts, replay and its
  limits. Payouts: each is resolved at most once over any history of service calls, with the exact
  effect of every operation, and what the operations do not check. Webhooks: which are accepted, how
  a status is read, that redelivery and late failures move nothing, and when they do. Stellar: one
  network, one amount text, secrets and accounts. Withdrawals: the provider is paid last, the polling
  ends. Recipients: ownership, the single default and the masking of account numbers. Stellar
  settlements: what an answer means, and the states from which the debit is never made. On-chain
  transfers: nothing is paid before the chain confirms, what a confirmation moves, and that completed
  transfers are booked. Deposits: what a verified payment is, that it is credited exactly and once, that
  confirmed deposits are booked, and that the poll answers for every record. Treasury: the liabilities
  are the ledger's money, a healthy position covers them, and rebalances leave customers and ledger
  alone and are final once confirmed. Requests: an answered payout is locked, a failed one has moved
  nothing, a repeated one is answered from its row, a collection request moves nothing. Batches: the
  batch itself never moves money, a ready one is covered, it is confirmed once, and its totals are the
  outcomes of its payouts; a plain CSV text is read back. Bills: the payout invariant is kept, a failed
  bill has moved nothing, and a settled one has debited exactly.

  \<^bold>\<open>Parameters.\<close> The Stellar SDK, Node's crypto, HTTP, the clock and the environment variables are fields
  of the record \<open>sdk\<close>, the provider's client those of \<open>provider\<close>; every call has its own, so an answer
  may change between two calls. Random identifiers are a supply in the database state. The
  rails that the money service calls (Yellow Card, Flutterwave, the bank name enquiry) are the record
  \<open>rails\<close>, Flutterwave's billers \<open>bill_provider\<close>. The services around internal transfers have the record \<open>services\<close>. The cipher's contract (\<open>good_cipher\<close>: it is
  inverted by its decryption, and its parts are texts without a colon) is a named hypothesis of the
  one property that needs it.

  \<^bold>\<open>Loops and bounds.\<close> The polling of Horizon is a recursion with a termination proof; its bound of
  twenty-four attempts is the code's. All other loops of the modelled code go over a list. No fuel is
  used.

  \<^bold>\<open>Limits of the model.\<close> Service code above the ledger runs one call at a time, except where a property
  says otherwise (\<open>stale_finalize_debits_again\<close> takes a row that was read earlier); inside the ledger
  the interleaving of transactions is modelled. Floating-point rounding is not modelled: amounts are
  rationals, and the code's own roundings are. Timestamps of rows are not kept, and error texts are
  abbreviated where nothing reads them; typographic dashes in texts are written as hyphens.

  \<^bold>\<open>Not modelled.\<close> Of the infrastructure API: the reconciliation and administration reports, which read; organisations, API keys and
  sessions; the delivery of partner webhooks; the constant tables of corridors; controllers and routes.
  The consumer side (wallets, payments, savings, budgets, the planner dayflow, the chat assistants and
  their tools) keeps its own tables and shares none of the ledger's code; it is glue around payment
  providers, chain SDKs and language models for the larger part, and is left to a development of its
  own. The HTTP clients of providers, the Stellar SDK and the rate feeds are parameters.
\<close>

end
